(* ===== verification/Prelude.thy ===== *)
theory Prelude
  imports Main "HOL-Library.Word" "HOL-Library.Char_ord" "HOL-Library.List_Lexorder"
    "HOL-Library.Monad_Syntax" "HOL-Library.Multiset" "HOL-Library.Sublist"
begin

text \<open>
  Shared vocabulary of the development.

  A Go \<^verbatim>\<open>string\<close> is a sequence of bytes, modelled as the HOL type \<^typ>\<open>string\<close> (a list of 8-bit
  characters); the order of Go strings is the lexicographic order of their bytes, which is the
  order of \<^verbatim>\<open>HOL-Library.List_Lexorder\<close> over \<^verbatim>\<open>HOL-Library.Char_ord\<close>. The functions of the Go
  packages \<^verbatim>\<open>strings\<close> and \<^verbatim>\<open>unicode/utf8\<close> that the source calls are defined here, so that the
  theories of the components can follow the source call by call.

  A Go map is an association list: its order is one possible iteration order of the map, which
  the language leaves open. A pointer that may be nil is an \<open>option\<close>. A Go \<^verbatim>\<open>error\<close> result is an
  \<open>option\<close> of an error type (\<open>None\<close> is nil), a pair of a value and an error is a sum.
  A run-time panic (a nil dereference, a slice out of range) is the value \<open>None\<close> of a function
  of type \<open>\<dots> \<Rightarrow> 'a option\<close>; such functions are written in the option monad.
\<close>

named_theorems go_simps \<open>unfolding rules of the small Go library functions\<close>
named_theorems no_panic \<open>facts saying that a computation of the option monad returns\<close>

section \<open>Identifiers and time\<close>

text \<open>A UUID is 16 bytes, read as one 128-bit word; \<open>uuid.Nil\<close> is zero. A \<open>time.Time\<close> is the
  number of nanoseconds since the zero time (year 1), so that \<open>IsZero\<close> is a test for 0 and
  \<open>Before\<close>, \<open>After\<close>, \<open>Equal\<close> compare the numbers. An IP address is a slice of 4 or 16 bytes.\<close>

type_synonym uuid = "128 word"
type_synonym time = int
type_synonym ip = "8 word list"

definition uuid_nil :: uuid where
  "uuid_nil = 0"

section \<open>Package strings\<close>

definition has_prefix :: "string \<Rightarrow> string \<Rightarrow> bool" where
  "has_prefix s p \<longleftrightarrow> length p \<le> length s \<and> take (length p) s = p"

definition has_suffix :: "string \<Rightarrow> string \<Rightarrow> bool" where
  "has_suffix s p \<longleftrightarrow> length p \<le> length s \<and> drop (length s - length p) s = p"

text \<open>\<open>strings.CutSuffix\<close> and \<open>strings.CutPrefix\<close>: the rest, when the affix is there.\<close>

definition cut_suffix :: "string \<Rightarrow> string \<Rightarrow> string option" where
  "cut_suffix s p = (if has_suffix s p then Some (take (length s - length p) s) else None)"

definition cut_prefix :: "string \<Rightarrow> string \<Rightarrow> string option" where
  "cut_prefix s p = (if has_prefix s p then Some (drop (length p) s) else None)"

definition trim_prefix :: "string \<Rightarrow> string \<Rightarrow> string" where
  "trim_prefix s p = (if has_prefix s p then drop (length p) s else s)"

definition trim_suffix :: "string \<Rightarrow> string \<Rightarrow> string" where
  "trim_suffix s p = (if has_suffix s p then take (length s - length p) s else s)"

text \<open>\<open>strings.Index\<close>: the first position of a substring (\<open>None\<close> for -1).\<close>

fun str_index :: "string \<Rightarrow> string \<Rightarrow> nat option" where
  "str_index [] sub = (if sub = [] then Some 0 else None)"
| "str_index (c # cs) sub =
     (if has_prefix (c # cs) sub then Some 0 else map_option Suc (str_index cs sub))"

definition str_contains :: "string \<Rightarrow> string \<Rightarrow> bool" where
  "str_contains s sub \<longleftrightarrow> str_index s sub \<noteq> None"

text \<open>\<open>strings.Split\<close> for a non-empty separator, the only way the source calls it.\<close>

function str_split :: "string \<Rightarrow> string \<Rightarrow> string list" where
  "str_split s sep =
     (if sep = [] then [s]
      else case str_index s sep of
             None \<Rightarrow> [s]
           | Some i \<Rightarrow> take i s # str_split (drop (i + length sep) s) sep)"
  by pat_completeness auto

lemma str_index_bound: "str_index s sub = Some i \<Longrightarrow> i + length sub \<le> length s"
  by (induction s arbitrary: i) (auto simp: has_prefix_def split: if_splits)

termination str_split
proof (relation "measure (\<lambda>(s, sep). length s)")
  fix s sep :: string and i
  assume "sep \<noteq> []" and "str_index s sep = Some i"
  with str_index_bound[of s sep i] show "((drop (i + length sep) s, sep), s, sep) \<in> measure (\<lambda>(s, sep). length s)"
    by (cases sep) auto
qed simp

declare str_split.simps [simp del]

text \<open>\<open>strings.SplitN(s, sep, 2)\<close>: what precedes the first separator, and what follows it.\<close>

definition str_split2 :: "string \<Rightarrow> string \<Rightarrow> string \<times> string option" where
  "str_split2 s sep =
     (case str_index s sep of
        None \<Rightarrow> (s, None)
      | Some i \<Rightarrow> (take i s, Some (drop (i + length sep) s)))"

text \<open>\<open>strings.Join\<close>.\<close>

fun str_join :: "string \<Rightarrow> string list \<Rightarrow> string" where
  "str_join sep [] = []"
| "str_join sep [s] = s"
| "str_join sep (s # t # ts) = s @ sep @ str_join sep (t # ts)"

lemma has_prefix_iff [go_simps]: "has_prefix s p \<longleftrightarrow> prefix p s"
  by (auto simp: has_prefix_def prefix_def) (metis append_take_drop_id)

lemma has_suffix_iff [go_simps]: "has_suffix s p \<longleftrightarrow> suffix p s"
proof
  assume "has_suffix s p"
  then show "suffix p s"
    by (metis append_take_drop_id has_suffix_def suffix_def)
next
  assume "suffix p s"
  then show "has_suffix s p"
    by (auto simp: has_suffix_def suffix_def)
qed

lemma cut_suffix_Some [go_simps]: "cut_suffix s p = Some r \<longleftrightarrow> s = r @ p"
  by (auto simp: cut_suffix_def has_suffix_iff suffix_def)

lemma cut_suffix_None [go_simps]: "cut_suffix s p = None \<longleftrightarrow> \<not> suffix p s"
  by (simp add: cut_suffix_def has_suffix_iff)

lemma str_index_None: "str_index s sub = None \<Longrightarrow> \<not> (\<exists>u v. s = u @ sub @ v)"
proof (induction s)
  case Nil
  then show ?case by (auto split: if_splits)
next
  case (Cons c cs)
  then have no: "\<not> prefix sub (c # cs)" and rest: "\<not> (\<exists>u v. cs = u @ sub @ v)"
    by (auto simp: has_prefix_iff split: if_splits)
  show ?case
  proof
    assume "\<exists>u v. c # cs = u @ sub @ v"
    then obtain u v where uv: "c # cs = u @ sub @ v" by blast
    then show False
      using no rest by (cases u) (auto simp: prefix_def)
  qed
qed

lemma str_index_Some: "str_index s sub = Some i \<Longrightarrow> s = take i s @ sub @ drop (i + length sub) s"
proof (induction s arbitrary: i)
  case Nil
  then show ?case by (auto split: if_splits)
next
  case (Cons c cs)
  show ?case
  proof (cases "has_prefix (c # cs) sub")
    case True
    with Cons.prems have "i = 0" by simp
    with True show ?thesis
      by (auto simp: has_prefix_def) (metis append_take_drop_id)
  next
    case False
    with Cons.prems obtain j where j: "str_index cs sub = Some j" "i = Suc j"
      by auto
    from Cons.IH[OF j(1)] j(2) show ?thesis by simp
  qed
qed

lemma str_index_first:
  "str_index s sub = Some i \<Longrightarrow> s = u @ sub @ v \<Longrightarrow> i \<le> length u"
proof (induction s arbitrary: i u)
  case Nil
  then show ?case by (auto split: if_splits)
next
  case (Cons c cs)
  show ?case
  proof (cases u)
    case Nil
    with Cons.prems(2) have "has_prefix (c # cs) sub" by (auto simp: has_prefix_iff)
    with Cons.prems(1) have "i = 0" by simp
    then show ?thesis by simp
  next
    case (Cons d u')
    with Cons.prems have cs: "cs = u' @ sub @ v" by simp
    show ?thesis
    proof (cases "has_prefix (c # cs) sub")
      case True
      with Cons.prems(1) have "i = 0" by simp
      then show ?thesis by simp
    next
      case False
      with Cons.prems(1) obtain j where "str_index cs sub = Some j" "i = Suc j" by auto
      with Cons.IH[OF _ cs] Cons show ?thesis by auto
    qed
  qed
qed

section \<open>Bytes and runes\<close>

text \<open>
  \<open>for i, r := range s\<close> decodes UTF-8: each element is the byte offset and the code point, and
  an invalid byte counts as one rune U+FFFD of width 1. \<open>decode_rune\<close> follows
  \<^verbatim>\<open>utf8.DecodeRuneInString\<close>, with its tables of accepted second bytes.
\<close>

definition bytes :: "string \<Rightarrow> nat list" where
  "bytes s = map of_char s"

definition cont_byte :: "nat \<Rightarrow> bool" where
  "cont_byte b \<longleftrightarrow> 128 \<le> b \<and> b \<le> 191"

fun decode_rune :: "nat list \<Rightarrow> (nat \<times> nat) option" where
  "decode_rune [] = None"
| "decode_rune (b # bs) =
     (if b < 128 then Some (b, 1)
      else if 194 \<le> b \<and> b \<le> 223 then
        (case bs of
           c # _ \<Rightarrow> if cont_byte c then Some ((b - 192) * 64 + (c - 128), 2) else None
         | _ \<Rightarrow> None)
      else if 224 \<le> b \<and> b \<le> 239 then
        (case bs of
           c # d # _ \<Rightarrow>
             if cont_byte c \<and> (b = 224 \<longrightarrow> 160 \<le> c) \<and> (b = 237 \<longrightarrow> c \<le> 159) \<and> cont_byte d
             then Some ((b - 224) * 4096 + (c - 128) * 64 + (d - 128), 3) else None
         | _ \<Rightarrow> None)
      else if 240 \<le> b \<and> b \<le> 244 then
        (case bs of
           c # d # e # _ \<Rightarrow>
             if cont_byte c \<and> (b = 240 \<longrightarrow> 144 \<le> c) \<and> (b = 244 \<longrightarrow> c \<le> 143) \<and> cont_byte d
                \<and> cont_byte e
             then Some ((b - 240) * 262144 + (c - 128) * 4096 + (d - 128) * 64 + (e - 128), 4)
             else None
         | _ \<Rightarrow> None)
      else None)"

function range_runes :: "nat \<Rightarrow> nat list \<Rightarrow> (nat \<times> nat) list" where
  "range_runes i [] = []"
| "range_runes i (b # bs) =
     (case decode_rune (b # bs) of
        Some (r, n) \<Rightarrow> (i, r) # range_runes (i + n) (drop (n - 1) bs)
      | None \<Rightarrow> (i, 65533) # range_runes (i + 1) bs)"
  by pat_completeness auto
termination
  by (relation "measure (\<lambda>(i, bs). length bs)") auto

definition runes :: "string \<Rightarrow> nat list" where
  "runes s = map snd (range_runes 0 (bytes s))"

text \<open>\<open>utf8.ValidString\<close>.\<close>

function valid_utf8_bytes :: "nat list \<Rightarrow> bool" where
  "valid_utf8_bytes [] = True"
| "valid_utf8_bytes (b # bs) =
     (case decode_rune (b # bs) of
        Some (r, n) \<Rightarrow> valid_utf8_bytes (drop (n - 1) bs)
      | None \<Rightarrow> False)"
  by pat_completeness auto
termination
  by (relation "measure length") auto

definition valid_utf8 :: "string \<Rightarrow> bool" where
  "valid_utf8 s = valid_utf8_bytes (bytes s)"

definition ascii :: "string \<Rightarrow> bool" where
  "ascii s \<longleftrightarrow> (\<forall>b\<in>set (bytes s). b < 128)"

lemma range_runes_ascii:
  "\<forall>b\<in>set bs. b < 128 \<Longrightarrow> range_runes i bs = zip [i..<i + length bs] bs"
proof (induction bs arbitrary: i)
  case Nil
  then show ?case by simp
next
  case (Cons b bs)
  then have b: "b < 128" and rest: "\<forall>b\<in>set bs. b < 128" by auto
  have "[i..<i + length (b # bs)] = i # [Suc i..<Suc i + length bs]"
    using upt_conv_Cons[of i "i + length (b # bs)"] by simp
  with b Cons.IH[OF rest, of "Suc i"] show ?case by simp
qed

lemma runes_ascii: "ascii s \<Longrightarrow> runes s = bytes s"
  by (simp add: runes_def ascii_def range_runes_ascii)

section \<open>Loops\<close>

text \<open>\<open>for i, x := range xs { if err := f(i, x); err != nil { return err } }\<close>: the first error.\<close>

fun first_err :: "(nat \<Rightarrow> 'a \<Rightarrow> 'e option) \<Rightarrow> nat \<Rightarrow> 'a list \<Rightarrow> 'e option" where
  "first_err f i [] = None"
| "first_err f i (x # xs) =
     (case f i x of Some e \<Rightarrow> Some e | None \<Rightarrow> first_err f (Suc i) xs)"

lemma first_err_None:
  "first_err f i xs = None \<longleftrightarrow> (\<forall>j<length xs. f (i + j) (xs ! j) = None)"
proof (induction xs arbitrary: i)
  case Nil
  then show ?case by simp
next
  case (Cons x xs)
  show ?case
    by (auto simp: Cons.IH nth_Cons All_less_Suc2 split: option.splits)
qed

lemma first_err_None_uniform:
  "first_err (\<lambda>i. g) i xs = None \<longleftrightarrow> (\<forall>x\<in>set xs. g x = None)"
  by (auto simp: first_err_None all_set_conv_all_nth)

text \<open>\<open>for _, x := range xs { if f(x) { return true } }; return false\<close>, where \<open>f\<close> may panic.\<close>

fun any_opt :: "('a \<Rightarrow> bool option) \<Rightarrow> 'a list \<Rightarrow> bool option" where
  "any_opt f [] = Some False"
| "any_opt f (x # xs) = do { b \<leftarrow> f x; if b then Some True else any_opt f xs }"

lemma any_opt_pure: "(\<And>x. x \<in> set xs \<Longrightarrow> f x = Some (g x)) \<Longrightarrow> any_opt f xs = Some (\<exists>x\<in>set xs. g x)"
  by (induction xs) auto

lemma ex_bool [simp]: "Ex (\<lambda>b. b)" "Ex Not"
  by (auto intro: exI[of _ True] exI[of _ False])

text \<open>A Go map has one value per key.\<close>

abbreviation wf_map :: "('k \<times> 'v) list \<Rightarrow> bool" where
  "wf_map kvs \<equiv> distinct (map fst kvs)"

text \<open>\<open>slices.Contains\<close> on lists of comparable elements is membership; it is written
  \<open>x \<in> set xs\<close> in the model.\<close>

end
