(* ===== verification/Values.thy ===== *)
theory Values
  imports Complex_Main Prelude
begin

text \<open>
  Dynamic values: the Go values of static type \<open>any\<close> that occur in policy documents and in
  condition evaluation. After \<^verbatim>\<open>encoding/json\<close> they are nil, bool, float64, string, \<open>[]any\<close> and
  \<open>map[string]any\<close>; Go literals and the condition context add \<open>[]string\<close>, int64, \<open>time.Time\<close>
  and \<open>net.IP\<close>.
\<close>

section \<open>Floating point\<close>

text \<open>A float64 is a rational, an infinity or NaN. Comparison is that of IEEE 754: every
  comparison with NaN is false.\<close>

datatype f64 = Fin rat | PosInf | NegInf | NaN

fun f64_eq :: "f64 \<Rightarrow> f64 \<Rightarrow> bool" where
  "f64_eq (Fin a) (Fin b) = (a = b)"
| "f64_eq PosInf PosInf = True"
| "f64_eq NegInf NegInf = True"
| "f64_eq _ _ = False"

fun f64_less :: "f64 \<Rightarrow> f64 \<Rightarrow> bool" where
  "f64_less (Fin a) (Fin b) = (a < b)"
| "f64_less (Fin _) PosInf = True"
| "f64_less NegInf (Fin _) = True"
| "f64_less NegInf PosInf = True"
| "f64_less _ _ = False"

text \<open>The conversion \<open>float64(n)\<close> of an integer: 53 significant bits, ties to even.\<close>

fun bit_len :: "nat \<Rightarrow> nat" where
  "bit_len n = (if n = 0 then 0 else Suc (bit_len (n div 2)))"

declare bit_len.simps [simp del]

definition round53 :: "nat \<Rightarrow> nat" where
  "round53 n =
     (if bit_len n \<le> 53 then n
      else let s = 2 ^ (bit_len n - 53); q = n div s; r = n mod s
           in (if s < 2 * r \<or> (s = 2 * r \<and> odd q) then q + 1 else q) * s)"

definition f64_of_int :: "int \<Rightarrow> f64" where
  "f64_of_int n = Fin (of_int (sgn n * int (round53 (nat \<bar>n\<bar>))))"

lemma bit_len_le: "n < 2 ^ k \<Longrightarrow> bit_len n \<le> k"
proof (induction k arbitrary: n)
  case 0
  then show ?case by (simp add: bit_len.simps)
next
  case (Suc k)
  show ?case
  proof (cases "n = 0")
    case True
    then show ?thesis by (simp add: bit_len.simps)
  next
    case False
    have "n div 2 < 2 ^ k" using Suc.prems by (simp add: less_mult_imp_div_less mult.commute)
    with Suc.IH False show ?thesis by (simp add: bit_len.simps[of n])
  qed
qed

lemma round53_small: "n < 2 ^ 53 \<Longrightarrow> round53 n = n"
  using bit_len_le[of n 53] by (simp add: round53_def)

text \<open>Integers below \<open>2^53\<close> in absolute value convert exactly.\<close>

lemma f64_of_int_exact: "\<bar>n\<bar> < 2 ^ 53 \<Longrightarrow> f64_of_int n = Fin (of_int n)"
proof -
  assume "\<bar>n\<bar> < 2 ^ 53"
  then have "nat \<bar>n\<bar> < 2 ^ 53" by (simp add: nat_less_iff)
  then have "round53 (nat \<bar>n\<bar>) = nat \<bar>n\<bar>" by (rule round53_small)
  then show ?thesis by (simp add: f64_of_int_def mult_sgn_abs)
qed

section \<open>Values of type any\<close>

datatype gval =
    GNil
  | GBool bool
  | GInt int
  | GFloat f64
  | GStr string
  | GStrs "string list"
  | GAnys "gval list"
  | GMap "(string \<times> gval) list"
  | GTime time
  | GIP ip

section \<open>Text conversions of the Go standard library\<close>

text \<open>
  Conversions between text and times, addresses and floats, Unicode case folding, and the clock
  are the run-time environment of the policy engine. Nothing in the development depends on their
  tables: they are the fields of a record which the definitions that call them take as an
  argument.
\<close>

record golib =
  gl_now :: time
  gl_time_string :: "time \<Rightarrow> string"
  gl_time_rfc3339 :: "time \<Rightarrow> string"
  gl_parse_time :: "string \<Rightarrow> string \<Rightarrow> time option"
  gl_ip_string :: "ip \<Rightarrow> string"
  gl_parse_ip :: "string \<Rightarrow> ip option"
  gl_parse_cidr :: "string \<Rightarrow> (ip \<times> ip) option"
  gl_parse_float :: "string \<Rightarrow> f64 option"
  gl_sprint_float :: "f64 \<Rightarrow> string"
  gl_equal_fold :: "string \<Rightarrow> string \<Rightarrow> bool"

text \<open>Decimal numerals (\<open>strconv.Itoa\<close> and the \<open>%d\<close> verb).\<close>

definition digit_char :: "nat \<Rightarrow> char" where
  "digit_char d = char_of (48 + d)"

fun show_nat :: "nat \<Rightarrow> string" where
  "show_nat n = (if n < 10 then [digit_char n] else show_nat (n div 10) @ [digit_char (n mod 10)])"

declare show_nat.simps [simp del]

definition show_int :: "int \<Rightarrow> string" where
  "show_int n = (if n < 0 then ''-'' @ show_nat (nat (- n)) else show_nat (nat n))"

text \<open>The \<open>%v\<close> verb: slices in brackets, maps sorted by key, \<open>Stringer\<close>s by their method.\<close>

function sprint_v :: "golib \<Rightarrow> gval \<Rightarrow> string" where
  "sprint_v L GNil = ''<nil>''"
| "sprint_v L (GBool b) = (if b then ''true'' else ''false'')"
| "sprint_v L (GInt n) = show_int n"
| "sprint_v L (GFloat x) = gl_sprint_float L x"
| "sprint_v L (GStr s) = s"
| "sprint_v L (GStrs ss) = ''['' @ str_join '' '' ss @ '']''"
| "sprint_v L (GAnys vs) = ''['' @ str_join '' '' (map (sprint_v L) vs) @ '']''"
| "sprint_v L (GMap kvs) =
     ''map['' @ str_join '' ''
        (map (\<lambda>(k, s). k @ '':'' @ s)
           (sort_key fst (map (\<lambda>kv. (fst kv, sprint_v L (snd kv))) kvs))) @ '']''"
| "sprint_v L (GTime t) = gl_time_string L t"
| "sprint_v L (GIP a) = gl_ip_string L a"
  by pat_completeness auto

lemma size_GMap_member: "kv \<in> set kvs \<Longrightarrow> size (snd kv) < Suc (size_list (size_prod (\<lambda>x. 0) size) kvs)"
  by (induction kvs) auto

termination sprint_v
  by (relation "measure (\<lambda>(L, v). size v)")
    (auto simp: less_Suc_eq_le size_list_estimation' size_GMap_member)

text \<open>A Go type switch that asks for a string.\<close>

fun as_str :: "gval \<Rightarrow> string option" where
  "as_str (GStr s) = Some s"
| "as_str _ = None"

lemma as_str_Some [simp]: "as_str v = Some s \<longleftrightarrow> v = GStr s"
  by (cases v) auto

lemma map_GStr_inj [simp]: "map GStr xs = map GStr ys \<longleftrightarrow> xs = ys"
  by (intro iffI) (auto intro: map_injective injI)

text \<open>The strings a field holds, whatever its spelling; items that are not strings are ignored.\<close>

fun field_strings :: "gval \<Rightarrow> string list" where
  "field_strings (GStr s) = [s]"
| "field_strings (GStrs ss) = ss"
| "field_strings (GAnys vs) = List.map_filter as_str vs"
| "field_strings _ = []"

end
