(* ===== verification/Iam.thy ===== *)
theory Iam
  imports Values
begin

text \<open>
  The package \<^verbatim>\<open>sdk/iam\<close>: users, groups, service accounts, policies and policy documents, their
  statuses, the structural validation of documents, and the built-in policies.
  A status is a Go string type, so any string can occur.
\<close>

section \<open>Status values (status.go, group.go, serviceaccount.go)\<close>

definition UserStatusActive :: string where "UserStatusActive = ''on''"
definition UserStatusDisabled :: string where "UserStatusDisabled = ''off''"
definition GroupStatusActive :: string where "GroupStatusActive = ''on''"
definition GroupStatusDisabled :: string where "GroupStatusDisabled = ''off''"
definition ServiceAcctStatusActive :: string where "ServiceAcctStatusActive = ''on''"
definition ServiceAcctStatusDisabled :: string where "ServiceAcctStatusDisabled = ''off''"
definition PolicyModeInherit :: string where "PolicyModeInherit = ''inherit''"
definition PolicyModeOverride :: string where "PolicyModeOverride = ''override''"

lemmas status_defs [simp] =
  UserStatusActive_def UserStatusDisabled_def GroupStatusActive_def GroupStatusDisabled_def
  ServiceAcctStatusActive_def ServiceAcctStatusDisabled_def PolicyModeInherit_def
  PolicyModeOverride_def

text \<open>Errors of the validation functions; the payloads are what the messages print.\<close>

datatype iam_error =
    InvalidUserStatus string
  | InvalidGroupStatus string
  | InvalidServiceAcctStatus string
  | MissingEffect
  | BadEffect string
  | NoActionOrNotAction
  | NoResourceOrNotResource
  | BothActionAndNotAction
  | BothResourceAndNotResource
  | BothPrincipalAndNotPrincipal
  | EmptyString string
  | EmptyArray string
  | EmptyItem string nat
  | NonStringItem string nat
  | MapNotAllowed string
  | EmptyMap string
  | UnsupportedType string
  | MissingVersion
  | NoStatements
  | BadStatement nat string iam_error
  | PolicyMissingVersion
  | PolicyMissingName
  | PolicyMissingDocument

definition user_status_validate :: "string \<Rightarrow> iam_error option" where
  "user_status_validate s =
     (if s = UserStatusActive \<or> s = UserStatusDisabled then None else Some (InvalidUserStatus s))"

definition user_status_is_active :: "string \<Rightarrow> bool" where
  "user_status_is_active s \<longleftrightarrow> s = UserStatusActive"

definition user_status_minio_string :: "string \<Rightarrow> string" where
  "user_status_minio_string s = (if s = UserStatusActive then ''enabled'' else ''disabled'')"

definition group_status_validate :: "string \<Rightarrow> iam_error option" where
  "group_status_validate s =
     (if s = GroupStatusActive \<or> s = GroupStatusDisabled then None else Some (InvalidGroupStatus s))"

definition group_status_is_active :: "string \<Rightarrow> bool" where
  "group_status_is_active s \<longleftrightarrow> s = GroupStatusActive"

definition sa_status_validate :: "string \<Rightarrow> iam_error option" where
  "sa_status_validate s =
     (if s = ServiceAcctStatusActive \<or> s = ServiceAcctStatusDisabled then None
      else Some (InvalidServiceAcctStatus s))"

definition sa_status_is_active :: "string \<Rightarrow> bool" where
  "sa_status_is_active s \<longleftrightarrow> s = ServiceAcctStatusActive"

section \<open>Records (types.go, group.go, serviceaccount.go)\<close>

text \<open>The stable UUID of the administrator.\<close>

definition AdminUserUUID :: uuid where
  "AdminUserUUID = 0xbadfc0defaddfc0ffee0000dadbeef00"

definition UserMetadataVersion :: string where "UserMetadataVersion = ''1.0.0''"
definition PolicyMetadataVersion :: string where "PolicyMetadataVersion = ''1.0.0''"
definition GroupMetadataVersion :: string where "GroupMetadataVersion = ''1.0.0''"
definition ServiceAccountMetadataVersion :: string where "ServiceAccountMetadataVersion = ''1.0.0''"

record iam_user =
  u_version :: string
  u_uuid :: uuid
  u_username :: string
  u_accessKey :: string
  u_secretKey :: string
  u_status :: string
  u_updatedAt :: time
  u_attachedPolicies :: "string list"

record statement =
  st_sid :: string
  st_effect :: string
  st_principal :: gval
  st_notPrincipal :: gval
  st_action :: gval
  st_notAction :: gval
  st_resource :: gval
  st_notResource :: gval
  st_condition :: "(string \<times> gval) list"

record policy_document =
  pd_version :: string
  pd_id :: string
  pd_statement :: "statement list"

record iam_policy =
  p_version :: string
  p_name :: string
  p_document :: "policy_document option"
  p_createDate :: time
  p_updateDate :: time
  p_isBuiltin :: bool

record iam_group =
  g_version :: string
  g_name :: string
  g_members :: "uuid list"
  g_attachedPolicies :: "string list"
  g_status :: string
  g_createdAt :: time
  g_updatedAt :: time

record service_account =
  sa_version :: string
  sa_uuid :: uuid
  sa_accessKey :: string
  sa_secretKey :: string
  sa_username :: string
  sa_name :: string
  sa_description :: string
  sa_parentUserUUID :: "uuid option"
  sa_policyMode :: string
  sa_status :: string
  sa_embeddedPolicyJSON :: string
  sa_createdAt :: time
  sa_updatedAt :: time
  sa_expiresAt :: "time option"

definition NewServiceAccount ::
  "time \<Rightarrow> uuid \<Rightarrow> string \<Rightarrow> string \<Rightarrow> string \<Rightarrow> string \<Rightarrow> string \<Rightarrow> uuid option \<Rightarrow> string \<Rightarrow> string \<Rightarrow> string
     \<Rightarrow> time option \<Rightarrow> service_account" where
  "NewServiceAccount now uid accessKey secretKey username nm descr parentUUID policyMode status
       policyJSON expiresAt =
     \<lparr>sa_version = ServiceAccountMetadataVersion, sa_uuid = uid, sa_accessKey = accessKey,
      sa_secretKey = secretKey, sa_username = username, sa_name = nm, sa_description = descr,
      sa_parentUserUUID = parentUUID, sa_policyMode = policyMode, sa_status = status,
      sa_embeddedPolicyJSON = policyJSON, sa_createdAt = now, sa_updatedAt = now,
      sa_expiresAt = expiresAt\<rparr>"

section \<open>Structural validation (validation.go)\<close>

definition is_principal_field :: "string \<Rightarrow> bool" where
  "is_principal_field f \<longleftrightarrow> f = ''Principal'' \<or> f = ''NotPrincipal''"

definition validatePolicyValue :: "gval \<Rightarrow> string \<Rightarrow> iam_error option" where
  "validatePolicyValue v fieldName =
     (case v of
        GNil \<Rightarrow> None
      | GStr s \<Rightarrow> if s = '''' then Some (EmptyString fieldName) else None
      | GStrs ss \<Rightarrow>
          if ss = [] then Some (EmptyArray fieldName)
          else first_err (\<lambda>i s. if s = '''' then Some (EmptyItem fieldName i) else None) 0 ss
      | GAnys vs \<Rightarrow>
          if vs = [] then Some (EmptyArray fieldName)
          else first_err
                 (\<lambda>i item.
                    case as_str item of
                      Some s \<Rightarrow> if s = '''' then Some (EmptyItem fieldName i) else None
                    | None \<Rightarrow>
                        if \<not> is_principal_field fieldName then Some (NonStringItem fieldName i)
                        else None) 0 vs
      | GMap kvs \<Rightarrow>
          if \<not> is_principal_field fieldName then Some (MapNotAllowed fieldName)
          else if kvs = [] then Some (EmptyMap fieldName)
          else None
      | _ \<Rightarrow> Some (UnsupportedType fieldName))"

text \<open>The six field checks of \<open>Statement.Validate\<close>, in the order of the code.\<close>

definition validate_field :: "gval \<Rightarrow> string \<Rightarrow> iam_error option" where
  "validate_field v fieldName = (if v \<noteq> GNil then validatePolicyValue v fieldName else None)"

definition statement_validate :: "statement \<Rightarrow> iam_error option" where
  "statement_validate s =
     (if st_effect s = '''' then Some MissingEffect
      else if st_effect s \<noteq> ''Allow'' \<and> st_effect s \<noteq> ''Deny'' then Some (BadEffect (st_effect s))
      else if \<not> (st_action s \<noteq> GNil \<or> st_notAction s \<noteq> GNil) then Some NoActionOrNotAction
      else if \<not> (st_resource s \<noteq> GNil \<or> st_notResource s \<noteq> GNil) then Some NoResourceOrNotResource
      else if st_action s \<noteq> GNil \<and> st_notAction s \<noteq> GNil then Some BothActionAndNotAction
      else if st_resource s \<noteq> GNil \<and> st_notResource s \<noteq> GNil then Some BothResourceAndNotResource
      else if st_principal s \<noteq> GNil \<and> st_notPrincipal s \<noteq> GNil
        then Some BothPrincipalAndNotPrincipal
      else
        first_err (\<lambda>_ (v, f). validate_field v f) 0
          [(st_principal s, ''Principal''), (st_notPrincipal s, ''NotPrincipal''),
           (st_action s, ''Action''), (st_notAction s, ''NotAction''),
           (st_resource s, ''Resource''), (st_notResource s, ''NotResource'')])"

definition document_validate :: "policy_document \<Rightarrow> iam_error option" where
  "document_validate pd =
     (if pd_version pd = '''' then Some MissingVersion
      else if pd_statement pd = [] then Some NoStatements
      else first_err
             (\<lambda>i s. case statement_validate s of
                       Some e \<Rightarrow> Some (BadStatement i (st_sid s) e)
                     | None \<Rightarrow> None) 0 (pd_statement pd))"

definition policy_validate :: "iam_policy \<Rightarrow> iam_error option" where
  "policy_validate p =
     (if p_version p = '''' then Some PolicyMissingVersion
      else if p_name p = '''' then Some PolicyMissingName
      else case p_document p of
             None \<Rightarrow> Some PolicyMissingDocument
           | Some pd \<Rightarrow> document_validate pd)"

section \<open>Built-in policies (builtins.go)\<close>

definition BuiltinPolicyNames :: "string list" where
  "BuiltinPolicyNames = [''readwrite'', ''readonly'', ''writeonly'', ''diagnostics'', ''consoleAdmin'']"

definition IsBuiltinPolicy :: "string \<Rightarrow> bool" where
  "IsBuiltinPolicy nm \<longleftrightarrow> nm \<in> set BuiltinPolicyNames"

text \<open>A statement literal of the Go table: the fields it leaves out are zero values.\<close>

definition builtin_statement :: "string \<Rightarrow> gval \<Rightarrow> statement" where
  "builtin_statement effect action =
     \<lparr>st_sid = '''', st_effect = effect, st_principal = GNil, st_notPrincipal = GNil,
      st_action = action, st_notAction = GNil, st_resource = GStr ''arn:aws:s3:::*'',
      st_notResource = GNil, st_condition = []\<rparr>"

definition builtin_doc :: "statement list \<Rightarrow> policy_document" where
  "builtin_doc sts = \<lparr>pd_version = ''2012-10-17'', pd_id = '''', pd_statement = sts\<rparr>"

definition BuiltinPolicyDocument :: "string \<Rightarrow> policy_document option" where
  "BuiltinPolicyDocument nm =
     (if nm = ''readwrite'' then
        Some (builtin_doc [builtin_statement ''Allow'' (GStr ''s3:*'')])
      else if nm = ''readonly'' then
        Some (builtin_doc
          [builtin_statement ''Allow'' (GStrs [''s3:GetBucketLocation'', ''s3:GetObject'']),
           builtin_statement ''Deny'' (GStr ''admin:CreateUser'')])
      else if nm = ''writeonly'' then
        Some (builtin_doc [builtin_statement ''Allow'' (GStr ''s3:PutObject'')])
      else if nm = ''diagnostics'' then
        Some (builtin_doc
          [builtin_statement ''Allow''
             (GStrs [''admin:Profiling'', ''admin:Trace'', ''admin:ConsoleLog'', ''admin:ServerInfo'',
                     ''admin:TopLocksInfo'', ''admin:HealthInfo'', ''admin:BandwidthMonitor'',
                     ''admin:Prometheus''])])
      else if nm = ''consoleAdmin'' then
        Some (builtin_doc
          [builtin_statement ''Allow'' (GStr ''admin:*''), builtin_statement ''Allow'' (GStr ''s3:*'')])
      else None)"

section \<open>Facts\<close>

text \<open>What acceptance by \<open>Statement.Validate\<close> means.\<close>

definition well_formed_field :: "gval \<Rightarrow> string \<Rightarrow> bool" where
  "well_formed_field v fieldName \<longleftrightarrow> v = GNil \<or> validatePolicyValue v fieldName = None"

lemma validate_field_None: "validate_field v f = None \<longleftrightarrow> well_formed_field v f"
  by (auto simp: validate_field_def well_formed_field_def)

lemma statement_validate_None:
  "statement_validate s = None \<longleftrightarrow>
     st_effect s \<in> {''Allow'', ''Deny''} \<and>
     (st_action s = GNil \<longleftrightarrow> st_notAction s \<noteq> GNil) \<and>
     (st_resource s = GNil \<longleftrightarrow> st_notResource s \<noteq> GNil) \<and>
     (st_principal s = GNil \<or> st_notPrincipal s = GNil) \<and>
     well_formed_field (st_principal s) ''Principal'' \<and>
     well_formed_field (st_notPrincipal s) ''NotPrincipal'' \<and>
     well_formed_field (st_action s) ''Action'' \<and>
     well_formed_field (st_notAction s) ''NotAction'' \<and>
     well_formed_field (st_resource s) ''Resource'' \<and>
     well_formed_field (st_notResource s) ''NotResource''"
  by (auto simp: statement_validate_def first_err_None_uniform validate_field_None
      simp del: first_err.simps)

lemma document_validate_None:
  "document_validate pd = None \<longleftrightarrow>
     pd_version pd \<noteq> '''' \<and> pd_statement pd \<noteq> [] \<and>
     (\<forall>s\<in>set (pd_statement pd). statement_validate s = None)"
  by (auto simp: document_validate_def first_err_None all_set_conv_all_nth split: option.splits)

text \<open>An Action or Resource field that passes validation is a non-empty list of non-empty
  strings, in one of its three spellings.\<close>

lemma well_formed_string_field:
  assumes "validatePolicyValue v f = None" "v \<noteq> GNil" "\<not> is_principal_field f"
  obtains (one) s where "v = GStr s" "s \<noteq> ''''"
    | (strs) ss where "v = GStrs ss" "ss \<noteq> []" "'''' \<notin> set ss"
    | (anys) ss where "v = GAnys (map GStr ss)" "ss \<noteq> []" "'''' \<notin> set ss"
proof (cases v)
  case (GStr s)
  with assms one show ?thesis by (auto simp: validatePolicyValue_def split: if_splits)
next
  case (GStrs ss)
  with assms strs show ?thesis
    by (auto simp: validatePolicyValue_def first_err_None in_set_conv_nth split: if_splits)
next
  case (GAnys vs)
  with assms have ne: "vs \<noteq> []"
    and items: "\<forall>j<length vs. \<exists>s. vs ! j = GStr s \<and> s \<noteq> ''''"
    by (auto simp: validatePolicyValue_def first_err_None split: if_splits option.splits
        elim!: as_str.elims)
  define ss where "ss = map (\<lambda>v. the (as_str v)) vs"
  have vs: "vs = map GStr ss"
    unfolding ss_def using items by (auto intro!: nth_equalityI)
  have "'''' \<notin> set ss"
    unfolding ss_def using items by (fastforce simp: in_set_conv_nth)
  with anys[of ss] GAnys vs ne show ?thesis by simp
qed (use assms in \<open>auto simp: validatePolicyValue_def split: if_splits\<close>)

lemma user_status_validate_None: "user_status_validate s = None \<longleftrightarrow> s \<in> {''on'', ''off''}"
  by (auto simp: user_status_validate_def)

lemma BuiltinPolicyDocument_Some: "BuiltinPolicyDocument nm \<noteq> None \<longleftrightarrow> IsBuiltinPolicy nm"
  by (auto simp: BuiltinPolicyDocument_def IsBuiltinPolicy_def BuiltinPolicyNames_def)

end
