(* ===== verification/PolicyTypes.thy ===== *)
theory PolicyTypes
  imports Iam
begin

text \<open>
  \<^verbatim>\<open>internal/policy/policy_types.go\<close>: schema checks of the dynamic fields of a policy statement
  and their normalisation to a list of strings. Errors carry the item index where the message
  prints one. A condition block is a Go map: its checks visit the keys in an order the language
  leaves open, so the error may depend on the order, but acceptance does not.
\<close>

datatype field_error =
    FieldNil
  | FieldType
  | FieldEmptyString
  | FieldEmptyArray
  | FieldItemType nat
  | FieldItemEmpty nat
  | PrincipalMapKeys
  | OperatorEmpty
  | OperatorNotMap string
  | OperatorEmptyMap string
  | ConditionKeyEmpty string
  | ConditionValueNil string string

definition principal_keys :: "string list" where
  "principal_keys = [''AWS'', ''Service'', ''Federated'', ''CanonicalUser'']"

definition validatePrincipalValue :: "gval \<Rightarrow> field_error option" where
  "validatePrincipalValue v =
     (case v of
        GNil \<Rightarrow> Some FieldNil
      | GStr _ \<Rightarrow> None
      | GStrs ss \<Rightarrow> if ss = [] then Some FieldEmptyArray else None
      | GAnys vs \<Rightarrow>
          if vs = [] then Some FieldEmptyArray
          else first_err (\<lambda>i item. if as_str item = None then Some (FieldItemType i) else None) 0 vs
      | _ \<Rightarrow> Some FieldType)"

text \<open>The first of the recognised keys that the map has is checked, the others are not.\<close>

fun validate_principal_keys :: "string list \<Rightarrow> (string \<times> gval) list \<Rightarrow> field_error option" where
  "validate_principal_keys [] kvs = Some PrincipalMapKeys"
| "validate_principal_keys (k # ks) kvs =
     (case map_of kvs k of
        Some v \<Rightarrow> validatePrincipalValue v
      | None \<Rightarrow> validate_principal_keys ks kvs)"

definition ValidatePrincipal :: "gval \<Rightarrow> field_error option" where
  "ValidatePrincipal v =
     (case v of
        GNil \<Rightarrow> None
      | GStr _ \<Rightarrow> None
      | GMap kvs \<Rightarrow> validate_principal_keys principal_keys kvs
      | _ \<Rightarrow> Some FieldType)"

definition ValidateAction :: "gval \<Rightarrow> field_error option" where
  "ValidateAction v =
     (case v of
        GNil \<Rightarrow> None
      | GStr s \<Rightarrow> if s = '''' then Some FieldEmptyString else None
      | GStrs ss \<Rightarrow>
          if ss = [] then Some FieldEmptyArray
          else first_err (\<lambda>i s. if s = '''' then Some (FieldItemEmpty i) else None) 0 ss
      | GAnys vs \<Rightarrow>
          if vs = [] then Some FieldEmptyArray
          else first_err
                 (\<lambda>i item.
                    case as_str item of
                      None \<Rightarrow> Some (FieldItemType i)
                    | Some s \<Rightarrow> if s = '''' then Some (FieldItemEmpty i) else None) 0 vs
      | _ \<Rightarrow> Some FieldType)"

definition ValidateResource :: "gval \<Rightarrow> field_error option" where
  "ValidateResource v =
     (case v of
        GNil \<Rightarrow> None
      | GStr s \<Rightarrow> if s = '''' then Some FieldEmptyString else None
      | GStrs ss \<Rightarrow>
          if ss = [] then Some FieldEmptyArray
          else first_err (\<lambda>i s. if s = '''' then Some (FieldItemEmpty i) else None) 0 ss
      | GAnys vs \<Rightarrow>
          if vs = [] then Some FieldEmptyArray
          else first_err
                 (\<lambda>i item.
                    case as_str item of
                      None \<Rightarrow> Some (FieldItemType i)
                    | Some s \<Rightarrow> if s = '''' then Some (FieldItemEmpty i) else None) 0 vs
      | _ \<Rightarrow> Some FieldType)"

text \<open>The check of one operator of a condition block. The source asserts the same type twice
  (\<open>map[string]any\<close>), so the second assertion can never succeed where the first failed.\<close>

definition validate_operator :: "string \<Rightarrow> gval \<Rightarrow> field_error option" where
  "validate_operator operator keyValues =
     (if operator = '''' then Some OperatorEmpty
      else case keyValues of
             GMap kvs \<Rightarrow>
               if kvs = [] then Some (OperatorEmptyMap operator)
               else first_err
                      (\<lambda>_ (key, v).
                         if key = '''' then Some (ConditionKeyEmpty operator)
                         else if v = GNil then Some (ConditionValueNil key operator)
                         else None) 0 kvs
           | _ \<Rightarrow> Some (OperatorNotMap operator))"

definition ValidateCondition :: "(string \<times> gval) list \<Rightarrow> field_error option" where
  "ValidateCondition conditions =
     (if conditions = [] then None
      else first_err (\<lambda>_ (operator, kvs). validate_operator operator kvs) 0 conditions)"

text \<open>The loop that fills \<open>result[i]\<close>, up to the first item that is not a string.\<close>

fun strings_of_items :: "nat \<Rightarrow> gval list \<Rightarrow> field_error + string list" where
  "strings_of_items i [] = Inr []"
| "strings_of_items i (v # vs) =
     (case as_str v of
        None \<Rightarrow> Inl (FieldItemType i)
      | Some s \<Rightarrow>
          (case strings_of_items (Suc i) vs of Inl e \<Rightarrow> Inl e | Inr ss \<Rightarrow> Inr (s # ss)))"

definition NormalizeAction :: "gval \<Rightarrow> field_error + string list" where
  "NormalizeAction v =
     (case v of
        GNil \<Rightarrow> Inl FieldNil
      | GStr s \<Rightarrow> Inr [s]
      | GStrs ss \<Rightarrow> Inr ss
      | GAnys vs \<Rightarrow> strings_of_items 0 vs
      | _ \<Rightarrow> Inl FieldType)"

definition NormalizeResource :: "gval \<Rightarrow> field_error + string list" where
  "NormalizeResource v =
     (case v of
        GNil \<Rightarrow> Inl FieldNil
      | GStr s \<Rightarrow> Inr [s]
      | GStrs ss \<Rightarrow> Inr ss
      | GAnys vs \<Rightarrow> strings_of_items 0 vs
      | _ \<Rightarrow> Inl FieldType)"

section \<open>Facts\<close>

lemma strings_of_items_map_GStr: "strings_of_items i (map GStr ss) = Inr ss"
  by (induction ss arbitrary: i) auto

lemma strings_of_items_Inr_imp: "strings_of_items i vs = Inr ss \<Longrightarrow> vs = map GStr ss"
  by (induction vs arbitrary: i ss) (auto split: option.splits sum.splits)

lemma strings_of_items_Inr: "strings_of_items i vs = Inr ss \<longleftrightarrow> vs = map GStr ss"
  using strings_of_items_Inr_imp strings_of_items_map_GStr by blast

lemma strings_of_items_Inl:
  "strings_of_items i vs = Inl e \<Longrightarrow> \<exists>j<length vs. e = FieldItemType (i + j) \<and> as_str (vs ! j) = None"
proof (induction vs arbitrary: i)
  case Nil
  then show ?case by simp
next
  case (Cons v vs)
  show ?case
  proof (cases "as_str v")
    case None
    with Cons.prems show ?thesis by (auto intro: exI[of _ 0])
  next
    case (Some s)
    with Cons.prems have "strings_of_items (Suc i) vs = Inl e" by (auto split: sum.splits)
    from Cons.IH[OF this] obtain j where
      "j < length vs" "e = FieldItemType (Suc i + j)" "as_str (vs ! j) = None" by blast
    then show ?thesis by (intro exI[of _ "Suc j"]) simp
  qed
qed

lemma NormalizeAction_field_strings: "NormalizeAction v = Inr ss \<Longrightarrow> field_strings v = ss"
  by (cases v) (auto simp: NormalizeAction_def strings_of_items_Inr List.map_filter_def comp_def)

text \<open>Acceptance of a condition block does not depend on the iteration order of the map.\<close>

lemma ValidateCondition_None:
  "ValidateCondition cs = None \<longleftrightarrow> (\<forall>(operator, kvs)\<in>set cs. validate_operator operator kvs = None)"
  by (auto simp: ValidateCondition_def first_err_None_uniform)

lemma validate_operator_None:
  "validate_operator operator v = None \<longleftrightarrow>
     operator \<noteq> '''' \<and> (\<exists>kvs. v = GMap kvs \<and> kvs \<noteq> [] \<and> (\<forall>(k, x)\<in>set kvs. k \<noteq> '''' \<and> x \<noteq> GNil))"
  by (cases v) (auto simp: validate_operator_def first_err_None_uniform split: if_splits)

lemma ValidateAction_normalizes:
  assumes "ValidateAction v = None" and "v \<noteq> GNil"
  obtains ss where "NormalizeAction v = Inr ss" "ss \<noteq> []" "'''' \<notin> set ss"
proof (cases v)
  case (GAnys vs)
  with assms have ne: "vs \<noteq> []" and items: "\<forall>j<length vs. \<exists>s. vs ! j = GStr s \<and> s \<noteq> ''''"
    by (auto simp: ValidateAction_def first_err_None split: if_splits option.splits elim!: as_str.elims)
  define ss where "ss = map (\<lambda>v. the (as_str v)) vs"
  have "vs = map GStr ss"
    unfolding ss_def using items by (auto intro!: nth_equalityI)
  moreover have "'''' \<notin> set ss"
    unfolding ss_def using items by (fastforce simp: in_set_conv_nth)
  ultimately show ?thesis
    using that[of ss] ne GAnys by (simp add: NormalizeAction_def strings_of_items_Inr)
qed (use assms that in \<open>auto simp: ValidateAction_def NormalizeAction_def first_err_None
       in_set_conv_nth split: if_splits\<close>)

lemma ValidateResource_eq: "ValidateResource = ValidateAction"
  by (simp add: fun_eq_iff ValidateResource_def ValidateAction_def)

lemma NormalizeResource_eq: "NormalizeResource = NormalizeAction"
  by (simp add: fun_eq_iff NormalizeResource_def NormalizeAction_def)

end
