(* ===== verification/Variables.thy ===== *)
theory Variables
  imports Iam
begin

text \<open>
  \<^verbatim>\<open>internal/policy/variables\<close>: the values available to policy variables, and the substitution of
  \<open>${name}\<close> patterns in policy strings. \<^verbatim>\<open>regexp.MustCompile(`\$\{([^}]+)\}`)\<close> is modelled by
  \<open>pieces\<close>, which cuts a string into single bytes and variable references the way the leftmost
  non-overlapping matches of the pattern do. \<open>Substitute\<close> returns both a string and an error.
\<close>

section \<open>Bytes of a string\<close>

text \<open>\<open>strings.IndexByte\<close> and \<open>strings.LastIndex\<close> of one character.\<close>

fun index_char :: "string \<Rightarrow> char \<Rightarrow> nat option" where
  "index_char [] c = None"
| "index_char (x # xs) c = (if x = c then Some 0 else map_option Suc (index_char xs c))"

definition last_index_char :: "string \<Rightarrow> char \<Rightarrow> nat option" where
  "last_index_char s c = map_option (\<lambda>i. length s - 1 - i) (index_char (rev s) c)"

text \<open>\<open>strings.TrimSpace\<close>: the UTF-8 encodings of the Unicode white space are cut at both ends.\<close>

definition white_space :: "string list" where
  "white_space = map (map char_of)
     ([[9], [10], [11], [12], [13], [32], [194, 133], [194, 160], [225, 154, 128],
       [226, 128, 168], [226, 128, 169], [226, 128, 175], [226, 129, 159], [227, 128, 128]]
      @ map (\<lambda>n. [226, 128, n]) [128..<139] :: nat list list)"

fun trim_left :: "nat \<Rightarrow> string list \<Rightarrow> string \<Rightarrow> string" where
  "trim_left 0 ws s = s"
| "trim_left (Suc n) ws s =
     (case find (\<lambda>w. has_prefix s w) ws of
        None \<Rightarrow> s
      | Some w \<Rightarrow> trim_left n ws (drop (length w) s))"

definition trim_space :: "string \<Rightarrow> string" where
  "trim_space s =
     (let t = trim_left (length s) white_space s
      in rev (trim_left (length t) (map rev white_space) (rev t)))"

text \<open>\<open>net.SplitHostPort\<close>: the host, when the address has the form host:port or [host]:port.\<close>

definition split_host_port :: "string \<Rightarrow> (string \<times> string) option" where
  "split_host_port hp =
     (case last_index_char hp CHR '':'' of
        None \<Rightarrow> None
      | Some i \<Rightarrow>
          if has_prefix hp ''['' then
            (case index_char hp CHR '']'' of
               None \<Rightarrow> None
             | Some e \<Rightarrow>
                 if Suc e \<noteq> i then None
                 else if CHR ''['' \<in> set (drop 1 hp) \<or> CHR '']'' \<in> set (drop (Suc e) hp) then None
                 else Some (drop 1 (take e hp), drop (Suc i) hp))
          else if CHR '':'' \<in> set (take i hp) \<or> CHR ''['' \<in> set hp \<or> CHR '']'' \<in> set hp then None
          else Some (take i hp, drop (Suc i) hp))"

section \<open>The variable context\<close>

record var_ctx =
  v_username :: string
  v_userID :: uuid
  v_sourceIP :: "ip option"
  v_currentTime :: time
  v_userAgent :: string
  v_s3Prefix :: string
  v_s3Delimiter :: string

text \<open>\<open>UUID.String\<close>: 32 hexadecimal digits in groups of 8, 4, 4, 4 and 12.\<close>

definition hex_digit :: "nat \<Rightarrow> char" where
  "hex_digit d = (if d < 10 then char_of (48 + d) else char_of (87 + d))"

definition uuid_digits :: "uuid \<Rightarrow> string" where
  "uuid_digits u = map (\<lambda>i. hex_digit (unat u div 16 ^ i mod 16)) (rev [0..<32])"

definition uuid_string :: "uuid \<Rightarrow> string" where
  "uuid_string u =
     (let h = uuid_digits u
      in str_join ''-'' [take 8 h, take 4 (drop 8 h), take 4 (drop 12 h), take 4 (drop 16 h), drop 20 h])"

datatype var_error = VarNotAvailable string | VarUnknown string

definition getValue :: "golib \<Rightarrow> var_ctx \<Rightarrow> string \<Rightarrow> var_error + string" where
  "getValue L c varName =
     (if varName = ''aws:username'' then
        if v_username c = '''' then Inl (VarNotAvailable varName) else Inr (v_username c)
      else if varName = ''aws:userid'' then
        if v_userID c = uuid_nil then Inl (VarNotAvailable varName) else Inr (uuid_string (v_userID c))
      else if varName = ''aws:SourceIp'' then
        (case v_sourceIP c of
           None \<Rightarrow> Inl (VarNotAvailable varName)
         | Some a \<Rightarrow> Inr (gl_ip_string L a))
      else if varName = ''aws:CurrentTime'' then
        if v_currentTime c = 0 then Inl (VarNotAvailable varName)
        else Inr (gl_time_rfc3339 L (v_currentTime c))
      else if varName = ''aws:UserAgent'' then
        if v_userAgent c = '''' then Inl (VarNotAvailable varName) else Inr (v_userAgent c)
      else if varName = ''s3:prefix'' then Inr (v_s3Prefix c)
      else if varName = ''s3:delimiter'' then Inr (v_s3Delimiter c)
      else Inl (VarUnknown varName))"

section \<open>Substitution\<close>

datatype piece = Lit char | Var string

text \<open>The pattern at the start of a string: the name and what follows the closing brace.\<close>

definition var_at :: "string \<Rightarrow> (string \<times> string) option" where
  "var_at s =
     (case cut_prefix s ''${'' of
        None \<Rightarrow> None
      | Some r \<Rightarrow>
          let varName = takeWhile (\<lambda>c. c \<noteq> CHR ''}'') r; rest = dropWhile (\<lambda>c. c \<noteq> CHR ''}'') r
          in if varName = [] \<or> rest = [] then None else Some (varName, tl rest))"

lemma var_at_Some: "var_at s = Some (n, r) \<Longrightarrow> s = ''${'' @ n @ ''}'' @ r \<and> n \<noteq> [] \<and> CHR ''}'' \<notin> set n"
proof -
  assume a: "var_at s = Some (n, r)"
  then obtain t where t: "s = ''${'' @ t"
    by (auto simp: var_at_def cut_prefix_def has_prefix_iff prefix_def split: if_splits option.splits)
  with a have n: "n = takeWhile (\<lambda>c. c \<noteq> CHR ''}'') t" "n \<noteq> []"
    and ne: "dropWhile (\<lambda>c. c \<noteq> CHR ''}'') t \<noteq> []" and r: "r = tl (dropWhile (\<lambda>c. c \<noteq> CHR ''}'') t)"
    by (auto simp: var_at_def cut_prefix_def has_prefix_iff Let_def split: if_splits)
  have "dropWhile (\<lambda>c. c \<noteq> CHR ''}'') t = CHR ''}'' # r"
    using ne r hd_dropWhile[OF ne] by (cases "dropWhile (\<lambda>c. c \<noteq> CHR ''}'') t") auto
  then have "t = n @ ''}'' @ r"
    using n(1) takeWhile_dropWhile_id[of "\<lambda>c. c \<noteq> CHR ''}''" t] by simp
  moreover have "CHR ''}'' \<notin> set n"
    using n(1) set_takeWhileD by fastforce
  ultimately show ?thesis using t n(2) by simp
qed

function pieces :: "string \<Rightarrow> piece list" where
  "pieces [] = []"
| "pieces (c # cs) =
     (case var_at (c # cs) of
        Some (n, r) \<Rightarrow> Var n # pieces r
      | None \<Rightarrow> Lit c # pieces cs)"
  by pat_completeness auto
termination
  by (relation "measure length") (auto dest!: var_at_Some)

text \<open>The text of a piece in the input, and after substitution.\<close>

fun piece_text :: "piece \<Rightarrow> string" where
  "piece_text (Lit c) = [c]"
| "piece_text (Var n) = ''${'' @ n @ ''}''"

fun piece_value :: "golib \<Rightarrow> var_ctx \<Rightarrow> piece \<Rightarrow> string" where
  "piece_value L c (Lit x) = [x]"
| "piece_value L c (Var n) =
     (case getValue L c n of Inl e \<Rightarrow> piece_text (Var n) | Inr v \<Rightarrow> v)"

fun piece_error :: "golib \<Rightarrow> var_ctx \<Rightarrow> piece \<Rightarrow> var_error option" where
  "piece_error L c (Lit x) = None"
| "piece_error L c (Var n) = (case getValue L c n of Inl e \<Rightarrow> Some e | Inr v \<Rightarrow> None)"

definition Substitute :: "golib \<Rightarrow> var_ctx \<Rightarrow> string \<Rightarrow> string \<times> var_error option" where
  "Substitute L c input =
     (concat (map (piece_value L c) (pieces input)),
      first_err (\<lambda>_. piece_error L c) 0 (pieces input))"

definition HasVariables :: "string \<Rightarrow> bool" where
  "HasVariables input = list_ex (\<lambda>p. case p of Lit _ \<Rightarrow> False | Var _ \<Rightarrow> True) (pieces input)"

definition ExtractVariables :: "string \<Rightarrow> string list" where
  "ExtractVariables input =
     List.map_filter (\<lambda>p. case p of Lit _ \<Rightarrow> None | Var n \<Rightarrow> Some n) (pieces input)"

definition SubstituteSlice ::
  "golib \<Rightarrow> var_ctx \<Rightarrow> string list \<Rightarrow> string list \<times> var_error option" where
  "SubstituteSlice L c inputs =
     (map (\<lambda>s. fst (Substitute L c s)) inputs,
      first_err (\<lambda>_ s. snd (Substitute L c s)) 0 inputs)"

definition SubstituteInterface :: "golib \<Rightarrow> var_ctx \<Rightarrow> gval \<Rightarrow> gval \<times> var_error option" where
  "SubstituteInterface L c input =
     (case input of
        GStr s \<Rightarrow> apfst GStr (Substitute L c s)
      | GStrs ss \<Rightarrow> apfst GStrs (SubstituteSlice L c ss)
      | GAnys vs \<Rightarrow>
          apfst GStrs (SubstituteSlice L c
            (map (\<lambda>v. case as_str v of Some s \<Rightarrow> s | None \<Rightarrow> sprint_v L v) vs))
      | _ \<Rightarrow> (input, None))"

section \<open>Building the context (context.go)\<close>

text \<open>What the policy code reads of an HTTP request: the value of a header (empty when absent),
  the peer address, the values the authentication middleware left in the context, the route
  parameters and the length of the body.\<close>

record sa_info =
  si_parentUserUUID :: "uuid option"
  si_policyMode :: string
  si_embeddedPolicyJSON :: string

record http_request =
  r_header :: "string \<Rightarrow> string"
  r_remoteAddr :: string
  r_tls :: bool
  r_contentLength :: int
  r_user :: "iam_user option"
  r_anonymous :: bool
  r_saInfo :: "sa_info option"
  r_action :: string
  r_bucket :: string
  r_key :: string

definition extractSourceIP :: "golib \<Rightarrow> http_request \<Rightarrow> ip option" where
  "extractSourceIP L r =
     (let xff = r_header r ''X-Forwarded-For''; xri = r_header r ''X-Real-IP'';
          fromXff = (if xff = '''' then None
                     else gl_parse_ip L (trim_space (hd (str_split xff '',''))));
          fromXri = (if xri = '''' then None else gl_parse_ip L (trim_space xri))
      in case fromXff of
           Some a \<Rightarrow> Some a
         | None \<Rightarrow>
             (case fromXri of
                Some a \<Rightarrow> Some a
              | None \<Rightarrow>
                  (case split_host_port (r_remoteAddr r) of
                     None \<Rightarrow> gl_parse_ip L (r_remoteAddr r)
                   | Some (host, _) \<Rightarrow> gl_parse_ip L host)))"

definition Minimal :: "golib \<Rightarrow> var_ctx" where
  "Minimal L =
     \<lparr>v_username = '''', v_userID = uuid_nil, v_sourceIP = None, v_currentTime = gl_now L,
      v_userAgent = '''', v_s3Prefix = '''', v_s3Delimiter = ''''\<rparr>"

definition ForUserSimple :: "golib \<Rightarrow> string \<Rightarrow> uuid \<Rightarrow> var_ctx" where
  "ForUserSimple L username userID = (Minimal L)\<lparr>v_username := username, v_userID := userID\<rparr>"

definition ForUser :: "golib \<Rightarrow> iam_user \<Rightarrow> var_ctx" where
  "ForUser L user = (Minimal L)\<lparr>v_username := u_username user, v_userID := u_uuid user\<rparr>"

definition FromRequest :: "golib \<Rightarrow> http_request \<Rightarrow> var_ctx" where
  "FromRequest L r =
     (let c = Minimal L;
          c = (case r_user r of
                 None \<Rightarrow> c
               | Some u \<Rightarrow> c\<lparr>v_username := u_username u, v_userID := u_uuid u\<rparr>)
      in c\<lparr>v_sourceIP := extractSourceIP L r, v_userAgent := r_header r ''User-Agent''\<rparr>)"

definition WithS3Context :: "var_ctx \<Rightarrow> string \<Rightarrow> string \<Rightarrow> var_ctx" where
  "WithS3Context c pre delimiter = c\<lparr>v_s3Prefix := pre, v_s3Delimiter := delimiter\<rparr>"

section \<open>Facts\<close>

text \<open>The pieces of a string put together again are the string.\<close>

lemma concat_piece_text: "concat (map piece_text (pieces s)) = s"
proof (induction s rule: pieces.induct)
  case 1
  then show ?case by simp
next
  case (2 c cs)
  then show ?case by (auto split: option.splits dest: var_at_Some)
qed

lemma no_variables_pieces: "\<not> HasVariables s \<Longrightarrow> pieces s = map Lit s"
proof (induction s rule: pieces.induct)
  case 1
  then show ?case by simp
next
  case (2 c cs)
  show ?case
  proof (cases "var_at (c # cs)")
    case None
    with 2 show ?thesis by (simp add: HasVariables_def)
  next
    case (Some nr)
    with "2.prems" show ?thesis by (cases nr) (simp add: HasVariables_def)
  qed
qed

text \<open>A string without variables is unchanged.\<close>

lemma Substitute_no_variables: "\<not> HasVariables s \<Longrightarrow> Substitute L c s = (s, None)"
  by (simp add: Substitute_def no_variables_pieces comp_def first_err_None_uniform)

lemma no_dollar_no_variables: "CHR ''$'' \<notin> set s \<Longrightarrow> \<not> HasVariables s"
proof (induction s rule: pieces.induct)
  case 1
  then show ?case by (simp add: HasVariables_def)
next
  case (2 c cs)
  then have "var_at (c # cs) = None"
    by (cases "var_at (c # cs)") (auto dest: var_at_Some)
  with 2 show ?case by (simp add: HasVariables_def)
qed

text \<open>A substitution without error replaces every variable by its value; with an error the
  variables that have no value stay as they are written.\<close>

lemma Substitute_ok:
  "snd (Substitute L c s) = None \<longleftrightarrow> (\<forall>n\<in>set (ExtractVariables s). \<exists>v. getValue L c n = Inr v)"
proof -
  have "piece_error L c p = None \<longleftrightarrow>
      (case p of Lit _ \<Rightarrow> True | Var n \<Rightarrow> \<exists>v. getValue L c n = Inr v)" for p
    by (cases p) (auto split: sum.splits)
  then show ?thesis
    by (force simp: Substitute_def ExtractVariables_def first_err_None_uniform map_filter_def
        split: piece.splits)
qed

end
