(* ===== verification/Conditions.thy ===== *)
theory Conditions
  imports Variables
begin

text \<open>
  \<^verbatim>\<open>internal/policy/conditions\<close>: evaluation of the condition block of a statement. A block is a Go
  map from operators to maps from condition keys to values; both loops run over a map, so their
  order is open, and they stop at the first failure or error. A result \<open>(bool, error)\<close> is a sum:
  every caller looks at the error first.
\<close>

section \<open>Evaluation context\<close>

record cond_ctx =
  c_sourceIP :: "ip option"
  c_userAgent :: string
  c_secureTransport :: bool
  c_currentTime :: time
  c_username :: string
  c_userID :: string
  c_s3Prefix :: string
  c_s3Delimiter :: string
  c_contentLength :: int
  c_varContext :: "var_ctx option"

definition Build :: "golib \<Rightarrow> var_ctx option \<Rightarrow> bool \<Rightarrow> int \<Rightarrow> cond_ctx" where
  "Build L varCtx secureTransport contentLength =
     (case varCtx of
        Some v \<Rightarrow>
          \<lparr>c_sourceIP = v_sourceIP v, c_userAgent = v_userAgent v,
           c_secureTransport = secureTransport, c_currentTime = v_currentTime v,
           c_username = v_username v,
           c_userID = (if v_userID v \<noteq> uuid_nil then uuid_string (v_userID v) else ''''),
           c_s3Prefix = v_s3Prefix v, c_s3Delimiter = v_s3Delimiter v,
           c_contentLength = contentLength, c_varContext = varCtx\<rparr>
      | None \<Rightarrow>
          \<lparr>c_sourceIP = None, c_userAgent = '''', c_secureTransport = secureTransport,
           c_currentTime = gl_now L, c_username = '''', c_userID = '''', c_s3Prefix = '''',
           c_s3Delimiter = '''', c_contentLength = contentLength, c_varContext = None\<rparr>)"

datatype cond_error =
    NotAvailable string
  | UnknownKey string
  | NotAMapValue string
  | UnknownOperator string
  | BadConversion
  | BadPattern
  | BadCIDR string
  | InOperator string cond_error
  | InKey string cond_error

definition getContextValue :: "cond_ctx \<Rightarrow> string \<Rightarrow> cond_error + gval" where
  "getContextValue c key =
     (if key = ''aws:SourceIp'' then
        (case c_sourceIP c of None \<Rightarrow> Inl (NotAvailable key) | Some a \<Rightarrow> Inr (GIP a))
      else if key = ''aws:UserAgent'' then
        if c_userAgent c = '''' then Inl (NotAvailable key) else Inr (GStr (c_userAgent c))
      else if key = ''aws:SecureTransport'' then Inr (GBool (c_secureTransport c))
      else if key = ''aws:CurrentTime'' then
        if c_currentTime c = 0 then Inl (NotAvailable key) else Inr (GTime (c_currentTime c))
      else if key = ''aws:username'' then
        if c_username c = '''' then Inl (NotAvailable key) else Inr (GStr (c_username c))
      else if key = ''aws:userid'' then
        if c_userID c = '''' then Inl (NotAvailable key) else Inr (GStr (c_userID c))
      else if key = ''s3:prefix'' then Inr (GStr (c_s3Prefix c))
      else if key = ''s3:delimiter'' then Inr (GStr (c_s3Delimiter c))
      else if key = ''s3:content-length'' then Inr (GInt (c_contentLength c))
      else Inl (UnknownKey key))"

section \<open>Conversions\<close>

definition toString :: "golib \<Rightarrow> gval \<Rightarrow> string" where
  "toString L v = sprint_v L v"

fun toFloat64 :: "golib \<Rightarrow> gval \<Rightarrow> f64 option" where
  "toFloat64 L (GFloat x) = Some x"
| "toFloat64 L (GInt n) = Some (f64_of_int n)"
| "toFloat64 L (GStr s) = gl_parse_float L s"
| "toFloat64 L _ = None"

definition time_formats :: "string list" where
  "time_formats =
     [''2006-01-02T15:04:05Z07:00'', ''2006-01-02T15:04:05.999999999Z07:00'',
      ''2006-01-02T15:04:05Z'', ''2006-01-02'']"

fun parse_formats :: "golib \<Rightarrow> string list \<Rightarrow> string \<Rightarrow> time option" where
  "parse_formats L [] s = None"
| "parse_formats L (f # fs) s =
     (case gl_parse_time L f s of Some t \<Rightarrow> Some t | None \<Rightarrow> parse_formats L fs s)"

fun toTime :: "golib \<Rightarrow> gval \<Rightarrow> time option" where
  "toTime L (GTime t) = Some t"
| "toTime L (GStr s) = parse_formats L time_formats s"
| "toTime L _ = None"

fun toIP :: "golib \<Rightarrow> gval \<Rightarrow> ip option" where
  "toIP L (GIP a) = Some a"
| "toIP L (GStr s) = gl_parse_ip L s"
| "toIP L _ = None"

text \<open>\<open>strconv.ParseBool\<close>.\<close>

definition parse_bool :: "string \<Rightarrow> bool option" where
  "parse_bool s =
     (if s \<in> set [''1'', ''t'', ''T'', ''TRUE'', ''true'', ''True''] then Some True
      else if s \<in> set [''0'', ''f'', ''F'', ''FALSE'', ''false'', ''False''] then Some False
      else None)"

fun toBool :: "gval \<Rightarrow> bool option" where
  "toBool (GBool b) = Some b"
| "toBool (GStr s) = parse_bool s"
| "toBool _ = None"

section \<open>Operators (operators.go)\<close>

definition evaluateStringEquals :: "golib \<Rightarrow> gval \<Rightarrow> gval \<Rightarrow> bool \<Rightarrow> cond_error + bool" where
  "evaluateStringEquals L contextValue conditionValue ignoreCase =
     (let ctxStr = toString L contextValue; condStr = toString L conditionValue
      in Inr (if ignoreCase then gl_equal_fold L ctxStr condStr else ctxStr = condStr))"

text \<open>The glob pattern becomes a regular expression, byte by byte.\<close>

definition regex_special :: "char list" where
  "regex_special = ''.+()|[]{}^$'' @ [CHR 0x5C]"

definition glob_char :: "char \<Rightarrow> string" where
  "glob_char ch =
     (if ch = CHR ''*'' then ''.*''
      else if ch = CHR ''?'' then ''.''
      else if ch \<in> set regex_special then [CHR 0x5C, ch]
      else [ch])"

definition globToRegex :: "string \<Rightarrow> string" where
  "globToRegex pattern = ''^'' @ concat (map glob_char pattern) @ ''$''"

text \<open>
  \<open>regexp.MatchString\<close> on the expressions the conversion produces: between the anchors, literals
  (possibly escaped), \<open>.\<close>, which matches every rune but the newline, and \<open>.*\<close>. The expression has
  to be valid UTF-8; the text is decoded rune by rune. \<open>None\<close> is a failed compilation, and also
  stands for expressions outside the fragment, which the conversion never produces.
\<close>

datatype re = RLit nat | RAny | RStar

definition meta_rune :: "nat \<Rightarrow> bool" where
  "meta_rune r \<longleftrightarrow> r \<in> set (map of_char regex_special) \<or> r = 42 \<or> r = 63"

fun parse_re :: "nat list \<Rightarrow> re list option" where
  "parse_re [] = None"
| "parse_re (r # rs) =
     (if r = 36 then (if rs = [] then Some [] else None)
      else if r = 46 then
        (case rs of
           q # qs \<Rightarrow> if q = 42 then map_option ((#) RStar) (parse_re qs)
                     else map_option ((#) RAny) (parse_re rs)
         | [] \<Rightarrow> None)
      else if r = 92 then
        (case rs of
           q # qs \<Rightarrow> if meta_rune q then map_option ((#) (RLit q)) (parse_re qs) else None
         | [] \<Rightarrow> None)
      else if meta_rune r then None
      else map_option ((#) (RLit r)) (parse_re rs))"

function re_match :: "re list \<Rightarrow> nat list \<Rightarrow> bool" where
  "re_match [] s \<longleftrightarrow> s = []"
| "re_match (RLit c # p) s \<longleftrightarrow> (case s of x # xs \<Rightarrow> x = c \<and> re_match p xs | [] \<Rightarrow> False)"
| "re_match (RAny # p) s \<longleftrightarrow> (case s of x # xs \<Rightarrow> x \<noteq> 10 \<and> re_match p xs | [] \<Rightarrow> False)"
| "re_match (RStar # p) s \<longleftrightarrow>
     re_match p s \<or> (case s of x # xs \<Rightarrow> x \<noteq> 10 \<and> re_match (RStar # p) xs | [] \<Rightarrow> False)"
  by pat_completeness auto
termination
  by (relation "measure (\<lambda>(p, s). length p + length s)") auto

definition regexp_match :: "string \<Rightarrow> string \<Rightarrow> bool option" where
  "regexp_match expr s =
     (if \<not> valid_utf8 expr then None
      else case runes expr of
             r # rs \<Rightarrow> if r = 94 then map_option (\<lambda>p. re_match p (runes s)) (parse_re rs) else None
           | [] \<Rightarrow> None)"

definition evaluateStringLike :: "golib \<Rightarrow> gval \<Rightarrow> gval \<Rightarrow> bool \<Rightarrow> cond_error + bool" where
  "evaluateStringLike L contextValue conditionValue negate =
     (let ctxStr = toString L contextValue; pattern = toString L conditionValue
      in case regexp_match (globToRegex pattern) ctxStr of
           None \<Rightarrow> Inl BadPattern
         | Some matched \<Rightarrow> Inr (if negate then \<not> matched else matched))"

text \<open>The two-operand shape of the numeric and date operators.\<close>

definition compare_as ::
  "(gval \<Rightarrow> 'a option) \<Rightarrow> ('a \<Rightarrow> 'a \<Rightarrow> bool) \<Rightarrow> gval \<Rightarrow> gval \<Rightarrow> cond_error + bool" where
  "compare_as conv cmp contextValue conditionValue =
     (case conv contextValue of
        None \<Rightarrow> Inl BadConversion
      | Some x \<Rightarrow>
          (case conv conditionValue of
             None \<Rightarrow> Inl BadConversion
           | Some y \<Rightarrow> Inr (cmp x y)))"

definition evaluateNumericEquals :: "golib \<Rightarrow> gval \<Rightarrow> gval \<Rightarrow> cond_error + bool" where
  "evaluateNumericEquals L = compare_as (toFloat64 L) f64_eq"

definition evaluateNumericLessThan :: "golib \<Rightarrow> gval \<Rightarrow> gval \<Rightarrow> bool \<Rightarrow> cond_error + bool" where
  "evaluateNumericLessThan L a b orEqual =
     compare_as (toFloat64 L) (\<lambda>x y. if orEqual then f64_less x y \<or> f64_eq x y else f64_less x y) a b"

definition evaluateNumericGreaterThan :: "golib \<Rightarrow> gval \<Rightarrow> gval \<Rightarrow> bool \<Rightarrow> cond_error + bool" where
  "evaluateNumericGreaterThan L a b orEqual =
     compare_as (toFloat64 L) (\<lambda>x y. if orEqual then f64_less y x \<or> f64_eq y x else f64_less y x) a b"

definition evaluateDateEquals :: "golib \<Rightarrow> gval \<Rightarrow> gval \<Rightarrow> cond_error + bool" where
  "evaluateDateEquals L = compare_as (toTime L) (=)"

definition evaluateDateLessThan :: "golib \<Rightarrow> gval \<Rightarrow> gval \<Rightarrow> bool \<Rightarrow> cond_error + bool" where
  "evaluateDateLessThan L a b orEqual =
     compare_as (toTime L) (\<lambda>x y. if orEqual then x < y \<or> x = y else x < y) a b"

definition evaluateDateGreaterThan :: "golib \<Rightarrow> gval \<Rightarrow> gval \<Rightarrow> bool \<Rightarrow> cond_error + bool" where
  "evaluateDateGreaterThan L a b orEqual =
     compare_as (toTime L) (\<lambda>x y. if orEqual then y < x \<or> y = x else y < x) a b"

text \<open>\<open>IP.To4\<close> and \<open>IPNet.Contains\<close>; the network is the address and the mask of \<open>ParseCIDR\<close>.\<close>

definition ip_to4 :: "ip \<Rightarrow> ip option" where
  "ip_to4 a =
     (if length a = 4 then Some a
      else if length a = 16 \<and> take 12 a = replicate 10 0 @ [255, 255] then Some (drop 12 a)
      else None)"

definition network_number_and_mask :: "ip \<times> ip \<Rightarrow> ip \<times> ip" where
  "network_number_and_mask net =
     (let (addr, m) = net
      in case ip_to4 addr of
           Some a4 \<Rightarrow>
             if length m = 4 then (a4, m)
             else if length m = 16 then (a4, drop 12 m)
             else ([], [])
         | None \<Rightarrow> if length addr = 16 \<and> length m = 16 then (addr, m) else ([], []))"

definition ip_net_contains :: "ip \<times> ip \<Rightarrow> ip \<Rightarrow> bool" where
  "ip_net_contains net a =
     (let (nn, m) = network_number_and_mask net; x = (case ip_to4 a of Some b \<Rightarrow> b | None \<Rightarrow> a)
      in length x = length nn \<and> map2 (\<lambda>u v. and u v) nn m = map2 (\<lambda>u v. and u v) x m)"

definition evaluateIpAddress :: "golib \<Rightarrow> gval \<Rightarrow> gval \<Rightarrow> bool \<Rightarrow> cond_error + bool" where
  "evaluateIpAddress L contextValue conditionValue negate =
     (case toIP L contextValue of
        None \<Rightarrow> Inl BadConversion
      | Some ctxIP \<Rightarrow>
          let s = toString L conditionValue;
              cidrStr = (if str_contains s ''/'' then s
                         else if str_contains s '':'' then s @ ''/128'' else s @ ''/32'')
          in case gl_parse_cidr L cidrStr of
               None \<Rightarrow> Inl (BadCIDR cidrStr)
             | Some ipNet \<Rightarrow>
                 let contains = ip_net_contains ipNet ctxIP
                 in Inr (if negate then \<not> contains else contains))"

definition evaluateBool :: "gval \<Rightarrow> gval \<Rightarrow> cond_error + bool" where
  "evaluateBool = compare_as toBool (=)"

definition evaluateNull :: "gval \<Rightarrow> gval \<Rightarrow> cond_error + bool" where
  "evaluateNull contextValue conditionValue =
     (case toBool conditionValue of
        None \<Rightarrow> Inl BadConversion
      | Some shouldBeNull \<Rightarrow>
          let isNull = (contextValue = GNil \<or> contextValue = GStr '''')
          in Inr (isNull = shouldBeNull))"

section \<open>Evaluation (conditions.go)\<close>

definition negated :: "cond_error + bool \<Rightarrow> cond_error + bool" where
  "negated r = (case r of Inl e \<Rightarrow> Inl e | Inr b \<Rightarrow> Inr (\<not> b))"

definition evaluateConditionValue ::
  "golib \<Rightarrow> string \<Rightarrow> string \<Rightarrow> gval \<Rightarrow> gval \<Rightarrow> cond_error + bool" where
  "evaluateConditionValue L op key x y =
     (if op = ''StringEquals'' then evaluateStringEquals L x y False
      else if op = ''StringNotEquals'' then negated (evaluateStringEquals L x y False)
      else if op = ''StringEqualsIgnoreCase'' then evaluateStringEquals L x y True
      else if op = ''StringNotEqualsIgnoreCase'' then negated (evaluateStringEquals L x y True)
      else if op = ''StringLike'' then evaluateStringLike L x y False
      else if op = ''StringNotLike'' then evaluateStringLike L x y True
      else if op = ''NumericEquals'' then evaluateNumericEquals L x y
      else if op = ''NumericNotEquals'' then negated (evaluateNumericEquals L x y)
      else if op = ''NumericLessThan'' then evaluateNumericLessThan L x y False
      else if op = ''NumericLessThanEquals'' then evaluateNumericLessThan L x y True
      else if op = ''NumericGreaterThan'' then evaluateNumericGreaterThan L x y False
      else if op = ''NumericGreaterThanEquals'' then evaluateNumericGreaterThan L x y True
      else if op = ''DateEquals'' then evaluateDateEquals L x y
      else if op = ''DateNotEquals'' then negated (evaluateDateEquals L x y)
      else if op = ''DateLessThan'' then evaluateDateLessThan L x y False
      else if op = ''DateLessThanEquals'' then evaluateDateLessThan L x y True
      else if op = ''DateGreaterThan'' then evaluateDateGreaterThan L x y False
      else if op = ''DateGreaterThanEquals'' then evaluateDateGreaterThan L x y True
      else if op = ''IpAddress'' then evaluateIpAddress L x y False
      else if op = ''NotIpAddress'' then evaluateIpAddress L x y True
      else if op = ''Bool'' then evaluateBool x y
      else if op = ''Null'' then evaluateNull x y
      else Inl (UnknownOperator op))"

text \<open>A condition value after variable substitution; when a variable has no value, the value is
  used as it is written.\<close>

definition substituted_value :: "golib \<Rightarrow> cond_ctx \<Rightarrow> gval \<Rightarrow> gval" where
  "substituted_value L c v =
     (case c_varContext c of
        None \<Rightarrow> v
      | Some vc \<Rightarrow> (case SubstituteInterface L vc v of (v', None) \<Rightarrow> v' | (_, Some _) \<Rightarrow> v))"

definition evaluateSingleCondition ::
  "golib \<Rightarrow> cond_ctx \<Rightarrow> string \<Rightarrow> string \<Rightarrow> gval \<Rightarrow> cond_error + bool" where
  "evaluateSingleCondition L c op key v =
     (case getContextValue c key of
        Inl e \<Rightarrow> Inl e
      | Inr contextValue \<Rightarrow>
          (case substituted_value L c v of
             GAnys arr \<Rightarrow>
               Inr (list_ex (\<lambda>item. evaluateConditionValue L op key contextValue item = Inr True) arr)
           | GStrs arr \<Rightarrow>
               Inr (list_ex
                 (\<lambda>item. evaluateConditionValue L op key contextValue (GStr item) = Inr True) arr)
           | w \<Rightarrow> evaluateConditionValue L op key contextValue w))"

text \<open>The loop shape of both levels: the first error or the first failure ends it.\<close>

fun all_match :: "('a \<Rightarrow> cond_error + bool) \<Rightarrow> 'a list \<Rightarrow> cond_error + bool" where
  "all_match f [] = Inr True"
| "all_match f (x # xs) =
     (case f x of Inl e \<Rightarrow> Inl e | Inr b \<Rightarrow> if b then all_match f xs else Inr False)"

definition evaluateOperator :: "golib \<Rightarrow> cond_ctx \<Rightarrow> string \<Rightarrow> gval \<Rightarrow> cond_error + bool" where
  "evaluateOperator L c op keyValues =
     (case keyValues of
        GMap kvMap \<Rightarrow>
          all_match
            (\<lambda>(key, v). case evaluateSingleCondition L c op key v of
                Inl e \<Rightarrow> Inl (InKey key e) | Inr b \<Rightarrow> Inr b) kvMap
      | _ \<Rightarrow> Inl (NotAMapValue op))"

definition Evaluate :: "golib \<Rightarrow> cond_ctx \<Rightarrow> (string \<times> gval) list \<Rightarrow> cond_error + bool" where
  "Evaluate L c conditions =
     all_match
       (\<lambda>(op, kvs). case evaluateOperator L c op kvs of
           Inl e \<Rightarrow> Inl (InOperator op e) | Inr b \<Rightarrow> Inr b) conditions"

section \<open>Facts\<close>

lemma all_match_True: "all_match f xs = Inr True \<longleftrightarrow> (\<forall>x\<in>set xs. f x = Inr True)"
  by (induction xs) (auto split: sum.splits)

lemma evaluateOperator_True:
  "evaluateOperator L c op (GMap kvs) = Inr True \<longleftrightarrow>
     (\<forall>(k, v)\<in>set kvs. evaluateSingleCondition L c op k v = Inr True)"
  by (auto simp: evaluateOperator_def all_match_True split: sum.splits)

text \<open>A block passes exactly when every condition in it passes, whatever the order of the maps.\<close>

lemma Evaluate_True:
  "Evaluate L c conds = Inr True \<longleftrightarrow> (\<forall>(op, kvs)\<in>set conds. evaluateOperator L c op kvs = Inr True)"
  by (auto simp: Evaluate_def all_match_True split: sum.splits)

section \<open>Glob patterns\<close>

text \<open>What a glob pattern means, on runes: a star stands for any run of runes without a newline, a
  question mark for one rune that is not a newline, every other rune for itself.\<close>

function glob_match :: "nat list \<Rightarrow> nat list \<Rightarrow> bool" where
  "glob_match [] s \<longleftrightarrow> s = []"
| "glob_match (g # p) s \<longleftrightarrow>
     (if g = 42 then
        glob_match p s \<or> (case s of x # xs \<Rightarrow> x \<noteq> 10 \<and> glob_match (g # p) xs | [] \<Rightarrow> False)
      else case s of
             x # xs \<Rightarrow> (if g = 63 then x \<noteq> 10 else x = g) \<and> glob_match p xs
           | [] \<Rightarrow> False)"
  by pat_completeness auto
termination
  by (relation "measure (\<lambda>(p, s). length p + length s)") auto

lemma decode_rune_high:
  assumes "decode_rune (b # bs) = Some (r, n)" and "128 \<le> b"
  shows "128 \<le> r" and "n \<le> Suc (length bs)" and "\<forall>x\<in>set (take n (b # bs)). 128 \<le> x"
    and "0 < n" and "decode_rune (take n (b # bs) @ cs) = Some (r, n)"
  using assms
  by (auto split: if_splits list.splits simp: cont_byte_def)

lemma decode_rune_low: "b < 128 \<Longrightarrow> decode_rune (b # bs) = Some (b, 1)"
  by simp

lemma map_snd_range_runes: "map snd (range_runes i bs) = map snd (range_runes 0 bs)"
proof (induction bs arbitrary: i rule: measure_induct_rule[of length])
  case (less bs)
  show ?case
  proof (cases bs)
    case Nil
    then show ?thesis by simp
  next
    case (Cons b bs')
    then show ?thesis
      using less.IH[of "drop (snd (the (decode_rune bs)) - 1) bs'" "i + snd (the (decode_rune bs))"]
        less.IH[of "drop (snd (the (decode_rune bs)) - 1) bs'" "snd (the (decode_rune bs))"]
        less.IH[of bs' "Suc i"] less.IH[of bs' "Suc 0"]
      by (auto split: option.splits simp del: decode_rune.simps)
  qed
qed

definition rune_list :: "nat list \<Rightarrow> nat list" where
  "rune_list bs = map snd (range_runes 0 bs)"

lemma rune_list_Nil: "rune_list [] = []"
  by (simp add: rune_list_def)

lemma rune_list_Some:
  "decode_rune (b # bs) = Some (r, n) \<Longrightarrow> rune_list (b # bs) = r # rune_list (drop (n - 1) bs)"
  using map_snd_range_runes[of n "drop (n - 1) bs"] by (simp add: rune_list_def del: decode_rune.simps)

lemma rune_list_low: "b < 128 \<Longrightarrow> rune_list (b # bs) = b # rune_list bs"
  using rune_list_Some[OF decode_rune_low] by simp

lemma valid_low: "b < 128 \<Longrightarrow> valid_utf8_bytes (b # bs) = valid_utf8_bytes bs"
  by simp

definition glob_byte :: "nat \<Rightarrow> nat list" where
  "glob_byte b =
     (if b = 42 then [46, 42] else if b = 63 then [46]
      else if b \<in> set (map of_char regex_special) then [92, b] else [b])"

lemma special_low: "b \<in> set (map of_char regex_special) \<Longrightarrow> b < 128" for b :: nat
  by (auto simp: regex_special_def)

lemma glob_byte_high: "128 \<le> b \<Longrightarrow> glob_byte b = [b]"
  using special_low[of b] by (auto simp: glob_byte_def)

lemma glob_bytes_high: "\<forall>x\<in>set xs. 128 \<le> x \<Longrightarrow> concat (map glob_byte xs) = xs"
  by (induction xs) (auto simp: glob_byte_high)

lemma glob_byte_low: "b < 128 \<Longrightarrow> \<forall>x\<in>set (glob_byte b). x < 128"
  by (auto simp: glob_byte_def)

lemma rune_list_low_append:
  "\<forall>x\<in>set xs. x < 128 \<Longrightarrow> rune_list (xs @ ys) = xs @ rune_list ys \<and>
     valid_utf8_bytes (xs @ ys) = valid_utf8_bytes ys"
  by (induction xs) (auto simp: rune_list_low valid_low simp del: valid_utf8_bytes.simps)

text \<open>Converting the bytes of a valid pattern is converting its runes.\<close>

lemma glob_bytes_runes:
  "valid_utf8_bytes bs \<Longrightarrow>
     valid_utf8_bytes (concat (map glob_byte bs) @ [36]) \<and>
     rune_list (concat (map glob_byte bs) @ [36]) = concat (map glob_byte (rune_list bs)) @ [36]"
proof (induction bs rule: valid_utf8_bytes.induct)
  case 1
  then show ?case by (simp add: rune_list_low rune_list_Nil)
next
  case (2 b bs)
  from "2.prems" obtain r n where d: "decode_rune (b # bs) = Some (r, n)"
    and v: "valid_utf8_bytes (drop (n - 1) bs)"
    by (auto split: option.splits simp del: decode_rune.simps)
  note IH = "2.IH"[OF d refl v]
  note r = rune_list_Some[OF d]
  show ?case
  proof (cases "b < 128")
    case True
    with d have "r = b" "n = 1" by auto
    with IH r True show ?thesis
      using rune_list_low_append[OF glob_byte_low[OF True]] by simp
  next
    case False
    note h = decode_rune_high[OF d]
    have split: "b # bs = take n (b # bs) @ drop (n - 1) bs"
      using h(4) False by (cases n) auto
    have conc: "concat (map glob_byte (b # bs)) @ [36] =
        take n (b # bs) @ concat (map glob_byte (drop (n - 1) bs)) @ [36]" (is "_ = _ @ ?rest")
      using h(3) False glob_bytes_high[of "take n (b # bs)"]
      by (subst split) (simp del: take_Suc_Cons)
    obtain m where m: "n = Suc m" using h(4) False by (cases n) auto
    have d': "decode_rune (b # take m bs @ ?rest) = Some (r, n)"
      using h(5)[of ?rest] False m by simp
    have len: "length (take m bs) = n - 1" using h(2) False m by simp
    have "rune_list (b # take m bs @ ?rest) = r # rune_list ?rest"
      using rune_list_Some[OF d'] len by simp
    moreover have "valid_utf8_bytes (b # take m bs @ ?rest) = valid_utf8_bytes ?rest"
      using d' len by (simp del: decode_rune.simps)
    moreover have "glob_byte r = [r]" using h(1) False by (simp add: glob_byte_high)
    ultimately show ?thesis
      using IH r m unfolding conc by simp
  qed
qed

fun glob_item :: "nat \<Rightarrow> re" where
  "glob_item g = (if g = 42 then RStar else if g = 63 then RAny else RLit g)"

lemma special_runes:
  "of_char ` set regex_special = {46, 43, 40, 41, 124, 91, 93, 123, 125, 94, 36, 92 :: nat}"
  by (simp add: regex_special_def)

lemma parse_re_glob: "parse_re (concat (map glob_byte rs) @ [36]) = Some (map glob_item rs)"
proof (induction rs)
  case Nil
  then show ?case by simp
next
  case (Cons g rs)
  obtain x xs where x: "concat (map glob_byte rs) @ [36] = x # xs" "x \<noteq> 42"
  proof -
    have g: "glob_byte b \<noteq> [] \<and> hd (glob_byte b) \<noteq> 42" for b
      by (simp add: glob_byte_def)
    let ?t = "concat (map glob_byte rs) @ [36]"
    have "?t \<noteq> [] \<and> hd ?t \<noteq> 42"
      using g by (cases rs) auto
    then show thesis using that[of "hd ?t" "tl ?t"] by simp
  qed
  with Cons have IH: "parse_re (x # xs) = Some (map glob_item rs)" by simp
  have "parse_re (glob_byte g @ x # xs) = Some (glob_item g # map glob_item rs)"
    using IH x(2)
    by (cases "g = 42 \<or> g = 63 \<or> g \<in> set (map of_char regex_special)")
      (auto simp: glob_byte_def meta_rune_def special_runes simp del: parse_re.simps(2)
        simp: parse_re.simps(2)[of 46] parse_re.simps(2)[of 92] parse_re.simps(2)[of g])
  then show ?case by (simp add: x(1))
qed

lemma re_match_glob: "re_match (map glob_item p) s = glob_match p s"
  by (induction p s rule: glob_match.induct) (auto split: list.splits)

lemma bytes_globToRegex: "bytes (globToRegex p) = 94 # concat (map glob_byte (bytes p)) @ [36]"
proof -
  have star: "of_char c = (42 :: nat) \<longleftrightarrow> c = CHR ''*''" "of_char c = (63 :: nat) \<longleftrightarrow> c = CHR ''?''" for c
    using of_char_eq_iff[where ?'a = nat, of c "CHR ''*''"]
      of_char_eq_iff[where ?'a = nat, of c "CHR ''?''"]
    by (simp_all del: of_char_eq_iff)
  have "(of_char c :: nat) \<in> of_char ` set regex_special \<longleftrightarrow> c \<in> set regex_special" for c
    by (auto simp: inj_image_mem_iff)
  then have "map of_char (glob_char c) = glob_byte (of_char c)" for c
    using star[of c] unfolding glob_char_def glob_byte_def
    by (cases "c = CHR ''*''"; cases "c = CHR ''?''"; cases "c \<in> set regex_special") simp_all
  then have "map of_char (concat (map glob_char p)) = concat (map glob_byte (map of_char p))"
    by (induction p) auto
  then show ?thesis by (simp add: bytes_def globToRegex_def)
qed

lemma regexp_match_glob:
  assumes "valid_utf8 p"
  shows "regexp_match (globToRegex p) s = Some (glob_match (runes p) (runes s))"
proof -
  note g = glob_bytes_runes[OF assms[unfolded valid_utf8_def]]
  have v: "valid_utf8 (globToRegex p)"
    using g by (simp add: valid_utf8_def bytes_globToRegex)
  have r: "runes (globToRegex p) = 94 # concat (map glob_byte (runes p)) @ [36]"
    using g rune_list_low[of 94] by (simp add: runes_def rune_list_def bytes_globToRegex)
  show ?thesis
    unfolding regexp_match_def using v by (simp add: r parse_re_glob re_match_glob)
qed

end
