(* ===== verification/Matcher.thy ===== *)
theory Matcher
  imports Conditions
begin

text \<open>
  \<^verbatim>\<open>internal/policy/types.go\<close> and \<^verbatim>\<open>internal/policy/matcher.go\<close>: the request seen by the policy
  engine, and the evaluation of one statement. The pointers \<open>Principal\<close> and \<open>Resource\<close> of a
  request may be nil; where the code dereferences them without a check, the result \<open>None\<close> is the
  run-time panic.
\<close>

section \<open>Requests and decisions (types.go)\<close>

record principal =
  pr_user :: "iam_user option"
  pr_isAnonymous :: bool
  pr_isAdmin :: bool
  pr_isServiceAccount :: bool
  pr_parentUserUUID :: "uuid option"
  pr_policyMode :: string
  pr_embeddedPolicyJSON :: string

record resource =
  rs_bucket :: string
  rs_key :: string

record condition_context =
  cc_sourceIP :: string
  cc_userAgent :: string
  cc_secureTransport :: bool
  cc_currentTime :: time
  cc_contentLength :: int

record request_ctx =
  rq_principal :: "principal option"
  rq_action :: string
  rq_resource :: "resource option"
  rq_conditions :: "condition_context option"
  rq_varContext :: "var_ctx option"
  rq_bucketOwnerUUID :: "uuid option"
  rq_objectOwnerUUID :: "uuid option"

definition arn_prefix :: string where
  "arn_prefix = ''arn:aws:s3:::''"

definition ARN :: "resource \<Rightarrow> string" where
  "ARN r =
     (if rs_bucket r = '''' then ''*''
      else if rs_key r = '''' then arn_prefix @ rs_bucket r
      else arn_prefix @ rs_bucket r @ ''/'' @ rs_key r)"

datatype decision = DecisionDeny | DecisionAllow | DecisionExplicitDeny

fun decision_string :: "decision \<Rightarrow> string" where
  "decision_string DecisionAllow = ''Allow''"
| "decision_string DecisionExplicitDeny = ''ExplicitDeny''"
| "decision_string DecisionDeny = ''Deny''"

definition IsAllowed :: "decision \<Rightarrow> bool" where
  "IsAllowed d \<longleftrightarrow> d = DecisionAllow"

text \<open>The constants are declared with \<open>iota\<close>, in the order of their precedence.\<close>

fun decision_int :: "decision \<Rightarrow> nat" where
  "decision_int DecisionDeny = 0"
| "decision_int DecisionAllow = 1"
| "decision_int DecisionExplicitDeny = 2"

lemma decision_int_inject [simp]: "decision_int d = decision_int e \<longleftrightarrow> d = e"
  by (cases d; cases e) simp_all

instantiation decision :: linorder
begin

definition less_eq_decision :: "decision \<Rightarrow> decision \<Rightarrow> bool" where
  "d \<le> e \<longleftrightarrow> decision_int d \<le> decision_int e"

definition less_decision :: "decision \<Rightarrow> decision \<Rightarrow> bool" where
  "d < e \<longleftrightarrow> decision_int d < decision_int e"

instance
  by standard (auto simp: less_eq_decision_def less_decision_def)

end

instantiation decision :: order_bot
begin

definition bot_decision :: decision where
  "bot = DecisionDeny"

instance
  by standard (simp add: bot_decision_def less_eq_decision_def)

end

section \<open>Principals\<close>

definition matchUserARN :: "string \<Rightarrow> principal option \<Rightarrow> bool option" where
  "matchUserARN arn reqPrincipal =
     (case reqPrincipal of
        None \<Rightarrow> None
      | Some p \<Rightarrow>
          (if pr_isAnonymous p then Some False
           else case pr_user p of
                  None \<Rightarrow> Some False
                | Some u \<Rightarrow>
                    if has_prefix arn ''arn:aws:iam::'' \<and> str_contains arn '':user/'' then
                      (case str_split arn '':user/'' of
                         [_, username] \<Rightarrow> Some (u_accessKey u = username)
                       | _ \<Rightarrow> Some False)
                    else Some False))"

definition matchAWSPrincipal :: "gval \<Rightarrow> principal option \<Rightarrow> bool option" where
  "matchAWSPrincipal aws reqPrincipal =
     (case aws of
        GStr s \<Rightarrow> if s = ''*'' then Some True else matchUserARN s reqPrincipal
      | GAnys arr \<Rightarrow>
          any_opt (\<lambda>item. case as_str item of
              None \<Rightarrow> Some False
            | Some s \<Rightarrow> if s = ''*'' then Some True else matchUserARN s reqPrincipal) arr
      | GStrs arr \<Rightarrow>
          any_opt (\<lambda>s. if s = ''*'' then Some True else matchUserARN s reqPrincipal) arr
      | _ \<Rightarrow> Some False)"

definition matchPrincipal :: "gval \<Rightarrow> principal option \<Rightarrow> bool option" where
  "matchPrincipal stmtPrincipal reqPrincipal =
     (case stmtPrincipal of
        GStr s \<Rightarrow> Some (s = ''*'')
      | GMap m \<Rightarrow>
          (case map_of m ''AWS'' of
             Some aws \<Rightarrow> matchAWSPrincipal aws reqPrincipal
           | None \<Rightarrow> Some False)
      | _ \<Rightarrow> Some False)"

definition matchNotPrincipal :: "gval \<Rightarrow> principal option \<Rightarrow> bool option" where
  "matchNotPrincipal stmtNotPrincipal reqPrincipal =
     (if stmtNotPrincipal = GNil then Some True
      else map_option Not (matchPrincipal stmtNotPrincipal reqPrincipal))"

section \<open>Actions\<close>

definition matchSingleAction :: "string \<Rightarrow> string \<Rightarrow> bool" where
  "matchSingleAction pattern reqAction =
     (if pattern = reqAction then True
      else if pattern = ''*'' then True
      else case cut_suffix pattern ''*'' of
             Some before \<Rightarrow> has_prefix reqAction before
           | None \<Rightarrow> False)"

definition matchAction :: "gval \<Rightarrow> string \<Rightarrow> bool" where
  "matchAction stmtAction reqAction =
     (case stmtAction of
        GStr s \<Rightarrow> matchSingleAction s reqAction
      | GAnys arr \<Rightarrow>
          list_ex (\<lambda>item. case as_str item of
              Some s \<Rightarrow> matchSingleAction s reqAction | None \<Rightarrow> False) arr
      | GStrs arr \<Rightarrow> list_ex (\<lambda>s. matchSingleAction s reqAction) arr
      | _ \<Rightarrow> False)"

definition matchNotAction :: "gval \<Rightarrow> string \<Rightarrow> bool" where
  "matchNotAction stmtNotAction reqAction =
     (if stmtNotAction = GNil then True else \<not> matchAction stmtNotAction reqAction)"

section \<open>Resources\<close>

definition matchSingleResource :: "string \<Rightarrow> string \<Rightarrow> bool" where
  "matchSingleResource pattern reqARN =
     (if pattern = reqARN then True
      else if pattern = ''*'' then True
      else case cut_suffix pattern ''*'' of
             Some before \<Rightarrow> has_prefix reqARN before
           | None \<Rightarrow> False)"

definition matchResource :: "gval \<Rightarrow> resource option \<Rightarrow> bool option" where
  "matchResource stmtResource reqResource =
     (if stmtResource = GNil then Some False
      else case reqResource of
             None \<Rightarrow> None
           | Some r \<Rightarrow>
               (case stmtResource of
                  GStr s \<Rightarrow> Some (matchSingleResource s (ARN r))
                | GAnys arr \<Rightarrow>
                    Some (list_ex (\<lambda>item. case as_str item of
                        Some s \<Rightarrow> matchSingleResource s (ARN r) | None \<Rightarrow> False) arr)
                | GStrs arr \<Rightarrow> Some (list_ex (\<lambda>s. matchSingleResource s (ARN r)) arr)
                | _ \<Rightarrow> Some False))"

definition matchResourceWithVariables ::
  "golib \<Rightarrow> gval \<Rightarrow> resource option \<Rightarrow> var_ctx option \<Rightarrow> bool option" where
  "matchResourceWithVariables L stmtResource reqResource varCtx =
     (case varCtx of
        None \<Rightarrow> matchResource stmtResource reqResource
      | Some c \<Rightarrow>
          (case SubstituteInterface L c stmtResource of
             (_, Some err) \<Rightarrow> matchResource stmtResource reqResource
           | (substitutedResource, None) \<Rightarrow> matchResource substitutedResource reqResource))"

definition matchNotResource :: "gval \<Rightarrow> resource option \<Rightarrow> bool option" where
  "matchNotResource stmtNotResource reqResource =
     (if stmtNotResource = GNil then Some True
      else map_option Not (matchResource stmtNotResource reqResource))"

definition matchNotResourceWithVariables ::
  "golib \<Rightarrow> gval \<Rightarrow> resource option \<Rightarrow> var_ctx option \<Rightarrow> bool option" where
  "matchNotResourceWithVariables L stmtNotResource reqResource varCtx =
     (if stmtNotResource = GNil then Some True
      else map_option Not (matchResourceWithVariables L stmtNotResource reqResource varCtx))"

section \<open>Statements\<close>

text \<open>The four checks of \<open>evaluateStatement\<close>; a field that is nil falls back to its negated
  field, and a pair of nil fields restricts nothing.\<close>

definition principal_applies :: "statement \<Rightarrow> request_ctx \<Rightarrow> bool option" where
  "principal_applies stmt req =
     (if st_principal stmt \<noteq> GNil then matchPrincipal (st_principal stmt) (rq_principal req)
      else if st_notPrincipal stmt \<noteq> GNil
        then matchNotPrincipal (st_notPrincipal stmt) (rq_principal req)
      else Some True)"

definition action_applies :: "statement \<Rightarrow> request_ctx \<Rightarrow> bool" where
  "action_applies stmt req =
     (if st_action stmt \<noteq> GNil then matchAction (st_action stmt) (rq_action req)
      else if st_notAction stmt \<noteq> GNil then matchNotAction (st_notAction stmt) (rq_action req)
      else True)"

definition resource_applies :: "golib \<Rightarrow> statement \<Rightarrow> request_ctx \<Rightarrow> bool option" where
  "resource_applies L stmt req =
     (if st_resource stmt \<noteq> GNil
        then matchResourceWithVariables L (st_resource stmt) (rq_resource req) (rq_varContext req)
      else if st_notResource stmt \<noteq> GNil
        then matchNotResourceWithVariables L (st_notResource stmt) (rq_resource req)
               (rq_varContext req)
      else Some True)"

definition conditions_apply :: "golib \<Rightarrow> statement \<Rightarrow> request_ctx \<Rightarrow> bool" where
  "conditions_apply L stmt req =
     (if st_condition stmt \<noteq> [] then
        let secureTransport =
              (case rq_conditions req of Some c \<Rightarrow> cc_secureTransport c | None \<Rightarrow> False);
            contentLength = (case rq_conditions req of Some c \<Rightarrow> cc_contentLength c | None \<Rightarrow> 0);
            condCtx = Build L (rq_varContext req) secureTransport contentLength
        in (case Evaluate L condCtx (st_condition stmt) of Inl err \<Rightarrow> False | Inr match \<Rightarrow> match)
      else True)"

definition evaluateStatement :: "golib \<Rightarrow> statement \<Rightarrow> request_ctx \<Rightarrow> decision option" where
  "evaluateStatement L stmt req =
     do { p \<leftarrow> principal_applies stmt req;
          if \<not> p then Some DecisionDeny
          else if \<not> action_applies stmt req then Some DecisionDeny
          else do { r \<leftarrow> resource_applies L stmt req;
                    if \<not> r then Some DecisionDeny
                    else if \<not> conditions_apply L stmt req then Some DecisionDeny
                    else if st_effect stmt = ''Deny'' then Some DecisionExplicitDeny
                    else Some DecisionAllow } }"

section \<open>Facts\<close>

text \<open>Wildcards: a pattern matches itself, and a pattern that ends in a star matches every string
  that begins with what precedes the star. A star elsewhere is an ordinary character.\<close>

definition wildcard_match :: "string \<Rightarrow> string \<Rightarrow> bool" where
  "wildcard_match pattern s \<longleftrightarrow> s = pattern \<or> (\<exists>q. pattern = q @ ''*'' \<and> prefix q s)"

lemma matchSingleAction_iff: "matchSingleAction pattern s \<longleftrightarrow> wildcard_match pattern s"
  unfolding matchSingleAction_def wildcard_match_def
  by (auto simp: cut_suffix_Some cut_suffix_None has_prefix_iff suffix_def split: option.splits)

lemma matchSingleResource_iff: "matchSingleResource pattern s \<longleftrightarrow> wildcard_match pattern s"
  unfolding matchSingleResource_def wildcard_match_def
  by (auto simp: cut_suffix_Some cut_suffix_None has_prefix_iff suffix_def split: option.splits)

lemma list_ex_as_str:
  "list_ex (\<lambda>v. case as_str v of Some s \<Rightarrow> P s | None \<Rightarrow> False) vs \<longleftrightarrow>
     (\<exists>s\<in>set (List.map_filter as_str vs). P s)"
  by (force simp: list_ex_iff map_filter_def as_str_Some split: option.splits)

lemma matchAction_iff: "matchAction v a \<longleftrightarrow> (\<exists>s\<in>set (field_strings v). wildcard_match s a)"
  by (cases v) (auto simp: matchAction_def list_ex_as_str matchSingleAction_iff list_ex_iff)

lemma matchResource_iff:
  "matchResource v (Some r) = Some (\<exists>s\<in>set (field_strings v). wildcard_match s (ARN r))"
  by (cases v) (auto simp: matchResource_def list_ex_as_str matchSingleResource_iff list_ex_iff)

text \<open>With a principal and a resource nothing is dereferenced that is nil.\<close>

lemma matchUserARN_returns [no_panic]: "\<exists>b. matchUserARN arn (Some p) = Some b"
  by (auto simp: matchUserARN_def split: option.splits list.splits)

lemma any_opt_returns: "(\<And>x. x \<in> set xs \<Longrightarrow> \<exists>b. f x = Some b) \<Longrightarrow> \<exists>b. any_opt f xs = Some b"
proof (induction xs)
  case Nil
  then show ?case by simp
next
  case (Cons x xs)
  then obtain b c where "f x = Some b" "any_opt f xs = Some c" by (metis list.set_intros)
  then show ?case by simp
qed

lemma matchAWSPrincipal_returns [no_panic]: "\<exists>b. matchAWSPrincipal v (Some p) = Some b"
  by (cases v) (auto simp: matchAWSPrincipal_def matchUserARN_returns split: option.splits
      intro!: any_opt_returns)

lemma matchPrincipal_returns [no_panic]: "\<exists>b. matchPrincipal v (Some p) = Some b"
  by (cases v) (auto simp: matchPrincipal_def matchAWSPrincipal_returns split: option.splits)

lemma principal_applies_returns [no_panic]:
  assumes "rq_principal req = Some p"
  shows "\<exists>b. principal_applies stmt req = Some b"
proof -
  obtain b c where "matchPrincipal (st_principal stmt) (Some p) = Some b"
    "matchPrincipal (st_notPrincipal stmt) (Some p) = Some c"
    using matchPrincipal_returns by blast
  with assms show ?thesis by (simp add: principal_applies_def matchNotPrincipal_def)
qed

lemma resource_applies_returns [no_panic]:
  "rq_resource req = Some r \<Longrightarrow> \<exists>b. resource_applies L stmt req = Some b"
  by (auto simp: resource_applies_def matchNotResourceWithVariables_def matchResourceWithVariables_def
      matchResource_iff split: option.splits prod.splits)

text \<open>What it means that a statement applies to a request, and its effect.\<close>

definition applies :: "golib \<Rightarrow> statement \<Rightarrow> request_ctx \<Rightarrow> bool" where
  "applies L stmt req \<longleftrightarrow>
     principal_applies stmt req = Some True \<and> action_applies stmt req \<and>
     resource_applies L stmt req = Some True \<and> conditions_apply L stmt req"

definition effect_of :: "statement \<Rightarrow> decision" where
  "effect_of stmt = (if st_effect stmt = ''Deny'' then DecisionExplicitDeny else DecisionAllow)"

lemma evaluateStatement_applies:
  assumes "rq_principal req = Some p" and "rq_resource req = Some r"
  shows "evaluateStatement L stmt req =
           Some (if applies L stmt req then effect_of stmt else DecisionDeny)"
proof -
  obtain a b where "principal_applies stmt req = Some a" "resource_applies L stmt req = Some b"
    using principal_applies_returns[OF assms(1)] resource_applies_returns[OF assms(2)] by blast
  then show ?thesis by (simp add: evaluateStatement_def applies_def effect_of_def)
qed

end
