(* ===== verification/Engine.thy ===== *)
theory Engine
  imports Matcher "HOL-Library.AList"
begin

text \<open>
  \<^verbatim>\<open>internal/policy/{cache,engine,action_mapper}.go\<close> and the \<open>Resolver\<close> interface of
  \<^verbatim>\<open>resolver.go\<close>: the policy cache, the evaluation of a request against the bucket policy, the IAM
  policies and the ownership of the resource, and the table from routes to permissions. The
  read-write lock of the cache makes each of its methods one atomic step.
\<close>

section \<open>Cache (cache.go)\<close>

text \<open>The values are pointers: a bulk load may put nil under a key.\<close>

record cache =
  ca_bucketPolicies :: "(string \<times> policy_document option) list"
  ca_userPolicies :: "(string \<times> policy_document option list) list"

definition NewCache :: cache where
  "NewCache = \<lparr>ca_bucketPolicies = [], ca_userPolicies = []\<rparr>"

definition GetBucketPolicy :: "cache \<Rightarrow> string \<Rightarrow> policy_document option" where
  "GetBucketPolicy c bucket =
     (case map_of (ca_bucketPolicies c) bucket of Some d \<Rightarrow> d | None \<Rightarrow> None)"

definition SetBucketPolicy :: "cache \<Rightarrow> string \<Rightarrow> policy_document option \<Rightarrow> cache" where
  "SetBucketPolicy c bucket policy =
     (if policy = None then c\<lparr>ca_bucketPolicies := AList.delete bucket (ca_bucketPolicies c)\<rparr>
      else c\<lparr>ca_bucketPolicies := AList.update bucket policy (ca_bucketPolicies c)\<rparr>)"

definition LoadBucketPolicies :: "cache \<Rightarrow> (string \<times> policy_document option) list \<Rightarrow> cache" where
  "LoadBucketPolicies c policies = c\<lparr>ca_bucketPolicies := policies\<rparr>"

definition HasBucketPolicy :: "cache \<Rightarrow> string \<Rightarrow> bool" where
  "HasBucketPolicy c bucket \<longleftrightarrow> map_of (ca_bucketPolicies c) bucket \<noteq> None"

definition GetAllBucketPolicies :: "cache \<Rightarrow> (string \<times> policy_document option) list" where
  "GetAllBucketPolicies c = ca_bucketPolicies c"

definition BucketPolicyCount :: "cache \<Rightarrow> nat" where
  "BucketPolicyCount c = length (ca_bucketPolicies c)"

definition GetUserPolicies :: "cache \<Rightarrow> string \<Rightarrow> policy_document option list" where
  "GetUserPolicies c username =
     (case map_of (ca_userPolicies c) username of Some ds \<Rightarrow> ds | None \<Rightarrow> [])"

definition SetUserPolicies :: "cache \<Rightarrow> string \<Rightarrow> policy_document option list \<Rightarrow> cache" where
  "SetUserPolicies c username policies =
     (if policies = [] then c\<lparr>ca_userPolicies := AList.delete username (ca_userPolicies c)\<rparr>
      else c\<lparr>ca_userPolicies := AList.update username policies (ca_userPolicies c)\<rparr>)"

definition LoadUserPolicies :: "cache \<Rightarrow> (string \<times> policy_document option list) list \<Rightarrow> cache" where
  "LoadUserPolicies c policies = c\<lparr>ca_userPolicies := policies\<rparr>"

section \<open>Engine (engine.go)\<close>

text \<open>A value of the interface \<open>Resolver\<close> is a record of its methods; \<open>None\<close> is an error result.
  The document is a pointer, so it may be nil in a result without error.\<close>

record resolver =
  rv_GetPolicyDocument :: "string \<Rightarrow> policy_document option option"
  rv_GetUserPolicyNamesByUUID :: "uuid \<Rightarrow> string list option"
  rv_GetGroupPoliciesForUser :: "uuid \<Rightarrow> string list option"

record engine =
  e_cache :: cache
  e_resolver :: "resolver option"

definition NewEngine :: "resolver option \<Rightarrow> engine" where
  "NewEngine r = \<lparr>e_cache = NewCache, e_resolver = r\<rparr>"

fun evaluate_statements :: "golib \<Rightarrow> request_ctx \<Rightarrow> bool \<Rightarrow> statement list \<Rightarrow> decision option" where
  "evaluate_statements L req hasAllow [] =
     Some (if hasAllow then DecisionAllow else DecisionDeny)"
| "evaluate_statements L req hasAllow (stmt # rest) =
     do { result \<leftarrow> evaluateStatement L stmt req;
          if result = DecisionExplicitDeny then Some DecisionExplicitDeny
          else evaluate_statements L req (hasAllow \<or> result = DecisionAllow) rest }"

definition evaluatePolicy :: "golib \<Rightarrow> policy_document option \<Rightarrow> request_ctx \<Rightarrow> decision option" where
  "evaluatePolicy L policy req =
     do { pd \<leftarrow> policy; evaluate_statements L req False (pd_statement pd) }"

text \<open>\<open>unm\<close> is \<open>json.Unmarshal\<close> into a \<open>PolicyDocument\<close>; \<open>None\<close> is its error.\<close>

definition evaluateEmbeddedPolicy ::
  "golib \<Rightarrow> (string \<Rightarrow> policy_document option) \<Rightarrow> principal \<Rightarrow> request_ctx \<Rightarrow> decision option" where
  "evaluateEmbeddedPolicy L unm p req =
     (if pr_embeddedPolicyJSON p = '''' then Some DecisionDeny
      else case unm (pr_embeddedPolicyJSON p) of
             None \<Rightarrow> Some DecisionDeny
           | Some doc \<Rightarrow> evaluatePolicy L (Some doc) req)"

definition resolveEffectivePolicyNames :: "resolver \<Rightarrow> principal \<Rightarrow> string list" where
  "resolveEffectivePolicyNames rv p =
     (if \<not> pr_isServiceAccount p then
        (case pr_user p of
           None \<Rightarrow> []
         | Some u \<Rightarrow>
             (case rv_GetGroupPoliciesForUser rv (u_uuid u) of
                Some groupPolicies \<Rightarrow> u_attachedPolicies u @ groupPolicies
              | None \<Rightarrow> u_attachedPolicies u))
      else case pr_parentUserUUID p of
             None \<Rightarrow> []
           | Some parentUUID \<Rightarrow>
               (case rv_GetUserPolicyNamesByUUID rv parentUUID of
                  None \<Rightarrow> []
                | Some names \<Rightarrow>
                    (case rv_GetGroupPoliciesForUser rv parentUUID of
                       Some groupPolicies \<Rightarrow> names @ groupPolicies
                     | None \<Rightarrow> names)))"

fun evaluate_names :: "golib \<Rightarrow> resolver \<Rightarrow> request_ctx \<Rightarrow> string list \<Rightarrow> decision option" where
  "evaluate_names L rv req [] = Some DecisionDeny"
| "evaluate_names L rv req (nm # rest) =
     (case rv_GetPolicyDocument rv nm of
        None \<Rightarrow> evaluate_names L rv req rest
      | Some doc \<Rightarrow>
          do { d \<leftarrow> evaluatePolicy L doc req;
               if d \<noteq> DecisionDeny then Some d else evaluate_names L rv req rest })"

definition evaluateNamedPolicies ::
  "golib \<Rightarrow> engine \<Rightarrow> principal \<Rightarrow> request_ctx \<Rightarrow> decision option" where
  "evaluateNamedPolicies L e p req =
     (case e_resolver e of
        None \<Rightarrow> Some DecisionDeny
      | Some rv \<Rightarrow> evaluate_names L rv req (resolveEffectivePolicyNames rv p))"

definition evaluateIAMPolicies ::
  "golib \<Rightarrow> (string \<Rightarrow> policy_document option) \<Rightarrow> engine \<Rightarrow> principal \<Rightarrow> request_ctx
     \<Rightarrow> (decision \<times> bool) option" where
  "evaluateIAMPolicies L unm e p req =
     (if pr_isServiceAccount p \<and> pr_policyMode p = PolicyModeOverride then
        do { d \<leftarrow> evaluateEmbeddedPolicy L unm p req; Some (d, True) }
      else
        do { d \<leftarrow> evaluateNamedPolicies L e p req; Some (d, d \<noteq> DecisionDeny) })"

definition checkBucketPolicy :: "golib \<Rightarrow> engine \<Rightarrow> resource \<Rightarrow> request_ctx \<Rightarrow> decision option" where
  "checkBucketPolicy L e res req =
     (case GetBucketPolicy (e_cache e) (rs_bucket res) of
        None \<Rightarrow> Some DecisionDeny
      | Some pd \<Rightarrow> evaluatePolicy L (Some pd) req)"

definition checkOwnership :: "request_ctx \<Rightarrow> bool" where
  "checkOwnership req =
     (case rq_principal req of
        None \<Rightarrow> False
      | Some p \<Rightarrow>
          (case pr_user p of
             None \<Rightarrow> False
           | Some u \<Rightarrow>
               (case rq_resource req of
                  None \<Rightarrow> False
                | Some res \<Rightarrow>
                    if rs_key res \<noteq> '''' \<and> rq_objectOwnerUUID req = Some (u_uuid u) then True
                    else rq_bucketOwnerUUID req = Some (u_uuid u))))"

definition EngineEvaluate ::
  "golib \<Rightarrow> (string \<Rightarrow> policy_document option) \<Rightarrow> engine \<Rightarrow> request_ctx \<Rightarrow> decision option" where
  "EngineEvaluate L unm e req =
     (if (case rq_principal req of Some p \<Rightarrow> pr_isAdmin p | None \<Rightarrow> False) then Some DecisionAllow
      else do {
        b \<leftarrow> (case rq_resource req of
                Some res \<Rightarrow> if rs_bucket res \<noteq> '''' then checkBucketPolicy L e res req
                             else Some DecisionDeny
              | None \<Rightarrow> Some DecisionDeny);
        if b \<noteq> DecisionDeny then Some b
        else case rq_principal req of
               None \<Rightarrow> Some DecisionDeny
             | Some p \<Rightarrow>
                 if pr_isAnonymous p then Some DecisionDeny
                 else do {
                   (d, final) \<leftarrow> evaluateIAMPolicies L unm e p req;
                   if final then Some d
                   else if checkOwnership req then Some DecisionAllow
                   else Some DecisionDeny } })"

text \<open>The lifecycle methods.\<close>

definition EngineLoadBucketPolicies :: "engine \<Rightarrow> (string \<times> policy_document option) list \<Rightarrow> engine" where
  "EngineLoadBucketPolicies e policies = e\<lparr>e_cache := LoadBucketPolicies (e_cache e) policies\<rparr>"

definition UpdateBucketPolicy :: "engine \<Rightarrow> string \<Rightarrow> policy_document option \<Rightarrow> engine" where
  "UpdateBucketPolicy e bucket policy = e\<lparr>e_cache := SetBucketPolicy (e_cache e) bucket policy\<rparr>"

definition EngineDeleteBucketPolicy :: "engine \<Rightarrow> string \<Rightarrow> engine" where
  "EngineDeleteBucketPolicy e bucket = e\<lparr>e_cache := SetBucketPolicy (e_cache e) bucket None\<rparr>"

section \<open>Action mapper (action_mapper.go)\<close>

definition buildActionMappings :: "(string \<times> string list) list" where
  "buildActionMappings =
     [(''s3:ListBuckets'', [''s3:ListAllMyBuckets'']),
      (''s3:HeadBucket'', [''s3:ListBucket'']),
      (''s3:ListObjects'', [''s3:ListBucket'']),
      (''s3:ListObjectsV2'', [''s3:ListBucket'']),
      (''s3:ListObjectVersions'', [''s3:ListBucketVersions'']),
      (''s3:ListMultipartUploads'', [''s3:ListBucketMultipartUploads'']),
      (''s3:DeleteObjects'', [''s3:DeleteObject'']),
      (''s3:HeadObject'', [''s3:GetObject'']),
      (''s3:CopyObject'', [''s3:GetObject'', ''s3:PutObject'']),
      (''s3:UploadPartCopy'', [''s3:GetObject'', ''s3:PutObject'']),
      (''s3:CreateMultipartUpload'', [''s3:PutObject'']),
      (''s3:UploadPart'', [''s3:PutObject'']),
      (''s3:CompleteMultipartUpload'', [''s3:PutObject'']),
      (''s3:ListParts'', [''s3:ListMultipartUploadParts''])]"

definition buildMultiResourceActions :: "(string \<times> bool) list" where
  "buildMultiResourceActions = [(''s3:CopyObject'', True), (''s3:UploadPartCopy'', True)]"

definition GetRequiredPermissions :: "string \<Rightarrow> string list" where
  "GetRequiredPermissions action =
     (case map_of buildActionMappings action of Some perms \<Rightarrow> perms | None \<Rightarrow> [action])"

definition IsMultiResourceAction :: "string \<Rightarrow> bool" where
  "IsMultiResourceAction action =
     (case map_of buildMultiResourceActions action of Some b \<Rightarrow> b | None \<Rightarrow> False)"

section \<open>Facts\<close>

lemmas cache_defs =
  GetBucketPolicy_def SetBucketPolicy_def LoadBucketPolicies_def HasBucketPolicy_def

lemma GetBucketPolicy_Set:
  "GetBucketPolicy (SetBucketPolicy c b pol) b' = (if b' = b then pol else GetBucketPolicy c b')"
  by (auto simp: cache_defs AList.update_conv' AList.delete_conv')

lemma HasBucketPolicy_Set:
  "HasBucketPolicy (SetBucketPolicy c b pol) b' \<longleftrightarrow>
     (if b' = b then pol \<noteq> None else HasBucketPolicy c b')"
  by (auto simp: cache_defs AList.update_conv' AList.delete_conv')

lemma SetBucketPolicy_wf:
  "wf_map (ca_bucketPolicies c) \<Longrightarrow> wf_map (ca_bucketPolicies (SetBucketPolicy c b pol))"
  by (auto simp: cache_defs AList.distinct_update AList.distinct_delete)

text \<open>The decision of a document is the largest decision of its statements in the order
  Deny, Allow, ExplicitDeny.\<close>

definition statement_decision :: "golib \<Rightarrow> request_ctx \<Rightarrow> statement \<Rightarrow> decision" where
  "statement_decision L req stmt =
     (if applies L stmt req then effect_of stmt else DecisionDeny)"

fun max_list :: "decision list \<Rightarrow> decision" where
  "max_list [] = DecisionDeny"
| "max_list (d # ds) = max d (max_list ds)"

lemma DecisionDeny_least [simp]: "DecisionDeny \<le> d" "max DecisionDeny d = d" "max d DecisionDeny = d"
  by (cases d; simp add: less_eq_decision_def max_def)+

lemma DecisionExplicitDeny_greatest [simp]:
  "d \<le> DecisionExplicitDeny" "max DecisionExplicitDeny d = DecisionExplicitDeny"
  "max d DecisionExplicitDeny = DecisionExplicitDeny"
  by (cases d; simp add: less_eq_decision_def max_def)+

lemma max_list_Max: "max_list ds = Max (insert DecisionDeny (set ds))"
proof (induction ds)
  case Nil
  then show ?case by simp
next
  case (Cons d ds)
  have "Max (insert DecisionDeny (set (d # ds))) = Max (insert d (insert DecisionDeny (set ds)))"
    by (simp add: insert_commute)
  also have "\<dots> = max d (Max (insert DecisionDeny (set ds)))"
    by (rule Max_insert) auto
  finally show ?case by (simp add: Cons.IH)
qed

lemma evaluate_statements_max:
  assumes "rq_principal req = Some p" and "rq_resource req = Some r"
  shows "evaluate_statements L req h sts =
           Some (max (if h then DecisionAllow else DecisionDeny)
                     (max_list (map (statement_decision L req) sts)))"
proof (induction sts arbitrary: h)
  case Nil
  then show ?case by simp
next
  case (Cons s sts)
  have s: "evaluateStatement L s req = Some (statement_decision L req s)"
    by (simp add: evaluateStatement_applies[OF assms] statement_decision_def)
  show ?case
    by (cases "statement_decision L req s") (auto simp: s Cons.IH max.assoc max.left_idem)
qed

lemma evaluatePolicy_max_list:
  assumes "rq_principal req = Some p" and "rq_resource req = Some r"
  shows "evaluatePolicy L (Some pd) req =
           Some (max_list (map (statement_decision L req) (pd_statement pd)))"
  by (simp add: evaluatePolicy_def evaluate_statements_max[OF assms])

text \<open>The three outcomes in terms of the statements that apply.\<close>

definition denies :: "golib \<Rightarrow> policy_document \<Rightarrow> request_ctx \<Rightarrow> bool" where
  "denies L pd req \<longleftrightarrow> (\<exists>s\<in>set (pd_statement pd). applies L s req \<and> st_effect s = ''Deny'')"

definition allows :: "golib \<Rightarrow> policy_document \<Rightarrow> request_ctx \<Rightarrow> bool" where
  "allows L pd req \<longleftrightarrow> (\<exists>s\<in>set (pd_statement pd). applies L s req \<and> st_effect s \<noteq> ''Deny'')"

lemma max_list_cases:
  "max_list ds =
     (if DecisionExplicitDeny \<in> set ds then DecisionExplicitDeny
      else if DecisionAllow \<in> set ds then DecisionAllow else DecisionDeny)"
proof (induction ds)
  case Nil
  then show ?case by simp
next
  case (Cons d ds)
  then show ?case by (cases d) auto
qed

lemma evaluatePolicy_cases:
  assumes "rq_principal req = Some p" and "rq_resource req = Some r"
  shows "evaluatePolicy L (Some pd) req =
           Some (if denies L pd req then DecisionExplicitDeny
                 else if allows L pd req then DecisionAllow else DecisionDeny)"
  unfolding evaluatePolicy_max_list[OF assms] max_list_cases
  by (auto simp: denies_def allows_def statement_decision_def effect_of_def image_iff split: if_splits)

end
