(* ===== verification/PolicyProps.thy ===== *)
theory PolicyProps
  imports Engine PolicyTypes
begin

text \<open>
  Properties of the policy engine: what the decision on a request is, and for which reasons a
  request can be allowed. The interface between the engine and the store of the IAM policies is
  the locale \<open>policy_resolver\<close>.
\<close>

section \<open>Reasons for a decision\<close>

definition bucket_document :: "engine \<Rightarrow> request_ctx \<Rightarrow> policy_document option" where
  "bucket_document e req =
     (case rq_resource req of
        None \<Rightarrow> None
      | Some r \<Rightarrow> if rs_bucket r = '''' then None else GetBucketPolicy (e_cache e) (rs_bucket r))"

definition bucket_allows :: "golib \<Rightarrow> engine \<Rightarrow> request_ctx \<Rightarrow> bool" where
  "bucket_allows L e req \<longleftrightarrow>
     (\<exists>pd. bucket_document e req = Some pd \<and> allows L pd req \<and> \<not> denies L pd req)"

definition bucket_denies :: "golib \<Rightarrow> engine \<Rightarrow> request_ctx \<Rightarrow> bool" where
  "bucket_denies L e req \<longleftrightarrow> (\<exists>pd. bucket_document e req = Some pd \<and> denies L pd req)"

text \<open>The documents that the effective policy names of a principal resolve to, in order.\<close>

definition named_documents :: "resolver \<Rightarrow> string list \<Rightarrow> policy_document list" where
  "named_documents rv names = List.map_filter (\<lambda>nm. Option.bind (rv_GetPolicyDocument rv nm) id) names"

definition iam_documents :: "engine \<Rightarrow> principal \<Rightarrow> policy_document list" where
  "iam_documents e p =
     (case e_resolver e of
        None \<Rightarrow> []
      | Some rv \<Rightarrow> named_documents rv (resolveEffectivePolicyNames rv p))"

definition override_mode :: "principal \<Rightarrow> bool" where
  "override_mode p \<longleftrightarrow> pr_isServiceAccount p \<and> pr_policyMode p = PolicyModeOverride"

definition embedded_allows ::
  "golib \<Rightarrow> (string \<Rightarrow> policy_document option) \<Rightarrow> principal \<Rightarrow> request_ctx \<Rightarrow> bool" where
  "embedded_allows L unm p req \<longleftrightarrow>
     (\<exists>pd. unm (pr_embeddedPolicyJSON p) = Some pd \<and> allows L pd req \<and> \<not> denies L pd req)"

text \<open>A resolver that never answers with a nil document and no error.\<close>

definition resolver_sound :: "resolver \<Rightarrow> bool" where
  "resolver_sound rv \<longleftrightarrow> (\<forall>nm. rv_GetPolicyDocument rv nm \<noteq> Some None)"

definition engine_sound :: "engine \<Rightarrow> bool" where
  "engine_sound e \<longleftrightarrow> (\<forall>rv. e_resolver e = Some rv \<longrightarrow> resolver_sound rv)"

section \<open>Evaluation in terms of documents\<close>

definition doc_decision :: "golib \<Rightarrow> request_ctx \<Rightarrow> policy_document \<Rightarrow> decision" where
  "doc_decision L req pd =
     (if denies L pd req then DecisionExplicitDeny
      else if allows L pd req then DecisionAllow else DecisionDeny)"

text \<open>The first decision that is not the default one.\<close>

fun first_decision :: "decision list \<Rightarrow> decision" where
  "first_decision [] = DecisionDeny"
| "first_decision (d # ds) = (if d \<noteq> DecisionDeny then d else first_decision ds)"

lemma evaluate_names_first:
  assumes "rq_principal req = Some p" "rq_resource req = Some r" "resolver_sound rv"
  shows "evaluate_names L rv req names =
           Some (first_decision (map (doc_decision L req) (named_documents rv names)))"
proof (induction names)
  case Nil
  then show ?case by (simp add: named_documents_def map_filter_def)
next
  case (Cons nm names)
  show ?case
  proof (cases "rv_GetPolicyDocument rv nm")
    case None
    with Cons show ?thesis by (simp add: named_documents_def map_filter_def)
  next
    case (Some doc)
    with assms(3) obtain pd where pd: "doc = Some pd" by (cases doc) (auto simp: resolver_sound_def)
    have d: "evaluatePolicy L (Some pd) req = Some (doc_decision L req pd)"
      by (simp add: evaluatePolicy_cases[OF assms(1,2)] doc_decision_def)
    have n: "named_documents rv (nm # names) = pd # named_documents rv names"
      by (simp add: named_documents_def map_filter_def Some pd)
    show ?thesis by (simp add: n Some pd d Cons)
  qed
qed

definition bucket_decision :: "golib \<Rightarrow> engine \<Rightarrow> request_ctx \<Rightarrow> decision" where
  "bucket_decision L e req =
     (case bucket_document e req of Some pd \<Rightarrow> doc_decision L req pd | None \<Rightarrow> DecisionDeny)"

definition iam_decision ::
  "golib \<Rightarrow> (string \<Rightarrow> policy_document option) \<Rightarrow> engine \<Rightarrow> principal \<Rightarrow> request_ctx \<Rightarrow> decision" where
  "iam_decision L unm e p req =
     (if override_mode p then
        (if pr_embeddedPolicyJSON p = '''' then DecisionDeny
         else case unm (pr_embeddedPolicyJSON p) of
                Some pd \<Rightarrow> doc_decision L req pd | None \<Rightarrow> DecisionDeny)
      else first_decision (map (doc_decision L req) (iam_documents e p)))"

text \<open>The whole evaluation for a request with a principal and a resource.\<close>

lemma EngineEvaluate_steps:
  assumes "rq_principal req = Some p" "rq_resource req = Some r" "engine_sound e"
  shows "EngineEvaluate L unm e req = Some
    (if pr_isAdmin p then DecisionAllow
     else if bucket_decision L e req \<noteq> DecisionDeny then bucket_decision L e req
     else if pr_isAnonymous p then DecisionDeny
     else if override_mode p \<or> iam_decision L unm e p req \<noteq> DecisionDeny
       then iam_decision L unm e p req
     else if checkOwnership req then DecisionAllow else DecisionDeny)"
proof -
  have ev: "evaluatePolicy L (Some pd) req = Some (doc_decision L req pd)" for pd
    by (simp add: evaluatePolicy_cases[OF assms(1,2)] doc_decision_def)
  have b: "(if rs_bucket r \<noteq> '''' then checkBucketPolicy L e r req else Some DecisionDeny) =
      Some (bucket_decision L e req)"
    by (auto simp: checkBucketPolicy_def bucket_decision_def bucket_document_def assms(2) ev
        split: option.splits)
  have emb: "override_mode p \<Longrightarrow>
      evaluateEmbeddedPolicy L unm p req = Some (iam_decision L unm e p req)"
    by (auto simp: evaluateEmbeddedPolicy_def iam_decision_def ev split: option.splits)
  have nam: "\<not> override_mode p \<Longrightarrow>
      evaluateNamedPolicies L e p req = Some (iam_decision L unm e p req)"
    using assms(3)
    by (auto simp: evaluateNamedPolicies_def iam_decision_def iam_documents_def engine_sound_def
        evaluate_names_first[OF assms(1,2)] split: option.splits)
  have iam: "evaluateIAMPolicies L unm e p req =
      Some (iam_decision L unm e p req, override_mode p \<or> iam_decision L unm e p req \<noteq> DecisionDeny)"
    using emb nam by (auto simp: evaluateIAMPolicies_def override_mode_def)
  show ?thesis
    using b by (auto simp: EngineEvaluate_def assms(1,2) iam split: if_splits)
qed

lemma doc_decision_simps:
  "doc_decision L req pd = DecisionAllow \<longleftrightarrow> allows L pd req \<and> \<not> denies L pd req"
  "doc_decision L req pd = DecisionExplicitDeny \<longleftrightarrow> denies L pd req"
  "doc_decision L req pd = DecisionDeny \<longleftrightarrow> \<not> allows L pd req \<and> \<not> denies L pd req"
  by (auto simp: doc_decision_def)

lemma bucket_decision_simps:
  "bucket_decision L e req = DecisionAllow \<longleftrightarrow> bucket_allows L e req"
  "bucket_decision L e req = DecisionExplicitDeny \<longleftrightarrow> bucket_denies L e req"
  by (auto simp: bucket_decision_def bucket_allows_def bucket_denies_def doc_decision_simps
      split: option.splits)

lemma first_decision_in: "first_decision ds = d \<Longrightarrow> d \<noteq> DecisionDeny \<Longrightarrow> d \<in> set ds"
  by (induction ds) (auto split: if_splits)

lemma first_decision_Deny: "first_decision ds = DecisionDeny \<longleftrightarrow> set ds \<subseteq> {DecisionDeny}"
  by (induction ds) auto

lemma first_decision_Max:
  "DecisionExplicitDeny \<notin> set ds \<Longrightarrow> first_decision ds = max_list ds"
proof (induction ds)
  case Nil
  then show ?case by simp
next
  case (Cons d ds)
  then show ?case by (cases d) (auto simp: max_list_cases)
qed

lemma iam_decision_Allow:
  "iam_decision L unm e p req = DecisionAllow \<Longrightarrow>
     (override_mode p \<and> pr_embeddedPolicyJSON p \<noteq> '''' \<and> embedded_allows L unm p req) \<or>
     (\<not> override_mode p \<and> (\<exists>pd\<in>set (iam_documents e p). allows L pd req \<and> \<not> denies L pd req))"
  by (auto simp: iam_decision_def embedded_allows_def doc_decision_simps
      split: if_splits option.splits dest!: first_decision_in)
    (metis doc_decision_simps(1))

section \<open>The resolver interface\<close>

text \<open>What the engine needs from the store behind a \<open>Resolver\<close>: in every reachable state a
  successful lookup gives a document.\<close>

locale policy_resolver =
  fixes resolver_inv :: "'s \<Rightarrow> bool"
    and resolve :: "'s \<Rightarrow> resolver"
  assumes document_not_nil:
    "resolver_inv s \<Longrightarrow> rv_GetPolicyDocument (resolve s) nm = Some d \<Longrightarrow> d \<noteq> None"
begin

lemma sound: "resolver_inv s \<Longrightarrow> engine_sound \<lparr>e_cache = c, e_resolver = Some (resolve s)\<rparr>"
  using document_not_nil by (force simp: engine_sound_def resolver_sound_def)

lemma evaluation_returns:
  assumes "resolver_inv s" "rq_principal req = Some p" "rq_resource req = Some r"
  shows "\<exists>d. EngineEvaluate L unm \<lparr>e_cache = c, e_resolver = Some (resolve s)\<rparr> req = Some d"
  using EngineEvaluate_steps[OF assms(2,3) sound[OF assms(1)]] by blast

end


section \<open>Properties\<close>

text \<open>A policy document decides by the strictest statement that applies: the result of
  \<open>evaluatePolicy\<close> is the maximum, in the order Deny, Allow, ExplicitDeny, over the statements of
  the document, so it does not depend on their order.\<close>

theorem evaluatePolicy_is_max:
  assumes "rq_principal req = Some p" and "rq_resource req = Some r"
  shows "evaluatePolicy L (Some pd) req =
           Some (Max (insert DecisionDeny (statement_decision L req ` set (pd_statement pd))))"
  using evaluatePolicy_max_list[OF assms] by (simp add: max_list_Max)

text \<open>C1. A request is allowed only for one of five reasons: the administrator; the bucket policy
  allows and does not deny; a service account in override mode whose embedded policy allows;
  another authenticated principal one of whose effective IAM policies allows; or the ownership of
  the object or of the bucket. The last three need an authenticated principal and a bucket policy
  that does not deny.\<close>

theorem allow_sound:
  assumes "rq_principal req = Some p" and "rq_resource req = Some r" and "engine_sound e"
    and "EngineEvaluate L unm e req = Some DecisionAllow"
  shows "pr_isAdmin p \<or> bucket_allows L e req \<or>
    (\<not> pr_isAnonymous p \<and> \<not> bucket_denies L e req \<and>
      (override_mode p \<and> embedded_allows L unm p req \<or>
       \<not> override_mode p \<and>
        ((\<exists>pd\<in>set (iam_documents e p). allows L pd req \<and> \<not> denies L pd req) \<or>
         checkOwnership req)))"
  using assms(4) iam_decision_Allow[of L unm e p req]
  unfolding EngineEvaluate_steps[OF assms(1-3)]
  by (auto simp: bucket_decision_simps[symmetric] split: if_splits)

text \<open>A deny statement of the bucket policy that applies ends the evaluation of every request
  that is not the administrator's, whatever the IAM policies, the embedded policy and the owners.\<close>

theorem bucket_deny_wins:
  assumes "rq_principal req = Some p" and "rq_resource req = Some r" and "engine_sound e"
    and "\<not> pr_isAdmin p" and "bucket_denies L e req"
  shows "EngineEvaluate L unm e req = Some DecisionExplicitDeny"
  using assms(4,5) unfolding EngineEvaluate_steps[OF assms(1-3)] bucket_decision_simps[symmetric]
  by simp

text \<open>The administrator is allowed everything, also without a resource and whatever the
  policies say.\<close>

theorem admin_bypass:
  assumes "rq_principal req = Some p" and "pr_isAdmin p"
  shows "EngineEvaluate L unm e req = Some DecisionAllow"
  using assms by (simp add: EngineEvaluate_def)

text \<open>An anonymous request is decided by the bucket policy alone.\<close>

theorem anonymous_bucket_policy_only:
  assumes "rq_principal req = Some p" and "rq_resource req = Some r" and "engine_sound e"
    and "pr_isAnonymous p" and "\<not> pr_isAdmin p"
  shows "EngineEvaluate L unm e req = Some (bucket_decision L e req)"
  using assms(4,5) unfolding EngineEvaluate_steps[OF assms(1-3)] by simp

text \<open>A service account in override mode gets no grant from its parent, its groups or its own
  ownership: two engines with the same bucket policies but any resolvers, and two requests that
  differ in the owners only, decide alike.\<close>

theorem override_confined:
  assumes "rq_principal req = Some p" and "rq_resource req = Some r"
    and "engine_sound e" and "engine_sound e'" and "e_cache e' = e_cache e"
    and "override_mode p" and "\<not> pr_isAdmin p"
    and "EngineEvaluate L unm e req = Some DecisionAllow"
  shows "(bucket_allows L e req \<or> embedded_allows L unm p req) \<and>
    EngineEvaluate L unm e' req = Some DecisionAllow"
proof -
  have same: "bucket_decision L e' req = bucket_decision L e req"
    "iam_decision L unm e' p req = iam_decision L unm e p req"
    unfolding bucket_decision_def bucket_document_def iam_decision_def assms(5)
    using assms(6) by simp_all
  show ?thesis
    using assms(6-8) iam_decision_Allow[of L unm e p req] same
    unfolding EngineEvaluate_steps[OF assms(1-3)] EngineEvaluate_steps[OF assms(1,2,4)]
    by (auto simp: bucket_decision_simps[symmetric] split: if_splits)
qed

text \<open>The intended meaning of a set of policies: an explicit deny in any of them wins, then an
  allow in any of them, then ownership.\<close>

definition combined_decision ::
  "golib \<Rightarrow> engine \<Rightarrow> principal \<Rightarrow> request_ctx \<Rightarrow> decision" where
  "combined_decision L e p req =
     (let docs = (case bucket_document e req of Some pd \<Rightarrow> [pd] | None \<Rightarrow> []) @ iam_documents e p
      in if (\<exists>pd\<in>set docs. denies L pd req) then DecisionExplicitDeny
         else if (\<exists>pd\<in>set docs. allows L pd req) \<or> checkOwnership req then DecisionAllow
         else DecisionDeny)"

text \<open>C6. As long as no IAM policy denies the request, the evaluation in stages computes the
  combined decision of all policies for every authenticated principal outside override mode; in
  particular the order of the attached policies does not matter.\<close>

theorem staged_evaluation_combined:
  assumes "rq_principal req = Some p" and "rq_resource req = Some r" and "engine_sound e"
    and "\<not> pr_isAdmin p" and "\<not> pr_isAnonymous p" and "\<not> override_mode p"
    and "\<forall>pd\<in>set (iam_documents e p). \<not> denies L pd req"
  shows "EngineEvaluate L unm e req = Some (combined_decision L e p req)"
proof -
  have "iam_decision L unm e p req = max_list (map (doc_decision L req) (iam_documents e p))"
    using assms(6,7)
    by (auto simp: iam_decision_def doc_decision_def split: if_splits intro!: first_decision_Max)
  also have "\<dots> = (if \<exists>pd\<in>set (iam_documents e p). allows L pd req then DecisionAllow else DecisionDeny)"
    using assms(7) by (auto simp: max_list_cases doc_decision_def image_iff split: if_splits)
  finally show ?thesis
    using assms(4-7) unfolding EngineEvaluate_steps[OF assms(1-3)]
    by (auto simp: combined_decision_def bucket_decision_def doc_decision_def Let_def
        split: option.splits)
qed

text \<open>Deviation from the combined decision, first kind: an allow of the bucket policy ends the
  evaluation before the IAM policies are read, so an explicit deny in an IAM policy of the
  principal has no effect.\<close>

theorem bucket_allow_hides_iam_deny:
  assumes "rq_principal req = Some p" and "rq_resource req = Some r" and "engine_sound e"
    and "bucket_allows L e req"
    and "pd \<in> set (iam_documents e p)" and "denies L pd req"
  shows "EngineEvaluate L unm e req = Some DecisionAllow \<and>
         combined_decision L e p req = DecisionExplicitDeny"
proof
  show "EngineEvaluate L unm e req = Some DecisionAllow"
    using assms(4) unfolding EngineEvaluate_steps[OF assms(1-3)] bucket_decision_simps[symmetric]
    by simp
  show "combined_decision L e p req = DecisionExplicitDeny"
    using assms(5,6) by (auto simp: combined_decision_def Let_def)
qed

text \<open>Deviation, second kind: among the IAM policies the first one that decides wins, so an
  allow of an earlier policy hides the explicit deny of every later one.\<close>

theorem earlier_allow_hides_later_deny:
  assumes "rq_principal req = Some p" and "rq_resource req = Some r" and "engine_sound e"
    and "\<not> pr_isAdmin p" and "\<not> pr_isAnonymous p" and "\<not> override_mode p"
    and "bucket_decision L e req = DecisionDeny"
    and "iam_documents e p = before @ pd # after"
    and "\<forall>d\<in>set before. doc_decision L req d = DecisionDeny"
    and "doc_decision L req pd = DecisionAllow"
  shows "EngineEvaluate L unm e req = Some DecisionAllow"
proof -
  have "first_decision (map (doc_decision L req) (before @ pd # after)) = DecisionAllow"
    using assms(9) by (induction before) (auto simp: assms(10))
  then show ?thesis
    using assms(4-8) unfolding EngineEvaluate_steps[OF assms(1-3)]
    by (simp add: iam_decision_def)
qed

text \<open>Whether a condition block passes does not depend on the order in which Go iterates over
  its two levels of maps.\<close>

theorem conditions_order_independent:
  assumes "mset (map (\<lambda>(op, v). (op, case v of GMap kvs \<Rightarrow> Some (mset kvs) | _ \<Rightarrow> None)) cs) =
           mset (map (\<lambda>(op, v). (op, case v of GMap kvs \<Rightarrow> Some (mset kvs) | _ \<Rightarrow> None)) cs')"
  shows "Evaluate L c cs = Inr True \<longleftrightarrow> Evaluate L c cs' = Inr True"
proof -
  let ?f = "\<lambda>(op, v). (op :: string, case v of GMap kvs \<Rightarrow> Some (mset kvs) | _ \<Rightarrow> None)"
  let ?ok = "\<lambda>(op, m). \<exists>kvs. m = Some (mset kvs) \<and>
      (\<forall>(k, v)\<in>set_mset (mset kvs). evaluateSingleCondition L c op k v = Inr True)"
  have one: "(case x of (op, v) \<Rightarrow> evaluateOperator L c op v = Inr True) \<longleftrightarrow> ?ok (?f x)" for x
  proof (cases x)
    case (Pair op v)
    have "(evaluateOperator L c op v = Inr True) \<longleftrightarrow> ?ok (?f (op, v))"
    proof (cases v)
      case (GMap kvs)
      then show ?thesis
        by (auto simp: evaluateOperator_True dest!: mset_eq_setD)
    qed (simp_all add: evaluateOperator_def)
    with Pair show ?thesis by simp
  qed
  have "set (map ?f cs) = set (map ?f cs')"
    using assms by (rule mset_eq_setD)
  then have "(\<forall>y\<in>set (map ?f cs). ?ok y) \<longleftrightarrow> (\<forall>y\<in>set (map ?f cs'). ?ok y)"
    by simp
  then show ?thesis
    by (simp add: Evaluate_True one)
qed


section \<open>Instances\<close>

text \<open>A concrete environment, in which the properties above are instantiated.\<close>

definition ex_lib :: golib where
  "ex_lib =
     \<lparr>gl_now = 1, gl_time_string = (\<lambda>_. ''t''), gl_time_rfc3339 = (\<lambda>_. ''t''),
      gl_parse_time = (\<lambda>_ _. None), gl_ip_string = (\<lambda>_. ''ip''), gl_parse_ip = (\<lambda>_. None),
      gl_parse_cidr = (\<lambda>_. None), gl_parse_float = (\<lambda>_. None), gl_sprint_float = (\<lambda>_. ''0''),
      gl_equal_fold = (=)\<rparr>"

definition ex_statement :: "string \<Rightarrow> string \<Rightarrow> statement" where
  "ex_statement effect action =
     \<lparr>st_sid = '''', st_effect = effect, st_principal = GNil, st_notPrincipal = GNil,
      st_action = GStr action, st_notAction = GNil, st_resource = GStr ''arn:aws:s3:::b/*'',
      st_notResource = GNil, st_condition = []\<rparr>"

definition ex_doc :: "string \<Rightarrow> policy_document" where
  "ex_doc effect = \<lparr>pd_version = ''v'', pd_id = '''', pd_statement = [ex_statement effect ''s3:Get*'']\<rparr>"

definition ex_user :: iam_user where
  "ex_user =
     \<lparr>u_version = ''1.0.0'', u_uuid = 7, u_username = ''alice'', u_accessKey = ''AK'',
      u_secretKey = ''SK'', u_status = ''on'', u_updatedAt = 1,
      u_attachedPolicies = [''first'', ''second'']\<rparr>"

definition ex_principal :: principal where
  "ex_principal =
     \<lparr>pr_user = Some ex_user, pr_isAnonymous = False, pr_isAdmin = False,
      pr_isServiceAccount = False, pr_parentUserUUID = None, pr_policyMode = '''',
      pr_embeddedPolicyJSON = ''''\<rparr>"

definition ex_override :: principal where
  "ex_override =
     ex_principal\<lparr>pr_isServiceAccount := True, pr_policyMode := ''override'',
       pr_embeddedPolicyJSON := ''json''\<rparr>"

definition ex_request :: "principal \<Rightarrow> request_ctx" where
  "ex_request p =
     \<lparr>rq_principal = Some p, rq_action = ''s3:GetObject'',
      rq_resource = Some \<lparr>rs_bucket = ''b'', rs_key = ''k''\<rparr>, rq_conditions = None,
      rq_varContext = None, rq_bucketOwnerUUID = None, rq_objectOwnerUUID = None\<rparr>"

text \<open>The policy \<open>first\<close> allows and \<open>second\<close> denies.\<close>

definition ex_resolver :: resolver where
  "ex_resolver =
     \<lparr>rv_GetPolicyDocument =
        (\<lambda>nm. if nm = ''first'' then Some (Some (ex_doc ''Allow''))
              else if nm = ''second'' then Some (Some (ex_doc ''Deny'')) else None),
      rv_GetUserPolicyNamesByUUID = (\<lambda>_. None), rv_GetGroupPoliciesForUser = (\<lambda>_. None)\<rparr>"

definition ex_engine :: "string list \<Rightarrow> resolver option \<Rightarrow> engine" where
  "ex_engine effects rv =
     \<lparr>e_cache = \<lparr>ca_bucketPolicies = map (\<lambda>x. (''b'', Some (ex_doc x))) effects,
        ca_userPolicies = []\<rparr>, e_resolver = rv\<rparr>"

definition ex_unmarshal :: "string \<Rightarrow> policy_document option" where
  "ex_unmarshal s = (if s = ''json'' then Some (ex_doc ''Allow'') else None)"

lemmas ex_defs = ex_lib_def ex_statement_def ex_doc_def ex_user_def ex_principal_def
  ex_override_def ex_request_def ex_resolver_def ex_engine_def ex_unmarshal_def

lemma ex_engine_sound: "rv \<in> {None, Some ex_resolver} \<Longrightarrow> engine_sound (ex_engine effects rv)"
  by (auto simp: engine_sound_def resolver_sound_def ex_engine_def ex_resolver_def split: if_splits)

lemma ex_request_simps [simp]:
  "rq_principal (ex_request p) = Some p"
  "rq_resource (ex_request p) = Some \<lparr>rs_bucket = ''b'', rs_key = ''k''\<rparr>"
  by (simp_all add: ex_request_def)

lemma ex_applies: "applies ex_lib (ex_statement effect ''s3:Get*'') (ex_request p)"
  by (simp add: applies_def principal_applies_def action_applies_def resource_applies_def
      conditions_apply_def ex_statement_def ex_request_def matchAction_iff wildcard_match_def
      matchResourceWithVariables_def matchResource_iff ARN_def arn_prefix_def prefix_def)

lemma ex_doc_decides:
  "denies ex_lib (ex_doc effect) (ex_request p) \<longleftrightarrow> effect = ''Deny''"
  "allows ex_lib (ex_doc effect) (ex_request p) \<longleftrightarrow> effect \<noteq> ''Deny''"
  by (simp_all add: denies_def allows_def ex_doc_def ex_applies) (simp_all add: ex_statement_def)

lemma ex_bucket_document:
  "bucket_document (ex_engine effects rv) (ex_request p) = map_option ex_doc (List.find (\<lambda>_. True) effects)"
  by (cases effects)
    (simp_all add: bucket_document_def ex_engine_def GetBucketPolicy_def)

lemma ex_iam_documents:
  "iam_documents (ex_engine effects (Some ex_resolver)) ex_principal = [ex_doc ''Allow'', ex_doc ''Deny'']"
  by (simp add: iam_documents_def ex_engine_def named_documents_def map_filter_def
      resolveEffectivePolicyNames_def ex_principal_def ex_user_def ex_resolver_def)

lemmas ex_facts = ex_doc_decides ex_bucket_document ex_iam_documents bucket_decision_def
  doc_decision_def bucket_allows_def bucket_denies_def

theorem evaluatePolicy_is_max_witness:
  "evaluatePolicy ex_lib (Some (ex_doc ''Allow'')) (ex_request ex_principal) =
     Some (Max (insert DecisionDeny
       (statement_decision ex_lib (ex_request ex_principal) ` set (pd_statement (ex_doc ''Allow'')))))"
  by (rule evaluatePolicy_is_max[OF ex_request_simps])

theorem allow_sound_witness:
  "bucket_allows ex_lib (ex_engine [''Allow''] None) (ex_request ex_principal) \<or>
   checkOwnership (ex_request ex_principal)"
proof -
  have "EngineEvaluate ex_lib ex_unmarshal (ex_engine [''Allow''] None) (ex_request ex_principal) =
      Some DecisionAllow"
    by code_simp
  from allow_sound[OF ex_request_simps(1,2) ex_engine_sound this] show ?thesis
    by (auto simp: iam_documents_def ex_engine_def ex_principal_def override_mode_def)
qed

theorem bucket_deny_wins_witness:
  "EngineEvaluate ex_lib ex_unmarshal (ex_engine [''Deny''] None) (ex_request ex_principal) =
     Some DecisionExplicitDeny"
  by (rule bucket_deny_wins[OF ex_request_simps ex_engine_sound])
    (simp_all add: ex_facts, simp add: ex_principal_def)

theorem admin_bypass_witness:
  "EngineEvaluate ex_lib ex_unmarshal (ex_engine [''Deny''] None)
     (ex_request (ex_principal\<lparr>pr_isAdmin := True\<rparr>)) = Some DecisionAllow"
  by (rule admin_bypass[OF ex_request_simps(1)]) simp

theorem anonymous_bucket_policy_only_witness:
  "EngineEvaluate ex_lib ex_unmarshal (ex_engine [''Allow''] None)
     (ex_request (ex_principal\<lparr>pr_isAnonymous := True\<rparr>)) =
   Some (bucket_decision ex_lib (ex_engine [''Allow''] None)
     (ex_request (ex_principal\<lparr>pr_isAnonymous := True\<rparr>)))"
  by (rule anonymous_bucket_policy_only[OF ex_request_simps ex_engine_sound])
    (simp_all add: ex_principal_def)

theorem override_confined_witness:
  "embedded_allows ex_lib ex_unmarshal ex_override (ex_request ex_override) \<and>
   EngineEvaluate ex_lib ex_unmarshal (ex_engine [] (Some ex_resolver)) (ex_request ex_override) =
     Some DecisionAllow"
proof -
  have "EngineEvaluate ex_lib ex_unmarshal (ex_engine [] None) (ex_request ex_override) =
      Some DecisionAllow"
    by code_simp
  from override_confined[OF ex_request_simps(1,2) ex_engine_sound ex_engine_sound _ _ _ this,
      of "Some ex_resolver" "[]"]
  show ?thesis
    by (simp add: ex_override_def ex_principal_def override_mode_def)
      (simp add: ex_engine_def ex_facts bucket_document_def GetBucketPolicy_def)
qed

theorem staged_evaluation_combined_witness:
  "EngineEvaluate ex_lib ex_unmarshal (ex_engine [''Allow''] None) (ex_request ex_principal) =
     Some (combined_decision ex_lib (ex_engine [''Allow''] None) ex_principal (ex_request ex_principal))"
  by (rule staged_evaluation_combined[OF ex_request_simps ex_engine_sound])
    (simp_all add: ex_principal_def override_mode_def iam_documents_def ex_engine_def)

theorem bucket_allow_hides_iam_deny_witness:
  "EngineEvaluate ex_lib ex_unmarshal (ex_engine [''Allow''] (Some ex_resolver))
     (ex_request ex_principal) = Some DecisionAllow \<and>
   combined_decision ex_lib (ex_engine [''Allow''] (Some ex_resolver)) ex_principal
     (ex_request ex_principal) = DecisionExplicitDeny"
  by (rule bucket_allow_hides_iam_deny[OF ex_request_simps ex_engine_sound, where pd = "ex_doc ''Deny''"])
    (simp_all add: ex_facts)

theorem earlier_allow_hides_later_deny_witness:
  "EngineEvaluate ex_lib ex_unmarshal (ex_engine [] (Some ex_resolver)) (ex_request ex_principal) =
     Some DecisionAllow"
  by (rule earlier_allow_hides_later_deny[OF ex_request_simps ex_engine_sound,
        where before = "[]" and pd = "ex_doc ''Allow''" and after = "[ex_doc ''Deny'']"])
    (simp_all add: ex_facts, simp_all add: ex_principal_def override_mode_def)

theorem conditions_order_independent_witness:
  "Evaluate ex_lib (Build ex_lib None True 5)
     [(''Bool'', GMap [(''aws:SecureTransport'', GStr ''true'')]),
      (''StringEquals'', GMap [(''s3:prefix'', GStr ''''), (''s3:delimiter'', GStr ''/'')])] = Inr True
   \<longleftrightarrow>
   Evaluate ex_lib (Build ex_lib None True 5)
     [(''StringEquals'', GMap [(''s3:delimiter'', GStr ''/''), (''s3:prefix'', GStr '''')]),
      (''Bool'', GMap [(''aws:SecureTransport'', GStr ''true'')])] = Inr True"
  by (rule conditions_order_independent) (simp add: add_mset_commute)


end
