(* ===== verification/Authz.thy ===== *)
theory Authz
  imports PolicyProps
begin

text \<open>
  \<^verbatim>\<open>internal/policy/middleware.go\<close>: the authorization middleware, which turns an HTTP request into
  one or two evaluations of the policy engine, and the parsing of the copy source in
  \<^verbatim>\<open>CopyObject\<close> of \<^verbatim>\<open>internal/http/api/s3/object.go\<close>, which has to agree with it.
  The metadata manager is seen through its two ownership lookups; writing the log line and the
  response body is left out.
\<close>

section \<open>Building the request\<close>

record admin_keys =
  ak_primary :: string
  ak_alt :: string

text \<open>\<open>None\<close> is an error of \<open>GetBucketMetadata\<close> or \<open>GetObjectMetadata\<close>.\<close>

record owner_lookup =
  ol_bucketOwner :: "string \<Rightarrow> uuid option option"
  ol_objectOwner :: "string \<Rightarrow> string \<Rightarrow> uuid option option"

definition isAdmin :: "iam_user option \<Rightarrow> string \<Rightarrow> string \<Rightarrow> bool" where
  "isAdmin user rootAccessKey altRootAccessKey =
     (case user of
        None \<Rightarrow> False
      | Some u \<Rightarrow>
          u_accessKey u = rootAccessKey \<or>
          (altRootAccessKey \<noteq> '''' \<and> u_accessKey u = altRootAccessKey))"

definition extractClientIP :: "http_request \<Rightarrow> string" where
  "extractClientIP r =
     (let forwarded = r_header r ''X-Forwarded-For''; addr = r_remoteAddr r
      in if forwarded \<noteq> '''' then trim_space (hd (str_split forwarded '',''))
         else case last_index_char addr CHR '':'' of
                None \<Rightarrow> addr
              | Some idx \<Rightarrow>
                  (if has_prefix addr ''['' then
                     (case last_index_char addr CHR '']'' of
                        Some bracketIdx \<Rightarrow>
                          if bracketIdx < idx then drop 1 (take bracketIdx addr) else take idx addr
                      | None \<Rightarrow> take idx addr)
                   else take idx addr))"

definition parseCopySource :: "http_request \<Rightarrow> string \<times> string" where
  "parseCopySource r =
     (let copySource = r_header r ''X-Amz-Copy-Source''
      in if copySource = '''' then ('''', '''')
         else case str_split2 (trim_prefix copySource ''/'') ''/'' of
                (bucket, None) \<Rightarrow> (bucket, '''')
              | (bucket, Some key) \<Rightarrow> (bucket, key))"

definition fetchOwnership ::
  "owner_lookup option \<Rightarrow> string \<Rightarrow> string \<Rightarrow> uuid option \<times> uuid option" where
  "fetchOwnership mgr bucket key =
     (case mgr of
        None \<Rightarrow> (None, None)
      | Some m \<Rightarrow>
          ((if bucket \<noteq> '''' then (case ol_bucketOwner m bucket of Some ow \<Rightarrow> ow | None \<Rightarrow> None)
            else None),
           (if bucket \<noteq> '''' \<and> key \<noteq> '''' then
              (case ol_objectOwner m bucket key of Some ow \<Rightarrow> ow | None \<Rightarrow> None)
            else None)))"

definition build_principal :: "http_request \<Rightarrow> admin_keys \<Rightarrow> principal" where
  "build_principal r keys =
     (let p = \<lparr>pr_user = r_user r, pr_isAnonymous = (r_anonymous r \<or> r_user r = None),
               pr_isAdmin = isAdmin (r_user r) (ak_primary keys) (ak_alt keys),
               pr_isServiceAccount = False, pr_parentUserUUID = None, pr_policyMode = '''',
               pr_embeddedPolicyJSON = ''''\<rparr>
      in case r_saInfo r of
           None \<Rightarrow> p
         | Some i \<Rightarrow>
             p\<lparr>pr_isServiceAccount := True, pr_parentUserUUID := si_parentUserUUID i,
               pr_policyMode := si_policyMode i, pr_embeddedPolicyJSON := si_embeddedPolicyJSON i\<rparr>)"

definition build_conditions :: "golib \<Rightarrow> http_request \<Rightarrow> condition_context" where
  "build_conditions L r =
     \<lparr>cc_sourceIP = extractClientIP r, cc_userAgent = r_header r ''User-Agent'',
      cc_secureTransport = r_tls r, cc_currentTime = gl_now L,
      cc_contentLength = r_contentLength r\<rparr>"

definition authz_request ::
  "golib \<Rightarrow> owner_lookup option \<Rightarrow> principal \<Rightarrow> http_request \<Rightarrow> string \<Rightarrow> string \<Rightarrow> string
     \<Rightarrow> request_ctx" where
  "authz_request L mgr p r permission bucket key =
     (let (bucketOwnerUUID, objectOwnerUUID) = fetchOwnership mgr bucket key
      in \<lparr>rq_principal = Some p, rq_action = permission,
          rq_resource = Some \<lparr>rs_bucket = bucket, rs_key = key\<rparr>,
          rq_conditions = Some (build_conditions L r), rq_varContext = Some (FromRequest L r),
          rq_bucketOwnerUUID = bucketOwnerUUID, rq_objectOwnerUUID = objectOwnerUUID\<rparr>)"

section \<open>The middleware\<close>

definition evaluateMultiResourceAction ::
  "golib \<Rightarrow> (string \<Rightarrow> policy_document option) \<Rightarrow> engine \<Rightarrow> owner_lookup option \<Rightarrow> principal
     \<Rightarrow> http_request \<Rightarrow> string list \<Rightarrow> string \<Rightarrow> string \<Rightarrow> decision option" where
  "evaluateMultiResourceAction L unm e mgr p r permissions destBucket destKey =
     (let (sourceBucket, sourceKey) = parseCopySource r
      in if sourceBucket = '''' then Some DecisionDeny
         else do {
           sourceDecision \<leftarrow>
             EngineEvaluate L unm e (authz_request L mgr p r (permissions ! 0) sourceBucket sourceKey);
           if \<not> IsAllowed sourceDecision then Some sourceDecision
           else do {
             destDecision \<leftarrow>
               EngineEvaluate L unm e (authz_request L mgr p r (permissions ! 1) destBucket destKey);
             if \<not> IsAllowed destDecision then Some destDecision else Some DecisionAllow } })"

text \<open>The middleware calls the next handler, with the value of the log field and the decision it
  leaves in the request context, or answers with AccessDenied.\<close>

datatype authz_outcome = Next "string option" "decision option" | AccessDenied

definition AuthorizationMiddleware ::
  "golib \<Rightarrow> (string \<Rightarrow> policy_document option) \<Rightarrow> engine \<Rightarrow> owner_lookup option \<Rightarrow> admin_keys
     \<Rightarrow> http_request \<Rightarrow> authz_outcome option" where
  "AuthorizationMiddleware L unm e mgr keys r =
     (let routeAction = r_action r
      in if routeAction = '''' \<or> \<not> has_prefix routeAction ''s3:'' then Some (Next None None)
         else
           let p = build_principal r keys
           in if pr_isAdmin p then Some (Next (Some ''allow'') None)
              else
                let requiredPermissions = GetRequiredPermissions routeAction;
                    bucket = r_bucket r; key = r_key r
                in if IsMultiResourceAction routeAction then
                     do { d \<leftarrow> evaluateMultiResourceAction L unm e mgr p r requiredPermissions bucket key;
                          if \<not> IsAllowed d then Some AccessDenied
                          else Some (Next (Some ''allow'') None) }
                   else
                     do { d \<leftarrow> EngineEvaluate L unm e
                                 (authz_request L mgr p r (requiredPermissions ! 0) bucket key);
                          if \<not> IsAllowed d then Some AccessDenied
                          else Some (Next (Some ''allow'') (Some d)) })"

text \<open>The first part of the handler \<open>CopyObject\<close>: the source it will read, \<open>None\<close> when it answers
  with an invalid request error.\<close>

definition CopyObject_source :: "http_request \<Rightarrow> (string \<times> string) option" where
  "CopyObject_source r =
     (let copySource = r_header r ''X-Amz-Copy-Source''
      in if copySource = '''' then None
         else case str_split2 (trim_prefix copySource ''/'') ''/'' of
                (sourceBucket, None) \<Rightarrow> None
              | (sourceBucket, Some sourceKey) \<Rightarrow> Some (sourceBucket, sourceKey))"

section \<open>Facts\<close>

lemma authz_request_simps [simp]:
  "rq_principal (authz_request L mgr p r perm b k) = Some p"
  "rq_resource (authz_request L mgr p r perm b k) = Some \<lparr>rs_bucket = b, rs_key = k\<rparr>"
  "rq_action (authz_request L mgr p r perm b k) = perm"
  by (simp_all add: authz_request_def split: prod.splits)

lemma IsMultiResourceAction_iff:
  "IsMultiResourceAction a \<longleftrightarrow> a \<in> {''s3:CopyObject'', ''s3:UploadPartCopy''}"
  by (simp add: IsMultiResourceAction_def buildMultiResourceActions_def)

lemma multi_resource_permissions:
  "IsMultiResourceAction a \<Longrightarrow> GetRequiredPermissions a = [''s3:GetObject'', ''s3:PutObject'']"
  by (auto simp: IsMultiResourceAction_iff GetRequiredPermissions_def buildActionMappings_def)

lemma engine_returns:
  "engine_sound e \<Longrightarrow> \<exists>d. EngineEvaluate L unm e (authz_request L mgr p r perm b k) = Some d"
  using EngineEvaluate_steps[OF authz_request_simps(1,2)] by blast

definition s3_route :: "http_request \<Rightarrow> bool" where
  "s3_route r \<longleftrightarrow> has_prefix (r_action r) ''s3:''"

lemma s3_route_nonempty: "s3_route r \<Longrightarrow> r_action r \<noteq> ''''"
  by (auto simp: s3_route_def has_prefix_def)

text \<open>What the evaluation of a permission on a resource says.\<close>

definition permitted ::
  "golib \<Rightarrow> (string \<Rightarrow> policy_document option) \<Rightarrow> engine \<Rightarrow> owner_lookup option \<Rightarrow> principal
     \<Rightarrow> http_request \<Rightarrow> string \<Rightarrow> string \<Rightarrow> string \<Rightarrow> bool" where
  "permitted L unm e mgr p r perm bucket key \<longleftrightarrow>
     EngineEvaluate L unm e (authz_request L mgr p r perm bucket key) = Some DecisionAllow"

lemma multi_resource_allows:
  "evaluateMultiResourceAction L unm e mgr p r [pa, pb] b k = Some DecisionAllow \<longleftrightarrow>
     (\<exists>sb sk. parseCopySource r = (sb, sk) \<and> sb \<noteq> '''' \<and>
       permitted L unm e mgr p r pa sb sk \<and> permitted L unm e mgr p r pb b k)"
  by (cases "parseCopySource r")
    (auto simp: evaluateMultiResourceAction_def permitted_def IsAllowed_def bind_eq_Some_conv
      split: if_splits)

section \<open>Properties\<close>

lemma middleware_next:
  assumes "AuthorizationMiddleware L unm e mgr keys r = Some (Next lg dec)" and "s3_route r"
  shows "let p = build_principal r keys in
    pr_isAdmin p \<or>
    (if IsMultiResourceAction (r_action r)
     then \<exists>sb sk. parseCopySource r = (sb, sk) \<and> sb \<noteq> '''' \<and>
            permitted L unm e mgr p r ''s3:GetObject'' sb sk \<and>
            permitted L unm e mgr p r ''s3:PutObject'' (r_bucket r) (r_key r)
     else permitted L unm e mgr p r (hd (GetRequiredPermissions (r_action r)))
            (r_bucket r) (r_key r))"
proof -
  have ne: "GetRequiredPermissions a \<noteq> []" for a
    by (auto simp: GetRequiredPermissions_def buildActionMappings_def split: if_splits option.splits)
  show ?thesis
    using assms s3_route_nonempty[OF assms(2)] multi_resource_permissions[of "r_action r"]
    by (auto simp: AuthorizationMiddleware_def s3_route_def Let_def bind_eq_Some_conv IsAllowed_def
        hd_conv_nth[OF ne] permitted_def multi_resource_allows[unfolded permitted_def]
        split: if_splits)
qed

text \<open>On an S3 route the next handler runs only for the administrator, or when the engine
  allows the permission of the route on the addressed resource; on a copy route, when it allows
  reading the copy source and writing the destination.\<close>

theorem middleware_safe:
  assumes "AuthorizationMiddleware L unm e mgr keys r = Some (Next lg dec)" and "s3_route r"
  shows "let p = build_principal r keys in
    pr_isAdmin p \<or>
    (if IsMultiResourceAction (r_action r)
     then \<exists>sb sk. parseCopySource r = (sb, sk) \<and> sb \<noteq> '''' \<and>
            permitted L unm e mgr p r ''s3:GetObject'' sb sk \<and>
            permitted L unm e mgr p r ''s3:PutObject'' (r_bucket r) (r_key r)
     else permitted L unm e mgr p r (hd (GetRequiredPermissions (r_action r)))
            (r_bucket r) (r_key r))"
  by (rule middleware_next[OF assms])

text \<open>The middleware does not panic: with a resolver that never answers with a nil document
  every request is passed on or denied.\<close>

theorem middleware_returns:
  assumes "engine_sound e"
  shows "\<exists>out. AuthorizationMiddleware L unm e mgr keys r = Some out"
proof -
  have ev: "\<exists>d. EngineEvaluate L unm e (authz_request L mgr p r perm b k) = Some d" for p perm b k
    by (rule engine_returns[OF assms])
  have "\<exists>d. evaluateMultiResourceAction L unm e mgr p r perms b k = Some d" for p perms b k
  proof -
    obtain sb sk where s: "parseCopySource r = (sb, sk)" by fastforce
    obtain d1 d2 where
      "EngineEvaluate L unm e (authz_request L mgr p r (perms ! 0) sb sk) = Some d1"
      "EngineEvaluate L unm e (authz_request L mgr p r (perms ! 1) b k) = Some d2"
      using ev by blast
    with s show ?thesis by (simp add: evaluateMultiResourceAction_def)
  qed
  moreover note ev
  ultimately obtain f g where
    "\<And>p perms b k. evaluateMultiResourceAction L unm e mgr p r perms b k = Some (f p perms b k)"
    "\<And>p perm b k. EngineEvaluate L unm e (authz_request L mgr p r perm b k) = Some (g p perm b k)"
    by metis
  then show ?thesis
    by (simp add: AuthorizationMiddleware_def Let_def)
qed

text \<open>The object that the copy handler reads is the object whose reading the middleware
  checked: both take the same bucket and key from the header.\<close>

theorem copy_checked_source:
  assumes "CopyObject_source r = Some (sourceBucket, sourceKey)"
  shows "parseCopySource r = (sourceBucket, sourceKey)"
  using assms by (auto simp: CopyObject_source_def parseCopySource_def Let_def
      split: if_splits prod.splits option.splits)

text \<open>The bulk deletion is authorized once, on the bucket itself: a deny statement whose
  resources are objects of the bucket never applies to it, whatever the keys in the request.\<close>

theorem bulk_delete_ignores_object_denies:
  assumes "r_action r = ''s3:DeleteObjects''" and "r_key r = ''''" and "r_bucket r \<noteq> ''''"
    and "st_resource stmt = GStr (arn_prefix @ r_bucket r @ ''/'' @ path)"
    and "\<not> HasVariables (arn_prefix @ r_bucket r @ ''/'' @ path)"
  shows "\<not> applies L stmt (authz_request L mgr p r (hd (GetRequiredPermissions (r_action r)))
           (r_bucket r) (r_key r))"
proof -
  let ?arn = "arn_prefix @ r_bucket r @ ''/'' @ path"
  have "\<not> wildcard_match ?arn (arn_prefix @ r_bucket r)"
  proof
    assume "wildcard_match ?arn (arn_prefix @ r_bucket r)"
    then obtain q where q: "?arn = q @ ''*''" "prefix q (arn_prefix @ r_bucket r)"
      by (auto simp: wildcard_match_def)
    have "length path \<le> 0"
      using prefix_length_le[OF q(2)] arg_cong[OF q(1), of length]
      unfolding length_append list.size by arith
    then have "path = []" by simp
    with q(1) arg_cong[OF q(1), of last] show False by simp
  qed
  then have "\<not> matchSingleResource ?arn (arn_prefix @ r_bucket r)"
    by (simp add: matchSingleResource_iff)
  then show ?thesis
    using assms by (simp add: applies_def resource_applies_def matchResourceWithVariables_def
        SubstituteInterface_def Substitute_no_variables matchResource_def ARN_def
        split: option.splits)
qed

section \<open>Instances\<close>

definition ex_http :: "string \<Rightarrow> string \<Rightarrow> string \<Rightarrow> http_request" where
  "ex_http action key source =
     \<lparr>r_header = (\<lambda>h. if h = ''X-Amz-Copy-Source'' then source else ''''),
      r_remoteAddr = ''10.0.0.1:99'', r_tls = False, r_contentLength = 0, r_user = Some ex_user,
      r_anonymous = False, r_saInfo = None, r_action = action, r_bucket = ''b'', r_key = key\<rparr>"

definition ex_keys :: admin_keys where
  "ex_keys = \<lparr>ak_primary = ''root'', ak_alt = ''''\<rparr>"

theorem middleware_safe_witness:
  "permitted ex_lib ex_unmarshal (ex_engine [''Allow''] None) None
     (build_principal (ex_http ''s3:HeadObject'' ''k'' '''') ex_keys) (ex_http ''s3:HeadObject'' ''k'' '''')
     ''s3:GetObject'' ''b'' ''k''"
proof -
  have run: "AuthorizationMiddleware ex_lib ex_unmarshal (ex_engine [''Allow''] None) None ex_keys
      (ex_http ''s3:HeadObject'' ''k'' '''') = Some (Next (Some ''allow'') (Some DecisionAllow))"
    by code_simp
  have route: "s3_route (ex_http ''s3:HeadObject'' ''k'' '''')" by code_simp
  have facts: "\<not> pr_isAdmin (build_principal (ex_http ''s3:HeadObject'' ''k'' '''') ex_keys)"
    "\<not> IsMultiResourceAction ''s3:HeadObject''" "GetRequiredPermissions ''s3:HeadObject'' = [''s3:GetObject'']"
    by code_simp+
  show ?thesis
    using middleware_safe[OF run route] facts by (simp add: Let_def ex_http_def)
qed

theorem middleware_returns_witness:
  "\<exists>out. AuthorizationMiddleware ex_lib ex_unmarshal (ex_engine [''Deny''] (Some ex_resolver)) None ex_keys
     (ex_http ''s3:CopyObject'' ''k'' ''/b/src'') = Some out"
  by (rule middleware_returns[OF ex_engine_sound]) simp

theorem copy_checked_source_witness:
  "parseCopySource (ex_http ''s3:CopyObject'' ''k'' ''/b/src/x'') = (''b'', ''src/x'')"
  by (rule copy_checked_source) code_simp

theorem bulk_delete_ignores_object_denies_witness:
  "\<not> applies ex_lib ((ex_statement ''Deny'' ''s3:DeleteObject'')\<lparr>st_resource := GStr ''arn:aws:s3:::b/secret/*''\<rparr>)
     (authz_request ex_lib None ex_principal (ex_http ''s3:DeleteObjects'' '''' '''') ''s3:DeleteObject'' ''b'' '''')"
proof -
  have "GetRequiredPermissions ''s3:DeleteObjects'' = [''s3:DeleteObject'']" by code_simp
  moreover have "\<not> HasVariables ''arn:aws:s3:::b/secret/*''"
    by (rule no_dollar_no_variables) simp
  ultimately show ?thesis
    using bulk_delete_ignores_object_denies[of "ex_http ''s3:DeleteObjects'' '''' ''''"
      "(ex_statement ''Deny'' ''s3:DeleteObject'')\<lparr>st_resource := GStr ''arn:aws:s3:::b/secret/*''\<rparr>"
      "''secret/*''" ex_lib None ex_principal]
    by (simp add: ex_http_def arn_prefix_def)
qed

end
