(* ===== verification/Crypto.thy ===== *)
theory Crypto
  imports Variables
begin

text \<open>
  \<^verbatim>\<open>internal/crypto/crypto.go\<close>: encryption of stored credentials with the current key, decryption
  with the current key and then the previous ones, and the keyring file. AES-GCM and base64 are
  packages outside the repository's own code: they are the fields of the record \<open>aead\<close>, and
  \<open>aead_laws\<close> states what is relied on. The random bytes are arguments.
\<close>

section \<open>Primitives\<close>

record aead =
  ae_seal :: "string \<Rightarrow> string \<Rightarrow> string \<Rightarrow> string"
  ae_open :: "string \<Rightarrow> string \<Rightarrow> string \<Rightarrow> string option"
  ae_b64_enc :: "string \<Rightarrow> string"
  ae_b64_dec :: "string \<Rightarrow> string option"

definition aead_laws :: "aead \<Rightarrow> bool" where
  "aead_laws A \<longleftrightarrow>
     (\<forall>k n p. length k = 32 \<longrightarrow> length n = 12 \<longrightarrow> ae_open A k n (ae_seal A k n p) = Some p) \<and>
     (\<forall>k k' n p. length k = 32 \<longrightarrow> length k' = 32 \<longrightarrow> length n = 12 \<longrightarrow> k \<noteq> k' \<longrightarrow>
        ae_open A k' n (ae_seal A k n p) = None) \<and>
     (\<forall>x. ae_b64_dec A (ae_b64_enc A x) = Some x)"

section \<open>Keys\<close>

definition keyPrefix :: string where "keyPrefix = ''base64:''"
definition encPrefix :: string where "encPrefix = ''enc:v1:''"

datatype crypto_error =
    BadKeyPrefix
  | BadBase64
  | BadKeyLength nat
  | EmptyKeyring
  | CurrentKey crypto_error
  | PreviousKey nat crypto_error
  | KeyNotSet
  | DecryptFailed nat

definition encodeKey :: "aead \<Rightarrow> string \<Rightarrow> string" where
  "encodeKey A key = keyPrefix @ ae_b64_enc A key"

definition decodeKey :: "aead \<Rightarrow> string \<Rightarrow> crypto_error + string" where
  "decodeKey A s =
     (if \<not> has_prefix s keyPrefix then Inl BadKeyPrefix
      else case ae_b64_dec A (drop (length keyPrefix) s) of
             None \<Rightarrow> Inl BadBase64
           | Some key \<Rightarrow> if length key \<noteq> 32 then Inl (BadKeyLength (length key)) else Inr key)"

text \<open>The manager; without a key it is a no-op.\<close>

record crypto_mgr =
  cm_key :: string
  cm_previousKeys :: "string list"

definition zero_mgr :: crypto_mgr where
  "zero_mgr = \<lparr>cm_key = '''', cm_previousKeys = []\<rparr>"

text \<open>The keys on the lines after the first one, and the entries of the environment variable:
  blank ones are skipped, the first bad one is an error.\<close>

fun decode_keys :: "aead \<Rightarrow> nat \<Rightarrow> string list \<Rightarrow> crypto_error + string list" where
  "decode_keys A i [] = Inr []"
| "decode_keys A i (l # ls) =
     (let t = trim_space l
      in if t = '''' then decode_keys A (Suc i) ls
         else case decodeKey A t of
                Inl e \<Rightarrow> Inl (PreviousKey i e)
              | Inr k \<Rightarrow>
                  (case decode_keys A (Suc i) ls of Inl e \<Rightarrow> Inl e | Inr ks \<Rightarrow> Inr (k # ks)))"

definition decodePreviousKeys :: "aead \<Rightarrow> string \<Rightarrow> crypto_error + string list" where
  "decodePreviousKeys A raw =
     (if raw = '''' then Inr [] else decode_keys A 0 (str_split raw '',''))"

text \<open>The branch of \<open>loadOrCreateKeyring\<close> where the file exists: its content gives the keys.\<close>

definition parse_keyring :: "aead \<Rightarrow> string \<Rightarrow> crypto_error + crypto_mgr" where
  "parse_keyring A content =
     (case str_split (trim_space content) [CHR 0x0A] of
        [] \<Rightarrow> Inl EmptyKeyring
      | l # ls \<Rightarrow>
          if trim_space l = '''' then Inl EmptyKeyring
          else case decodeKey A (trim_space l) of
                 Inl e \<Rightarrow> Inl (CurrentKey e)
               | Inr key \<Rightarrow>
                   (case decode_keys A 0 ls of
                      Inl e \<Rightarrow> Inl e
                    | Inr prev \<Rightarrow> Inr \<lparr>cm_key = key, cm_previousKeys = prev\<rparr>))"

text \<open>\<open>RotateKeyring\<close>: the new content of the file, given the old one (\<open>None\<close> when there is no
  file) and 32 random bytes.\<close>

definition RotateKeyring :: "aead \<Rightarrow> string option \<Rightarrow> string \<Rightarrow> string" where
  "RotateKeyring A old random =
     (let existing = (case old of Some d \<Rightarrow> trim_space d | None \<Rightarrow> '''');
          content = encodeKey A random @ [CHR 0x0A]
      in if existing \<noteq> '''' then content @ existing @ [CHR 0x0A] else content)"

section \<open>Encryption and decryption\<close>

definition Enabled :: "crypto_mgr \<Rightarrow> bool" where
  "Enabled m \<longleftrightarrow> length (cm_key m) = 32"

definition IsEncrypted :: "string \<Rightarrow> bool" where
  "IsEncrypted s \<longleftrightarrow> has_prefix s encPrefix"

definition gcmSeal :: "aead \<Rightarrow> string \<Rightarrow> string \<Rightarrow> string \<Rightarrow> string" where
  "gcmSeal A key nonce plaintext = nonce @ ae_seal A key nonce plaintext"

definition gcmOpen :: "aead \<Rightarrow> string \<Rightarrow> string \<Rightarrow> string option" where
  "gcmOpen A key blob =
     (if length blob < 12 then None else ae_open A key (take 12 blob) (drop 12 blob))"

definition Encrypt :: "aead \<Rightarrow> crypto_mgr \<Rightarrow> string \<Rightarrow> string \<Rightarrow> string" where
  "Encrypt A m nonce plaintext =
     (if \<not> Enabled m then plaintext
      else encPrefix @ ae_b64_enc A (gcmSeal A (cm_key m) nonce plaintext))"

fun first_open :: "aead \<Rightarrow> string \<Rightarrow> string list \<Rightarrow> string option" where
  "first_open A blob [] = None"
| "first_open A blob (k # ks) =
     (case gcmOpen A k blob of Some pt \<Rightarrow> Some pt | None \<Rightarrow> first_open A blob ks)"

definition Decrypt :: "aead \<Rightarrow> crypto_mgr \<Rightarrow> string \<Rightarrow> crypto_error + string" where
  "Decrypt A m s =
     (if \<not> has_prefix s encPrefix then Inr s
      else if \<not> Enabled m then Inl KeyNotSet
      else case ae_b64_dec A (drop (length encPrefix) s) of
             None \<Rightarrow> Inl BadBase64
           | Some blob \<Rightarrow>
               (case first_open A blob (cm_key m # cm_previousKeys m) of
                  Some pt \<Rightarrow> Inr pt
                | None \<Rightarrow> Inl (DecryptFailed (length (cm_previousKeys m)))))"

section \<open>Facts\<close>

definition keys_wf :: "crypto_mgr \<Rightarrow> bool" where
  "keys_wf m \<longleftrightarrow> (\<forall>k\<in>set (cm_key m # cm_previousKeys m). length k = 32)"

lemma has_prefix_append [simp]: "has_prefix (p @ s) p"
  by (simp add: has_prefix_def)

lemma gcmOpen_gcmSeal:
  "aead_laws A \<Longrightarrow> length k = 32 \<Longrightarrow> length n = 12 \<Longrightarrow> gcmOpen A k (gcmSeal A k n p) = Some p"
  by (simp add: gcmOpen_def gcmSeal_def aead_laws_def)

lemma gcmOpen_other:
  "aead_laws A \<Longrightarrow> length k = 32 \<Longrightarrow> length k' = 32 \<Longrightarrow> length n = 12 \<Longrightarrow> k \<noteq> k' \<Longrightarrow>
     gcmOpen A k' (gcmSeal A k n p) = None"
  by (simp add: gcmOpen_def gcmSeal_def aead_laws_def)

lemma first_open_seal:
  "aead_laws A \<Longrightarrow> k \<in> set ks \<Longrightarrow> \<forall>k'\<in>set ks. length k' = 32 \<Longrightarrow> length n = 12 \<Longrightarrow>
     first_open A (gcmSeal A k n p) ks = Some p"
proof (induction ks)
  case Nil
  then show ?case by simp
next
  case (Cons k' ks)
  then show ?case
    by (cases "k = k'") (auto simp: gcmOpen_gcmSeal gcmOpen_other split: option.splits)
qed

text \<open>A value encrypted under any key of the manager is read back.\<close>

lemma decrypt_any_key:
  assumes "aead_laws A" and "keys_wf m" and "k \<in> set (cm_key m # cm_previousKeys m)"
    and "length n = 12"
  shows "Decrypt A m (encPrefix @ ae_b64_enc A (gcmSeal A k n p)) = Inr p"
proof -
  have "first_open A (gcmSeal A k n p) (cm_key m # cm_previousKeys m) = Some p"
    by (rule first_open_seal[OF assms(1,3) _ assms(4)]) (use assms(2) in \<open>simp add: keys_wf_def\<close>)
  with assms(1,2) show ?thesis
    by (simp add: Decrypt_def aead_laws_def keys_wf_def Enabled_def del: first_open.simps)
qed

lemma decrypt_encrypt:
  assumes "aead_laws A" and "keys_wf m" and "length n = 12"
  shows "Decrypt A m (Encrypt A m n p) = Inr p"
  using assms decrypt_any_key[of A m "cm_key m" n p]
  by (simp add: Encrypt_def Enabled_def keys_wf_def)

lemma decodeKey_encodeKey:
  "aead_laws A \<Longrightarrow> length k = 32 \<Longrightarrow> decodeKey A (encodeKey A k) = Inr k"
  by (simp add: decodeKey_def encodeKey_def aead_laws_def)

text \<open>Without a key a secret is stored as it is, and read back unless it looks encrypted.\<close>

lemma disabled_roundtrip:
  "\<not> Enabled m \<Longrightarrow>
     Decrypt A m (Encrypt A m n p) = (if has_prefix p encPrefix then Inl KeyNotSet else Inr p)"
  by (simp add: Encrypt_def Decrypt_def)

section \<open>The package-level functions\<close>

text \<open>The default manager with the primitives and the random nonce that the next encryption
  draws.\<close>

record crypt_env =
  ce_aead :: aead
  ce_mgr :: crypto_mgr
  ce_nonce :: string

definition encrypt_default :: "crypt_env \<Rightarrow> string \<Rightarrow> string" where
  "encrypt_default C = Encrypt (ce_aead C) (ce_mgr C) (ce_nonce C)"

definition decrypt_default :: "crypt_env \<Rightarrow> string \<Rightarrow> crypto_error + string" where
  "decrypt_default C = Decrypt (ce_aead C) (ce_mgr C)"

definition crypt_ok :: "crypt_env \<Rightarrow> bool" where
  "crypt_ok C \<longleftrightarrow> aead_laws (ce_aead C) \<and> keys_wf (ce_mgr C) \<and> length (ce_nonce C) = 12"

text \<open>What the stores of credentials rely on.\<close>

locale secret_box =
  fixes box_ok :: "'c \<Rightarrow> bool"
    and box_enc :: "'c \<Rightarrow> string \<Rightarrow> string"
    and box_dec :: "'c \<Rightarrow> string \<Rightarrow> 'e + string"
  assumes box_roundtrip: "box_ok c \<Longrightarrow> box_dec c (box_enc c x) = Inr x"
begin

lemma box_inj: "box_ok c \<Longrightarrow> box_enc c x = box_enc c y \<Longrightarrow> x = y"
  by (metis box_roundtrip sum.inject(2))

end

interpretation box: secret_box crypt_ok encrypt_default decrypt_default
  by standard (simp add: crypt_ok_def encrypt_default_def decrypt_default_def decrypt_encrypt)

section \<open>Properties\<close>

text \<open>C34. What was encrypted before a key rotation is still readable after it: the manager with the
  new key in front of the old keys decrypts every value of the old manager, and encrypts and
  decrypts with the new key.\<close>

theorem rotation_keeps_secrets:
  assumes laws: "aead_laws A" and "keys_wf m" and "length newKey = 32"
    and "length n = 12" and "length n' = 12"
  shows "let m' = \<lparr>cm_key = newKey, cm_previousKeys = cm_key m # cm_previousKeys m\<rparr> in
    Decrypt A m' (Encrypt A m n p) = Inr p \<and> Decrypt A m' (Encrypt A m' n' p) = Inr p"
proof -
  let ?m' = "\<lparr>cm_key = newKey, cm_previousKeys = cm_key m # cm_previousKeys m\<rparr>"
  have wf: "keys_wf ?m'" using assms(2,3) by (simp add: keys_wf_def)
  have "Encrypt A m n p = encPrefix @ ae_b64_enc A (gcmSeal A (cm_key m) n p)"
    using assms(2) by (simp add: Encrypt_def Enabled_def keys_wf_def)
  moreover have "Decrypt A ?m' (encPrefix @ ae_b64_enc A (gcmSeal A (cm_key m) n p)) = Inr p"
    by (rule decrypt_any_key[OF laws wf _ assms(4)]) simp
  ultimately show ?thesis
    using decrypt_encrypt[OF laws wf assms(5)] by (simp add: Let_def)
qed

text \<open>An instance of the primitives for which the laws hold.\<close>

definition ex_aead :: aead where
  "ex_aead =
     \<lparr>ae_seal = (\<lambda>k n p. k @ p),
      ae_open = (\<lambda>k n c. if take 32 c = k then Some (drop 32 c) else None),
      ae_b64_enc = (\<lambda>x. x), ae_b64_dec = Some\<rparr>"

lemma ex_aead_laws: "aead_laws ex_aead"
  by (simp add: aead_laws_def ex_aead_def)

theorem rotation_keeps_secrets_witness:
  "let m = \<lparr>cm_key = replicate 32 CHR ''a'', cm_previousKeys = []\<rparr>;
       m' = \<lparr>cm_key = replicate 32 CHR ''b'', cm_previousKeys = [replicate 32 CHR ''a'']\<rparr>
   in Decrypt ex_aead m' (Encrypt ex_aead m (replicate 12 CHR ''n'') ''secret'') = Inr ''secret''"
  using rotation_keeps_secrets[OF ex_aead_laws,
    of "\<lparr>cm_key = replicate 32 CHR ''a'', cm_previousKeys = []\<rparr>" "replicate 32 CHR ''b''"
       "replicate 12 CHR ''n''" "replicate 12 CHR ''n''" "''secret''"]
  by (simp add: Let_def keys_wf_def)

end
