(* ===== verification/Paths.thy ===== *)
theory Paths
  imports Values
begin

text \<open>
  \<^verbatim>\<open>internal/persistence/path/fs.go\<close> and \<^verbatim>\<open>internal/http/middleware/validatekey.go\<close>: which names a
  request may give, and which paths of the data directory they stand for. The functions of
  \<^verbatim>\<open>path/filepath\<close> are those of a Unix system (\<open>ToSlash\<close> and \<open>FromSlash\<close> are the identity).
\<close>

section \<open>Package filepath\<close>

text \<open>\<open>filepath.Clean\<close>: empty and dot elements go, dot-dot takes its predecessor away; \<open>stack\<close> holds
  the elements kept so far, the last one first.\<close>

fun clean_elems :: "bool \<Rightarrow> string list \<Rightarrow> string list \<Rightarrow> string list" where
  "clean_elems rooted stack [] = rev stack"
| "clean_elems rooted stack (w # ws) =
     (if w = '''' \<or> w = ''.'' then clean_elems rooted stack ws
      else if w = ''..'' then
        (case stack of
           [] \<Rightarrow> clean_elems rooted (if rooted then [] else [''..'']) ws
         | a # stack' \<Rightarrow> clean_elems rooted (if a = ''..'' then ''..'' # stack else stack') ws)
      else clean_elems rooted (w # stack) ws)"

definition path_clean :: "string \<Rightarrow> string" where
  "path_clean p =
     (let rooted = has_prefix p ''/'';
          out = str_join ''/'' (clean_elems rooted [] (str_split p ''/''))
      in if rooted then ''/'' @ out else if out = '''' then ''.'' else out)"

definition path_join :: "string list \<Rightarrow> string" where
  "path_join elems =
     (case dropWhile (\<lambda>e. e = '''') elems of
        [] \<Rightarrow> ''''
      | es \<Rightarrow> path_clean (str_join ''/'' es))"

definition path_dir :: "string \<Rightarrow> string" where
  "path_dir p =
     path_clean (rev (dropWhile (\<lambda>c. c \<noteq> CHR ''/'') (rev p)))"

section \<open>Path safety (fs.go)\<close>

datatype path_error = ErrEmptyPath | ErrNullByte | ErrAbsolutePath | ErrPathTraversal

definition ValidatePathSafe :: "string \<Rightarrow> path_error option" where
  "ValidatePathSafe path =
     (if path = '''' then Some ErrEmptyPath
      else if str_contains path [CHR 0x00] then Some ErrNullByte
      else if has_prefix path ''/'' then Some ErrAbsolutePath
      else if ''..'' \<in> set (str_split path ''/'') then Some ErrPathTraversal
      else None)"

definition CleanPath :: "string \<Rightarrow> path_error + string" where
  "CleanPath path =
     (let cleaned = path_clean path
      in case ValidatePathSafe cleaned of Some e \<Rightarrow> Inl e | None \<Rightarrow> Inr cleaned)"

text \<open>A scoped file system is the base file system at \<open>join\<close> of its root: all its methods pass
  that path on.\<close>

definition scoped_join :: "string \<Rightarrow> string \<Rightarrow> string" where
  "scoped_join base path = path_join [base, path]"

definition DirIOMetadataDir :: string where "DirIOMetadataDir = ''.dirio''"
definition DirIOUploadsDir :: string where "DirIOUploadsDir = ''.dirio-uploads''"
definition MinioMetadataDir :: string where "MinioMetadataDir = ''.minio.sys''"

text \<open>The roots of the scoped file systems of a bucket and of its staging area.\<close>

definition NewBucketFS :: "string \<Rightarrow> path_error + string" where
  "NewBucketFS bucket =
     (case ValidatePathSafe bucket of Some e \<Rightarrow> Inl e | None \<Rightarrow> Inr bucket)"

definition NewUploadStagingFS :: "string \<Rightarrow> path_error + string" where
  "NewUploadStagingFS bucket =
     (case ValidatePathSafe bucket of
        Some e \<Rightarrow> Inl e
      | None \<Rightarrow> Inr (path_join [DirIOUploadsDir, bucket]))"

section \<open>Names in requests (validatekey.go)\<close>

definition isLowerAlphaNum :: "char \<Rightarrow> bool" where
  "isLowerAlphaNum c \<longleftrightarrow>
     CHR ''a'' \<le> c \<and> c \<le> CHR ''z'' \<or> CHR ''0'' \<le> c \<and> c \<le> CHR ''9''"

definition isValidBucketName :: "string \<Rightarrow> bool" where
  "isValidBucketName bucket \<longleftrightarrow>
     \<not> (length bucket < 3 \<or> 63 < length bucket) \<and>
     isLowerAlphaNum (hd bucket) \<and> isLowerAlphaNum (last bucket) \<and>
     list_all (\<lambda>c. isLowerAlphaNum c \<or> c = CHR ''.'' \<or> c = CHR ''-'') bucket"

datatype name_error =
    ErrBucketLength | ErrBucketFormat | ErrBucketDots | ErrBucketIP
  | ErrKeyEmpty | ErrKeyUTF8 | ErrKeyLength | ErrKeySlash | ErrKeyControl

definition ValidateS3BucketName :: "golib \<Rightarrow> string \<Rightarrow> name_error option" where
  "ValidateS3BucketName L bucket =
     (if length bucket < 3 \<or> 63 < length bucket then Some ErrBucketLength
      else if \<not> isValidBucketName bucket then Some ErrBucketFormat
      else if str_contains bucket ''..'' then Some ErrBucketDots
      else if gl_parse_ip L bucket \<noteq> None then Some ErrBucketIP
      else None)"

definition ValidateS3Key :: "string \<Rightarrow> name_error option" where
  "ValidateS3Key key =
     (if key = '''' then Some ErrKeyEmpty
      else if \<not> valid_utf8 key then Some ErrKeyUTF8
      else if 1024 < length key then Some ErrKeyLength
      else if has_prefix key ''/'' then Some ErrKeySlash
      else if list_ex (\<lambda>r. r < 32 \<and> r \<noteq> 9 \<and> r \<noteq> 10 \<and> r \<noteq> 13) (runes key) then Some ErrKeyControl
      else None)"

section \<open>Splitting at slashes\<close>

lemma str_index_char:
  "str_index (c # cs) [d] = (if c = d then Some 0 else map_option Suc (str_index cs [d]))"
  by (auto simp: has_prefix_def)

lemma str_contains_char: "str_contains s [d] \<longleftrightarrow> d \<in> set s"
  by (induction s) (auto simp: str_contains_def str_index_char simp del: str_index.simps(2))

lemma str_split_char_Nil [simp]: "str_split [] [d] = [[]]"
  by (simp add: str_split.simps)

lemma str_split_char_ne: "str_split s [d] \<noteq> []"
  by (subst str_split.simps) (simp split: option.splits)

lemma str_split_char_Cons:
  "str_split (c # cs) [d] =
     (if c = d then [] # str_split cs [d]
      else (c # hd (str_split cs [d])) # tl (str_split cs [d]))"
proof (cases "c = d")
  case True
  then show ?thesis by (subst str_split.simps) (simp add: has_prefix_def)
next
  case False
  then have i: "str_index (c # cs) [d] = map_option Suc (str_index cs [d])"
    by (simp add: str_index_char del: str_index.simps)
  show ?thesis
  proof (cases "str_index cs [d]")
    case None
    then have "str_split cs [d] = [cs]" by (simp add: str_split.simps)
    with None False i show ?thesis by (subst str_split.simps) (simp del: str_index.simps)
  next
    case (Some j)
    then have "str_split cs [d] = take j cs # str_split (drop (Suc j) cs) [d]"
      by (subst str_split.simps) simp
    with Some False i show ?thesis by (subst str_split.simps) (simp del: str_index.simps)
  qed
qed

lemma str_split_char_no: "d \<notin> set s \<Longrightarrow> str_split s [d] = [s]"
  by (induction s) (auto simp: str_split_char_Cons)

lemma str_split_char_append:
  "str_split (s @ [d] @ t) [d] = str_split s [d] @ str_split t [d]"
  by (induction s) (auto simp: str_split_char_Cons str_split_char_ne hd_append)

lemma str_split_char_elem: "w \<in> set (str_split s [d]) \<Longrightarrow> d \<notin> set w"
proof (induction s arbitrary: w)
  case Nil
  then show ?case by simp
next
  case (Cons c s)
  have "hd (str_split s [d]) \<in> set (str_split s [d])"
    "set (tl (str_split s [d])) \<subseteq> set (str_split s [d])"
    using str_split_char_ne[of s d] by (auto dest: list.set_sel(2))
  with Cons show ?case by (auto simp: str_split_char_Cons split: if_splits)
qed

lemma str_join_split_char: "str_join [d] (str_split s [d]) = s"
proof (induction s)
  case Nil
  then show ?case by simp
next
  case (Cons c s)
  obtain w ws where w: "str_split s [d] = w # ws"
    using str_split_char_ne[of s d] by (cases "str_split s [d]") auto
  with Cons show ?case by (cases ws) (auto simp: str_split_char_Cons)
qed

lemma str_split_join_char:
  "ws \<noteq> [] \<Longrightarrow> \<forall>w\<in>set ws. d \<notin> set w \<Longrightarrow> str_split (str_join [d] ws) [d] = ws"
proof (induction "[d]" ws rule: str_join.induct)
  case (3 s t ts)
  then show ?case
    using str_split_char_append[of s d "str_join [d] (t # ts)"] by (simp add: str_split_char_no)
qed (simp_all add: str_split_char_no)

section \<open>Cleaning\<close>

definition plain_elem :: "string \<Rightarrow> bool" where
  "plain_elem w \<longleftrightarrow> w \<noteq> '''' \<and> w \<noteq> ''.'' \<and> w \<noteq> ''..'' \<and> CHR ''/'' \<notin> set w"

lemma clean_elems_safe:
  assumes "''..'' \<notin> set ws" "\<forall>w\<in>set ws. CHR ''/'' \<notin> set w"
  shows "clean_elems rooted stack ws = rev stack @ filter plain_elem ws"
  using assms by (induction ws arbitrary: stack) (auto simp: plain_elem_def)

text \<open>A path is normal when it is what \<open>Clean\<close> makes of a safe one.\<close>

definition normal_path :: "string \<Rightarrow> bool" where
  "normal_path p \<longleftrightarrow> (\<forall>w\<in>set (str_split p ''/''). plain_elem w)"

lemma normal_pathD:
  assumes "normal_path p"
  shows "p \<noteq> ''''" "\<not> has_prefix p ''/''"
proof -
  have no: "'''' \<notin> set (str_split p ''/'')"
    using assms unfolding normal_path_def plain_elem_def by blast
  then show "p \<noteq> ''''" by (cases p) (simp_all add: str_split_char_Nil)
  show "\<not> has_prefix p ''/''"
  proof
    assume "has_prefix p ''/''"
    then obtain q where "p = CHR ''/'' # q" by (cases p) (simp_all add: has_prefix_def)
    with no show False by (simp add: str_split_char_Cons)
  qed
qed

lemma clean_normal:
  assumes "normal_path p"
  shows "path_clean p = p"
proof -
  have "clean_elems False [] (str_split p ''/'') = str_split p ''/''"
    using assms by (subst clean_elems_safe) (auto simp: normal_path_def plain_elem_def)
  with normal_pathD[OF assms] show ?thesis
    by (simp add: path_clean_def str_join_split_char Let_def)
qed

lemma normal_append:
  "normal_path p \<Longrightarrow> normal_path q \<Longrightarrow> normal_path (p @ ''/'' @ q)"
  using str_split_char_append[of p "CHR ''/''" q] by (auto simp: normal_path_def)

lemma split_suffix:
  assumes "CHR ''/'' \<notin> set suf"
  shows "str_split (p @ suf) ''/'' = butlast (str_split p ''/'') @ [last (str_split p ''/'') @ suf]"
proof (induction p)
  case Nil
  with assms show ?case by (simp add: str_split_char_no)
next
  case (Cons c p)
  then show ?case
    using str_split_char_ne[of p "CHR ''/''"]
    by (cases "str_split p ''/''") (auto simp: str_split_char_Cons)
qed

lemma normal_json:
  assumes "normal_path p"
  shows "normal_path (p @ ''.json'')"
proof -
  have "plain_elem (last (str_split p ''/''))"
    using assms str_split_char_ne by (simp add: normal_path_def)
  then have "CHR ''/'' \<notin> set (last (str_split p ''/'') @ ''.json'')" by (simp add: plain_elem_def)
  then have "plain_elem (last (str_split p ''/'') @ ''.json'')"
    unfolding plain_elem_def by (auto dest: arg_cong[of _ _ length])
  with assms show ?thesis
    by (auto simp: normal_path_def split_suffix dest: in_set_butlastD)
qed

text \<open>What a safe path is below a normal directory.\<close>

lemma join_below:
  assumes "normal_path d" "ValidatePathSafe p = None"
  defines "es \<equiv> filter plain_elem (str_split p ''/'')"
  shows "path_join [d, p] = str_join ''/'' (str_split d ''/'' @ es)"
    and "list_all plain_elem (str_split d ''/'' @ es)"
proof -
  have p: "p \<noteq> ''''" "''..'' \<notin> set (str_split p ''/'')"
    using assms(2) by (auto simp: ValidatePathSafe_def split: if_splits)
  have d: "d \<noteq> ''''" "\<not> has_prefix d ''/''" by (rule normal_pathD[OF assms(1)])+
  have split: "str_split (d @ ''/'' @ p) ''/'' = str_split d ''/'' @ str_split p ''/''"
    using str_split_char_append[of d "CHR ''/''" p] by simp
  have plain: "\<forall>w\<in>set (str_split d ''/''). plain_elem w"
    using assms(1) by (simp add: normal_path_def)
  then have no: "''..'' \<notin> set (str_split d ''/'')" "\<forall>w\<in>set (str_split d ''/''). CHR ''/'' \<notin> set w"
    by (auto simp: plain_elem_def)
  have "clean_elems False [] (str_split (d @ ''/'' @ p) ''/'') = str_split d ''/'' @ es"
    unfolding split using no p(2) plain
    by (subst clean_elems_safe) (auto simp: es_def dest: str_split_char_elem intro!: filter_True)
  moreover have "\<not> has_prefix (d @ ''/'' @ p) ''/''"
    using d by (cases d) (auto simp: has_prefix_def)
  moreover have "str_join ''/'' (str_split d ''/'' @ es) \<noteq> ''''"
    using plain str_split_char_ne[of d "CHR ''/''"]
    by (cases "str_split d ''/''"; cases "tl (str_split d ''/'') @ es") (auto simp: plain_elem_def)
  ultimately show "path_join [d, p] = str_join ''/'' (str_split d ''/'' @ es)"
    using d(1) p(1) by (simp add: path_join_def path_clean_def Let_def)
  show "list_all plain_elem (str_split d ''/'' @ es)"
    using plain by (auto simp: es_def list_all_iff)
qed

lemma join_normal:
  assumes "normal_path d" "normal_path p" shows "path_join [d, p] = d @ ''/'' @ p"
  using normal_pathD[OF assms(1)] normal_pathD[OF assms(2)] clean_normal[OF normal_append[OF assms]]
  by (simp add: path_join_def)

lemma join_normal3:
  assumes "normal_path d" "normal_path p" "normal_path q"
  shows "path_join [d, p, q] = d @ ''/'' @ p @ ''/'' @ q"
  using normal_pathD[OF assms(1)] clean_normal[OF normal_append[OF assms(1) normal_append[OF assms(2,3)]]]
  by (simp add: path_join_def)

section \<open>Properties\<close>

lemma valid_bucket_chars:
  assumes "isValidBucketName bucket"
  shows "CHR ''/'' \<notin> set bucket" "CHR 0x00 \<notin> set bucket"
proof -
  have "\<not> isLowerAlphaNum CHR ''/''" "\<not> isLowerAlphaNum CHR 0x00"
    by (simp_all add: isLowerAlphaNum_def less_eq_char_def)
  then show "CHR ''/'' \<notin> set bucket" "CHR 0x00 \<notin> set bucket"
    using assms by (auto simp: isValidBucketName_def list_all_iff)
qed

lemma valid_bucket_normal:
  assumes "isValidBucketName bucket"
  shows "normal_path bucket" "str_split bucket ''/'' = [bucket]" "hd bucket \<noteq> CHR ''.''" "bucket \<noteq> ''''"
proof -
  have ne: "bucket \<noteq> ''''" and h: "isLowerAlphaNum (hd bucket)"
    and all: "list_all (\<lambda>c. isLowerAlphaNum c \<or> c = CHR ''.'' \<or> c = CHR ''-'') bucket"
    using assms by (auto simp: isValidBucketName_def)
  have "\<not> isLowerAlphaNum CHR ''/''" "\<not> isLowerAlphaNum CHR ''.''"
    by (simp_all add: isLowerAlphaNum_def less_eq_char_def)
  with h all have no: "CHR ''/'' \<notin> set bucket" and dot: "hd bucket \<noteq> CHR ''.''"
    by (auto simp: list_all_iff)
  show "bucket \<noteq> ''''" "hd bucket \<noteq> CHR ''.''" "str_split bucket ''/'' = [bucket]"
    using ne dot no by (simp_all add: str_split_char_no)
  with no show "normal_path bucket" by (auto simp: normal_path_def plain_elem_def)
qed

lemma join_prefix:
  "ws \<noteq> [] \<Longrightarrow> str_join sep (v # ws) = v @ sep @ str_join sep ws"
  by (cases ws) simp_all

lemma split_plain_join:
  assumes "ws \<noteq> []" "list_all plain_elem ws"
  shows "str_split (str_join ''/'' ws) ''/'' = ws"
  using str_split_join_char[OF assms(1), of "CHR ''/''"] assms(2)
  by (auto simp: list_all_iff plain_elem_def)


definition ex_paths_lib :: golib where
  "ex_paths_lib =
     \<lparr>gl_now = 0, gl_time_string = (\<lambda>_. ''''), gl_time_rfc3339 = (\<lambda>_. ''''),
      gl_parse_time = (\<lambda>_ _. None), gl_ip_string = (\<lambda>_. ''''), gl_parse_ip = (\<lambda>_. None),
      gl_parse_cidr = (\<lambda>_. None), gl_parse_float = (\<lambda>_. None), gl_sprint_float = (\<lambda>_. ''''),
      gl_equal_fold = (=)\<rparr>"


section \<open>The file of an object's metadata\<close>

definition object_meta_path :: "string \<Rightarrow> string \<Rightarrow> string" where
  "object_meta_path bucket key = path_join [''objects'', bucket, key @ ''.json'']"

lemma object_meta_path_normal:
  assumes "normal_path bucket" "normal_path key"
  shows "object_meta_path bucket key = ''objects/'' @ bucket @ ''/'' @ key @ ''.json''"
proof -
  have "normal_path ''objects''" by code_simp
  from join_normal3[OF this assms(1) normal_json[OF assms(2)]]
  show ?thesis by (simp add: object_meta_path_def)
qed

lemma slash_append_inject:
  assumes "CHR ''/'' \<notin> set b" "CHR ''/'' \<notin> set b'"
  shows "b @ ''/'' @ k = b' @ ''/'' @ k' \<longleftrightarrow> b = b' \<and> k = k'"
  using assms
proof (induction b arbitrary: b')
  case Nil
  then show ?case by (cases b') auto
next
  case (Cons c b)
  then show ?case by (cases b') auto
qed

lemma object_meta_path_inject:
  assumes "normal_path b" "normal_path b'" "normal_path k" "normal_path k'"
    and "CHR ''/'' \<notin> set b" "CHR ''/'' \<notin> set b'"
  shows "object_meta_path b k = object_meta_path b' k' \<longleftrightarrow> b = b' \<and> k = k'"
  using slash_append_inject[OF assms(5,6), of "k @ ''.json''" "k' @ ''.json''"] assms(1-4)
  by (simp add: object_meta_path_normal)

text \<open>Keys that differ in empty and dot elements only share a file.\<close>

lemma object_meta_path_safe:
  assumes "isValidBucketName bucket" "ValidatePathSafe (key @ ''.json'') = None"
  shows "object_meta_path bucket key =
    str_join ''/'' (''objects'' # bucket # filter plain_elem (str_split (key @ ''.json'') ''/''))"
proof -
  note b = valid_bucket_normal[OF assms(1)]
  have "normal_path ''objects''" by code_simp
  from join_below(1)[OF normal_append[OF this b(1)] assms(2)]
  have "path_join [''objects/'' @ bucket, key @ ''.json''] =
    str_join ''/'' (''objects'' # bucket # filter plain_elem (str_split (key @ ''.json'') ''/''))"
    using str_split_char_append[of "''objects''" "CHR ''/''" bucket] b(2)
    by (simp add: str_split_char_no)
  moreover have "object_meta_path bucket key = path_join [''objects/'' @ bucket, key @ ''.json'']"
    using b(4) by (simp add: object_meta_path_def path_join_def)
  ultimately show ?thesis by simp
qed

end
