(* ===== verification/Metadata.thy ===== *)
theory Metadata
  imports Crypto Paths "HOL-Library.AList"
begin

text \<open>
  \<^verbatim>\<open>internal/persistence/metadata/{metadata,index}.go\<close>: the manager of users, groups, policies,
  service accounts, bucket and object metadata. Each directory of JSON files is an association list
  from the file's stem (for object metadata, whose names come from requests, the whole path) to the
  record in it (writing a record and reading it back is the
  identity); each bolt bucket is one too. A file operation fails only because the file is not
  there, and contexts are not cancelled. The clock, fresh UUIDs and the random nonce are
  arguments. An operation that changes the store returns an optional error and the new store,
  since an error may come after a part of the change.
\<close>

section \<open>State\<close>

text \<open>The fields of \<open>BucketMetadata\<close> that are only filled by the import from MinIO, as a record of their own.\<close>

record extended_metadata =
  xm_notificationConfigXML :: string
  xm_lifecycleConfigXML :: string
  xm_objectLockConfigXML :: string
  xm_versioningConfigXML :: string
  xm_encryptionConfigXML :: string
  xm_taggingConfigXML :: string
  xm_quotaConfigJSON :: string
  xm_replicationConfigXML :: string
  xm_bucketTargetsConfigJSON :: string
  xm_bucketTargetsConfigMetaJSON :: string
  xm_objectLockConfigUpdatedAt :: time
  xm_encryptionConfigUpdatedAt :: time
  xm_taggingConfigUpdatedAt :: time
  xm_quotaConfigUpdatedAt :: time
  xm_replicationConfigUpdatedAt :: time
  xm_versioningConfigUpdatedAt :: time

definition no_extended_metadata :: extended_metadata where
  "no_extended_metadata =
     \<lparr>xm_notificationConfigXML = '''', xm_lifecycleConfigXML = '''', xm_objectLockConfigXML = '''',
      xm_versioningConfigXML = '''', xm_encryptionConfigXML = '''', xm_taggingConfigXML = '''', xm_quotaConfigJSON = '''',
      xm_replicationConfigXML = '''', xm_bucketTargetsConfigJSON = '''', xm_bucketTargetsConfigMetaJSON = '''',
      xm_objectLockConfigUpdatedAt = 0, xm_encryptionConfigUpdatedAt = 0, xm_taggingConfigUpdatedAt = 0,
      xm_quotaConfigUpdatedAt = 0, xm_replicationConfigUpdatedAt = 0, xm_versioningConfigUpdatedAt = 0\<rparr>"

record bucket_metadata =
  bm_version :: string
  bm_name :: string
  bm_owner :: "uuid option"
  bm_created :: time
  bm_bucketPolicy :: "policy_document option"
  bm_policyConfigUpdatedAt :: time
  bm_extended :: extended_metadata

record object_metadata =
  om_version :: string
  om_owner :: "uuid option"
  om_contentType :: string
  om_size :: int
  om_etag :: string
  om_lastModified :: time
  om_customMetadata :: "(string \<times> string) list"
  om_tags :: "(string \<times> string) list"

record meta_store =
  ms_buckets :: "(string \<times> bucket_metadata) list"
  ms_objects :: "(string \<times> object_metadata) list"
  ms_users :: "(uuid \<times> iam_user) list"
  ms_policies :: "(string \<times> iam_policy) list"
  ms_groups :: "(string \<times> iam_group) list"
  ms_serviceAccounts :: "(string \<times> service_account) list"
  ms_byUsername :: "(string \<times> uuid) list"
  ms_byAccessKey :: "(string \<times> uuid) list"
  ms_groupsByUser :: "(uuid \<times> string list) list"
  ms_usersIdx :: "uuid list"
  ms_objMetaCache :: "(string \<times> object_metadata) list"

datatype meta_error =
    ErrUserNotFound
  | ErrPolicyNotFound
  | ErrGroupNotFound
  | ErrGroupAlreadyExists
  | ErrServiceAccountNotFound
  | ErrUsernameAlreadyTaken
  | ErrAccessKeyAlreadyTaken
  | ErrFileNotExist
  | ErrObjectMetadataNotFound
  | ErrNoRequestUser
  | ErrFieldRequired string
  | ErrSAAlreadyExists string
  | ErrDecrypt crypto_error

abbreviation put :: "'k \<Rightarrow> 'v \<Rightarrow> ('k \<times> 'v) list \<Rightarrow> ('k \<times> 'v) list" where
  "put \<equiv> AList.update"

abbreviation del :: "'k \<Rightarrow> ('k \<times> 'v) list \<Rightarrow> ('k \<times> 'v) list" where
  "del \<equiv> AList.delete"

declare AList.update_conv' [simp] AList.delete_conv' [simp]

section \<open>Buckets\<close>

definition BucketMetadataVersion :: string where "BucketMetadataVersion = ''1.0.0''"
definition ObjectMetadataVersion :: string where "ObjectMetadataVersion = ''1.0.0''"

definition saveBucketMetadata :: "string \<Rightarrow> bucket_metadata \<Rightarrow> meta_store \<Rightarrow> meta_store" where
  "saveBucketMetadata bucket meta st = st\<lparr>ms_buckets := put bucket meta (ms_buckets st)\<rparr>"

definition MetaCreateBucket ::
  "time \<Rightarrow> iam_user option \<Rightarrow> string \<Rightarrow> meta_store \<Rightarrow> meta_error option \<times> meta_store" where
  "MetaCreateBucket now user bucket st =
     (case user of
        None \<Rightarrow> (Some ErrNoRequestUser, st)
      | Some u \<Rightarrow>
          (None, saveBucketMetadata bucket
             \<lparr>bm_version = BucketMetadataVersion, bm_name = bucket,
              bm_owner = (if u_uuid u \<noteq> AdminUserUUID then Some (u_uuid u) else None),
              bm_created = now, bm_bucketPolicy = None, bm_policyConfigUpdatedAt = 0,
              bm_extended = no_extended_metadata\<rparr> st))"

definition MetaDeleteBucket :: "string \<Rightarrow> meta_store \<Rightarrow> meta_error option \<times> meta_store" where
  "MetaDeleteBucket bucket st =
     (if map_of (ms_buckets st) bucket = None then (Some ErrFileNotExist, st)
      else (None, st\<lparr>ms_buckets := del bucket (ms_buckets st)\<rparr>))"

definition GetBucketMetadata :: "meta_store \<Rightarrow> string \<Rightarrow> meta_error + bucket_metadata" where
  "GetBucketMetadata st bucket =
     (case map_of (ms_buckets st) bucket of None \<Rightarrow> Inl ErrFileNotExist | Some meta \<Rightarrow> Inr meta)"

definition MetaSetBucketPolicy ::
  "time \<Rightarrow> string \<Rightarrow> policy_document option \<Rightarrow> meta_store \<Rightarrow> meta_error option \<times> meta_store" where
  "MetaSetBucketPolicy now bucket policy st =
     (case GetBucketMetadata st bucket of
        Inl e \<Rightarrow> (Some e, st)
      | Inr meta \<Rightarrow>
          (None, saveBucketMetadata bucket
             (meta\<lparr>bm_bucketPolicy := policy, bm_policyConfigUpdatedAt := now\<rparr>) st))"

definition MetaGetBucketPolicy ::
  "meta_store \<Rightarrow> string \<Rightarrow> meta_error + policy_document option" where
  "MetaGetBucketPolicy st bucket =
     (case GetBucketMetadata st bucket of Inl e \<Rightarrow> Inl e | Inr meta \<Rightarrow> Inr (bm_bucketPolicy meta))"

definition MetaDeleteBucketPolicy :: "string \<Rightarrow> meta_store \<Rightarrow> meta_error option \<times> meta_store" where
  "MetaDeleteBucketPolicy bucket st =
     (case GetBucketMetadata st bucket of
        Inl e \<Rightarrow> (Some e, st)
      | Inr meta \<Rightarrow>
          (None, saveBucketMetadata bucket
             (meta\<lparr>bm_bucketPolicy := None, bm_policyConfigUpdatedAt := 0\<rparr>) st))"

definition ListBucketMetadatas :: "meta_store \<Rightarrow> bucket_metadata list" where
  "ListBucketMetadatas st =
     List.map_filter
       (\<lambda>(b, _). case GetBucketMetadata st b of Inr meta \<Rightarrow> Some meta | Inl _ \<Rightarrow> None) (ms_buckets st)"

definition SetBucketOwner ::
  "string \<Rightarrow> uuid option \<Rightarrow> meta_store \<Rightarrow> meta_error option \<times> meta_store" where
  "SetBucketOwner bucket ownerUUID st =
     (case GetBucketMetadata st bucket of
        Inl e \<Rightarrow> (Some e, st)
      | Inr meta \<Rightarrow> (None, saveBucketMetadata bucket (meta\<lparr>bm_owner := ownerUUID\<rparr>) st))"

definition MetaGetAllBucketPolicies :: "meta_store \<Rightarrow> (string \<times> policy_document option) list" where
  "MetaGetAllBucketPolicies st =
     List.map_filter
       (\<lambda>(b, _). case GetBucketMetadata st b of
           Inl _ \<Rightarrow> None
         | Inr meta \<Rightarrow> (case bm_bucketPolicy meta of None \<Rightarrow> None | Some d \<Rightarrow> Some (b, Some d)))
       (ms_buckets st)"

section \<open>Object metadata and its cache\<close>

definition cacheKey :: "string \<Rightarrow> string \<Rightarrow> string" where
  "cacheKey bucket key = bucket @ [CHR 0x00] @ key"

text \<open>The LRU cache keeps what is set until it evicts it; eviction is a step of its own.\<close>

definition GetObjectMetadata ::
  "string \<Rightarrow> string \<Rightarrow> meta_store \<Rightarrow> (meta_error + object_metadata) \<times> meta_store" where
  "GetObjectMetadata bucket key st =
     (case map_of (ms_objMetaCache st) (cacheKey bucket key) of
        Some cached \<Rightarrow> (Inr cached, st)
      | None \<Rightarrow>
          (case map_of (ms_objects st) (object_meta_path bucket key) of
             None \<Rightarrow> (Inl ErrObjectMetadataNotFound, st)
           | Some meta \<Rightarrow>
               (Inr meta,
                st\<lparr>ms_objMetaCache := put (cacheKey bucket key) meta (ms_objMetaCache st)\<rparr>)))"

definition PutObjectMetadata ::
  "string \<Rightarrow> string \<Rightarrow> object_metadata \<Rightarrow> meta_store \<Rightarrow> meta_store" where
  "PutObjectMetadata bucket key meta st =
     st\<lparr>ms_objects := put (object_meta_path bucket key) meta (ms_objects st),
        ms_objMetaCache := put (cacheKey bucket key) meta (ms_objMetaCache st)\<rparr>"

definition DeleteObjectMetadata :: "string \<Rightarrow> string \<Rightarrow> meta_store \<Rightarrow> meta_store" where
  "DeleteObjectMetadata bucket key st =
     st\<lparr>ms_objects := del (object_meta_path bucket key) (ms_objects st),
        ms_objMetaCache := del (cacheKey bucket key) (ms_objMetaCache st)\<rparr>"

definition evict_object_metadata :: "string \<Rightarrow> meta_store \<Rightarrow> meta_store" where
  "evict_object_metadata k st = st\<lparr>ms_objMetaCache := del k (ms_objMetaCache st)\<rparr>"

section \<open>Users\<close>

definition GetUser :: "crypt_env \<Rightarrow> meta_store \<Rightarrow> uuid \<Rightarrow> meta_error + iam_user" where
  "GetUser C st userUID =
     (case map_of (ms_users st) userUID of
        None \<Rightarrow> Inl ErrUserNotFound
      | Some user \<Rightarrow>
          (case decrypt_default C (u_secretKey user) of
             Inl e \<Rightarrow> Inl (ErrDecrypt e)
           | Inr decrypted \<Rightarrow> Inr (user\<lparr>u_secretKey := decrypted\<rparr>)))"

definition SaveUser :: "crypt_env \<Rightarrow> uuid \<Rightarrow> iam_user \<Rightarrow> meta_store \<Rightarrow> meta_store" where
  "SaveUser C userUID user st =
     st\<lparr>ms_users := put userUID (user\<lparr>u_secretKey := encrypt_default C (u_secretKey user)\<rparr>)
                       (ms_users st)\<rparr>"

text \<open>The bolt transaction of \<open>CreateOrUpdateUser\<close>: both checks, then both writes.\<close>

definition index_user :: "iam_user \<Rightarrow> meta_store \<Rightarrow> meta_error + meta_store" where
  "index_user user st =
     (if (case map_of (ms_byUsername st) (u_username user) of
            Some uid \<Rightarrow> uid \<noteq> u_uuid user | None \<Rightarrow> False) then Inl ErrUsernameAlreadyTaken
      else if (case map_of (ms_byAccessKey st) (u_accessKey user) of
            Some uid \<Rightarrow> uid \<noteq> u_uuid user | None \<Rightarrow> False) then Inl ErrAccessKeyAlreadyTaken
      else Inr (st\<lparr>ms_byUsername := put (u_username user) (u_uuid user) (ms_byUsername st),
                   ms_byAccessKey := put (u_accessKey user) (u_uuid user) (ms_byAccessKey st)\<rparr>))"

text \<open>\<open>fresh\<close> is the result of \<open>uuid.New\<close>. The user is a pointer the code also writes to: the
  updated value is returned.\<close>

definition ensure_uuid :: "uuid \<Rightarrow> iam_user \<Rightarrow> iam_user" where
  "ensure_uuid fresh user = (if u_uuid user = uuid_nil then user\<lparr>u_uuid := fresh\<rparr> else user)"

definition CreateOrUpdateUser ::
  "crypt_env \<Rightarrow> time \<Rightarrow> uuid \<Rightarrow> iam_user \<Rightarrow> meta_store
     \<Rightarrow> meta_error option \<times> iam_user \<times> meta_store" where
  "CreateOrUpdateUser C now fresh user st =
     (if u_accessKey user = '''' then (Some (ErrFieldRequired ''accessKey''), user, st)
      else if u_username user = '''' then (Some (ErrFieldRequired ''username''), user, st)
      else
        let user = ensure_uuid fresh user
        in case index_user user st of
             Inl e \<Rightarrow> (Some e, user, st)
           | Inr st' \<Rightarrow>
               let user = user\<lparr>u_version := UserMetadataVersion, u_updatedAt := now\<rparr>;
                   st'' = SaveUser C (u_uuid user) user st'
               in (None, user, st''\<lparr>ms_usersIdx := List.insert (u_uuid user) (ms_usersIdx st'')\<rparr>))"

definition updateUsernameIndex ::
  "string \<Rightarrow> string \<Rightarrow> uuid \<Rightarrow> (string \<times> uuid) list \<Rightarrow> meta_error + (string \<times> uuid) list" where
  "updateUsernameIndex oldUsername newUsername userUID b =
     (if (case map_of b newUsername of Some uid \<Rightarrow> uid \<noteq> userUID | None \<Rightarrow> False)
      then Inl ErrUsernameAlreadyTaken
      else Inr (put newUsername userUID (del oldUsername b)))"

definition updateAccessKeyIndex ::
  "string \<Rightarrow> string \<Rightarrow> uuid \<Rightarrow> (string \<times> uuid) list \<Rightarrow> meta_error + (string \<times> uuid) list" where
  "updateAccessKeyIndex oldAccessKey newAccessKey userUID b =
     (if (case map_of b newAccessKey of Some uid \<Rightarrow> uid \<noteq> userUID | None \<Rightarrow> False)
      then Inl ErrAccessKeyAlreadyTaken
      else Inr (put newAccessKey userUID (del oldAccessKey b)))"

text \<open>One transaction: an error rolls both index changes back.\<close>

definition syncUserIndexes ::
  "uuid \<Rightarrow> string \<Rightarrow> string \<Rightarrow> iam_user \<Rightarrow> bool \<Rightarrow> bool \<Rightarrow> meta_store \<Rightarrow> meta_error + meta_store" where
  "syncUserIndexes userUID oldUsername oldAccessKey existing usernameChanged accessKeyChanged st =
     (case (if usernameChanged
            then updateUsernameIndex oldUsername (u_username existing) userUID (ms_byUsername st)
            else Inr (ms_byUsername st)) of
        Inl e \<Rightarrow> Inl e
      | Inr byUsername \<Rightarrow>
          (case (if accessKeyChanged
                 then updateAccessKeyIndex oldAccessKey (u_accessKey existing) userUID
                        (ms_byAccessKey st)
                 else Inr (ms_byAccessKey st)) of
             Inl e \<Rightarrow> Inl e
           | Inr byAccessKey \<Rightarrow>
               Inr (st\<lparr>ms_byUsername := byUsername, ms_byAccessKey := byAccessKey\<rparr>)))"

text \<open>\<open>attached\<close> is the field \<open>AttachedPolicies\<close> of the update, \<open>None\<close> when it is nil.\<close>

definition apply_user_updates :: "iam_user \<Rightarrow> iam_user \<Rightarrow> string list option \<Rightarrow> iam_user" where
  "apply_user_updates existing updates attached =
     existing\<lparr>
       u_username := (if u_username updates \<noteq> '''' then u_username updates else u_username existing),
       u_accessKey := (if u_accessKey updates \<noteq> '''' then u_accessKey updates
                       else u_accessKey existing),
       u_secretKey := (if u_secretKey updates \<noteq> '''' then u_secretKey updates
                       else u_secretKey existing),
       u_status := (if u_status updates \<noteq> '''' then u_status updates else u_status existing),
       u_attachedPolicies := (case attached of Some ps \<Rightarrow> ps | None \<Rightarrow> u_attachedPolicies existing)\<rparr>"

definition UpdateUser ::
  "crypt_env \<Rightarrow> time \<Rightarrow> uuid \<Rightarrow> iam_user \<Rightarrow> string list option \<Rightarrow> meta_store
     \<Rightarrow> meta_error option \<times> meta_store" where
  "UpdateUser C now userUID updates attached st =
     (case GetUser C st userUID of
        Inl e \<Rightarrow> (Some e, st)
      | Inr existing \<Rightarrow>
          let usernameChanged =
                (u_username updates \<noteq> '''' \<and> u_username updates \<noteq> u_username existing);
              accessKeyChanged =
                (u_accessKey updates \<noteq> '''' \<and> u_accessKey updates \<noteq> u_accessKey existing);
              user = apply_user_updates existing updates attached
          in case (if usernameChanged \<or> accessKeyChanged
                   then syncUserIndexes userUID (u_username existing) (u_accessKey existing) user
                          usernameChanged accessKeyChanged st
                   else Inr st) of
               Inl e \<Rightarrow> (Some e, st)
             | Inr st' \<Rightarrow>
                 (None, SaveUser C userUID
                    (user\<lparr>u_updatedAt := now, u_version := UserMetadataVersion\<rparr>) st'))"

definition MetaDeleteUser :: "crypt_env \<Rightarrow> uuid \<Rightarrow> meta_store \<Rightarrow> meta_store" where
  "MetaDeleteUser C userUID st =
     (let st' = st\<lparr>ms_users := del userUID (ms_users st)\<rparr>
      in case GetUser C st userUID of
           Inl e \<Rightarrow> st'
         | Inr user \<Rightarrow>
             st'\<lparr>ms_byUsername := del (u_username user) (ms_byUsername st'),
                 ms_byAccessKey := del (u_accessKey user) (ms_byAccessKey st'),
                 ms_usersIdx := removeAll userUID (ms_usersIdx st')\<rparr>)"

definition ListUsers :: "meta_store \<Rightarrow> uuid list" where
  "ListUsers st = map fst (ms_users st)"

definition GetUsers :: "crypt_env \<Rightarrow> meta_store \<Rightarrow> (uuid \<times> iam_user) list" where
  "GetUsers C st =
     List.map_filter
       (\<lambda>uid. case GetUser C st uid of Inl _ \<Rightarrow> None | Inr u \<Rightarrow> Some (uid, u)) (ListUsers st)"

definition GetUserByUsername :: "crypt_env \<Rightarrow> meta_store \<Rightarrow> string \<Rightarrow> meta_error + iam_user" where
  "GetUserByUsername C st username =
     (case map_of (ms_byUsername st) username of
        None \<Rightarrow> Inl ErrUserNotFound
      | Some uid \<Rightarrow> GetUser C st uid)"

definition GetUserByAccessKey :: "crypt_env \<Rightarrow> meta_store \<Rightarrow> string \<Rightarrow> meta_error + iam_user" where
  "GetUserByAccessKey C st accessKey =
     (case map_of (ms_byAccessKey st) accessKey of
        None \<Rightarrow> Inl ErrUserNotFound
      | Some uid \<Rightarrow> GetUser C st uid)"

definition buildUsersIndex :: "meta_store \<Rightarrow> meta_store" where
  "buildUsersIndex st =
     st\<lparr>ms_usersIdx := fold List.insert (ListUsers st) (ms_usersIdx st)\<rparr>"

end
