(* ===== verification/MetadataIam.thy ===== *)
theory MetadataIam
  imports Metadata PolicyProps
begin

text \<open>
  The rest of \<^verbatim>\<open>internal/persistence/metadata\<close>: policies, groups with the membership index, service
  accounts, the reconciliation of the indexes at start-up; and \<open>MetadataResolver\<close> of
  \<^verbatim>\<open>internal/policy/resolver.go\<close>, through which the engine reads the store. The locale
  \<open>policy_resolver\<close> of the engine is interpreted on it here.
\<close>

section \<open>Policies\<close>

definition SavePolicy :: "iam_policy \<Rightarrow> meta_store \<Rightarrow> meta_store" where
  "SavePolicy policy st = st\<lparr>ms_policies := put (p_name policy) policy (ms_policies st)\<rparr>"

definition GetPolicy :: "meta_store \<Rightarrow> string \<Rightarrow> meta_error + iam_policy" where
  "GetPolicy st nm =
     (case map_of (ms_policies st) nm of None \<Rightarrow> Inl ErrPolicyNotFound | Some p \<Rightarrow> Inr p)"

definition MetaDeletePolicy :: "string \<Rightarrow> meta_store \<Rightarrow> meta_store" where
  "MetaDeletePolicy nm st = st\<lparr>ms_policies := del nm (ms_policies st)\<rparr>"

definition ListPolicyNames :: "meta_store \<Rightarrow> string list" where
  "ListPolicyNames st = map fst (ms_policies st)"

definition GetPolicies :: "meta_store \<Rightarrow> (string \<times> iam_policy) list" where
  "GetPolicies st =
     List.map_filter
       (\<lambda>nm. case GetPolicy st nm of Inl _ \<Rightarrow> None | Inr p \<Rightarrow> Some (nm, p)) (ListPolicyNames st)"

text \<open>One round of the loop of \<open>seedBuiltinPolicies\<close>.\<close>

definition seed_builtin :: "time \<Rightarrow> string \<Rightarrow> meta_store \<Rightarrow> meta_store" where
  "seed_builtin now nm st =
     (case BuiltinPolicyDocument nm of
        None \<Rightarrow> st
      | Some doc \<Rightarrow>
          (case GetPolicy st nm of
             Inr existing \<Rightarrow>
               if \<not> p_isBuiltin existing then SavePolicy (existing\<lparr>p_isBuiltin := True\<rparr>) st else st
           | Inl _ \<Rightarrow>
               SavePolicy \<lparr>p_version = PolicyMetadataVersion, p_name = nm, p_document = Some doc,
                           p_createDate = now, p_updateDate = now, p_isBuiltin = True\<rparr> st))"

definition seedBuiltinPolicies :: "time \<Rightarrow> meta_store \<Rightarrow> meta_store" where
  "seedBuiltinPolicies now st = fold (seed_builtin now) BuiltinPolicyNames st"

section \<open>The group membership index (index.go)\<close>

text \<open>The names are stored as a JSON array. For a user without an entry the code starts from
  \<open>make([]string, 1, 2)\<close>, a slice that already holds one empty string.\<close>

definition groupIndexAdd ::
  "string \<Rightarrow> uuid \<Rightarrow> (uuid \<times> string list) list \<Rightarrow> (uuid \<times> string list) list" where
  "groupIndexAdd groupName userUUID b =
     (let names = (case map_of b userUUID of Some v \<Rightarrow> v | None \<Rightarrow> [''''])
      in if groupName \<in> set names then b else put userUUID (names @ [groupName]) b)"

definition groupIndexRemove ::
  "string \<Rightarrow> uuid \<Rightarrow> (uuid \<times> string list) list \<Rightarrow> (uuid \<times> string list) list" where
  "groupIndexRemove groupName userUUID b =
     (case map_of b userUUID of
        None \<Rightarrow> b
      | Some names \<Rightarrow>
          let filtered = filter (\<lambda>n. n \<noteq> groupName) names
          in if filtered = [] then del userUUID b else put userUUID filtered b)"

definition GetGroupNamesForUser :: "meta_store \<Rightarrow> uuid \<Rightarrow> string list" where
  "GetGroupNamesForUser st userUUID =
     (case map_of (ms_groupsByUser st) userUUID of None \<Rightarrow> [] | Some names \<Rightarrow> names)"

section \<open>Groups\<close>

definition GetGroup :: "meta_store \<Rightarrow> string \<Rightarrow> meta_error + iam_group" where
  "GetGroup st groupName =
     (case map_of (ms_groups st) groupName of None \<Rightarrow> Inl ErrGroupNotFound | Some g \<Rightarrow> Inr g)"

definition SaveGroup :: "iam_group \<Rightarrow> meta_store \<Rightarrow> meta_store" where
  "SaveGroup g st = st\<lparr>ms_groups := put (g_name g) g (ms_groups st)\<rparr>"

definition MetaCreateGroup :: "time \<Rightarrow> string \<Rightarrow> meta_store \<Rightarrow> meta_error option \<times> meta_store" where
  "MetaCreateGroup now groupName st =
     (if map_of (ms_groups st) groupName \<noteq> None then (Some ErrGroupAlreadyExists, st)
      else (None, st\<lparr>ms_groups := put groupName
              \<lparr>g_version = GroupMetadataVersion, g_name = groupName, g_members = [],
               g_attachedPolicies = [], g_status = GroupStatusActive, g_createdAt = now,
               g_updatedAt = now\<rparr> (ms_groups st)\<rparr>))"

definition MetaDeleteGroup :: "string \<Rightarrow> meta_store \<Rightarrow> meta_store" where
  "MetaDeleteGroup groupName st =
     (let st' = st\<lparr>ms_groups := del groupName (ms_groups st)\<rparr>
      in case GetGroup st groupName of
           Inl _ \<Rightarrow> st'
         | Inr g \<Rightarrow>
             st'\<lparr>ms_groupsByUser := fold (groupIndexRemove groupName) (g_members g) (ms_groupsByUser st')\<rparr>)"

definition AddUserToGroup ::
  "time \<Rightarrow> string \<Rightarrow> uuid \<Rightarrow> meta_store \<Rightarrow> meta_error option \<times> meta_store" where
  "AddUserToGroup now groupName userUid st =
     (case GetGroup st groupName of
        Inl e \<Rightarrow> (Some e, st)
      | Inr g \<Rightarrow>
          if userUid \<in> set (g_members g) then (None, st)
          else
            let st' = SaveGroup (g\<lparr>g_members := g_members g @ [userUid], g_updatedAt := now\<rparr>) st
            in (None, st'\<lparr>ms_groupsByUser := groupIndexAdd groupName userUid (ms_groupsByUser st')\<rparr>))"

definition RemoveUserFromGroup ::
  "time \<Rightarrow> string \<Rightarrow> uuid \<Rightarrow> meta_store \<Rightarrow> meta_error option \<times> meta_store" where
  "RemoveUserFromGroup now groupName userUid st =
     (case GetGroup st groupName of
        Inl e \<Rightarrow> (Some e, st)
      | Inr g \<Rightarrow>
          let st' = SaveGroup (g\<lparr>g_members := filter (\<lambda>m. m \<noteq> userUid) (g_members g),
                                 g_updatedAt := now\<rparr>) st
          in (None, st'\<lparr>ms_groupsByUser := groupIndexRemove groupName userUid (ms_groupsByUser st')\<rparr>))"

definition AttachPolicyToGroup ::
  "time \<Rightarrow> string \<Rightarrow> string \<Rightarrow> meta_store \<Rightarrow> meta_error option \<times> meta_store" where
  "AttachPolicyToGroup now groupName policyName st =
     (case GetGroup st groupName of
        Inl e \<Rightarrow> (Some e, st)
      | Inr g \<Rightarrow>
          if policyName \<in> set (g_attachedPolicies g) then (None, st)
          else (None, SaveGroup (g\<lparr>g_attachedPolicies := g_attachedPolicies g @ [policyName],
                                   g_updatedAt := now\<rparr>) st))"

definition DetachPolicyFromGroup ::
  "time \<Rightarrow> string \<Rightarrow> string \<Rightarrow> meta_store \<Rightarrow> meta_error option \<times> meta_store" where
  "DetachPolicyFromGroup now groupName policyName st =
     (case GetGroup st groupName of
        Inl e \<Rightarrow> (Some e, st)
      | Inr g \<Rightarrow>
          (None, SaveGroup (g\<lparr>g_attachedPolicies := filter (\<lambda>p. p \<noteq> policyName) (g_attachedPolicies g),
                              g_updatedAt := now\<rparr>) st))"

definition SetGroupStatus ::
  "time \<Rightarrow> string \<Rightarrow> string \<Rightarrow> meta_store \<Rightarrow> meta_error option \<times> meta_store" where
  "SetGroupStatus now groupName status st =
     (case GetGroup st groupName of
        Inl e \<Rightarrow> (Some e, st)
      | Inr g \<Rightarrow> (None, SaveGroup (g\<lparr>g_status := status, g_updatedAt := now\<rparr>) st))"

definition ListGroupNames :: "meta_store \<Rightarrow> string list" where
  "ListGroupNames st = map fst (ms_groups st)"

definition GetGroups :: "meta_store \<Rightarrow> (string \<times> iam_group) list" where
  "GetGroups st =
     List.map_filter
       (\<lambda>nm. case GetGroup st nm of Inl _ \<Rightarrow> None | Inr g \<Rightarrow> Some (nm, g)) (ListGroupNames st)"

section \<open>Service accounts\<close>

definition encrypted_sa :: "crypt_env \<Rightarrow> service_account \<Rightarrow> service_account" where
  "encrypted_sa C sa = sa\<lparr>sa_secretKey := encrypt_default C (sa_secretKey sa)\<rparr>"

definition MetaCreateServiceAccount ::
  "crypt_env \<Rightarrow> service_account \<Rightarrow> meta_store \<Rightarrow> meta_error option \<times> meta_store" where
  "MetaCreateServiceAccount C sa st =
     (if map_of (ms_serviceAccounts st) (sa_accessKey sa) \<noteq> None
      then (Some (ErrSAAlreadyExists (sa_accessKey sa)), st)
      else (None, st\<lparr>ms_serviceAccounts :=
              put (sa_accessKey sa) (encrypted_sa C sa) (ms_serviceAccounts st)\<rparr>))"

definition GetServiceAccount ::
  "crypt_env \<Rightarrow> meta_store \<Rightarrow> string \<Rightarrow> meta_error + service_account" where
  "GetServiceAccount C st accessKey =
     (case map_of (ms_serviceAccounts st) accessKey of
        None \<Rightarrow> Inl ErrServiceAccountNotFound
      | Some sa \<Rightarrow>
          (case decrypt_default C (sa_secretKey sa) of
             Inl e \<Rightarrow> Inl (ErrDecrypt e)
           | Inr decrypted \<Rightarrow> Inr (sa\<lparr>sa_secretKey := decrypted\<rparr>)))"

definition SaveServiceAccount :: "crypt_env \<Rightarrow> service_account \<Rightarrow> meta_store \<Rightarrow> meta_store" where
  "SaveServiceAccount C sa st =
     st\<lparr>ms_serviceAccounts := put (sa_accessKey sa) (encrypted_sa C sa) (ms_serviceAccounts st)\<rparr>"

definition MetaDeleteServiceAccount :: "string \<Rightarrow> meta_store \<Rightarrow> meta_store" where
  "MetaDeleteServiceAccount accessKey st =
     st\<lparr>ms_serviceAccounts := del accessKey (ms_serviceAccounts st)\<rparr>"

definition ListServiceAccountKeys :: "meta_store \<Rightarrow> string list" where
  "ListServiceAccountKeys st = map fst (ms_serviceAccounts st)"

definition GetServiceAccounts :: "crypt_env \<Rightarrow> meta_store \<Rightarrow> (string \<times> service_account) list" where
  "GetServiceAccounts C st =
     List.map_filter
       (\<lambda>k. case GetServiceAccount C st k of Inl _ \<Rightarrow> None | Inr sa \<Rightarrow> Some (k, sa))
       (ListServiceAccountKeys st)"

definition GetServiceAccountByUUID ::
  "crypt_env \<Rightarrow> meta_store \<Rightarrow> uuid \<Rightarrow> meta_error + service_account" where
  "GetServiceAccountByUUID C st saUUID =
     (case List.find (\<lambda>(_, sa). sa_uuid sa = saUUID) (GetServiceAccounts C st) of
        None \<Rightarrow> Inl ErrServiceAccountNotFound
      | Some (_, sa) \<Rightarrow> Inr sa)"

section \<open>Reconciliation at start-up (index.go)\<close>

text \<open>Phase A drops the index entries of unknown users; phase B writes the entries of every user
  that can be loaded. The order of the known UUIDs is the iteration order of a Go map.\<close>

definition reindex_user :: "crypt_env \<Rightarrow> uuid \<Rightarrow> meta_store \<Rightarrow> meta_store" where
  "reindex_user C uid st =
     (case GetUser C st uid of
        Inl _ \<Rightarrow> st
      | Inr user \<Rightarrow>
          st\<lparr>ms_byUsername := (if u_username user \<noteq> '''' then put (u_username user) uid (ms_byUsername st)
                               else ms_byUsername st),
             ms_byAccessKey := (if u_accessKey user \<noteq> '''' then put (u_accessKey user) uid (ms_byAccessKey st)
                                else ms_byAccessKey st)\<rparr>)"

definition drop_stale :: "uuid list \<Rightarrow> (string \<times> uuid) list \<Rightarrow> (string \<times> uuid) list" where
  "drop_stale known b = filter (\<lambda>(_, uid). uid \<in> set known) b"

text \<open>\<open>userGroups\<close>: the groups of each member, in the order in which the groups are visited.\<close>

definition append_group ::
  "string \<Rightarrow> uuid \<Rightarrow> (uuid \<times> string list) list \<Rightarrow> (uuid \<times> string list) list" where
  "append_group groupName uid m =
     put uid ((case map_of m uid of Some ns \<Rightarrow> ns | None \<Rightarrow> []) @ [groupName]) m"

definition user_groups :: "(string \<times> iam_group) list \<Rightarrow> (uuid \<times> string list) list" where
  "user_groups groups =
     fold (\<lambda>(groupName, g). fold (append_group groupName) (g_members g)) groups []"

definition reconcileIndexes :: "crypt_env \<Rightarrow> meta_store \<Rightarrow> meta_store" where
  "reconcileIndexes C st =
     (let known = ms_usersIdx st;
          st1 = st\<lparr>ms_byUsername := drop_stale known (ms_byUsername st),
                   ms_byAccessKey := drop_stale known (ms_byAccessKey st)\<rparr>;
          st2 = fold (reindex_user C) known st1
      in st2\<lparr>ms_groupsByUser := user_groups (GetGroups st2)\<rparr>)"

text \<open>The constructor \<open>New\<close>, on the files found on disk: the in-memory parts start empty.\<close>

definition open_store :: "crypt_env \<Rightarrow> time \<Rightarrow> meta_store \<Rightarrow> meta_store" where
  "open_store C now st =
     seedBuiltinPolicies now
       (reconcileIndexes C (buildUsersIndex (st\<lparr>ms_usersIdx := [], ms_objMetaCache := []\<rparr>)))"

section \<open>The resolver of the policy engine (resolver.go)\<close>

definition resolver_GetPolicyDocument :: "meta_store \<Rightarrow> string \<Rightarrow> policy_document option option" where
  "resolver_GetPolicyDocument st nm =
     (case GetPolicy st nm of Inl _ \<Rightarrow> None | Inr policy \<Rightarrow> Some (p_document policy))"

definition resolver_GetUserPolicyNamesByUUID ::
  "crypt_env \<Rightarrow> meta_store \<Rightarrow> uuid \<Rightarrow> string list option" where
  "resolver_GetUserPolicyNamesByUUID C st userUUID =
     (case GetUser C st userUUID of Inl _ \<Rightarrow> None | Inr user \<Rightarrow> Some (u_attachedPolicies user))"

definition resolver_GetGroupPoliciesForUser :: "meta_store \<Rightarrow> uuid \<Rightarrow> string list option" where
  "resolver_GetGroupPoliciesForUser st userUUID =
     Some (concat (map
       (\<lambda>groupName. case GetGroup st groupName of
            Inl _ \<Rightarrow> []
          | Inr g \<Rightarrow> if \<not> group_status_is_active (g_status g) then [] else g_attachedPolicies g)
       (GetGroupNamesForUser st userUUID)))"

definition MetadataResolver :: "crypt_env \<Rightarrow> meta_store \<Rightarrow> resolver" where
  "MetadataResolver C st =
     \<lparr>rv_GetPolicyDocument = resolver_GetPolicyDocument st,
      rv_GetUserPolicyNamesByUUID = resolver_GetUserPolicyNamesByUUID C st,
      rv_GetGroupPoliciesForUser = resolver_GetGroupPoliciesForUser st\<rparr>"

end
