(* ===== verification/MetadataProps.thy ===== *)
theory MetadataProps
  imports MetadataIam
begin

text \<open>
  Invariants of the metadata store: uniqueness of user names and access keys through the indexes,
  agreement of the membership index with the groups, coherence of the object cache, and the
  contract of the resolver. The changes of each part are step relations; the invariants hold in
  every reachable store.
\<close>

section \<open>Users and their indexes\<close>

definition user_inv :: "meta_store \<Rightarrow> bool" where
  "user_inv st \<longleftrightarrow>
     (\<forall>uid u. map_of (ms_users st) uid = Some u \<longrightarrow>
        u_uuid u = uid \<and> map_of (ms_byUsername st) (u_username u) = Some uid \<and>
        map_of (ms_byAccessKey st) (u_accessKey u) = Some uid)"

inductive user_step :: "crypt_env \<Rightarrow> meta_store \<Rightarrow> meta_store \<Rightarrow> bool" for C where
  create: "CreateOrUpdateUser C now fresh u st = (e, u', st') \<Longrightarrow> user_step C st st'"
| update: "UpdateUser C now uid u attached st = (e, st') \<Longrightarrow> user_step C st st'"
| delete: "user_step C st (MetaDeleteUser C uid st)"

lemma user_invD:
  assumes "user_inv st" "map_of (ms_users st) uid = Some u"
  shows "u_uuid u = uid" "map_of (ms_byUsername st) (u_username u) = Some uid"
    "map_of (ms_byAccessKey st) (u_accessKey u) = Some uid"
  using assms by (auto simp: user_inv_def)

lemma index_user_Inr:
  assumes "index_user u st = Inr st'"
  shows "map_of (ms_byUsername st) (u_username u) \<in> {None, Some (u_uuid u)}"
    "map_of (ms_byAccessKey st) (u_accessKey u) \<in> {None, Some (u_uuid u)}"
    "map_of (ms_byUsername st') = (map_of (ms_byUsername st))(u_username u \<mapsto> u_uuid u)"
    "map_of (ms_byAccessKey st') = (map_of (ms_byAccessKey st))(u_accessKey u \<mapsto> u_uuid u)"
    "ms_users st' = ms_users st" "ms_usersIdx st' = ms_usersIdx st"
  using assms by (auto simp: index_user_def split: if_splits option.splits)

lemma index_user_inv:
  assumes "user_inv st" "index_user u st = Inr st'"
  shows "user_inv (SaveUser C (u_uuid u) (u\<lparr>u_version := v, u_updatedAt := t\<rparr>) st')"
proof -
  note ix = index_user_Inr[OF assms(2)]
  have other: "map_of (ms_byUsername st') (u_username g) = Some uid \<and>
      map_of (ms_byAccessKey st') (u_accessKey g) = Some uid"
    if "map_of (ms_users st) uid = Some g" "uid \<noteq> u_uuid u" for uid g
    using user_invD(2,3)[OF assms(1) that(1)] ix(1-4) that(2) by auto
  show ?thesis
    unfolding user_inv_def
    using other user_invD(1)[OF assms(1)] ix(3-5) by (auto simp: SaveUser_def split: if_splits)
qed

lemma CreateOrUpdateUser_cases:
  assumes "CreateOrUpdateUser C now fresh u st = (e, u', st')"
  obtains (error) err where "e = Some err" "st' = st"
  | (ok) st1 where "e = None" "index_user (ensure_uuid fresh u) st = Inr st1"
      "u' = (ensure_uuid fresh u)\<lparr>u_version := UserMetadataVersion, u_updatedAt := now\<rparr>"
      "st' = (SaveUser C (u_uuid (ensure_uuid fresh u)) u' st1)
         \<lparr>ms_usersIdx := List.insert (u_uuid (ensure_uuid fresh u)) (ms_usersIdx st1)\<rparr>"
      "u_accessKey u \<noteq> ''''" "u_username u \<noteq> ''''"
  using assms
  by (cases "index_user (ensure_uuid fresh u) st")
    (auto simp: CreateOrUpdateUser_def Let_def SaveUser_def split: if_splits)

lemma user_inv_idx: "user_inv (st\<lparr>ms_usersIdx := idx\<rparr>) = user_inv st"
  by (simp add: user_inv_def)

lemma create_user_inv:
  assumes "user_inv st" "CreateOrUpdateUser C now fresh u st = (e, u', st')"
  shows "user_inv st'"
  using assms(2)
proof (cases rule: CreateOrUpdateUser_cases)
  case error
  with assms(1) show ?thesis by simp
next
  case (ok st1)
  show ?thesis
    unfolding ok(3,4) user_inv_idx by (rule index_user_inv[OF assms(1) ok(2)])
qed

lemma GetUser_Inr:
  "GetUser C st uid = Inr u \<Longrightarrow>
     \<exists>f. map_of (ms_users st) uid = Some f \<and> u_username f = u_username u \<and>
       u_accessKey f = u_accessKey u \<and> u_uuid f = u_uuid u"
  by (auto simp: GetUser_def split: option.splits sum.splits)

lemma updateUsernameIndex_Inr:
  "updateUsernameIndex old new uid b = Inr b' \<Longrightarrow>
     map_of b new \<in> {None, Some uid} \<and> map_of b' = (map_of b)(old := None, new \<mapsto> uid)"
  by (auto simp: updateUsernameIndex_def split: if_splits option.splits)

lemma updateAccessKeyIndex_Inr:
  "updateAccessKeyIndex old new uid b = Inr b' \<Longrightarrow>
     map_of b new \<in> {None, Some uid} \<and> map_of b' = (map_of b)(old := None, new \<mapsto> uid)"
  by (auto simp: updateAccessKeyIndex_def split: if_splits option.splits)

lemma syncUserIndexes_Inr:
  assumes "syncUserIndexes uid oldName oldKey u nameChanged keyChanged st = Inr st'"
  shows "ms_users st' = ms_users st"
    "if nameChanged then map_of (ms_byUsername st) (u_username u) \<in> {None, Some uid} \<and>
        map_of (ms_byUsername st') =
          (map_of (ms_byUsername st))(oldName := None, u_username u \<mapsto> uid)
     else ms_byUsername st' = ms_byUsername st"
    "if keyChanged then map_of (ms_byAccessKey st) (u_accessKey u) \<in> {None, Some uid} \<and>
        map_of (ms_byAccessKey st') =
          (map_of (ms_byAccessKey st))(oldKey := None, u_accessKey u \<mapsto> uid)
     else ms_byAccessKey st' = ms_byAccessKey st"
  using assms
  by (auto simp: syncUserIndexes_def split: if_splits sum.splits
      dest!: updateUsernameIndex_Inr updateAccessKeyIndex_Inr)

text \<open>An index map that is moved from the old to the new name of one user.\<close>

lemma moved_index:
  assumes "m (old :: string) = Some uid" "m new \<in> {None, Some uid}" "m nm = Some uid'" "uid' \<noteq> uid"
  shows "(m(old := None, new \<mapsto> uid)) nm = Some uid'"
  using assms by auto

lemma update_user_inv:
  assumes inv: "user_inv st" and upd: "UpdateUser C now uid u attached st = (e, st')"
  shows "user_inv st'"
proof (cases "GetUser C st uid")
  case (Inl err)
  with assms show ?thesis by (auto simp: UpdateUser_def)
next
  case (Inr existing)
  obtain f where f: "map_of (ms_users st) uid = Some f" "u_username f = u_username existing"
    "u_accessKey f = u_accessKey existing" "u_uuid f = u_uuid existing"
    using GetUser_Inr[OF Inr] by blast
  note fi = user_invD[OF inv f(1)]
  define nc where "nc \<longleftrightarrow> u_username u \<noteq> '''' \<and> u_username u \<noteq> u_username existing"
  define kc where "kc \<longleftrightarrow> u_accessKey u \<noteq> '''' \<and> u_accessKey u \<noteq> u_accessKey existing"
  define w where "w = apply_user_updates existing u attached"
  have wn: "u_username w = (if nc then u_username u else u_username existing)"
    and wk: "u_accessKey w = (if kc then u_accessKey u else u_accessKey existing)"
    and wu: "u_uuid w = uid"
    using f(4) fi(1) by (auto simp: w_def apply_user_updates_def nc_def kc_def)
  let ?sync = "if nc \<or> kc then syncUserIndexes uid (u_username existing) (u_accessKey existing) w nc kc st
               else Inr st"
  show ?thesis
  proof (cases ?sync)
    case (Inl err)
    with upd Inr inv show ?thesis
      unfolding UpdateUser_def nc_def kc_def w_def by (auto simp: Let_def)
  next
    case (Inr st1)
    have st': "st' = SaveUser C uid (w\<lparr>u_updatedAt := now, u_version := UserMetadataVersion\<rparr>) st1"
      using upd Inr \<open>GetUser C st uid = Inr existing\<close>
      unfolding UpdateUser_def nc_def kc_def w_def by (auto simp: Let_def)
    have users: "ms_users st1 = ms_users st"
      and names: "if nc then map_of (ms_byUsername st) (u_username w) \<in> {None, Some uid} \<and>
          map_of (ms_byUsername st1) =
            (map_of (ms_byUsername st))(u_username existing := None, u_username w \<mapsto> uid)
        else ms_byUsername st1 = ms_byUsername st"
      and keys: "if kc then map_of (ms_byAccessKey st) (u_accessKey w) \<in> {None, Some uid} \<and>
          map_of (ms_byAccessKey st1) =
            (map_of (ms_byAccessKey st))(u_accessKey existing := None, u_accessKey w \<mapsto> uid)
        else ms_byAccessKey st1 = ms_byAccessKey st"
      using Inr syncUserIndexes_Inr[of uid "u_username existing" "u_accessKey existing" w nc kc st st1]
      by (auto split: if_splits)
    have other: "map_of (ms_byUsername st1) (u_username g) = Some uid' \<and>
        map_of (ms_byAccessKey st1) (u_accessKey g) = Some uid'"
      if "map_of (ms_users st) uid' = Some g" "uid' \<noteq> uid" for uid' g
      using user_invD(2,3)[OF inv that(1)] names keys that(2) fi(2,3) f(2,3)
        moved_index[of "map_of (ms_byUsername st)" "u_username existing" uid "u_username w"]
        moved_index[of "map_of (ms_byAccessKey st)" "u_accessKey existing" uid "u_accessKey w"]
      by (auto split: if_splits)
    have self: "map_of (ms_byUsername st1) (u_username w) = Some uid"
      "map_of (ms_byAccessKey st1) (u_accessKey w) = Some uid"
      using names keys wn wk fi(2,3) f(2,3) by (auto split: if_splits)
    show ?thesis
      unfolding st' user_inv_def
      using other self wu user_invD(1)[OF inv] by (auto simp: SaveUser_def users split: if_splits)
  qed
qed

lemma delete_user_inv:
  assumes inv: "user_inv st"
  shows "user_inv (MetaDeleteUser C uid st)"
proof (cases "GetUser C st uid")
  case (Inl err)
  with inv show ?thesis by (auto simp: MetaDeleteUser_def user_inv_def)
next
  case (Inr u)
  obtain f where f: "map_of (ms_users st) uid = Some f" "u_username f = u_username u"
    "u_accessKey f = u_accessKey u"
    using GetUser_Inr[OF Inr] by blast
  note fi = user_invD[OF inv f(1)]
  have "u_username g \<noteq> u_username u \<and> u_accessKey g \<noteq> u_accessKey u"
    if "map_of (ms_users st) uid' = Some g" "uid' \<noteq> uid" for uid' g
    using user_invD(2,3)[OF inv that(1)] fi f that(2) by auto
  with inv Inr show ?thesis
    by (auto simp: MetaDeleteUser_def user_inv_def Let_def)
qed

theorem user_step_inv: "user_step C st st' \<Longrightarrow> user_inv st \<Longrightarrow> user_inv st'"
  by (induction rule: user_step.induct) (auto intro: create_user_inv update_user_inv delete_user_inv)

definition empty_store :: meta_store where
  "empty_store =
     \<lparr>ms_buckets = [], ms_objects = [], ms_users = [], ms_policies = [], ms_groups = [],
      ms_serviceAccounts = [], ms_byUsername = [], ms_byAccessKey = [], ms_groupsByUser = [],
      ms_usersIdx = [], ms_objMetaCache = []\<rparr>"

lemma user_inv_empty: "user_inv empty_store"
  by (simp add: user_inv_def empty_store_def)

lemma reachable_user_inv:
  "(user_step C)\<^sup>*\<^sup>* empty_store st \<Longrightarrow> user_inv st"
  by (induction rule: rtranclp_induct) (auto intro: user_inv_empty user_step_inv)

section \<open>Exactness of the indexes\<close>

text \<open>No index entry is stale: each leads to a user who has that name or key.\<close>

definition index_exact :: "meta_store \<Rightarrow> bool" where
  "index_exact st \<longleftrightarrow>
     (\<forall>nm uid. map_of (ms_byUsername st) nm = Some uid \<longrightarrow>
        (\<exists>u. map_of (ms_users st) uid = Some u \<and> u_username u = nm)) \<and>
     (\<forall>k uid. map_of (ms_byAccessKey st) k = Some uid \<longrightarrow>
        (\<exists>u. map_of (ms_users st) uid = Some u \<and> u_accessKey u = k))"

lemma update_user_cases:
  assumes inv: "user_inv st" and upd: "UpdateUser C now uid u attached st = (e, st')"
  obtains (error) err where "e = Some err" "st' = st"
  | (ok) f w st1 where "e = None" "map_of (ms_users st) uid = Some f" "u_uuid w = uid"
      "st' = SaveUser C uid w st1" "ms_users st1 = ms_users st"
      "map_of (ms_byUsername st1) =
         (map_of (ms_byUsername st))(u_username f := None, u_username w \<mapsto> uid)"
      "map_of (ms_byAccessKey st1) =
         (map_of (ms_byAccessKey st))(u_accessKey f := None, u_accessKey w \<mapsto> uid)"
      "u_accessKey w = (if u_accessKey u \<noteq> '''' then u_accessKey u else u_accessKey f)"
proof (cases "GetUser C st uid")
  case (Inl err)
  with upd error show ?thesis by (auto simp: UpdateUser_def)
next
  case (Inr existing)
  obtain f where f: "map_of (ms_users st) uid = Some f" "u_username f = u_username existing"
    "u_accessKey f = u_accessKey existing" "u_uuid f = u_uuid existing"
    using GetUser_Inr[OF Inr] by blast
  note fi = user_invD[OF inv f(1)]
  define nc where "nc \<longleftrightarrow> u_username u \<noteq> '''' \<and> u_username u \<noteq> u_username existing"
  define kc where "kc \<longleftrightarrow> u_accessKey u \<noteq> '''' \<and> u_accessKey u \<noteq> u_accessKey existing"
  define w where "w = apply_user_updates existing u attached"
  have w: "u_username w = (if nc then u_username u else u_username existing)"
    "u_accessKey w = (if kc then u_accessKey u else u_accessKey existing)" "u_uuid w = uid"
    using f(4) fi(1) by (auto simp: w_def apply_user_updates_def nc_def kc_def)
  let ?sync = "if nc \<or> kc then syncUserIndexes uid (u_username existing) (u_accessKey existing) w nc kc st
               else Inr st"
  show ?thesis
  proof (cases ?sync)
    case (Inl err)
    with upd Inr error show ?thesis
      unfolding UpdateUser_def nc_def kc_def w_def by (auto simp: Let_def)
  next
    case (Inr st1)
    have e: "e = None" and st': "st' = SaveUser C uid
        (w\<lparr>u_updatedAt := now, u_version := UserMetadataVersion\<rparr>) st1"
      using upd Inr \<open>GetUser C st uid = Inr existing\<close>
      unfolding UpdateUser_def nc_def kc_def w_def by (auto simp: Let_def)
    have same: "(m :: string \<Rightarrow> uuid option)(x := None, x \<mapsto> uid) = m" if "m x = Some uid" for m x
      using that by auto
    have st1: "ms_users st1 = ms_users st"
      "map_of (ms_byUsername st1) =
         (map_of (ms_byUsername st))(u_username f := None, u_username w \<mapsto> uid)"
      "map_of (ms_byAccessKey st1) =
         (map_of (ms_byAccessKey st))(u_accessKey f := None, u_accessKey w \<mapsto> uid)"
      using Inr syncUserIndexes_Inr[of uid "u_username existing" "u_accessKey existing" w nc kc st st1]
        same[where m = "map_of (ms_byUsername st)", OF fi(2)]
        same[where m = "map_of (ms_byAccessKey st)", OF fi(3)] w f(2,3)
      by (auto split: if_splits)
    have ak: "u_accessKey w = (if u_accessKey u \<noteq> '''' then u_accessKey u else u_accessKey f)"
      by (auto simp: w(2) kc_def f(3))
    show ?thesis
      by (rule ok[OF e f(1) _ st' st1(1)]) (use w(3) st1 ak in simp_all)
  qed
qed

lemma update_user_exact:
  assumes "user_inv st" "index_exact st" "UpdateUser C now uid u attached st = (e, st')"
  shows "index_exact st'"
  using assms(1,3)
proof (cases rule: update_user_cases)
  case error
  with assms(2) show ?thesis by simp
next
  case (ok f w st1)
  show ?thesis
    unfolding ok(4) index_exact_def
    using assms(2) ok(2,5) by (auto simp: index_exact_def SaveUser_def ok(6,7)) force+
qed

lemma delete_user_exact:
  assumes "user_inv st" "index_exact st" "GetUser C st uid \<in> range Inr"
  shows "index_exact (MetaDeleteUser C uid st)"
proof -
  from assms(3) obtain u where u: "GetUser C st uid = Inr u" by auto
  obtain f where f: "map_of (ms_users st) uid = Some f" "u_username f = u_username u"
    "u_accessKey f = u_accessKey u"
    using GetUser_Inr[OF u] by blast
  show ?thesis
    using assms(2) f by (auto simp: MetaDeleteUser_def u index_exact_def Let_def) force+
qed

text \<open>A new user, one whose UUID has no file yet.\<close>

lemma create_user_exact:
  assumes "index_exact st" "CreateOrUpdateUser C now fresh u st = (None, u', st')"
    and "map_of (ms_users st) (u_uuid (ensure_uuid fresh u)) = None"
  shows "index_exact st'"
  using assms(2)
proof (cases rule: CreateOrUpdateUser_cases)
  case error
  then show ?thesis by simp
next
  case (ok st1)
  note ix = index_user_Inr[OF ok(2)]
  show ?thesis
    unfolding ok(3,4) index_exact_def
    using assms(1,3) ix(3-5) by (auto simp: index_exact_def SaveUser_def) force+
qed

section \<open>Membership index\<close>

definition group_inv :: "meta_store \<Rightarrow> bool" where
  "group_inv st \<longleftrightarrow>
     map_of (ms_groups st) '''' = None \<and>
     (\<forall>nm g. map_of (ms_groups st) nm = Some g \<longrightarrow> g_name g = nm) \<and>
     (\<forall>uid nm. nm \<noteq> '''' \<longrightarrow>
        (nm \<in> set (GetGroupNamesForUser st uid) \<longleftrightarrow>
         (\<exists>g. map_of (ms_groups st) nm = Some g \<and> uid \<in> set (g_members g))))"

inductive group_step :: "meta_store \<Rightarrow> meta_store \<Rightarrow> bool" where
  create: "nm \<noteq> '''' \<Longrightarrow> MetaCreateGroup now nm st = (e, st') \<Longrightarrow> group_step st st'"
| delete: "group_step st (MetaDeleteGroup nm st)"
| add: "AddUserToGroup now nm uid st = (e, st') \<Longrightarrow> group_step st st'"
| remove: "RemoveUserFromGroup now nm uid st = (e, st') \<Longrightarrow> group_step st st'"
| attach: "AttachPolicyToGroup now nm pol st = (e, st') \<Longrightarrow> group_step st st'"
| detach: "DetachPolicyFromGroup now nm pol st = (e, st') \<Longrightarrow> group_step st st'"
| status: "SetGroupStatus now nm s st = (e, st') \<Longrightarrow> group_step st st'"

definition index_names :: "(uuid \<times> string list) list \<Rightarrow> uuid \<Rightarrow> string list" where
  "index_names b uid = (case map_of b uid of None \<Rightarrow> [] | Some ns \<Rightarrow> ns)"

lemma GetGroupNamesForUser_index: "GetGroupNamesForUser st = index_names (ms_groupsByUser st)"
  by (simp add: fun_eq_iff GetGroupNamesForUser_def index_names_def)

lemma index_names_add:
  "nm \<noteq> '''' \<Longrightarrow> nm \<in> set (index_names (groupIndexAdd g uid b) uid') \<longleftrightarrow>
     nm \<in> set (index_names b uid') \<or> (nm = g \<and> uid' = uid)"
  by (auto simp: index_names_def groupIndexAdd_def Let_def split: option.splits)

lemma index_names_remove:
  "nm \<in> set (index_names (groupIndexRemove g uid b) uid') \<longleftrightarrow>
     nm \<in> set (index_names b uid') \<and> \<not> (nm = g \<and> uid' = uid)"
proof (cases "map_of b uid")
  case None
  then show ?thesis by (auto simp: index_names_def groupIndexRemove_def)
next
  case (Some names)
  show ?thesis
  proof (cases "filter (\<lambda>n. n \<noteq> g) names = []")
    case True
    with Some show ?thesis
      by (auto simp: index_names_def groupIndexRemove_def filter_empty_conv)
  next
    case False
    with Some show ?thesis
      by (auto simp: index_names_def groupIndexRemove_def Let_def)
  qed
qed

lemma index_names_remove_all:
  "nm \<in> set (index_names (fold (groupIndexRemove g) uids b) uid') \<longleftrightarrow>
     nm \<in> set (index_names b uid') \<and> \<not> (nm = g \<and> uid' \<in> set uids)"
  by (induction uids arbitrary: b) (auto simp: index_names_remove)

lemma group_invD:
  assumes "group_inv st"
  shows "map_of (ms_groups st) '''' = None"
    and "map_of (ms_groups st) nm = Some g \<Longrightarrow> g_name g = nm"
    and "nm \<noteq> '''' \<Longrightarrow> nm \<in> set (index_names (ms_groupsByUser st) uid) \<longleftrightarrow>
         (\<exists>g. map_of (ms_groups st) nm = Some g \<and> uid \<in> set (g_members g))"
  using assms by (auto simp: group_inv_def GetGroupNamesForUser_index)

text \<open>Saving a group with the same members changes nothing the index depends on.\<close>

lemma save_group_inv:
  assumes "group_inv st" "map_of (ms_groups st) nm = Some g" "g_name g' = nm"
    "set (g_members g') = set (g_members g)"
  shows "group_inv (SaveGroup g' st)"
  using assms by (auto simp: group_inv_def SaveGroup_def GetGroupNamesForUser_index)

lemma create_group_inv:
  assumes "group_inv st" "nm \<noteq> ''''" "MetaCreateGroup now nm st = (e, st')"
  shows "group_inv st'"
  using assms by (auto simp: MetaCreateGroup_def group_inv_def GetGroupNamesForUser_index split: if_splits)

lemma delete_group_inv:
  assumes "group_inv st"
  shows "group_inv (MetaDeleteGroup nm st)"
  using assms
  by (auto simp: MetaDeleteGroup_def group_inv_def GetGroupNamesForUser_index GetGroup_def Let_def
      index_names_remove_all split: option.splits)

lemma add_user_inv:
  assumes "group_inv st" "AddUserToGroup now nm uid st = (e, st')"
  shows "group_inv st'"
proof (cases "map_of (ms_groups st) nm")
  case None
  with assms show ?thesis by (auto simp: AddUserToGroup_def GetGroup_def)
next
  case (Some g)
  with assms show ?thesis
    by (auto simp: AddUserToGroup_def GetGroup_def Let_def group_inv_def GetGroupNamesForUser_index
        SaveGroup_def index_names_add split: if_splits)
qed

lemma remove_user_inv:
  assumes "group_inv st" "RemoveUserFromGroup now nm uid st = (e, st')"
  shows "group_inv st'"
proof (cases "map_of (ms_groups st) nm")
  case None
  with assms show ?thesis by (auto simp: RemoveUserFromGroup_def GetGroup_def)
next
  case (Some g)
  with assms show ?thesis
    by (auto simp: RemoveUserFromGroup_def GetGroup_def Let_def group_inv_def GetGroupNamesForUser_index
        SaveGroup_def index_names_remove split: if_splits)
qed

lemma group_step_inv: "group_step st st' \<Longrightarrow> group_inv st \<Longrightarrow> group_inv st'"
proof (induction rule: group_step.induct)
  case (create nm now st e st')
  then show ?case using create_group_inv by blast
next
  case (delete st nm)
  then show ?case by (rule delete_group_inv)
next
  case (add now nm uid st e st')
  then show ?case using add_user_inv by blast
next
  case (remove now nm uid st e st')
  then show ?case using remove_user_inv by blast
next
  case (attach now nm pol st e st')
  then show ?case
    by (auto simp: AttachPolicyToGroup_def GetGroup_def group_invD(2) split: option.splits if_splits
        intro: save_group_inv)
next
  case (detach now nm pol st e st')
  then show ?case
    by (auto simp: DetachPolicyFromGroup_def GetGroup_def group_invD(2) split: option.splits
        intro: save_group_inv)
next
  case (status now nm s st e st')
  then show ?case
    by (auto simp: SetGroupStatus_def GetGroup_def group_invD(2) split: option.splits
        intro: save_group_inv)
qed

lemma group_inv_empty: "group_inv empty_store"
  by (simp add: group_inv_def empty_store_def GetGroupNamesForUser_def)

lemma reachable_group_inv: "group_step\<^sup>*\<^sup>* empty_store st \<Longrightarrow> group_inv st"
  by (induction rule: rtranclp_induct) (auto intro: group_inv_empty group_step_inv)

section \<open>Reconciliation rebuilds the membership index\<close>

lemma index_names_append_group:
  "nm \<in> set (index_names (append_group g uid m) uid') \<longleftrightarrow>
     nm \<in> set (index_names m uid') \<or> (nm = g \<and> uid' = uid)"
  by (auto simp: index_names_def append_group_def split: option.splits)

lemma index_names_append_groups:
  "nm \<in> set (index_names (fold (append_group g) uids m) uid') \<longleftrightarrow>
     nm \<in> set (index_names m uid') \<or> (nm = g \<and> uid' \<in> set uids)"
  by (induction uids arbitrary: m) (auto simp: index_names_append_group)

lemma index_names_user_groups:
  "nm \<in> set (index_names (user_groups gs) uid) \<longleftrightarrow> (\<exists>g. (nm, g) \<in> set gs \<and> uid \<in> set (g_members g))"
proof -
  have "nm \<in> set (index_names (fold (\<lambda>(groupName, g). fold (append_group groupName) (g_members g)) gs m) uid)
      \<longleftrightarrow> nm \<in> set (index_names m uid) \<or> (\<exists>g. (nm, g) \<in> set gs \<and> uid \<in> set (g_members g))" for m
    by (induction gs arbitrary: m) (auto simp: index_names_append_groups)
  then show ?thesis by (simp add: user_groups_def index_names_def)
qed

lemma GetGroups_iff: "(nm, g) \<in> set (GetGroups st) \<longleftrightarrow> map_of (ms_groups st) nm = Some g"
  by (auto simp: GetGroups_def List.map_filter_def GetGroup_def ListGroupNames_def image_iff
      split: option.splits dest: map_of_SomeD) (force dest: map_of_SomeD)+

lemma reindex_users_groups:
  "ms_groups (fold (reindex_user C) known st) = ms_groups st"
  by (induction known arbitrary: st) (auto simp: reindex_user_def split: sum.splits)

lemma reconcile_group_index:
  "nm \<in> set (GetGroupNamesForUser (reconcileIndexes C st) uid) \<longleftrightarrow>
     (\<exists>g. map_of (ms_groups st) nm = Some g \<and> uid \<in> set (g_members g))"
  by (simp add: reconcileIndexes_def Let_def GetGroupNamesForUser_index index_names_user_groups
      GetGroups_iff reindex_users_groups)

section \<open>Coherence of the object cache\<close>

text \<open>The names of objects whose keys are their own paths; other keys alias them.\<close>

definition object_name :: "string \<Rightarrow> string \<Rightarrow> bool" where
  "object_name b k \<longleftrightarrow> isValidBucketName b \<and> normal_path k"

definition cache_coherent :: "meta_store \<Rightarrow> bool" where
  "cache_coherent st \<longleftrightarrow>
     (\<forall>b k m. object_name b k \<longrightarrow> map_of (ms_objMetaCache st) (cacheKey b k) = Some m \<longrightarrow>
        map_of (ms_objects st) (object_meta_path b k) = Some m)"

inductive object_step :: "meta_store \<Rightarrow> meta_store \<Rightarrow> bool" where
  get: "object_name b k \<Longrightarrow> GetObjectMetadata b k st = (r, st') \<Longrightarrow> object_step st st'"
| put: "object_name b k \<Longrightarrow> object_step st (PutObjectMetadata b k m st)"
| delete: "object_name b k \<Longrightarrow> object_step st (DeleteObjectMetadata b k st)"
| evict: "object_step st (evict_object_metadata ck st)"

lemma cacheKey_inject:
  assumes "CHR 0x00 \<notin> set b" "CHR 0x00 \<notin> set b'"
  shows "cacheKey b k = cacheKey b' k' \<longleftrightarrow> b = b' \<and> k = k'"
  using assms
proof (induction b arbitrary: b')
  case Nil
  then show ?case by (cases b') (auto simp: cacheKey_def)
next
  case (Cons x b)
  then show ?case by (cases b') (auto simp: cacheKey_def)
qed

lemma object_name_inject:
  assumes "object_name b k" "object_name b' k'"
  shows "cacheKey b k = cacheKey b' k' \<longleftrightarrow> b = b' \<and> k = k'"
    and "object_meta_path b k = object_meta_path b' k' \<longleftrightarrow> b = b' \<and> k = k'"
proof -
  have valid: "isValidBucketName b" "isValidBucketName b'" and keys: "normal_path k" "normal_path k'"
    using assms by (simp_all add: object_name_def)
  note no = valid_bucket_chars[OF valid(1)] valid_bucket_chars[OF valid(2)]
  show "cacheKey b k = cacheKey b' k' \<longleftrightarrow> b = b' \<and> k = k'"
    using no by (intro cacheKey_inject)
  show "object_meta_path b k = object_meta_path b' k' \<longleftrightarrow> b = b' \<and> k = k'"
    using no by (intro object_meta_path_inject valid_bucket_normal valid keys)
qed

lemma object_step_coherent: "object_step st st' \<Longrightarrow> cache_coherent st \<Longrightarrow> cache_coherent st'"
proof (induction rule: object_step.induct)
  case (get b k st r st')
  then show ?case
    by (auto simp: GetObjectMetadata_def cache_coherent_def object_name_inject split: option.splits if_splits)
next
  case (put b st k m)
  then show ?case
    by (auto simp: PutObjectMetadata_def cache_coherent_def object_name_inject split: if_splits)
next
  case (delete b st k)
  then show ?case
    by (auto simp: DeleteObjectMetadata_def cache_coherent_def object_name_inject split: if_splits)
next
  case (evict st ck)
  then show ?case
    by (auto simp: evict_object_metadata_def cache_coherent_def split: if_splits)
qed

lemma cache_coherent_empty: "cache_coherent empty_store"
  by (simp add: cache_coherent_def empty_store_def)

lemma reachable_cache_coherent: "object_step\<^sup>*\<^sup>* empty_store st \<Longrightarrow> cache_coherent st"
  by (induction rule: rtranclp_induct) (auto intro: cache_coherent_empty object_step_coherent)

section \<open>The resolver contract\<close>

definition policies_inv :: "meta_store \<Rightarrow> bool" where
  "policies_inv st \<longleftrightarrow> (\<forall>nm p. map_of (ms_policies st) nm = Some p \<longrightarrow> p_document p \<noteq> None)"

interpretation mr: policy_resolver policies_inv "MetadataResolver C" for C
  by standard (auto simp: policies_inv_def MetadataResolver_def resolver_GetPolicyDocument_def
      GetPolicy_def split: option.splits)

lemma save_policy_inv:
  "policies_inv st \<Longrightarrow> p_document p \<noteq> None \<Longrightarrow> policies_inv (SavePolicy p st)"
  by (auto simp: policies_inv_def SavePolicy_def)

lemma delete_policy_inv: "policies_inv st \<Longrightarrow> policies_inv (MetaDeletePolicy nm st)"
  by (auto simp: policies_inv_def MetaDeletePolicy_def split: if_splits)

lemma seed_builtin_inv: "policies_inv st \<Longrightarrow> policies_inv (seed_builtin now nm st)"
  by (auto simp: seed_builtin_def GetPolicy_def split: option.splits sum.splits
      intro!: save_policy_inv) (auto simp: policies_inv_def)

lemma seed_policies_inv: "policies_inv st \<Longrightarrow> policies_inv (seedBuiltinPolicies now st)"
proof -
  have "policies_inv st \<Longrightarrow> policies_inv (fold (seed_builtin now) nms st)" for nms
    by (induction nms arbitrary: st) (auto intro: seed_builtin_inv)
  then show "policies_inv st \<Longrightarrow> ?thesis" by (simp add: seedBuiltinPolicies_def)
qed

lemma user_inv_unique:
  "user_inv st \<Longrightarrow> map_of (ms_users st) uid = Some u \<Longrightarrow> map_of (ms_users st) uid' = Some u' \<Longrightarrow>
     u_username u' = u_username u \<or> u_accessKey u' = u_accessKey u \<Longrightarrow> uid' = uid"
  by (metis user_invD(2,3) option.inject)

lemma GetUser_SaveUser: "crypt_ok C \<Longrightarrow> GetUser C (SaveUser C uid w st) uid = Inr w"
  by (simp add: GetUser_def SaveUser_def box.box_roundtrip)

lemma GetUser_users: "ms_users st' = ms_users st \<Longrightarrow> GetUser C st' uid = GetUser C st uid"
  by (simp add: GetUser_def)

section \<open>Properties\<close>

text \<open>In every store reached by creating, updating and deleting users, each user is found
  under its user name and its access key, so no two users share either of them.\<close>

theorem user_lookup_unique:
  assumes "(user_step C)\<^sup>*\<^sup>* empty_store st" and "map_of (ms_users st) uid = Some u"
  shows "GetUserByUsername C st (u_username u) = GetUser C st uid \<and>
    GetUserByAccessKey C st (u_accessKey u) = GetUser C st uid \<and>
    (\<forall>uid' u'. map_of (ms_users st) uid' = Some u' \<longrightarrow>
       u_username u' = u_username u \<or> u_accessKey u' = u_accessKey u \<longrightarrow> uid' = uid)"
  using user_invD[OF reachable_user_inv[OF assms(1)] assms(2)]
    user_inv_unique[OF reachable_user_inv[OF assms(1)] assms(2)]
  by (auto simp: GetUserByUsername_def GetUserByAccessKey_def)

text \<open>A user that was created or updated is read back by access key with its plaintext secret,
  whatever the encryption settings the manager runs with.\<close>

theorem created_user_readable:
  assumes "crypt_ok C" and "CreateOrUpdateUser C now fresh u st = (None, u', st')"
  shows "GetUserByAccessKey C st' (u_accessKey u) = Inr u' \<and> u_secretKey u' = u_secretKey u"
  using assms(2)
proof (cases rule: CreateOrUpdateUser_cases)
  case error
  then show ?thesis by simp
next
  case (ok st1)
  have ak: "map_of (ms_byAccessKey st') (u_accessKey u) = Some (u_uuid (ensure_uuid fresh u))"
    using index_user_Inr(4)[OF ok(2)] by (simp add: ok(4) SaveUser_def ensure_uuid_def)
  have "GetUser C st' (u_uuid (ensure_uuid fresh u)) = Inr u'"
    using GetUser_SaveUser[OF assms(1)] unfolding ok(4) by (subst GetUser_users) simp_all
  with ak show ?thesis
    by (simp add: GetUserByAccessKey_def) (simp add: ok(3) ensure_uuid_def)
qed

text \<open>\<open>UpdateUser\<close> retires the access key it replaces: afterwards the old key finds no user.\<close>

theorem update_retires_access_key:
  assumes "user_inv st" and "index_exact st"
    and "UpdateUser C now uid updates attached st = (None, st')"
    and "map_of (ms_users st) uid = Some u" and "u_accessKey updates \<notin> {'''', u_accessKey u}"
  shows "GetUserByAccessKey C st' (u_accessKey u) = Inl ErrUserNotFound \<and> index_exact st'"
proof
  show exact: "index_exact st'" by (rule update_user_exact[OF assms(1-3)])
  show "GetUserByAccessKey C st' (u_accessKey u) = Inl ErrUserNotFound"
  proof (cases "map_of (ms_byAccessKey st') (u_accessKey u)")
    case None
    then show ?thesis by (simp add: GetUserByAccessKey_def)
  next
    case (Some uid')
    with exact obtain v where v: "map_of (ms_users st') uid' = Some v" "u_accessKey v = u_accessKey u"
      unfolding index_exact_def by blast
    from assms(1,3) show ?thesis
    proof (cases rule: update_user_cases)
      case error
      then show ?thesis by simp
    next
      case (ok f w st1)
      have "uid' \<noteq> uid"
        using v ok(4,8) assms(5) by (auto simp: SaveUser_def)
      moreover have "map_of (ms_users st) uid' = Some v"
        using v(1) \<open>uid' \<noteq> uid\<close> by (simp add: ok(4,5) SaveUser_def)
      ultimately show ?thesis
        using user_inv_unique[OF assms(1,4)] v(2) by blast
    qed
  qed
qed

text \<open>\<open>CreateOrUpdateUser\<close> does not: when it gives an existing user another access key, the old
  key still finds that user, and with it a request signed with the new secret under the old key
  is accepted.\<close>

theorem create_or_update_keeps_old_key:
  assumes "crypt_ok C" and "user_inv st" and "map_of (ms_users st) (u_uuid u) = Some old"
    and "u_uuid u \<noteq> uuid_nil" and "u_accessKey u \<noteq> u_accessKey old"
    and "CreateOrUpdateUser C now fresh u st = (None, u', st')"
  shows "GetUserByAccessKey C st' (u_accessKey old) = Inr u' \<and> u_accessKey u' \<noteq> u_accessKey old"
  using assms(6)
proof (cases rule: CreateOrUpdateUser_cases)
  case error
  then show ?thesis by simp
next
  case (ok st1)
  have e: "ensure_uuid fresh u = u" using assms(4) by (simp add: ensure_uuid_def)
  have "map_of (ms_byAccessKey st1) (u_accessKey old) = Some (u_uuid u)"
    using index_user_Inr(4)[OF ok(2)] user_invD(3)[OF assms(2,3)] assms(5) by (simp add: e)
  then show ?thesis
    using box.box_roundtrip[OF assms(1)] assms(5) ok(3,4)
    by (simp add: e GetUserByAccessKey_def GetUser_def SaveUser_def)
qed


text \<open>Reconciliation rebuilds the membership index from the group files, whatever the index
  held before: a user is recorded in exactly the groups that list it.\<close>

theorem reconcile_rebuilds_membership:
  "set (GetGroupNamesForUser (reconcileIndexes C st) uid) =
     {nm. \<exists>g. map_of (ms_groups st) nm = Some g \<and> uid \<in> set (g_members g)}"
  using reconcile_group_index[of _ C st uid] by auto

text \<open>The first group of a user is recorded together with a group of the empty name, and
  leaving the group does not take the entry away.\<close>

theorem first_group_adds_phantom:
  assumes "map_of b uid = None" and "g \<noteq> ''''"
  shows "map_of (groupIndexAdd g uid b) uid = Some ['''', g] \<and>
    map_of (groupIndexRemove g uid (groupIndexAdd g uid b)) uid = Some ['''']"
  using assms by (simp add: groupIndexAdd_def groupIndexRemove_def Let_def)


text \<open>The cache is keyed by the key of the request, the files by its normalised path: writing an
  object under a key with a doubled slash replaces the metadata file of the object with the single
  slash, while reading that object keeps returning the old metadata.\<close>

theorem alias_leaves_stale_entry:
  fixes m1 m2 :: object_metadata and st :: meta_store
  assumes "isValidBucketName bucket"
  defines "st' \<equiv> PutObjectMetadata bucket ''a//b'' m2 (PutObjectMetadata bucket ''a/b'' m1 st)"
  shows "fst (GetObjectMetadata bucket ''a/b'' st') = Inr m1 \<and>
    map_of (ms_objects st') (object_meta_path bucket ''a/b'') = Some m2"
proof -
  have safe: "ValidatePathSafe (''a/b'' @ ''.json'') = None" "ValidatePathSafe (''a//b'' @ ''.json'') = None"
    by code_simp+
  have elems: "filter plain_elem (str_split (''a/b'' @ ''.json'') ''/'') = [''a'', ''b.json'']"
    "filter plain_elem (str_split (''a//b'' @ ''.json'') ''/'') = [''a'', ''b.json'']"
    by code_simp+
  have same: "object_meta_path bucket ''a//b'' = object_meta_path bucket ''a/b''"
    using object_meta_path_safe[OF assms(1) safe(1)] object_meta_path_safe[OF assms(1) safe(2)]
    unfolding elems by simp
  have "cacheKey bucket ''a//b'' \<noteq> cacheKey bucket ''a/b''" by (simp add: cacheKey_def)
  with same show ?thesis by (simp add: st'_def PutObjectMetadata_def GetObjectMetadata_def)
qed


section \<open>Instances\<close>

definition ex_crypt :: crypt_env where
  "ex_crypt =
     \<lparr>ce_aead = ex_aead, ce_mgr = \<lparr>cm_key = replicate 32 CHR ''a'', cm_previousKeys = []\<rparr>,
      ce_nonce = replicate 12 CHR ''n''\<rparr>"

lemma ex_crypt_ok: "crypt_ok ex_crypt"
  by (simp add: crypt_ok_def ex_crypt_def ex_aead_laws keys_wf_def)

definition ex_users :: meta_store where
  "ex_users = snd (snd (CreateOrUpdateUser ex_crypt 5 9 ex_user empty_store))"

lemma ex_users_created:
  "CreateOrUpdateUser ex_crypt 5 9 ex_user empty_store =
     (None, ex_user\<lparr>u_version := ''1.0.0'', u_updatedAt := 5\<rparr>, ex_users)"
  by (simp add: ex_users_def CreateOrUpdateUser_def ensure_uuid_def ex_user_def uuid_nil_def
      index_user_def empty_store_def Let_def UserMetadataVersion_def)

lemma ex_users_reachable: "(user_step ex_crypt)\<^sup>*\<^sup>* empty_store ex_users"
  using user_step.create[OF ex_users_created] by (rule r_into_rtranclp)

lemma ex_users_lookup:
  "map_of (ms_users ex_users) 7 =
     Some (ex_user\<lparr>u_version := ''1.0.0'', u_updatedAt := 5, u_secretKey := encrypt_default ex_crypt ''SK''\<rparr>)"
  by (simp add: ex_users_def CreateOrUpdateUser_def ensure_uuid_def ex_user_def uuid_nil_def
      index_user_def empty_store_def Let_def UserMetadataVersion_def SaveUser_def)

lemma ex_users_exact: "index_exact ex_users"
  by (rule create_user_exact[OF _ ex_users_created]) (simp_all add: index_exact_def empty_store_def)

theorem user_lookup_unique_witness:
  "GetUserByAccessKey ex_crypt ex_users ''AK'' = GetUser ex_crypt ex_users 7"
  using user_lookup_unique[OF ex_users_reachable ex_users_lookup] by (simp add: ex_user_def)

theorem created_user_readable_witness:
  "GetUserByAccessKey ex_crypt ex_users ''AK'' = Inr (ex_user\<lparr>u_version := ''1.0.0'', u_updatedAt := 5\<rparr>)"
  using created_user_readable[OF ex_crypt_ok ex_users_created] by (simp add: ex_user_def)

lemma ex_users_get: "GetUser ex_crypt ex_users 7 = Inr (ex_user\<lparr>u_version := ''1.0.0'', u_updatedAt := 5\<rparr>)"
  using box.box_roundtrip[OF ex_crypt_ok] by (simp add: GetUser_def ex_users_lookup) (simp add: ex_user_def)

definition ex_new_key :: iam_user where
  "ex_new_key = ex_user\<lparr>u_accessKey := ''AK2''\<rparr>"

lemma ex_update: "\<exists>st'. UpdateUser ex_crypt 6 7 ex_new_key None ex_users = (None, st')"
proof -
  have "map_of (ms_byAccessKey ex_users) = [''AK'' \<mapsto> 7]"
    by (simp add: ex_users_def CreateOrUpdateUser_def ensure_uuid_def ex_user_def uuid_nil_def
        index_user_def empty_store_def Let_def SaveUser_def)
  then show ?thesis
    by (simp add: UpdateUser_def ex_users_get Let_def syncUserIndexes_def updateAccessKeyIndex_def
        apply_user_updates_def ex_new_key_def)
qed

theorem update_retires_access_key_witness:
  "\<exists>st'. UpdateUser ex_crypt 6 7 ex_new_key None ex_users = (None, st') \<and>
     GetUserByAccessKey ex_crypt st' ''AK'' = Inl ErrUserNotFound"
proof -
  obtain st' where st': "UpdateUser ex_crypt 6 7 ex_new_key None ex_users = (None, st')"
    using ex_update by blast
  from update_retires_access_key[OF reachable_user_inv[OF ex_users_reachable] ex_users_exact st'
      ex_users_lookup] st'
  show ?thesis by (simp add: ex_new_key_def ex_user_def)
qed

lemma ex_recreate:
  "\<exists>st'. CreateOrUpdateUser ex_crypt 6 9 ex_new_key ex_users =
     (None, ex_new_key\<lparr>u_version := ''1.0.0'', u_updatedAt := 6\<rparr>, st')"
proof -
  have "map_of (ms_byAccessKey ex_users) = [''AK'' \<mapsto> 7]" "map_of (ms_byUsername ex_users) = [''alice'' \<mapsto> 7]"
    by (simp_all add: ex_users_def CreateOrUpdateUser_def ensure_uuid_def ex_user_def uuid_nil_def
        index_user_def empty_store_def Let_def SaveUser_def)
  then show ?thesis
    by (simp add: CreateOrUpdateUser_def ensure_uuid_def uuid_nil_def index_user_def Let_def
        UserMetadataVersion_def ex_new_key_def ex_user_def)
qed

theorem create_or_update_keeps_old_key_witness:
  "\<exists>st'. CreateOrUpdateUser ex_crypt 6 9 ex_new_key ex_users =
       (None, ex_new_key\<lparr>u_version := ''1.0.0'', u_updatedAt := 6\<rparr>, st') \<and>
     GetUserByAccessKey ex_crypt st' ''AK'' = Inr (ex_new_key\<lparr>u_version := ''1.0.0'', u_updatedAt := 6\<rparr>)"
proof -
  obtain st' where st': "CreateOrUpdateUser ex_crypt 6 9 ex_new_key ex_users =
      (None, ex_new_key\<lparr>u_version := ''1.0.0'', u_updatedAt := 6\<rparr>, st')"
    using ex_recreate by blast
  have uid: "u_uuid ex_new_key = 7" by (simp add: ex_new_key_def ex_user_def)
  from create_or_update_keeps_old_key[OF ex_crypt_ok reachable_user_inv[OF ex_users_reachable] _ _ _ st']
    ex_users_lookup st'
  show ?thesis by (simp add: uid uuid_nil_def) (simp add: ex_new_key_def ex_user_def)
qed

definition ex_group_store :: meta_store where
  "ex_group_store = snd (AddUserToGroup 2 ''devs'' 7 (snd (MetaCreateGroup 1 ''devs'' empty_store)))"

lemma ex_group_reachable: "group_step\<^sup>*\<^sup>* empty_store ex_group_store"
proof (rule converse_rtranclp_into_rtranclp)
  show "group_step empty_store (snd (MetaCreateGroup 1 ''devs'' empty_store))"
    by (rule group_step.create[where nm = "''devs''" and now = 1]) (simp_all add: prod_eq_iff)
  show "group_step\<^sup>*\<^sup>* (snd (MetaCreateGroup 1 ''devs'' empty_store)) ex_group_store"
    by (intro r_into_rtranclp group_step.add) (simp add: ex_group_store_def prod_eq_iff)
qed


theorem first_group_adds_phantom_witness:
  "map_of (groupIndexRemove ''devs'' 7 (groupIndexAdd ''devs'' 7 [])) 7 = Some ['''']"
  using first_group_adds_phantom[of "[]" 7 "''devs''"] by simp

definition ex_meta :: object_metadata where
  "ex_meta = \<lparr>om_version = ''1.0.0'', om_owner = None, om_contentType = ''text/plain'', om_size = 3,
     om_etag = ''e'', om_lastModified = 1, om_customMetadata = [], om_tags = []\<rparr>"

lemma ex_object_name: "object_name ''photos'' ''a/k''"
  by code_simp


theorem alias_leaves_stale_entry_witness:
  "fst (GetObjectMetadata ''photos'' ''a/b''
     (PutObjectMetadata ''photos'' ''a//b'' (ex_meta\<lparr>om_etag := ''f''\<rparr>)
       (PutObjectMetadata ''photos'' ''a/b'' ex_meta empty_store))) = Inr ex_meta"
  using alias_leaves_stale_entry[of "''photos''" "ex_meta\<lparr>om_etag := ''f''\<rparr>" ex_meta empty_store]
    ex_object_name by (simp add: object_name_def)


end
