(* ===== verification/Listing.thy ===== *)
theory Listing
  imports MetadataIam
begin

text \<open>
  \<^verbatim>\<open>internal/persistence/storage/list_internal.go\<close> and \<open>listInternal\<close>, \<open>walkDir\<close> of
  \<^verbatim>\<open>internal/persistence/storage/storage.go\<close>: listing the objects of a bucket with prefix, delimiter,
  start key and page size. A directory is the list of its entries in the order of \<open>ReadDir\<close>; the
  strings are compared byte by byte, as Go does.
\<close>

section \<open>Data\<close>

record file_info =
  fi_size :: int
  fi_modTime :: time

datatype fs_node = FFile file_info | FDir "(string \<times> fs_node) list"

record object_entry =
  oe_key :: string
  oe_info :: file_info
  oe_etag :: string

record owner =
  ow_id :: string
  ow_displayName :: string

record s3_object =
  so_key :: string
  so_size :: int
  so_lastModified :: time
  so_etag :: string
  so_storageClass :: string
  so_owner :: "owner option"

record internal_result =
  ir_objects :: "s3_object list"
  ir_commonPrefixes :: "string list"
  ir_isTruncated :: bool
  ir_nextMarker :: string

section \<open>Operations\<close>

definition fetchBucketOwner :: "crypt_env \<Rightarrow> meta_store \<Rightarrow> string \<Rightarrow> owner option" where
  "fetchBucketOwner C st bucket =
     (case GetBucketMetadata st bucket of
        Inl _ \<Rightarrow> None
      | Inr meta \<Rightarrow>
          (case bm_owner meta of
             None \<Rightarrow> None
           | Some ow \<Rightarrow>
               let ownerStr = uuid_string ow
               in Some \<lparr>ow_id = ownerStr,
                        ow_displayName =
                          (case GetUser C st ow of
                             Inr user \<Rightarrow> if u_username user \<noteq> '''' then u_username user else ownerStr
                           | Inl _ \<Rightarrow> ownerStr)\<rparr>))"

text \<open>The files in the order in which \<open>walkDir\<close> calls its callback, with their keys.\<close>

definition entry_path :: "string \<Rightarrow> string \<Rightarrow> string" where
  "entry_path dir nm = (if dir = '''' then nm else dir @ ''/'' @ nm)"

function walkDir :: "string \<Rightarrow> (string \<times> fs_node) list \<Rightarrow> (string \<times> file_info) list" where
  "walkDir dir [] = []"
| "walkDir dir ((nm, FFile info) # rest) = (entry_path dir nm, info) # walkDir dir rest"
| "walkDir dir ((nm, FDir sub) # rest) = walkDir (entry_path dir nm) sub @ walkDir dir rest"
  by pat_completeness auto
termination
  by (relation "measure (\<lambda>(d, es). size_list (size_prod (\<lambda>x. 0) size) es)") auto

text \<open>The callback of \<open>collectEntries\<close>; \<open>walked\<close> is its counter, and ending the list is the sentinel
  error. \<open>etag_of\<close> is the ETag of the object metadata, \<open>None\<close> when there is none.\<close>

fun collect_loop ::
  "(string \<Rightarrow> string option) \<Rightarrow> string \<Rightarrow> string \<Rightarrow> string \<Rightarrow> int \<Rightarrow> int \<Rightarrow> (string \<times> file_info) list
     \<Rightarrow> object_entry list" where
  "collect_loop etag_of pre startAt delimiter maxKeys walked [] = []"
| "collect_loop etag_of pre startAt delimiter maxKeys walked ((key, info) # rest) =
     (if pre \<noteq> '''' \<and> \<not> has_prefix key pre then
        collect_loop etag_of pre startAt delimiter maxKeys walked rest
      else
        let counts = (delimiter = '''' \<and> 0 < maxKeys \<and> (startAt = '''' \<or> startAt < key));
            walked' = (if counts then walked + 1 else walked)
        in if counts \<and> maxKeys + 1 < walked' then []
           else \<lparr>oe_key = key, oe_info = info,
                 oe_etag = (case etag_of key of Some t \<Rightarrow> t | None \<Rightarrow> '''')\<rparr>
                # collect_loop etag_of pre startAt delimiter maxKeys walked' rest)"

definition collectEntries ::
  "(string \<Rightarrow> string option) \<Rightarrow> (string \<times> fs_node) list \<Rightarrow> string \<Rightarrow> string \<Rightarrow> string \<Rightarrow> int
     \<Rightarrow> object_entry list" where
  "collectEntries etag_of tree pre startAt delimiter maxKeys =
     collect_loop etag_of pre startAt delimiter maxKeys 0 (walkDir '''' tree)"

definition make_object :: "bool \<Rightarrow> owner option \<Rightarrow> object_entry \<Rightarrow> s3_object" where
  "make_object fetchOwner bucketOwner e =
     \<lparr>so_key = oe_key e, so_size = fi_size (oe_info e), so_lastModified = fi_modTime (oe_info e),
      so_etag = oe_etag e, so_storageClass = ''STANDARD'',
      so_owner = (if fetchOwner then bucketOwner else None)\<rparr>"

text \<open>The common prefix an entry falls under, if any.\<close>

definition entry_prefix :: "string \<Rightarrow> string \<Rightarrow> string \<Rightarrow> string option" where
  "entry_prefix pre delimiter key =
     (if delimiter = '''' then None
      else let keyAfterPrefix = (if pre \<noteq> '''' then drop (length pre) key else key)
           in case str_index keyAfterPrefix delimiter of
                None \<Rightarrow> None
              | Some delimiterPos \<Rightarrow> Some (pre @ take (delimiterPos + length delimiter) keyAfterPrefix))"

fun groupEntriesByDelimiter ::
  "string \<Rightarrow> string \<Rightarrow> bool \<Rightarrow> owner option \<Rightarrow> object_entry list \<Rightarrow> s3_object list \<times> string list" where
  "groupEntriesByDelimiter pre delimiter fetchOwner bucketOwner [] = ([], [])"
| "groupEntriesByDelimiter pre delimiter fetchOwner bucketOwner (e # rest) =
     (let (objects, prefixMap) = groupEntriesByDelimiter pre delimiter fetchOwner bucketOwner rest
      in case entry_prefix pre delimiter (oe_key e) of
           Some p \<Rightarrow> (objects, List.insert p prefixMap)
         | None \<Rightarrow> (make_object fetchOwner bucketOwner e # objects, prefixMap))"

definition filterObjectsByStartAt :: "s3_object list \<Rightarrow> string \<Rightarrow> s3_object list" where
  "filterObjectsByStartAt objects startAt =
     (if startAt = '''' then objects else filter (\<lambda>obj. startAt < so_key obj) objects)"

definition filterAndSortCommonPrefixes :: "string list \<Rightarrow> string \<Rightarrow> string list" where
  "filterAndSortCommonPrefixes prefixMap startAt =
     sort (filter (\<lambda>p. \<not> (startAt \<noteq> '''' \<and> p \<le> startAt)) prefixMap)"

text \<open>The items of \<open>applyMaxKeysLimit\<close>: key, whether it is a prefix, index in its slice.\<close>

definition result_items :: "s3_object list \<Rightarrow> string list \<Rightarrow> (string \<times> bool \<times> nat) list" where
  "result_items objects commonPrefixes =
     map (\<lambda>(i, obj). (so_key obj, False, i)) (enumerate 0 objects) @
     map (\<lambda>(i, p). (p, True, i)) (enumerate 0 commonPrefixes)"

definition applyMaxKeysLimit ::
  "s3_object list \<Rightarrow> string list \<Rightarrow> int \<Rightarrow> s3_object list \<times> string list" where
  "applyMaxKeysLimit objects commonPrefixes maxKeys =
     (if maxKeys \<le> 0 then (objects, commonPrefixes)
      else let allItems = sort_key fst (result_items objects commonPrefixes)
           in if int (length allItems) \<le> maxKeys then (objects, commonPrefixes)
              else let page = take (nat maxKeys) allItems
                   in (map (\<lambda>(_, _, i). objects ! i) (filter (\<lambda>(_, isPrefix, _). \<not> isPrefix) page),
                       map (\<lambda>(_, _, i). commonPrefixes ! i) (filter (\<lambda>(_, isPrefix, _). isPrefix) page)))"

definition buildListResult :: "s3_object list \<Rightarrow> string list \<Rightarrow> int \<Rightarrow> internal_result" where
  "buildListResult objects commonPrefixes maxKeys =
     (let totalResults = int (length objects + length commonPrefixes);
          isTruncated = (0 < maxKeys \<and> maxKeys \<le> totalResults);
          lastObjectKey = (if objects \<noteq> [] then so_key (last objects) else '''');
          lastPrefixKey = (if commonPrefixes \<noteq> [] then last commonPrefixes else '''')
      in \<lparr>ir_objects = objects, ir_commonPrefixes = commonPrefixes, ir_isTruncated = isTruncated,
          ir_nextMarker = (if isTruncated then max lastObjectKey lastPrefixKey else '''')\<rparr>)"

text \<open>The body of \<open>listInternal\<close> for a bucket that exists.\<close>

definition list_bucket ::
  "(string \<Rightarrow> string option) \<Rightarrow> (string \<times> fs_node) list \<Rightarrow> string \<Rightarrow> string \<Rightarrow> string \<Rightarrow> int \<Rightarrow> bool
     \<Rightarrow> owner option \<Rightarrow> internal_result" where
  "list_bucket etag_of tree pre startAt delimiter maxKeys fetchOwner bucketOwner =
     (let allEntries = sort_key oe_key (collectEntries etag_of tree pre startAt delimiter maxKeys);
          (objects, prefixMap) =
            groupEntriesByDelimiter pre delimiter fetchOwner bucketOwner allEntries;
          objects = filterObjectsByStartAt objects startAt;
          commonPrefixes = filterAndSortCommonPrefixes prefixMap startAt;
          (objects, commonPrefixes) = applyMaxKeysLimit objects commonPrefixes maxKeys
      in buildListResult objects commonPrefixes maxKeys)"

datatype storage_error = ErrNoSuchBucket | ErrBucketExists | ErrBucketNotEmpty | ErrNoSuchKey | ErrNotADirectory

text \<open>\<open>buckets\<close> is the root directory.\<close>

definition listInternal ::
  "crypt_env \<Rightarrow> meta_store \<Rightarrow> (string \<times> fs_node) list \<Rightarrow> string \<Rightarrow> string \<Rightarrow> string \<Rightarrow> string \<Rightarrow> int
     \<Rightarrow> bool \<Rightarrow> storage_error + internal_result" where
  "listInternal C st buckets bucket pre startAt delimiter maxKeys fetchOwner =
     (case map_of buckets bucket of
        None \<Rightarrow> Inl ErrNoSuchBucket
      | Some (FFile _) \<Rightarrow> Inl ErrNotADirectory
      | Some (FDir tree) \<Rightarrow>
          Inr (list_bucket
            (\<lambda>key. case fst (GetObjectMetadata bucket key st) of
                Inr m \<Rightarrow> Some (om_etag m) | Inl _ \<Rightarrow> None)
            tree pre startAt delimiter maxKeys fetchOwner
            (if fetchOwner then fetchBucketOwner C st bucket else None)))"

definition ListObjects ::
  "crypt_env \<Rightarrow> meta_store \<Rightarrow> (string \<times> fs_node) list \<Rightarrow> string \<Rightarrow> string \<Rightarrow> string \<Rightarrow> string \<Rightarrow> int
     \<Rightarrow> storage_error + internal_result" where
  "ListObjects C st buckets bucket pre marker delimiter maxKeys =
     listInternal C st buckets bucket pre marker delimiter maxKeys False"

definition ListObjectsV2 ::
  "crypt_env \<Rightarrow> meta_store \<Rightarrow> (string \<times> fs_node) list \<Rightarrow> string \<Rightarrow> string \<Rightarrow> string \<Rightarrow> string \<Rightarrow> string
     \<Rightarrow> int \<Rightarrow> bool \<Rightarrow> storage_error + internal_result" where
  "ListObjectsV2 C st buckets bucket pre continuationToken startAfter delimiter maxKeys fetchOwner =
     (let startAt = (if continuationToken = '''' then startAfter else continuationToken)
      in listInternal C st buckets bucket pre startAt delimiter maxKeys fetchOwner)"

end
