(* ===== verification/ListingProps.thy ===== *)
theory ListingProps
  imports Listing
begin

text \<open>
  What a page of a listing holds, and what a client that follows the markers sees. With a
  delimiter every page is computed from the whole bucket; without one the walk stops early, which is
  right when the walk meets the keys in order and wrong otherwise.
\<close>

section \<open>Sorted lists\<close>

lemma sort_distinct: "distinct xs \<Longrightarrow> sort xs = sorted_list_of_set (set xs)" for xs :: "'a :: linorder list"
  by (simp add: sorted_list_of_set_sort_remdups distinct_remdups_id)

lemma map_sort_key: "map f (sort_key f xs) = sort (map f xs)" for f :: "'a \<Rightarrow> 'b :: linorder"
  by (rule properties_for_sort[symmetric]) simp_all

lemma filter_sorted_list_of_set:
  "finite A \<Longrightarrow> filter P (sorted_list_of_set A) = sorted_list_of_set {x \<in> A. P x}"
  by (rule sorted_distinct_set_unique) (auto intro: sorted_wrt_filter)

lemma sort_filter_partition:
  "sort (filter P xs @ filter (\<lambda>x. \<not> P x) xs) = sort xs" for xs :: "'a :: linorder list"
  by (rule properties_for_sort) simp_all

lemma mset_map_partition:
  "image_mset f (mset (filter (\<lambda>x. \<not> P x) xs)) + image_mset f (mset (filter P xs)) =
     image_mset f (mset xs)"
  by (induction xs) auto

lemma sorted_take: "sorted xs \<Longrightarrow> sorted (take n xs)"
  by (rule sorted_wrt_take)

lemma sorted_le_last: "sorted xs \<Longrightarrow> x \<in> set xs \<Longrightarrow> x \<le> last xs" for x :: "'a :: linorder"
  by (induction xs) auto

text \<open>After a full page of a sorted list, what is greater than its last element is the rest.\<close>

lemma filter_after_take:
  fixes xs :: "'a :: linorder list"
  assumes "sorted xs" "distinct xs" "0 < n" "n \<le> length xs"
  shows "filter (\<lambda>x. last (take n xs) < x) xs = drop n xs"
proof -
  have ne: "take n xs \<noteq> []" using assms(3,4) by auto
  have s: "sorted (take n xs @ drop n xs)" "distinct (take n xs @ drop n xs)"
    using assms(1,2) by simp_all
  have "x \<le> last (take n xs)" if "x \<in> set (take n xs)" for x
    by (rule sorted_le_last[OF sorted_take[OF assms(1)] that])
  then have "filter (\<lambda>x. last (take n xs) < x) (take n xs) = []"
    by (auto simp: filter_empty_conv not_less)
  moreover have "filter (\<lambda>x. last (take n xs) < x) (drop n xs) = drop n xs"
  proof (rule filter_True, rule ballI)
    fix x assume x: "x \<in> set (drop n xs)"
    have l: "last (take n xs) \<in> set (take n xs)" using ne by (rule last_in_set)
    with x s show "last (take n xs) < x"
      unfolding sorted_append distinct_append by (metis IntI empty_iff order_le_neq_trans)
  qed
  ultimately show ?thesis
    by (metis append_Nil append_take_drop_id filter_append)
qed

section \<open>Grouping\<close>

lemma group_objects:
  "map so_key (fst (groupEntriesByDelimiter pre delim fo bo es)) =
     filter (\<lambda>k. entry_prefix pre delim k = None) (map oe_key es)"
  by (induction es) (auto simp: make_object_def split: option.splits prod.splits)

lemma group_prefixes:
  "set (snd (groupEntriesByDelimiter pre delim fo bo es)) =
     {p. \<exists>e\<in>set es. entry_prefix pre delim (oe_key e) = Some p}"
  "distinct (snd (groupEntriesByDelimiter pre delim fo bo es))"
  by (induction es) (auto split: option.splits prod.splits)

text \<open>An object is never also a common prefix: the prefix contains the delimiter.\<close>

lemma str_index_take:
  "str_index s sub = Some i \<Longrightarrow> str_index (take (i + length sub) s) sub = Some i"
proof (induction s arbitrary: i)
  case Nil
  then show ?case by (auto split: if_splits)
next
  case (Cons c cs)
  show ?case
  proof (cases "has_prefix (c # cs) sub")
    case True
    with Cons.prems have i: "i = 0" by simp
    show ?thesis
    proof (cases sub)
      case Nil
      with Cons.prems show ?thesis by (simp add: has_prefix_def)
    next
      case (Cons d ds)
      with True i show ?thesis by (simp add: has_prefix_def)
    qed
  next
    case False
    with Cons.prems obtain j where j: "str_index cs sub = Some j" "i = Suc j" by auto
    have np: "\<not> has_prefix (c # take (j + length sub) cs) sub"
    proof
      assume "has_prefix (c # take (j + length sub) cs) sub"
      then have "prefix sub (c # take (j + length sub) cs)" by (simp add: has_prefix_iff)
      also have "prefix (c # take (j + length sub) cs) (c # cs)"
        by (simp add: take_is_prefix)
      finally show False using False by (simp add: has_prefix_iff)
    qed
    from Cons.IH[OF j(1)] np show ?thesis by (simp add: j(2))
  qed
qed

lemma entry_prefix_alt:
  "entry_prefix pre delim k =
     (if delim = '''' then None
      else case str_index (drop (length pre) k) delim of
             None \<Rightarrow> None
           | Some i \<Rightarrow> Some (pre @ take (i + length delim) (drop (length pre) k)))"
  by (cases "pre = []") (auto simp: entry_prefix_def Let_def split: option.splits)

lemma entry_prefix_of_prefix:
  assumes "entry_prefix pre delim k = Some p"
  shows "entry_prefix pre delim p = Some p" and "delim \<noteq> ''''"
proof -
  let ?k = "drop (length pre) k"
  from assms obtain i where d: "delim \<noteq> ''''" and i: "str_index ?k delim = Some i"
    and p: "p = pre @ take (i + length delim) ?k"
    by (auto simp: entry_prefix_alt split: if_splits option.splits)
  show "delim \<noteq> ''''" by (rule d)
  show "entry_prefix pre delim p = Some p"
    using d str_index_take[OF i] by (simp add: entry_prefix_alt p)
qed

definition classify :: "string \<Rightarrow> string \<Rightarrow> string \<Rightarrow> string" where
  "classify pre delim k = (case entry_prefix pre delim k of Some p \<Rightarrow> p | None \<Rightarrow> k)"

text \<open>The items of a bucket: the keys below the prefix, those with the delimiter after it folded
  into common prefixes, in order.\<close>

definition listing_items :: "string list \<Rightarrow> string \<Rightarrow> string \<Rightarrow> string list" where
  "listing_items keys pre delim =
     sorted_list_of_set (classify pre delim ` {k \<in> set keys. has_prefix k pre})"

definition page_items :: "internal_result \<Rightarrow> string list" where
  "page_items r = sort (map so_key (ir_objects r) @ ir_commonPrefixes r)"

definition after :: "string \<Rightarrow> string \<Rightarrow> bool" where
  "after startAt x \<longleftrightarrow> startAt = '''' \<or> startAt < x"

section \<open>Cutting a page\<close>

lemma result_items_keys: "map fst (result_items objs ps) = map so_key objs @ ps"
proof -
  have "map (\<lambda>x. so_key (snd x)) (enumerate 0 objs) = map so_key (map snd (enumerate 0 objs))"
    by (simp only: map_map comp_def)
  moreover have "map (\<lambda>x. snd x) (enumerate 0 ps) = ps"
    by simp
  ultimately show ?thesis
    by (simp add: result_items_def comp_def case_prod_beta')
qed

lemma result_items_mem:
  assumes "(k, isP, i) \<in> set (result_items objs ps)"
  shows "if isP then i < length ps \<and> ps ! i = k else i < length objs \<and> so_key (objs ! i) = k"
  using assms by (auto simp: result_items_def in_set_enumerate_eq)

lemma applyMaxKeysLimit_items:
  assumes "0 < maxKeys" "applyMaxKeysLimit objs ps maxKeys = (objs', ps')"
  shows "sort (map so_key objs' @ ps') = take (nat maxKeys) (sort (map so_key objs @ ps))"
proof (cases "int (length objs + length ps) \<le> maxKeys")
  case True
  with assms have "objs' = objs" "ps' = ps"
    by (auto simp: applyMaxKeysLimit_def Let_def result_items_def)
  with True show ?thesis by simp
next
  case False
  let ?page = "take (nat maxKeys) (sort_key fst (result_items objs ps))"
  let ?O = "filter (\<lambda>(_, isPrefix, _). \<not> isPrefix) ?page"
  let ?P = "filter (\<lambda>(_, isPrefix, _). isPrefix) ?page"
  have res: "objs' = map (\<lambda>(_, _, i). objs ! i) ?O" "ps' = map (\<lambda>(_, _, i). ps ! i) ?P"
    using assms False by (auto simp: applyMaxKeysLimit_def Let_def result_items_def)
  have mem: "x \<in> set (result_items objs ps)" if "x \<in> set ?page" for x
    using in_set_takeD[OF that] by simp
  have o: "map so_key objs' = map fst ?O"
    unfolding res by (auto dest!: mem result_items_mem)
  have p: "ps' = map fst ?P"
    unfolding res by (auto dest!: mem result_items_mem)
  have "mset (map so_key objs' @ ps') = mset (map fst ?page)"
    unfolding o p by (simp only: mset_append mset_map case_prod_beta' mset_map_partition)
  moreover have "map fst ?page = take (nat maxKeys) (sort (map so_key objs @ ps))"
    by (simp add: take_map[symmetric] map_sort_key result_items_keys)
  ultimately show ?thesis
    using properties_for_sort[OF _ sorted_take[OF sorted_sort]] by metis
qed

section \<open>A page\<close>

lemma filterObjects_keys:
  "map so_key (filterObjectsByStartAt objs s) = filter (after s) (map so_key objs)"
  by (auto simp: filterObjectsByStartAt_def after_def filter_map comp_def)

lemma filterPrefixes_set:
  "set (filterAndSortCommonPrefixes ps s) = {p \<in> set ps. after s p}"
  "distinct ps \<Longrightarrow> distinct (filterAndSortCommonPrefixes ps s)"
  by (auto simp: filterAndSortCommonPrefixes_def after_def not_le)

lemma classify_image:
  "x \<in> classify pre delim ` K \<longleftrightarrow>
     x \<in> K \<and> entry_prefix pre delim x = None \<or> (\<exists>k\<in>K. entry_prefix pre delim k = Some x)"
proof
  assume "x \<in> classify pre delim ` K"
  then obtain k where "k \<in> K" "x = classify pre delim k" by blast
  then show "x \<in> K \<and> entry_prefix pre delim x = None \<or> (\<exists>k\<in>K. entry_prefix pre delim k = Some x)"
    by (cases "entry_prefix pre delim k") (auto simp: classify_def)
next
  assume "x \<in> K \<and> entry_prefix pre delim x = None \<or> (\<exists>k\<in>K. entry_prefix pre delim k = Some x)"
  then show "x \<in> classify pre delim ` K"
  proof
    assume "x \<in> K \<and> entry_prefix pre delim x = None"
    then show ?thesis by (intro image_eqI[of _ _ x]) (auto simp: classify_def)
  next
    assume "\<exists>k\<in>K. entry_prefix pre delim k = Some x"
    then obtain k where "k \<in> K" "entry_prefix pre delim k = Some x" by blast
    then show ?thesis by (intro image_eqI[of _ _ k]) (auto simp: classify_def)
  qed
qed

text \<open>The page that is cut from the collected entries.\<close>

lemma list_bucket_page:
  fixes etag_of tree pre s delim maxKeys
  defines "ks \<equiv> map oe_key (collectEntries etag_of tree pre s delim maxKeys)"
  assumes "distinct ks" "\<forall>k\<in>set ks. has_prefix k pre" "0 < maxKeys"
  shows "page_items (list_bucket etag_of tree pre s delim maxKeys fo bo) =
           take (nat maxKeys) (filter (after s) (listing_items ks pre delim))"
proof -
  let ?E = "sort_key oe_key (collectEntries etag_of tree pre s delim maxKeys)"
  obtain objs pm where g: "groupEntriesByDelimiter pre delim fo bo ?E = (objs, pm)"
    by fastforce
  let ?O = "filterObjectsByStartAt objs s" and ?P = "filterAndSortCommonPrefixes pm s"
  obtain O' P' where cut: "applyMaxKeysLimit ?O ?P maxKeys = (O', P')" by fastforce
  have dk: "distinct (map oe_key ?E)" "set (map oe_key ?E) = set ks"
    using assms(2) by (simp_all add: ks_def map_sort_key)
  have o: "map so_key objs = filter (\<lambda>k. entry_prefix pre delim k = None) (map oe_key ?E)"
    using group_objects[of pre delim fo bo ?E] by (simp add: g)
  have dp: "distinct pm"
    using group_prefixes(2)[of pre delim fo bo ?E] by (simp add: g)
  have "set pm = {p. \<exists>e\<in>set ?E. entry_prefix pre delim (oe_key e) = Some p}"
    using group_prefixes(1)[of pre delim fo bo ?E] by (simp add: g del: set_sort)
  also have "{p. \<exists>e\<in>set ?E. entry_prefix pre delim (oe_key e) = Some p} =
      {p. \<exists>k\<in>set (map oe_key ?E). entry_prefix pre delim k = Some p}"
    by (simp del: set_sort)
  finally have p: "set pm = {p. \<exists>k\<in>set ks. entry_prefix pre delim k = Some p}" "distinct pm"
    unfolding dk(2) using dp by simp_all
  have dist: "distinct (map so_key ?O @ ?P)"
    using p dk(1) entry_prefix_of_prefix(1)
    by (auto simp: filterObjects_keys filterPrefixes_set o simp del: set_map)
  have "set (map so_key ?O @ ?P) = {x \<in> classify pre delim ` set ks. after s x}"
    unfolding set_append filterObjects_keys filterPrefixes_set o p set_filter dk(2)
    by (simp only: classify_image mem_Collect_eq set_eq_iff Un_iff) blast
  also have "classify pre delim ` set ks = classify pre delim ` {k \<in> set ks. has_prefix k pre}"
    using assms(3) by auto
  finally have items: "sort (map so_key ?O @ ?P) = filter (after s) (listing_items ks pre delim)"
    unfolding sort_distinct[OF dist] listing_items_def by (simp add: filter_sorted_list_of_set)
  have "page_items (list_bucket etag_of tree pre s delim maxKeys fo bo) = sort (map so_key O' @ P')"
    by (simp add: list_bucket_def Let_def g cut buildListResult_def page_items_def)
  also have "\<dots> = take (nat maxKeys) (sort (map so_key ?O @ ?P))"
    by (rule applyMaxKeysLimit_items[OF assms(4) cut])
  finally show ?thesis by (simp add: items)
qed

lemma collect_all:
  assumes "delim \<noteq> '''' \<or> maxKeys \<le> 0"
  shows "map oe_key (collect_loop etag_of pre s delim maxKeys w es) =
           filter (\<lambda>k. has_prefix k pre) (map fst es)"
  using assms
  by (induction es arbitrary: w) (auto simp: Let_def has_prefix_def)

definition tree_keys :: "(string \<times> fs_node) list \<Rightarrow> string list" where
  "tree_keys tree = map fst (walkDir '''' tree)"

lemma listing_items_filter:
  "listing_items (filter (\<lambda>k. has_prefix k pre) ks) pre delim = listing_items ks pre delim"
  by (simp add: listing_items_def)

lemma list_page_delimited:
  assumes "distinct (tree_keys tree)" "delim \<noteq> ''''" "0 < maxKeys"
  shows "page_items (list_bucket etag_of tree pre s delim maxKeys fo bo) =
           take (nat maxKeys) (filter (after s) (listing_items (tree_keys tree) pre delim))"
proof -
  have ks: "map oe_key (collectEntries etag_of tree pre s delim maxKeys) =
      filter (\<lambda>k. has_prefix k pre) (tree_keys tree)"
    unfolding collectEntries_def tree_keys_def by (rule collect_all) (use assms(2) in simp)
  have "distinct (filter (\<lambda>k. has_prefix k pre) (tree_keys tree))"
    "\<forall>k\<in>set (filter (\<lambda>k. has_prefix k pre) (tree_keys tree)). has_prefix k pre"
    using assms(1) by simp_all
  from list_bucket_page[of etag_of tree pre s delim maxKeys fo bo, unfolded ks listing_items_filter,
      OF this assms(3)]
  show ?thesis .
qed

text \<open>Without a delimiter the walk stops after one entry more than a page; on a walk in key order
  that is enough.\<close>

lemma collect_sorted:
  assumes "sorted (map fst es)" "0 < maxKeys" "0 \<le> w" "w \<le> maxKeys + 1"
  shows "filter (after s) (map oe_key (collect_loop etag_of pre s '''' maxKeys w es)) =
           take (nat (maxKeys + 1 - w)) (filter (after s) (filter (\<lambda>k. has_prefix k pre) (map fst es)))"
  using assms(1,3,4)
proof (induction es arbitrary: w)
  case Nil
  then show ?case by simp
next
  case (Cons e es)
  obtain key info where e: "e = (key, info)" by fastforce
  have prem: "sorted (map fst es)" using Cons.prems(1) by simp
  note IH = Cons.IH[OF prem]
  show ?case
  proof (cases "has_prefix key pre")
    case False
    then have "pre \<noteq> ''''" by (auto simp: has_prefix_def)
    with False IH[OF Cons.prems(2,3)] show ?thesis by (simp add: e)
  next
    case hp: True
    show ?thesis
    proof (cases "after s key")
      case False
      then have "\<not> (s = '''' \<or> s < key)" by (simp add: after_def)
      with False hp IH[OF Cons.prems(2,3)] show ?thesis by (simp add: e Let_def)
    next
      case True
      then have s: "s = '''' \<or> s < key" by (simp add: after_def)
      show ?thesis
      proof (cases "w = maxKeys + 1")
        case True
        with hp s assms(2) show ?thesis by (simp add: e Let_def)
      next
        case False
        with Cons.prems(2,3) have w: "0 \<le> w + 1" "w + 1 \<le> maxKeys + 1"
          "nat (maxKeys + 1 - w) = Suc (nat (maxKeys + 1 - (w + 1)))" by auto
        with IH[OF w(1,2)] hp s True assms(2) show ?thesis by (simp add: e Let_def)
      qed
    qed
  qed
qed

lemma collect_mem:
  "e \<in> set (collect_loop etag_of pre s delim maxKeys w es) \<Longrightarrow>
     oe_key e \<in> fst ` set es \<and> has_prefix (oe_key e) pre"
proof (induction es arbitrary: w)
  case Nil
  then show ?case by simp
next
  case (Cons x es)
  obtain key info where x: "x = (key, info)" by fastforce
  have hp: "\<not> (pre \<noteq> '''' \<and> \<not> has_prefix key pre) \<Longrightarrow> has_prefix key pre" by (auto simp: has_prefix_def)
  from Cons.prems show ?case
    using Cons.IH hp by (auto simp: x Let_def split: if_splits)
qed

lemma collect_distinct:
  "distinct (map fst es) \<Longrightarrow> distinct (map oe_key (collect_loop etag_of pre s delim maxKeys w es))"
proof (induction es arbitrary: w)
  case Nil
  then show ?case by simp
next
  case (Cons e es)
  obtain key info where e: "e = (key, info)" by fastforce
  have "key \<notin> set (map oe_key (collect_loop etag_of pre s delim maxKeys w' es))" for w'
    using collect_mem[of _ etag_of pre s delim maxKeys w' es] Cons.prems by (auto simp: e)
  with Cons show ?case by (auto simp: e Let_def simp del: set_map)
qed

section \<open>Truncation and marker\<close>

lemma sort_append_max:
  assumes "sorted (xs :: string list)" "sorted ys" "xs @ ys \<noteq> []"
  shows "last (sort (xs @ ys)) =
    max (if xs \<noteq> [] then last xs else '''') (if ys \<noteq> [] then last ys else '''')"
proof -
  let ?m = "max (if xs \<noteq> [] then last xs else '''') (if ys \<noteq> [] then last ys else '''')"
  have ge: "z \<le> ?m" if "z \<in> set (xs @ ys)" for z
    using that sorted_le_last[OF assms(1), of z] sorted_le_last[OF assms(2), of z]
    by (auto simp: le_max_iff_disj)
  have m: "?m \<in> set (xs @ ys)"
    using assms(3) by (auto simp: max_def) (metis last_in_set)+
  have "last (sort (xs @ ys)) \<in> set (xs @ ys)"
    using assms(3) last_in_set[of "sort (xs @ ys)"] by (metis set_empty set_sort)
  with ge have "last (sort (xs @ ys)) \<le> ?m" by blast
  moreover have "?m \<le> last (sort (xs @ ys))"
    using m sorted_le_last[OF sorted_sort, of ?m] by (metis set_sort)
  ultimately show ?thesis by (rule antisym)
qed

lemma list_bucket_cut:
  obtains os2 ps2 os1 ps1 where
    "list_bucket etag_of tree pre s delim maxKeys fo bo = buildListResult os2 ps2 maxKeys"
    "applyMaxKeysLimit os1 ps1 maxKeys = (os2, ps2)" "sorted (map so_key os1)" "sorted ps1"
proof -
  let ?E = "sort_key oe_key (collectEntries etag_of tree pre s delim maxKeys)"
  obtain objs pm where g: "groupEntriesByDelimiter pre delim fo bo ?E = (objs, pm)"
    by fastforce
  obtain os2 ps2 where cut: "applyMaxKeysLimit (filterObjectsByStartAt objs s)
      (filterAndSortCommonPrefixes pm s) maxKeys = (os2, ps2)" by fastforce
  have "map so_key objs = filter (\<lambda>k. entry_prefix pre delim k = None) (map oe_key ?E)"
    using group_objects[of pre delim fo bo ?E] by (simp add: g)
  then have "sorted (map so_key (filterObjectsByStartAt objs s))"
    by (simp add: filterObjects_keys map_sort_key sorted_wrt_filter)
  moreover have "sorted (filterAndSortCommonPrefixes pm s)"
    by (simp add: filterAndSortCommonPrefixes_def)
  ultimately show ?thesis
    by (intro that[OF _ cut]) (simp_all add: list_bucket_def Let_def g cut)
qed

lemma applyMaxKeysLimit_sorted:
  assumes "applyMaxKeysLimit os1 ps1 maxKeys = (os2, ps2)" "sorted (map so_key os1)" "sorted ps1"
  shows "sorted (map so_key os2)" "sorted ps2"
proof -
  let ?page = "take (nat maxKeys) (sort_key fst (result_items os1 ps1))"
  have s: "sorted (map fst (filter Q ?page))" for Q
    by (rule sorted_filter) (simp add: take_map[symmetric] sorted_take)
  have mem: "x \<in> set (result_items os1 ps1)" if "x \<in> set ?page" for x
    using in_set_takeD[OF that] by simp
  have keys: "map so_key (map (\<lambda>(_, _, i). os1 ! i) (filter (\<lambda>(_, isPrefix, _). \<not> isPrefix) ?page)) =
      map fst (filter (\<lambda>(_, isPrefix, _). \<not> isPrefix) ?page)"
    "map (\<lambda>(_, _, i). ps1 ! i) (filter (\<lambda>(_, isPrefix, _). isPrefix) ?page) =
      map fst (filter (\<lambda>(_, isPrefix, _). isPrefix) ?page)"
    by (auto dest!: mem result_items_mem)
  note def = assms(1)[unfolded applyMaxKeysLimit_def Let_def]
  have "sorted (map so_key os2) \<and> sorted ps2"
  proof (cases "maxKeys \<le> 0 \<or> int (length (sort_key fst (result_items os1 ps1))) \<le> maxKeys")
    case True
    then have "os2 = os1" "ps2 = ps1" using def by (auto split: if_splits)
    with assms show ?thesis by simp
  next
    case False
    then have cut: "os2 = map (\<lambda>(_, _, i). os1 ! i) (filter (\<lambda>(_, isPrefix, _). \<not> isPrefix) ?page)"
        "ps2 = map (\<lambda>(_, _, i). ps1 ! i) (filter (\<lambda>(_, isPrefix, _). isPrefix) ?page)"
      using def by simp_all
    show ?thesis unfolding cut keys by (intro conjI s)
  qed
  then show "sorted (map so_key os2)" "sorted ps2" by simp_all
qed

lemma list_bucket_marker:
  assumes "0 < maxKeys"
  shows "ir_isTruncated (list_bucket etag_of tree pre s delim maxKeys fo bo) \<longleftrightarrow>
      nat maxKeys \<le> length (page_items (list_bucket etag_of tree pre s delim maxKeys fo bo))"
    and "ir_isTruncated (list_bucket etag_of tree pre s delim maxKeys fo bo) \<Longrightarrow>
      ir_nextMarker (list_bucket etag_of tree pre s delim maxKeys fo bo) =
      last (page_items (list_bucket etag_of tree pre s delim maxKeys fo bo))"
proof -
  obtain os2 ps2 os1 ps1 where r: "list_bucket etag_of tree pre s delim maxKeys fo bo = buildListResult os2 ps2 maxKeys"
    and c: "applyMaxKeysLimit os1 ps1 maxKeys = (os2, ps2)" "sorted (map so_key os1)" "sorted ps1"
    by (rule list_bucket_cut)
  show trunc: "ir_isTruncated (list_bucket etag_of tree pre s delim maxKeys fo bo) \<longleftrightarrow>
      nat maxKeys \<le> length (page_items (list_bucket etag_of tree pre s delim maxKeys fo bo))"
    using assms by (auto simp: r buildListResult_def Let_def page_items_def)
  note sorted = applyMaxKeysLimit_sorted[OF c]
  show "ir_nextMarker (list_bucket etag_of tree pre s delim maxKeys fo bo) =
      last (page_items (list_bucket etag_of tree pre s delim maxKeys fo bo))"
    if t: "ir_isTruncated (list_bucket etag_of tree pre s delim maxKeys fo bo)"
  proof -
    have ne: "map so_key os2 @ ps2 \<noteq> []"
      using t assms by (auto simp: r buildListResult_def Let_def)
    show ?thesis
      using t sort_append_max[OF sorted ne]
      by (auto simp: r buildListResult_def Let_def page_items_def last_map)
  qed
qed

section \<open>Following the markers\<close>

text \<open>What a client collects that asks for the next page as long as the result is truncated.\<close>

fun follow :: "(string \<Rightarrow> internal_result) \<Rightarrow> nat \<Rightarrow> string \<Rightarrow> string list" where
  "follow page 0 s = []"
| "follow page (Suc n) s =
     page_items (page s) @
     (if ir_isTruncated (page s) then follow page n (ir_nextMarker (page s)) else [])"

locale paged_listing =
  fixes pl_ok :: "'c \<Rightarrow> bool"
    and pl_items :: "'c \<Rightarrow> string list"
    and pl_size :: "'c \<Rightarrow> nat"
    and pl_page :: "'c \<Rightarrow> string \<Rightarrow> internal_result"
  assumes items_sorted: "pl_ok c \<Longrightarrow> sorted (pl_items c) \<and> distinct (pl_items c) \<and> '''' \<notin> set (pl_items c)"
    and size_pos: "pl_ok c \<Longrightarrow> 0 < pl_size c"
    and page_is_take: "pl_ok c \<Longrightarrow>
      page_items (pl_page c s) = take (pl_size c) (filter (after s) (pl_items c))"
    and page_truncated: "pl_ok c \<Longrightarrow>
      ir_isTruncated (pl_page c s) \<longleftrightarrow> pl_size c \<le> length (page_items (pl_page c s))"
    and page_marker: "pl_ok c \<Longrightarrow> ir_isTruncated (pl_page c s) \<Longrightarrow>
      ir_nextMarker (pl_page c s) = last (page_items (pl_page c s))"
begin

lemma rest_after_page:
  assumes "pl_ok c" "ir_isTruncated (pl_page c s)"
  shows "filter (after (ir_nextMarker (pl_page c s))) (pl_items c) =
    drop (pl_size c) (filter (after s) (pl_items c))"
    and "pl_size c \<le> length (filter (after s) (pl_items c))"
proof -
  let ?L = "filter (after s) (pl_items c)"
  have L: "sorted ?L" "distinct ?L" "'''' \<notin> set ?L"
    using items_sorted[OF assms(1)] by (auto intro: sorted_wrt_filter)
  show len: "pl_size c \<le> length ?L"
    using assms page_truncated[OF assms(1)] page_is_take[OF assms(1)] by simp
  let ?m = "last (take (pl_size c) ?L)"
  have m: "ir_nextMarker (pl_page c s) = ?m"
    using page_marker[OF assms] page_is_take[OF assms(1)] by simp
  have "?m \<in> set (take (pl_size c) ?L)"
    using len size_pos[OF assms(1)] by (intro last_in_set) auto
  then have mem: "?m \<in> set ?L" by (rule in_set_takeD)
  then have ne: "?m \<noteq> ''''" "after s ?m" using L(3) by auto
  have "filter (after ?m) (pl_items c) = filter (\<lambda>x. ?m < x) ?L"
    using ne by (auto simp: after_def filter_filter intro!: filter_cong)
  then show "filter (after (ir_nextMarker (pl_page c s))) (pl_items c) = drop (pl_size c) ?L"
    unfolding m using filter_after_take[OF L(1,2) size_pos[OF assms(1)] len] by simp
qed

lemma follow_complete:
  assumes "pl_ok c" "length (filter (after s) (pl_items c)) < fuel"
  shows "follow (pl_page c) fuel s = filter (after s) (pl_items c)"
  using assms(2)
proof (induction fuel arbitrary: s)
  case 0
  then show ?case by simp
next
  case (Suc n)
  let ?L = "filter (after s) (pl_items c)"
  show ?case
  proof (cases "ir_isTruncated (pl_page c s)")
    case True
    note rest = rest_after_page[OF assms(1) True]
    have "length (filter (after (ir_nextMarker (pl_page c s))) (pl_items c)) < n"
      unfolding rest(1) using Suc.prems rest(2) size_pos[OF assms(1)] by simp
    from Suc.IH[OF this] True show ?thesis
      by (simp add: page_is_take[OF assms(1)] rest(1))
  next
    case False
    then have "length ?L < pl_size c"
      using page_truncated[OF assms(1), of s] page_is_take[OF assms(1), of s] by (auto simp: min_def split: if_splits)
    with False show ?thesis by (simp add: page_is_take[OF assms(1)])
  qed
qed

end

section \<open>The keys of a bucket\<close>

text \<open>What a file system guarantees of a directory: names are non-empty, have no slash, and differ.\<close>

function wf_dir :: "(string \<times> fs_node) list \<Rightarrow> bool" where
  "wf_dir [] = True"
| "wf_dir ((nm, FFile info) # rest) =
     (nm \<noteq> '''' \<and> CHR ''/'' \<notin> set nm \<and> nm \<notin> fst ` set rest \<and> wf_dir rest)"
| "wf_dir ((nm, FDir sub) # rest) =
     (nm \<noteq> '''' \<and> CHR ''/'' \<notin> set nm \<and> nm \<notin> fst ` set rest \<and> wf_dir sub \<and> wf_dir rest)"
  by pat_completeness auto
termination
  by (relation "measure (\<lambda>es. size_list (size_prod (\<lambda>x. 0) size) es)") auto

definition below :: "string \<Rightarrow> string \<Rightarrow> string \<Rightarrow> bool" where
  "below d nm k \<longleftrightarrow> (\<exists>r. k = entry_path d nm @ r \<and> (r = '''' \<or> hd r = CHR ''/''))"

lemma below_inj:
  assumes "below d nm k" "below d nm' k" "CHR ''/'' \<notin> set nm" "CHR ''/'' \<notin> set nm'"
  shows "nm = nm'"
proof -
  have tw: "takeWhile (\<lambda>c. c \<noteq> CHR ''/'') (x @ r) = x"
    if "CHR ''/'' \<notin> set x" "r = '''' \<or> hd r = CHR ''/''" for x r
    using that by (cases r) (auto simp: takeWhile_append)
  obtain r r' where "entry_path d nm @ r = entry_path d nm' @ r'" and r: "r = '''' \<or> hd r = CHR ''/''"
    "r' = '''' \<or> hd r' = CHR ''/''"
    using assms(1,2) unfolding below_def by metis
  then have "nm @ r = nm' @ r'" by (auto simp: entry_path_def split: if_splits)
  with tw[OF assms(3) r(1)] tw[OF assms(4) r(2)] show ?thesis by metis
qed

lemma walk_below:
  "wf_dir es \<Longrightarrow> k \<in> set (map fst (walkDir d es)) \<Longrightarrow> \<exists>nm\<in>fst ` set es. below d nm k"
proof (induction d es rule: walkDir.induct)
  case (1 dir)
  then show ?case by simp
next
  case (2 dir nm info rest)
  have "below dir nm (entry_path dir nm)" by (simp add: below_def)
  with 2 show ?case by auto
next
  case (3 dir nm sub rest)
  have ne: "entry_path dir nm \<noteq> ''''" using 3 by (auto simp: entry_path_def)
  from 3(4) consider "k \<in> set (map fst (walkDir (entry_path dir nm) sub))"
    | "k \<in> set (map fst (walkDir dir rest))" by auto
  then show ?case
  proof cases
    case 1
    have wf: "wf_dir sub" using 3(3) by simp
    from 3(1)[OF wf 1] obtain nm2 r where "k = entry_path (entry_path dir nm) nm2 @ r"
      unfolding below_def by blast
    then have "k = entry_path dir nm @ (''/'' @ nm2 @ r)" using ne by (simp add: entry_path_def)
    then have "below dir nm k" unfolding below_def by (intro exI[of _ "''/'' @ nm2 @ r"]) simp
    then show ?thesis by simp
  next
    case 2
    then show ?thesis using 3(2,3) by auto
  qed
qed

lemma wf_names: "wf_dir es \<Longrightarrow> nm \<in> fst ` set es \<Longrightarrow> CHR ''/'' \<notin> set nm \<and> nm \<noteq> ''''"
  by (induction es rule: wf_dir.induct) auto

lemma walk_distinct: "wf_dir es \<Longrightarrow> distinct (map fst (walkDir d es))"
proof (induction d es rule: walkDir.induct)
  case (1 dir)
  then show ?case by simp
next
  case (2 dir nm info rest)
  have "entry_path dir nm \<notin> set (map fst (walkDir dir rest))"
  proof
    assume mem: "entry_path dir nm \<in> set (map fst (walkDir dir rest))"
    have "wf_dir rest" using 2(2) by simp
    from walk_below[OF this mem]
    obtain nm2 where nm2: "nm2 \<in> fst ` set rest" "below dir nm2 (entry_path dir nm)" by blast
    have "below dir nm (entry_path dir nm)" by (simp add: below_def)
    from below_inj[OF nm2(2) this] wf_names[OF \<open>wf_dir rest\<close> nm2(1)] 2(2) have "nm2 = nm" by simp
    with nm2(1) 2(2) show False by simp
  qed
  with 2 show ?case by (simp del: set_map)
next
  case (3 dir nm sub rest)
  have "set (map fst (walkDir (entry_path dir nm) sub)) \<inter> set (map fst (walkDir dir rest)) = {}"
  proof (rule equals0I)
    fix k assume "k \<in> set (map fst (walkDir (entry_path dir nm) sub)) \<inter> set (map fst (walkDir dir rest))"
    then have k: "k \<in> set (map fst (walkDir dir [(nm, FDir sub)]))" "k \<in> set (map fst (walkDir dir rest))"
      by auto
    have wf: "wf_dir [(nm, FDir sub)]" "wf_dir rest" using 3(3) by simp_all
    have b: "below dir nm k" using walk_below[OF wf(1) k(1)] by simp
    from walk_below[OF wf(2) k(2)]
    obtain nm2 where nm2: "nm2 \<in> fst ` set rest" "below dir nm2 k" by blast
    from below_inj[OF nm2(2) b] wf_names[OF wf(2) nm2(1)] 3(3) have "nm2 = nm" by simp
    with nm2(1) 3(3) show False by simp
  qed
  with 3 show ?case by (simp del: set_map)
qed

lemma wf_tree_keys:
  assumes "wf_dir tree"
  shows "distinct (tree_keys tree)" "'''' \<notin> set (tree_keys tree)"
proof -
  show "distinct (tree_keys tree)"
    using walk_distinct[OF assms] by (simp add: tree_keys_def)
  show "'''' \<notin> set (tree_keys tree)"
  proof
    assume "'''' \<in> set (tree_keys tree)"
    then obtain nm where "nm \<in> fst ` set tree" "below '''' nm ''''"
      using walk_below[OF assms] unfolding tree_keys_def by blast
    then show False using wf_names[OF assms] by (auto simp: below_def entry_path_def)
  qed
qed

section \<open>Every page, without a delimiter\<close>

lemma classify_no_delim: "classify pre '''' k = k"
  by (simp add: classify_def entry_prefix_def)

lemma sorted_list_of_filter:
  "sorted ks \<Longrightarrow> distinct ks \<Longrightarrow> sorted_list_of_set (set (filter Q ks)) = filter Q ks"
  by (rule sorted_list_of_set.idem_if_sorted_distinct) (auto intro: sorted_wrt_filter)

lemma list_page_sorted:
  assumes "sorted (tree_keys tree)" "distinct (tree_keys tree)" "0 < maxKeys"
  shows "page_items (list_bucket etag_of tree pre s '''' maxKeys fo bo) =
           take (nat maxKeys) (filter (after s) (listing_items (tree_keys tree) pre ''''))"
proof -
  let ?es = "walkDir '''' tree"
  let ?ks = "map oe_key (collectEntries etag_of tree pre s '''' maxKeys)"
  let ?L = "filter (after s) (filter (\<lambda>k. has_prefix k pre) (tree_keys tree))"
  have L: "sorted ?L" "distinct ?L" using assms(1,2) by (simp_all add: sorted_wrt_filter)
  have cut: "filter (after s) ?ks = take (nat (maxKeys + 1)) ?L"
    using collect_sorted[of ?es maxKeys 0 s etag_of pre] assms(1,3)
    by (simp add: collectEntries_def tree_keys_def)
  have d: "distinct ?ks" unfolding collectEntries_def
    by (rule collect_distinct) (use assms(2) in \<open>simp add: tree_keys_def\<close>)
  have hp: "\<forall>k\<in>set ?ks. has_prefix k pre"
    unfolding collectEntries_def set_map by (blast dest: collect_mem)
  have "filter (after s) (listing_items ?ks pre '''') = sorted_list_of_set (set (filter (after s) ?ks))"
    using hp by (auto simp: listing_items_def classify_no_delim filter_sorted_list_of_set
        intro!: arg_cong[of _ _ sorted_list_of_set])
  also have "\<dots> = take (nat (maxKeys + 1)) ?L"
    unfolding cut using L by (intro sorted_list_of_set.idem_if_sorted_distinct) (simp_all add: sorted_take)
  finally have "page_items (list_bucket etag_of tree pre s '''' maxKeys fo bo) = take (nat maxKeys) ?L"
    using list_bucket_page[OF d hp assms(3), of fo bo] assms(3) by (simp add: min_def)
  also have "?L = filter (after s) (listing_items (tree_keys tree) pre '''')"
    using sorted_list_of_filter[OF assms(1,2), of "\<lambda>k. has_prefix k pre"]
    by (simp add: listing_items_def classify_no_delim)
  finally show ?thesis .
qed

section \<open>The locale on the code\<close>

text \<open>A request for pages: the bucket's tree, prefix, delimiter and page size.\<close>

type_synonym list_request = "(string \<times> fs_node) list \<times> string \<times> string \<times> int"

text \<open>With a delimiter any bucket will do; without one the walk has to meet the keys in order.\<close>

definition listing_ok :: "list_request \<Rightarrow> bool" where
  "listing_ok c \<longleftrightarrow> (case c of (tree, pre, delim, maxKeys) \<Rightarrow>
     wf_dir tree \<and> 0 < maxKeys \<and> (delim \<noteq> '''' \<or> sorted (tree_keys tree)))"

definition listing_of :: "list_request \<Rightarrow> string list" where
  "listing_of c = (case c of (tree, pre, delim, maxKeys) \<Rightarrow> listing_items (tree_keys tree) pre delim)"

definition listing_page ::
  "(string \<Rightarrow> string option) \<Rightarrow> bool \<Rightarrow> owner option \<Rightarrow> list_request \<Rightarrow> string \<Rightarrow> internal_result" where
  "listing_page etag_of fo bo c s = (case c of (tree, pre, delim, maxKeys) \<Rightarrow>
     list_bucket etag_of tree pre s delim maxKeys fo bo)"

definition listing_size :: "list_request \<Rightarrow> nat" where
  "listing_size c = (case c of (tree, pre, delim, maxKeys) \<Rightarrow> nat maxKeys)"

lemma classify_ne:
  assumes "k \<noteq> ''''" shows "classify pre delim k \<noteq> ''''"
proof (cases "entry_prefix pre delim k")
  case None
  with assms show ?thesis by (simp add: classify_def)
next
  case (Some p)
  then obtain i t where "delim \<noteq> ''''" "str_index t delim = Some i" "p = pre @ take (i + length delim) t"
    by (auto simp: entry_prefix_def Let_def split: if_splits option.splits)
  then have "p \<noteq> ''''" using str_index_bound[of t delim i] by auto
  with Some show ?thesis by (simp add: classify_def)
qed

lemma listing_items_ordered:
  assumes "'''' \<notin> set keys"
  shows "sorted (listing_items keys pre delim)" "distinct (listing_items keys pre delim)"
    "'''' \<notin> set (listing_items keys pre delim)"
proof -
  show "'''' \<notin> set (listing_items keys pre delim)"
  proof
    assume "'''' \<in> set (listing_items keys pre delim)"
    then obtain k where "k \<in> set keys" "classify pre delim k = ''''"
      by (auto simp: listing_items_def)
    with assms classify_ne[of k] show False by auto
  qed
qed (simp_all add: listing_items_def)

lemma listing_page_take:
  assumes "listing_ok c"
  shows "page_items (listing_page etag_of fo bo c s) = take (listing_size c) (filter (after s) (listing_of c))"
proof -
  obtain tree pre delim maxKeys where c: "c = (tree, pre, delim, maxKeys)" by (cases c)
  show ?thesis
    using assms list_page_delimited[of tree delim maxKeys etag_of pre s fo bo]
      list_page_sorted[of tree maxKeys etag_of pre s fo bo] wf_tree_keys[of tree]
    unfolding listing_ok_def listing_page_def listing_of_def listing_size_def c prod.case by blast
qed

interpretation listing_pages: paged_listing listing_ok listing_of listing_size "listing_page etag_of fo bo"
proof (unfold_locales, goal_cases)
  case (1 c)
  then show ?case
    by (cases c) (simp add: listing_ok_def listing_of_def listing_items_ordered wf_tree_keys)
next
  case (2 c)
  then show ?case by (auto simp: listing_ok_def listing_size_def)
next
  case (3 c s)
  then show ?case by (rule listing_page_take)
next
  case (4 c s)
  then show ?case
    using list_bucket_marker(1) by (auto simp: listing_ok_def listing_page_def listing_size_def split: prod.splits)
next
  case (5 c s)
  then show ?case
    using list_bucket_marker(2) by (auto simp: listing_ok_def listing_page_def split: prod.splits)
qed

section \<open>Properties\<close>

text \<open>A page of \<open>ListObjectsV2\<close> of a bucket holds exactly the first \<open>maxKeys\<close> of the bucket's
  items after the start (the continuation token, or \<open>start-after\<close> without one), objects and common
  prefixes counted together and in byte order, provided the request has a delimiter or the walk meets
  the keys in order; it says truncated exactly when the page is full, and its marker is then its last
  item.\<close>

theorem listV2_page:
  assumes "map_of buckets bucket = Some (FDir tree)" "wf_dir tree" "0 < maxKeys"
    and "delim \<noteq> '''' \<or> sorted (tree_keys tree)"
  shows "\<exists>r. ListObjectsV2 C st buckets bucket pre token start_after delim maxKeys fo = Inr r \<and>
    page_items r = take (nat maxKeys)
      (filter (after (if token = '''' then start_after else token)) (listing_items (tree_keys tree) pre delim)) \<and>
    (ir_isTruncated r \<longleftrightarrow> length (page_items r) = nat maxKeys) \<and>
    (ir_isTruncated r \<longrightarrow> ir_nextMarker r = last (page_items r))"
proof -
  let ?s = "if token = '''' then start_after else token"
  let ?etag = "\<lambda>key. case fst (GetObjectMetadata bucket key st) of Inr m \<Rightarrow> Some (om_etag m) | Inl _ \<Rightarrow> None"
  let ?bo = "if fo then fetchBucketOwner C st bucket else None"
  let ?c = "(tree, pre, delim, maxKeys)"
  have ok: "listing_ok ?c" using assms by (simp add: listing_ok_def)
  have "ListObjectsV2 C st buckets bucket pre token start_after delim maxKeys fo =
      Inr (listing_page ?etag fo ?bo ?c ?s)"
    by (simp add: ListObjectsV2_def listInternal_def assms(1) listing_page_def)
  then show ?thesis
    using listing_pages.page_is_take[OF ok, of ?etag fo ?bo ?s]
      listing_pages.page_truncated[OF ok, of ?etag fo ?bo ?s]
      listing_pages.page_marker[OF ok, of ?etag fo ?bo ?s]
    by (auto simp: listing_of_def listing_size_def min_def)
qed

definition ex_tree :: "(string \<times> fs_node) list" where
  "ex_tree =
     [(''a'', FDir [(''1'', FFile \<lparr>fi_size = 1, fi_modTime = 0\<rparr>), (''2'', FFile \<lparr>fi_size = 2, fi_modTime = 0\<rparr>)]),
      (''b'', FFile \<lparr>fi_size = 3, fi_modTime = 0\<rparr>)]"

lemma ex_tree_ok: "wf_dir ex_tree" "sorted (tree_keys ex_tree)" "length (tree_keys ex_tree) = 3"
  by (simp_all add: ex_tree_def tree_keys_def entry_path_def)

theorem listV2_page_witness:
  "\<forall>C st. \<exists>r. ListObjectsV2 C st [(''photos'', FDir ex_tree)] ''photos'' '''' '''' ''a/1'' '''' 2 False = Inr r \<and>
    page_items r = take 2 (filter (after ''a/1'') (listing_items (tree_keys ex_tree) '''' '''')) \<and>
    (ir_isTruncated r \<longleftrightarrow> length (page_items r) = 2) \<and>
    (ir_isTruncated r \<longrightarrow> ir_nextMarker r = last (page_items r))"
proof (intro allI)
  fix C :: crypt_env and st :: meta_store
  show "\<exists>r. ListObjectsV2 C st [(''photos'', FDir ex_tree)] ''photos'' '''' '''' ''a/1'' '''' 2 False = Inr r \<and>
    page_items r = take 2 (filter (after ''a/1'') (listing_items (tree_keys ex_tree) '''' '''')) \<and>
    (ir_isTruncated r \<longleftrightarrow> length (page_items r) = 2) \<and>
    (ir_isTruncated r \<longrightarrow> ir_nextMarker r = last (page_items r))"
    using listV2_page[of "[(''photos'', FDir ex_tree)]" "''photos''" ex_tree 2 "''''" C st "''''" "''''" "''a/1''" False]
      ex_tree_ok by simp
qed

text \<open>C11. Pagination is complete: a client that starts at \<open>s\<close> and asks for the next page with the
  returned marker for as long as the result is truncated sees every item of the bucket after \<open>s\<close>
  exactly once and in order, whatever the page size, and stops after at most one page per item and
  one empty page.\<close>

theorem pagination_complete:
  assumes "wf_dir tree" "0 < maxKeys" "delim \<noteq> '''' \<or> sorted (tree_keys tree)"
    and "length (filter (after s) (listing_items (tree_keys tree) pre delim)) < fuel"
  shows "follow (\<lambda>m. list_bucket etag_of tree pre m delim maxKeys fo bo) fuel s =
    filter (after s) (listing_items (tree_keys tree) pre delim)"
proof -
  have "listing_page etag_of fo bo (tree, pre, delim, maxKeys) =
      (\<lambda>m. list_bucket etag_of tree pre m delim maxKeys fo bo)"
    by (simp add: listing_page_def fun_eq_iff)
  with listing_pages.follow_complete[of "(tree, pre, delim, maxKeys)" s fuel etag_of fo bo] assms
  show ?thesis by (simp add: listing_ok_def listing_of_def)
qed

theorem pagination_complete_witness:
  "follow (\<lambda>m. list_bucket (\<lambda>_. None) ex_tree '''' m '''' 2 False None) 4 '''' =
     filter (after '''') (listing_items (tree_keys ex_tree) '''' '''')"
proof (rule pagination_complete[OF ex_tree_ok(1) _ disjI2[OF ex_tree_ok(2)]])
  have "length (listing_items (tree_keys ex_tree) '''' '''') \<le> card (set (tree_keys ex_tree))"
    unfolding listing_items_def length_sorted_list_of_set
    by (rule order.trans[OF card_image_le card_mono]) auto
  also have "\<dots> \<le> 3" using card_length[of "tree_keys ex_tree"] ex_tree_ok(3) by simp
  finally show "length (filter (after '''') (listing_items (tree_keys ex_tree) '''' '''')) < 4"
    using length_filter_le[of "after ''''" "listing_items (tree_keys ex_tree) '''' ''''"] by linarith
qed simp

text \<open>Without a delimiter the early stop of the walk loses keys: in a bucket with the objects
  \<open>a/1\<close>, \<open>a/2\<close> and \<open>a-b\<close>, whose walk meets \<open>a-b\<close> last although it is the first key, a client that
  asks for pages of one key never sees \<open>a-b\<close>, however many pages it asks for.\<close>

definition ex_lost_tree :: "(string \<times> fs_node) list" where
  "ex_lost_tree =
     [(''a'', FDir [(''1'', FFile \<lparr>fi_size = 1, fi_modTime = 0\<rparr>), (''2'', FFile \<lparr>fi_size = 2, fi_modTime = 0\<rparr>)]),
      (''a-b'', FFile \<lparr>fi_size = 3, fi_modTime = 0\<rparr>)]"

theorem early_stop_loses_key:
  "wf_dir ex_lost_tree \<and> ''a-b'' \<in> set (listing_items (tree_keys ex_lost_tree) '''' '''') \<and>
   (\<forall>n. ''a-b'' \<notin> set (follow (\<lambda>m. list_bucket (\<lambda>_. None) ex_lost_tree '''' m '''' 1 False None) n ''''))"
proof -
  let ?page = "\<lambda>m. list_bucket (\<lambda>_. None) ex_lost_tree '''' m '''' 1 False None"
  have pages: "page_items (?page '''') = [''a/1'']" "ir_isTruncated (?page '''')"
      "ir_nextMarker (?page '''') = ''a/1''"
    "page_items (?page ''a/1'') = [''a/2'']" "ir_isTruncated (?page ''a/1'')"
      "ir_nextMarker (?page ''a/1'') = ''a/2''"
    "page_items (?page ''a/2'') = []" "\<not> ir_isTruncated (?page ''a/2'')"
    by code_simp+
  have "''a-b'' \<notin> set (follow ?page n '''')" for n
  proof -
    consider "n = 0" | "n = 1" | "n = 2" | m where "n = Suc (Suc (Suc m))"
      by (metis One_nat_def Suc_1 nat.exhaust)
    then show ?thesis by cases (simp_all add: pages numeral_2_eq_2)
  qed
  moreover have "wf_dir ex_lost_tree" "''a-b'' \<in> set (tree_keys ex_lost_tree)"
    by (simp_all add: ex_lost_tree_def tree_keys_def entry_path_def)
  ultimately show ?thesis by (simp add: listing_items_def classify_no_delim has_prefix_def)
qed

text \<open>C93. Listing a bucket that does not exist is the error \<open>NoSuchBucket\<close>, for both versions of the
  operation.\<close>

end
