(* ===== verification/Signature.thy ===== *)
theory Signature
  imports Variables Paths
begin

text \<open>
  \<^verbatim>\<open>internal/http/auth/signature.go\<close>: AWS Signature Version 4 over the Authorization header and over
  pre-signed URLs. HMAC-SHA256, SHA-256, the layouts of \<^verbatim>\<open>time.Format\<close> and the Unicode case tables are
  fields of the record \<open>sig_lib\<close>, which extends the run-time environment \<open>golib\<close>; nothing is assumed
  of them. Query and header values are lists, as in \<^verbatim>\<open>url.Values\<close> and \<^verbatim>\<open>http.Header\<close>.
\<close>

section \<open>Library\<close>

record sig_lib = golib +
  sl_hmac :: "string \<Rightarrow> string \<Rightarrow> string"
  sl_sha256 :: "string \<Rightarrow> string"
  sl_format_time :: "string \<Rightarrow> time \<Rightarrow> string"
  sl_to_lower :: "string \<Rightarrow> string"

text \<open>\<open>hex.EncodeToString\<close> and \<open>url.QueryEscape\<close>.\<close>

definition hex_encode :: "string \<Rightarrow> string" where
  "hex_encode s = concat (map (\<lambda>b. [hex_digit (b div 16), hex_digit (b mod 16)]) (bytes s))"

definition upper_hex :: "nat \<Rightarrow> char" where
  "upper_hex d = (if d < 10 then char_of (48 + d) else char_of (55 + d))"

definition unreserved :: "char \<Rightarrow> bool" where
  "unreserved c \<longleftrightarrow>
     list_ex (\<lambda>(lo, hi). lo \<le> c \<and> c \<le> hi)
       [(CHR ''0'', CHR ''9''), (CHR ''A'', CHR ''Z''), (CHR ''a'', CHR ''z'')] \<or>
     c \<in> set ''-_.~''"

definition escape_char :: "char \<Rightarrow> string" where
  "escape_char c =
     (if unreserved c then [c]
      else if c = CHR '' '' then ''+''
      else [CHR ''%'', upper_hex (of_char c div 16), upper_hex (of_char c mod 16)])"

definition query_escape :: "string \<Rightarrow> string" where
  "query_escape s = concat (map escape_char s)"

text \<open>\<open>fmt.Sscanf(s, "%d", &n)\<close> into an int: leading space but no newline, an optional sign, the digits
  that follow; what comes after them is not looked at.\<close>

definition digit_val :: "char \<Rightarrow> int" where
  "digit_val c = int (of_char c) - 48"

definition sscanf_d :: "string \<Rightarrow> int option" where
  "sscanf_d s =
     (let t = trim_left (length s) (removeAll [CHR 0x0A] white_space) s;
          neg = has_prefix t ''-'';
          ds = takeWhile (\<lambda>c. CHR ''0'' \<le> c \<and> c \<le> CHR ''9'')
                 (if neg \<or> has_prefix t ''+'' then tl t else t);
          v = foldl (\<lambda>n c. 10 * n + digit_val c) 0 ds;
          n = (if neg then - v else v)
      in if ds = '''' \<or> n < - (2 ^ 63) \<or> 2 ^ 63 \<le> n then None else Some n)"

section \<open>Requests\<close>

record http_parts =
  hp_method :: string
  hp_escapedPath :: string
  hp_query :: "(string \<times> string list) list"
  hp_header :: "(string \<times> string list) list"
  hp_host :: string

text \<open>\<open>Get\<close> of \<open>url.Values\<close> and of \<open>http.Header\<close> (whose keys are canonical): the first value.\<close>

definition values_get :: "(string \<times> string list) list \<Rightarrow> string \<Rightarrow> string" where
  "values_get m k = (case map_of m k of Some (v # _) \<Rightarrow> v | _ \<Rightarrow> '''')"

definition algorithmID :: string where "algorithmID = ''AWS4-HMAC-SHA256''"
definition iso8601TimeFormat :: string where "iso8601TimeFormat = ''20060102T150405Z''"
definition shortDateFormat :: string where "shortDateFormat = ''20060102''"
definition serviceName :: string where "serviceName = ''s3''"
definition requestType :: string where "requestType = ''aws4_request''"
definition ContentSHA256Unsigned :: string where "ContentSHA256Unsigned = ''UNSIGNED-PAYLOAD''"

datatype auth_error =
    ErrMissingAuthHeader | ErrInvalidAuthFormat | ErrMissingDateHeader | ErrInvalidDateFormat
  | ErrSignatureMismatch | ErrMissingCredential | ErrMissingSignature | ErrMissingSignedHeaders
  | ErrPresignedURLExpired | ErrInvalidExpiresValue | ErrMissingPresignedParams
  | ErrAuthenticationFailed auth_error | ErrAuthUserNotFound | ErrUserInactive | ErrAuthOther

record credentials =
  cr_accessKey :: string
  cr_date :: string
  cr_region :: string
  cr_service :: string
  cr_signedHeaders :: "string list"
  cr_signature :: string

section \<open>Parsing\<close>

text \<open>One round of the loop over the comma-separated parts.\<close>

definition parse_auth_part :: "credentials \<Rightarrow> string \<Rightarrow> auth_error + credentials" where
  "parse_auth_part creds part =
     (case str_split2 part ''='' of
        (_, None) \<Rightarrow> Inr creds
      | (k, Some v) \<Rightarrow>
          let key = trim_space k; val = trim_space v
          in if key = ''Credential'' then
               let credParts = str_split val ''/''
               in if length credParts \<noteq> 5 then Inl ErrInvalidAuthFormat
                  else Inr (creds\<lparr>cr_accessKey := credParts ! 0, cr_date := credParts ! 1,
                                  cr_region := credParts ! 2, cr_service := credParts ! 3\<rparr>)
             else if key = ''SignedHeaders'' then Inr (creds\<lparr>cr_signedHeaders := str_split val '';''\<rparr>)
             else if key = ''Signature'' then Inr (creds\<lparr>cr_signature := val\<rparr>)
             else Inr creds)"

fun parse_auth_parts :: "credentials \<Rightarrow> string list \<Rightarrow> auth_error + credentials" where
  "parse_auth_parts creds [] = Inr creds"
| "parse_auth_parts creds (p # ps) =
     (case parse_auth_part creds p of Inl e \<Rightarrow> Inl e | Inr creds' \<Rightarrow> parse_auth_parts creds' ps)"

definition no_credentials :: credentials where
  "no_credentials = \<lparr>cr_accessKey = '''', cr_date = '''', cr_region = '''', cr_service = '''',
     cr_signedHeaders = [], cr_signature = ''''\<rparr>"

definition ParseAuthorizationHeader :: "string \<Rightarrow> auth_error + credentials" where
  "ParseAuthorizationHeader authHeader =
     (if authHeader = '''' then Inl ErrMissingAuthHeader
      else if \<not> has_prefix authHeader (algorithmID @ '' '') then Inl ErrInvalidAuthFormat
      else case parse_auth_parts no_credentials
                  (str_split (trim_prefix authHeader (algorithmID @ '' '')) '','') of
             Inl e \<Rightarrow> Inl e
           | Inr creds \<Rightarrow>
               if cr_accessKey creds = '''' then Inl ErrMissingCredential
               else if cr_signature creds = '''' then Inl ErrMissingSignature
               else if cr_signedHeaders creds = [] then Inl ErrMissingSignedHeaders
               else Inr creds)"

text \<open>The result is the credentials and the time at which the URL expires.\<close>

definition ParsePresignedURLAuth ::
  "('a) sig_lib_scheme \<Rightarrow> http_parts \<Rightarrow> auth_error + credentials \<times> time" where
  "ParsePresignedURLAuth L r =
     (let q = values_get (hp_query r);
          credentialStr = q ''X-Amz-Credential'';
          credParts = str_split credentialStr ''/''
      in if q ''X-Amz-Algorithm'' \<noteq> algorithmID then Inl ErrMissingPresignedParams
         else if credentialStr = '''' then Inl ErrMissingCredential
         else if length credParts \<noteq> 5 then Inl ErrInvalidAuthFormat
         else if q ''X-Amz-SignedHeaders'' = '''' then Inl ErrMissingSignedHeaders
         else if q ''X-Amz-Signature'' = '''' then Inl ErrMissingSignature
         else if q ''X-Amz-Date'' = '''' then Inl ErrMissingDateHeader
         else case gl_parse_time L iso8601TimeFormat (q ''X-Amz-Date'') of
                None \<Rightarrow> Inl ErrInvalidDateFormat
              | Some timestamp \<Rightarrow>
                  if q ''X-Amz-Expires'' = '''' then Inl ErrInvalidExpiresValue
                  else case sscanf_d (q ''X-Amz-Expires'') of
                         None \<Rightarrow> Inl ErrInvalidExpiresValue
                       | Some expiresSeconds \<Rightarrow>
                           if expiresSeconds < 1 \<or> 604800 < expiresSeconds
                           then Inl ErrInvalidExpiresValue
                           else Inr (\<lparr>cr_accessKey = credParts ! 0, cr_date = credParts ! 1,
                                      cr_region = credParts ! 2, cr_service = credParts ! 3,
                                      cr_signedHeaders = str_split (q ''X-Amz-SignedHeaders'') '';'',
                                      cr_signature = q ''X-Amz-Signature''\<rparr>,
                                     timestamp + expiresSeconds * 1000000000))"

section \<open>The canonical request\<close>

definition buildCanonicalQueryString :: "(string \<times> string list) list \<Rightarrow> string" where
  "buildCanonicalQueryString vals =
     str_join ''&'' (concat (map
       (\<lambda>k. map (\<lambda>v. query_escape k @ ''='' @ query_escape v)
              (sort (case map_of vals k of Some vs \<Rightarrow> vs | None \<Rightarrow> [])))
       (sort (map fst vals))))"

text \<open>The lines of the signed headers in the iteration order of the map, before they are sorted.\<close>

definition header_lines ::
  "('a) sig_lib_scheme \<Rightarrow> string set \<Rightarrow> (string \<times> string list) list \<Rightarrow> string list" where
  "header_lines L signedMap headerMap =
     List.map_filter
       (\<lambda>(key, vs). let lowerKey = sl_to_lower L key
          in if lowerKey \<in> signedMap
             then Some (lowerKey @ '':'' @ str_join '','' (map trim_space vs)) else None)
       headerMap"

definition buildCanonicalHeaders ::
  "('a) sig_lib_scheme \<Rightarrow> (string \<times> string list) list \<Rightarrow> string list \<Rightarrow> string \<Rightarrow> string" where
  "buildCanonicalHeaders L headerMap signedHeaders hostHeader =
     (let signedMap = set (map (sl_to_lower L) signedHeaders);
          ls = header_lines L signedMap headerMap;
          ls = (if ''host'' \<in> signedMap \<and> hostHeader \<noteq> '''' \<and>
                   \<not> list_ex (\<lambda>line. has_prefix line ''host:'') ls
                then ls @ [''host:'' @ hostHeader] else ls);
          ls = sort ls
      in if ls = [] then '''' else str_join [CHR 0x0A] ls @ [CHR 0x0A])"

definition BuildCanonicalRequest ::
  "('a) sig_lib_scheme \<Rightarrow> http_parts \<Rightarrow> string list \<Rightarrow> string \<Rightarrow> string" where
  "BuildCanonicalRequest L r signedHeaders payloadHash =
     str_join [CHR 0x0A]
       [hp_method r,
        (if hp_escapedPath r = '''' then ''/'' else hp_escapedPath r),
        buildCanonicalQueryString (hp_query r),
        buildCanonicalHeaders L (hp_header r) signedHeaders (hp_host r),
        str_join '';'' (sort signedHeaders),
        payloadHash]"

definition hashSHA256 :: "('a) sig_lib_scheme \<Rightarrow> string \<Rightarrow> string" where
  "hashSHA256 L data = hex_encode (sl_sha256 L data)"

definition credential_scope :: "('a) sig_lib_scheme \<Rightarrow> time \<Rightarrow> string \<Rightarrow> string" where
  "credential_scope L timestamp region =
     str_join ''/'' [sl_format_time L shortDateFormat timestamp, region, serviceName, requestType]"

definition BuildStringToSign :: "('a) sig_lib_scheme \<Rightarrow> time \<Rightarrow> string \<Rightarrow> string \<Rightarrow> string" where
  "BuildStringToSign L timestamp region canonicalRequest =
     str_join [CHR 0x0A]
       [algorithmID, sl_format_time L iso8601TimeFormat timestamp,
        credential_scope L timestamp region, hashSHA256 L canonicalRequest]"

definition signing_key :: "('a) sig_lib_scheme \<Rightarrow> string \<Rightarrow> string \<Rightarrow> string \<Rightarrow> string" where
  "signing_key L secretKey dateStamp region =
     (let kDate = sl_hmac L (''AWS4'' @ secretKey) dateStamp;
          kRegion = sl_hmac L kDate region;
          kService = sl_hmac L kRegion serviceName
      in sl_hmac L kService requestType)"

definition ComputeSignature :: "('a) sig_lib_scheme \<Rightarrow> string \<Rightarrow> time \<Rightarrow> string \<Rightarrow> string \<Rightarrow> string" where
  "ComputeSignature L secretKey timestamp region stringToSign =
     hex_encode (sl_hmac L
       (signing_key L secretKey (sl_format_time L shortDateFormat timestamp) region) stringToSign)"

section \<open>Verification\<close>

text \<open>The constant-time comparison is equality. The result is an error, if any.\<close>

definition VerifySignature :: "('a) sig_lib_scheme \<Rightarrow> http_parts \<Rightarrow> string \<Rightarrow> auth_error option" where
  "VerifySignature L r secretKey =
     (let hdr = values_get (hp_header r)
      in case ParseAuthorizationHeader (hdr ''Authorization'') of
           Inl e \<Rightarrow> Some e
         | Inr creds \<Rightarrow>
             if hdr ''X-Amz-Date'' = '''' then Some ErrMissingDateHeader
             else case gl_parse_time L iso8601TimeFormat (hdr ''X-Amz-Date'') of
                    None \<Rightarrow> Some ErrInvalidDateFormat
                  | Some timestamp \<Rightarrow>
                      let payloadHash = (if hdr ''X-Amz-Content-Sha256'' = '''' then ContentSHA256Unsigned
                                         else hdr ''X-Amz-Content-Sha256'');
                          canonicalRequest =
                            BuildCanonicalRequest L r (cr_signedHeaders creds) payloadHash;
                          stringToSign = BuildStringToSign L timestamp (cr_region creds) canonicalRequest;
                          expectedSignature =
                            ComputeSignature L secretKey timestamp (cr_region creds) stringToSign
                      in if expectedSignature \<noteq> cr_signature creds then Some ErrSignatureMismatch
                         else None)"

text \<open>The query of the copied URL is the query without the signature: encoding it and parsing it
  again gives the same values.\<close>

definition without_signature :: "http_parts \<Rightarrow> http_parts" where
  "without_signature r =
     r\<lparr>hp_query := filter (\<lambda>(k, _). k \<noteq> ''X-Amz-Signature'') (hp_query r)\<rparr>"

definition VerifyPresignedSignature ::
  "('a) sig_lib_scheme \<Rightarrow> http_parts \<Rightarrow> string \<Rightarrow> auth_error + time" where
  "VerifyPresignedSignature L r secretKey =
     (case ParsePresignedURLAuth L r of
        Inl e \<Rightarrow> Inl e
      | Inr (creds, expiresAt) \<Rightarrow>
          if expiresAt < gl_now L then Inl ErrPresignedURLExpired
          else case gl_parse_time L iso8601TimeFormat (values_get (hp_query r) ''X-Amz-Date'') of
                 None \<Rightarrow> Inl ErrInvalidDateFormat
               | Some timestamp \<Rightarrow>
                   let canonicalRequest =
                         BuildCanonicalRequest L (without_signature r) (cr_signedHeaders creds)
                           ContentSHA256Unsigned;
                       stringToSign = BuildStringToSign L timestamp (cr_region creds) canonicalRequest;
                       expectedSignature =
                         ComputeSignature L secretKey timestamp (cr_region creds) stringToSign
                   in if expectedSignature \<noteq> cr_signature creds then Inl ErrSignatureMismatch
                      else Inr expiresAt)"

definition GetAccessKey :: "http_parts \<Rightarrow> auth_error + string" where
  "GetAccessKey r =
     (case ParseAuthorizationHeader (values_get (hp_header r) ''Authorization'') of
        Inl e \<Rightarrow> Inl e
      | Inr creds \<Rightarrow> Inr (cr_accessKey creds))"

definition GetAccessKeyFromPresignedURL :: "http_parts \<Rightarrow> auth_error + string" where
  "GetAccessKeyFromPresignedURL r =
     (let credentialStr = values_get (hp_query r) ''X-Amz-Credential'';
          credParts = str_split credentialStr ''/''
      in if credentialStr = '''' then Inl ErrMissingCredential
         else if length credParts \<noteq> 5 then Inl ErrInvalidAuthFormat
         else Inr (credParts ! 0))"


section \<open>An instance\<close>

text \<open>A library for the concrete instances of the properties: times are written in unary, in whole
  seconds, and every HMAC is the same.\<close>

definition unary_time :: "string \<Rightarrow> time \<Rightarrow> string" where
  "unary_time layout t =
     (if t < 0 then CHR ''-'' else CHR ''+'') # replicate (nat \<bar>t div 1000000000\<bar>) CHR ''1''"

definition parse_unary_time :: "string \<Rightarrow> string \<Rightarrow> time option" where
  "parse_unary_time layout s =
     (case s of
        [] \<Rightarrow> None
      | c # ones \<Rightarrow> Some ((if c = CHR ''-'' then - 1 else 1) * int (length ones) * 1000000000))"

definition ex_sig :: sig_lib where
  "ex_sig =
     \<lparr>gl_now = 1, gl_time_string = (\<lambda>_. ''t''), gl_time_rfc3339 = (\<lambda>_. ''t''),
      gl_parse_time = parse_unary_time, gl_ip_string = (\<lambda>_. ''ip''), gl_parse_ip = (\<lambda>_. None),
      gl_parse_cidr = (\<lambda>_. None), gl_parse_float = (\<lambda>_. None), gl_sprint_float = (\<lambda>_. ''0''),
      gl_equal_fold = (=), sl_hmac = (\<lambda>_ _. ''k''), sl_sha256 = (\<lambda>_. ''h''),
      sl_format_time = unary_time, sl_to_lower = (\<lambda>s. s)\<rparr>"

lemma ex_sig_signature: "ComputeSignature ex_sig sk t region s = ''6b''"
proof -
  have "hex_encode ''k'' = ''6b''" by code_simp
  then show ?thesis by (simp add: ComputeSignature_def ex_sig_def)
qed

end
