(* ===== verification/PostPolicy.thy ===== *)
theory PostPolicy
  imports Signature
begin

text \<open>
  \<^verbatim>\<open>internal/http/auth/post_policy.go\<close>: browser uploads, whose form carries the credential, a policy
  document and a signature over it. \<^verbatim>\<open>ParseMultipartForm\<close> and the base64 and JSON decoding are
  arguments: the values of the form (\<open>None\<close> when it cannot be parsed), and the raw policy, its
  expiration text and its conditions as JSON values.
\<close>

section \<open>JSON values and what they decode into\<close>

datatype json = JNull | JBool bool | JNum string | JStr string | JArr "json list"
  | JObj "(string \<times> json) list"

text \<open>\<open>json.Unmarshal\<close> into \<open>[]json.RawMessage\<close>, string, \<open>map[string]string\<close> and int64; null leaves the
  zero value.\<close>

fun json_list :: "json \<Rightarrow> json list option" where
  "json_list (JArr xs) = Some xs"
| "json_list JNull = Some []"
| "json_list _ = None"

fun json_string :: "json \<Rightarrow> string option" where
  "json_string (JStr s) = Some s"
| "json_string JNull = Some ''''"
| "json_string _ = None"

fun json_fields :: "(string \<times> json) list \<Rightarrow> (string \<times> string) list option" where
  "json_fields [] = Some []"
| "json_fields ((k, v) # kvs) =
     do { s \<leftarrow> json_string v; rest \<leftarrow> json_fields kvs; Some ((k, s) # rest) }"

fun json_string_map :: "json \<Rightarrow> (string \<times> string) list option" where
  "json_string_map (JObj kvs) = json_fields kvs"
| "json_string_map JNull = Some []"
| "json_string_map _ = None"

fun json_int64 :: "json \<Rightarrow> int option" where
  "json_int64 (JNum t) =
     (let neg = has_prefix t ''-''; ds = (if neg then tl t else t);
          v = foldl (\<lambda>n c. 10 * n + digit_val c) 0 ds; n = (if neg then - v else v)
      in if ds = '''' \<or> \<not> list_all (\<lambda>c. CHR ''0'' \<le> c \<and> c \<le> CHR ''9'') ds
            \<or> n < - (2 ^ 63) \<or> 2 ^ 63 \<le> n then None else Some n)"
| "json_int64 JNull = Some 0"
| "json_int64 _ = None"

section \<open>The form and the document\<close>

record post_form =
  pf_algorithm :: string
  pf_credential :: string
  pf_date :: string
  pf_signature :: string
  pf_policyBase64 :: string
  pf_key :: string
  pf_accessKey :: string
  pf_dateShort :: string
  pf_region :: string
  pf_contentType :: string
  pf_successRedirect :: string
  pf_successStatus :: string

record post_doc =
  pp_expiration :: time
  pp_conditions :: "json list"

datatype post_error =
    PostAuth auth_error
  | BadForm
  | BadCredential
  | MissingPolicy
  | BadPolicyDocument
  | BadExpiration
  | MissingScope
  | ConditionFailed string
  | BadCondition

definition ParsePostPolicyForm ::
  "(string \<times> string list) list option \<Rightarrow> post_error + post_form" where
  "ParsePostPolicyForm form =
     (case form of
        None \<Rightarrow> Inl BadForm
      | Some vals \<Rightarrow>
          let get = values_get vals;
              contentType = (if get ''Content-Type'' = '''' then get ''content-type'' else get ''Content-Type'');
              parts = str_split (get ''x-amz-credential'') ''/'';
              given = (get ''x-amz-credential'' \<noteq> '''');
              pf = \<lparr>pf_algorithm = get ''x-amz-algorithm'', pf_credential = get ''x-amz-credential'',
                    pf_date = get ''x-amz-date'', pf_signature = get ''x-amz-signature'',
                    pf_policyBase64 = get ''policy'', pf_key = get ''key'',
                    pf_accessKey = (if given then parts ! 0 else ''''),
                    pf_dateShort = (if given then parts ! 1 else ''''),
                    pf_region = (if given then parts ! 2 else ''''),
                    pf_contentType = contentType,
                    pf_successRedirect = get ''success_action_redirect'',
                    pf_successStatus = get ''success_action_status''\<rparr>
          in if given \<and> length parts \<noteq> 5 then Inl BadCredential
             else if pf_accessKey pf = '''' then Inl (PostAuth ErrMissingCredential)
             else if pf_signature pf = '''' then Inl (PostAuth ErrMissingSignature)
             else if pf_policyBase64 pf = '''' then Inl MissingPolicy
             else Inr pf)"

definition rfc3339Nano :: string where "rfc3339Nano = ''2006-01-02T15:04:05.999999999Z07:00''"
definition rfc3339 :: string where "rfc3339 = ''2006-01-02T15:04:05Z07:00''"

definition ParsePostPolicyDocument ::
  "('a) sig_lib_scheme \<Rightarrow> (string \<Rightarrow> (string \<times> json list) option) \<Rightarrow> string \<Rightarrow> post_error + post_doc" where
  "ParsePostPolicyDocument L decode policyBase64 =
     (case decode policyBase64 of
        None \<Rightarrow> Inl BadPolicyDocument
      | Some (expiration, conditions) \<Rightarrow>
          if expiration = '''' then Inr \<lparr>pp_expiration = 0, pp_conditions = conditions\<rparr>
          else (case (case gl_parse_time L rfc3339Nano expiration of
                        Some t \<Rightarrow> Some t | None \<Rightarrow> gl_parse_time L rfc3339 expiration) of
                  None \<Rightarrow> Inl BadExpiration
                | Some t \<Rightarrow> Inr \<lparr>pp_expiration = t, pp_conditions = conditions\<rparr>))"

definition VerifyPostPolicySignature ::
  "('a) sig_lib_scheme \<Rightarrow> post_form \<Rightarrow> string \<Rightarrow> post_error option" where
  "VerifyPostPolicySignature L form secretKey =
     (if pf_dateShort form = '''' \<or> pf_region form = '''' then Some MissingScope
      else if hex_encode (sl_hmac L (signing_key L secretKey (pf_dateShort form) (pf_region form))
                            (pf_policyBase64 form)) \<noteq> pf_signature form
      then Some (PostAuth ErrSignatureMismatch) else None)"

definition ValidatePostPolicyExpiration ::
  "('a) sig_lib_scheme \<Rightarrow> post_doc \<Rightarrow> post_error option" where
  "ValidatePostPolicyExpiration L doc =
     (if pp_expiration doc = 0 then None
      else if pp_expiration doc < gl_now L then Some (PostAuth ErrPresignedURLExpired)
      else None)"

section \<open>Conditions\<close>

definition isSkippedField :: "('a) sig_lib_scheme \<Rightarrow> string \<Rightarrow> bool" where
  "isSkippedField L field \<longleftrightarrow>
     sl_to_lower L (trim_prefix field ''$'') \<in>
       {''x-amz-algorithm'', ''x-amz-credential'', ''x-amz-date'', ''x-amz-signature'', ''policy''}"

definition resolveField :: "('a) sig_lib_scheme \<Rightarrow> string \<Rightarrow> string \<Rightarrow> string \<Rightarrow> string \<Rightarrow> string" where
  "resolveField L field bucket key contentType =
     (let f = sl_to_lower L (trim_prefix field ''$'')
      in if f = ''bucket'' then bucket
         else if f = ''key'' then key
         else if f = ''content-type'' then contentType
         else '''')"

definition checkEq ::
  "('a) sig_lib_scheme \<Rightarrow> string \<Rightarrow> string \<Rightarrow> string \<Rightarrow> string \<Rightarrow> string \<Rightarrow> post_error option" where
  "checkEq L field expected bucket key contentType =
     (if isSkippedField L field then None
      else if resolveField L field bucket key contentType \<noteq> expected then Some (ConditionFailed field)
      else None)"

definition checkStartsWith ::
  "('a) sig_lib_scheme \<Rightarrow> string \<Rightarrow> string \<Rightarrow> string \<Rightarrow> string \<Rightarrow> string \<Rightarrow> post_error option" where
  "checkStartsWith L field pre bucket key contentType =
     (if isSkippedField L field then None
      else if \<not> has_prefix (resolveField L field bucket key contentType) pre
      then Some (ConditionFailed field) else None)"

definition validate_post_field ::
  "('a) sig_lib_scheme \<Rightarrow> string \<Rightarrow> string \<Rightarrow> string \<Rightarrow> string \<times> string \<Rightarrow> post_error option" where
  "validate_post_field L bucket key contentType fv =
     (let field = sl_to_lower L (fst fv)
      in if field = ''bucket'' then (if bucket \<noteq> snd fv then Some (ConditionFailed field) else None)
         else if field = ''key'' then (if key \<noteq> snd fv then Some (ConditionFailed field) else None)
         else if field = ''content-type'' then
           (if contentType \<noteq> snd fv then Some (ConditionFailed field) else None)
         else None)"

definition validateObjectCondition ::
  "('a) sig_lib_scheme \<Rightarrow> (string \<times> string) list \<Rightarrow> string \<Rightarrow> string \<Rightarrow> string \<Rightarrow> post_error option" where
  "validateObjectCondition L cond bucket key contentType =
     first_err (\<lambda>i. validate_post_field L bucket key contentType) 0 cond"

definition validateArrayCondition ::
  "('a) sig_lib_scheme \<Rightarrow> json list \<Rightarrow> string \<Rightarrow> string \<Rightarrow> string \<Rightarrow> int \<Rightarrow> post_error option" where
  "validateArrayCondition L cond bucket key contentType contentLength =
     (if length cond < 2 then None
      else case json_string (cond ! 0) of
             None \<Rightarrow> Some BadCondition
           | Some opText \<Rightarrow>
               let oper = sl_to_lower L opText
               in if oper = ''eq'' \<or> oper = ''starts-with'' then
                    if length cond \<noteq> 3 then Some BadCondition
                    else (case (json_string (cond ! 1), json_string (cond ! 2)) of
                            (Some field, Some val) \<Rightarrow>
                              if oper = ''eq'' then checkEq L field val bucket key contentType
                              else checkStartsWith L field val bucket key contentType
                          | _ \<Rightarrow> Some BadCondition)
                  else if oper = ''content-length-range'' then
                    if length cond \<noteq> 3 then Some BadCondition
                    else (case (json_int64 (cond ! 1), json_int64 (cond ! 2)) of
                            (Some minSize, Some maxSize) \<Rightarrow>
                              if contentLength < minSize \<or> maxSize < contentLength
                              then Some (ConditionFailed oper) else None
                          | _ \<Rightarrow> Some BadCondition)
                  else None)"

definition validate_condition ::
  "('a) sig_lib_scheme \<Rightarrow> string \<Rightarrow> string \<Rightarrow> string \<Rightarrow> int \<Rightarrow> json \<Rightarrow> post_error option" where
  "validate_condition L bucket key contentType contentLength raw =
     (case json_list raw of
        Some arr \<Rightarrow> validateArrayCondition L arr bucket key contentType contentLength
      | None \<Rightarrow>
          (case json_string_map raw of
             Some obj \<Rightarrow> validateObjectCondition L obj bucket key contentType
           | None \<Rightarrow> None))"

definition ValidatePostPolicyConditions ::
  "('a) sig_lib_scheme \<Rightarrow> post_doc \<Rightarrow> string \<Rightarrow> string \<Rightarrow> string \<Rightarrow> int \<Rightarrow> post_error option" where
  "ValidatePostPolicyConditions L doc bucket key contentType contentLength =
     first_err (\<lambda>i. validate_condition L bucket key contentType contentLength) 0 (pp_conditions doc)"

end
