(* ===== verification/Authenticator.thy ===== *)
theory Authenticator
  imports PostPolicy MetadataIam
begin

text \<open>
  \<^verbatim>\<open>internal/http/auth/{auth,middleware,presign}.go\<close>: who a request is from. The metadata manager is
  the store of theory Metadata; its reads do not change it. The locks make each access to the root
  credentials one step. The middleware answers with an S3 error code, or passes the request on with
  what it put into the request context.
\<close>

section \<open>Root credentials\<close>

record authenticator =
  au_rootAccessKey :: string
  au_rootSecretKey :: string
  au_altRootAccessKey :: string
  au_altRootSecretKey :: string

definition NewAuthenticator :: "string \<Rightarrow> string \<Rightarrow> authenticator" where
  "NewAuthenticator rootAccessKey rootSecretKey =
     \<lparr>au_rootAccessKey = rootAccessKey, au_rootSecretKey = rootSecretKey,
      au_altRootAccessKey = '''', au_altRootSecretKey = ''''\<rparr>"

definition root_user :: "string \<Rightarrow> string \<Rightarrow> string \<Rightarrow> iam_user" where
  "root_user ak sk status =
     \<lparr>u_version = UserMetadataVersion, u_uuid = AdminUserUUID, u_username = ''admin'',
      u_accessKey = ak, u_secretKey = sk, u_status = status, u_updatedAt = 0,
      u_attachedPolicies = []\<rparr>"

definition RootUser :: "authenticator \<Rightarrow> iam_user" where
  "RootUser a = root_user (au_rootAccessKey a) (au_rootSecretKey a) UserStatusActive"

definition AltRootUser :: "authenticator \<Rightarrow> iam_user" where
  "AltRootUser a =
     root_user (au_altRootAccessKey a) (au_altRootSecretKey a)
       (if au_altRootAccessKey a \<noteq> '''' \<and> au_altRootSecretKey a \<noteq> '''' then UserStatusActive
        else UserStatusDisabled)"

definition isRootAdminKey :: "authenticator \<Rightarrow> string \<Rightarrow> bool" where
  "isRootAdminKey a accessKey \<longleftrightarrow>
     accessKey = au_rootAccessKey a \<or>
     (au_altRootAccessKey a \<noteq> '''' \<and> accessKey = au_altRootAccessKey a)"

definition UpdatePrimaryCredentials :: "string \<Rightarrow> string \<Rightarrow> authenticator \<Rightarrow> authenticator" where
  "UpdatePrimaryCredentials ak sk a = a\<lparr>au_rootAccessKey := ak, au_rootSecretKey := sk\<rparr>"

definition UpdateAltCredentials :: "string \<Rightarrow> string \<Rightarrow> authenticator \<Rightarrow> authenticator" where
  "UpdateAltCredentials ak sk a = a\<lparr>au_altRootAccessKey := ak, au_altRootSecretKey := sk\<rparr>"

definition ValidateCredentials ::
  "crypt_env \<Rightarrow> meta_store \<Rightarrow> authenticator \<Rightarrow> string \<Rightarrow> string \<Rightarrow> bool" where
  "ValidateCredentials C st a accessKey secretKey \<longleftrightarrow>
     (if accessKey = au_rootAccessKey a \<and> secretKey = au_rootSecretKey a then True
      else if au_altRootAccessKey a \<noteq> '''' \<and> accessKey = au_altRootAccessKey a \<and>
              secretKey = au_altRootSecretKey a then True
      else case GetUserByAccessKey C st accessKey of
             Inl _ \<Rightarrow> False
           | Inr user \<Rightarrow> u_secretKey user = secretKey \<and> user_status_is_active (u_status user))"

section \<open>Looking up the user of a key\<close>

definition sa_user :: "service_account \<Rightarrow> iam_user" where
  "sa_user sa =
     \<lparr>u_version = sa_version sa, u_uuid = sa_uuid sa, u_username = sa_username sa,
      u_accessKey = sa_accessKey sa, u_secretKey = sa_secretKey sa, u_status = sa_status sa,
      u_updatedAt = sa_updatedAt sa, u_attachedPolicies = []\<rparr>"

definition GetUserForAccessKey ::
  "crypt_env \<Rightarrow> meta_store \<Rightarrow> authenticator \<Rightarrow> time \<Rightarrow> string \<Rightarrow> auth_error + iam_user" where
  "GetUserForAccessKey C st a now accessKey =
     (if accessKey = au_rootAccessKey a then Inr (RootUser a)
      else if au_altRootAccessKey a \<noteq> '''' \<and> accessKey = au_altRootAccessKey a
      then Inr (AltRootUser a)
      else case GetUserByAccessKey C st accessKey of
             Inr user \<Rightarrow> Inr user
           | Inl ErrUserNotFound \<Rightarrow>
               (case GetServiceAccount C st accessKey of
                  Inl _ \<Rightarrow> Inl ErrAuthOther
                | Inr sa \<Rightarrow>
                    if (case sa_expiresAt sa of Some t \<Rightarrow> t < now | None \<Rightarrow> False)
                    then Inl ErrUserInactive else Inr (sa_user sa))
           | Inl _ \<Rightarrow> Inl ErrAuthOther)"

section \<open>Authenticating a request\<close>

definition AuthenticateRequest ::
  "('a) sig_lib_scheme \<Rightarrow> crypt_env \<Rightarrow> meta_store \<Rightarrow> authenticator \<Rightarrow> http_parts
     \<Rightarrow> auth_error + iam_user" where
  "AuthenticateRequest L C st a r =
     (case GetAccessKey r of
        Inl e \<Rightarrow> Inl (ErrAuthenticationFailed e)
      | Inr accessKey \<Rightarrow>
          (case GetUserForAccessKey C st a (gl_now L) accessKey of
             Inl e \<Rightarrow> Inl e
           | Inr user \<Rightarrow>
               if \<not> user_status_is_active (u_status user) then Inl ErrUserInactive
               else case VerifySignature L r (u_secretKey user) of
                      Some e \<Rightarrow> Inl e
                    | None \<Rightarrow> Inr user))"

definition AuthenticatePresignedRequest ::
  "('a) sig_lib_scheme \<Rightarrow> crypt_env \<Rightarrow> meta_store \<Rightarrow> authenticator \<Rightarrow> http_parts
     \<Rightarrow> auth_error + iam_user \<times> time" where
  "AuthenticatePresignedRequest L C st a r =
     (case GetAccessKeyFromPresignedURL r of
        Inl e \<Rightarrow> Inl (ErrAuthenticationFailed e)
      | Inr accessKey \<Rightarrow>
          (case GetUserForAccessKey C st a (gl_now L) accessKey of
             Inl e \<Rightarrow> Inl e
           | Inr user \<Rightarrow>
               if \<not> user_status_is_active (u_status user) then Inl ErrUserInactive
               else case VerifyPresignedSignature L r (u_secretKey user) of
                      Inl e \<Rightarrow> Inl e
                    | Inr expiresAt \<Rightarrow> Inr (user, expiresAt)))"

text \<open>A form error other than the ones the error mapping tells apart is \<open>ErrAuthOther\<close>.\<close>

fun post_auth_error :: "post_error \<Rightarrow> auth_error" where
  "post_auth_error (PostAuth e) = e"
| "post_auth_error _ = ErrAuthOther"

definition AuthenticatePostPolicyRequest ::
  "('a) sig_lib_scheme \<Rightarrow> (string \<Rightarrow> (string \<times> json list) option) \<Rightarrow> crypt_env \<Rightarrow> meta_store
     \<Rightarrow> authenticator \<Rightarrow> (string \<times> string list) list option
     \<Rightarrow> auth_error + iam_user \<times> post_form \<times> post_doc" where
  "AuthenticatePostPolicyRequest L decode C st a formValues =
     (case ParsePostPolicyForm formValues of
        Inl e \<Rightarrow> Inl (ErrAuthenticationFailed (post_auth_error e))
      | Inr form \<Rightarrow>
          (case ParsePostPolicyDocument L decode (pf_policyBase64 form) of
             Inl e \<Rightarrow> Inl (ErrAuthenticationFailed (post_auth_error e))
           | Inr doc \<Rightarrow>
               (case ValidatePostPolicyExpiration L doc of
                  Some e \<Rightarrow> Inl (post_auth_error e)
                | None \<Rightarrow>
                    (case GetUserForAccessKey C st a (gl_now L) (pf_accessKey form) of
                       Inl e \<Rightarrow> Inl e
                     | Inr user \<Rightarrow>
                         if \<not> user_status_is_active (u_status user) then Inl ErrUserInactive
                         else case VerifyPostPolicySignature L form (u_secretKey user) of
                                Some e \<Rightarrow> Inl (post_auth_error e)
                              | None \<Rightarrow> Inr (user, form, doc)))))"

section \<open>The middleware\<close>

datatype s3_code = CodeAccessDenied | CodeInvalidAccessKeyID | CodeSignatureDoesNotMatch

fun mapAuthErrCode :: "auth_error \<Rightarrow> s3_code" where
  "mapAuthErrCode ErrPresignedURLExpired = CodeAccessDenied"
| "mapAuthErrCode ErrMissingPresignedParams = CodeAccessDenied"
| "mapAuthErrCode (ErrAuthenticationFailed _) = CodeAccessDenied"
| "mapAuthErrCode ErrUserInactive = CodeAccessDenied"
| "mapAuthErrCode ErrAuthUserNotFound = CodeInvalidAccessKeyID"
| "mapAuthErrCode _ = CodeSignatureDoesNotMatch"

definition withSAContext ::
  "crypt_env \<Rightarrow> meta_store \<Rightarrow> authenticator \<Rightarrow> string \<Rightarrow> sa_info option" where
  "withSAContext C st a accessKey =
     (if isRootAdminKey a accessKey then None
      else case GetServiceAccount C st accessKey of
             Inl _ \<Rightarrow> None
           | Inr sa \<Rightarrow>
               Some \<lparr>si_parentUserUUID = sa_parentUserUUID sa, si_policyMode = sa_policyMode sa,
                     si_embeddedPolicyJSON = sa_embeddedPolicyJSON sa\<rparr>)"

text \<open>\<open>Authenticated\<close> carries the user and the service account information of the context and the
  policy of a form upload; \<open>Rejected\<close> the error code of the response.\<close>

datatype auth_outcome =
    Authenticated iam_user "sa_info option" "string option"
  | Anonymous
  | Rejected s3_code

definition handleHeaderAuth ::
  "('a) sig_lib_scheme \<Rightarrow> crypt_env \<Rightarrow> meta_store \<Rightarrow> authenticator \<Rightarrow> http_parts \<Rightarrow> auth_outcome option" where
  "handleHeaderAuth L C st a r =
     (if values_get (hp_header r) ''Authorization'' = '''' then None
      else case AuthenticateRequest L C st a r of
             Inl e \<Rightarrow> Some (Rejected (mapAuthErrCode e))
           | Inr user \<Rightarrow> Some (Authenticated user (withSAContext C st a (u_accessKey user)) None))"

definition handlePresignedAuth ::
  "('a) sig_lib_scheme \<Rightarrow> crypt_env \<Rightarrow> meta_store \<Rightarrow> authenticator \<Rightarrow> http_parts \<Rightarrow> auth_outcome option" where
  "handlePresignedAuth L C st a r =
     (if values_get (hp_query r) ''X-Amz-Algorithm'' = '''' then None
      else case AuthenticatePresignedRequest L C st a r of
             Inl e \<Rightarrow> Some (Rejected (mapAuthErrCode e))
           | Inr (user, _) \<Rightarrow>
               Some (Authenticated user (withSAContext C st a (u_accessKey user)) None))"

definition handlePostPolicyAuth ::
  "('a) sig_lib_scheme \<Rightarrow> (string \<Rightarrow> (string \<times> json list) option) \<Rightarrow> crypt_env \<Rightarrow> meta_store
     \<Rightarrow> authenticator \<Rightarrow> (string \<times> string list) list option \<Rightarrow> http_parts \<Rightarrow> auth_outcome option" where
  "handlePostPolicyAuth L decode C st a formValues r =
     (if hp_method r \<noteq> ''POST'' \<or>
         \<not> str_contains (values_get (hp_header r) ''Content-Type'') ''multipart/form-data'' then None
      else case AuthenticatePostPolicyRequest L decode C st a formValues of
             Inl e \<Rightarrow> Some (Rejected (mapAuthErrCode e))
           | Inr (user, form, _) \<Rightarrow>
               Some (Authenticated user (withSAContext C st a (u_accessKey user))
                       (Some (pf_policyBase64 form))))"

definition AuthMiddleware ::
  "('a) sig_lib_scheme \<Rightarrow> (string \<Rightarrow> (string \<times> json list) option) \<Rightarrow> crypt_env \<Rightarrow> meta_store
     \<Rightarrow> authenticator \<Rightarrow> (string \<times> string list) list option \<Rightarrow> http_parts \<Rightarrow> auth_outcome" where
  "AuthMiddleware L decode C st a formValues r =
     (case handleHeaderAuth L C st a r of
        Some out \<Rightarrow> out
      | None \<Rightarrow>
          (case handlePresignedAuth L C st a r of
             Some out \<Rightarrow> out
           | None \<Rightarrow>
               (case handlePostPolicyAuth L decode C st a formValues r of
                  Some out \<Rightarrow> out
                | None \<Rightarrow> Anonymous)))"

section \<open>Generating a pre-signed URL (presign.go)\<close>

text \<open>The path and the query of the generated URL; \<open>host\<close> is that of the parsed base URL, and
  \<open>escape_path\<close> is \<open>URL.EscapedPath\<close> of an unescaped path.\<close>

definition presign_params ::
  "('a) sig_lib_scheme \<Rightarrow> string \<Rightarrow> string \<Rightarrow> time \<Rightarrow> int \<Rightarrow> (string \<times> string list) list" where
  "presign_params L accessKey region now expirySeconds =
     [(''X-Amz-Algorithm'', [algorithmID]),
      (''X-Amz-Credential'', [accessKey @ ''/'' @ credential_scope L now region]),
      (''X-Amz-Date'', [sl_format_time L iso8601TimeFormat now]),
      (''X-Amz-Expires'', [show_int expirySeconds]),
      (''X-Amz-SignedHeaders'', [''host''])]"

definition generatePresignedURL ::
  "('a) sig_lib_scheme \<Rightarrow> (string \<Rightarrow> string) \<Rightarrow> string \<Rightarrow> string \<Rightarrow> string \<Rightarrow> string \<Rightarrow> string \<Rightarrow> string
     \<Rightarrow> string \<Rightarrow> int \<Rightarrow> time \<Rightarrow> auth_error + string \<times> (string \<times> string list) list" where
  "generatePresignedURL L escape_path accessKey secretKey region bucket key host meth expirySeconds now =
     (if expirySeconds < 1 \<or> 604800 < expirySeconds then Inl ErrInvalidExpiresValue
      else
        let objectPath = ''/'' @ bucket @ ''/'' @ key;
            authParams = presign_params L accessKey region now expirySeconds;
            syntheticReq = \<lparr>hp_method = meth, hp_escapedPath = escape_path objectPath,
                            hp_query = authParams, hp_header = [], hp_host = host\<rparr>;
            canonicalRequest = BuildCanonicalRequest L syntheticReq [''host''] ContentSHA256Unsigned;
            stringToSign = BuildStringToSign L now region canonicalRequest;
            sig = ComputeSignature L secretKey now region stringToSign
        in Inr (objectPath, authParams @ [(''X-Amz-Signature'', [sig])]))"

end
