(* ===== verification/AuthProps.thy ===== *)
theory AuthProps
  imports Authenticator MetadataProps Authz
begin

text \<open>
  What the authentication middleware lets through, alone and followed by the authorization
  middleware; the canonical request as a function of the request alone; and pre-signed URLs from
  their generation to their verification.
\<close>

section \<open>Signatures\<close>

text \<open>What a verified request shows: its signature is the one computed from the secret over the
  request's own method, path, query, headers and payload hash.\<close>

definition signed_with ::
  "('a) sig_lib_scheme \<Rightarrow> http_parts \<Rightarrow> string \<Rightarrow> credentials \<Rightarrow> time \<Rightarrow> string \<Rightarrow> bool" where
  "signed_with L r payloadHash creds timestamp secretKey \<longleftrightarrow>
     cr_signature creds =
       ComputeSignature L secretKey timestamp (cr_region creds)
         (BuildStringToSign L timestamp (cr_region creds)
           (BuildCanonicalRequest L r (cr_signedHeaders creds) payloadHash))"

definition payload_hash :: "http_parts \<Rightarrow> string" where
  "payload_hash r =
     (let h = values_get (hp_header r) ''X-Amz-Content-Sha256''
      in if h = '''' then ContentSHA256Unsigned else h)"

text \<open>The three ways to show the possession of the secret of an access key.\<close>

definition header_proof :: "('a) sig_lib_scheme \<Rightarrow> http_parts \<Rightarrow> string \<Rightarrow> string \<Rightarrow> bool" where
  "header_proof L r accessKey secretKey \<longleftrightarrow>
     (\<exists>creds timestamp.
        ParseAuthorizationHeader (values_get (hp_header r) ''Authorization'') = Inr creds \<and>
        cr_accessKey creds = accessKey \<and>
        gl_parse_time L iso8601TimeFormat (values_get (hp_header r) ''X-Amz-Date'') = Some timestamp \<and>
        signed_with L r (payload_hash r) creds timestamp secretKey)"

definition presigned_proof :: "('a) sig_lib_scheme \<Rightarrow> http_parts \<Rightarrow> string \<Rightarrow> string \<Rightarrow> bool" where
  "presigned_proof L r accessKey secretKey \<longleftrightarrow>
     (\<exists>creds timestamp expiresAt.
        ParsePresignedURLAuth L r = Inr (creds, expiresAt) \<and> cr_accessKey creds = accessKey \<and>
        gl_now L \<le> expiresAt \<and>
        gl_parse_time L iso8601TimeFormat (values_get (hp_query r) ''X-Amz-Date'') = Some timestamp \<and>
        signed_with L (without_signature r) ContentSHA256Unsigned creds timestamp secretKey)"

definition form_proof ::
  "('a) sig_lib_scheme \<Rightarrow> (string \<Rightarrow> (string \<times> json list) option)
     \<Rightarrow> (string \<times> string list) list option \<Rightarrow> string \<Rightarrow> string \<Rightarrow> bool" where
  "form_proof L decode form accessKey secretKey \<longleftrightarrow>
     (\<exists>f d. ParsePostPolicyForm form = Inr f \<and> pf_accessKey f = accessKey \<and>
        ParsePostPolicyDocument L decode (pf_policyBase64 f) = Inr d \<and>
        (pp_expiration d = 0 \<or> gl_now L \<le> pp_expiration d) \<and>
        pf_signature f =
          hex_encode (sl_hmac L (signing_key L secretKey (pf_dateShort f) (pf_region f)) (pf_policyBase64 f)))"

lemma VerifySignature_None:
  assumes "GetAccessKey r = Inr ak" "VerifySignature L r secretKey = None"
  shows "header_proof L r ak secretKey"
  using assms unfolding header_proof_def
  by (auto simp: VerifySignature_def GetAccessKey_def Let_def signed_with_def payload_hash_def
      split: sum.splits option.splits if_splits)

lemma presigned_key:
  "ParsePresignedURLAuth L r = Inr (creds, t) \<Longrightarrow> GetAccessKeyFromPresignedURL r = Inr (cr_accessKey creds)"
  by (auto simp: ParsePresignedURLAuth_def GetAccessKeyFromPresignedURL_def Let_def
      split: if_splits option.splits)

lemma VerifyPresigned_Inr:
  assumes "GetAccessKeyFromPresignedURL r = Inr ak" "VerifyPresignedSignature L r secretKey = Inr expiresAt"
  shows "presigned_proof L r ak secretKey"
proof -
  obtain creds where p: "ParsePresignedURLAuth L r = Inr (creds, expiresAt)" "gl_now L \<le> expiresAt"
    "\<exists>timestamp. gl_parse_time L iso8601TimeFormat (values_get (hp_query r) ''X-Amz-Date'') = Some timestamp \<and>
       signed_with L (without_signature r) ContentSHA256Unsigned creds timestamp secretKey"
    using assms(2)
    by (auto simp: VerifyPresignedSignature_def Let_def signed_with_def
        split: sum.splits option.splits if_splits)
  moreover have "cr_accessKey creds = ak" using presigned_key[OF p(1)] assms(1) by simp
  ultimately show ?thesis unfolding presigned_proof_def by blast
qed

definition proves_secret ::
  "('a) sig_lib_scheme \<Rightarrow> (string \<Rightarrow> (string \<times> json list) option)
     \<Rightarrow> (string \<times> string list) list option \<Rightarrow> http_parts \<Rightarrow> string \<Rightarrow> string \<Rightarrow> bool" where
  "proves_secret L decode form r accessKey secretKey \<longleftrightarrow>
     header_proof L r accessKey secretKey \<or> presigned_proof L r accessKey secretKey \<or>
     form_proof L decode form accessKey secretKey"

lemma AuthMiddleware_Authenticated:
  assumes "AuthMiddleware L decode C st a form r = Authenticated u sa pol"
  shows "\<exists>ak. GetUserForAccessKey C st a (gl_now L) ak = Inr u \<and> user_status_is_active (u_status u) \<and>
    proves_secret L decode form r ak (u_secretKey u) \<and> sa = withSAContext C st a (u_accessKey u)"
proof -
  consider "handleHeaderAuth L C st a r = Some (Authenticated u sa pol)"
    | "handlePresignedAuth L C st a r = Some (Authenticated u sa pol)"
    | "handlePostPolicyAuth L decode C st a form r = Some (Authenticated u sa pol)"
    using assms by (auto simp: AuthMiddleware_def split: option.splits)
  then show ?thesis
  proof cases
    case 1
    then have "AuthenticateRequest L C st a r = Inr u" "sa = withSAContext C st a (u_accessKey u)"
      by (auto simp: handleHeaderAuth_def split: if_splits sum.splits)
    then obtain ak where "GetAccessKey r = Inr ak" "GetUserForAccessKey C st a (gl_now L) ak = Inr u"
      "user_status_is_active (u_status u)" "VerifySignature L r (u_secretKey u) = None"
      and sa: "sa = withSAContext C st a (u_accessKey u)"
      by (auto simp: AuthenticateRequest_def split: sum.splits if_splits option.splits)
    then show ?thesis using VerifySignature_None unfolding proves_secret_def by blast
  next
    case 2
    then obtain t where p: "AuthenticatePresignedRequest L C st a r = Inr (u, t)"
      and sa: "sa = withSAContext C st a (u_accessKey u)"
      by (auto simp: handlePresignedAuth_def split: if_splits sum.splits)
    then obtain ak where "GetAccessKeyFromPresignedURL r = Inr ak"
      "GetUserForAccessKey C st a (gl_now L) ak = Inr u" "user_status_is_active (u_status u)"
      "VerifyPresignedSignature L r (u_secretKey u) = Inr t"
      by (auto simp: AuthenticatePresignedRequest_def split: sum.splits if_splits)
    then show ?thesis using sa VerifyPresigned_Inr unfolding proves_secret_def by blast
  next
    case 3
    then obtain f d where "AuthenticatePostPolicyRequest L decode C st a form = Inr (u, f, d)"
      "sa = withSAContext C st a (u_accessKey u)"
      by (auto simp: handlePostPolicyAuth_def split: if_splits sum.splits)
    then show ?thesis
      by (auto simp: AuthenticatePostPolicyRequest_def proves_secret_def form_proof_def
          ValidatePostPolicyExpiration_def VerifyPostPolicySignature_def
          split: sum.splits if_splits option.splits)
  qed
qed

lemma AuthMiddleware_Anonymous:
  assumes "AuthMiddleware L decode C st a form r = Anonymous"
  shows "values_get (hp_header r) ''Authorization'' = ''''" "values_get (hp_query r) ''X-Amz-Algorithm'' = ''''"
  using assms
  by (auto simp: AuthMiddleware_def handleHeaderAuth_def handlePresignedAuth_def handlePostPolicyAuth_def
      split: option.splits if_splits sum.splits)

section \<open>Who a key belongs to\<close>

text \<open>No user of the store has a root key, and service accounts are stored under their own key.\<close>

definition keys_separate :: "authenticator \<Rightarrow> meta_store \<Rightarrow> bool" where
  "keys_separate a st \<longleftrightarrow>
     (\<forall>uid u. map_of (ms_users st) uid = Some u \<longrightarrow> \<not> isRootAdminKey a (u_accessKey u)) \<and>
     (\<forall>k sa. map_of (ms_serviceAccounts st) k = Some sa \<longrightarrow> sa_accessKey sa = k)"

lemma root_key_user:
  assumes "keys_separate a st" "GetUserForAccessKey C st a now ak = Inr u" "isRootAdminKey a (u_accessKey u)"
  shows "u = RootUser a \<or> u = AltRootUser a"
proof (rule ccontr)
  assume no: "\<not> (u = RootUser a \<or> u = AltRootUser a)"
  have ak: "\<not> isRootAdminKey a ak"
    using assms(2) no by (auto simp: GetUserForAccessKey_def isRootAdminKey_def split: if_splits)
  have "\<not> isRootAdminKey a (u_accessKey u)"
  proof (cases "GetUserByAccessKey C st ak")
    case (Inr u')
    with assms(2) ak have "u' = u"
      by (auto simp: GetUserForAccessKey_def isRootAdminKey_def split: if_splits)
    with Inr obtain uid u0 where "map_of (ms_users st) uid = Some u0" "u_accessKey u0 = u_accessKey u"
      by (auto simp: GetUserByAccessKey_def GetUser_def split: option.splits sum.splits)
    with assms(1) show ?thesis unfolding keys_separate_def by metis
  next
    case (Inl e)
    with assms(2) ak obtain sa where sa: "GetServiceAccount C st ak = Inr sa" "u = sa_user sa"
      by (auto simp: GetUserForAccessKey_def isRootAdminKey_def
          split: if_splits meta_error.splits sum.splits)
    then have "u_accessKey u = ak"
      using assms(1) by (auto simp: GetServiceAccount_def keys_separate_def sa_user_def
          split: option.splits sum.splits)
    with ak show ?thesis by simp
  qed
  with assms(3) show False by simp
qed

section \<open>Both middlewares\<close>

text \<open>What the authorization middleware finds in the context that the authentication middleware
  leaves.\<close>

definition with_identity :: "auth_outcome \<Rightarrow> http_request \<Rightarrow> http_request" where
  "with_identity out r =
     (case out of
        Authenticated u sa pol \<Rightarrow> r\<lparr>r_user := Some u, r_anonymous := False, r_saInfo := sa\<rparr>
      | _ \<Rightarrow> r\<lparr>r_user := None, r_anonymous := True, r_saInfo := None\<rparr>)"

definition s3_middlewares ::
  "('a) sig_lib_scheme \<Rightarrow> (string \<Rightarrow> (string \<times> json list) option) \<Rightarrow> crypt_env \<Rightarrow> meta_store
     \<Rightarrow> authenticator \<Rightarrow> (string \<Rightarrow> policy_document option) \<Rightarrow> engine \<Rightarrow> owner_lookup option
     \<Rightarrow> golib \<Rightarrow> (string \<times> string list) list option \<Rightarrow> http_parts \<Rightarrow> http_request
     \<Rightarrow> (s3_code + authz_outcome) option" where
  "s3_middlewares L decode C st a unm e mgr G form parts r =
     (case AuthMiddleware L decode C st a form parts of
        Rejected code \<Rightarrow> Some (Inl code)
      | out \<Rightarrow>
          map_option Inr (AuthorizationMiddleware G unm e mgr
            \<lparr>ak_primary = au_rootAccessKey a, ak_alt = au_altRootAccessKey a\<rparr> (with_identity out r)))"

text \<open>End to end: a request that reaches an S3 handler either proves the possession of a root
  secret, or the policy engine allows the permission of the route for the principal it has; that
  principal is anonymous only if the request carries no credentials, and otherwise an active user
  whose secret the request's signature was computed with. (The store must not give a root key to a
  user.)\<close>

theorem s3_access_sound:
  assumes "s3_middlewares L decode C st a unm e mgr G form parts r = Some (Inr (Next lg dec))"
    and "s3_route r" "keys_separate a st"
  shows
    "let out = AuthMiddleware L decode C st a form parts; r' = with_identity out r;
         p = build_principal r' \<lparr>ak_primary = au_rootAccessKey a, ak_alt = au_altRootAccessKey a\<rparr>
     in (case out of
           Authenticated u sa pol \<Rightarrow>
             user_status_is_active (u_status u) \<and> (\<exists>ak. proves_secret L decode form parts ak (u_secretKey u)) \<and>
             (pr_isAdmin p \<longrightarrow> u = RootUser a \<or> u = AltRootUser a)
         | Anonymous \<Rightarrow>
             values_get (hp_header parts) ''Authorization'' = '''' \<and>
             values_get (hp_query parts) ''X-Amz-Algorithm'' = '''' \<and> \<not> pr_isAdmin p
         | Rejected code \<Rightarrow> False) \<and>
        (pr_isAdmin p \<or>
         (if IsMultiResourceAction (r_action r)
          then \<exists>sb sk. parseCopySource r' = (sb, sk) \<and> sb \<noteq> '''' \<and>
                 permitted G unm e mgr p r' ''s3:GetObject'' sb sk \<and>
                 permitted G unm e mgr p r' ''s3:PutObject'' (r_bucket r) (r_key r)
          else permitted G unm e mgr p r' (hd (GetRequiredPermissions (r_action r)))
                 (r_bucket r) (r_key r)))"
proof -
  let ?keys = "\<lparr>ak_primary = au_rootAccessKey a, ak_alt = au_altRootAccessKey a\<rparr>"
  let ?out = "AuthMiddleware L decode C st a form parts"
  let ?r = "with_identity ?out r"
  have r: "r_action ?r = r_action r" "r_bucket ?r = r_bucket r" "r_key ?r = r_key r" "s3_route ?r = s3_route r"
    by (simp_all add: with_identity_def s3_route_def split: auth_outcome.splits)
  have nrej: "\<And>code. ?out \<noteq> Rejected code"
    and az: "AuthorizationMiddleware G unm e mgr ?keys ?r = Some (Next lg dec)"
    using assms(1) by (auto simp: s3_middlewares_def split: auth_outcome.splits)
  note allowed = middleware_next[OF az, unfolded r Let_def, OF assms(2)]
  have ident: "case ?out of
      Authenticated u sa pol \<Rightarrow>
        user_status_is_active (u_status u) \<and> (\<exists>ak. proves_secret L decode form parts ak (u_secretKey u)) \<and>
        (pr_isAdmin (build_principal ?r ?keys) \<longrightarrow> u = RootUser a \<or> u = AltRootUser a)
    | Anonymous \<Rightarrow>
        values_get (hp_header parts) ''Authorization'' = '''' \<and>
        values_get (hp_query parts) ''X-Amz-Algorithm'' = '''' \<and> \<not> pr_isAdmin (build_principal ?r ?keys)
    | Rejected code \<Rightarrow> False"
  proof (cases ?out)
    case (Authenticated u sa pol)
    obtain ak where ak: "GetUserForAccessKey C st a (gl_now L) ak = Inr u" "user_status_is_active (u_status u)"
      "proves_secret L decode form parts ak (u_secretKey u)"
      using AuthMiddleware_Authenticated[OF Authenticated] by blast
    have "u = RootUser a \<or> u = AltRootUser a" if "pr_isAdmin (build_principal ?r ?keys)"
      by (rule root_key_user[OF assms(3) ak(1)])
        (use that in \<open>auto simp: Authenticated with_identity_def build_principal_def isAdmin_def
          isRootAdminKey_def Let_def split: option.splits\<close>)
    with ak Authenticated show ?thesis by auto
  next
    case Anonymous
    have "\<not> pr_isAdmin (build_principal ?r ?keys)"
      by (simp add: Anonymous with_identity_def build_principal_def isAdmin_def)
    with AuthMiddleware_Anonymous[OF Anonymous] Anonymous show ?thesis by simp
  next
    case (Rejected code)
    with nrej show ?thesis by blast
  qed
  from ident allowed show ?thesis unfolding Let_def by blast
qed

section \<open>Deleted users\<close>

lemma deleted_user_lookup:
  assumes "map_of (ms_byAccessKey st) k = Some uid" "\<not> isRootAdminKey a k"
    and "map_of (ms_serviceAccounts st) k = None"
  shows "GetUserForAccessKey C (MetaDeleteUser C uid st) a now k = Inl ErrAuthOther"
proof -
  let ?st = "MetaDeleteUser C uid st"
  have user: "GetUser C ?st uid = Inl ErrUserNotFound"
    by (auto simp: MetaDeleteUser_def GetUser_def Let_def split: sum.splits option.splits)
  have "map_of (ms_byAccessKey ?st) k \<in> {None, Some uid}"
    using assms(1) by (auto simp: MetaDeleteUser_def Let_def split: sum.splits)
  with user have "GetUserByAccessKey C ?st k = Inl ErrUserNotFound"
    by (auto simp: GetUserByAccessKey_def)
  moreover have "GetServiceAccount C ?st k = Inl ErrServiceAccountNotFound"
    using assms(3) by (auto simp: GetServiceAccount_def MetaDeleteUser_def Let_def split: sum.splits)
  ultimately show ?thesis
    using assms(2) by (simp add: GetUserForAccessKey_def isRootAdminKey_def)
qed

text \<open>A deleted user is locked out at once: after \<open>DeleteUser\<close> a request signed or pre-signed under
  any access key that led to the user is rejected, whatever its signature. The error code is
  \<open>SignatureDoesNotMatch\<close>, not \<open>InvalidAccessKeyId\<close>: the manager's and the authenticator's
  user-not-found errors are different values, and the mapping knows only the second.\<close>

theorem deleted_user_refused:
  assumes "map_of (ms_byAccessKey st) k = Some uid" "\<not> isRootAdminKey a k"
    and "map_of (ms_serviceAccounts st) k = None"
    and "(if values_get (hp_header r) ''Authorization'' \<noteq> '''' then GetAccessKey r = Inr k
          else values_get (hp_query r) ''X-Amz-Algorithm'' \<noteq> '''' \<and> GetAccessKeyFromPresignedURL r = Inr k)"
  shows "AuthMiddleware L decode C (MetaDeleteUser C uid st) a form r = Rejected CodeSignatureDoesNotMatch"
  using assms(4) deleted_user_lookup[OF assms(1-3)]
  by (auto simp: AuthMiddleware_def handleHeaderAuth_def handlePresignedAuth_def AuthenticateRequest_def
      AuthenticatePresignedRequest_def split: if_splits)

section \<open>The canonical request\<close>

lemma sort_cong_mset: "mset xs = mset ys \<Longrightarrow> sort xs = sort ys"
  by (rule properties_for_sort) simp_all

lemma mset_map_filter_cong: "mset xs = mset ys \<Longrightarrow> mset (List.map_filter f xs) = mset (List.map_filter f ys)"
  unfolding List.map_filter_def by (simp add: mset_filter)

lemma query_string_perm:
  assumes "distinct (map fst q)" "mset q = mset q'"
  shows "buildCanonicalQueryString q = buildCanonicalQueryString q'"
proof -
  have keys: "mset (map fst q) = mset (map fst q')" using assms(2) by simp
  then have "distinct (map fst q')" using assms(1) mset_eq_imp_distinct_iff by blast
  with assms have "map_of q = map_of q'"
    by (intro map_of_inject_set[THEN iffD2]) (auto dest: mset_eq_setD)
  with sort_cong_mset[OF keys] show ?thesis by (simp add: buildCanonicalQueryString_def)
qed

lemma canonical_headers_perm:
  assumes "mset h = mset h'" "mset sh = mset sh'"
  shows "buildCanonicalHeaders L h sh host = buildCanonicalHeaders L h' sh' host"
proof -
  let ?s = "set (map (sl_to_lower L) sh)"
  have s: "set (map (sl_to_lower L) sh') = ?s" using mset_eq_setD[OF assms(2)] by simp
  have m: "mset (header_lines L ?s h) = mset (header_lines L ?s h')"
    unfolding header_lines_def by (rule mset_map_filter_cong[OF assms(1)])
  then have e: "list_ex P (header_lines L ?s h) = list_ex P (header_lines L ?s h')" for P
    unfolding list_ex_iff by (auto dest: mset_eq_setD)
  have "sort (if b then header_lines L ?s h @ xs else header_lines L ?s h) =
        sort (if b then header_lines L ?s h' @ xs else header_lines L ?s h')" for b xs
    using m by (intro sort_cong_mset) simp
  then show ?thesis unfolding buildCanonicalHeaders_def Let_def s e by simp
qed

text \<open>The string that is signed does not depend on the order in which Go iterates over the query
  and the headers, nor on the order in which the client lists the signed headers.\<close>

theorem canonical_order_independent:
  assumes "distinct (map fst (hp_query r))"
    and "mset q = mset (hp_query r)" "mset h = mset (hp_header r)" "mset sh' = mset sh"
  shows "BuildCanonicalRequest L (r\<lparr>hp_query := q, hp_header := h\<rparr>) sh' payloadHash =
    BuildCanonicalRequest L r sh payloadHash"
proof -
  have "buildCanonicalQueryString q = buildCanonicalQueryString (hp_query r)"
    using query_string_perm[OF assms(1)] assms(2) by metis
  with canonical_headers_perm[OF assms(3,4)] sort_cong_mset[OF assms(4)] show ?thesis
    by (simp add: BuildCanonicalRequest_def)
qed

section \<open>Pre-signed URLs\<close>

text \<open>What is relied on of \<^verbatim>\<open>time.Format\<close> and \<^verbatim>\<open>time.Parse\<close> with the two layouts: they drop the fraction
  of a second and nothing else, and a formatted date has no slash. \<open>strings.ToLower\<close> keeps \<open>host\<close>; an
  HMAC is not empty.\<close>

definition whole_second :: "time \<Rightarrow> time" where
  "whole_second t = t - t mod 1000000000"

definition sig_laws :: "('a) sig_lib_scheme \<Rightarrow> bool" where
  "sig_laws L \<longleftrightarrow>
     (\<forall>t. gl_parse_time L iso8601TimeFormat (sl_format_time L iso8601TimeFormat t) = Some (whole_second t)) \<and>
     (\<forall>t. sl_format_time L iso8601TimeFormat (whole_second t) = sl_format_time L iso8601TimeFormat t) \<and>
     (\<forall>t. sl_format_time L shortDateFormat (whole_second t) = sl_format_time L shortDateFormat t) \<and>
     (\<forall>t. sl_format_time L iso8601TimeFormat t \<noteq> '''') \<and>
     (\<forall>t. CHR ''/'' \<notin> set (sl_format_time L shortDateFormat t)) \<and>
     sl_to_lower L ''host'' = ''host'' \<and> (\<forall>k d. sl_hmac L k d \<noteq> '''')"

lemma is_digit_char: "d < 10 \<Longrightarrow> CHR ''0'' \<le> digit_char d \<and> digit_char d \<le> CHR ''9'' \<and> digit_val (digit_char d) = int d"
proof -
  assume "d < 10"
  then have "d \<in> {0, 1, 2, 3, 4, 5, 6, 7, 8, 9}" by auto
  then show ?thesis
    by (elim insertE emptyE) (simp_all add: digit_char_def digit_val_def less_eq_char_def)
qed

lemma show_nat_digits:
  "list_all (\<lambda>c. CHR ''0'' \<le> c \<and> c \<le> CHR ''9'') (show_nat n) \<and> show_nat n \<noteq> '''' \<and>
     foldl (\<lambda>m c. 10 * m + digit_val c) 0 (show_nat n) = int n"
proof (induction n rule: show_nat.induct)
  case (1 n)
  show ?case
  proof (cases "n < 10")
    case True
    then show ?thesis by (subst (1 2 3) show_nat.simps) (simp add: is_digit_char)
  next
    case False
    note IH = 1[OF False]
    have "10 * int (n div 10) + int (n mod 10) = int n" by presburger
    with IH False show ?thesis
      by (subst (1 2 3) show_nat.simps) (simp add: is_digit_char)
  qed
qed

lemma trim_left_none:
  assumes "\<forall>w\<in>set ws. \<not> has_prefix s w"
  shows "trim_left n ws s = s"
proof -
  have "find (\<lambda>w. has_prefix s w) ws = None" using assms by (simp add: find_None_iff)
  then show ?thesis by (cases n) simp_all
qed

lemma white_space_first: "w \<in> set white_space \<Longrightarrow> \<exists>c cs. w = c # cs \<and> \<not> (CHR ''0'' \<le> c \<and> c \<le> CHR ''9'')"
  by (auto simp: white_space_def less_eq_char_def of_char_of)

lemma sscanf_show_int:
  assumes "0 \<le> n" "n < 2 ^ 63"
  shows "sscanf_d (show_int n) = Some n"
proof -
  note d = show_nat_digits[of "nat n"]
  obtain c cs where s: "show_nat (nat n) = c # cs" and c: "CHR ''0'' \<le> c \<and> c \<le> CHR ''9''"
    using d by (cases "show_nat (nat n)") auto
  have "\<not> has_prefix (show_nat (nat n)) w" if "w \<in> set white_space" for w
    using white_space_first[OF that] c by (auto simp: s has_prefix_def)
  then have t: "trim_left m (removeAll [CHR 0x0A] white_space) (show_nat (nat n)) = show_nat (nat n)" for m
    by (intro trim_left_none) simp
  have sign: "\<not> has_prefix (show_nat (nat n)) ''-''" "\<not> has_prefix (show_nat (nat n)) ''+''"
    using c by (auto simp: s has_prefix_def less_eq_char_def)
  have tw: "takeWhile (\<lambda>c. CHR ''0'' \<le> c \<and> c \<le> CHR ''9'') (show_nat (nat n)) = show_nat (nat n)"
    using d by (simp add: list_all_iff)
  show ?thesis using d assms by (simp add: sscanf_d_def show_int_def Let_def t sign tw)
qed

lemma presign_params_get:
  "values_get (presign_params L ak region now n @ [(''X-Amz-Signature'', [sig])]) ''X-Amz-Algorithm'' = algorithmID"
  "values_get (presign_params L ak region now n @ [(''X-Amz-Signature'', [sig])]) ''X-Amz-Credential'' =
     ak @ ''/'' @ credential_scope L now region"
  "values_get (presign_params L ak region now n @ [(''X-Amz-Signature'', [sig])]) ''X-Amz-Date'' =
     sl_format_time L iso8601TimeFormat now"
  "values_get (presign_params L ak region now n @ [(''X-Amz-Signature'', [sig])]) ''X-Amz-Expires'' = show_int n"
  "values_get (presign_params L ak region now n @ [(''X-Amz-Signature'', [sig])]) ''X-Amz-SignedHeaders'' = ''host''"
  "values_get (presign_params L ak region now n @ [(''X-Amz-Signature'', [sig])]) ''X-Amz-Signature'' = sig"
  "filter (\<lambda>(k, _). k \<noteq> ''X-Amz-Signature'') (presign_params L ak region now n) =
     presign_params L ak region now n"
  by (simp_all add: values_get_def presign_params_def)

lemma presign_credential:
  assumes "sig_laws L" "CHR ''/'' \<notin> set ak" "CHR ''/'' \<notin> set region"
  shows "str_split (ak @ ''/'' @ credential_scope L now region) ''/'' =
    [ak, sl_format_time L shortDateFormat now, region, serviceName, requestType]"
proof -
  have "CHR ''/'' \<notin> set serviceName" "CHR ''/'' \<notin> set requestType"
    by (simp_all add: serviceName_def requestType_def)
  moreover have "CHR ''/'' \<notin> set (sl_format_time L shortDateFormat now)"
    using assms(1) by (simp add: sig_laws_def)
  ultimately have "str_split (str_join ''/'' [ak, sl_format_time L shortDateFormat now, region, serviceName, requestType]) ''/'' =
    [ak, sl_format_time L shortDateFormat now, region, serviceName, requestType]"
    using assms(2,3) by (intro str_split_join_char) auto
  then show ?thesis by (simp add: credential_scope_def)
qed

lemma string_to_sign_whole:
  assumes "sig_laws L"
  shows "BuildStringToSign L (whole_second t) region cr = BuildStringToSign L t region cr"
    and "ComputeSignature L sk (whole_second t) region s = ComputeSignature L sk t region s"
  using assms by (simp_all add: BuildStringToSign_def ComputeSignature_def credential_scope_def sig_laws_def)

lemma hex_encode_ne: "s \<noteq> '''' \<Longrightarrow> hex_encode s \<noteq> ''''"
  by (cases s) (simp_all add: hex_encode_def bytes_def)

lemma header_lines_none:
  "\<forall>kv\<in>set h. sl_to_lower L (fst kv) \<noteq> ''host'' \<Longrightarrow> header_lines L {''host''} h = []"
  by (induction h) (auto simp: header_lines_def List.map_filter_def split: prod.splits)

lemma verify_presigned:
  assumes "sig_laws L" "CHR ''/'' \<notin> set ak" "CHR ''/'' \<notin> set region"
    and "generatePresignedURL L esc ak sk region bucket key host meth seconds now = Inr (path, q)"
    and "hp_method r = meth" "hp_escapedPath r = esc path" "hp_query r = q" "hp_host r = host"
    and "\<forall>kv\<in>set (hp_header r). sl_to_lower L (fst kv) \<noteq> ''host''"
  defines "expires \<equiv> whole_second now + seconds * 1000000000"
  shows "VerifyPresignedSignature (L\<lparr>gl_now := now'\<rparr>) r sk =
    (if expires < now' then Inl ErrPresignedURLExpired else Inr expires)"
proof -
  let ?L = "L\<lparr>gl_now := now'\<rparr>"
  have L: "gl_parse_time ?L = gl_parse_time L" "gl_now ?L = now'"
    "BuildCanonicalRequest ?L = BuildCanonicalRequest L" "BuildStringToSign ?L = BuildStringToSign L"
    "ComputeSignature ?L = ComputeSignature L"
    by (auto simp: fun_eq_iff BuildCanonicalRequest_def buildCanonicalHeaders_def header_lines_def
        BuildStringToSign_def ComputeSignature_def credential_scope_def hashSHA256_def signing_key_def Let_def)
  define params where "params = presign_params L ak region now seconds"
  define creq where "creq = BuildCanonicalRequest L \<lparr>hp_method = meth, hp_escapedPath = esc path,
    hp_query = params, hp_header = [], hp_host = host\<rparr> [''host''] ContentSHA256Unsigned"
  define sig where "sig = ComputeSignature L sk now region (BuildStringToSign L now region creq)"
  have s: "\<not> (seconds < 1 \<or> 604800 < seconds)" and q: "q = params @ [(''X-Amz-Signature'', [sig])]"
    using assms(4) by (auto simp: generatePresignedURL_def params_def sig_def creq_def Let_def split: if_splits)
  have canon: "BuildCanonicalRequest L (without_signature r) [''host''] ContentSHA256Unsigned = creq"
    using assms(1,5-8) header_lines_none[OF assms(9)]
    by (simp add: creq_def BuildCanonicalRequest_def without_signature_def q params_def presign_params_get
        buildCanonicalHeaders_def sig_laws_def header_lines_def List.map_filter_def)
  have expiry: "sscanf_d (show_int seconds) = Some seconds" "show_int seconds \<noteq> ''''"
    using s show_nat_digits[of "nat seconds"] sscanf_show_int[of seconds] by (simp_all add: show_int_def)
  have t: "gl_parse_time L iso8601TimeFormat (sl_format_time L iso8601TimeFormat now) = Some (whole_second now)"
    "sl_format_time L iso8601TimeFormat now \<noteq> ''''"
    using assms(1) by (simp_all add: sig_laws_def)
  have "sig \<noteq> ''''" using assms(1) hex_encode_ne by (simp add: sig_def ComputeSignature_def sig_laws_def)
  moreover have "str_split ''host'' '';'' = [''host'']" by (simp add: str_split_char_no)
  ultimately have parse: "ParsePresignedURLAuth ?L r = Inr (\<lparr>cr_accessKey = ak,
      cr_date = sl_format_time L shortDateFormat now, cr_region = region, cr_service = serviceName,
      cr_signedHeaders = [''host''], cr_signature = sig\<rparr>, expires)"
    using s expiry t presign_credential[OF assms(1-3), of now]
    by (simp add: ParsePresignedURLAuth_def L assms(7) q params_def presign_params_get Let_def expires_def)
  show ?thesis
    unfolding VerifyPresignedSignature_def parse L
    by (simp add: assms(7) q params_def presign_params_get t Let_def string_to_sign_whole[OF assms(1)] canon
        sig_def not_less)
qed



section \<open>Instances\<close>

lemma ex_sig_simps [simp]:
  "gl_now ex_sig = 1" "gl_parse_time ex_sig = parse_unary_time" "sl_format_time ex_sig = unary_time"
  "sl_to_lower ex_sig = (\<lambda>s. s)" "sl_hmac ex_sig = (\<lambda>_ _. ''k'')"
  by (simp_all add: ex_sig_def)

lemma ex_sig_laws: "sig_laws ex_sig"
proof -
  have s: "whole_second t = (t div 1000000000) * 1000000000" for t
    by (simp add: whole_second_def minus_mod_eq_div_mult)
  have neg: "(t div 1000000000) * 1000000000 < 0 \<longleftrightarrow> t < 0" for t :: int
    by (simp add: mult_less_0_iff pos_imp_zdiv_neg_iff)
  have "parse_unary_time l (unary_time l t) = Some (whole_second t)" for l t
    by (auto simp: parse_unary_time_def unary_time_def s)
  moreover have "unary_time l (whole_second t) = unary_time l t" for l t
    by (simp add: unary_time_def s neg)
  moreover have "CHR ''/'' \<notin> set (unary_time l t)" "unary_time l t \<noteq> ''''" for l t
    by (auto simp: unary_time_def)
  ultimately show ?thesis by (simp add: sig_laws_def)
qed

definition ex_presigned :: "string \<times> (string \<times> string list) list" where
  "ex_presigned = projr (generatePresignedURL ex_sig (\<lambda>p. p) ''AK'' ''SK'' ''us'' ''b'' ''k'' ''h'' ''GET'' 60 5)"

lemma ex_presigned_made:
  "generatePresignedURL ex_sig (\<lambda>p. p) ''AK'' ''SK'' ''us'' ''b'' ''k'' ''h'' ''GET'' 60 5 =
     Inr (fst ex_presigned, snd ex_presigned)"
  by (simp add: ex_presigned_def generatePresignedURL_def Let_def)

definition ex_parts :: http_parts where
  "ex_parts = \<lparr>hp_method = ''GET'', hp_escapedPath = fst ex_presigned, hp_query = snd ex_presigned,
     hp_header = [], hp_host = ''h''\<rparr>"


theorem canonical_order_independent_witness:
  "BuildCanonicalRequest ex_sig (ex_parts\<lparr>hp_query := rev (snd ex_presigned), hp_header := []\<rparr>)
     [''x-amz-date'', ''host''] ContentSHA256Unsigned =
   BuildCanonicalRequest ex_sig ex_parts [''host'', ''x-amz-date''] ContentSHA256Unsigned"
proof (rule canonical_order_independent)
  show "distinct (map fst (hp_query ex_parts))"
    by (simp add: ex_parts_def ex_presigned_def generatePresignedURL_def presign_params_def Let_def)
qed (simp_all add: ex_parts_def add_mset_commute)

lemma ex_parts_get:
  "values_get (hp_header ex_parts) h = ''''" "values_get (hp_query ex_parts) ''X-Amz-Algorithm'' \<noteq> ''''"
  "values_get (hp_query ex_parts) ''X-Amz-Credential'' = ''AK'' @ ''/'' @ credential_scope ex_sig 5 ''us''"
  by (simp_all add: ex_parts_def values_get_def[of "[]"] ex_presigned_def generatePresignedURL_def
      presign_params_get Let_def algorithmID_def)

lemma ex_presigned_key: "GetAccessKeyFromPresignedURL ex_parts = Inr ''AK''"
proof -
  have "str_split (''AK'' @ ''/'' @ credential_scope ex_sig 5 ''us'') ''/'' =
      [''AK'', sl_format_time ex_sig shortDateFormat 5, ''us'', serviceName, requestType]"
    by (rule presign_credential[OF ex_sig_laws]) simp_all
  then show ?thesis by (simp add: GetAccessKeyFromPresignedURL_def ex_parts_get)
qed

theorem deleted_user_refused_witness:
  "AuthMiddleware ex_sig (\<lambda>_. None) ex_crypt (MetaDeleteUser ex_crypt 7 ex_users)
     (NewAuthenticator ''root'' ''pw'') None ex_parts = Rejected CodeSignatureDoesNotMatch"
proof (rule deleted_user_refused)
  show "map_of (ms_byAccessKey ex_users) ''AK'' = Some 7" "map_of (ms_serviceAccounts ex_users) ''AK'' = None"
    by (simp_all add: ex_users_def CreateOrUpdateUser_def ensure_uuid_def ex_user_def uuid_nil_def
        index_user_def empty_store_def Let_def SaveUser_def)
  show "\<not> isRootAdminKey (NewAuthenticator ''root'' ''pw'') ''AK''"
    by (simp add: isRootAdminKey_def NewAuthenticator_def)
qed (simp add: ex_parts_get ex_presigned_key)

definition ex_authenticator :: authenticator where
  "ex_authenticator = NewAuthenticator ''AK'' ''SK''"

definition ex_admin_request :: http_request where
  "ex_admin_request = (ex_http ''s3:GetObject'' ''k'' '''')\<lparr>r_user := None, r_anonymous := True\<rparr>"

lemma ex_admin_authenticated:
  "AuthMiddleware ex_sig (\<lambda>_. None) ex_crypt st ex_authenticator None ex_parts =
     Authenticated (RootUser ex_authenticator) None None"
proof -
  have "VerifyPresignedSignature (ex_sig\<lparr>gl_now := 1\<rparr>) ex_parts ''SK'' =
      (if whole_second 5 + 60 * 1000000000 < 1 then Inl ErrPresignedURLExpired
       else Inr (whole_second 5 + 60 * 1000000000))"
    by (rule verify_presigned[OF ex_sig_laws _ _ ex_presigned_made]) (simp_all add: ex_parts_def)
  then have v: "VerifyPresignedSignature ex_sig ex_parts ''SK'' = Inr 60000000000"
    by (simp add: whole_second_def ex_sig_def)
  show ?thesis
    by (simp add: AuthMiddleware_def handleHeaderAuth_def handlePresignedAuth_def AuthenticatePresignedRequest_def
        ex_presigned_key ex_parts_get GetUserForAccessKey_def ex_authenticator_def NewAuthenticator_def RootUser_def
        root_user_def user_status_is_active_def UserStatusActive_def withSAContext_def isRootAdminKey_def v)
qed

theorem s3_access_sound_witness:
  "\<exists>ak. proves_secret ex_sig (\<lambda>_. None) None ex_parts ak ''SK''"
proof -
  let ?r = "with_identity (Authenticated (RootUser ex_authenticator) None None) ex_admin_request"
  have "AuthorizationMiddleware ex_lib ex_unmarshal (ex_engine [] None) None
      \<lparr>ak_primary = ''AK'', ak_alt = ''''\<rparr> ?r = Some (Next (Some ''allow'') None)"
    by code_simp
  then have run: "s3_middlewares ex_sig (\<lambda>_. None) ex_crypt empty_store ex_authenticator ex_unmarshal
      (ex_engine [] None) None ex_lib None ex_parts ex_admin_request =
    Some (Inr (Next (Some ''allow'') None))"
    by (simp add: s3_middlewares_def ex_admin_authenticated) (simp add: ex_authenticator_def NewAuthenticator_def)
  have route: "s3_route ex_admin_request" by code_simp
  have sep: "keys_separate ex_authenticator empty_store" by (simp add: keys_separate_def empty_store_def)
  have "\<exists>ak. proves_secret ex_sig (\<lambda>_. None) None ex_parts ak (u_secretKey (RootUser ex_authenticator))"
    using s3_access_sound[OF run route sep] by (simp add: ex_admin_authenticated Let_def)
  then show ?thesis by (simp add: ex_authenticator_def NewAuthenticator_def RootUser_def root_user_def)
qed

end
