(* ===== verification/Chunked.thy ===== *)
theory Chunked
  imports Signature
begin

text \<open>
  \<^verbatim>\<open>internal/http/auth/chunked.go\<close>: the decoder of the signed chunked transfer encoding. The underlying
  reader is the list of the bytes that are still to come; it ends with EOF. \<open>Read\<close> returns the bytes it
  put into the buffer and an optional error, and the new state of the reader; a panic is \<open>None\<close>.
\<close>

section \<open>State\<close>

record chunk_verifier =
  cv_secretKey :: string
  cv_timestamp :: time
  cv_region :: string
  cv_previousSignature :: string

record chunked_reader =
  ck_input :: string
  ck_chunkSize :: int
  ck_finished :: bool
  ck_totalRead :: int
  ck_verifier :: "chunk_verifier option"
  ck_chunkData :: string
  ck_currentChunkSig :: string
  ck_currentChunkStart :: int

datatype chunk_error = ChunkEOF | ErrInvalidChunkFormat | ErrChunkSizeMismatch | ErrChunkSignatureMismatch

definition NewChunkedReader :: "string \<Rightarrow> chunked_reader" where
  "NewChunkedReader input =
     \<lparr>ck_input = input, ck_chunkSize = 0, ck_finished = False, ck_totalRead = 0, ck_verifier = None,
      ck_chunkData = '''', ck_currentChunkSig = '''', ck_currentChunkStart = 0\<rparr>"

definition WithSignatureVerification :: "chunk_verifier \<Rightarrow> chunked_reader \<Rightarrow> chunked_reader" where
  "WithSignatureVerification v cr = cr\<lparr>ck_verifier := Some v, ck_chunkData := ''''\<rparr>"

section \<open>Library\<close>

text \<open>\<open>bufio.Reader.ReadString\<close> up to a newline: the line with its newline and the rest, or
  \<open>None\<close> (EOF, everything consumed).\<close>

definition read_line :: "string \<Rightarrow> (string \<times> string) option" where
  "read_line s =
     (case str_index s [CHR 0x0A] of
        None \<Rightarrow> None
      | Some i \<Rightarrow> Some (take (Suc i) s, drop (Suc i) s))"

text \<open>\<open>io.ReadFull\<close> of \<open>n\<close> bytes: whether all could be read, the bytes and the rest.\<close>

definition read_full :: "nat \<Rightarrow> string \<Rightarrow> bool \<times> string \<times> string" where
  "read_full n s = (n \<le> length s, take n s, drop n s)"

text \<open>\<open>strconv.ParseInt(s, 16, 64)\<close>.\<close>

definition hex_val :: "char \<Rightarrow> nat option" where
  "hex_val c =
     (let n = (of_char c :: nat)
      in if 48 \<le> n \<and> n \<le> 57 then Some (n - 48)
         else if 97 \<le> n \<and> n \<le> 102 then Some (n - 87)
         else if 65 \<le> n \<and> n \<le> 70 then Some (n - 55)
         else None)"

fun hex_number :: "nat \<Rightarrow> string \<Rightarrow> nat option" where
  "hex_number acc [] = Some acc"
| "hex_number acc (c # cs) =
     (case hex_val c of None \<Rightarrow> None | Some d \<Rightarrow> hex_number (16 * acc + d) cs)"

definition parse_int16 :: "string \<Rightarrow> int option" where
  "parse_int16 s =
     (let neg = has_prefix s ''-''; ds = (if neg \<or> has_prefix s ''+'' then tl s else s)
      in if ds = '''' then None
         else case hex_number 0 ds of
                None \<Rightarrow> None
              | Some n \<Rightarrow>
                  if neg then (if 2 ^ 63 < n then None else Some (- int n))
                  else (if 2 ^ 63 \<le> n then None else Some (int n)))"

section \<open>Reading\<close>

definition CRLF :: string where "CRLF = [CHR 0x0D, CHR 0x0A]"

definition chunkSignatureAlgorithm :: string where
  "chunkSignatureAlgorithm = ''AWS4-HMAC-SHA256-PAYLOAD''"

definition emptyPayloadHash :: string where
  "emptyPayloadHash = ''e3b0c44298fc1c149afbf4c8996fb92427ae41e4649b934ca495991b7852b855''"

text \<open>\<open>readChunkHeader\<close>: an error, if any, and the reader.\<close>

definition readChunkHeader :: "chunked_reader \<Rightarrow> chunk_error option \<times> chunked_reader" where
  "readChunkHeader cr =
     (case read_line (ck_input cr) of
        None \<Rightarrow> (Some ErrInvalidChunkFormat, cr\<lparr>ck_input := ''''\<rparr>)
      | Some (line, rest) \<Rightarrow>
          let cr = cr\<lparr>ck_input := rest\<rparr>;
              line = trim_suffix (trim_suffix line CRLF) [CHR 0x0A];
              (sizePart, sigPart) = str_split2 line '';''
          in case parse_int16 (trim_space sizePart) of
               None \<Rightarrow> (Some ErrInvalidChunkFormat, cr)
             | Some n \<Rightarrow>
                 let sig = (case sigPart of
                              None \<Rightarrow> ''''
                            | Some p \<Rightarrow>
                                (case cut_prefix (trim_space p) ''chunk-signature='' of
                                   None \<Rightarrow> '''' | Some after \<Rightarrow> after))
                 in (None, cr\<lparr>ck_currentChunkSig := sig, ck_chunkSize := n,
                              ck_currentChunkStart := ck_totalRead cr\<rparr>))"

definition computeChunkSignature :: "('a) sig_lib_scheme \<Rightarrow> chunk_verifier \<Rightarrow> string \<Rightarrow> string" where
  "computeChunkSignature L v chunkData =
     ComputeSignature L (cv_secretKey v) (cv_timestamp v) (cv_region v)
       (str_join [CHR 0x0A]
         [chunkSignatureAlgorithm, sl_format_time L iso8601TimeFormat (cv_timestamp v),
          credential_scope L (cv_timestamp v) (cv_region v), cv_previousSignature v,
          emptyPayloadHash, hashSHA256 L chunkData])"

definition verifyCurrentChunk ::
  "('a) sig_lib_scheme \<Rightarrow> chunked_reader \<Rightarrow> chunk_error option \<times> chunked_reader" where
  "verifyCurrentChunk L cr =
     (case ck_verifier cr of
        None \<Rightarrow> (None, cr)
      | Some v \<Rightarrow>
          if ck_currentChunkSig cr = '''' then (Some ErrInvalidChunkFormat, cr)
          else if ck_currentChunkSig cr \<noteq> computeChunkSignature L v (ck_chunkData cr)
          then (Some ErrChunkSignatureMismatch, cr)
          else (None, cr\<lparr>ck_verifier := Some (v\<lparr>cv_previousSignature := ck_currentChunkSig cr\<rparr>)\<rparr>))"

definition consumeTrailingCRLF :: "chunked_reader \<Rightarrow> chunk_error option \<times> chunked_reader" where
  "consumeTrailingCRLF cr =
     (let (full, buf, rest) = read_full 2 (ck_input cr)
      in if \<not> full then (Some ErrInvalidChunkFormat, cr\<lparr>ck_input := rest\<rparr>)
         else if buf \<noteq> CRLF then
           (if hd buf = CHR 0x0A then (None, cr\<lparr>ck_input := tl buf @ rest\<rparr>)
            else (Some ErrInvalidChunkFormat, cr\<lparr>ck_input := rest\<rparr>))
         else (None, cr\<lparr>ck_input := rest\<rparr>))"

text \<open>What \<open>Read\<close> does when the bytes it wanted were there and complete the chunk.\<close>

definition finish_chunk ::
  "('a) sig_lib_scheme \<Rightarrow> chunked_reader \<Rightarrow> chunk_error option \<times> chunked_reader" where
  "finish_chunk L cr =
     (case ck_verifier cr of
        None \<Rightarrow> consumeTrailingCRLF cr
      | Some _ \<Rightarrow>
          (case verifyCurrentChunk L cr of
             (Some e, cr) \<Rightarrow> (Some e, cr)
           | (None, cr) \<Rightarrow> consumeTrailingCRLF (cr\<lparr>ck_chunkData := ''''\<rparr>)))"

text \<open>The part of \<open>Read\<close> after the header.\<close>

definition read_chunk_data ::
  "('a) sig_lib_scheme \<Rightarrow> nat \<Rightarrow> chunked_reader \<Rightarrow> ((string \<times> chunk_error option) \<times> chunked_reader) option" where
  "read_chunk_data L bufsize cr =
     (let toRead = min (int bufsize) (ck_chunkSize cr)
      in if toRead < 0 then None
         else
           let (full, data, rest) = read_full (nat toRead) (ck_input cr);
               n = int (length data);
               cr = cr\<lparr>ck_input := rest, ck_chunkSize := ck_chunkSize cr - n,
                       ck_totalRead := ck_totalRead cr + n,
                       ck_chunkData := (if ck_verifier cr \<noteq> None then ck_chunkData cr @ data
                                        else ck_chunkData cr)\<rparr>
           in if ck_chunkSize cr = 0 \<and> full then
                (case finish_chunk L cr of (err, cr) \<Rightarrow> Some ((data, err), cr))
              else if \<not> full \<and> 0 < ck_chunkSize cr then Some ((data, Some ErrChunkSizeMismatch), cr)
              else Some ((data, None), cr))"

definition Read ::
  "('a) sig_lib_scheme \<Rightarrow> nat \<Rightarrow> chunked_reader \<Rightarrow> ((string \<times> chunk_error option) \<times> chunked_reader) option" where
  "Read L bufsize cr =
     (if ck_finished cr then Some (('''', Some ChunkEOF), cr)
      else
        case (if ck_chunkSize cr = 0 then readChunkHeader cr else (None, cr)) of
          (Some e, cr) \<Rightarrow> Some (('''', Some e), cr)
        | (None, cr) \<Rightarrow>
            if ck_chunkSize cr = 0 then Some (('''', Some ChunkEOF), cr\<lparr>ck_finished := True\<rparr>)
            else read_chunk_data L bufsize cr)"

section \<open>Reading everything\<close>

text \<open>\<open>io.ReadAll\<close> and \<open>io.Copy\<close>: reads with buffers of given sizes until EOF or an error. The result
  is the data and the error, none at EOF; the outer \<open>None\<close> is a panic, and \<open>Running\<close> says that the
  fuel was used up.\<close>

datatype read_result = Running | Done string "chunk_error option"

fun read_all ::
  "('a) sig_lib_scheme \<Rightarrow> (nat \<Rightarrow> nat) \<Rightarrow> nat \<Rightarrow> string \<Rightarrow> chunked_reader \<Rightarrow> read_result option" where
  "read_all L sizes 0 acc cr = Some Running"
| "read_all L sizes (Suc fuel) acc cr =
     (case Read L (sizes fuel) cr of
        None \<Rightarrow> None
      | Some ((data, None), cr) \<Rightarrow> read_all L sizes fuel (acc @ data) cr
      | Some ((data, Some ChunkEOF), cr) \<Rightarrow> Some (Done (acc @ data) None)
      | Some ((data, Some e), cr) \<Rightarrow> Some (Done (acc @ data) (Some e)))"

definition IsChunkedEncoding :: "string \<Rightarrow> bool" where
  "IsChunkedEncoding contentSHA256 \<longleftrightarrow> contentSHA256 = ''STREAMING-AWS4-HMAC-SHA256-PAYLOAD''"

end
