(* ===== verification/ChunkedProps.thy ===== *)
theory ChunkedProps
  imports Chunked
begin

text \<open>
  The chunked reader is compared with a decoder that takes the whole body at once. Whatever buffers
  the caller reads with, it sees what that decoder produces; round trip, soundness of the signature
  check, and what the check does not cover are then facts about the decoder.
\<close>

section \<open>The reference decoder\<close>

text \<open>Size and signature in a header line.\<close>

definition header_of :: "string \<Rightarrow> (int \<times> string) option" where
  "header_of line =
     (let (sizePart, sigPart) = str_split2 (trim_suffix (trim_suffix line CRLF) [CHR 0x0A]) '';''
      in map_option (\<lambda>n. (n, case sigPart of
             None \<Rightarrow> ''''
           | Some p \<Rightarrow> (case cut_prefix (trim_space p) ''chunk-signature='' of None \<Rightarrow> '''' | Some s \<Rightarrow> s)))
         (parse_int16 (trim_space sizePart)))"

text \<open>After the data of a chunk: its signature, then the line end. The result is the verifier for the
  next chunk and the rest of the body.\<close>

definition chunk_end ::
  "('a) sig_lib_scheme \<Rightarrow> chunk_verifier option \<Rightarrow> string \<Rightarrow> string \<Rightarrow> string
     \<Rightarrow> chunk_error + chunk_verifier option \<times> string" where
  "chunk_end L v sig d rest =
     (if v \<noteq> None \<and> sig = '''' then Inl ErrInvalidChunkFormat
      else if v \<noteq> None \<and> sig \<noteq> computeChunkSignature L (the v) d then Inl ErrChunkSignatureMismatch
      else
        let v' = map_option (\<lambda>w. w\<lparr>cv_previousSignature := sig\<rparr>) v
        in if length rest < 2 then Inl ErrInvalidChunkFormat
           else if take 2 rest = CRLF then Inr (v', drop 2 rest)
           else if hd rest = CHR 0x0A then Inr (v', tl rest)
           else Inl ErrInvalidChunkFormat)"

fun prepend :: "string \<Rightarrow> read_result \<Rightarrow> read_result" where
  "prepend d Running = Running"
| "prepend d (Done s e) = Done (d @ s) e"

lemma prepend_simps [simp]: "prepend '''' r = r" "prepend a (prepend b r) = prepend (a @ b) r"
  by (cases r; simp)+

function decode_body ::
  "('a) sig_lib_scheme \<Rightarrow> chunk_verifier option \<Rightarrow> string \<Rightarrow> read_result option" where
  "decode_body L v s =
     (case read_line s of
        None \<Rightarrow> Some (Done '''' (Some ErrInvalidChunkFormat))
      | Some (line, rest) \<Rightarrow>
          (case header_of line of
             None \<Rightarrow> Some (Done '''' (Some ErrInvalidChunkFormat))
           | Some (n, sig) \<Rightarrow>
               if n = 0 then Some (Done '''' None)
               else if n < 0 then None
               else if int (length rest) < n then Some (Done rest (Some ErrChunkSizeMismatch))
               else
                 let d = take (nat n) rest
                 in case chunk_end L v sig d (drop (nat n) rest) of
                      Inl e \<Rightarrow> Some (Done d (Some e))
                    | Inr (v', rest') \<Rightarrow> map_option (prepend d) (decode_body L v' rest')))"
  by pat_completeness auto

lemma read_line_length:
  assumes "read_line s = Some (line, rest)" shows "length rest < length s"
proof -
  obtain i where "str_index s [CHR 0x0A] = Some i" "rest = drop (Suc i) s"
    using assms by (auto simp: read_line_def split: option.splits)
  with str_index_bound[of s "[CHR 0x0A]" i] show ?thesis by simp
qed

lemma chunk_end_length: "chunk_end L v sig d rest = Inr (v', rest') \<Longrightarrow> length rest' \<le> length rest"
  by (auto simp: chunk_end_def Let_def split: if_splits)

termination decode_body
proof (relation "measure (\<lambda>(L, v, s). length s)", goal_cases)
  case 1
  show ?case by simp
next
  case (2 L v s p line rest h n sig d q v' rest')
  then have "length rest < length s" "length rest' \<le> length rest"
    using read_line_length chunk_end_length by fastforce+
  then show ?case by simp
qed

declare decode_body.simps [simp del]

section \<open>One read\<close>

definition boundary :: "chunk_verifier option \<Rightarrow> string \<Rightarrow> chunked_reader \<Rightarrow> bool" where
  "boundary v s cr \<longleftrightarrow>
     ck_input cr = s \<and> ck_chunkSize cr = 0 \<and> \<not> ck_finished cr \<and> ck_verifier cr = v \<and>
     (v \<noteq> None \<longrightarrow> ck_chunkData cr = '''')"

text \<open>Inside a chunk: \<open>n\<close> bytes are left, \<open>seen\<close> are read.\<close>

definition inside ::
  "chunk_verifier option \<Rightarrow> string \<Rightarrow> string \<Rightarrow> nat \<Rightarrow> string \<Rightarrow> chunked_reader \<Rightarrow> bool" where
  "inside v sig seen n s cr \<longleftrightarrow>
     ck_input cr = s \<and> ck_chunkSize cr = int n \<and> 0 < n \<and> \<not> ck_finished cr \<and> ck_verifier cr = v \<and>
     ck_currentChunkSig cr = sig \<and> (v \<noteq> None \<longrightarrow> ck_chunkData cr = seen)"

lemma readChunkHeader_alt:
  "readChunkHeader cr =
     (case read_line (ck_input cr) of
        None \<Rightarrow> (Some ErrInvalidChunkFormat, cr\<lparr>ck_input := ''''\<rparr>)
      | Some (line, rest) \<Rightarrow>
          (case header_of line of
             None \<Rightarrow> (Some ErrInvalidChunkFormat, cr\<lparr>ck_input := rest\<rparr>)
           | Some (n, sig) \<Rightarrow>
               (None, cr\<lparr>ck_input := rest, ck_currentChunkSig := sig, ck_chunkSize := n,
                         ck_currentChunkStart := ck_totalRead cr\<rparr>)))"
  by (auto simp: readChunkHeader_def header_of_def Let_def split: option.splits prod.splits)

lemma finish_chunk_end:
  assumes "ck_verifier cr = v" "ck_currentChunkSig cr = sig" "v \<noteq> None \<longrightarrow> ck_chunkData cr = d"
    and "ck_chunkSize cr = 0" "\<not> ck_finished cr"
  shows "(case chunk_end L v sig d (ck_input cr) of
      Inl e \<Rightarrow> fst (finish_chunk L cr) = Some e
    | Inr (v', rest') \<Rightarrow> \<exists>cr'. finish_chunk L cr = (None, cr') \<and> boundary v' rest' cr')"
proof (cases v)
  case None
  with assms show ?thesis
    by (auto simp: chunk_end_def finish_chunk_def consumeTrailingCRLF_def read_full_def boundary_def Let_def
        hd_take tl_take CRLF_def neq_Nil_conv not_less Suc_le_length_iff numeral_2_eq_2)
next
  case (Some w)
  with assms show ?thesis
    by (auto simp: chunk_end_def finish_chunk_def verifyCurrentChunk_def consumeTrailingCRLF_def read_full_def
        boundary_def Let_def CRLF_def not_less Suc_le_length_iff numeral_2_eq_2)
qed

lemma chunk_end_error: "chunk_end L v sig d rest = Inl e \<Longrightarrow> e \<noteq> ChunkEOF"
  by (auto simp: chunk_end_def Let_def split: if_splits)

lemma inside_read_short:
  assumes "inside v sig seen n s cr" "length s < min b n"
  shows "\<exists>cr'. Read L b cr = Some ((s, Some ErrChunkSizeMismatch), cr')"
proof -
  have "nat (min (int b) (int n)) = min b n" by (simp add: min_def)
  with assms show ?thesis
    by (auto simp: inside_def Read_def read_chunk_data_def read_full_def Let_def)
qed

lemma inside_read_part:
  assumes "inside v sig seen n s cr" "0 < b" "b < n" "b \<le> length s"
  shows "\<exists>cr'. Read L b cr = Some ((take b s, None), cr') \<and>
    inside v sig (seen @ take b s) (n - b) (drop b s) cr'"
  using assms by (auto simp: inside_def Read_def read_chunk_data_def read_full_def Let_def min_def of_nat_diff)

lemma inside_read_last:
  assumes "inside v sig seen n s cr" "n \<le> b" "n \<le> length s"
  shows "case chunk_end L v sig (seen @ take n s) (drop n s) of
      Inl e \<Rightarrow> \<exists>cr'. Read L b cr = Some ((take n s, Some e), cr')
    | Inr (v', rest') \<Rightarrow> \<exists>cr'. Read L b cr = Some ((take n s, None), cr') \<and> boundary v' rest' cr'"
proof -
  let ?cr = "cr\<lparr>ck_input := drop n s, ck_chunkSize := 0, ck_totalRead := ck_totalRead cr + int n,
    ck_chunkData := (if v \<noteq> None then ck_chunkData cr @ take n s else ck_chunkData cr)\<rparr>"
  have "Read L b cr = (case finish_chunk L ?cr of (err, cr) \<Rightarrow> Some ((take n s, err), cr))"
    using assms by (auto simp: inside_def Read_def read_chunk_data_def read_full_def Let_def min_def)
  moreover have "case chunk_end L v sig (seen @ take n s) (drop n s) of
      Inl e \<Rightarrow> fst (finish_chunk L ?cr) = Some e
    | Inr (v', rest') \<Rightarrow> \<exists>cr'. finish_chunk L ?cr = (None, cr') \<and> boundary v' rest' cr'"
    using finish_chunk_end[of ?cr v sig "seen @ take n s" L] assms(1) by (simp add: inside_def)
  ultimately show ?thesis by (auto split: sum.splits prod.splits)
qed

section \<open>One chunk\<close>

lemma inside_read_all:
  assumes "inside v sig seen n s cr" "length s < fuel" "\<forall>i. 0 < sizes i"
  shows "if length s < n then read_all L sizes fuel acc cr = Some (Done (acc @ s) (Some ErrChunkSizeMismatch))
    else case chunk_end L v sig (seen @ take n s) (drop n s) of
        Inl e \<Rightarrow> read_all L sizes fuel acc cr = Some (Done (acc @ take n s) (Some e))
      | Inr (v', rest') \<Rightarrow> \<exists>fuel' cr'. boundary v' rest' cr' \<and> length rest' < fuel' \<and>
          read_all L sizes fuel acc cr = read_all L sizes fuel' (acc @ take n s) cr'"
  using assms(1,2)
proof (induction n arbitrary: seen s cr fuel acc rule: less_induct)
  case (less n)
  obtain m where fuel: "fuel = Suc m" using less.prems(2) by (cases fuel) auto
  let ?b = "sizes m"
  have n: "0 < n" using less.prems(1) by (simp add: inside_def)
  consider (short) "length s < min ?b n" | (part) "?b < n" "?b \<le> length s" | (last) "n \<le> ?b" "n \<le> length s"
    by (cases "length s < min ?b n"; cases "?b < n") (simp_all add: min_def split: if_splits)
  then show ?case
  proof cases
    case short
    from inside_read_short[OF less.prems(1) short] obtain cr' where
      "Read L ?b cr = Some ((s, Some ErrChunkSizeMismatch), cr')" by blast
    with short fuel show ?thesis by simp
  next
    case part
    from inside_read_part[OF less.prems(1) assms(3)[rule_format] part] obtain cr' where
      r: "Read L ?b cr = Some ((take ?b s, None), cr')" and
      i: "inside v sig (seen @ take ?b s) (n - ?b) (drop ?b s) cr'" by blast
    have lt: "n - ?b < n" "length (drop ?b s) < m"
      using n assms(3)[rule_format, of m] part less.prems(2) fuel by auto
    have "take ?b s @ take (n - ?b) (drop ?b s) = take n s"
      using part(1) by (metis le_add_diff_inverse less_imp_le take_add)
    moreover have "drop (n - ?b) (drop ?b s) = drop n s" using part(1) by simp
    moreover have "length (drop ?b s) < n - ?b \<longleftrightarrow> length s < n" using part by auto
    moreover have "acc @ take ?b s @ drop ?b s = acc @ s" by simp
    ultimately show ?thesis
      using less.IH[OF lt(1) i lt(2), of "acc @ take ?b s"] r fuel
      by (simp only: append_assoc read_all.simps option.case prod.case)
  next
    case last
    note step = inside_read_last[OF less.prems(1) last, where L = L]
    show ?thesis
    proof (cases "chunk_end L v sig (seen @ take n s) (drop n s)")
      case (Inl e)
      with step chunk_end_error[OF Inl] last fuel show ?thesis by (cases e) auto
    next
      case (Inr p)
      obtain v' rest' where p: "p = (v', rest')" by fastforce
      from step Inr p obtain cr' where r: "Read L ?b cr = Some ((take n s, None), cr')"
        and b: "boundary v' rest' cr'" by auto
      have "length rest' < m"
        using chunk_end_length[of L v sig _ _ v' rest'] Inr p last n less.prems(2) fuel by fastforce
      with r b Inr p last fuel show ?thesis by auto
    qed
  qed
qed

section \<open>The whole body\<close>

lemma read_all_decodes:
  assumes "boundary v s cr" "length s < fuel" "\<forall>i. 0 < sizes i"
  shows "read_all L sizes fuel acc cr = map_option (prepend acc) (decode_body L v s)"
  using assms(1,2)
proof (induction s arbitrary: v cr fuel acc rule: length_induct)
  case (1 s)
  obtain m where fuel: "fuel = Suc m" using 1(3) by (cases fuel) auto
  note b = 1(2)[unfolded boundary_def]
  show ?case
  proof (cases "read_line s")
    case None
    with b fuel show ?thesis by (simp add: Read_def readChunkHeader_alt decode_body.simps[of L v s])
  next
    case (Some p)
    obtain line rest where p: "p = (line, rest)" by fastforce
    have len: "length rest < length s" using read_line_length Some p by blast
    show ?thesis
    proof (cases "header_of line")
      case None
      with Some p b fuel show ?thesis by (simp add: Read_def readChunkHeader_alt decode_body.simps[of L v s])
    next
      case h: (Some q)
      obtain n sig where q: "q = (n, sig)" by fastforce
      let ?cr = "cr\<lparr>ck_input := rest, ck_currentChunkSig := sig, ck_chunkSize := n,
                         ck_currentChunkStart := ck_totalRead cr\<rparr>"
      have header: "readChunkHeader cr = (None, ?cr)"
        using Some p h q b by (simp add: readChunkHeader_alt)
      consider "n = 0" | "n < 0" | "0 < n" by linarith
      then show ?thesis
      proof cases
        case 1
        with Some p h q b fuel header show ?thesis
          by (simp add: Read_def decode_body.simps[of L v s])
      next
        case 2
        with Some p h q b fuel header show ?thesis
          by (simp add: Read_def read_chunk_data_def Let_def decode_body.simps[of L v s])
      next
        case 3
        have i: "inside v sig '''' (nat n) rest ?cr" using 3 b by (simp add: inside_def)
        have same: "read_all L sizes fuel acc cr = read_all L sizes fuel acc ?cr"
          using 3 b by (simp add: fuel Read_def header)
        have lr: "length rest < fuel" using len 1(3) by simp
        note chunk = inside_read_all[OF i lr assms(3), where L = L and acc = acc]
        show ?thesis
        proof (cases "int (length rest) < n")
          case True
          with chunk same 3 Some p h q show ?thesis
            by (simp add: decode_body.simps[of L v s] zless_nat_conj)
        next
          case False
          then have nl: "\<not> length rest < nat n" using 3 by linarith
          show ?thesis
          proof (cases "chunk_end L v sig (take (nat n) rest) (drop (nat n) rest)")
            case (Inl e)
            with chunk nl same 3 False Some p h q show ?thesis
              by (simp add: decode_body.simps[of L v s])
          next
            case (Inr w)
            obtain v' rest' where w: "w = (v', rest')" by fastforce
            from chunk nl Inr w obtain fuel' cr' where b': "boundary v' rest' cr'" "length rest' < fuel'"
              and r: "read_all L sizes fuel acc ?cr = read_all L sizes fuel' (acc @ take (nat n) rest) cr'"
              by auto
            have "length rest' < length s" using chunk_end_length[of L v sig] Inr w len by fastforce
            from 1(1)[rule_format, OF this b'] r same Inr w 3 False Some p h q show ?thesis
              by (simp add: decode_body.simps[of L v s] option.map_comp comp_def)
          qed
        qed
      qed
    qed
  qed
qed

section \<open>Header lines\<close>

definition printable :: "char \<Rightarrow> bool" where
  "printable c \<longleftrightarrow> 33 \<le> (of_char c :: nat) \<and> (of_char c :: nat) \<le> 126"

lemma white_space_not_printable:
  "list_all (\<lambda>w. w \<noteq> [] \<and> \<not> printable (hd w) \<and> \<not> printable (last w)) white_space"
  by code_simp

lemma trim_space_printable:
  assumes "list_all printable s"
  shows "trim_space s = s"
proof -
  have trim: "trim_left n ws t = t"
    if "\<forall>w\<in>set ws. w \<noteq> [] \<and> \<not> printable (hd w)" "list_all printable t" for n ws t
  proof -
    have "\<not> has_prefix t w" if "w \<in> set ws" for w
      using \<open>\<forall>w\<in>set ws. _ w\<close> that \<open>list_all printable t\<close>
      by (cases w; cases t) (auto simp: has_prefix_def)
    then have "find (\<lambda>w. has_prefix t w) ws = None" by (simp add: find_None_iff)
    then show ?thesis by (cases n) simp_all
  qed
  have ws: "\<forall>w\<in>set white_space. w \<noteq> [] \<and> \<not> printable (hd w)"
    "\<forall>w\<in>set (map rev white_space). w \<noteq> [] \<and> \<not> printable (hd w)"
    using white_space_not_printable by (auto simp: list_all_iff hd_rev)
  show ?thesis
    using trim[OF ws(1) assms] trim[OF ws(2), of "rev s"] assms by (simp add: trim_space_def list_all_iff)
qed

fun hex_of_nat :: "nat \<Rightarrow> string" where
  "hex_of_nat n = (if n < 16 then [hex_digit n] else hex_of_nat (n div 16) @ [hex_digit (n mod 16)])"

declare hex_of_nat.simps [simp del]

lemma hex_digit_facts:
  assumes "d < 16"
  shows "hex_val (hex_digit d) = Some d" "printable (hex_digit d)"
    "hex_digit d \<notin> {CHR ''-'', CHR ''+'', CHR '';'', CHR 0x0A}"
proof -
  have code: "(of_char (hex_digit d) :: nat) = (if d < 10 then 48 + d else 87 + d)"
    using assms by (simp add: hex_digit_def)
  then show "hex_val (hex_digit d) = Some d" "printable (hex_digit d)"
    using assms by (auto simp: hex_val_def printable_def Let_def)
  show "hex_digit d \<notin> {CHR ''-'', CHR ''+'', CHR '';'', CHR 0x0A}"
    using code assms by (auto split: if_splits)
qed

lemma hex_number_append:
  "hex_number acc (s @ t) = (case hex_number acc s of None \<Rightarrow> None | Some n \<Rightarrow> hex_number n t)"
  by (induction s arbitrary: acc) (auto split: option.splits)

lemma hex_of_nat_facts:
  "hex_number 0 (hex_of_nat n) = Some n \<and> hex_of_nat n \<noteq> '''' \<and>
     (\<forall>c\<in>set (hex_of_nat n). printable c \<and> c \<notin> {CHR ''-'', CHR ''+'', CHR '';'', CHR 0x0A})"
proof (induction n rule: hex_of_nat.induct)
  case (1 n)
  show ?case
  proof (cases "n < 16")
    case True
    then show ?thesis using hex_digit_facts[OF True] by (subst (1 2 3) hex_of_nat.simps) simp
  next
    case False
    have "n mod 16 < 16" by simp
    from 1[OF False] hex_digit_facts[OF this] False show ?thesis
      by (subst (1 2 3) hex_of_nat.simps) (auto simp: hex_number_append)
  qed
qed

lemma parse_hex_of_nat:
  assumes "n < 2 ^ 63"
  shows "parse_int16 (hex_of_nat n) = Some (int n)"
proof -
  obtain c cs where h: "hex_of_nat n = c # cs" using hex_of_nat_facts[of n] by (cases "hex_of_nat n") auto
  then have "\<not> has_prefix (hex_of_nat n) ''-''" "\<not> has_prefix (hex_of_nat n) ''+''"
    using hex_of_nat_facts[of n] by (auto simp: has_prefix_def)
  with h hex_of_nat_facts[of n] assms show ?thesis by (simp add: parse_int16_def Let_def)
qed

lemma read_line_append:
  assumes "CHR 0x0A \<notin> set t"
  shows "read_line (t @ CRLF @ rest) = Some (t @ CRLF, rest)"
proof -
  have "str_index (t @ CRLF @ rest) [CHR 0x0A] = Some (Suc (length t))"
    using assms by (induction t) (auto simp: CRLF_def has_prefix_def)
  then show ?thesis by (simp add: read_line_def CRLF_def)
qed

lemma trim_line:
  assumes "CHR 0x0A \<notin> set t"
  shows "trim_suffix (trim_suffix (t @ CRLF) CRLF) [CHR 0x0A] = t"
proof -
  have "trim_suffix (t @ CRLF) CRLF = t" by (simp add: trim_suffix_def has_suffix_def)
  moreover have "\<not> has_suffix t [CHR 0x0A]" using assms by (auto simp: has_suffix_iff suffix_def)
  ultimately show ?thesis by (simp add: trim_suffix_def)
qed

lemma str_split2_char:
  "c \<notin> set s \<Longrightarrow> str_split2 (s @ [c] @ t) [c] = (s, Some t)"
  "c \<notin> set s \<Longrightarrow> str_split2 s [c] = (s, None)"
proof -
  assume c: "c \<notin> set s"
  have "str_index (s @ c # t) [c] = Some (length s)"
    using c by (induction s) (auto simp: str_index_char simp del: str_index.simps)
  then show "str_split2 (s @ [c] @ t) [c] = (s, Some t)" by (simp add: str_split2_def)
  have "str_index s [c] = None" using c by (induction s) (auto simp: str_index_char simp del: str_index.simps(2))
  then show "str_split2 s [c] = (s, None)" by (simp add: str_split2_def)
qed

definition header_text :: "nat \<Rightarrow> string \<Rightarrow> string" where
  "header_text n sig = hex_of_nat n @ '';chunk-signature='' @ sig"

lemma header_of_text:
  assumes "n < 2 ^ 63" "list_all printable sig"
  shows "CHR 0x0A \<notin> set (header_text n sig)" "header_of (header_text n sig @ CRLF) = Some (int n, sig)"
proof -
  have np: "\<not> printable CHR 0x0A" by (simp add: printable_def)
  then show nl: "CHR 0x0A \<notin> set (header_text n sig)"
    using assms(2) hex_of_nat_facts[of n] by (auto simp: header_text_def list_all_iff)
  have "CHR '';'' \<notin> set (hex_of_nat n)" using hex_of_nat_facts[of n] by auto
  then have split: "str_split2 (header_text n sig) '';'' = (hex_of_nat n, Some (''chunk-signature='' @ sig))"
    using str_split2_char(1)[of "CHR '';''" "hex_of_nat n" "''chunk-signature='' @ sig"]
    by (simp add: header_text_def)
  have "trim_space (hex_of_nat n) = hex_of_nat n"
    using hex_of_nat_facts[of n] by (intro trim_space_printable) (auto simp: list_all_iff)
  moreover have "list_all printable (''chunk-signature='' @ sig)" using assms(2) by (simp add: printable_def)
  from trim_space_printable[OF this]
  have "trim_space (''chunk-signature='' @ sig) = ''chunk-signature='' @ sig" .
  moreover have "cut_prefix (''chunk-signature='' @ sig) ''chunk-signature='' = Some sig"
    by (simp add: cut_prefix_def has_prefix_def)
  ultimately show "header_of (header_text n sig @ CRLF) = Some (int n, sig)"
    by (simp add: header_of_def trim_line[OF nl] split parse_hex_of_nat[OF assms(1)])
qed

section \<open>Signed bodies\<close>

text \<open>Chunks with their signatures; with a verifier each signature is computed from the one before.\<close>

fun chain :: "('a) sig_lib_scheme \<Rightarrow> chunk_verifier option \<Rightarrow> (string \<times> string) list \<Rightarrow> bool" where
  "chain L v [] = True"
| "chain L v ((sig, d) # cs) =
     ((v \<noteq> None \<longrightarrow> sig \<noteq> '''' \<and> sig = computeChunkSignature L (the v) d) \<and>
      chain L (map_option (\<lambda>w. w\<lparr>cv_previousSignature := sig\<rparr>) v) cs)"

definition chunk_text :: "string \<times> string \<Rightarrow> string" where
  "chunk_text c = header_text (length (snd c)) (fst c) @ CRLF @ snd c @ CRLF"

definition well_formed_chunk :: "string \<times> string \<Rightarrow> bool" where
  "well_formed_chunk c \<longleftrightarrow> list_all printable (fst c) \<and> snd c \<noteq> '''' \<and> length (snd c) < 2 ^ 63"

text \<open>What a body is made of: header lines, data of the announced size, line ends, and a header of
  size zero.\<close>

inductive chunk_seq :: "string \<Rightarrow> (string \<times> string) list \<Rightarrow> bool" where
  chunk_last: "read_line s = Some (line, rest) \<Longrightarrow> header_of line = Some (0, sig) \<Longrightarrow> chunk_seq s []"
| chunk_more: "read_line s = Some (line, d @ e @ rest) \<Longrightarrow> header_of line = Some (int (length d), sig) \<Longrightarrow>
    d \<noteq> '''' \<Longrightarrow> e \<in> {CRLF, [CHR 0x0A]} \<Longrightarrow> chunk_seq rest cs \<Longrightarrow> chunk_seq s ((sig, d) # cs)"

lemma chain_append: "chain L v (cs @ cs') \<Longrightarrow> chain L v cs"
  by (induction L v cs rule: chain.induct) auto

lemma chunk_end_CRLF:
  assumes "v \<noteq> None \<longrightarrow> sig \<noteq> '''' \<and> sig = computeChunkSignature L (the v) d"
  shows "chunk_end L v sig d (CRLF @ rest) = Inr (map_option (\<lambda>w. w\<lparr>cv_previousSignature := sig\<rparr>) v, rest)"
  using assms by (auto simp: chunk_end_def CRLF_def)

lemma decode_chunks:
  assumes "chain L v cs" "\<forall>c\<in>set cs. well_formed_chunk c"
    and "\<And>v. decode_body L v tail = Some (Done '''' None)"
  shows "decode_body L v (concat (map chunk_text cs) @ tail) = Some (Done (concat (map snd cs)) None)"
  using assms(1,2)
proof (induction cs arbitrary: v)
  case Nil
  then show ?case by (simp add: assms(3))
next
  case (Cons c cs)
  obtain sig d where c: "c = (sig, d)" by fastforce
  let ?rest = "concat (map chunk_text cs) @ tail"
  have wf: "list_all printable sig" "d \<noteq> ''''" "length d < 2 ^ 63"
    using Cons.prems(2) by (auto simp: c well_formed_chunk_def)
  note h = header_of_text[OF wf(3,1)]
  have line: "read_line (header_text (length d) sig @ CRLF @ d @ CRLF @ ?rest) =
      Some (header_text (length d) sig @ CRLF, d @ CRLF @ ?rest)"
    by (rule read_line_append[OF h(1)])
  have ok: "v \<noteq> None \<longrightarrow> sig \<noteq> '''' \<and> sig = computeChunkSignature L (the v) d"
    and rest: "chain L (map_option (\<lambda>w. w\<lparr>cv_previousSignature := sig\<rparr>) v) cs"
    using Cons.prems(1) unfolding c chain.simps by blast+
  have IH: "decode_body L (map_option (\<lambda>w. w\<lparr>cv_previousSignature := sig\<rparr>) v) ?rest =
      Some (Done (concat (map snd cs)) None)"
    using Cons.IH[OF rest] Cons.prems(2) by simp
  have "concat (map chunk_text (c # cs)) @ tail = header_text (length d) sig @ CRLF @ d @ CRLF @ ?rest"
    by (simp add: c chunk_text_def)
  then show ?case
    using wf(2) by (simp add: decode_body.simps[of L v "header_text (length d) sig @ CRLF @ d @ CRLF @ _"]
        line h(2) chunk_end_CRLF[OF ok] IH c)
qed

lemma decode_last:
  assumes "CHR 0x0A \<notin> set t" "header_of (t @ CRLF) = Some (0, sig)"
  shows "decode_body L v (t @ CRLF @ tail) = Some (Done '''' None)"
  by (simp add: decode_body.simps[of L v] read_line_append[OF assms(1)] assms(2))

lemma chunk_end_Inr:
  assumes "chunk_end L v sig d r = Inr (v', r')"
  shows "v' = map_option (\<lambda>w. w\<lparr>cv_previousSignature := sig\<rparr>) v"
    and "v \<noteq> None \<longrightarrow> sig \<noteq> '''' \<and> sig = computeChunkSignature L (the v) d"
    and "\<exists>e\<in>{CRLF, [CHR 0x0A]}. r = e @ r'"
proof -
  show "v' = map_option (\<lambda>w. w\<lparr>cv_previousSignature := sig\<rparr>) v"
    and "v \<noteq> None \<longrightarrow> sig \<noteq> '''' \<and> sig = computeChunkSignature L (the v) d"
    using assms by (auto simp: chunk_end_def Let_def split: if_splits)
  consider "take 2 r = CRLF" "r' = drop 2 r" | "hd r = CHR 0x0A" "r' = tl r" "r \<noteq> []"
    using assms by (fastforce simp: chunk_end_def Let_def split: if_splits)
  then show "\<exists>e\<in>{CRLF, [CHR 0x0A]}. r = e @ r'"
  proof cases
    case 1
    then have "r = CRLF @ r'" by (metis append_take_drop_id)
    then show ?thesis by blast
  next
    case 2
    then have "r = [CHR 0x0A] @ r'" by (cases r) auto
    then show ?thesis by blast
  qed
qed

lemma decode_sound:
  assumes "decode_body L v s = Some (Done data None)"
  shows "\<exists>cs. chunk_seq s cs \<and> chain L v cs \<and> data = concat (map snd cs)"
  using assms
proof (induction L v s arbitrary: data rule: decode_body.induct)
  case (1 L v s)
  obtain line rest n sig where r: "read_line s = Some (line, rest)" and h: "header_of line = Some (n, sig)"
    using 1(2) by (auto simp: decode_body.simps[of L v s] split: option.splits)
  show ?case
  proof (cases "n = 0")
    case True
    with 1(2) r h have "data = ''''" by (simp add: decode_body.simps[of L v s])
    with True r h show ?thesis by (intro exI[of _ "[]"]) (auto intro: chunk_last)
  next
    case False
    let ?d = "take (nat n) rest"
    have n: "0 < n" "n \<le> int (length rest)"
      using 1(2) r h False by (auto simp: decode_body.simps[of L v s] split: if_splits)
    obtain v' rest' where e: "chunk_end L v sig ?d (drop (nat n) rest) = Inr (v', rest')"
      using 1(2) r h False n by (auto simp: decode_body.simps[of L v s] Let_def split: sum.splits)
    obtain data' where d': "decode_body L v' rest' = Some (Done data' None)" "data = ?d @ data'"
      using 1(2) r h False n e
      by (auto simp: decode_body.simps[of L v s] elim!: prepend.elims)
    have guards: "\<not> n < 0" "\<not> int (length rest) < n" using n by simp_all
    from 1(1)[OF r refl h refl False guards refl e refl d'(1)]
    obtain cs where cs: "chunk_seq rest' cs" "chain L v' cs" "data' = concat (map snd cs)" by blast
    note parts = chunk_end_Inr[OF e]
    from parts(3) obtain e' where e': "e' \<in> {CRLF, [CHR 0x0A]}" "rest = ?d @ e' @ rest'"
      by (metis append_take_drop_id)
    have "chunk_seq s ((sig, ?d) # cs)"
    proof (rule chunk_more[OF _ _ _ e'(1) cs(1)])
      show "read_line s = Some (line, ?d @ e' @ rest')" using r e'(2) by simp
      show "header_of line = Some (int (length ?d), sig)" using h n by simp
      show "?d \<noteq> ''''" using n by auto
    qed
    moreover have "chain L v ((sig, ?d) # cs)" using cs(2) unfolding chain.simps parts(1)[symmetric] by (intro conjI parts(2))
    moreover have "data = concat (map snd ((sig, ?d) # cs))" using d'(2) cs(3) by simp
    ultimately show ?thesis by blast
  qed
qed

section \<open>Properties\<close>

definition new_reader :: "chunk_verifier option \<Rightarrow> string \<Rightarrow> chunked_reader" where
  "new_reader v body =
     (case v of None \<Rightarrow> NewChunkedReader body | Some w \<Rightarrow> WithSignatureVerification w (NewChunkedReader body))"

lemma new_reader_boundary: "boundary v body (new_reader v body)"
  by (cases v) (simp_all add: boundary_def new_reader_def NewChunkedReader_def WithSignatureVerification_def)

lemma new_reader_decodes:
  assumes "\<forall>i. 0 < sizes i" "length body < fuel"
  shows "read_all L sizes fuel '''' (new_reader v body) = decode_body L v body"
proof -
  have "map_option (prepend '''') x = x" for x by (cases x) simp_all
  then show ?thesis using read_all_decodes[OF new_reader_boundary assms(2,1)] by metis
qed

lemma decode_not_running: "decode_body L v s \<noteq> Some Running"
proof (induction L v s rule: decode_body.induct)
  case (1 L v s)
  then show ?case
    by (auto simp: decode_body.simps[of L v s] Let_def elim!: prepend.elims split: option.splits sum.splits)
qed

lemma decode_length: "decode_body L v s = Some (Done data e) \<Longrightarrow> length data \<le> length s"
proof (induction L v s arbitrary: data rule: decode_body.induct)
  case (1 L v s)
  show ?case
  proof (cases "read_line s")
    case None
    with 1(2) show ?thesis by (simp add: decode_body.simps[of L v s])
  next
    case (Some p)
    obtain line rest where p: "p = (line, rest)" by fastforce
    have len: "length rest < length s" using read_line_length Some p by blast
    show ?thesis
    proof (cases "header_of line")
      case None
      with 1(2) Some p show ?thesis by (simp add: decode_body.simps[of L v s])
    next
      case h: (Some q)
      obtain n sig where q: "q = (n, sig)" by fastforce
      consider "n = 0" | "n < 0" | "0 < n" "int (length rest) < n" | "0 < n" "\<not> int (length rest) < n" by linarith
      then show ?thesis
      proof cases
        case 4
        let ?d = "take (nat n) rest"
        show ?thesis
        proof (cases "chunk_end L v sig ?d (drop (nat n) rest)")
          case (Inl x)
          with 1(2) Some p h q 4 len show ?thesis by (auto simp: decode_body.simps[of L v s])
        next
          case (Inr w)
          obtain v' rest' where w: "w = (v', rest')" by fastforce
          obtain data' where d: "decode_body L v' rest' = Some (Done data' e)" "data = ?d @ data'"
            using 1(2) Some p h q 4 Inr w by (auto simp: decode_body.simps[of L v s] elim!: prepend.elims)
          have guards: "n \<noteq> 0" "\<not> n < 0" using 4 by simp_all
          have "length data' \<le> length rest'"
            by (rule 1(1)[OF _ p[symmetric] _ q[symmetric] guards 4(2) refl _ w[symmetric] d(1)]) (use Some p h q Inr in simp_all)
          moreover have "length rest' \<le> length (drop (nat n) rest)"
            using chunk_end_length Inr w by blast
          ultimately show ?thesis using d(2) len 4 by simp
        qed
      qed (use 1(2) Some p h q len in \<open>auto simp: decode_body.simps[of L v s]\<close>)
    qed
  qed
qed

text \<open>C40. The chunked reader always comes to an end and does not depend on the buffers it is read with:
  for any positive buffer sizes, reading until EOF or an error takes at most one read per byte of the
  body and one more, yields what the reference decoder computes from the whole body, and never yields more
  bytes than the body has.\<close>

theorem chunked_reader_is_decoder:
  assumes "\<forall>i. 0 < sizes i" "length body < fuel"
  shows "read_all L sizes fuel '''' (new_reader v body) = decode_body L v body \<and>
    read_all L sizes fuel '''' (new_reader v body) \<noteq> Some Running \<and>
    (\<forall>data e. read_all L sizes fuel '''' (new_reader v body) = Some (Done data e) \<longrightarrow>
       length data \<le> length body)"
  using new_reader_decodes[OF assms] decode_not_running decode_length by metis

text \<open>C36. Round trip: a body made of well-formed chunks, which with a verifier carry the signature chain
  that starts at the verifier's seed, and a last header of size zero, is read as exactly the data of its
  chunks and then EOF.\<close>

theorem chunked_roundtrip:
  assumes "chain L v cs" "\<forall>c\<in>set cs. well_formed_chunk c" "list_all printable fin"
    and "\<forall>i. 0 < sizes i"
    and "length (concat (map chunk_text cs) @ header_text 0 fin @ CRLF @ tail) < fuel"
  shows "read_all L sizes fuel ''''
      (new_reader v (concat (map chunk_text cs) @ header_text 0 fin @ CRLF @ tail)) =
    Some (Done (concat (map snd cs)) None)"
proof -
  have "decode_body L w (header_text 0 fin @ CRLF @ tail) = Some (Done '''' None)" for w
    using header_of_text[of 0 fin] assms(3) by (intro decode_last) simp_all
  from decode_chunks[OF assms(1,2) this] show ?thesis by (simp only: new_reader_decodes[OF assms(4,5)])
qed

text \<open>C37. What a verifying reader accepts is signed: when it reads a body to the end without an error,
  the body is a sequence of chunks, the signature in the header of each chunk is the one computed from the
  secret, the signature before it and its data, and the data read are those of the chunks.\<close>

theorem verified_body_sound:
  assumes "\<forall>i. 0 < sizes i" "length body < fuel"
    and "read_all L sizes fuel '''' (new_reader (Some w) body) = Some (Done data None)"
  shows "\<exists>cs. chunk_seq body cs \<and> chain L (Some w) cs \<and> data = concat (map snd cs)"
  using decode_sound assms(3) new_reader_decodes[OF assms(1,2)] by metis

lemma header_of_plain:
  assumes "list_all printable t" "CHR '';'' \<notin> set t"
  shows "CHR 0x0A \<notin> set t" "header_of (t @ CRLF) = map_option (\<lambda>n. (n, '''')) (parse_int16 t)"
proof -
  have "\<not> printable CHR 0x0A" by (simp add: printable_def)
  then show nl: "CHR 0x0A \<notin> set t" using assms(1) by (auto simp: list_all_iff)
  show "header_of (t @ CRLF) = map_option (\<lambda>n. (n, '''')) (parse_int16 t)"
    by (simp add: header_of_def trim_line[OF nl] str_split2_char(2)[OF assms(2)] trim_space_printable[OF assms(1)])
qed

text \<open>The end of the body is not signed: a correctly signed body that is cut after any chunk and closed
  with an unsigned header of size zero is accepted by a verifying reader as the shorter object.\<close>

theorem truncation_accepted:
  assumes "chain L (Some w) (cs @ rest_cs)" "\<forall>c\<in>set cs. well_formed_chunk c"
    and "\<forall>i. 0 < sizes i" "length (concat (map chunk_text cs) @ ''0'' @ CRLF) < fuel"
  shows "read_all L sizes fuel '''' (new_reader (Some w) (concat (map chunk_text cs) @ ''0'' @ CRLF)) =
    Some (Done (concat (map snd cs)) None)"
proof -
  have "parse_int16 ''0'' = Some 0" by (simp add: parse_int16_def hex_val_def has_prefix_def)
  with header_of_plain(2)[of "''0''"] have "header_of (''0'' @ CRLF) = Some (0, '''')"
    by (simp add: printable_def)
  then have "decode_body L v (''0'' @ CRLF @ '''') = Some (Done '''' None)" for v
    by (intro decode_last) simp_all
  then have "decode_body L v (''0'' @ CRLF) = Some (Done '''' None)" for v by simp
  from decode_chunks[OF chain_append[OF assms(1)] assms(2) this] show ?thesis
    by (simp only: new_reader_decodes[OF assms(3,4)])
qed

text \<open>A chunk header with a negative size makes the reader panic: the slice of the buffer gets a
  negative bound.\<close>

theorem negative_size_panics:
  "Read L n (NewChunkedReader (''-1'' @ CRLF)) = None"
proof -
  have "parse_int16 ''-1'' = Some (- 1)" by (simp add: parse_int16_def hex_val_def has_prefix_def)
  with header_of_plain[of "''-1''"] have h: "CHR 0x0A \<notin> set ''-1''" "header_of (''-1'' @ CRLF) = Some (- 1, '''')"
    by (simp_all add: printable_def)
  from read_line_append[OF h(1), of "''''"] have "read_line (''-1'' @ CRLF) = Some (''-1'' @ CRLF, '''')"
    by simp
  with h(2) show ?thesis by (simp add: Read_def readChunkHeader_alt read_chunk_data_def NewChunkedReader_def Let_def)
qed


section \<open>Instances\<close>

definition ex_verifier :: chunk_verifier where
  "ex_verifier = \<lparr>cv_secretKey = ''SK'', cv_timestamp = 0, cv_region = ''us'', cv_previousSignature = ''seed''\<rparr>"

definition ex_chunks :: "(string \<times> string) list" where
  "ex_chunks = [(''6b'', ''ab''), (''6b'', ''c'')]"

lemma ex_chunk_signature: "computeChunkSignature ex_sig w d = ''6b''"
  by (simp add: computeChunkSignature_def ex_sig_signature)

lemma ex_chunks_ok: "chain ex_sig (Some w) ex_chunks" "\<forall>c\<in>set ex_chunks. well_formed_chunk c"
  by (simp_all add: ex_chunks_def ex_chunk_signature well_formed_chunk_def printable_def)

theorem chunked_reader_is_decoder_witness:
  "read_all ex_sig (\<lambda>_. 1) 100 '''' (new_reader None ''zz'') = decode_body ex_sig None ''zz''"
  using chunked_reader_is_decoder[of "\<lambda>_. 1" "''zz''" 100 ex_sig None] by simp

theorem chunked_roundtrip_witness:
  "read_all ex_sig (\<lambda>_. 2) (Suc (length (concat (map chunk_text ex_chunks) @ header_text 0 ''6b'' @ CRLF @ ''''))) ''''
     (new_reader (Some ex_verifier) (concat (map chunk_text ex_chunks) @ header_text 0 ''6b'' @ CRLF @ '''')) =
   Some (Done ''abc'' None)"
proof -
  have "list_all printable ''6b''" by (simp add: printable_def)
  from chunked_roundtrip[OF ex_chunks_ok(1)[of ex_verifier] ex_chunks_ok(2) this _ lessI, of "\<lambda>_. 2" "''''"] show ?thesis
    by (simp del: read_all.simps add: ex_chunks_def)
qed

theorem verified_body_sound_witness:
  "\<exists>cs. chunk_seq (concat (map chunk_text ex_chunks) @ header_text 0 ''6b'' @ CRLF) cs \<and>
     chain ex_sig (Some ex_verifier) cs \<and> concat (map snd ex_chunks) = concat (map snd cs)"
proof -
  let ?body = "concat (map chunk_text ex_chunks) @ header_text 0 ''6b'' @ CRLF"
  have "list_all printable ''6b''" by (simp add: printable_def)
  then have "decode_body ex_sig w (header_text 0 ''6b'' @ CRLF @ '''') = Some (Done '''' None)" for w
    using header_of_text[of 0 "''6b''"] by (intro decode_last) simp_all
  from decode_chunks[OF ex_chunks_ok this[simplified]]
  have "read_all ex_sig (\<lambda>_. 1) (Suc (length ?body)) '''' (new_reader (Some ex_verifier) ?body) =
      Some (Done (concat (map snd ex_chunks)) None)"
    by (subst new_reader_decodes[OF _ lessI]) simp_all
  from verified_body_sound[OF _ lessI this] show ?thesis by simp
qed

theorem truncation_accepted_witness:
  "read_all ex_sig (\<lambda>_. 1) (Suc (length (concat (map chunk_text [(''6b'', ''ab'')]) @ ''0'' @ CRLF))) ''''
     (new_reader (Some ex_verifier) (concat (map chunk_text [(''6b'', ''ab'')]) @ ''0'' @ CRLF)) =
   Some (Done ''ab'' None)"
proof -
  have "chain ex_sig (Some ex_verifier) ([(''6b'', ''ab'')] @ [(''6b'', ''c'')])"
    "\<forall>c\<in>set [(''6b'', ''ab'')]. well_formed_chunk c"
    by (simp_all add: ex_chunk_signature well_formed_chunk_def printable_def)
  from truncation_accepted[OF this _ lessI, of "\<lambda>_. 1"] show ?thesis by (simp del: read_all.simps)
qed

end
