(* ===== verification/FileSystem.thy ===== *)
theory FileSystem
  imports Paths
begin

text \<open>
  The file system under the server is a library (\<^verbatim>\<open>go-billy\<close> over the operating system), so its
  operations are a parameter of the model: the record \<open>fs_ops\<close>, one field for each method the
  storage calls, over an unknown type of file system states. What the storage relies on is stated
  over a view of the states, the files and directories by the elements of their paths: the laws
  \<open>fs_laws\<close>, which follow the documentation of the methods. An operation that changes files may
  fail, and the laws then say what it leaves behind. At the end a small file system is given that
  satisfies the laws.
\<close>

section \<open>Operations\<close>

datatype fs_error = FsNotExist | FsOther

record stat_info =
  sf_name :: string
  sf_isDir :: bool
  sf_size :: int
  sf_modTime :: time

record 'f fs_ops =
  fo_stat :: "string \<Rightarrow> 'f \<Rightarrow> fs_error + stat_info"
  fo_readDir :: "string \<Rightarrow> 'f \<Rightarrow> fs_error + stat_info list"
  fo_readFile :: "string \<Rightarrow> 'f \<Rightarrow> fs_error + string"
  fo_mkdirAll :: "string \<Rightarrow> 'f \<Rightarrow> fs_error option \<times> 'f"
  fo_create :: "string \<Rightarrow> 'f \<Rightarrow> fs_error option \<times> 'f"
  fo_write :: "string \<Rightarrow> string \<Rightarrow> 'f \<Rightarrow> fs_error option \<times> 'f"
  fo_close :: "string \<Rightarrow> 'f \<Rightarrow> fs_error option \<times> 'f"
  fo_rename :: "string \<Rightarrow> string \<Rightarrow> 'f \<Rightarrow> fs_error option \<times> 'f"
  fo_remove :: "string \<Rightarrow> 'f \<Rightarrow> fs_error option \<times> 'f"
  fo_removeAll :: "string \<Rightarrow> 'f \<Rightarrow> fs_error option \<times> 'f"

section \<open>Laws\<close>

datatype fnode = File string time | Folder

type_synonym 'f fs_view = "'f \<Rightarrow> string list \<Rightarrow> fnode option"

definition fpath :: "string list \<Rightarrow> bool" where
  "fpath es \<longleftrightarrow> es \<noteq> [] \<and> list_all plain_elem es"

abbreviation text_of :: "string list \<Rightarrow> string" where
  "text_of es \<equiv> str_join ''/'' es"

text \<open>The root is there, and what exists is below directories; directories may appear on the way to a
  path.\<close>

definition law_tree :: "('f) fs_view \<Rightarrow> bool" where
  "law_tree V \<longleftrightarrow> (\<forall>f. V f [] = Some Folder \<and> (\<forall>es e. V f (es @ [e]) \<noteq> None \<longrightarrow> V f es = Some Folder))"

definition same_but_dirs :: "('f) fs_view \<Rightarrow> string list \<Rightarrow> 'f \<Rightarrow> 'f \<Rightarrow> string list \<Rightarrow> bool" where
  "same_but_dirs V es f f' q \<longleftrightarrow>
     V f' q = V f q \<or> (prefix q es \<and> V f q = None \<and> V f' q = Some Folder)"

definition law_stat :: "('f) fs_ops \<Rightarrow> ('f) fs_view \<Rightarrow> bool" where
  "law_stat F V \<longleftrightarrow> (\<forall>f es. fpath es \<longrightarrow>
     (case V f es of
        Some Folder \<Rightarrow> (\<exists>i. fo_stat F (text_of es) f = Inr i \<and> sf_isDir i)
      | Some (File c t) \<Rightarrow>
          (\<exists>i. fo_stat F (text_of es) f = Inr i \<and> \<not> sf_isDir i \<and> sf_size i = int (length c) \<and>
             sf_modTime i = t)
      | None \<Rightarrow>
          fo_stat F (text_of es) f =
            Inl (if \<exists>q c t. strict_prefix q es \<and> V f q = Some (File c t) then FsOther else FsNotExist)))"

text \<open>An element of a path is a name that is neither empty nor a dot path and has no separator and no NUL.
  \<open>ReadDir\<close> gives each entry of the directory once, with its kind, size and time.\<close>

definition file_name :: "string \<Rightarrow> bool" where
  "file_name e \<longleftrightarrow> plain_elem e \<and> CHR 0x00 \<notin> set e"

definition describes :: "fnode option \<Rightarrow> stat_info \<Rightarrow> bool" where
  "describes n i =
     (case n of
        Some Folder \<Rightarrow> sf_isDir i
      | Some (File c t) \<Rightarrow> \<not> sf_isDir i \<and> sf_size i = int (length c) \<and> sf_modTime i = t
      | None \<Rightarrow> False)"

definition law_readDir :: "('f) fs_ops \<Rightarrow> ('f) fs_view \<Rightarrow> bool" where
  "law_readDir F V \<longleftrightarrow> (\<forall>f es. fpath es \<longrightarrow>
     (case V f es of
        Some Folder \<Rightarrow> (\<exists>is. fo_readDir F (text_of es) f = Inr is \<and> distinct (map sf_name is) \<and>
          sf_name ` set is = {e. file_name e \<and> V f (es @ [e]) \<noteq> None} \<and>
          (\<forall>i\<in>set is. describes (V f (es @ [sf_name i])) i))
      | _ \<Rightarrow> (\<exists>e. fo_readDir F (text_of es) f = Inl e)))"

definition law_readFile :: "('f) fs_ops \<Rightarrow> ('f) fs_view \<Rightarrow> bool" where
  "law_readFile F V \<longleftrightarrow> (\<forall>f es. fpath es \<longrightarrow>
     (case V f es of
        Some (File c t) \<Rightarrow> fo_readFile F (text_of es) f = Inr c
      | _ \<Rightarrow> (\<exists>e. fo_readFile F (text_of es) f = Inl e)))"

definition law_mkdirAll :: "('f) fs_ops \<Rightarrow> ('f) fs_view \<Rightarrow> bool" where
  "law_mkdirAll F V \<longleftrightarrow> (\<forall>f es err f'. fpath es \<longrightarrow> fo_mkdirAll F (text_of es) f = (err, f') \<longrightarrow>
     (\<forall>q. same_but_dirs V es f f' q) \<and> (err = None \<longrightarrow> V f' es = Some Folder) \<and>
     (V f es = Some Folder \<longrightarrow> err = None))"

text \<open>\<open>Create\<close> truncates, and makes the directories on the way.\<close>

definition law_create :: "('f) fs_ops \<Rightarrow> ('f) fs_view \<Rightarrow> bool" where
  "law_create F V \<longleftrightarrow> (\<forall>f es err f'. fpath es \<longrightarrow> fo_create F (text_of es) f = (err, f') \<longrightarrow>
     (\<forall>q. q \<noteq> es \<longrightarrow> same_but_dirs V es f f' q) \<and>
     (case err of None \<Rightarrow> (\<exists>t. V f' es = Some (File '''' t)) | Some _ \<Rightarrow> V f' es = V f es))"

text \<open>Writing appends to a file that was created before; a failed write may have written a part.\<close>

definition law_write :: "('f) fs_ops \<Rightarrow> ('f) fs_view \<Rightarrow> bool" where
  "law_write F V \<longleftrightarrow> (\<forall>f es c t d err f'. fpath es \<longrightarrow> V f es = Some (File c t) \<longrightarrow>
     fo_write F (text_of es) d f = (err, f') \<longrightarrow>
     (\<forall>q. q \<noteq> es \<longrightarrow> V f' q = V f q) \<and>
     (\<exists>c' t'. V f' es = Some (File c' t') \<and> (err = None \<longrightarrow> c' = c @ d)))"

definition law_close :: "('f) fs_ops \<Rightarrow> ('f) fs_view \<Rightarrow> bool" where
  "law_close F V \<longleftrightarrow> (\<forall>f es err f'. fpath es \<longrightarrow> fo_close F (text_of es) f = (err, f') \<longrightarrow> V f' = V f)"

text \<open>\<open>Rename\<close> of a file replaces the target at once, or does nothing.\<close>

definition law_rename :: "('f) fs_ops \<Rightarrow> ('f) fs_view \<Rightarrow> bool" where
  "law_rename F V \<longleftrightarrow> (\<forall>f es es' c t err f'.
     fpath es \<longrightarrow> fpath es' \<longrightarrow> es \<noteq> es' \<longrightarrow> V f es = Some (File c t) \<longrightarrow>
     fo_rename F (text_of es) (text_of es') f = (err, f') \<longrightarrow>
     (case err of
        None \<Rightarrow> V f' es' = Some (File c t) \<and> V f' es = None \<and> V f es' \<noteq> Some Folder \<and>
          (\<forall>q. q \<noteq> es \<longrightarrow> q \<noteq> es' \<longrightarrow> same_but_dirs V es' f f' q)
      | Some _ \<Rightarrow> (\<forall>q. V f' q = V f q)))"

definition law_remove :: "('f) fs_ops \<Rightarrow> ('f) fs_view \<Rightarrow> bool" where
  "law_remove F V \<longleftrightarrow> (\<forall>f es err f'. fpath es \<longrightarrow> fo_remove F (text_of es) f = (err, f') \<longrightarrow>
     (\<forall>q. q \<noteq> es \<longrightarrow> V f' q = V f q) \<and> V f' es = (if err = None then None else V f es))"

definition law_removeAll :: "('f) fs_ops \<Rightarrow> ('f) fs_view \<Rightarrow> bool" where
  "law_removeAll F V \<longleftrightarrow> (\<forall>f es err f'. fpath es \<longrightarrow> fo_removeAll F (text_of es) f = (err, f') \<longrightarrow>
     (\<forall>q. \<not> prefix es q \<longrightarrow> V f' q = V f q) \<and>
     (\<forall>q. prefix es q \<longrightarrow> V f' q = V f q \<or> V f' q = None) \<and>
     (err = None \<longrightarrow> V f' es = None))"

definition fs_laws :: "('f) fs_ops \<Rightarrow> ('f) fs_view \<Rightarrow> bool" where
  "fs_laws F V \<longleftrightarrow>
     law_tree V \<and> law_stat F V \<and> law_readDir F V \<and> law_readFile F V \<and> law_mkdirAll F V \<and>
     law_create F V \<and> law_write F V \<and> law_close F V \<and> law_rename F V \<and> law_remove F V \<and>
     law_removeAll F V"

end
