(* ===== verification/Storage.thy ===== *)
theory Storage
  imports FileSystem Signature Listing
begin

text \<open>
  \<^verbatim>\<open>internal/persistence/storage/{storage,object,staging}.go\<close>: buckets and objects on the file system.
  The state is a state of the file system, whose operations are a parameter (theory FileSystem),
  and the store of the metadata manager. MD5 is a parameter too. The clock, the user of the request
  context, the random name of the staged file, whether the metadata file can be written and whether
  the request is cancelled before the upload is finalized are the fields of \<open>put_env\<close>; other
  cancellations are reported by the body. The lock of \<open>PutObject\<close> makes its last part one step.
\<close>

section \<open>State\<close>

record 'f storage =
  sg_fs :: 'f
  sg_meta :: meta_store

datatype store_error =
    SErr storage_error | SPath path_error | SFs fs_error | SMeta meta_error
  | SBody | SCancelled | SMetaSave

record put_env =
  pe_now :: time
  pe_user :: "iam_user option"
  pe_tmp :: string
  pe_metaFails :: bool
  pe_cancelled :: bool

text \<open>The \<open>Object\<close> of the storage, with its content read to the end.\<close>

record stored_object =
  sb_key :: string
  sb_size :: int
  sb_contentType :: string
  sb_etag :: string
  sb_lastModified :: time
  sb_content :: string
  sb_customMetadata :: "(string \<times> string) list"

section \<open>Buckets\<close>

definition BucketExists :: "('f) fs_ops \<Rightarrow> string \<Rightarrow> ('f) storage \<Rightarrow> store_error + bool" where
  "BucketExists F bucket s =
     (case fo_stat F bucket (sg_fs s) of
        Inr _ \<Rightarrow> Inr True
      | Inl FsNotExist \<Rightarrow> Inr False
      | Inl e \<Rightarrow> Inl (SFs e))"

text \<open>The scoped file systems of a bucket and of its staging area; both create their root.\<close>

definition open_scoped ::
  "('f) fs_ops \<Rightarrow> path_error + string \<Rightarrow> ('f) storage \<Rightarrow> (store_error + string) \<times> ('f) storage" where
  "open_scoped F scope s =
     (case scope of
        Inl e \<Rightarrow> (Inl (SPath e), s)
      | Inr base \<Rightarrow>
          (case fo_mkdirAll F base (sg_fs s) of
             (Some e, fs) \<Rightarrow> (Inl (SFs e), s\<lparr>sg_fs := fs\<rparr>)
           | (None, fs) \<Rightarrow> (Inr base, s\<lparr>sg_fs := fs\<rparr>)))"

definition GetBucketFS ::
  "('f) fs_ops \<Rightarrow> string \<Rightarrow> ('f) storage \<Rightarrow> (store_error + string) \<times> ('f) storage" where
  "GetBucketFS F bucket = open_scoped F (NewBucketFS bucket)"

definition GetUploadStagingFS ::
  "('f) fs_ops \<Rightarrow> string \<Rightarrow> ('f) storage \<Rightarrow> (store_error + string) \<times> ('f) storage" where
  "GetUploadStagingFS F bucket = open_scoped F (NewUploadStagingFS bucket)"

text \<open>Names and modification times.\<close>

definition ListBuckets :: "('f) fs_ops \<Rightarrow> ('f) storage \<Rightarrow> store_error + (string \<times> time) list" where
  "ListBuckets F s =
     (case fo_readDir F ''.'' (sg_fs s) of
        Inl e \<Rightarrow> Inl (SFs e)
      | Inr entries \<Rightarrow>
          Inr (map (\<lambda>i. (sf_name i, sf_modTime i))
                (filter (\<lambda>i. sf_isDir i \<and>
                   \<not> (sf_name i = MinioMetadataDir \<or> sf_name i = DirIOMetadataDir \<or> hd (sf_name i) = CHR ''.''))
                  entries)))"

definition CreateBucket ::
  "('f) fs_ops \<Rightarrow> time \<Rightarrow> iam_user option \<Rightarrow> string \<Rightarrow> ('f) storage \<Rightarrow> store_error option \<times> ('f) storage" where
  "CreateBucket F now user bucket s =
     (case ValidatePathSafe bucket of
        Some e \<Rightarrow> (Some (SPath e), s)
      | None \<Rightarrow>
          (case fo_stat F bucket (sg_fs s) of
             Inr _ \<Rightarrow> (Some (SErr ErrBucketExists), s)
           | Inl _ \<Rightarrow>
               (case fo_mkdirAll F bucket (sg_fs s) of
                  (Some e, fs) \<Rightarrow> (Some (SFs e), s\<lparr>sg_fs := fs\<rparr>)
                | (None, fs) \<Rightarrow>
                    (case MetaCreateBucket now user bucket (sg_meta s) of
                       (Some e, meta) \<Rightarrow>
                         (Some (SMeta e), s\<lparr>sg_fs := snd (fo_remove F bucket fs), sg_meta := meta\<rparr>)
                     | (None, meta) \<Rightarrow> (None, s\<lparr>sg_fs := fs, sg_meta := meta\<rparr>)))))"

definition DeleteBucket ::
  "('f) fs_ops \<Rightarrow> string \<Rightarrow> ('f) storage \<Rightarrow> store_error option \<times> ('f) storage" where
  "DeleteBucket F bucket s =
     (case fo_stat F bucket (sg_fs s) of
        Inl FsNotExist \<Rightarrow> (Some (SErr ErrNoSuchBucket), s)
      | Inl e \<Rightarrow> (Some (SFs e), s)
      | Inr info \<Rightarrow>
          if \<not> sf_isDir info then (Some (SErr ErrNoSuchBucket), s)
          else case fo_readDir F bucket (sg_fs s) of
            Inl e \<Rightarrow> (Some (SFs e), s)
          | Inr entries \<Rightarrow>
              if entries \<noteq> [] then (Some (SErr ErrBucketNotEmpty), s)
              else case fo_remove F bucket (sg_fs s) of
                (Some e, fs) \<Rightarrow> (Some (SFs e), s\<lparr>sg_fs := fs\<rparr>)
              | (None, fs) \<Rightarrow>
                  (case MetaDeleteBucket bucket (sg_meta s) of
                     (err, meta) \<Rightarrow> (map_option SMeta err, s\<lparr>sg_fs := fs, sg_meta := meta\<rparr>)))"

section \<open>Staging (staging.go)\<close>

text \<open>\<open>stageObject\<close> creates an empty file and returns its path from the root.\<close>

definition stageObject ::
  "('f) fs_ops \<Rightarrow> string \<Rightarrow> string \<Rightarrow> ('f) storage \<Rightarrow> (store_error + string) \<times> ('f) storage" where
  "stageObject F tmpName bucket s =
     (case GetUploadStagingFS F bucket s of
        (Inl e, s) \<Rightarrow> (Inl e, s)
      | (Inr base, s) \<Rightarrow>
          (case fo_create F (scoped_join base tmpName) (sg_fs s) of
             (Some e, fs) \<Rightarrow> (Inl (SFs e), s\<lparr>sg_fs := fs\<rparr>)
           | (None, fs) \<Rightarrow> (Inr (path_join [DirIOUploadsDir, bucket, tmpName]), s\<lparr>sg_fs := fs\<rparr>)))"

definition commitObject ::
  "('f) fs_ops \<Rightarrow> string \<Rightarrow> string \<Rightarrow> string \<Rightarrow> ('f) storage \<Rightarrow> store_error option \<times> ('f) storage" where
  "commitObject F stagedPath bucket objectPath s =
     (case fo_rename F stagedPath (path_join [bucket, objectPath]) (sg_fs s) of
        (err, fs) \<Rightarrow> (map_option SFs err, s\<lparr>sg_fs := fs\<rparr>))"

definition abortObject :: "('f) fs_ops \<Rightarrow> string \<Rightarrow> ('f) storage \<Rightarrow> ('f) storage" where
  "abortObject F stagedPath s = s\<lparr>sg_fs := snd (fo_remove F stagedPath (sg_fs s))\<rparr>"

definition CleanupMultipartUpload ::
  "('f) fs_ops \<Rightarrow> string \<Rightarrow> string \<Rightarrow> ('f) storage \<Rightarrow> store_error option \<times> ('f) storage" where
  "CleanupMultipartUpload F bucket uploadID s =
     (case GetUploadStagingFS F bucket s of
        (Inl e, s) \<Rightarrow> (Some e, s)
      | (Inr base, s) \<Rightarrow>
          (case fo_removeAll F (scoped_join base uploadID) (sg_fs s) of
             (err, fs) \<Rightarrow> (map_option SFs err, s\<lparr>sg_fs := fs\<rparr>)))"

text \<open>The sweep at start-up: errors are logged and skipped.\<close>

definition sweep_dir :: "('f) fs_ops \<Rightarrow> string \<Rightarrow> 'f \<Rightarrow> 'f" where
  "sweep_dir F stagingPath fs =
     (case fo_readDir F stagingPath fs of
        Inl _ \<Rightarrow> fs
      | Inr entries \<Rightarrow>
          fold (\<lambda>e fs. snd (fo_removeAll F (path_join [stagingPath, sf_name e]) fs)) entries fs)"

definition cleanup :: "('f) fs_ops \<Rightarrow> 'f \<Rightarrow> 'f" where
  "cleanup F fs =
     (case fo_readDir F DirIOUploadsDir fs of
        Inl _ \<Rightarrow> fs
      | Inr buckets \<Rightarrow> fold (\<lambda>b. sweep_dir F (path_join [DirIOUploadsDir, sf_name b])) buckets fs)"

definition NewStorage :: "('f) fs_ops \<Rightarrow> 'f \<Rightarrow> meta_store \<Rightarrow> ('f) storage" where
  "NewStorage F fs meta = \<lparr>sg_fs = cleanup F fs, sg_meta = meta\<rparr>"

section \<open>Reading objects\<close>

definition calculateETag :: "('f) fs_ops \<Rightarrow> (string \<Rightarrow> string) \<Rightarrow> string \<Rightarrow> ('f) storage \<Rightarrow> string" where
  "calculateETag F md5 filePath s =
     (case fo_readFile F filePath (sg_fs s) of
        Inl _ \<Rightarrow> ''''
      | Inr c \<Rightarrow> [CHR 0x22] @ hex_encode (md5 c) @ [CHR 0x22])"

text \<open>The checks with which reading, its metadata and deletion start: the bucket exists, the key is a
  safe path, and there is a file at it. The result is the path from the root and its \<open>Stat\<close>.\<close>

definition find_object ::
  "('f) fs_ops \<Rightarrow> string \<Rightarrow> string \<Rightarrow> ('f) storage \<Rightarrow> (store_error + string \<times> stat_info) \<times> ('f) storage" where
  "find_object F bucket key s =
     (case BucketExists F bucket s of
        Inl e \<Rightarrow> (Inl e, s)
      | Inr False \<Rightarrow> (Inl (SErr ErrNoSuchBucket), s)
      | Inr True \<Rightarrow>
          (case ValidatePathSafe key of
             Some e \<Rightarrow> (Inl (SPath e), s)
           | None \<Rightarrow>
               (case GetBucketFS F bucket s of
                  (Inl e, s) \<Rightarrow> (Inl e, s)
                | (Inr base, s) \<Rightarrow>
                    (case fo_stat F (scoped_join base key) (sg_fs s) of
                       Inl FsNotExist \<Rightarrow> (Inl (SErr ErrNoSuchKey), s)
                     | Inl e \<Rightarrow> (Inl (SFs e), s)
                     | Inr info \<Rightarrow>
                         if sf_isDir info then (Inl (SErr ErrNoSuchKey), s)
                         else (Inr (scoped_join base key, info), s)))))"

text \<open>The metadata of an object that is there, made up when there is none.\<close>

definition object_metadata_or_basic ::
  "('f) fs_ops \<Rightarrow> (string \<Rightarrow> string) \<Rightarrow> string \<Rightarrow> string \<Rightarrow> string \<Rightarrow> stat_info \<Rightarrow> ('f) storage
     \<Rightarrow> object_metadata \<times> ('f) storage" where
  "object_metadata_or_basic F md5 bucket key filePath info s =
     (case GetObjectMetadata bucket key (sg_meta s) of
        (Inr meta, st) \<Rightarrow> (meta, s\<lparr>sg_meta := st\<rparr>)
      | (Inl _, st) \<Rightarrow>
          (\<lparr>om_version = ObjectMetadataVersion, om_owner = None,
            om_contentType = ''application/octet-stream'', om_size = sf_size info,
            om_etag = calculateETag F md5 filePath s, om_lastModified = sf_modTime info,
            om_customMetadata = [], om_tags = []\<rparr>, s\<lparr>sg_meta := st\<rparr>))"

definition GetObject ::
  "('f) fs_ops \<Rightarrow> (string \<Rightarrow> string) \<Rightarrow> string \<Rightarrow> string \<Rightarrow> ('f) storage
     \<Rightarrow> (store_error + stored_object) \<times> ('f) storage" where
  "GetObject F md5 bucket key s =
     (case find_object F bucket key s of
        (Inl e, s) \<Rightarrow> (Inl e, s)
      | (Inr (filePath, info), s) \<Rightarrow>
          (case fo_readFile F filePath (sg_fs s) of
             Inl e \<Rightarrow> (Inl (SFs e), s)
           | Inr content \<Rightarrow>
               (case object_metadata_or_basic F md5 bucket key filePath info s of
                  (meta, s) \<Rightarrow>
                    (Inr \<lparr>sb_key = key, sb_size = sf_size info, sb_contentType = om_contentType meta,
                          sb_etag = om_etag meta, sb_lastModified = sf_modTime info,
                          sb_content = content, sb_customMetadata = om_customMetadata meta\<rparr>, s))))"

definition StorageGetObjectMetadata ::
  "('f) fs_ops \<Rightarrow> (string \<Rightarrow> string) \<Rightarrow> string \<Rightarrow> string \<Rightarrow> ('f) storage
     \<Rightarrow> (store_error + object_metadata) \<times> ('f) storage" where
  "StorageGetObjectMetadata F md5 bucket key s =
     (case find_object F bucket key s of
        (Inl e, s) \<Rightarrow> (Inl e, s)
      | (Inr (filePath, info), s) \<Rightarrow>
          (case object_metadata_or_basic F md5 bucket key filePath info s of
             (meta, s) \<Rightarrow> (Inr meta, s)))"

section \<open>Writing objects\<close>

text \<open>The content comes with whether reading it ends in an error. \<open>write_staged\<close> is the copy into
  the staged file with its error paths.\<close>

definition write_staged ::
  "('f) fs_ops \<Rightarrow> string \<Rightarrow> string \<times> bool \<Rightarrow> ('f) storage \<Rightarrow> store_error option \<times> ('f) storage" where
  "write_staged F stagedPath body s =
     (case fo_write F stagedPath (fst body) (sg_fs s) of
        (Some e, fs) \<Rightarrow>
          (Some (SFs e), abortObject F stagedPath (s\<lparr>sg_fs := snd (fo_close F stagedPath fs)\<rparr>))
      | (None, fs) \<Rightarrow>
          if snd body
          then (Some SBody, abortObject F stagedPath (s\<lparr>sg_fs := snd (fo_close F stagedPath fs)\<rparr>))
          else case fo_close F stagedPath fs of
                 (Some e, fs) \<Rightarrow> (Some (SFs e), abortObject F stagedPath (s\<lparr>sg_fs := fs\<rparr>))
               | (None, fs) \<Rightarrow> (None, s\<lparr>sg_fs := fs\<rparr>))"

definition put_owner :: "iam_user option \<Rightarrow> uuid option" where
  "put_owner user =
     (case user of
        None \<Rightarrow> None
      | Some u \<Rightarrow> if u_uuid u \<noteq> AdminUserUUID then Some (u_uuid u) else None)"

text \<open>The last step, after the commit: the metadata, and the rollback when it cannot be written.\<close>

definition save_put_metadata ::
  "('f) fs_ops \<Rightarrow> put_env \<Rightarrow> string \<Rightarrow> string \<Rightarrow> object_metadata \<Rightarrow> ('f) storage
     \<Rightarrow> (store_error + string) \<times> ('f) storage" where
  "save_put_metadata F env bucket key meta s =
     (if pe_metaFails env then
        if om_customMetadata meta \<noteq> []
        then (Inl SMetaSave, s\<lparr>sg_fs := snd (fo_remove F (scoped_join bucket key) (sg_fs s))\<rparr>)
        else (Inr (om_etag meta), s)
      else (Inr (om_etag meta), s\<lparr>sg_meta := PutObjectMetadata bucket key meta (sg_meta s)\<rparr>))"

definition make_parents ::
  "('f) fs_ops \<Rightarrow> string \<Rightarrow> string \<Rightarrow> ('f) storage \<Rightarrow> store_error option \<times> ('f) storage" where
  "make_parents F base objectPath s =
     (let dir = path_dir objectPath
      in if dir \<noteq> ''.'' \<and> dir \<noteq> '''' then
           (case fo_mkdirAll F (scoped_join base dir) (sg_fs s) of
              (err, fs) \<Rightarrow> (map_option SFs err, s\<lparr>sg_fs := fs\<rparr>))
         else (None, s))"

definition PutObject ::
  "('f) fs_ops \<Rightarrow> (string \<Rightarrow> string) \<Rightarrow> put_env \<Rightarrow> string \<Rightarrow> string \<Rightarrow> string \<times> bool \<Rightarrow> string
     \<Rightarrow> (string \<times> string) list \<Rightarrow> ('f) storage \<Rightarrow> (store_error + string) \<times> ('f) storage" where
  "PutObject F md5 env bucket key body contentType customMetadata s =
     (case BucketExists F bucket s of
        Inl e \<Rightarrow> (Inl e, s)
      | Inr False \<Rightarrow> (Inl (SErr ErrNoSuchBucket), s)
      | Inr True \<Rightarrow>
     (case ValidatePathSafe key of
        Some e \<Rightarrow> (Inl (SPath e), s)
      | None \<Rightarrow>
     (case GetBucketFS F bucket s of
        (Inl e, s) \<Rightarrow> (Inl e, s)
      | (Inr base, s) \<Rightarrow>
     (case make_parents F base key s of
        (Some e, s) \<Rightarrow> (Inl e, s)
      | (None, s) \<Rightarrow>
     (case stageObject F (pe_tmp env) bucket s of
        (Inl e, s) \<Rightarrow> (Inl e, s)
      | (Inr stagedPath, s) \<Rightarrow>
     (case write_staged F stagedPath body s of
        (Some e, s) \<Rightarrow> (Inl e, s)
      | (None, s) \<Rightarrow>
          if pe_cancelled env then (Inl SCancelled, s)
          else case commitObject F stagedPath bucket key s of
            (Some e, s) \<Rightarrow> (Inl e, abortObject F stagedPath s)
          | (None, s) \<Rightarrow>
              save_put_metadata F env bucket key
                \<lparr>om_version = ObjectMetadataVersion, om_owner = put_owner (pe_user env),
                  om_contentType = contentType, om_size = int (length (fst body)),
                  om_etag = hex_encode (md5 (fst body)), om_lastModified = pe_now env,
                  om_customMetadata = customMetadata, om_tags = []\<rparr> s))))))"

section \<open>Deleting objects\<close>

text \<open>Directories that have become empty are removed up to the bucket. The recursion goes from a
  directory to its parent; \<open>path_dir\<close> makes paths shorter.\<close>

function cleanupEmptyDirs ::
  "('f) fs_ops \<Rightarrow> string \<Rightarrow> string \<Rightarrow> 'f \<Rightarrow> fs_error option \<times> 'f" where
  "cleanupEmptyDirs F base dir fs =
     (if dir = ''.'' \<or> dir = '''' \<or> dir = ''/'' then (None, fs)
      else case fo_readDir F (scoped_join base dir) fs of
             Inl e \<Rightarrow> (Some e, fs)
           | Inr entries \<Rightarrow>
               if entries \<noteq> [] then (None, fs)
               else case fo_remove F (scoped_join base dir) fs of
                      (Some e, fs') \<Rightarrow> (Some e, fs')
                    | (None, fs') \<Rightarrow> cleanupEmptyDirs F base (path_dir dir) fs')"
  by pat_completeness auto


definition elems_weight :: "string list \<Rightarrow> nat" where
  "elems_weight ws = sum_list (map (\<lambda>w. Suc (length w)) ws)"

lemma elems_weight_simps [simp]:
  "elems_weight [] = 0" "elems_weight (w # ws) = Suc (length w) + elems_weight ws"
  "elems_weight (ws @ us) = elems_weight ws + elems_weight us" "elems_weight (rev ws) = elems_weight ws"
  by (simp_all add: elems_weight_def sum_list_rev flip: rev_map)

lemma clean_elems_weight: "elems_weight (clean_elems rooted stack ws) \<le> elems_weight stack + elems_weight ws"
proof (induction rooted stack ws rule: clean_elems.induct)
  case (2 rooted stack w ws)
  then show ?case by (auto split: list.split)
qed simp

lemma join_weight: "ws \<noteq> [] \<Longrightarrow> Suc (length (str_join ''/'' ws)) = elems_weight ws"
  by (induction "''/''" ws rule: str_join.induct) auto

lemma split_weight: "elems_weight (str_split p ''/'') = Suc (length p)"
  using join_weight[of "str_split p ''/''"] by (simp add: str_split_char_ne str_join_split_char)

lemma clean_trailing: "clean_elems rooted stack (ws @ ['''']) = clean_elems rooted stack ws"
  by (induction rooted stack ws rule: clean_elems.induct) (auto split: list.split)

lemma path_clean_dir_length:
  assumes "path_clean (q @ ''/'') \<notin> {''.'', ''/''}"
  shows "length (path_clean (q @ ''/'')) \<le> length q"
proof -
  let ?rooted = "has_prefix (q @ ''/'') ''/''"
  let ?out = "clean_elems ?rooted [] (str_split q ''/'')"
  have split: "str_split (q @ ''/'') ''/'' = str_split q ''/'' @ ['''']"
    using str_split_char_append[of q "CHR ''/''" "''''"] by simp
  then have c: "path_clean (q @ ''/'') = (if ?rooted then ''/'' @ str_join ''/'' ?out
      else if str_join ''/'' ?out = '''' then ''.'' else str_join ''/'' ?out)"
    by (simp add: path_clean_def Let_def clean_trailing)
  have ne: "?out \<noteq> []" using assms unfolding c by (auto split: if_splits)
  show ?thesis
  proof (cases q)
    case Nil
    then have "path_clean (q @ ''/'') = ''/''" unfolding c by (simp add: has_prefix_def)
    with assms show ?thesis by simp
  next
    case (Cons a q')
    have w: "elems_weight ?out \<le> (if ?rooted then length q else Suc (length q))"
    proof (cases "?rooted")
      case True
      then have "q = CHR ''/'' # q'" using Cons by (simp add: has_prefix_def)
      then have "?out = clean_elems True [] (str_split q' ''/'')" using True by (simp add: str_split_char_Cons)
      then show ?thesis
        using clean_elems_weight[of True "[]" "str_split q' ''/''"] True Cons by (simp add: split_weight)
    next
      case False
      then show ?thesis using clean_elems_weight[of False "[]" "str_split q ''/''"] by (simp add: split_weight)
    qed
    with join_weight[OF ne] assms show ?thesis unfolding c by (auto split: if_splits)
  qed
qed

lemma path_dir_shorter:
  assumes "dir \<notin> {''.'', '''', ''/''}" "path_dir dir \<noteq> ''.''"
  shows "length (path_dir dir) < length dir"
proof -
  let ?q = "rev (dropWhile (\<lambda>c. c \<noteq> CHR ''/'') (rev dir))"
  have d: "path_dir dir = path_clean ?q" by (simp add: path_dir_def)
  have len: "length ?q \<le> length dir" using length_dropWhile_le[of _ "rev dir"] by simp
  have ne: "?q \<noteq> ''''"
  proof
    assume "?q = ''''"
    then have "path_dir dir = path_clean ''''" unfolding d by (rule arg_cong)
    with assms(2) show False by (simp add: path_clean_def has_prefix_def)
  qed
  then have "hd (dropWhile (\<lambda>c. c \<noteq> CHR ''/'') (rev dir)) = CHR ''/''"
    using hd_dropWhile[of "\<lambda>c. c \<noteq> CHR ''/''" "rev dir"] by simp
  with ne obtain q where q: "?q = q @ ''/''"
    by (metis append_butlast_last_id last_rev rev_is_Nil_conv)
  show ?thesis
  proof (cases "path_dir dir = ''/''")
    case True
    with assms(1) ne show ?thesis by (cases dir; cases "tl dir") (auto split: if_splits)
  next
    case False
    with path_clean_dir_length[of q] assms(2) len show ?thesis unfolding d q by simp
  qed
qed

termination cleanupEmptyDirs
proof (relation "measure (\<lambda>(F, base, dir, fs). if dir = ''.'' then 0 else Suc (length dir))", goal_cases)
  case 1
  show ?case by simp
next
  case (2 F base dir fs)
  then show ?case using path_dir_shorter[of dir] by auto
qed

declare cleanupEmptyDirs.simps [simp del]

definition DeleteObject ::
  "('f) fs_ops \<Rightarrow> string \<Rightarrow> string \<Rightarrow> ('f) storage \<Rightarrow> store_error option \<times> ('f) storage" where
  "DeleteObject F bucket key s =
     (case find_object F bucket key s of
        (Inl e, s) \<Rightarrow> (Some e, s)
      | (Inr (filePath, info), s) \<Rightarrow>
          (case fo_remove F filePath (sg_fs s) of
             (Some e, fs) \<Rightarrow> (Some (SFs e), s\<lparr>sg_fs := fs\<rparr>)
           | (None, fs) \<Rightarrow>
               (case cleanupEmptyDirs F bucket (path_dir key) fs of
                  (err, fs) \<Rightarrow>
                    (map_option SFs err,
                     s\<lparr>sg_fs := fs, sg_meta := DeleteObjectMetadata bucket key (sg_meta s)\<rparr>))))"

end
