(* ===== verification/StorageProps.thy ===== *)
theory StorageProps
  imports Storage MetadataProps
begin

text \<open>
  Objects over a file system that keeps its laws: what is written is what is read, other objects
  are not touched by writing or deleting, whether it succeeds or fails, and what an upload leaves
  behind when it fails.
\<close>

section \<open>Laws as rules\<close>

lemma tree_root: "fs_laws F V \<Longrightarrow> V f [] = Some Folder"
  by (simp add: fs_laws_def law_tree_def)

lemma tree_below: "fs_laws F V \<Longrightarrow> V f (es @ [e]) \<noteq> None \<Longrightarrow> V f es = Some Folder"
  unfolding fs_laws_def law_tree_def by blast

lemma tree_parent:
  assumes "fs_laws F V" "V f es \<noteq> None" "strict_prefix q es"
  shows "V f q = Some Folder"
proof -
  obtain a r where es: "es = q @ a # r" using assms(3) by (rule strict_prefixE')
  have "V f (q @ a # r) \<noteq> None \<Longrightarrow> V f q = Some Folder"
  proof (induction r rule: rev_induct)
    case Nil
    then show ?case using tree_below[OF assms(1)] by simp
  next
    case (snoc b r)
    then have "V f ((q @ a # r) @ [b]) \<noteq> None" by simp
    then have "V f (q @ a # r) = Some Folder" by (rule tree_below[OF assms(1)])
    then show ?case by (intro snoc.IH) simp
  qed
  with assms(2) es show ?thesis by blast
qed

lemma same_but_dirs_exists:
  "same_but_dirs V es f f' q \<Longrightarrow> V f q \<noteq> None \<Longrightarrow> V f' q = V f q"
  by (auto simp: same_but_dirs_def)

lemma stat_law: "fs_laws F V \<Longrightarrow> fpath es \<Longrightarrow>
     (case V f es of
        Some Folder \<Rightarrow> (\<exists>i. fo_stat F (text_of es) f = Inr i \<and> sf_isDir i)
      | Some (File c t) \<Rightarrow>
          (\<exists>i. fo_stat F (text_of es) f = Inr i \<and> \<not> sf_isDir i \<and> sf_size i = int (length c) \<and>
             sf_modTime i = t)
      | None \<Rightarrow>
          fo_stat F (text_of es) f =
            Inl (if \<exists>q c t. strict_prefix q es \<and> V f q = Some (File c t) then FsOther else FsNotExist))"
  by (simp add: fs_laws_def law_stat_def)

lemma mkdirAll_law:
  assumes "fs_laws F V" "fpath es" "fo_mkdirAll F (text_of es) f = (err, f')"
  shows "same_but_dirs V es f f' q" "err = None \<Longrightarrow> V f' es = Some Folder"
    "V f es = Some Folder \<Longrightarrow> err = None"
  using assms unfolding fs_laws_def law_mkdirAll_def by blast+

lemma mkdirAll_existing:
  assumes "fs_laws F V" "fpath es" "V f es = Some Folder" "fo_mkdirAll F (text_of es) f = (err, f')"
  shows "err = None" "V f' = V f"
proof -
  show "err = None" using mkdirAll_law(3)[OF assms(1,2,4,3)] .
  have "V f' q = V f q" for q
  proof (cases "prefix q es")
    case True
    then have "V f q = Some Folder"
      using tree_parent[OF assms(1), of f es q] assms(3) by (cases "q = es") (auto simp: strict_prefix_def)
    with mkdirAll_law(1)[OF assms(1,2,4), of q] show ?thesis by (simp add: same_but_dirs_def)
  next
    case False
    with mkdirAll_law(1)[OF assms(1,2,4), of q] show ?thesis by (simp add: same_but_dirs_def)
  qed
  then show "V f' = V f" by (rule ext)
qed

lemma create_law:
  assumes "fs_laws F V" "fpath es" "fo_create F (text_of es) f = (err, f')"
  shows "q \<noteq> es \<Longrightarrow> same_but_dirs V es f f' q" "err = None \<Longrightarrow> \<exists>t. V f' es = Some (File '''' t)"
    "err \<noteq> None \<Longrightarrow> V f' es = V f es"
proof -
  have l: "(\<forall>q. q \<noteq> es \<longrightarrow> same_but_dirs V es f f' q) \<and>
     (case err of None \<Rightarrow> (\<exists>t. V f' es = Some (File '''' t)) | Some _ \<Rightarrow> V f' es = V f es)"
    using assms unfolding fs_laws_def law_create_def by blast
  then show "q \<noteq> es \<Longrightarrow> same_but_dirs V es f f' q" "err = None \<Longrightarrow> \<exists>t. V f' es = Some (File '''' t)"
    "err \<noteq> None \<Longrightarrow> V f' es = V f es" by auto
qed

lemma write_law:
  assumes "fs_laws F V" "fpath es" "V f es = Some (File c t)" "fo_write F (text_of es) d f = (err, f')"
  shows "q \<noteq> es \<Longrightarrow> V f' q = V f q" "\<exists>c' t'. V f' es = Some (File c' t') \<and> (err = None \<longrightarrow> c' = c @ d)"
  using assms unfolding fs_laws_def law_write_def by blast+

lemma close_law:
  "fs_laws F V \<Longrightarrow> fpath es \<Longrightarrow> fo_close F (text_of es) f = (err, f') \<Longrightarrow> V f' = V f"
  unfolding fs_laws_def law_close_def by blast

lemma remove_law:
  assumes "fs_laws F V" "fpath es" "fo_remove F (text_of es) f = (err, f')"
  shows "q \<noteq> es \<Longrightarrow> V f' q = V f q" "V f' es = (if err = None then None else V f es)"
  using assms unfolding fs_laws_def law_remove_def by blast+

lemma rename_law:
  assumes "fs_laws F V" "fpath es" "fpath es'" "es \<noteq> es'" "V f es = Some (File c t)"
    and "fo_rename F (text_of es) (text_of es') f = (err, f')"
  shows "err = None \<Longrightarrow> V f' es' = Some (File c t)" "err = None \<Longrightarrow> V f' es = None"
    "err = None \<Longrightarrow> V f es' \<noteq> Some Folder"
    "err = None \<Longrightarrow> q \<noteq> es \<Longrightarrow> q \<noteq> es' \<Longrightarrow> same_but_dirs V es' f f' q"
    "err \<noteq> None \<Longrightarrow> V f' q = V f q"
proof -
  have "case err of
        None \<Rightarrow> V f' es' = Some (File c t) \<and> V f' es = None \<and> V f es' \<noteq> Some Folder \<and>
          (\<forall>q. q \<noteq> es \<longrightarrow> q \<noteq> es' \<longrightarrow> same_but_dirs V es' f f' q)
      | Some _ \<Rightarrow> (\<forall>q. V f' q = V f q)"
    using assms unfolding fs_laws_def law_rename_def by blast
  then show "err = None \<Longrightarrow> V f' es' = Some (File c t)" "err = None \<Longrightarrow> V f' es = None"
    "err = None \<Longrightarrow> V f es' \<noteq> Some Folder"
    "err = None \<Longrightarrow> q \<noteq> es \<Longrightarrow> q \<noteq> es' \<Longrightarrow> same_but_dirs V es' f f' q"
    "err \<noteq> None \<Longrightarrow> V f' q = V f q"
    by auto
qed

section \<open>Paths of objects\<close>

definition obj_elems :: "string \<Rightarrow> string \<Rightarrow> string list" where
  "obj_elems bucket key = bucket # filter plain_elem (str_split key ''/'')"

lemma obj_path:
  assumes "isValidBucketName b" "ValidatePathSafe k = None"
  shows "scoped_join b k = text_of (obj_elems b k)" "fpath (obj_elems b k)"
  using join_below[OF valid_bucket_normal(1)[OF assms(1)] assms(2)] valid_bucket_normal(2)[OF assms(1)]
  by (simp_all add: scoped_join_def obj_elems_def fpath_def)

lemma bucket_fpath: "isValidBucketName b \<Longrightarrow> fpath [b]"
  using valid_bucket_normal[of b] by (simp add: fpath_def normal_path_def)

lemma bucket_safe:
  assumes "isValidBucketName b" shows "NewBucketFS b = Inr b" "ValidatePathSafe b = None"
proof -
  note b = valid_bucket_normal[OF assms]
  have "\<not> str_contains b [CHR 0x00]" by (simp add: str_contains_char valid_bucket_chars[OF assms])
  moreover have "b \<noteq> ''..''" using b(3) by auto
  ultimately show "ValidatePathSafe b = None"
    using b normal_pathD[OF b(1)] by (auto simp: ValidatePathSafe_def)
  then show "NewBucketFS b = Inr b" by (simp add: NewBucketFS_def)
qed

lemma bucket_not_uploads: "isValidBucketName b \<Longrightarrow> b \<noteq> DirIOUploadsDir"
  using valid_bucket_normal(3)[of b] by (auto simp: DirIOUploadsDir_def)

lemma str_join_chars: "c \<in> set (text_of ws) \<Longrightarrow> c = CHR ''/'' \<or> (\<exists>w\<in>set ws. c \<in> set w)"
  by (induction "''/''" ws rule: str_join.induct) auto

lemma str_join_elem: "w \<in> set ws \<Longrightarrow> set w \<subseteq> set (str_join sep ws)"
  by (induction sep ws rule: str_join.induct) auto

lemma str_split_chars: "w \<in> set (str_split p [d]) \<Longrightarrow> c \<in> set w \<Longrightarrow> c \<in> set p"
  using str_join_elem[of w "str_split p [d]" "[d]"] by (auto simp: str_join_split_char)

lemma key_parent:
  assumes "isValidBucketName b" "ValidatePathSafe k = None" "path_dir k \<noteq> ''.''"
  shows "\<exists>ds. scoped_join b (path_dir k) = text_of (b # ds) \<and> fpath (b # ds) \<and> prefix (b # ds) (obj_elems b k) \<and>
    ds \<noteq> [] \<and> path_dir k = text_of ds \<and> ValidatePathSafe (path_dir k) = None"
proof -
  let ?q = "rev (dropWhile (\<lambda>c. c \<noteq> CHR ''/'') (rev k))"
  let ?w = "rev (takeWhile (\<lambda>c. c \<noteq> CHR ''/'') (rev k))"
  have k: "k = ?q @ ?w" by (metis rev_append rev_rev_ident takeWhile_dropWhile_id)
  have w: "CHR ''/'' \<notin> set ?w" by (auto dest: set_takeWhileD)
  have "?q \<noteq> ''''"
  proof
    assume "?q = ''''"
    then have "path_dir k = path_clean ''''" unfolding path_dir_def by (rule arg_cong)
    with assms(3) show False by (simp add: path_clean_def has_prefix_def)
  qed
  moreover from this have "hd (dropWhile (\<lambda>c. c \<noteq> CHR ''/'') (rev k)) = CHR ''/''"
    using hd_dropWhile[of "\<lambda>c. c \<noteq> CHR ''/''" "rev k"] by simp
  ultimately obtain q where q: "?q = q @ ''/''"
    by (metis append_butlast_last_id last_rev rev_is_Nil_conv)
  let ?ds = "filter plain_elem (str_split q ''/'')"
  have split: "str_split k ''/'' = str_split q ''/'' @ [?w]"
    using str_split_char_append[of q "CHR ''/''" ?w] k q str_split_char_no[OF w] by simp
  have safe: "''..'' \<notin> set (str_split q ''/'')" "\<not> has_prefix k ''/''"
    using assms(2) split by (auto simp: ValidatePathSafe_def split: if_splits)
  have rel: "\<not> has_prefix (q @ ''/'') ''/''"
  proof
    assume "has_prefix (q @ ''/'') ''/''"
    then have "prefix ''/'' (?q @ ?w)" unfolding q has_prefix_iff by (rule prefix_prefix)
    with safe(2) show False unfolding has_prefix_iff by (metis k)
  qed
  have "str_split (q @ ''/'') ''/'' = str_split q ''/'' @ ['''']"
    using str_split_char_append[of q "CHR ''/''" "''''"] by simp
  moreover have "clean_elems False [] (str_split q ''/'') = ?ds"
    using safe(1) by (subst clean_elems_safe) (auto dest: str_split_char_elem)
  ultimately have dir: "path_dir k = (if text_of ?ds = '''' then ''.'' else text_of ?ds)"
    unfolding path_dir_def q using rel by (simp add: path_clean_def Let_def clean_trailing)
  then have ds: "?ds \<noteq> []" "path_dir k = text_of ?ds" using assms(3) by (auto split: if_splits)
  have plain: "list_all plain_elem ?ds" by (simp add: list_all_iff)
  have normal: "normal_path (text_of ?ds)"
    using plain by (simp add: normal_path_def split_plain_join[OF ds(1) plain] list_all_iff)
  have chars: "c \<in> set (text_of ?ds) \<Longrightarrow> c = CHR ''/'' \<or> c \<in> set k" for c
  proof -
    assume "c \<in> set (text_of ?ds)"
    then have "c = CHR ''/'' \<or> c \<in> set q"
      using str_join_chars[of c "?ds"] str_split_chars[of _ q "CHR ''/''"] by auto
    moreover have "set ?q \<subseteq> set k" by (auto dest!: set_dropWhileD)
    then have "set (q @ ''/'') \<subseteq> set k" unfolding q .
    ultimately show "c = CHR ''/'' \<or> c \<in> set k" by (simp add: subset_iff) blast
  qed
  have "CHR 0x00 \<notin> set k" using assms(2) by (auto simp: ValidatePathSafe_def str_contains_char split: if_splits)
  then have "CHR 0x00 \<notin> set (text_of ?ds)" using chars[of "CHR 0x00"] by auto
  moreover have "''..'' \<notin> set (str_split (text_of ?ds) ''/'')"
    using normal unfolding normal_path_def plain_elem_def by blast
  ultimately have "ValidatePathSafe (path_dir k) = None"
    using normal_pathD[OF normal] by (simp add: ds(2) ValidatePathSafe_def str_contains_char)
  moreover from join_normal[OF valid_bucket_normal(1)[OF assms(1)] normal]
  have "scoped_join b (path_dir k) = text_of (b # ?ds)"
    by (simp add: scoped_join_def ds(2) join_prefix[OF ds(1)])
  moreover have "fpath (b # ?ds)" using bucket_fpath[OF assms(1)] plain by (simp add: fpath_def)
  moreover have "prefix (b # ?ds) (obj_elems b k)" by (simp add: obj_elems_def split)
  ultimately show ?thesis using ds by blast
qed


section \<open>What a step leaves alone\<close>

definition file_at :: "('f) fs_view \<Rightarrow> 'f \<Rightarrow> string list \<Rightarrow> (string \<times> time) option" where
  "file_at V f es = (case V f es of Some (File c t) \<Rightarrow> Some (c, t) | _ \<Rightarrow> None)"

lemma file_at_iff:
  "file_at V f es = Some (c, t) \<longleftrightarrow> V f es = Some (File c t)"
  "file_at V f es \<noteq> None \<longleftrightarrow> (\<exists>c t. V f es = Some (File c t))"
  by (auto simp: file_at_def split: option.split fnode.split)

lemma file_at_exists: "file_at V f es \<noteq> None \<Longrightarrow> V f es \<noteq> None"
  unfolding file_at_iff by blast

text \<open>All files outside the staging area but the one at \<open>es\<close>, and all bucket directories.\<close>

definition kept :: "('f) fs_view \<Rightarrow> string list \<Rightarrow> 'f \<Rightarrow> 'f \<Rightarrow> bool" where
  "kept V es f f' \<longleftrightarrow> (\<forall>q. q \<noteq> [] \<longrightarrow> hd q \<noteq> DirIOUploadsDir \<longrightarrow> q \<noteq> es \<longrightarrow>
     file_at V f' q = file_at V f q \<and> (length q = 1 \<longrightarrow> V f q = Some Folder \<longrightarrow> V f' q = Some Folder))"

lemma kept_refl [simp]: "kept V es f f"
  by (simp add: kept_def)

lemma kept_trans: "kept V es f f' \<Longrightarrow> kept V es f' f'' \<Longrightarrow> kept V es f f''"
  unfolding kept_def by metis

lemma kept_bucket:
  assumes "kept V es f f'" "isValidBucketName b" "es \<noteq> [b]" "V f [b] = Some Folder"
  shows "V f' [b] = Some Folder"
  using assms(1)[unfolded kept_def, rule_format, of "[b]"] assms(3,4) bucket_not_uploads[OF assms(2)] by simp

lemma kept_eq: "V f' = V f \<Longrightarrow> kept V es f f'"
  by (simp add: kept_def file_at_def)

lemma same_but_dirs_file_at:
  "same_but_dirs V es f f' q \<Longrightarrow> file_at V f' q = file_at V f q"
  "same_but_dirs V es f f' q \<Longrightarrow> V f q = Some Folder \<Longrightarrow> V f' q = Some Folder"
  unfolding same_but_dirs_def file_at_def by (elim disjE conjE; simp)+

lemma kept_same_but_dirs:
  assumes "\<And>q. q \<noteq> [] \<Longrightarrow> hd q \<noteq> DirIOUploadsDir \<Longrightarrow> q \<noteq> es \<Longrightarrow> same_but_dirs V es' f f' q"
  shows "kept V es f f'"
  unfolding kept_def using same_but_dirs_file_at[OF assms] by blast

lemma kept_outside:
  assumes "\<And>q. q \<noteq> [] \<Longrightarrow> hd q \<noteq> DirIOUploadsDir \<Longrightarrow> V f' q = V f q"
  shows "kept V es f f'"
  by (rule kept_same_but_dirs[where es' = es]) (simp add: assms same_but_dirs_def)

section \<open>Finding an object\<close>

lemma BucketExists_bucket:
  assumes "fs_laws F V" "isValidBucketName b" "V (sg_fs s) [b] = Some Folder"
  shows "BucketExists F b s = Inr True"
  using stat_law[OF assms(1) bucket_fpath[OF assms(2)], of "sg_fs s"] assms(3)
  by (auto simp: BucketExists_def)

lemma BucketExists_True:
  assumes "fs_laws F V" "isValidBucketName b" "BucketExists F b s = Inr True"
  shows "V (sg_fs s) [b] \<noteq> None"
  using stat_law[OF assms(1) bucket_fpath[OF assms(2)], of "sg_fs s"] assms(3)
  by (cases "V (sg_fs s) [b]") (auto simp: BucketExists_def split: sum.splits fs_error.splits if_splits)

text \<open>Opening the file system of a bucket that exists changes nothing; it fails only when a file is
  in the place of the bucket.\<close>

lemma GetBucketFS_existing:
  assumes "fs_laws F V" "isValidBucketName b" "V (sg_fs s) [b] \<noteq> None" "GetBucketFS F b s = (r, s')"
  shows "sg_meta s' = sg_meta s" "V (sg_fs s') = V (sg_fs s)"
    "V (sg_fs s) [b] = Some Folder \<Longrightarrow> r = Inr b" "r = Inr base \<Longrightarrow> base = b \<and> V (sg_fs s) [b] = Some Folder"
proof -
  obtain err f' where m: "fo_mkdirAll F b (sg_fs s) = (err, f')" by fastforce
  then have m1: "fo_mkdirAll F (text_of [b]) (sg_fs s) = (err, f')" by simp
  have r: "r = (case err of None \<Rightarrow> Inr b | Some e \<Rightarrow> Inl (SFs e))" "s' = s\<lparr>sg_fs := f'\<rparr>"
    using assms(4) m by (auto simp: GetBucketFS_def open_scoped_def bucket_safe[OF assms(2)] split: option.splits)
  note law = mkdirAll_law[OF assms(1) bucket_fpath[OF assms(2)] m1]
  have "V f' q = V (sg_fs s) q" for q
  proof (cases "q = [] \<or> q = [b]")
    case True
    then show ?thesis
      using law(1)[of q] assms(3) tree_root[OF assms(1)] by (auto simp: same_but_dirs_def)
  next
    case False
    then have "\<not> prefix q [b]" by (auto simp: prefix_Cons)
    then show ?thesis using law(1)[of q] by (simp add: same_but_dirs_def)
  qed
  then show v: "V (sg_fs s') = V (sg_fs s)" using r by auto
  show "sg_meta s' = sg_meta s" using r by simp
  show "V (sg_fs s) [b] = Some Folder \<Longrightarrow> r = Inr b" using law(3) r by simp
  show "r = Inr base \<Longrightarrow> base = b \<and> V (sg_fs s) [b] = Some Folder"
    using law(2) r v by (auto split: option.splits)
qed

text \<open>What \<open>find_object\<close> finds, in terms of the files.\<close>

definition lookup_result :: "('f) fs_view \<Rightarrow> 'f \<Rightarrow> string list \<Rightarrow> store_error option" where
  "lookup_result V f es =
     (if file_at V f es \<noteq> None then None
      else if \<exists>q. strict_prefix q es \<and> file_at V f q \<noteq> None then Some (SFs FsOther)
      else Some (SErr ErrNoSuchKey))"

lemma stat_object:
  assumes "fs_laws F V" "fpath es"
  shows "(case file_at V f es of
      Some (c, t) \<Rightarrow> (\<exists>i. fo_stat F (text_of es) f = Inr i \<and> \<not> sf_isDir i \<and> sf_size i = int (length c) \<and>
        sf_modTime i = t)
    | None \<Rightarrow> (case fo_stat F (text_of es) f of
          Inr i \<Rightarrow> sf_isDir i \<and> lookup_result V f es = Some (SErr ErrNoSuchKey)
        | Inl FsNotExist \<Rightarrow> lookup_result V f es = Some (SErr ErrNoSuchKey)
        | Inl e \<Rightarrow> lookup_result V f es = Some (SFs e)))"
proof (cases "V f es")
  case None
  have "(\<exists>q c t. strict_prefix q es \<and> V f q = Some (File c t)) \<longleftrightarrow> (\<exists>q. strict_prefix q es \<and> file_at V f q \<noteq> None)"
    unfolding file_at_iff by blast
  with stat_law[OF assms, of f] None show ?thesis by (auto simp: file_at_def lookup_result_def)
next
  case (Some n)
  show ?thesis
  proof (cases n)
    case (File c t)
    with stat_law[OF assms, of f] Some show ?thesis by (simp add: file_at_def)
  next
    case Folder
    have "\<not> (\<exists>q. strict_prefix q es \<and> file_at V f q \<noteq> None)"
      using tree_parent[OF assms(1), of f es] Some by (auto simp: file_at_def)
    with stat_law[OF assms, of f] Some Folder show ?thesis by (auto simp: file_at_def lookup_result_def)
  qed
qed

lemma find_object_spec:
  assumes "fs_laws F V" "isValidBucketName b" "ValidatePathSafe k = None" "V (sg_fs s) [b] = Some Folder"
    and "find_object F b k s = (r, s')"
  shows "sg_meta s' = sg_meta s" "V (sg_fs s') = V (sg_fs s)"
    "case file_at V (sg_fs s) (obj_elems b k) of
        Some (c, t) \<Rightarrow> (\<exists>i. r = Inr (text_of (obj_elems b k), i) \<and> sf_size i = int (length c) \<and> sf_modTime i = t)
      | None \<Rightarrow> r = Inl (the (lookup_result V (sg_fs s) (obj_elems b k)))"
proof -
  obtain r1 s1 where g: "GetBucketFS F b s = (r1, s1)" by fastforce
  note o = GetBucketFS_existing[OF assms(1,2) _ g]
  have bf: "r1 = Inr b" "sg_meta s1 = sg_meta s" "V (sg_fs s1) = V (sg_fs s)" using o(1-3) assms(4) by simp_all
  note p = obj_path[OF assms(2,3)]
  have "find_object F b k s = (case fo_stat F (scoped_join b k) (sg_fs s1) of
        Inl FsNotExist \<Rightarrow> (Inl (SErr ErrNoSuchKey), s1)
      | Inl e \<Rightarrow> (Inl (SFs e), s1)
      | Inr info \<Rightarrow>
          if sf_isDir info then (Inl (SErr ErrNoSuchKey), s1)
          else (Inr (scoped_join b k, info), s1))"
    by (simp add: find_object_def BucketExists_bucket[OF assms(1,2,4)] assms(3) g bf(1))
  note f = this[unfolded p(1)]
  have "s' = s1" using f assms(5) by (auto split: sum.splits fs_error.splits if_splits)
  with bf show "sg_meta s' = sg_meta s" "V (sg_fs s') = V (sg_fs s)" by simp_all
  have fa: "file_at V (sg_fs s1) = file_at V (sg_fs s)" "lookup_result V (sg_fs s1) = lookup_result V (sg_fs s)"
    by (simp_all add: fun_eq_iff file_at_def lookup_result_def bf(3))
  show "case file_at V (sg_fs s) (obj_elems b k) of
        Some (c, t) \<Rightarrow> (\<exists>i. r = Inr (text_of (obj_elems b k), i) \<and> sf_size i = int (length c) \<and> sf_modTime i = t)
      | None \<Rightarrow> r = Inl (the (lookup_result V (sg_fs s) (obj_elems b k)))"
    using stat_object[OF assms(1) p(2), of "sg_fs s1", unfolded fa] f assms(5)
    by (auto split: option.splits sum.splits fs_error.splits if_splits)
qed


section \<open>Reading an object\<close>

text \<open>The object at a path, from its content and modification time and the metadata.\<close>

definition object_value ::
  "(string \<Rightarrow> string) \<Rightarrow> string \<Rightarrow> string \<Rightarrow> string \<times> time \<Rightarrow> meta_store \<Rightarrow> stored_object" where
  "object_value md5 b k ct st =
     (let o1 = \<lparr>sb_key = k, sb_size = int (length (fst ct)), sb_contentType = ''application/octet-stream'',
               sb_etag = [CHR 0x22] @ hex_encode (md5 (fst ct)) @ [CHR 0x22], sb_lastModified = snd ct,
               sb_content = fst ct, sb_customMetadata = []\<rparr>
      in case fst (GetObjectMetadata b k st) of
           Inl _ \<Rightarrow> o1
         | Inr m \<Rightarrow> o1\<lparr>sb_contentType := om_contentType m, sb_etag := om_etag m,
                       sb_customMetadata := om_customMetadata m\<rparr>)"

lemma object_value_content: "sb_content (object_value md5 b k ct st) = fst ct"
  by (simp add: object_value_def Let_def split: sum.split)

lemma readFile_law:
  assumes "fs_laws F V" "fpath es" "file_at V f es = Some (c, t)"
  shows "fo_readFile F (text_of es) f = Inr c"
proof -
  have "case V f es of
        Some (File c t) \<Rightarrow> fo_readFile F (text_of es) f = Inr c
      | _ \<Rightarrow> (\<exists>e. fo_readFile F (text_of es) f = Inl e)"
    using assms(1,2) unfolding fs_laws_def law_readFile_def by blast
  with assms(3) show ?thesis by (simp add: file_at_iff)
qed

lemma GetObject_value:
  assumes "fs_laws F V" "isValidBucketName b" "ValidatePathSafe k = None" "V (sg_fs s) [b] = Some Folder"
    and "GetObject F md5 b k s = (r, s')"
  shows "r = (case file_at V (sg_fs s) (obj_elems b k) of
      Some ct \<Rightarrow> Inr (object_value md5 b k ct (sg_meta s))
    | None \<Rightarrow> Inl (the (lookup_result V (sg_fs s) (obj_elems b k))))"
    and "V (sg_fs s') = V (sg_fs s)"
    and "sg_meta s' \<in> {sg_meta s, snd (GetObjectMetadata b k (sg_meta s))}"
proof -
  obtain r1 s1 where f: "find_object F b k s = (r1, s1)" by fastforce
  note spec = find_object_spec[OF assms(1-4) f]
  note p = obj_path[OF assms(2,3)]
  have "r = (case file_at V (sg_fs s) (obj_elems b k) of
      Some ct \<Rightarrow> Inr (object_value md5 b k ct (sg_meta s))
    | None \<Rightarrow> Inl (the (lookup_result V (sg_fs s) (obj_elems b k)))) \<and>
    V (sg_fs s') = V (sg_fs s) \<and> sg_meta s' \<in> {sg_meta s, snd (GetObjectMetadata b k (sg_meta s))}"
  proof (cases "file_at V (sg_fs s) (obj_elems b k)")
    case None
    with spec f assms(5) show ?thesis by (auto simp: GetObject_def)
  next
    case (Some ct)
    obtain c t where ct: "ct = (c, t)" by fastforce
    with Some spec(3) obtain i where i: "r1 = Inr (text_of (obj_elems b k), i)"
      "sf_size i = int (length c)" "sf_modTime i = t" by auto
    have "file_at V (sg_fs s1) (obj_elems b k) = Some (c, t)"
      using Some ct spec(2) by (simp add: file_at_def)
    note rd = readFile_law[OF assms(1) p(2) this]
    show ?thesis
      using assms(5) f i rd Some ct spec(1,2)
      by (auto simp: GetObject_def object_metadata_or_basic_def calculateETag_def object_value_def Let_def
          split: prod.splits sum.splits)
  qed
  then show "r = (case file_at V (sg_fs s) (obj_elems b k) of
      Some ct \<Rightarrow> Inr (object_value md5 b k ct (sg_meta s))
    | None \<Rightarrow> Inl (the (lookup_result V (sg_fs s) (obj_elems b k))))"
    "V (sg_fs s') = V (sg_fs s)" "sg_meta s' \<in> {sg_meta s, snd (GetObjectMetadata b k (sg_meta s))}"
    by blast+
qed

lemma find_object_bucket:
  assumes "fs_laws F V" "isValidBucketName b" "find_object F b k s = (Inr x, s')"
  shows "ValidatePathSafe k = None" "V (sg_fs s) [b] = Some Folder"
proof -
  have e: "BucketExists F b s = Inr True" and "ValidatePathSafe k = None"
    and "\<exists>base s1. GetBucketFS F b s = (Inr base, s1)"
    using assms(3) by (auto simp: find_object_def split: sum.splits bool.splits option.splits prod.splits)
  then show "ValidatePathSafe k = None" "V (sg_fs s) [b] = Some Folder"
    using GetBucketFS_existing(4)[OF assms(1,2) BucketExists_True[OF assms(1,2) e]] by blast+
qed

lemma GetObject_Inr_iff:
  assumes "fs_laws F V" "isValidBucketName b"
  shows "fst (GetObject F md5 b k s) = Inr ob \<longleftrightarrow>
    ValidatePathSafe k = None \<and> V (sg_fs s) [b] = Some Folder \<and>
    (\<exists>ct. file_at V (sg_fs s) (obj_elems b k) = Some ct \<and> ob = object_value md5 b k ct (sg_meta s))"
proof -
  obtain r s' where g: "GetObject F md5 b k s = (r, s')" by fastforce
  have "ValidatePathSafe k = None \<and> V (sg_fs s) [b] = Some Folder" if "r = Inr ob"
  proof -
    from that g obtain x s1 where "find_object F b k s = (Inr x, s1)"
      by (auto simp: GetObject_def split: prod.splits sum.splits)
    with find_object_bucket[OF assms] show ?thesis by blast
  qed
  moreover have "r = Inr ob \<longleftrightarrow>
      (\<exists>ct. file_at V (sg_fs s) (obj_elems b k) = Some ct \<and> ob = object_value md5 b k ct (sg_meta s))"
    if "ValidatePathSafe k = None" "V (sg_fs s) [b] = Some Folder"
    using GetObject_value(1)[OF assms that g] by (auto split: option.splits)
  ultimately show ?thesis using g by auto
qed

section \<open>Writing an object\<close>

definition staged_elems :: "string \<Rightarrow> string \<Rightarrow> string list" where
  "staged_elems tmp bucket = [DirIOUploadsDir, bucket, tmp]"

lemma uploads_path:
  assumes "isValidBucketName b" "plain_elem tmp"
  shows "NewUploadStagingFS b = Inr (text_of [DirIOUploadsDir, b])" "fpath [DirIOUploadsDir, b]"
    "fpath (staged_elems tmp b)" "scoped_join (text_of [DirIOUploadsDir, b]) tmp = text_of (staged_elems tmp b)"
    "path_join [DirIOUploadsDir, b, tmp] = text_of (staged_elems tmp b)"
proof -
  have u: "normal_path DirIOUploadsDir" by code_simp
  then have ue: "plain_elem DirIOUploadsDir" by (simp add: DirIOUploadsDir_def plain_elem_def)
  note b = valid_bucket_normal(1,2)[OF assms(1)]
  have be: "plain_elem b" using b by (simp add: normal_path_def)
  have tmp: "normal_path tmp"
    using assms(2) str_split_char_no[of "CHR ''/''" tmp] by (simp add: normal_path_def plain_elem_def)
  show "NewUploadStagingFS b = Inr (text_of [DirIOUploadsDir, b])"
    by (simp add: NewUploadStagingFS_def bucket_safe[OF assms(1)] join_normal[OF u b(1)])
  show "fpath [DirIOUploadsDir, b]" "fpath (staged_elems tmp b)"
    using ue be assms(2) by (simp_all add: fpath_def staged_elems_def)
  show "scoped_join (text_of [DirIOUploadsDir, b]) tmp = text_of (staged_elems tmp b)"
    using join_normal[OF normal_append[OF u b(1)] tmp] by (simp add: scoped_join_def staged_elems_def)
  show "path_join [DirIOUploadsDir, b, tmp] = text_of (staged_elems tmp b)"
    using join_normal3[OF u b(1) tmp] by (simp add: staged_elems_def)
qed


lemma not_prefix_uploads:
  "q \<noteq> [] \<Longrightarrow> hd q \<noteq> DirIOUploadsDir \<Longrightarrow> \<not> prefix q (DirIOUploadsDir # es)"
  by (cases q) auto

lemma same_but_dirs_uploads:
  "same_but_dirs V (DirIOUploadsDir # es) f f' q \<Longrightarrow> q \<noteq> [] \<Longrightarrow> hd q \<noteq> DirIOUploadsDir \<Longrightarrow> V f' q = V f q"
  unfolding same_but_dirs_def using not_prefix_uploads by blast

lemma make_parents_same:
  assumes "fs_laws F V" "isValidBucketName b" "ValidatePathSafe k = None" "make_parents F b k s = (err, s')"
  shows "sg_meta s' = sg_meta s" "same_but_dirs V (obj_elems b k) (sg_fs s) (sg_fs s') q"
proof -
  have "sg_meta s' = sg_meta s \<and> same_but_dirs V (obj_elems b k) (sg_fs s) (sg_fs s') q"
  proof (cases "path_dir k \<noteq> ''.'' \<and> path_dir k \<noteq> ''''")
    case True
    then obtain ds where ds: "scoped_join b (path_dir k) = text_of (b # ds)" "fpath (b # ds)"
      "prefix (b # ds) (obj_elems b k)"
      using key_parent[OF assms(2,3)] by blast
    obtain e f' where m: "fo_mkdirAll F (text_of (b # ds)) (sg_fs s) = (e, f')" by fastforce
    have "same_but_dirs V (b # ds) (sg_fs s) f' q" by (rule mkdirAll_law(1)[OF assms(1) ds(2) m])
    then have "same_but_dirs V (obj_elems b k) (sg_fs s) f' q"
      using ds(3) unfolding same_but_dirs_def by (meson prefix_order.trans)
    with assms(4) True ds(1) m show ?thesis by (auto simp: make_parents_def Let_def)
  next
    case False
    with assms(4) show ?thesis by (auto simp: make_parents_def same_but_dirs_def Let_def)
  qed
  then show "sg_meta s' = sg_meta s" "same_but_dirs V (obj_elems b k) (sg_fs s) (sg_fs s') q" by blast+
qed

lemma stageObject_spec:
  assumes "fs_laws F V" "isValidBucketName b" "plain_elem tmp" "stageObject F tmp b s = (r, s')"
  shows "sg_meta s' = sg_meta s" "kept V es (sg_fs s) (sg_fs s')"
    "q \<noteq> [] \<Longrightarrow> hd q \<noteq> DirIOUploadsDir \<Longrightarrow> V (sg_fs s') q = V (sg_fs s) q"
    "r = Inr p \<Longrightarrow> p = text_of (staged_elems tmp b) \<and> (\<exists>t. V (sg_fs s') (staged_elems tmp b) = Some (File '''' t))"
proof -
  note u = uploads_path[OF assms(2,3)]
  obtain e1 f1 where m: "fo_mkdirAll F (text_of [DirIOUploadsDir, b]) (sg_fs s) = (e1, f1)" by fastforce
  obtain e2 f2 where c: "fo_create F (text_of (staged_elems tmp b)) f1 = (e2, f2)" by fastforce
  have r: "(r, s') = (case e1 of Some e \<Rightarrow> (Inl (SFs e), s\<lparr>sg_fs := f1\<rparr>)
      | None \<Rightarrow> (case e2 of Some e \<Rightarrow> (Inl (SFs e), s\<lparr>sg_fs := f2\<rparr>)
          | None \<Rightarrow> (Inr (text_of (staged_elems tmp b)), s\<lparr>sg_fs := f2\<rparr>)))"
    unfolding assms(4)[symmetric] stageObject_def GetUploadStagingFS_def open_scoped_def u(1) sum.case m
    by (cases e1) (simp_all add: u(4,5) c del: str_join.simps split: option.split)
  have v1: "V f1 q = V (sg_fs s) q" if "q \<noteq> []" "hd q \<noteq> DirIOUploadsDir" for q
    using same_but_dirs_uploads[OF mkdirAll_law(1)[OF assms(1) u(2) m] that] .
  have v2: "V f2 q = V f1 q" if "q \<noteq> []" "hd q \<noteq> DirIOUploadsDir" for q
    using same_but_dirs_uploads[OF _ that, of V "[b, tmp]" f1 f2] create_law(1)[OF assms(1) u(3) c, of q] that(2)
    by (cases "q = staged_elems tmp b") (auto simp: staged_elems_def)
  show v: "V (sg_fs s') q = V (sg_fs s) q" if "q \<noteq> []" "hd q \<noteq> DirIOUploadsDir" for q
    using r v1[OF that] v2[OF that] by (auto split: option.splits)
  then show "kept V es (sg_fs s) (sg_fs s')" by (rule kept_outside)
  show "sg_meta s' = sg_meta s" using r by (auto split: option.splits)
  show "r = Inr p \<Longrightarrow> p = text_of (staged_elems tmp b) \<and> (\<exists>t. V (sg_fs s') (staged_elems tmp b) = Some (File '''' t))"
    using r create_law(2)[OF assms(1) u(3) c] by (auto split: option.splits)
qed

lemma write_staged_spec:
  assumes "fs_laws F V" "fpath es" "V (sg_fs s) es = Some (File '''' t)" "write_staged F (text_of es) body s = (err, s')"
  shows "sg_meta s' = sg_meta s" "q \<noteq> es \<Longrightarrow> V (sg_fs s') q = V (sg_fs s) q"
    "err = None \<Longrightarrow> \<not> snd body \<and> (\<exists>t. V (sg_fs s') es = Some (File (fst body) t))"
proof -
  obtain e1 f1 where w: "fo_write F (text_of es) (fst body) (sg_fs s) = (e1, f1)" by fastforce
  obtain e2 f2 where c: "fo_close F (text_of es) f1 = (e2, f2)" by fastforce
  obtain e3 f3 where r: "fo_remove F (text_of es) f2 = (e3, f3)" by fastforce
  note wl = write_law[OF assms(1-3) w]
  note cl = close_law[OF assms(1,2) c]
  note rl = remove_law[OF assms(1,2) r]
  have s': "(err, s') = (if e1 \<noteq> None then (Some (SFs (the e1)), s\<lparr>sg_fs := f3\<rparr>)
      else if snd body then (Some SBody, s\<lparr>sg_fs := f3\<rparr>)
      else if e2 \<noteq> None then (Some (SFs (the e2)), s\<lparr>sg_fs := f3\<rparr>)
      else (None, s\<lparr>sg_fs := f2\<rparr>))"
    unfolding assms(4)[symmetric] write_staged_def w by (simp add: c r abortObject_def split: option.splits)
  show "sg_meta s' = sg_meta s" using s' by (auto split: if_splits)
  show "q \<noteq> es \<Longrightarrow> V (sg_fs s') q = V (sg_fs s) q"
    using s' wl(1) cl rl(1) by (auto split: if_splits)
  show "err = None \<Longrightarrow> \<not> snd body \<and> (\<exists>t. V (sg_fs s') es = Some (File (fst body) t))"
    using s' wl(2) cl by (auto split: if_splits)
qed

lemma obj_not_staged: "isValidBucketName b \<Longrightarrow> staged_elems tmp b' \<noteq> obj_elems b k"
  using bucket_not_uploads[of b] by (auto simp: staged_elems_def obj_elems_def)

lemma commitObject_spec:
  assumes "fs_laws F V" "isValidBucketName b" "ValidatePathSafe k = None" "plain_elem tmp"
    and "V (sg_fs s) (staged_elems tmp b) = Some (File c t)"
    and "commitObject F (text_of (staged_elems tmp b)) b k s = (err, s')"
  shows "sg_meta s' = sg_meta s" "err \<noteq> None \<Longrightarrow> V (sg_fs s') = V (sg_fs s)"
    "err = None \<Longrightarrow> V (sg_fs s') (obj_elems b k) = Some (File c t)"
    "err = None \<Longrightarrow> V (sg_fs s) (obj_elems b k) \<noteq> Some Folder"
    "kept V (obj_elems b k) (sg_fs s) (sg_fs s')"
proof -
  note p = obj_path[OF assms(2,3)]
  note u = uploads_path(3)[OF assms(2,4)]
  obtain e f' where n: "fo_rename F (text_of (staged_elems tmp b)) (text_of (obj_elems b k)) (sg_fs s) = (e, f')"
    by fastforce
  note law = rename_law[OF assms(1) u p(2) obj_not_staged[OF assms(2)] assms(5) n]
  have s': "s' = s\<lparr>sg_fs := f'\<rparr>" "err = map_option SFs e"
    using assms(6) n p(1) by (simp_all add: commitObject_def scoped_join_def)
  show "sg_meta s' = sg_meta s" using s' by simp
  show "err \<noteq> None \<Longrightarrow> V (sg_fs s') = V (sg_fs s)" using s' law(5) by auto
  show "err = None \<Longrightarrow> V (sg_fs s') (obj_elems b k) = Some (File c t)"
    "err = None \<Longrightarrow> V (sg_fs s) (obj_elems b k) \<noteq> Some Folder" using s' law(1,3) by simp_all
  show "kept V (obj_elems b k) (sg_fs s) (sg_fs s')"
  proof (cases e)
    case None
    show ?thesis
    proof (rule kept_same_but_dirs)
      fix q assume q: "q \<noteq> []" "hd q \<noteq> DirIOUploadsDir" "q \<noteq> obj_elems b k"
      then have "q \<noteq> staged_elems tmp b" by (auto simp: staged_elems_def)
      with law(4)[OF None] q(3) s' show "same_but_dirs V (obj_elems b k) (sg_fs s) (sg_fs s') q" by simp
    qed
  next
    case (Some x)
    with law(5) s' show ?thesis by (intro kept_eq) auto
  qed
qed


definition put_meta ::
  "(string \<Rightarrow> string) \<Rightarrow> put_env \<Rightarrow> string \<Rightarrow> string \<Rightarrow> (string \<times> string) list \<Rightarrow> object_metadata" where
  "put_meta md5 env data contentType customMetadata =
     \<lparr>om_version = ObjectMetadataVersion, om_owner = put_owner (pe_user env),
      om_contentType = contentType, om_size = int (length data), om_etag = hex_encode (md5 data),
      om_lastModified = pe_now env, om_customMetadata = customMetadata, om_tags = []\<rparr>"

lemma no_metadata_error:
  "BucketExists F b s \<noteq> Inl SMetaSave" "open_scoped F scope s \<noteq> (Inl SMetaSave, s')"
  "GetBucketFS F b s \<noteq> (Inl SMetaSave, s')" "make_parents F b k s \<noteq> (Some SMetaSave, s')"
  "stageObject F tmp b s \<noteq> (Inl SMetaSave, s')" "write_staged F p body s \<noteq> (Some SMetaSave, s')"
  "commitObject F p b k s \<noteq> (Some SMetaSave, s')"
proof -
  show os: "open_scoped F scope s \<noteq> (Inl SMetaSave, s')" for F :: "('f) fs_ops" and scope s s'
    by (auto simp: open_scoped_def split: sum.splits prod.splits option.splits)
  show "BucketExists F b s \<noteq> Inl SMetaSave"
    by (auto simp: BucketExists_def split: sum.splits fs_error.splits)
  show "GetBucketFS F b s \<noteq> (Inl SMetaSave, s')" by (simp add: GetBucketFS_def os)
  show "make_parents F b k s \<noteq> (Some SMetaSave, s')"
    by (auto simp: make_parents_def Let_def split: prod.splits)
  show "stageObject F tmp b s \<noteq> (Inl SMetaSave, s')"
    using os by (auto simp: stageObject_def GetUploadStagingFS_def split: prod.splits sum.splits option.splits)
  show "write_staged F p body s \<noteq> (Some SMetaSave, s')"
    by (auto simp: write_staged_def split: prod.splits option.splits)
  show "commitObject F p b k s \<noteq> (Some SMetaSave, s')"
    by (auto simp: commitObject_def split: prod.splits)
qed

text \<open>An upload either stops before the commit, with an error and nothing changed that a reader could
  see, or it has put the whole content at the path of the object and goes on with the metadata.\<close>

lemma PutObject_cases:
  assumes laws: "fs_laws F V" and b: "isValidBucketName b" and tmp: "plain_elem (pe_tmp env)"
    and put: "PutObject F md5 env b k body ct cm s = (r, s')"
  shows "((\<exists>e. r = Inl e \<and> e \<noteq> SMetaSave) \<and> sg_meta s' = sg_meta s \<and> (\<forall>es. kept V es (sg_fs s) (sg_fs s'))) \<or>
    (\<not> snd body \<and> ValidatePathSafe k = None \<and> V (sg_fs s) [b] = Some Folder \<and>
     (\<exists>s1 t. sg_meta s1 = sg_meta s \<and> kept V (obj_elems b k) (sg_fs s) (sg_fs s1) \<and>
        V (sg_fs s1) (obj_elems b k) = Some (File (fst body) t) \<and> obj_elems b k \<noteq> [b] \<and>
        save_put_metadata F env b k (put_meta md5 env (fst body) ct cm) s1 = (r, s')))"
    (is "?stopped r s' \<or> ?committed")
proof (cases "BucketExists F b s = Inr True \<and> ValidatePathSafe k = None")
  case False
  then have "?stopped r s'"
    using put no_metadata_error(1)[of F b s]
    by (auto simp: PutObject_def split: sum.splits bool.splits option.splits)
  then show ?thesis ..
next
  case True
  then have k: "ValidatePathSafe k = None" and e: "BucketExists F b s = Inr True" by simp_all
  obtain r0 s0 where g: "GetBucketFS F b s = (r0, s0)" by fastforce
  note bf = GetBucketFS_existing[OF laws b BucketExists_True[OF laws b e] g]
  show ?thesis
  proof (cases r0)
    case (Inl x)
    then have "?stopped r s'"
      using put k e g no_metadata_error(3)[of F b s s0] bf(1) kept_eq[of V "sg_fs s0" "sg_fs s", OF bf(2)] by (auto simp: PutObject_def)
    then show ?thesis ..
  next
    case (Inr base)
    with bf(4) have base: "base = b" and bucket: "V (sg_fs s) [b] = Some Folder" by simp_all
    obtain e1 s1 where m: "make_parents F b k s0 = (e1, s1)" by fastforce
    note mp = make_parents_same[OF laws b k m]
    have k1: "kept V es (sg_fs s) (sg_fs s1)" "sg_meta s1 = sg_meta s" for es
      using kept_trans[OF kept_eq[of V "sg_fs s0" "sg_fs s", OF bf(2)] kept_same_but_dirs[OF mp(2)]] mp(1) bf(1) by simp_all
    obtain r2 s2 where st: "stageObject F (pe_tmp env) b s1 = (r2, s2)" by fastforce
    note sp = stageObject_spec[OF laws b tmp st]
    have k2: "kept V es (sg_fs s) (sg_fs s2)" "sg_meta s2 = sg_meta s" for es
      using kept_trans[OF k1(1) sp(2)] sp(1) k1(2) by simp_all
    show ?thesis
    proof (cases "e1 = None \<and> (\<exists>p. r2 = Inr p)")
      case False
      then have "?stopped r s'"
        using put k e g Inr base m st k1 k2
          no_metadata_error(4)[of F b k s0 s1] no_metadata_error(5)[of F "pe_tmp env" b s1 s2]
        by (auto simp: PutObject_def split: option.splits sum.splits)
      then show ?thesis ..
    next
      case True
      then obtain t0 where r2: "r2 = Inr (text_of (staged_elems (pe_tmp env) b))"
        and v2: "V (sg_fs s2) (staged_elems (pe_tmp env) b) = Some (File '''' t0)" using sp(4) by blast
      obtain e3 s3 where w: "write_staged F (text_of (staged_elems (pe_tmp env) b)) body s2 = (e3, s3)"
        by fastforce
      note wp = write_staged_spec[OF laws uploads_path(3)[OF b tmp] v2 w]
      have off: "q \<noteq> staged_elems (pe_tmp env) b" if "hd q \<noteq> DirIOUploadsDir" for q
        using that by (auto simp: staged_elems_def)
      have k3: "kept V es (sg_fs s) (sg_fs s3)" "sg_meta s3 = sg_meta s" for es
        using kept_trans[OF k2(1) kept_outside] wp(1,2) off k2(2) by simp_all
      have put3: "(r, s') = (case e3 of Some e \<Rightarrow> (Inl e, s3) | None \<Rightarrow>
          if pe_cancelled env then (Inl SCancelled, s3)
          else case commitObject F (text_of (staged_elems (pe_tmp env) b)) b k s3 of
            (Some e, s) \<Rightarrow> (Inl e, abortObject F (text_of (staged_elems (pe_tmp env) b)) s)
          | (None, s) \<Rightarrow> save_put_metadata F env b k (put_meta md5 env (fst body) ct cm) s)"
        unfolding put[symmetric] put_meta_def
        using k e g Inr base m st True r2 w by (auto simp: PutObject_def)
      show ?thesis
      proof (cases "e3 = None \<and> \<not> pe_cancelled env")
        case False
        then have "?stopped r s'"
          using put3 k3 no_metadata_error(6)[of F "text_of (staged_elems (pe_tmp env) b)" body s2 s3] w
          by (auto split: option.splits if_splits)
        then show ?thesis ..
      next
        case True
        then obtain t where body: "\<not> snd body"
          and v3: "V (sg_fs s3) (staged_elems (pe_tmp env) b) = Some (File (fst body) t)"
          using wp(3) by blast
        obtain e4 s4 where c: "commitObject F (text_of (staged_elems (pe_tmp env) b)) b k s3 = (e4, s4)"
          by fastforce
        note cp = commitObject_spec[OF laws b k tmp v3 c]
        have b3: "V (sg_fs s3) [b] = Some Folder"
          using k3(1)[of "[]"] bucket bucket_not_uploads[OF b] by (simp add: kept_def)
        show ?thesis
        proof (cases e4)
          case None
          have "kept V (obj_elems b k) (sg_fs s) (sg_fs s4)" using kept_trans[OF k3(1) cp(5)] .
          moreover have "save_put_metadata F env b k (put_meta md5 env (fst body) ct cm) s4 = (r, s')"
            using put3 True c None by simp
          moreover have "obj_elems b k \<noteq> [b]" using cp(4)[OF None] b3 by auto
          ultimately have ?committed using body k bucket cp(1,3) None k3(2) by auto
          then show ?thesis ..
        next
          case (Some x)
          let ?p = "text_of (staged_elems (pe_tmp env) b)"
          have put4: "r = Inl x" "s' = abortObject F ?p s4" using put3 True c Some by simp_all
          obtain e5 f5 where rm: "fo_remove F ?p (sg_fs s4) = (e5, f5)" by fastforce
          note rl = remove_law[OF laws uploads_path(3)[OF b tmp] rm]
          have "kept V es (sg_fs s) (sg_fs s')" for es
          proof (rule kept_trans[OF k3(1) kept_outside])
            fix q :: "string list"
            assume "q \<noteq> []" "hd q \<noteq> DirIOUploadsDir"
            then show "V (sg_fs s') q = V (sg_fs s3) q"
              using rl(1) off cp(2) Some by (simp add: put4 abortObject_def rm)
          qed
          then have "?stopped r s'"
            using put4 cp(1) k3(2) no_metadata_error(7)[of F ?p b k s3 s4] c Some by (auto simp: abortObject_def)
          then show ?thesis ..
        qed
      qed
    qed
  qed
qed


section \<open>Metadata of other objects\<close>

lemma safe_json:
  assumes "ValidatePathSafe k = None"
  shows "ValidatePathSafe (k @ ''.json'') = None"
    "filter plain_elem (str_split (k @ ''.json'') ''/'') =
       filter plain_elem (butlast (str_split k ''/'')) @ [last (str_split k ''/'') @ ''.json'']"
proof -
  have k: "k \<noteq> ''''" "CHR 0x00 \<notin> set k" "\<not> has_prefix k ''/''" "''..'' \<notin> set (str_split k ''/'')"
    using assms by (auto simp: ValidatePathSafe_def str_contains_char split: if_splits)
  have split: "str_split (k @ ''.json'') ''/'' = butlast (str_split k ''/'') @ [last (str_split k ''/'') @ ''.json'']"
    by (rule split_suffix) simp
  have "CHR ''/'' \<notin> set (last (str_split k ''/'') @ ''.json'')"
    using str_split_char_elem[of "last (str_split k ''/'')" k "CHR ''/''"] str_split_char_ne by auto
  then have plain: "plain_elem (last (str_split k ''/'') @ ''.json'')"
    unfolding plain_elem_def by (auto dest: arg_cong[of _ _ length])
  have "''..'' \<notin> set (str_split (k @ ''.json'') ''/'')"
    using k(4) plain unfolding split by (auto simp: plain_elem_def dest: in_set_butlastD)
  moreover have "\<not> has_prefix (k @ ''.json'') ''/''" using k(1,3) by (cases k) (auto simp: has_prefix_def)
  ultimately show "ValidatePathSafe (k @ ''.json'') = None"
    using k(2) by (simp add: ValidatePathSafe_def str_contains_char)
  show "filter plain_elem (str_split (k @ ''.json'') ''/'') =
       filter plain_elem (butlast (str_split k ''/'')) @ [last (str_split k ''/'') @ ''.json'']"
    using plain by (simp add: split)
qed

lemma obj_elems_last:
  "obj_elems b k = b # filter plain_elem (butlast (str_split k ''/'')) @ filter plain_elem [last (str_split k ''/'')]"
proof -
  have "str_split k ''/'' = butlast (str_split k ''/'') @ [last (str_split k ''/'')]"
    by (simp add: str_split_char_ne)
  then show ?thesis unfolding obj_elems_def by (metis filter_append)
qed

lemma meta_path_elems:
  assumes "isValidBucketName b" "ValidatePathSafe k = None" "isValidBucketName b'" "ValidatePathSafe k' = None"
    and "object_meta_path b k = object_meta_path b' k'"
  shows "obj_elems b k = obj_elems b' k'"
proof -
  let ?es = "\<lambda>b k. ''objects'' # b # filter plain_elem (butlast (str_split k ''/'')) @ [last (str_split k ''/'') @ ''.json'']"
  have path: "object_meta_path b k = text_of (?es b k) \<and> list_all plain_elem (?es b k)"
    if "isValidBucketName b" "ValidatePathSafe k = None" for b k
  proof -
    have "plain_elem b" using valid_bucket_normal(1,2)[OF that(1)] by (simp add: normal_path_def)
    moreover have "list_all plain_elem (filter plain_elem (str_split (k @ ''.json'') ''/''))"
      by (simp add: list_all_iff)
    ultimately show ?thesis
      using object_meta_path_safe[OF that(1) safe_json(1)[OF that(2)]] unfolding safe_json(2)[OF that(2)]
      by (simp add: plain_elem_def)
  qed
  have "?es b k = ?es b' k'"
    using path[OF assms(1,2)] path[OF assms(3,4)] assms(5) split_plain_join[of "?es b k"] split_plain_join[of "?es b' k'"]
    by (metis list.distinct(1))
  then show ?thesis by (simp add: obj_elems_last)
qed

lemma metadata_other:
  assumes "isValidBucketName b" "ValidatePathSafe k = None" "isValidBucketName b'" "ValidatePathSafe k' = None"
    and "obj_elems b' k' \<noteq> obj_elems b k"
  shows "fst (GetObjectMetadata b' k' (PutObjectMetadata b k m st)) = fst (GetObjectMetadata b' k' st)"
    "fst (GetObjectMetadata b' k' (DeleteObjectMetadata b k st)) = fst (GetObjectMetadata b' k' st)"
proof -
  have "cacheKey b' k' \<noteq> cacheKey b k"
    using cacheKey_inject[OF valid_bucket_chars(2)[OF assms(3)] valid_bucket_chars(2)[OF assms(1)]] assms(5) by auto
  moreover have "object_meta_path b' k' \<noteq> object_meta_path b k"
    using meta_path_elems[OF assms(3,4,1,2)] assms(5) by blast
  ultimately show "fst (GetObjectMetadata b' k' (PutObjectMetadata b k m st)) = fst (GetObjectMetadata b' k' st)"
    "fst (GetObjectMetadata b' k' (DeleteObjectMetadata b k st)) = fst (GetObjectMetadata b' k' st)"
    by (auto simp: GetObjectMetadata_def PutObjectMetadata_def DeleteObjectMetadata_def split: option.splits)
qed

lemma metadata_written: "fst (GetObjectMetadata b k (PutObjectMetadata b k m st)) = Inr m"
  by (simp add: GetObjectMetadata_def PutObjectMetadata_def)


section \<open>Properties of uploads\<close>

lemma save_put_metadata_files:
  assumes "fs_laws F V" "isValidBucketName b" "ValidatePathSafe k = None"
    and "save_put_metadata F env b k m s1 = (r, s')"
  shows "q \<noteq> obj_elems b k \<Longrightarrow> V (sg_fs s') q = V (sg_fs s1) q"
    "sg_meta s' \<in> {sg_meta s1, PutObjectMetadata b k m (sg_meta s1)}"
    "V (sg_fs s') (obj_elems b k) \<in> {None, V (sg_fs s1) (obj_elems b k)}"
    "r = Inr etag \<Longrightarrow> etag = om_etag m \<and> sg_fs s' = sg_fs s1 \<and>
       (\<not> pe_metaFails env \<longrightarrow> sg_meta s' = PutObjectMetadata b k m (sg_meta s1))"
proof -
  note p = obj_path[OF assms(2,3)]
  obtain e f' where rm: "fo_remove F (scoped_join b k) (sg_fs s1) = (e, f')" by fastforce
  note rl = remove_law[OF assms(1) p(2) rm[unfolded p(1)]]
  show "q \<noteq> obj_elems b k \<Longrightarrow> V (sg_fs s') q = V (sg_fs s1) q"
    "sg_meta s' \<in> {sg_meta s1, PutObjectMetadata b k m (sg_meta s1)}"
    "V (sg_fs s') (obj_elems b k) \<in> {None, V (sg_fs s1) (obj_elems b k)}"
    "r = Inr etag \<Longrightarrow> etag = om_etag m \<and> sg_fs s' = sg_fs s1 \<and>
       (\<not> pe_metaFails env \<longrightarrow> sg_meta s' = PutObjectMetadata b k m (sg_meta s1))"
    using assms(4) rl rm by (auto simp: save_put_metadata_def split: if_splits)
qed

text \<open>An object that can be read is still the same one when its file and its metadata are.\<close>

lemma GetObject_kept:
  assumes "fs_laws F V" "isValidBucketName b'" "fst (GetObject F md5 b' k' s) = Inr ob"
    and "kept V es (sg_fs s) (sg_fs s')" "obj_elems b' k' \<noteq> es"
    and "fst (GetObjectMetadata b' k' (sg_meta s')) = fst (GetObjectMetadata b' k' (sg_meta s))"
    and "es \<noteq> [b']"
  shows "fst (GetObject F md5 b' k' s') = Inr ob"
proof -
  obtain ct where o: "ValidatePathSafe k' = None" "V (sg_fs s) [b'] = Some Folder"
    "file_at V (sg_fs s) (obj_elems b' k') = Some ct" "ob = object_value md5 b' k' ct (sg_meta s)"
    using assms(3) unfolding GetObject_Inr_iff[OF assms(1,2)] by blast
  have hd: "hd (obj_elems b' k') \<noteq> DirIOUploadsDir" "obj_elems b' k' \<noteq> []"
    using bucket_not_uploads[OF assms(2)] by (simp_all add: obj_elems_def)
  then have "file_at V (sg_fs s') (obj_elems b' k') = Some ct"
    using assms(4,5) o(3) unfolding kept_def by metis
  moreover have "V (sg_fs s') [b'] = Some Folder"
    by (rule kept_bucket[OF assms(4,2,7) o(2)])
  moreover have "ob = object_value md5 b' k' ct (sg_meta s')"
    using o(4) assms(6) by (simp add: object_value_def)
  ultimately show ?thesis unfolding GetObject_Inr_iff[OF assms(1,2)] using o(1) by blast
qed

lemma PutObject_stored:
  assumes "fs_laws F V" "isValidBucketName b" "plain_elem (pe_tmp env)" "\<not> pe_metaFails env"
    and "PutObject F md5 env b k (data, failed) ct cm s = (Inr etag, s')"
  shows "etag = hex_encode (md5 data) \<and> \<not> failed \<and>
    (\<exists>ob. fst (GetObject F md5 b k s') = Inr ob \<and> sb_key ob = k \<and> sb_content ob = data \<and>
       sb_size ob = int (length data) \<and> sb_etag ob = etag \<and> sb_contentType ob = ct \<and>
       sb_customMetadata ob = cm)"
proof -
  from PutObject_cases[OF assms(1-3,5)] obtain s1 t where
    ok: "\<not> failed" "ValidatePathSafe k = None" "V (sg_fs s) [b] = Some Folder"
    "kept V (obj_elems b k) (sg_fs s) (sg_fs s1)" "V (sg_fs s1) (obj_elems b k) = Some (File data t)"
    "obj_elems b k \<noteq> [b]" "save_put_metadata F env b k (put_meta md5 env data ct cm) s1 = (Inr etag, s')"
    by auto
  from save_put_metadata_files(4)[OF assms(1,2) ok(2,7) refl] assms(4)
  have r: "etag = hex_encode (md5 data)" "sg_fs s' = sg_fs s1"
    "sg_meta s' = PutObjectMetadata b k (put_meta md5 env data ct cm) (sg_meta s1)"
    by (simp_all add: put_meta_def)
  have "V (sg_fs s') [b] = Some Folder"
    using kept_bucket[OF ok(4) assms(2) ok(6,3)] r(2) by simp
  moreover have "file_at V (sg_fs s') (obj_elems b k) = Some (data, t)"
    using ok(5) r(2) by (simp add: file_at_def)
  ultimately have "fst (GetObject F md5 b k s') = Inr (object_value md5 b k (data, t) (sg_meta s'))"
    unfolding GetObject_Inr_iff[OF assms(1,2)] using ok(2) by blast
  with ok(1) r(1) show ?thesis
    by (simp add: object_value_def r(3) metadata_written put_meta_def)
qed


lemma PutObject_keeps:
  assumes "fs_laws F V" "isValidBucketName b" "plain_elem (pe_tmp env)"
    and "PutObject F md5 env b k body ct cm s = (r, s')"
    and "isValidBucketName b'" "fst (GetObject F md5 b' k' s) = Inr ob"
    and "obj_elems b' k' \<noteq> obj_elems b k \<or> (\<exists>e. r = Inl e) \<and> r \<noteq> Inl SMetaSave"
  shows "fst (GetObject F md5 b' k' s') = Inr ob"
  using PutObject_cases[OF assms(1-4)]
proof (elim disjE conjE exE)
  assume "sg_meta s' = sg_meta s" "\<forall>es. kept V es (sg_fs s) (sg_fs s')"
  then show ?thesis
    by (intro GetObject_kept[OF assms(1,5,6), where es = "[]"]) (simp_all add: obj_elems_def)
next
  fix s1 t
  assume k: "ValidatePathSafe k = None" and m: "sg_meta s1 = sg_meta s"
    and kp: "kept V (obj_elems b k) (sg_fs s) (sg_fs s1)" and ne: "obj_elems b k \<noteq> [b]"
    and sv: "save_put_metadata F env b k (put_meta md5 env (fst body) ct cm) s1 = (r, s')"
  have "r = Inl SMetaSave \<or> (\<exists>etag. r = Inr etag)"
    using sv by (auto simp: save_put_metadata_def split: if_splits)
  with assms(7) have other: "obj_elems b' k' \<noteq> obj_elems b k" by blast
  note sp = save_put_metadata_files[OF assms(1,2) k sv]
  have "kept V (obj_elems b k) (sg_fs s1) (sg_fs s')"
    by (simp add: kept_def file_at_def sp(1))
  from kept_trans[OF kp this] show ?thesis
  proof (rule GetObject_kept[OF assms(1,5,6) _ other])
    have "ValidatePathSafe k' = None" using assms(6) unfolding GetObject_Inr_iff[OF assms(1,5)] by blast
    from metadata_other(1)[OF assms(2) k assms(5) this other] sp(2) m
    show "fst (GetObjectMetadata b' k' (sg_meta s')) = fst (GetObjectMetadata b' k' (sg_meta s))" by auto
    show "obj_elems b k \<noteq> [b']" using ne by (auto simp: obj_elems_def)
  qed
qed




section \<open>Properties of deletions\<close>

lemma readDir_law:
  assumes "fs_laws F V" "fpath es" "fo_readDir F (text_of es) f = Inr is"
  shows "V f es = Some Folder" "sf_name ` set is = {e. file_name e \<and> V f (es @ [e]) \<noteq> None}"
    "distinct (map sf_name is)" "i \<in> set is \<Longrightarrow> describes (V f (es @ [sf_name i])) i"
proof -
  have l: "case V f es of
        Some Folder \<Rightarrow> (\<exists>is. fo_readDir F (text_of es) f = Inr is \<and> distinct (map sf_name is) \<and>
          sf_name ` set is = {e. file_name e \<and> V f (es @ [e]) \<noteq> None} \<and>
          (\<forall>i\<in>set is. describes (V f (es @ [sf_name i])) i))
      | _ \<Rightarrow> (\<exists>e. fo_readDir F (text_of es) f = Inl e)"
    using assms(1,2) unfolding fs_laws_def law_readDir_def by blast
  show v: "V f es = Some Folder" using l assms(3) by (auto split: option.splits fnode.splits)
  show "sf_name ` set is = {e. file_name e \<and> V f (es @ [e]) \<noteq> None}" "distinct (map sf_name is)"
    "i \<in> set is \<Longrightarrow> describes (V f (es @ [sf_name i])) i"
    using l v assms(3) by simp_all
qed

text \<open>The elements of a safe key are names.\<close>

lemma safe_names:
  assumes "ValidatePathSafe k = None"
  shows "list_all file_name (filter plain_elem (str_split k ''/''))"
proof -
  have "CHR 0x00 \<notin> set k"
    using assms by (auto simp: ValidatePathSafe_def str_contains_char split: if_splits)
  then show ?thesis using str_split_chars[of _ k] by (fastforce simp: list_all_iff file_name_def)
qed

definition dir_ok :: "string \<Rightarrow> string \<Rightarrow> bool" where
  "dir_ok b dir \<longleftrightarrow> dir = ''.'' \<or> ValidatePathSafe dir = None \<and> obj_elems b dir \<noteq> [b]"

lemma path_dir_ok:
  assumes "isValidBucketName b" "ValidatePathSafe k = None"
  shows "dir_ok b (path_dir k)"
proof (cases "path_dir k = ''.''")
  case False
  obtain ds where ds: "fpath (b # ds)" "ds \<noteq> []" "path_dir k = text_of ds" "ValidatePathSafe (path_dir k) = None"
    using key_parent[OF assms False] by blast
  then have "list_all plain_elem ds" by (simp add: fpath_def)
  with ds(2,3) have "obj_elems b (path_dir k) = b # ds"
    by (simp add: obj_elems_def split_plain_join filter_True list_all_iff)
  with ds(2,4) show ?thesis by (simp add: dir_ok_def)
qed (simp add: dir_ok_def)

lemma cleanupEmptyDirs_kept:
  assumes "fs_laws F V" "isValidBucketName b"
  shows "dir_ok b dir \<Longrightarrow> cleanupEmptyDirs F b dir f = (err, f') \<Longrightarrow> kept V es f f'"
  using assms
proof (induction F b dir f arbitrary: err f' rule: cleanupEmptyDirs.induct)
  case (1 F b dir f)
  note laws = \<open>fs_laws F V\<close> and b = \<open>isValidBucketName b\<close>
  show ?case
  proof (cases "dir = ''.'' \<or> dir = '''' \<or> dir = ''/''")
    case True
    with 1(3) show ?thesis by (simp add: cleanupEmptyDirs.simps)
  next
    case False
    with 1(2) have dir: "ValidatePathSafe dir = None" "obj_elems b dir \<noteq> [b]" by (simp_all add: dir_ok_def)
    note p = obj_path[OF b dir(1)]
    have unfold: "cleanupEmptyDirs F b dir f =
      (case fo_readDir F (text_of (obj_elems b dir)) f of
             Inl e \<Rightarrow> (Some e, f)
           | Inr entries \<Rightarrow>
               if entries \<noteq> [] then (None, f)
               else case fo_remove F (text_of (obj_elems b dir)) f of
                      (Some e, fs') \<Rightarrow> (Some e, fs')
                    | (None, fs') \<Rightarrow> cleanupEmptyDirs F b (path_dir dir) fs')"
      by (subst cleanupEmptyDirs.simps) (simp only: p(1) False if_False)
    obtain e1 f1 where rm: "fo_remove F (text_of (obj_elems b dir)) f = (e1, f1)" by fastforce
    note rl = remove_law[OF laws p(2) rm]
    show ?thesis
    proof (cases "fo_readDir F (text_of (obj_elems b dir)) f = Inr []")
      case False
      with unfold 1(3) show ?thesis by (auto split: sum.splits if_splits)
    next
      case empty: True
      note folder = readDir_law(1)[OF laws p(2) empty]
      have "length (obj_elems b dir) \<noteq> 1" using dir(2) by (auto simp: obj_elems_def)
      moreover have "file_at V f1 q = file_at V f q" for q
        using rl folder by (cases "q = obj_elems b dir") (auto simp: file_at_def)
      ultimately have k1: "kept V es f f1" using rl(1) unfolding kept_def by metis
      show ?thesis
      proof (cases e1)
        case None
        have c: "cleanupEmptyDirs F b (path_dir dir) f1 = (err, f')" using unfold empty rm None 1(3) by simp
        have rd: "fo_remove F (scoped_join b dir) f = (None, f1)" "fo_readDir F (scoped_join b dir) f = Inr []"
          using rm None empty p(1) by simp_all
        have "kept V es f1 f'"
          by (rule 1(1)[OF False rd(2) _ rd(1)[symmetric] refl path_dir_ok[OF b dir(1)] c laws b]) simp
        with k1 show ?thesis by (rule kept_trans)
      next
        case (Some x)
        with unfold empty rm 1(3) k1 show ?thesis by simp
      qed
    qed
  qed
qed


lemma DeleteObject_spec:
  assumes "fs_laws F V" "isValidBucketName b" "DeleteObject F b k s = (None, s')"
  shows "ValidatePathSafe k = None" "V (sg_fs s) [b] = Some Folder"
    "file_at V (sg_fs s) (obj_elems b k) \<noteq> None" "file_at V (sg_fs s') (obj_elems b k) = None"
    "kept V (obj_elems b k) (sg_fs s) (sg_fs s')" "sg_meta s' = DeleteObjectMetadata b k (sg_meta s)"
proof -
  obtain r1 s1 where f: "find_object F b k s = (r1, s1)" by fastforce
  with assms(3) obtain x where r1: "r1 = Inr x" by (auto simp: DeleteObject_def split: sum.splits)
  note fb = find_object_bucket[OF assms(1,2) f[unfolded r1]]
  note spec = find_object_spec[OF assms(1,2) fb f]
  note p = obj_path[OF assms(2) fb(1)]
  show "ValidatePathSafe k = None" "V (sg_fs s) [b] = Some Folder" by (rule fb)+
  show there: "file_at V (sg_fs s) (obj_elems b k) \<noteq> None"
    using spec(3) r1 by (auto split: option.splits)
  with spec(3) r1 obtain i where x: "x = (text_of (obj_elems b k), i)" by (auto split: option.splits)
  obtain e2 f2 where rm: "fo_remove F (text_of (obj_elems b k)) (sg_fs s1) = (e2, f2)" by fastforce
  note rl = remove_law[OF assms(1) p(2) rm]
  obtain e3 f3 where cl: "cleanupEmptyDirs F b (path_dir k) f2 = (e3, f3)" by fastforce
  have e: "e2 = None" and s': "s' = s1\<lparr>sg_fs := f3, sg_meta := DeleteObjectMetadata b k (sg_meta s1)\<rparr>"
    using assms(3) f r1 x rm cl by (auto simp: DeleteObject_def split: option.splits)
  note k3 = cleanupEmptyDirs_kept[OF assms(1,2) path_dir_ok[OF assms(2) fb(1)] cl]
  have "kept V (obj_elems b k) (sg_fs s1) f2"
    unfolding kept_def by (simp add: rl(1) file_at_def)
  from kept_trans[OF kept_trans[OF kept_eq[of V "sg_fs s1" "sg_fs s", OF spec(2)] this] k3]
  show "kept V (obj_elems b k) (sg_fs s) (sg_fs s')" using s' by simp
  have "file_at V f2 (obj_elems b k) = None" using rl(2) e by (simp add: file_at_def)
  moreover have "hd (obj_elems b k) \<noteq> DirIOUploadsDir" "obj_elems b k \<noteq> []"
    using bucket_not_uploads[OF assms(2)] by (simp_all add: obj_elems_def)
  ultimately show "file_at V (sg_fs s') (obj_elems b k) = None"
    using k3[of "[]"] s' unfolding kept_def by simp
  show "sg_meta s' = DeleteObjectMetadata b k (sg_meta s)" using s' spec(1) by simp
qed


text \<open>C17. Deleting a bucket loses no object: whatever \<open>DeleteBucket\<close> answers, every object of every
  bucket that could be read before can be read after; in particular a bucket with an object in it is
  not deleted.\<close>

theorem bucket_deletion_loses_nothing:
  assumes "fs_laws F V" "isValidBucketName b" "DeleteBucket F b s = (err, s')"
    and "isValidBucketName b'" "fst (GetObject F md5 b' k' s) = Inr ob"
  shows "fst (GetObject F md5 b' k' s') = Inr ob \<and> (b' = b \<longrightarrow> err \<noteq> None)"
proof -
  obtain ct where o: "V (sg_fs s) [b'] = Some Folder" "file_at V (sg_fs s) (obj_elems b' k') = Some ct"
    "ValidatePathSafe k' = None"
    using assms(5) unfolding GetObject_Inr_iff[OF assms(1,4)] by blast
  have long: "strict_prefix [b'] (obj_elems b' k')"
    using o by (cases "obj_elems b' k' = [b']") (auto simp: file_at_def obj_elems_def strict_prefix_def)
  show ?thesis
  proof (cases "fo_readDir F b (sg_fs s) = Inr [] \<and> (\<exists>i. fo_stat F b (sg_fs s) = Inr i)")
    case False
    then have "s' = s \<and> err \<noteq> None"
      using assms(3) by (auto simp: DeleteBucket_def split: sum.splits fs_error.splits if_splits)
    with assms(5) show ?thesis by simp
  next
    case True
    then have empty: "fo_readDir F (text_of [b]) (sg_fs s) = Inr []" by simp
    note none = readDir_law(2)[OF assms(1) bucket_fpath[OF assms(2)] empty]
    have diff: "b' \<noteq> b"
    proof
      assume eq: "b' = b"
      obtain a r where es: "obj_elems b' k' = [b'] @ a # r" using long by (rule strict_prefixE')
      have "V (sg_fs s) (obj_elems b' k') \<noteq> None" using o(2) by (intro file_at_exists) simp
      moreover have "prefix [b', a] (obj_elems b' k')" using es by simp
      ultimately have "V (sg_fs s) [b', a] \<noteq> None"
        using tree_parent[OF assms(1), of "sg_fs s" "obj_elems b' k'" "[b', a]"]
        by (cases "obj_elems b' k' = [b', a]") (auto simp: strict_prefix_def)
      moreover have "file_name a"
        using safe_names[of k'] o(3) es by (simp add: obj_elems_def)
      ultimately show False using none eq by auto
    qed
    obtain e2 f2 where rm: "fo_remove F (text_of [b]) (sg_fs s) = (e2, f2)" by fastforce
    note rl = remove_law[OF assms(1) bucket_fpath[OF assms(2)] rm]
    have s': "sg_fs s' \<in> {sg_fs s, f2}" "ms_objects (sg_meta s') = ms_objects (sg_meta s)"
      "ms_objMetaCache (sg_meta s') = ms_objMetaCache (sg_meta s)"
      using assms(3) True rm
      by (auto simp: DeleteBucket_def MetaDeleteBucket_def split: option.splits if_splits prod.splits)
    have "kept V [b] (sg_fs s) (sg_fs s')"
      using s'(1) rl(1) by (auto simp: kept_def file_at_def)
    then have "fst (GetObject F md5 b' k' s') = Inr ob"
    proof (rule GetObject_kept[OF assms(1,4,5)])
      show "obj_elems b' k' \<noteq> [b]" "[b] \<noteq> [b']" using diff by (simp_all add: obj_elems_def)
      show "fst (GetObjectMetadata b' k' (sg_meta s')) = fst (GetObjectMetadata b' k' (sg_meta s))"
        using s'(2,3) by (simp add: GetObjectMetadata_def split: option.splits)
    qed
    with diff show ?thesis by simp
  qed
qed

end
