(* ===== verification/MemoryFs.thy ===== *)
theory MemoryFs
  imports StorageProps
begin

text \<open>
  A file system in memory that satisfies the laws of theory FileSystem, for the instances of the
  properties about files: a directory is an association list of its entries.
\<close>

section \<open>Trees\<close>

datatype mtree = MFile string time | MDir "(string \<times> mtree) list"

fun tget :: "mtree \<Rightarrow> string list \<Rightarrow> mtree option" where
  "tget n [] = Some n"
| "tget (MFile c t) (e # es) = None"
| "tget (MDir ks) (e # es) = (case map_of ks e of None \<Rightarrow> None | Some n \<Rightarrow> tget n es)"

fun tput :: "mtree option \<Rightarrow> string list \<Rightarrow> mtree \<Rightarrow> mtree" where
  "tput new [] n = n"
| "tput new (e # es) (MFile c t) = MFile c t"
| "tput new (e # es) (MDir ks) =
     MDir (if es = [] then (case new of None \<Rightarrow> del e ks | Some n \<Rightarrow> put e n ks)
           else case map_of ks e of None \<Rightarrow> ks | Some n \<Rightarrow> put e (tput new es n) ks)"

fun tmk :: "string list \<Rightarrow> mtree \<Rightarrow> mtree option" where
  "tmk es (MFile c t) = None"
| "tmk [] (MDir ks) = Some (MDir ks)"
| "tmk (e # es) (MDir ks) =
     (case tmk es (case map_of ks e of None \<Rightarrow> MDir [] | Some n \<Rightarrow> n) of
        None \<Rightarrow> None
      | Some n \<Rightarrow> Some (MDir (put e n ks)))"

fun kind :: "mtree option \<Rightarrow> fnode option" where
  "kind None = None"
| "kind (Some (MFile c t)) = Some (File c t)"
| "kind (Some (MDir ks)) = Some Folder"

lemma kind_None [simp]: "kind x = None \<longleftrightarrow> x = None"
  by (cases x rule: kind.cases) simp_all

lemma kind_below_file [simp]: "kind (tget (MFile c t) es) \<noteq> Some Folder"
  by (cases es) simp_all

lemma kind_tput [simp]: "kind (Some (tput new es n)) = kind (Some n)"
  by (induction new es n rule: tput.induct) simp_all

lemma tget_append: "tget n (es @ r) = (case tget n es of None \<Rightarrow> None | Some m \<Rightarrow> tget m r)"
  by (induction n es rule: tget.induct) (auto split: option.split)

lemma tget_parent: "tget n (es @ [e]) \<noteq> None \<Longrightarrow> kind (tget n es) = Some Folder"
  by (induction n es rule: tget.induct) (auto split: option.splits elim: tget.elims)

lemma tput_other: "\<not> prefix es q \<Longrightarrow> kind (tget (tput new es n) q) = kind (tget n q)"
proof (induction new es n arbitrary: q rule: tput.induct)
  case (3 new e es ks)
  show ?case
  proof (cases q)
    case (Cons a r)
    with 3 show ?thesis by (cases "a = e") (auto split: option.splits)
  qed simp
qed auto

lemma tput_below:
  "es \<noteq> [] \<Longrightarrow> kind (tget n (butlast es)) = Some Folder \<Longrightarrow>
   tget (tput new es n) (es @ r) = (case new of None \<Rightarrow> None | Some m \<Rightarrow> tget m r)"
proof (induction new es n rule: tput.induct)
  case (3 new e es ks)
  then show ?case by (auto split: option.splits if_splits)
qed auto

lemma tput_no_parent: "es \<noteq> [] \<Longrightarrow> kind (tget n (butlast es)) \<noteq> Some Folder \<Longrightarrow> tput new es n = n"
proof (induction new es n rule: tput.induct)
  case (3 new e es ks)
  then show ?case by (auto split: option.splits if_splits simp: AList.update_triv)
qed auto

lemma tmk_kind:
  "tmk es n = Some n' \<Longrightarrow>
     kind (tget n' q) = (if prefix q es \<and> tget n q = None then Some Folder else kind (tget n q)) \<and>
     kind (tget n' es) = Some Folder"
proof (induction es n arbitrary: n' q rule: tmk.induct)
  case (3 e es ks)
  let ?n = "case map_of ks e of None \<Rightarrow> MDir [] | Some n \<Rightarrow> n"
  obtain m where m: "tmk es ?n = Some m" "n' = MDir (put e m ks)" using 3(2) by (auto split: option.splits)
  have IH: "kind (tget m q) = (if prefix q es \<and> tget ?n q = None then Some Folder else kind (tget ?n q)) \<and>
      kind (tget m es) = Some Folder" for q
    by (rule 3(1)[OF m(1)])
  have empty: "tget (MDir []) q = (if q = [] then Some (MDir []) else None)" for q by (cases q) auto
  have dir: "kind (tget n' (e # es)) = Some Folder" using IH[of es, THEN conjunct2] m(2) by simp
  show ?case
  proof (cases q)
    case Nil
    with m(2) dir show ?thesis by simp
  next
    case (Cons a r)
    have "kind (tget n' q) = (if prefix q (e # es) \<and> tget (MDir ks) q = None then Some Folder else kind (tget (MDir ks) q))"
      using m(2) Cons IH[of r, THEN conjunct1] by (cases "a = e") (auto split: option.splits simp: empty)
    with dir show ?thesis by blast
  qed
qed auto

lemma tmk_existing: "kind (tget n es) = Some Folder \<Longrightarrow> tmk es n \<noteq> None"
  by (induction es n rule: tmk.induct) (auto split: option.splits)

section \<open>The operations\<close>

type_synonym mem = "(string \<times> mtree) list"

abbreviation kids :: "mtree \<Rightarrow> mem" where
  "kids n \<equiv> (case n of MDir ks \<Rightarrow> ks | MFile _ _ \<Rightarrow> [])"

definition elems_of :: "string \<Rightarrow> string list" where
  "elems_of p = str_split p ''/''"

definition is_file :: "fnode option \<Rightarrow> bool" where
  "is_file x = (case x of Some (File _ _) \<Rightarrow> True | _ \<Rightarrow> False)"

lemma is_file_iff: "is_file x \<longleftrightarrow> (\<exists>c t. x = Some (File c t))"
  by (auto simp: is_file_def split: option.splits fnode.splits)

definition mem_stat :: "string \<Rightarrow> mem \<Rightarrow> fs_error + stat_info" where
  "mem_stat p f =
     (case tget (MDir f) (elems_of p) of
        Some (MDir _) \<Rightarrow> Inr \<lparr>sf_name = p, sf_isDir = True, sf_size = 0, sf_modTime = 0\<rparr>
      | Some (MFile c t) \<Rightarrow> Inr \<lparr>sf_name = p, sf_isDir = False, sf_size = int (length c), sf_modTime = t\<rparr>
      | None \<Rightarrow>
          Inl (if list_ex (\<lambda>i. is_file (kind (tget (MDir f) (take i (elems_of p)))))
                    [0..<length (elems_of p)] then FsOther else FsNotExist))"

definition mem_info :: "string \<Rightarrow> mtree option \<Rightarrow> stat_info" where
  "mem_info nm n =
     (case n of
        Some (MFile c t) \<Rightarrow> \<lparr>sf_name = nm, sf_isDir = False, sf_size = int (length c), sf_modTime = t\<rparr>
      | _ \<Rightarrow> \<lparr>sf_name = nm, sf_isDir = True, sf_size = 0, sf_modTime = 0\<rparr>)"

definition mem_readDir :: "string \<Rightarrow> mem \<Rightarrow> fs_error + stat_info list" where
  "mem_readDir p f =
     (case tget (MDir f) (elems_of p) of
        Some (MDir ks) \<Rightarrow> Inr (map (\<lambda>nm. mem_info nm (map_of ks nm)) (filter file_name (remdups (map fst ks))))
      | _ \<Rightarrow> Inl FsOther)"

definition mem_readFile :: "string \<Rightarrow> mem \<Rightarrow> fs_error + string" where
  "mem_readFile p f =
     (case tget (MDir f) (elems_of p) of Some (MFile c t) \<Rightarrow> Inr c | _ \<Rightarrow> Inl FsOther)"

definition mem_mkdirAll :: "string \<Rightarrow> mem \<Rightarrow> fs_error option \<times> mem" where
  "mem_mkdirAll p f =
     (case tmk (elems_of p) (MDir f) of None \<Rightarrow> (Some FsOther, f) | Some n \<Rightarrow> (None, kids n))"

text \<open>Put a file in place, with the directories above it.\<close>

definition mem_place :: "mtree \<Rightarrow> string list \<Rightarrow> mem \<Rightarrow> mem option" where
  "mem_place new es f =
     (case tmk (butlast es) (MDir f) of
        None \<Rightarrow> None
      | Some n \<Rightarrow>
          (case tget n es of Some (MDir _) \<Rightarrow> None | _ \<Rightarrow> Some (kids (tput (Some new) es n))))"

definition mem_create :: "string \<Rightarrow> mem \<Rightarrow> fs_error option \<times> mem" where
  "mem_create p f =
     (case mem_place (MFile '''' 0) (elems_of p) f of None \<Rightarrow> (Some FsOther, f) | Some f' \<Rightarrow> (None, f'))"

definition mem_write :: "string \<Rightarrow> string \<Rightarrow> mem \<Rightarrow> fs_error option \<times> mem" where
  "mem_write p d f =
     (case tget (MDir f) (elems_of p) of
        Some (MFile c t) \<Rightarrow> (None, kids (tput (Some (MFile (c @ d) t)) (elems_of p) (MDir f)))
      | _ \<Rightarrow> (Some FsOther, f))"

definition mem_close :: "string \<Rightarrow> mem \<Rightarrow> fs_error option \<times> mem" where
  "mem_close p f = (None, f)"

definition mem_rename :: "string \<Rightarrow> string \<Rightarrow> mem \<Rightarrow> fs_error option \<times> mem" where
  "mem_rename p q f =
     (case tget (MDir f) (elems_of p) of
        Some (MFile c t) \<Rightarrow>
          (case mem_place (MFile c t) (elems_of q) f of
             None \<Rightarrow> (Some FsOther, f)
           | Some f' \<Rightarrow> (None, kids (tput None (elems_of p) (MDir f'))))
      | _ \<Rightarrow> (Some FsOther, f))"

definition mem_remove :: "string \<Rightarrow> mem \<Rightarrow> fs_error option \<times> mem" where
  "mem_remove p f =
     (case tget (MDir f) (elems_of p) of
        None \<Rightarrow> (Some FsNotExist, f)
      | Some (MDir (_ # _)) \<Rightarrow> (Some FsOther, f)
      | _ \<Rightarrow> (None, kids (tput None (elems_of p) (MDir f))))"

definition mem_removeAll :: "string \<Rightarrow> mem \<Rightarrow> fs_error option \<times> mem" where
  "mem_removeAll p f = (None, kids (tput None (elems_of p) (MDir f)))"

definition mem_ops :: "mem fs_ops" where
  "mem_ops =
     \<lparr>fo_stat = mem_stat, fo_readDir = mem_readDir, fo_readFile = mem_readFile, fo_mkdirAll = mem_mkdirAll,
      fo_create = mem_create, fo_write = mem_write, fo_close = mem_close, fo_rename = mem_rename,
      fo_remove = mem_remove, fo_removeAll = mem_removeAll\<rparr>"

definition mem_view :: "mem fs_view" where
  "mem_view f es = kind (tget (MDir f) es)"


section \<open>The laws\<close>

lemma elems_of_text: "fpath es \<Longrightarrow> elems_of (text_of es) = es"
  by (simp add: elems_of_def fpath_def split_plain_join)

lemma mem_law_tree: "law_tree mem_view"
  using tget_parent by (auto simp: law_tree_def mem_view_def)

lemma mem_law_stat: "law_stat mem_ops mem_view"
  unfolding law_stat_def
proof (intro allI impI)
  fix f es
  assume es: "fpath es"
  have "list_ex (\<lambda>i. is_file (kind (tget (MDir f) (take i es)))) [0..<length es] \<longleftrightarrow>
      (\<exists>q c t. strict_prefix q es \<and> mem_view f q = Some (File c t))"
  proof
    assume "list_ex (\<lambda>i. is_file (kind (tget (MDir f) (take i es)))) [0..<length es]"
    then obtain i c t where "i < length es" "mem_view f (take i es) = Some (File c t)"
      unfolding list_ex_iff is_file_iff mem_view_def by auto
    then show "\<exists>q c t. strict_prefix q es \<and> mem_view f q = Some (File c t)"
      by (intro exI[of _ "take i es"] exI[of _ c] exI[of _ t])
        (auto simp: strict_prefix_def take_is_prefix dest: arg_cong[of _ _ length])
  next
    assume "\<exists>q c t. strict_prefix q es \<and> mem_view f q = Some (File c t)"
    then obtain q c t where q: "strict_prefix q es" "mem_view f q = Some (File c t)" by blast
    then have "take (length q) es = q" "length q < length es"
      by (auto simp: strict_prefix_def prefix_def)
    with q(2) show "list_ex (\<lambda>i. is_file (kind (tget (MDir f) (take i es)))) [0..<length es]"
      unfolding list_ex_iff is_file_iff mem_view_def by (intro bexI[of _ "length q"]) auto
  qed
  then show "case mem_view f es of
        Some Folder \<Rightarrow> (\<exists>i. fo_stat mem_ops (text_of es) f = Inr i \<and> sf_isDir i)
      | Some (File c t) \<Rightarrow>
          (\<exists>i. fo_stat mem_ops (text_of es) f = Inr i \<and> \<not> sf_isDir i \<and> sf_size i = int (length c) \<and>
             sf_modTime i = t)
      | None \<Rightarrow>
          fo_stat mem_ops (text_of es) f =
            Inl (if \<exists>q c t. strict_prefix q es \<and> mem_view f q = Some (File c t) then FsOther else FsNotExist)"
    unfolding mem_ops_def mem_stat_def elems_of_text[OF es] fs_ops.simps
    by (cases "tget (MDir f) es" rule: kind.cases) (simp_all add: mem_view_def)
qed

lemma mem_info_name [simp]: "sf_name (mem_info nm n) = nm"
  by (simp add: mem_info_def split: option.split mtree.split)

lemma mem_info_describes: "n \<noteq> None \<Longrightarrow> describes (kind n) (mem_info nm n)"
  by (cases n rule: kind.cases) (simp_all add: mem_info_def describes_def)

lemma mem_law_readDir: "law_readDir mem_ops mem_view"
  unfolding law_readDir_def
proof (intro allI impI)
  fix f es
  assume es: "fpath es"
  show "case mem_view f es of
        Some Folder \<Rightarrow> (\<exists>is. fo_readDir mem_ops (text_of es) f = Inr is \<and> distinct (map sf_name is) \<and>
          sf_name ` set is = {e. file_name e \<and> mem_view f (es @ [e]) \<noteq> None} \<and>
          (\<forall>i\<in>set is. describes (mem_view f (es @ [sf_name i])) i))
      | _ \<Rightarrow> (\<exists>e. fo_readDir mem_ops (text_of es) f = Inl e)"
  proof (cases "tget (MDir f) es" rule: kind.cases)
    case (3 ks)
    let ?is = "map (\<lambda>nm. mem_info nm (map_of ks nm)) (filter file_name (remdups (map fst ks)))"
    have "fst ` set ks = {e. \<exists>n. map_of ks e = Some n}"
      unfolding dom_map_of_conv_image_fst[symmetric] dom_def by auto
    moreover have v: "mem_view f (es @ [e]) = kind (map_of ks e)" for e
      by (simp add: mem_view_def tget_append 3 split: option.split)
    moreover have "distinct (map sf_name ?is)" by (simp add: comp_def)
    ultimately have "sf_name ` set ?is = {e. file_name e \<and> mem_view f (es @ [e]) \<noteq> None} \<and> distinct (map sf_name ?is) \<and>
        (\<forall>i\<in>set ?is. describes (mem_view f (es @ [sf_name i])) i)"
      by (auto simp: image_image intro!: mem_info_describes)
    then show ?thesis
      by (simp add: mem_ops_def mem_readDir_def elems_of_text[OF es] 3 mem_view_def)
  qed (simp_all add: mem_ops_def mem_readDir_def elems_of_text[OF es] mem_view_def)
qed

lemma mem_law_readFile: "law_readFile mem_ops mem_view"
  unfolding law_readFile_def
proof (intro allI impI)
  fix f es
  assume es: "fpath es"
  show "case mem_view f es of
        Some (File c t) \<Rightarrow> fo_readFile mem_ops (text_of es) f = Inr c
      | _ \<Rightarrow> (\<exists>e. fo_readFile mem_ops (text_of es) f = Inl e)"
    by (cases "tget (MDir f) es" rule: kind.cases)
      (simp_all add: mem_ops_def mem_readFile_def elems_of_text[OF es] mem_view_def)
qed

lemma tmk_dir: "tmk es (MDir f) = Some n \<Longrightarrow> \<exists>ks. n = MDir ks"
  by (cases es) (auto split: option.splits)

lemma tput_dir: "\<exists>ks. tput new es (MDir f) = MDir ks"
  by (cases es) auto

lemma kids_tput: "MDir (kids (tput new es (MDir f))) = tput new es (MDir f)"
  using tput_dir[of new es f] by auto

lemma tmk_same:
  assumes "tmk es (MDir f) = Some n"
  shows "same_but_dirs mem_view es f (kids n) q" "mem_view (kids n) es = Some Folder" "n = MDir (kids n)"
proof -
  obtain ks where n: "n = MDir ks" using tmk_dir[OF assms] by blast
  then show "n = MDir (kids n)" by simp
  show "same_but_dirs mem_view es f (kids n) q" "mem_view (kids n) es = Some Folder"
    using tmk_kind[OF assms, of q] tmk_kind[OF assms, of es] n
    by (auto simp: same_but_dirs_def mem_view_def split: if_splits)
qed

lemma mem_law_mkdirAll: "law_mkdirAll mem_ops mem_view"
  unfolding law_mkdirAll_def
proof (intro allI impI)
  fix f es err f'
  assume es: "fpath es" and m: "fo_mkdirAll mem_ops (text_of es) f = (err, f')"
  show "(\<forall>q. same_but_dirs mem_view es f f' q) \<and> (err = None \<longrightarrow> mem_view f' es = Some Folder) \<and>
     (mem_view f es = Some Folder \<longrightarrow> err = None)"
  proof (cases "tmk es (MDir f)")
    case None
    then have "mem_view f es \<noteq> Some Folder" using tmk_existing unfolding mem_view_def by blast
    with None m show ?thesis by (auto simp: mem_ops_def mem_mkdirAll_def elems_of_text[OF es] same_but_dirs_def)
  next
    case (Some n)
    with m have "err = None" "f' = kids n" by (simp_all add: mem_ops_def mem_mkdirAll_def elems_of_text[OF es])
    with tmk_same(1,2)[OF Some] show ?thesis by simp
  qed
qed

text \<open>Replacing what is at a path whose directory exists.\<close>

lemma tput_view:
  assumes "es \<noteq> []" "mem_view f (butlast es) = Some Folder"
  shows "\<not> prefix es q \<Longrightarrow> mem_view (kids (tput new es (MDir f))) q = mem_view f q"
    "mem_view (kids (tput new es (MDir f))) (es @ r) = (case new of None \<Rightarrow> None | Some m \<Rightarrow> kind (tget m r))"
  using tput_other[of es q new "MDir f"] tput_below[OF assms(1), of "MDir f" new r] assms(2)
  by (simp_all add: mem_view_def kids_tput split: option.split)

text \<open>A file or nothing at a path: nothing is below it.\<close>

lemma nothing_below:
  assumes "mem_view f es \<noteq> Some Folder" "r \<noteq> []" shows "mem_view f (es @ r) = None"
  using assms by (cases "tget (MDir f) es" rule: kind.cases) (auto simp: mem_view_def tget_append neq_Nil_conv)

lemma tput_leaf:
  assumes "es \<noteq> []" "mem_view f (butlast es) = Some Folder" "mem_view f es \<noteq> Some Folder \<or> tget (MDir f) es = Some (MDir [])"
    and "new = None \<or> new = Some (MFile c t)" "q \<noteq> es"
  shows "mem_view (kids (tput new es (MDir f))) q = mem_view f q"
proof (cases "prefix es q")
  case True
  then obtain r where q: "q = es @ r" "r \<noteq> []" using assms(5) by (auto simp: prefix_def)
  have "mem_view f q = None"
    using assms(3) nothing_below[OF _ q(2)] q by (auto simp: mem_view_def tget_append neq_Nil_conv)
  with q assms(4) tput_view(2)[OF assms(1,2), of new r] show ?thesis by (auto simp: neq_Nil_conv)
qed (rule tput_view(1)[OF assms(1,2)])

lemma mem_place_view:
  assumes "es \<noteq> []" "mem_place (MFile c t) es f = Some f'"
  shows "q \<noteq> es \<Longrightarrow> same_but_dirs mem_view es f f' q" "mem_view f' es = Some (File c t)"
    "mem_view f es \<noteq> Some Folder"
proof -
  obtain n where n: "tmk (butlast es) (MDir f) = Some n" "\<forall>ks. tget n es \<noteq> Some (MDir ks)"
    "f' = kids (tput (Some (MFile c t)) es n)"
    using assms(2) by (auto simp: mem_place_def split: option.splits mtree.splits)
  note s = tmk_same[OF n(1)]
  have nf: "mem_view (kids n) es \<noteq> Some Folder"
    using n(2) s(3) unfolding mem_view_def by (cases "tget n es" rule: kind.cases) auto
  have f': "f' = kids (tput (Some (MFile c t)) es (MDir (kids n)))" using n(3) s(3) by metis
  have pre: "prefix q (butlast es) \<Longrightarrow> prefix q es" for q
    by (metis append_butlast_last_id assms(1) prefix_prefix)
  show "q \<noteq> es \<Longrightarrow> same_but_dirs mem_view es f f' q"
    using tput_leaf[OF assms(1) s(2), of "Some (MFile c t)" c t q] nf s(1)[of q] pre
    by (auto simp: f' same_but_dirs_def)
  show "mem_view f' es = Some (File c t)"
    using tput_view(2)[OF assms(1) s(2), of "Some (MFile c t)" "[]"] by (simp add: f')
  have "\<not> prefix es (butlast es)" using assms(1) prefix_length_le[of es "butlast es"] by (cases es) auto
  then show "mem_view f es \<noteq> Some Folder" using s(1)[of es] nf by (auto simp: same_but_dirs_def)
qed


lemma mem_law_create: "law_create mem_ops mem_view"
  unfolding law_create_def
proof (intro allI impI)
  fix f es err f'
  assume es: "fpath es" and c: "fo_create mem_ops (text_of es) f = (err, f')"
  have ne: "es \<noteq> []" using es by (simp add: fpath_def)
  show "(\<forall>q. q \<noteq> es \<longrightarrow> same_but_dirs mem_view es f f' q) \<and>
     (case err of None \<Rightarrow> (\<exists>t. mem_view f' es = Some (File '''' t)) | Some _ \<Rightarrow> mem_view f' es = mem_view f es)"
  proof (cases "mem_place (MFile '''' 0) es f")
    case None
    with c show ?thesis by (auto simp: mem_ops_def mem_create_def elems_of_text[OF es] same_but_dirs_def)
  next
    case (Some g)
    with c have "err = None" "f' = g" by (simp_all add: mem_ops_def mem_create_def elems_of_text[OF es])
    with mem_place_view(1,2)[OF ne Some] show ?thesis by auto
  qed
qed

lemma view_parent:
  assumes "mem_view f es \<noteq> None" "es \<noteq> []" shows "mem_view f (butlast es) = Some Folder"
  using tget_parent[of "MDir f" "butlast es" "last es"] assms by (simp add: mem_view_def)

lemma mem_law_write: "law_write mem_ops mem_view"
  unfolding law_write_def
proof (intro allI impI)
  fix f es c t d err f'
  assume es: "fpath es" and v: "mem_view f es = Some (File c t)" and w: "fo_write mem_ops (text_of es) d f = (err, f')"
  have ne: "es \<noteq> []" using es by (simp add: fpath_def)
  have n: "tget (MDir f) es = Some (MFile c t)"
    using v unfolding mem_view_def by (cases "tget (MDir f) es" rule: kind.cases) auto
  with w have r: "err = None" "f' = kids (tput (Some (MFile (c @ d) t)) es (MDir f))"
    by (simp_all add: mem_ops_def mem_write_def elems_of_text[OF es])
  have p: "mem_view f (butlast es) = Some Folder" using view_parent[OF _ ne] v by simp
  have "mem_view f' q = mem_view f q" if "q \<noteq> es" for q
    unfolding r by (rule tput_leaf[OF ne p _ _ that]) (simp_all add: v)
  moreover have "mem_view f' es = Some (File (c @ d) t)"
    using tput_view(2)[OF ne p, of "Some (MFile (c @ d) t)" "[]"] by (simp add: r)
  ultimately show "(\<forall>q. q \<noteq> es \<longrightarrow> mem_view f' q = mem_view f q) \<and>
     (\<exists>c' t'. mem_view f' es = Some (File c' t') \<and> (err = None \<longrightarrow> c' = c @ d))" by blast
qed

lemma mem_law_close: "law_close mem_ops mem_view"
  by (simp add: law_close_def mem_ops_def mem_close_def)

lemma mem_law_remove: "law_remove mem_ops mem_view"
  unfolding law_remove_def
proof (intro allI impI)
  fix f es err f'
  assume es: "fpath es" and m: "fo_remove mem_ops (text_of es) f = (err, f')"
  have ne: "es \<noteq> []" using es by (simp add: fpath_def)
  have gone: "(\<forall>q. q \<noteq> es \<longrightarrow> mem_view f' q = mem_view f q) \<and>
     mem_view f' es = (if err = None then None else mem_view f es)" if r: "err = None" "f' = kids (tput None es (MDir f))"
    and l: "mem_view f es \<noteq> None" "mem_view f es \<noteq> Some Folder \<or> tget (MDir f) es = Some (MDir [])"
    using tput_leaf[OF ne view_parent[OF l(1) ne] l(2)] tput_view(2)[OF ne view_parent[OF l(1) ne], of None "[]"] r
    by simp
  show "(\<forall>q. q \<noteq> es \<longrightarrow> mem_view f' q = mem_view f q) \<and>
     mem_view f' es = (if err = None then None else mem_view f es)"
  proof (cases "tget (MDir f) es" rule: kind.cases)
    case 1
    with m show ?thesis by (auto simp: mem_ops_def mem_remove_def elems_of_text[OF es])
  next
    case (2 c t)
    with m show ?thesis by (intro gone) (auto simp: mem_ops_def mem_remove_def elems_of_text[OF es] mem_view_def)
  next
    case (3 ks)
    show ?thesis
    proof (cases ks)
      case Nil
      with m 3 show ?thesis by (intro gone) (auto simp: mem_ops_def mem_remove_def elems_of_text[OF es] mem_view_def)
    next
      case (Cons k ks')
      with m 3 show ?thesis by (auto simp: mem_ops_def mem_remove_def elems_of_text[OF es])
    qed
  qed
qed

lemma mem_law_removeAll: "law_removeAll mem_ops mem_view"
  unfolding law_removeAll_def
proof (intro allI impI)
  fix f es err f'
  assume es: "fpath es" and m: "fo_removeAll mem_ops (text_of es) f = (err, f')"
  have ne: "es \<noteq> []" using es by (simp add: fpath_def)
  have r: "f' = kids (tput None es (MDir f))"
    using m by (simp add: mem_ops_def mem_removeAll_def elems_of_text[OF es])
  show "(\<forall>q. \<not> prefix es q \<longrightarrow> mem_view f' q = mem_view f q) \<and>
     (\<forall>q. prefix es q \<longrightarrow> mem_view f' q = mem_view f q \<or> mem_view f' q = None) \<and>
     (err = None \<longrightarrow> mem_view f' es = None)"
  proof (cases "mem_view f (butlast es) = Some Folder")
    case True
    note t = tput_view[OF ne True, where new = None]
    from t(2) have "mem_view f' q = None" if "prefix es q" for q using that r by (auto simp: prefix_def)
    with t(1) r show ?thesis by auto
  next
    case False
    then have "f' = f" using tput_no_parent[OF ne, of "MDir f" None] r by (simp add: mem_view_def)
    moreover have "mem_view f es = None" using view_parent[OF _ ne] False by blast
    ultimately show ?thesis by simp
  qed
qed

lemma mem_law_rename: "law_rename mem_ops mem_view"
  unfolding law_rename_def
proof (intro allI impI)
  fix f es es' c t err f'
  assume es: "fpath es" "fpath es'" "es \<noteq> es'" and v: "mem_view f es = Some (File c t)"
    and m: "fo_rename mem_ops (text_of es) (text_of es') f = (err, f')"
  have ne: "es \<noteq> []" "es' \<noteq> []" using es by (simp_all add: fpath_def)
  have n: "tget (MDir f) es = Some (MFile c t)"
    using v unfolding mem_view_def by (cases "tget (MDir f) es" rule: kind.cases) auto
  show "case err of
        None \<Rightarrow> mem_view f' es' = Some (File c t) \<and> mem_view f' es = None \<and> mem_view f es' \<noteq> Some Folder \<and>
          (\<forall>q. q \<noteq> es \<longrightarrow> q \<noteq> es' \<longrightarrow> same_but_dirs mem_view es' f f' q)
      | Some _ \<Rightarrow> (\<forall>q. mem_view f' q = mem_view f q)"
  proof (cases "mem_place (MFile c t) es' f")
    case None
    with m n show ?thesis by (auto simp: mem_ops_def mem_rename_def elems_of_text[OF es(1)] elems_of_text[OF es(2)])
  next
    case (Some g)
    note pl = mem_place_view[OF ne(2) Some]
    have r: "err = None" "f' = kids (tput None es (MDir g))"
      using m n Some by (simp_all add: mem_ops_def mem_rename_def elems_of_text[OF es(1)] elems_of_text[OF es(2)])
    have g: "mem_view g es = Some (File c t)" using pl(1)[OF es(3)] v by (simp add: same_but_dirs_def)
    then have p: "mem_view g (butlast es) = Some Folder" using view_parent[OF _ ne(1)] by simp
    have same: "mem_view f' q = mem_view g q" if "q \<noteq> es" for q
      unfolding r by (rule tput_leaf[OF ne(1) p _ _ that]) (simp_all add: g)
    have "mem_view f' es = None" using tput_view(2)[OF ne(1) p, of None "[]"] by (simp add: r)
    with pl same es(3) r(1) show ?thesis by (simp add: same_but_dirs_def)
  qed
qed

lemma mem_laws: "fs_laws mem_ops mem_view"
  by (simp add: fs_laws_def mem_law_tree mem_law_stat mem_law_readDir mem_law_readFile mem_law_mkdirAll
      mem_law_create mem_law_write mem_law_close mem_law_rename mem_law_remove mem_law_removeAll)


section \<open>Instances\<close>

definition ex_storage :: "mem storage" where
  "ex_storage = \<lparr>sg_fs = [(''photos'', MDir [])], sg_meta = empty_store\<rparr>"

definition ex_env :: put_env where
  "ex_env = \<lparr>pe_now = 1, pe_user = None, pe_tmp = ''u1'', pe_metaFails = False, pe_cancelled = False\<rparr>"

definition ex_put :: "(store_error + string) \<times> mem storage" where
  "ex_put = PutObject mem_ops (\<lambda>d. d) ex_env ''photos'' ''a/b'' (''xyz'', False) ''text/plain'' [] ex_storage"

lemma ex_put_ok:
  "PutObject mem_ops (\<lambda>d. d) ex_env ''photos'' ''a/b'' (''xyz'', False) ''text/plain'' [] ex_storage =
     (Inr ''78797a'', snd ex_put)"
proof -
  have "fst ex_put = Inr ''78797a''" by code_simp
  then show ?thesis by (simp add: ex_put_def prod_eq_iff)
qed

lemma ex_bucket: "isValidBucketName ''photos''"
  by code_simp

lemma ex_tmp: "plain_elem (pe_tmp ex_env)" "\<not> pe_metaFails ex_env"
  by (simp_all add: ex_env_def plain_elem_def)


lemma ex_read:
  "\<exists>ob. fst (GetObject mem_ops (\<lambda>d. d) ''photos'' ''a/b'' (snd ex_put)) = Inr ob \<and> sb_content ob = ''xyz''"
proof -
  have "map_sum (\<lambda>_. ()) sb_content (fst (GetObject mem_ops (\<lambda>d. d) ''photos'' ''a/b'' (snd ex_put))) = Inr ''xyz''"
    by code_simp
  then show ?thesis by (cases "fst (GetObject mem_ops (\<lambda>d. d) ''photos'' ''a/b'' (snd ex_put))") auto
qed


definition ex_failing :: put_env where
  "ex_failing = ex_env\<lparr>pe_metaFails := True\<rparr>"



theorem bucket_deletion_loses_nothing_witness:
  "fst (DeleteBucket mem_ops ''photos'' (snd ex_put)) \<noteq> None"
proof -
  obtain ob where "fst (GetObject mem_ops (\<lambda>d. d) ''photos'' ''a/b'' (snd ex_put)) = Inr ob"
    using ex_read by blast
  from bucket_deletion_loses_nothing[OF mem_laws ex_bucket prod.collapse[symmetric] ex_bucket this] show ?thesis
    by blast
qed

end
