(* ===== verification/Validation.thy ===== *)
theory Validation
  imports Paths Iam
begin

text \<open>
  \<^verbatim>\<open>internal/service/{validation,errors}\<close> and \<^verbatim>\<open>internal/crypto/credentials.go\<close>: what the services accept
  as names, keys and documents, and the generation of access keys. The letter and digit tables of
  the package \<open>unicode\<close> above Latin-1 are a parameter.
\<close>

section \<open>Errors (errors.go)\<close>

text \<open>A validation error has a field and a message; one message wraps the error of a status.\<close>

datatype message = Text string | OfStatus iam_error

datatype svc_error =
    SvcUserNotFound | SvcUserAlreadyExists | SvcUserIsSystemAdmin
  | SvcInvalidAccessKey | SvcInvalidSecretKey | SvcInvalidStatus
  | SvcPolicyNotFound | SvcPolicyAlreadyExists | SvcPolicyIsBuiltin
  | SvcInvalidPolicyName | SvcInvalidPolicyDoc
  | SvcGroupNotFound | SvcGroupAlreadyExists | SvcInvalidGroupName
  | SvcServiceAccountNotFound | SvcServiceAccountAlreadyExists
  | SvcBucketNotFound | SvcBucketAlreadyExists | SvcBucketNotEmpty | SvcInvalidBucketName
  | SvcObjectNotFound | SvcInvalidObjectKey
  | ValidationError string message

definition IsNotFound :: "svc_error \<Rightarrow> bool" where
  "IsNotFound e \<longleftrightarrow> e \<in> {SvcUserNotFound, SvcPolicyNotFound, SvcBucketNotFound, SvcObjectNotFound,
     SvcGroupNotFound, SvcServiceAccountNotFound}"

definition IsAlreadyExists :: "svc_error \<Rightarrow> bool" where
  "IsAlreadyExists e \<longleftrightarrow> e \<in> {SvcUserAlreadyExists, SvcPolicyAlreadyExists, SvcBucketAlreadyExists,
     SvcGroupAlreadyExists, SvcServiceAccountAlreadyExists}"

definition IsValidation :: "svc_error \<Rightarrow> bool" where
  "IsValidation e \<longleftrightarrow> (case e of ValidationError _ _ \<Rightarrow> True | _ \<Rightarrow> False) \<or>
     e \<in> {SvcInvalidAccessKey, SvcInvalidSecretKey, SvcInvalidStatus, SvcInvalidPolicyName,
       SvcInvalidPolicyDoc, SvcInvalidBucketName, SvcInvalidObjectKey}"

abbreviation invalid :: "string \<Rightarrow> string \<Rightarrow> svc_error option" where
  "invalid field msg \<equiv> Some (ValidationError field (Text msg))"

section \<open>Characters (common.go)\<close>

definition ascii_alnum :: "char \<Rightarrow> bool" where
  "ascii_alnum c \<longleftrightarrow> (let n = of_char c :: nat in 97 \<le> n \<and> n \<le> 122 \<or> 65 \<le> n \<and> n \<le> 90 \<or> 48 \<le> n \<and> n \<le> 57)"

definition IsAlphanumeric :: "string \<Rightarrow> bool" where
  "IsAlphanumeric s \<longleftrightarrow> s \<noteq> '''' \<and> list_all ascii_alnum s"

definition IsAlphanumericWithHyphens :: "string \<Rightarrow> bool" where
  "IsAlphanumericWithHyphens s \<longleftrightarrow> s \<noteq> '''' \<and> list_all (\<lambda>c. ascii_alnum c \<or> c = CHR ''-'') s"

definition InRange :: "string \<Rightarrow> nat \<Rightarrow> nat \<Rightarrow> bool" where
  "InRange s minVal maxVal \<longleftrightarrow> minVal \<le> length s \<and> length s \<le> maxVal"

text \<open>\<open>unicode.IsLower\<close> and \<open>unicode.IsDigit\<close>: up to U+00FF the library reads its Latin-1 table, above
  it the tables of the parameter.\<close>

record unicode_tables =
  ut_lower :: "nat \<Rightarrow> bool"
  ut_digit :: "nat \<Rightarrow> bool"

definition IsLower :: "unicode_tables \<Rightarrow> nat \<Rightarrow> bool" where
  "IsLower U r =
     (if r \<le> 255 then 97 \<le> r \<and> r \<le> 122 \<or> r = 181 \<or> 223 \<le> r \<and> r \<noteq> 247 else ut_lower U r)"

definition IsDigit :: "unicode_tables \<Rightarrow> nat \<Rightarrow> bool" where
  "IsDigit U r = (if r \<le> 255 then 48 \<le> r \<and> r \<le> 57 else ut_digit U r)"

section \<open>Bucket names (bucket.go)\<close>

definition isIPAddress :: "unicode_tables \<Rightarrow> string \<Rightarrow> bool" where
  "isIPAddress U s =
     (let parts = str_split s ''.''
      in length parts = 4 \<and>
         list_all (\<lambda>part. part \<noteq> '''' \<and> length part \<le> 3 \<and> list_all (IsDigit U) (runes part)) parts)"

text \<open>One round of the loop over the runes; \<open>prev\<close> is the byte before the rune, as a rune.\<close>

definition bucket_char_check :: "unicode_tables \<Rightarrow> string \<Rightarrow> nat \<times> nat \<Rightarrow> svc_error option" where
  "bucket_char_check U nm = (\<lambda>(i, c).
     let prev = of_char (nm ! (i - 1)) :: nat
     in if \<not> IsLower U c \<and> \<not> IsDigit U c \<and> c \<noteq> 45 \<and> c \<noteq> 46
        then invalid ''BucketName'' ''bucket name can only contain lowercase letters, numbers, hyphens, and periods''
        else if c = 46 \<and> 0 < i \<and> prev = 46
        then invalid ''BucketName'' ''bucket name cannot contain consecutive periods''
        else if 0 < i \<and> (c = 46 \<and> prev = 45 \<or> c = 45 \<and> prev = 46)
        then invalid ''BucketName'' ''bucket name cannot have periods adjacent to hyphens''
        else None)"

definition ValidateBucketName :: "unicode_tables \<Rightarrow> string \<Rightarrow> svc_error option" where
  "ValidateBucketName U nm =
     (if nm = '''' then invalid ''BucketName'' ''bucket name is required''
      else if \<not> InRange nm 3 63
      then invalid ''BucketName'' ''bucket name must be between 3 and 63 characters''
      else if \<not> IsLower U (of_char (hd nm)) \<and> \<not> IsDigit U (of_char (hd nm))
      then invalid ''BucketName'' ''bucket name must start with a lowercase letter or number''
      else if \<not> IsLower U (of_char (last nm)) \<and> \<not> IsDigit U (of_char (last nm))
      then invalid ''BucketName'' ''bucket name must end with a lowercase letter or number''
      else case first_err (\<lambda>_. bucket_char_check U nm) 0 (range_runes 0 (bytes nm)) of
        Some e \<Rightarrow> Some e
      | None \<Rightarrow>
          if isIPAddress U nm
          then invalid ''BucketName'' ''bucket name cannot be formatted as an IP address''
          else if has_prefix nm ''xn--''
          then invalid ''BucketName'' (''bucket name cannot start with '' @ [CHR 0x27] @ ''xn--'' @ [CHR 0x27])
          else if has_suffix nm ''-s3alias''
          then invalid ''BucketName'' (''bucket name cannot end with '' @ [CHR 0x27] @ ''-s3alias'' @ [CHR 0x27])
          else None)"

section \<open>Object keys (object.go)\<close>

definition ValidateObjectKey :: "string \<Rightarrow> svc_error option" where
  "ValidateObjectKey key =
     (if key = '''' then invalid ''ObjectKey'' ''object key cannot be empty''
      else if \<not> valid_utf8 key then invalid ''ObjectKey'' ''object key must be valid UTF-8''
      else if 1024 < length key then invalid ''ObjectKey'' ''object key must not exceed 1024 bytes''
      else if has_prefix key ''/''
      then invalid ''ObjectKey'' (''object key must not start with '' @ [CHR 0x27, CHR ''/'', CHR 0x27])
      else if list_ex (\<lambda>r. r < 32 \<and> r \<noteq> 9 \<and> r \<noteq> 10 \<and> r \<noteq> 13) (runes key)
      then invalid ''ObjectKey'' ''object key contains invalid control characters''
      else None)"

section \<open>Policies (policy.go)\<close>

definition ValidatePolicyName :: "string \<Rightarrow> svc_error option" where
  "ValidatePolicyName nm =
     (if nm = '''' then invalid ''Name'' ''policy name is required''
      else if \<not> InRange nm 1 128 then invalid ''Name'' ''policy name must be between 1 and 128 characters''
      else if \<not> IsAlphanumericWithHyphens nm
      then invalid ''Name'' ''policy name must contain only alphanumeric characters and hyphens''
      else None)"

definition validateStatement :: "nat \<Rightarrow> statement \<Rightarrow> svc_error option" where
  "validateStatement index stmt =
     (let pre = ''PolicyDocument.Statement['' @ show_nat index @ '']''
      in if st_effect stmt \<noteq> ''Allow'' \<and> st_effect stmt \<noteq> ''Deny''
         then invalid (pre @ ''.Effect'')
           (''effect must be '' @ [CHR 0x27] @ ''Allow'' @ [CHR 0x27] @ '' or '' @ [CHR 0x27] @ ''Deny'' @ [CHR 0x27])
         else case st_action stmt of
           GNil \<Rightarrow> invalid (pre @ ''.Action'') ''action is required''
         | GStr v \<Rightarrow> if v = '''' then invalid (pre @ ''.Action'') ''action cannot be empty'' else None
         | GAnys v \<Rightarrow> if v = [] then invalid (pre @ ''.Action'') ''action array cannot be empty'' else None
         | GStrs v \<Rightarrow> if v = [] then invalid (pre @ ''.Action'') ''action array cannot be empty'' else None
         | _ \<Rightarrow> invalid (pre @ ''.Action'') ''action must be a string or array of strings'')"

definition ValidatePolicyDocument :: "policy_document option \<Rightarrow> svc_error option" where
  "ValidatePolicyDocument doc =
     (case doc of
        None \<Rightarrow> invalid ''PolicyDocument'' ''policy document is required''
      | Some d \<Rightarrow>
          if pd_version d \<noteq> ''2012-10-17''
          then invalid ''PolicyDocument.Version''
            (''policy document version must be '' @ [CHR 0x27] @ ''2012-10-17'' @ [CHR 0x27])
          else if pd_statement d = []
          then invalid ''PolicyDocument.Statement'' ''policy document must have at least one statement''
          else first_err validateStatement 0 (pd_statement d))"

section \<open>Users (user.go)\<close>

definition ValidateAccessKey :: "string \<Rightarrow> svc_error option" where
  "ValidateAccessKey accessKey =
     (if accessKey = '''' then invalid ''AccessKey'' ''access key is required''
      else if \<not> InRange accessKey 3 20
      then invalid ''AccessKey'' ''access key must be between 3 and 20 characters''
      else if \<not> IsAlphanumeric accessKey
      then invalid ''AccessKey'' ''access key must contain only alphanumeric characters''
      else None)"

definition ValidateSecretKey :: "string \<Rightarrow> svc_error option" where
  "ValidateSecretKey secretKey =
     (if secretKey = '''' then invalid ''SecretKey'' ''secret key is required''
      else if length secretKey < 8 then invalid ''SecretKey'' ''secret key must be at least 8 characters''
      else None)"

text \<open>\<open>ValidateStatus\<close> hands on the error of the status itself.\<close>

definition ValidateStatus :: "string \<Rightarrow> iam_error option" where
  "ValidateStatus status = user_status_validate status"

section \<open>Generated credentials (credentials.go)\<close>

text \<open>The random source: \<open>rand i n\<close> is the number below \<open>n\<close> of its \<open>i\<close>-th draw, or a failure.\<close>

datatype rand_error = RandFailed

type_synonym rand_source = "nat \<Rightarrow> nat \<Rightarrow> nat option"

definition PrefixUser :: string where "PrefixUser = ''DIOA''"
definition PrefixSystem :: string where "PrefixSystem = ''DIOR''"
definition PrefixService :: string where "PrefixService = ''DIOS''"

definition charset :: string where "charset = ''ABCDEFGHIJKLMNOPQRSTUVWXYZ0123456789''"
definition secretCharset :: string where
  "secretCharset = ''abcdefghijklmnopqrstuvwxyzABCDEFGHIJKLMNOPQRSTUVWXYZ0123456789''"

definition generateRandomString ::
  "rand_source \<Rightarrow> nat \<Rightarrow> string \<Rightarrow> string \<Rightarrow> nat \<Rightarrow> rand_error + string" where
  "generateRandomString rand first pre alphabet len =
     (case those (map (\<lambda>i. map_option ((!) alphabet) (rand (first + i) (length alphabet))) [0..<len]) of
        None \<Rightarrow> Inl RandFailed
      | Some result \<Rightarrow> Inr (pre @ result))"

definition GenerateDirIOKey :: "rand_source \<Rightarrow> string \<Rightarrow> rand_error + string \<times> string" where
  "GenerateDirIOKey rand pre =
     (case generateRandomString rand 0 pre charset 16 of
        Inl e \<Rightarrow> Inl e
      | Inr accessKey \<Rightarrow>
          (case generateRandomString rand 16 '''' secretCharset 40 of
             Inl e \<Rightarrow> Inl e
           | Inr secretKey \<Rightarrow> Inr (accessKey, secretKey)))"

section \<open>Facts\<close>

lemma those_Some: "those xs = Some ys \<Longrightarrow> xs = map Some ys"
proof (induction xs arbitrary: ys)
  case (Cons x xs)
  then show ?case by (auto split: option.splits)
qed simp

lemma generateRandomString_Inr:
  assumes "generateRandomString rand first pre alphabet len = Inr s"
    and "\<forall>i n r. rand i n = Some r \<longrightarrow> r < n"
  shows "\<exists>body. s = pre @ body \<and> length body = len \<and> set body \<subseteq> set alphabet"
proof -
  let ?draw = "\<lambda>i. map_option ((!) alphabet) (rand (first + i) (length alphabet))"
  from assms(1) obtain body where "those (map ?draw [0..<len]) = Some body" and s: "s = pre @ body"
    by (auto simp: generateRandomString_def split: option.splits)
  then have m: "map ?draw [0..<len] = map Some body" by (simp add: those_Some)
  from arg_cong[OF m, of length] have len: "length body = len" by simp
  have "c \<in> set alphabet" if c: "c \<in> set body" for c
  proof -
    obtain i where i: "i < length body" "body ! i = c" using c by (auto simp: in_set_conv_nth)
    have "map ?draw [0..<len] ! i = map Some body ! i" using m by (rule arg_cong)
    then have "?draw i = Some c" using i len by simp
    then obtain r where r: "rand (first + i) (length alphabet) = Some r" "alphabet ! r = c" by auto
    with assms(2) have "r < length alphabet" by blast
    with r(2) show ?thesis by (metis nth_mem)
  qed
  with s len show ?thesis by auto
qed

lemma charset_alnum: "set charset \<subseteq> Collect ascii_alnum" "set secretCharset \<subseteq> Collect ascii_alnum"
proof -
  have "list_all ascii_alnum charset" "list_all ascii_alnum secretCharset"
    by (simp_all add: charset_def secretCharset_def ascii_alnum_def)
  then show "set charset \<subseteq> Collect ascii_alnum" "set secretCharset \<subseteq> Collect ascii_alnum"
    by (auto simp: list_all_iff)
qed


text \<open>The services and the middleware have the same rule for object keys.\<close>

lemma ValidateObjectKey_None: "ValidateObjectKey key = None \<longleftrightarrow> ValidateS3Key key = None"
  by (auto simp: ValidateObjectKey_def ValidateS3Key_def)

lemma ValidateAccessKey_None:
  "ValidateAccessKey k = None \<longleftrightarrow> 3 \<le> length k \<and> length k \<le> 20 \<and> list_all ascii_alnum k"
  by (auto simp: ValidateAccessKey_def InRange_def IsAlphanumeric_def)

lemma ValidateSecretKey_None: "ValidateSecretKey k = None \<longleftrightarrow> 8 \<le> length k"
  by (auto simp: ValidateSecretKey_def)

lemma dot_hyphen: "of_char c = (46 :: nat) \<longleftrightarrow> c = CHR ''.''" "of_char c = (45 :: nat) \<longleftrightarrow> c = CHR ''-''"
  using of_char_eq_iff[where 'a = nat, of c "CHR ''.''"] of_char_eq_iff[where 'a = nat, of c "CHR ''-''"]
  by simp_all

lemma ascii_lower_digit:
  assumes "of_char c < (128 :: nat)"
  shows "IsLower U (of_char c) \<or> IsDigit U (of_char c) \<longleftrightarrow> isLowerAlphaNum c"
  using assms by (auto simp: IsLower_def IsDigit_def isLowerAlphaNum_def less_eq_char_def)

lemma bucket_name_chars:
  assumes "ValidateBucketName U nm = None" "ascii nm" "i < length nm"
  shows "bucket_char_check U nm (i, of_char (nm ! i)) = None"
proof -
  have "range_runes 0 (bytes nm) = zip [0..<length nm] (bytes nm)"
    using assms(2) range_runes_ascii[of "bytes nm" 0] by (simp add: ascii_def bytes_def)
  moreover have "\<forall>x\<in>set (range_runes 0 (bytes nm)). bucket_char_check U nm x = None"
    using assms(1) by (auto simp: ValidateBucketName_def first_err_None_uniform split: if_splits option.splits)
  moreover have "(i, of_char (nm ! i)) \<in> set (zip [0..<length nm] (bytes nm))"
    using assms(3) by (auto simp: in_set_zip bytes_def intro!: exI[of _ i])
  ultimately show ?thesis by metis
qed

section \<open>Properties\<close>

text \<open>A name of ASCII characters that the services accept for a new bucket is one the middleware of the
  S3 interface accepts as a bucket name, without two dots in a row; so the bucket can be addressed there,
  and the theorems about storage apply to it.\<close>

theorem accepted_bucket_addressable:
  assumes "ValidateBucketName U nm = None" "ascii nm"
  shows "isValidBucketName nm \<and> \<not> str_contains nm ''..''"
proof (rule conjI)
  have len: "3 \<le> length nm" "length nm \<le> 63" and ne: "nm \<noteq> ''''"
    using assms(1) by (auto simp: ValidateBucketName_def InRange_def split: if_splits)
  have small: "of_char c < (128 :: nat)" if "c \<in> set nm" for c
    using assms(2) that by (auto simp: ascii_def bytes_def)
  have ends: "isLowerAlphaNum (hd nm)" "isLowerAlphaNum (last nm)"
    using assms(1) ne small[of "hd nm"] small[of "last nm"]
    by (auto simp: ValidateBucketName_def ascii_lower_digit[symmetric, where U = U] split: if_splits)
  have chk: "bucket_char_check U nm (i, of_char (nm ! i)) = None" if "i < length nm" for i
    using bucket_name_chars[OF assms that] .
  have "isLowerAlphaNum c \<or> c = CHR ''.'' \<or> c = CHR ''-''" if c: "c \<in> set nm" for c
  proof -
    obtain i where i: "i < length nm" "nm ! i = c" using c by (auto simp: in_set_conv_nth)
    have "IsLower U (of_char c) \<or> IsDigit U (of_char c) \<or> of_char c = (45 :: nat) \<or> of_char c = (46 :: nat)"
      using chk[OF i(1)] unfolding i(2) bucket_char_check_def Let_def by (simp split: if_splits)
    then show ?thesis using ascii_lower_digit[OF small[OF c], of U] by (auto simp: dot_hyphen)
  qed
  with len ends show "isValidBucketName nm" by (auto simp: isValidBucketName_def list_all_iff)
  show "\<not> str_contains nm ''..''"
  proof
    assume "str_contains nm ''..''"
    then obtain u v where nm: "nm = u @ ''..'' @ v"
      by (auto simp: str_contains_def dest!: str_index_Some)
    have "nm ! Suc (length u) = CHR ''.''" "nm ! length u = CHR ''.''" by (simp_all add: nm nth_append)
    moreover have "Suc (length u) < length nm" by (simp add: nm)
    ultimately show False using chk[of "Suc (length u)"] unfolding bucket_char_check_def by simp
  qed
qed

definition ex_unicode :: unicode_tables where
  "ex_unicode = \<lparr>ut_lower = (\<lambda>r. False), ut_digit = (\<lambda>r. False)\<rparr>"

theorem accepted_bucket_addressable_witness:
  "isValidBucketName ''my.bucket-1''"
proof (rule accepted_bucket_addressable[THEN conjunct1])
  show "ValidateBucketName ex_unicode ''my.bucket-1'' = None" by code_simp
  show "ascii ''my.bucket-1''" by (simp add: ascii_def bytes_def)
qed

text \<open>Generated credentials are acceptable: whatever the random source draws, the access key has the
  prefix and the 20 characters that are the most an access key may have, and both keys pass the
  validation that every other pair has to pass.\<close>

theorem generated_credentials_valid:
  assumes "GenerateDirIOKey rand pre = Inr (accessKey, secretKey)"
    and "\<forall>i n r. rand i n = Some r \<longrightarrow> r < n" "pre \<in> {PrefixUser, PrefixSystem, PrefixService}"
  shows "ValidateAccessKey accessKey = None \<and> ValidateSecretKey secretKey = None \<and>
    has_prefix accessKey pre \<and> length accessKey = 20 \<and> length secretKey = 40"
proof -
  from assms(1) have "generateRandomString rand 0 pre charset 16 = Inr accessKey"
    "generateRandomString rand 16 '''' secretCharset 40 = Inr secretKey"
    by (auto simp: GenerateDirIOKey_def split: sum.splits)
  from generateRandomString_Inr[OF this(1) assms(2)] generateRandomString_Inr[OF this(2) assms(2)]
  obtain body where a: "accessKey = pre @ body" "length body = 16" "set body \<subseteq> set charset"
    and s: "length secretKey = 40" by auto
  have pre: "length pre = 4" "list_all ascii_alnum pre"
    using assms(3) by (auto simp: PrefixUser_def PrefixSystem_def PrefixService_def ascii_alnum_def)
  with a charset_alnum have "list_all ascii_alnum accessKey" by (auto simp: list_all_iff)
  with a s pre show ?thesis
    by (simp add: ValidateAccessKey_None ValidateSecretKey_None has_prefix_iff)
qed

definition ex_rand :: rand_source where
  "ex_rand i n = (if n = 0 then None else Some (i mod n))"

theorem generated_credentials_valid_witness:
  "ValidateAccessKey (fst (projr (GenerateDirIOKey ex_rand PrefixService))) = None"
proof -
  have "isl (GenerateDirIOKey ex_rand PrefixService) = False" by code_simp
  then have "GenerateDirIOKey ex_rand PrefixService =
      Inr (fst (projr (GenerateDirIOKey ex_rand PrefixService)), snd (projr (GenerateDirIOKey ex_rand PrefixService)))"
    by simp
  moreover have "\<forall>i n r. ex_rand i n = Some r \<longrightarrow> r < n" by (simp add: ex_rand_def)
  ultimately show ?thesis using generated_credentials_valid by blast
qed

end
