(* ===== verification/Services.thy ===== *)
theory Services
  imports Validation MetadataIam
begin

text \<open>
  \<^verbatim>\<open>internal/service/{user,group,policy,serviceaccount}\<close>: the services through which the console and
  the HTTP interfaces change users, groups, policies and service accounts. Their state is the store
  of the metadata manager. The clock and fresh UUIDs are arguments; an operation that writes returns
  its result and the new store.
\<close>

section \<open>Results\<close>

datatype service_error =
    SvcErr svc_error
  | SvcStatus iam_error
  | SvcMeta meta_error
  | SvcKeyGeneration rand_error
  | SvcParentNotFound string meta_error

abbreviation failed :: "service_error \<Rightarrow> meta_store \<Rightarrow> (service_error + 'a) \<times> meta_store" where
  "failed e st \<equiv> (Inl e, st)"

abbreviation err_of :: "svc_error option \<Rightarrow> service_error option" where
  "err_of \<equiv> map_option SvcErr"

section \<open>Users (user.go)\<close>

record create_user_request =
  cu_accessKey :: string
  cu_secretKey :: string
  cu_status :: string

record update_user_request =
  uu_secretKey :: "string option"
  uu_status :: "string option"
  uu_attachedPolicies :: "string list option"

definition save_user ::
  "crypt_env \<Rightarrow> time \<Rightarrow> uuid \<Rightarrow> iam_user \<Rightarrow> meta_store \<Rightarrow> (service_error + iam_user) \<times> meta_store" where
  "save_user C now fresh user st =
     (case CreateOrUpdateUser C now fresh user st of
        (Some e, _, st') \<Rightarrow> failed (SvcMeta e) st'
      | (None, user', st') \<Rightarrow> (Inr user', st'))"

definition UserCreate ::
  "crypt_env \<Rightarrow> time \<Rightarrow> uuid \<Rightarrow> create_user_request \<Rightarrow> meta_store
     \<Rightarrow> (service_error + iam_user) \<times> meta_store" where
  "UserCreate C now fresh req st =
     (case ValidateAccessKey (cu_accessKey req) of
        Some e \<Rightarrow> failed (SvcErr e) st
      | None \<Rightarrow>
     (case ValidateSecretKey (cu_secretKey req) of
        Some e \<Rightarrow> failed (SvcErr e) st
      | None \<Rightarrow>
     (case ValidateStatus (cu_status req) of
        Some e \<Rightarrow> failed (SvcStatus e) st
      | None \<Rightarrow>
     (case GetUserByAccessKey C st (cu_accessKey req) of
        Inr _ \<Rightarrow> failed (SvcErr SvcUserAlreadyExists) st
      | Inl _ \<Rightarrow>
          save_user C now fresh
            \<lparr>u_version = UserMetadataVersion, u_uuid = uuid_nil, u_username = cu_accessKey req,
             u_accessKey = cu_accessKey req, u_secretKey = cu_secretKey req,
             u_status = (if cu_status req = '''' then UserStatusActive else cu_status req),
             u_updatedAt = now, u_attachedPolicies = []\<rparr> st))))"

definition user_error :: "meta_error \<Rightarrow> service_error" where
  "user_error e = (if e = ErrUserNotFound then SvcErr SvcUserNotFound else SvcMeta e)"

definition UserGet :: "crypt_env \<Rightarrow> meta_store \<Rightarrow> uuid \<Rightarrow> service_error + iam_user" where
  "UserGet C st userUID =
     (case GetUser C st userUID of Inl e \<Rightarrow> Inl (user_error e) | Inr user \<Rightarrow> Inr user)"

definition UserGetByAccessKey :: "crypt_env \<Rightarrow> meta_store \<Rightarrow> string \<Rightarrow> service_error + iam_user" where
  "UserGetByAccessKey C st accessKey =
     (case ValidateAccessKey accessKey of
        Some e \<Rightarrow> Inl (SvcErr e)
      | None \<Rightarrow>
          (case GetUserByAccessKey C st accessKey of Inl e \<Rightarrow> Inl (user_error e) | Inr user \<Rightarrow> Inr user))"

definition UserUpdate ::
  "crypt_env \<Rightarrow> time \<Rightarrow> uuid \<Rightarrow> uuid \<Rightarrow> update_user_request \<Rightarrow> meta_store
     \<Rightarrow> (service_error + iam_user) \<times> meta_store" where
  "UserUpdate C now fresh userUID req st =
     (case UserGet C st userUID of
        Inl e \<Rightarrow> failed e st
      | Inr user \<Rightarrow>
     (case Option.bind (uu_secretKey req) ValidateSecretKey of
        Some e \<Rightarrow> failed (SvcErr e) st
      | None \<Rightarrow>
     (case Option.bind (uu_status req) ValidateStatus of
        Some e \<Rightarrow> failed (SvcStatus e) st
      | None \<Rightarrow>
          save_user C now fresh
            (user\<lparr>u_secretKey := (case uu_secretKey req of Some k \<Rightarrow> k | None \<Rightarrow> u_secretKey user),
                  u_status := (case uu_status req of Some s \<Rightarrow> s | None \<Rightarrow> u_status user),
                  u_attachedPolicies := (case uu_attachedPolicies req of Some ps \<Rightarrow> ps
                                         | None \<Rightarrow> u_attachedPolicies user),
                  u_updatedAt := now\<rparr>) st)))"

text \<open>\<open>Delete\<close> ignores the errors of leaving the groups.\<close>

definition leave_groups :: "time \<Rightarrow> uuid \<Rightarrow> string list \<Rightarrow> meta_store \<Rightarrow> meta_store" where
  "leave_groups now userUID names st =
     fold (\<lambda>nm st. snd (RemoveUserFromGroup now nm userUID st)) names st"

definition UserDelete ::
  "crypt_env \<Rightarrow> time \<Rightarrow> uuid \<Rightarrow> meta_store \<Rightarrow> service_error option \<times> meta_store" where
  "UserDelete C now userUID st =
     (if userUID = AdminUserUUID then (Some (SvcErr SvcUserIsSystemAdmin), st)
      else case UserGet C st userUID of
             Inl e \<Rightarrow> (Some e, st)
           | Inr _ \<Rightarrow>
               (None, MetaDeleteUser C userUID
                        (leave_groups now userUID (GetGroupNamesForUser st userUID) st)))"

definition UserList :: "meta_store \<Rightarrow> uuid list" where
  "UserList st = ListUsers st"

definition policy_error :: "meta_error \<Rightarrow> service_error" where
  "policy_error e = (if e = ErrPolicyNotFound then SvcErr SvcPolicyNotFound else SvcMeta e)"

definition UserAttachPolicy ::
  "crypt_env \<Rightarrow> time \<Rightarrow> uuid \<Rightarrow> uuid \<Rightarrow> string \<Rightarrow> meta_store \<Rightarrow> service_error option \<times> meta_store" where
  "UserAttachPolicy C now fresh userUID policyName st =
     (case ValidatePolicyName policyName of
        Some e \<Rightarrow> (Some (SvcErr e), st)
      | None \<Rightarrow>
     (case GetPolicy st policyName of
        Inl e \<Rightarrow> (Some (policy_error e), st)
      | Inr _ \<Rightarrow>
     (case UserGet C st userUID of
        Inl e \<Rightarrow> (Some e, st)
      | Inr user \<Rightarrow>
          if policyName \<in> set (u_attachedPolicies user) then (None, st)
          else case save_user C now fresh
                 (user\<lparr>u_attachedPolicies := u_attachedPolicies user @ [policyName],
                       u_updatedAt := now\<rparr>) st of
                 (Inl e, st') \<Rightarrow> (Some e, st')
               | (Inr _, st') \<Rightarrow> (None, st'))))"

definition UserDetachPolicy ::
  "crypt_env \<Rightarrow> time \<Rightarrow> uuid \<Rightarrow> uuid \<Rightarrow> string \<Rightarrow> meta_store \<Rightarrow> service_error option \<times> meta_store" where
  "UserDetachPolicy C now fresh userUID policyName st =
     (case ValidatePolicyName policyName of
        Some e \<Rightarrow> (Some (SvcErr e), st)
      | None \<Rightarrow>
     (case UserGet C st userUID of
        Inl e \<Rightarrow> (Some e, st)
      | Inr user \<Rightarrow>
          (case save_user C now fresh
             (user\<lparr>u_attachedPolicies := filter (\<lambda>p. p \<noteq> policyName) (u_attachedPolicies user),
                   u_updatedAt := now\<rparr>) st of
             (Inl e, st') \<Rightarrow> (Some e, st')
           | (Inr _, st') \<Rightarrow> (None, st'))))"

definition UserGetGroups :: "meta_store \<Rightarrow> uuid \<Rightarrow> string list" where
  "UserGetGroups st uid = GetGroupNamesForUser st uid"

section \<open>Groups (group.go)\<close>

definition group_error :: "meta_error \<Rightarrow> service_error" where
  "group_error e =
     (if e = ErrGroupNotFound then SvcErr SvcGroupNotFound else SvcMeta e)"

definition need :: "string \<Rightarrow> string \<Rightarrow> string \<Rightarrow> service_error option" where
  "need field what s =
     (if s = '''' then Some (SvcErr (ValidationError field (Text (what @ '' name is required'')))) else None)"

definition GroupGet :: "meta_store \<Rightarrow> string \<Rightarrow> service_error + iam_group" where
  "GroupGet st nm =
     (case need ''Name'' ''group'' nm of
        Some e \<Rightarrow> Inl e
      | None \<Rightarrow> (case GetGroup st nm of Inl e \<Rightarrow> Inl (group_error e) | Inr g \<Rightarrow> Inr g))"

definition GroupCreate ::
  "time \<Rightarrow> string \<Rightarrow> meta_store \<Rightarrow> (service_error + iam_group) \<times> meta_store" where
  "GroupCreate now nm st =
     (case need ''Name'' ''group'' nm of
        Some e \<Rightarrow> failed e st
      | None \<Rightarrow>
          (case MetaCreateGroup now nm st of
             (Some e, st') \<Rightarrow>
               failed (if e = ErrGroupAlreadyExists then SvcErr SvcGroupAlreadyExists else SvcMeta e) st'
           | (None, st') \<Rightarrow>
               (case GetGroup st' nm of Inl e \<Rightarrow> failed (SvcMeta e) st' | Inr g \<Rightarrow> (Inr g, st'))))"

definition GroupDelete :: "string \<Rightarrow> meta_store \<Rightarrow> service_error option \<times> meta_store" where
  "GroupDelete nm st =
     (case need ''Name'' ''group'' nm of
        Some e \<Rightarrow> (Some e, st)
      | None \<Rightarrow>
          (case GroupGet st nm of Inl e \<Rightarrow> (Some e, st) | Inr _ \<Rightarrow> (None, MetaDeleteGroup nm st)))"

definition GroupList :: "meta_store \<Rightarrow> string list" where
  "GroupList st = ListGroupNames st"

text \<open>The other operations check the name, and that the group is there, before they act.\<close>

definition with_group ::
  "string \<Rightarrow> (meta_store \<Rightarrow> service_error option \<times> meta_store) \<Rightarrow> meta_store
     \<Rightarrow> service_error option \<times> meta_store" where
  "with_group groupName act st =
     (case need ''GroupName'' ''group'' groupName of
        Some e \<Rightarrow> (Some e, st)
      | None \<Rightarrow> (case GroupGet st groupName of Inl e \<Rightarrow> (Some e, st) | Inr _ \<Rightarrow> act st))"

definition AddMember ::
  "crypt_env \<Rightarrow> time \<Rightarrow> string \<Rightarrow> uuid \<Rightarrow> meta_store \<Rightarrow> service_error option \<times> meta_store" where
  "AddMember C now groupName userUID =
     with_group groupName (\<lambda>st.
       case GetUser C st userUID of
         Inl e \<Rightarrow> (Some (user_error e), st)
       | Inr _ \<Rightarrow> map_prod (map_option SvcMeta) id (AddUserToGroup now groupName userUID st))"

definition AddMemberByAccessKey ::
  "crypt_env \<Rightarrow> time \<Rightarrow> string \<Rightarrow> string \<Rightarrow> meta_store \<Rightarrow> service_error option \<times> meta_store" where
  "AddMemberByAccessKey C now groupName accessKey st =
     (case GetUserByAccessKey C st accessKey of
        Inl e \<Rightarrow> (Some (user_error e), st)
      | Inr user \<Rightarrow> AddMember C now groupName (u_uuid user) st)"

definition RemoveMember ::
  "time \<Rightarrow> string \<Rightarrow> uuid \<Rightarrow> meta_store \<Rightarrow> service_error option \<times> meta_store" where
  "RemoveMember now groupName userUID =
     with_group groupName (\<lambda>st.
       map_prod (map_option SvcMeta) id (RemoveUserFromGroup now groupName userUID st))"

definition RemoveMemberByAccessKey ::
  "crypt_env \<Rightarrow> time \<Rightarrow> string \<Rightarrow> string \<Rightarrow> meta_store \<Rightarrow> service_error option \<times> meta_store" where
  "RemoveMemberByAccessKey C now groupName accessKey st =
     (case GetUserByAccessKey C st accessKey of
        Inl e \<Rightarrow> (Some (user_error e), st)
      | Inr user \<Rightarrow> RemoveMember now groupName (u_uuid user) st)"

definition GetMemberAccessKeys ::
  "crypt_env \<Rightarrow> meta_store \<Rightarrow> string \<Rightarrow> service_error + string list" where
  "GetMemberAccessKeys C st groupName =
     (case GroupGet st groupName of
        Inl e \<Rightarrow> Inl e
      | Inr g \<Rightarrow>
          Inr (List.map_filter
                 (\<lambda>uid. case GetUser C st uid of Inl _ \<Rightarrow> None | Inr user \<Rightarrow> Some (u_accessKey user))
                 (g_members g)))"

definition GroupAttachPolicy ::
  "time \<Rightarrow> string \<Rightarrow> string \<Rightarrow> meta_store \<Rightarrow> service_error option \<times> meta_store" where
  "GroupAttachPolicy now groupName policyName st =
     (case need ''GroupName'' ''group'' groupName of
        Some e \<Rightarrow> (Some e, st)
      | None \<Rightarrow>
     (case need ''PolicyName'' ''policy'' policyName of
        Some e \<Rightarrow> (Some e, st)
      | None \<Rightarrow>
          with_group groupName (\<lambda>st.
            case GetPolicy st policyName of
              Inl e \<Rightarrow> (Some (policy_error e), st)
            | Inr _ \<Rightarrow> map_prod (map_option SvcMeta) id (AttachPolicyToGroup now groupName policyName st)) st))"

definition GroupDetachPolicy ::
  "time \<Rightarrow> string \<Rightarrow> string \<Rightarrow> meta_store \<Rightarrow> service_error option \<times> meta_store" where
  "GroupDetachPolicy now groupName policyName st =
     (case need ''GroupName'' ''group'' groupName of
        Some e \<Rightarrow> (Some e, st)
      | None \<Rightarrow>
     (case need ''PolicyName'' ''policy'' policyName of
        Some e \<Rightarrow> (Some e, st)
      | None \<Rightarrow>
          with_group groupName (\<lambda>st.
            map_prod (map_option SvcMeta) id (DetachPolicyFromGroup now groupName policyName st)) st))"

definition GroupSetStatus ::
  "time \<Rightarrow> string \<Rightarrow> string \<Rightarrow> meta_store \<Rightarrow> service_error option \<times> meta_store" where
  "GroupSetStatus now groupName status st =
     (case need ''GroupName'' ''group'' groupName of
        Some e \<Rightarrow> (Some e, st)
      | None \<Rightarrow>
     (case group_status_validate status of
        Some e \<Rightarrow> (Some (SvcErr (ValidationError ''Status'' (OfStatus e))), st)
      | None \<Rightarrow>
          with_group groupName (\<lambda>st.
            map_prod (map_option SvcMeta) id (SetGroupStatus now groupName status st)) st))"

section \<open>Policies (policy.go)\<close>

definition PolicyCreate ::
  "time \<Rightarrow> string \<Rightarrow> policy_document option \<Rightarrow> meta_store \<Rightarrow> (service_error + iam_policy) \<times> meta_store" where
  "PolicyCreate now nm doc st =
     (case ValidatePolicyName nm of
        Some e \<Rightarrow> failed (SvcErr e) st
      | None \<Rightarrow>
     (case ValidatePolicyDocument doc of
        Some e \<Rightarrow> failed (SvcErr e) st
      | None \<Rightarrow>
     (case GetPolicy st nm of
        Inr _ \<Rightarrow> failed (SvcErr SvcPolicyAlreadyExists) st
      | Inl _ \<Rightarrow>
          let policy = \<lparr>p_version = PolicyMetadataVersion, p_name = nm, p_document = doc,
                        p_createDate = now, p_updateDate = now, p_isBuiltin = False\<rparr>
          in (Inr policy, SavePolicy policy st))))"

definition PolicyGet :: "meta_store \<Rightarrow> string \<Rightarrow> service_error + iam_policy" where
  "PolicyGet st nm =
     (case ValidatePolicyName nm of
        Some e \<Rightarrow> Inl (SvcErr e)
      | None \<Rightarrow> (case GetPolicy st nm of Inl e \<Rightarrow> Inl (policy_error e) | Inr p \<Rightarrow> Inr p))"

definition PolicyUpdate ::
  "time \<Rightarrow> string \<Rightarrow> policy_document option \<Rightarrow> meta_store \<Rightarrow> (service_error + iam_policy) \<times> meta_store" where
  "PolicyUpdate now nm doc st =
     (case ValidatePolicyName nm of
        Some e \<Rightarrow> failed (SvcErr e) st
      | None \<Rightarrow>
     (case ValidatePolicyDocument doc of
        Some e \<Rightarrow> failed (SvcErr e) st
      | None \<Rightarrow>
     (case PolicyGet st nm of
        Inl e \<Rightarrow> failed e st
      | Inr p \<Rightarrow>
          let policy = p\<lparr>p_document := doc, p_updateDate := now\<rparr> in (Inr policy, SavePolicy policy st))))"

definition PolicyDelete :: "string \<Rightarrow> meta_store \<Rightarrow> service_error option \<times> meta_store" where
  "PolicyDelete nm st =
     (case ValidatePolicyName nm of
        Some e \<Rightarrow> (Some (SvcErr e), st)
      | None \<Rightarrow>
          if IsBuiltinPolicy nm then (Some (SvcErr SvcPolicyIsBuiltin), st)
          else case PolicyGet st nm of
                 Inl e \<Rightarrow> (Some e, st)
               | Inr _ \<Rightarrow> (None, MetaDeletePolicy nm st))"

definition PolicyList :: "meta_store \<Rightarrow> (string \<times> iam_policy) list" where
  "PolicyList st = GetPolicies st"

definition PolicyListNames :: "meta_store \<Rightarrow> string list" where
  "PolicyListNames st = ListPolicyNames st"

section \<open>Service accounts (serviceaccount.go)\<close>

record create_sa_request =
  cs_accessKey :: string
  cs_secretKey :: string
  cs_name :: string
  cs_description :: string
  cs_parentUser :: "string option"
  cs_parentUserUUID :: "uuid option"
  cs_policyMode :: string
  cs_embeddedPolicyJSON :: string
  cs_expiresAt :: "time option"

text \<open>In an update the expiry is a double pointer: \<open>Some None\<close> clears it.\<close>

record update_sa_request =
  us_secretKey :: "string option"
  us_status :: "string option"
  us_name :: "string option"
  us_description :: "string option"
  us_embeddedPolicyJSON :: "string option"
  us_expiresAt :: "time option option"

text \<open>The key pair of the request, generated when it has none.\<close>

definition request_keys :: "rand_source \<Rightarrow> create_sa_request \<Rightarrow> rand_error + string \<times> string" where
  "request_keys rand req =
     (if cs_accessKey req = '''' then GenerateDirIOKey rand PrefixService
      else Inr (cs_accessKey req, cs_secretKey req))"

definition parent_uuid ::
  "crypt_env \<Rightarrow> create_sa_request \<Rightarrow> meta_store \<Rightarrow> service_error + uuid option" where
  "parent_uuid C req st =
     (case cs_parentUserUUID req of
        Some uid \<Rightarrow> Inr (Some uid)
      | None \<Rightarrow>
          (case cs_parentUser req of
             None \<Rightarrow> Inr None
           | Some key \<Rightarrow>
               if key = '''' then Inr None
               else case GetUserByAccessKey C st key of
                      Inl e \<Rightarrow> Inl (SvcParentNotFound key e)
                    | Inr parentUser \<Rightarrow> Inr (Some (u_uuid parentUser))))"

definition SACreate ::
  "crypt_env \<Rightarrow> rand_source \<Rightarrow> time \<Rightarrow> uuid \<Rightarrow> create_sa_request \<Rightarrow> meta_store
     \<Rightarrow> (service_error + service_account) \<times> meta_store" where
  "SACreate C rand now fresh req st =
     (case request_keys rand req of
        Inl e \<Rightarrow> failed (SvcKeyGeneration e) st
      | Inr (accessKey, secretKey) \<Rightarrow>
     (case ValidateAccessKey accessKey of
        Some e \<Rightarrow> failed (SvcErr e) st
      | None \<Rightarrow>
     (case ValidateSecretKey secretKey of
        Some e \<Rightarrow> failed (SvcErr e) st
      | None \<Rightarrow>
     (case GetUserByAccessKey C st accessKey of
        Inr _ \<Rightarrow> failed (SvcErr SvcServiceAccountAlreadyExists) st
      | Inl _ \<Rightarrow>
     (case GetServiceAccount C st accessKey of
        Inr _ \<Rightarrow> failed (SvcErr SvcServiceAccountAlreadyExists) st
      | Inl _ \<Rightarrow>
     (case parent_uuid C req st of
        Inl e \<Rightarrow> failed e st
      | Inr parent \<Rightarrow>
          let sa = NewServiceAccount now fresh accessKey secretKey accessKey (cs_name req)
                     (cs_description req) parent (cs_policyMode req) ServiceAcctStatusActive
                     (cs_embeddedPolicyJSON req) (cs_expiresAt req)
          in case MetaCreateServiceAccount C sa st of
               (Some e, st') \<Rightarrow> failed (SvcMeta e) st'
             | (None, st') \<Rightarrow> (Inr sa, st')))))))"

definition sa_error :: "meta_error \<Rightarrow> service_error" where
  "sa_error e =
     (if e = ErrServiceAccountNotFound then SvcErr SvcServiceAccountNotFound else SvcMeta e)"

definition SAGet :: "crypt_env \<Rightarrow> meta_store \<Rightarrow> string \<Rightarrow> service_error + service_account" where
  "SAGet C st accessKey =
     (case ValidateAccessKey accessKey of
        Some e \<Rightarrow> Inl (SvcErr e)
      | None \<Rightarrow>
          (case GetServiceAccount C st accessKey of Inl e \<Rightarrow> Inl (sa_error e) | Inr sa \<Rightarrow> Inr sa))"

definition SAGetByUUID :: "crypt_env \<Rightarrow> meta_store \<Rightarrow> uuid \<Rightarrow> service_error + service_account" where
  "SAGetByUUID C st saUUID =
     (case GetServiceAccountByUUID C st saUUID of Inl e \<Rightarrow> Inl (sa_error e) | Inr sa \<Rightarrow> Inr sa)"

definition SADelete ::
  "crypt_env \<Rightarrow> string \<Rightarrow> meta_store \<Rightarrow> service_error option \<times> meta_store" where
  "SADelete C accessKey st =
     (case ValidateAccessKey accessKey of
        Some e \<Rightarrow> (Some (SvcErr e), st)
      | None \<Rightarrow>
          (case SAGet C st accessKey of
             Inl e \<Rightarrow> (Some e, st)
           | Inr _ \<Rightarrow> (None, MetaDeleteServiceAccount accessKey st)))"

definition SAList :: "meta_store \<Rightarrow> string list" where
  "SAList st = ListServiceAccountKeys st"

definition SAUpdate ::
  "crypt_env \<Rightarrow> time \<Rightarrow> string \<Rightarrow> update_sa_request \<Rightarrow> meta_store
     \<Rightarrow> (service_error + service_account) \<times> meta_store" where
  "SAUpdate C now accessKey req st =
     (case SAGet C st accessKey of
        Inl e \<Rightarrow> failed e st
      | Inr sa \<Rightarrow>
     (case Option.bind (us_secretKey req) ValidateSecretKey of
        Some e \<Rightarrow> failed (SvcErr e) st
      | None \<Rightarrow>
     (case Option.bind (us_status req) sa_status_validate of
        Some e \<Rightarrow> failed (SvcErr (ValidationError ''Status'' (OfStatus e))) st
      | None \<Rightarrow>
          let sa' = sa\<lparr>
                sa_secretKey := (case us_secretKey req of Some k \<Rightarrow> k | None \<Rightarrow> sa_secretKey sa),
                sa_name := (case us_name req of Some n \<Rightarrow> n | None \<Rightarrow> sa_name sa),
                sa_description := (case us_description req of Some d \<Rightarrow> d | None \<Rightarrow> sa_description sa),
                sa_status := (case us_status req of Some s \<Rightarrow> s | None \<Rightarrow> sa_status sa),
                sa_expiresAt := (case us_expiresAt req of Some t \<Rightarrow> t | None \<Rightarrow> sa_expiresAt sa),
                sa_embeddedPolicyJSON := (case us_embeddedPolicyJSON req of Some j \<Rightarrow> j
                                          | None \<Rightarrow> sa_embeddedPolicyJSON sa),
                sa_updatedAt := now\<rparr>
          in (Inr sa', SaveServiceAccount C sa' st))))"

definition SASetStatus ::
  "crypt_env \<Rightarrow> time \<Rightarrow> string \<Rightarrow> string \<Rightarrow> meta_store \<Rightarrow> service_error option \<times> meta_store" where
  "SASetStatus C now accessKey status st =
     (case SAUpdate C now accessKey
             \<lparr>us_secretKey = None, us_status = Some status, us_name = None, us_description = None,
              us_embeddedPolicyJSON = None, us_expiresAt = None\<rparr> st of
        (Inl e, st') \<Rightarrow> (Some e, st')
      | (Inr _, st') \<Rightarrow> (None, st'))"

end
