(* ===== verification/ServicesProps.thy ===== *)
theory ServicesProps
  imports Services MetadataProps AuthProps
begin

text \<open>
  Correctness of the services: an invariant of every store that they reach, with a relation
  \<open>service_step\<close> that has one rule for each operation that writes. It says that every record is well
  formed, that the indexes fit the files, that groups have only existing members, and that the built-in
  policies are there.
\<close>

section \<open>The invariant\<close>

definition user_ok :: "crypt_env \<Rightarrow> iam_user \<Rightarrow> bool" where
  "user_ok C u \<longleftrightarrow>
     ValidateAccessKey (u_accessKey u) = None \<and> u_username u = u_accessKey u \<and>
     ValidateStatus (u_status u) = None \<and>
     (\<exists>p. decrypt_default C (u_secretKey u) = Inr p \<and> ValidateSecretKey p = None)"

definition users_ok :: "crypt_env \<Rightarrow> meta_store \<Rightarrow> bool" where
  "users_ok C st \<longleftrightarrow>
     user_inv st \<and> index_exact st \<and> (\<forall>uid u. map_of (ms_users st) uid = Some u \<longrightarrow> user_ok C u)"

definition groups_ok :: "meta_store \<Rightarrow> bool" where
  "groups_ok st \<longleftrightarrow>
     group_inv st \<and>
     (\<forall>nm g. map_of (ms_groups st) nm = Some g \<longrightarrow> group_status_validate (g_status g) = None)"

definition members_ok :: "meta_store \<Rightarrow> bool" where
  "members_ok st \<longleftrightarrow>
     (\<forall>nm g. map_of (ms_groups st) nm = Some g \<longrightarrow> set (g_members g) \<subseteq> dom (map_of (ms_users st)))"

definition policies_ok :: "meta_store \<Rightarrow> bool" where
  "policies_ok st \<longleftrightarrow>
     (\<forall>nm p. map_of (ms_policies st) nm = Some p \<longrightarrow>
        p_name p = nm \<and> ValidatePolicyName nm = None \<and> ValidatePolicyDocument (p_document p) = None) \<and>
     (\<forall>nm\<in>set BuiltinPolicyNames. map_of (ms_policies st) nm \<noteq> None)"

definition account_ok :: "crypt_env \<Rightarrow> string \<Rightarrow> service_account \<Rightarrow> bool" where
  "account_ok C k sa \<longleftrightarrow>
     sa_accessKey sa = k \<and> ValidateAccessKey k = None \<and> sa_status_validate (sa_status sa) = None \<and>
     (\<exists>p. decrypt_default C (sa_secretKey sa) = Inr p \<and> ValidateSecretKey p = None)"

definition accounts_ok :: "crypt_env \<Rightarrow> meta_store \<Rightarrow> bool" where
  "accounts_ok C st \<longleftrightarrow> (\<forall>k sa. map_of (ms_serviceAccounts st) k = Some sa \<longrightarrow> account_ok C k sa)"

definition iam_ok :: "crypt_env \<Rightarrow> meta_store \<Rightarrow> bool" where
  "iam_ok C st \<longleftrightarrow>
     users_ok C st \<and> groups_ok st \<and> members_ok st \<and> policies_ok st \<and> accounts_ok C st"

text \<open>Each part reads only its own fields.\<close>

lemma users_ok_frame [simp]:
  "users_ok C (st\<lparr>ms_groups := g\<rparr>) = users_ok C st" "users_ok C (st\<lparr>ms_groupsByUser := b\<rparr>) = users_ok C st"
  "users_ok C (st\<lparr>ms_policies := p\<rparr>) = users_ok C st" "users_ok C (st\<lparr>ms_serviceAccounts := a\<rparr>) = users_ok C st"
  "users_ok C (st\<lparr>ms_usersIdx := i\<rparr>) = users_ok C st"
  by (simp_all add: users_ok_def user_inv_def index_exact_def)

lemma groups_ok_frame [simp]:
  "groups_ok (st\<lparr>ms_users := u\<rparr>) = groups_ok st" "groups_ok (st\<lparr>ms_byUsername := b\<rparr>) = groups_ok st"
  "groups_ok (st\<lparr>ms_byAccessKey := b\<rparr>) = groups_ok st" "groups_ok (st\<lparr>ms_usersIdx := i\<rparr>) = groups_ok st"
  "groups_ok (st\<lparr>ms_policies := p\<rparr>) = groups_ok st" "groups_ok (st\<lparr>ms_serviceAccounts := a\<rparr>) = groups_ok st"
  by (simp_all add: groups_ok_def group_inv_def GetGroupNamesForUser_def)

lemma members_ok_frame [simp]:
  "members_ok (st\<lparr>ms_groupsByUser := m\<rparr>) = members_ok st" "members_ok (st\<lparr>ms_byUsername := n\<rparr>) = members_ok st"
  "members_ok (st\<lparr>ms_byAccessKey := b\<rparr>) = members_ok st" "members_ok (st\<lparr>ms_usersIdx := i\<rparr>) = members_ok st"
  "members_ok (st\<lparr>ms_policies := p\<rparr>) = members_ok st" "members_ok (st\<lparr>ms_serviceAccounts := a\<rparr>) = members_ok st"
  by (simp_all add: members_ok_def)

lemma policies_ok_frame [simp]:
  "policies_ok (st\<lparr>ms_users := u\<rparr>) = policies_ok st" "policies_ok (st\<lparr>ms_byUsername := n\<rparr>) = policies_ok st"
  "policies_ok (st\<lparr>ms_byAccessKey := b\<rparr>) = policies_ok st" "policies_ok (st\<lparr>ms_usersIdx := i\<rparr>) = policies_ok st"
  "policies_ok (st\<lparr>ms_groups := g\<rparr>) = policies_ok st" "policies_ok (st\<lparr>ms_groupsByUser := m\<rparr>) = policies_ok st"
  "policies_ok (st\<lparr>ms_serviceAccounts := a\<rparr>) = policies_ok st"
  by (simp_all add: policies_ok_def)

lemma accounts_ok_frame [simp]:
  "accounts_ok C (st\<lparr>ms_users := u\<rparr>) = accounts_ok C st" "accounts_ok C (st\<lparr>ms_byUsername := n\<rparr>) = accounts_ok C st"
  "accounts_ok C (st\<lparr>ms_byAccessKey := b\<rparr>) = accounts_ok C st" "accounts_ok C (st\<lparr>ms_usersIdx := i\<rparr>) = accounts_ok C st"
  "accounts_ok C (st\<lparr>ms_groups := g\<rparr>) = accounts_ok C st" "accounts_ok C (st\<lparr>ms_groupsByUser := m\<rparr>) = accounts_ok C st"
  "accounts_ok C (st\<lparr>ms_policies := p\<rparr>) = accounts_ok C st"
  by (simp_all add: accounts_ok_def)

section \<open>Users\<close>

text \<open>Every write draws its own nonce.\<close>

abbreviation with_nonce :: "string \<Rightarrow> crypt_env \<Rightarrow> crypt_env" where
  "with_nonce n C \<equiv> C\<lparr>ce_nonce := n\<rparr>"

lemma nonce_decrypt [simp]: "decrypt_default (with_nonce n C) = decrypt_default C"
  by (simp add: decrypt_default_def)

lemma nonce_get [simp]:
  "GetUser (with_nonce n C) = GetUser C" "GetServiceAccount (with_nonce n C) = GetServiceAccount C"
  unfolding GetUser_def GetServiceAccount_def fun_eq_iff nonce_decrypt by simp_all

lemma nonce_get_by_key [simp]: "GetUserByAccessKey (with_nonce n C) = GetUserByAccessKey C"
  unfolding GetUserByAccessKey_def fun_eq_iff nonce_get by simp

lemma nonce_ok: "crypt_ok C \<Longrightarrow> length n = 12 \<Longrightarrow> crypt_ok (with_nonce n C)"
  by (simp add: crypt_ok_def)

lemma nonce_roundtrip:
  "crypt_ok C \<Longrightarrow> length n = 12 \<Longrightarrow> decrypt_default C (encrypt_default (with_nonce n C) x) = Inr x"
  using box.box_roundtrip[OF nonce_ok] by simp

lemma save_user_cases:
  assumes "save_user C now fresh u st = (r, st')"
  obtains (error) err where "r = Inl err" "st' = st"
  | (ok) st1 w where "r = Inr w" "w = (ensure_uuid fresh u)\<lparr>u_version := UserMetadataVersion, u_updatedAt := now\<rparr>"
      "CreateOrUpdateUser C now fresh u st = (None, w, st')"
      "index_user (ensure_uuid fresh u) st = Inr st1"
      "st' = (SaveUser C (u_uuid w) w st1)\<lparr>ms_usersIdx := List.insert (u_uuid w) (ms_usersIdx st1)\<rparr>"
proof -
  obtain e w st2 where c: "CreateOrUpdateUser C now fresh u st = (e, w, st2)" by (metis prod_cases3)
  from c show ?thesis
  proof (cases rule: CreateOrUpdateUser_cases)
    case (error err)
    with assms c have "r = Inl (SvcMeta err)" "st' = st" by (simp_all add: save_user_def)
    then show ?thesis by (rule that(1))
  next
    case (ok st1)
    with assms c have r: "r = Inr w" "st2 = st'" by (simp_all add: save_user_def)
    show ?thesis using that(2)[of w st1] r ok c by simp
  qed
qed

lemma index_user_frame:
  assumes "index_user u st = Inr st1"
  shows "ms_groups st1 = ms_groups st" "ms_groupsByUser st1 = ms_groupsByUser st"
    "ms_policies st1 = ms_policies st" "ms_serviceAccounts st1 = ms_serviceAccounts st"
  using assms by (auto simp: index_user_def split: if_splits option.splits)

text \<open>A user that is new or keeps its name and key may be saved.\<close>

definition saveable :: "uuid \<Rightarrow> iam_user \<Rightarrow> meta_store \<Rightarrow> bool" where
  "saveable fresh u st \<longleftrightarrow>
     (case map_of (ms_users st) (u_uuid (ensure_uuid fresh u)) of
        None \<Rightarrow> True
      | Some f \<Rightarrow> u_username f = u_username u \<and> u_accessKey f = u_accessKey u)"

lemma save_user_exact:
  assumes ex: "index_exact st" and ok: "saveable fresh u st"
    and "CreateOrUpdateUser C now fresh u st = (None, u', st')"
  shows "index_exact st'"
proof (cases "map_of (ms_users st) (u_uuid (ensure_uuid fresh u))")
  case None
  then show ?thesis using create_user_exact[OF ex assms(3)] by simp
next
  case (Some f)
  from assms(3) obtain st1 where i: "index_user (ensure_uuid fresh u) st = Inr st1"
    and u': "u' = (ensure_uuid fresh u)\<lparr>u_version := UserMetadataVersion, u_updatedAt := now\<rparr>"
    and st': "st' = (SaveUser C (u_uuid (ensure_uuid fresh u)) u' st1)
      \<lparr>ms_usersIdx := List.insert (u_uuid (ensure_uuid fresh u)) (ms_usersIdx st1)\<rparr>"
    by (cases rule: CreateOrUpdateUser_cases) auto
  note ix = index_user_Inr[OF i]
  have f: "u_username f = u_username u" "u_accessKey f = u_accessKey u"
    using ok Some by (simp_all add: saveable_def)
  show ?thesis
    unfolding st' index_exact_def
    using ex ix(3-5) f Some by (auto simp: index_exact_def SaveUser_def u' ensure_uuid_def split: if_splits) force+
qed

lemma save_user_ok:
  assumes ok: "iam_ok C st" and C: "crypt_ok C" "length n = 12"
    and s: "saveable fresh u st" "ValidateAccessKey (u_accessKey u) = None" "u_username u = u_accessKey u"
      "ValidateStatus (u_status u) = None" "ValidateSecretKey (u_secretKey u) = None"
    and sv: "save_user (with_nonce n C) now fresh u st = (r, st')"
  shows "iam_ok C st'"
  using sv
proof (cases rule: save_user_cases)
  case error
  with ok show ?thesis by simp
next
  case (ok st1 w)
  note ix = index_user_Inr[OF ok(4)] index_user_frame[OF ok(4)]
  have "user_inv st" "index_exact st" using assms(1) by (simp_all add: iam_ok_def users_ok_def)
  then have inv: "user_inv st'" "index_exact st'"
    using create_user_inv[OF _ ok(3)] save_user_exact[OF _ s(1) ok(3)] by auto
  have "user_ok C (w\<lparr>u_secretKey := encrypt_default (with_nonce n C) (u_secretKey w)\<rparr>)"
    using s(2-5) nonce_roundtrip[OF C] by (simp add: user_ok_def ok(2) ensure_uuid_def)
  then have users: "users_ok C st'"
    using inv assms(1) by (auto simp: iam_ok_def users_ok_def ok(5) SaveUser_def ix(5) split: if_splits)
  have "groups_ok st'" "policies_ok st'" "accounts_ok C st'"
    using assms(1) ix
    by (auto simp: iam_ok_def ok(5) SaveUser_def groups_ok_def group_inv_def policies_ok_def accounts_ok_def
        GetGroupNamesForUser_def)
  moreover have "members_ok st'"
    using assms(1) ix by (auto simp: iam_ok_def ok(5) SaveUser_def members_ok_def)
  ultimately show ?thesis using users by (simp add: iam_ok_def)
qed


lemma UserCreate_ok:
  assumes ok: "iam_ok C st" and C: "crypt_ok C" "length n = 12" and fresh: "map_of (ms_users st) fresh = None"
    and c: "UserCreate (with_nonce n C) now fresh req st = (r, st')"
  shows "iam_ok C st'"
proof (cases "ValidateAccessKey (cu_accessKey req) = None \<and> ValidateSecretKey (cu_secretKey req) = None \<and>
    ValidateStatus (cu_status req) = None \<and> \<not> isl (GetUserByAccessKey C st (cu_accessKey req)) = False")
  case False
  then have "st' = st" using c by (auto simp: UserCreate_def split: option.splits sum.splits)
  with ok show ?thesis by simp
next
  case True
  let ?u = "\<lparr>u_version = UserMetadataVersion, u_uuid = uuid_nil, u_username = cu_accessKey req,
    u_accessKey = cu_accessKey req, u_secretKey = cu_secretKey req,
    u_status = (if cu_status req = '''' then UserStatusActive else cu_status req),
    u_updatedAt = now, u_attachedPolicies = []\<rparr>"
  have sv: "save_user (with_nonce n C) now fresh ?u st = (r, st')"
    using c True by (auto simp: UserCreate_def split: sum.splits)
  have "saveable fresh ?u st" using fresh by (simp add: saveable_def ensure_uuid_def)
  moreover have "ValidateStatus (u_status ?u) = None" using True by (auto simp: ValidateStatus_def user_status_validate_def split: if_splits)
  ultimately show ?thesis using save_user_ok[OF ok C _ _ _ _ _ sv] True by simp
qed

lemma UserGet_Inr:
  assumes "users_ok C st" "UserGet C st uid = Inr u"
  obtains f where "map_of (ms_users st) uid = Some f" "u_username f = u_username u"
    "u_accessKey f = u_accessKey u" "u_uuid u = uid" "ValidateAccessKey (u_accessKey u) = None"
    "u_username u = u_accessKey u" "ValidateStatus (u_status u) = None" "ValidateSecretKey (u_secretKey u) = None"
proof -
  from assms(2) obtain f p where f: "map_of (ms_users st) uid = Some f"
    and p: "decrypt_default C (u_secretKey f) = Inr p" "u = f\<lparr>u_secretKey := p\<rparr>"
    by (auto simp: UserGet_def GetUser_def split: sum.splits option.splits)
  have "user_ok C f" "u_uuid f = uid"
    using assms(1) f by (auto simp: users_ok_def user_inv_def)
  with p show ?thesis by (intro that[OF f]) (auto simp: user_ok_def)
qed

lemma got_saveable:
  assumes "map_of (ms_users st) uid = Some f" "u_username f = u_username u" "u_accessKey f = u_accessKey u"
    and "u_uuid u = uid" "map_of (ms_users st) fresh = None"
  shows "saveable fresh u st"
  using assms by (simp add: saveable_def ensure_uuid_def)

text \<open>What the three operations that change a user they have read have in common.\<close>

lemma resave_ok:
  assumes ok: "iam_ok C st" and C: "crypt_ok C" "length n = 12" and fresh: "map_of (ms_users st) fresh = None"
    and g: "UserGet C st uid = Inr u"
    and v: "u_uuid v = u_uuid u" "u_username v = u_username u" "u_accessKey v = u_accessKey u"
      "ValidateStatus (u_status v) = None" "ValidateSecretKey (u_secretKey v) = None"
    and sv: "save_user (with_nonce n C) now fresh v st = (r, st')"
  shows "iam_ok C st'"
proof -
  have "users_ok C st" using ok by (simp add: iam_ok_def)
  from UserGet_Inr[OF this g] obtain f where f: "map_of (ms_users st) uid = Some f" "u_username f = u_username u"
    "u_accessKey f = u_accessKey u" "u_uuid u = uid" "ValidateAccessKey (u_accessKey u) = None"
    "u_username u = u_accessKey u" by blast
  with v fresh have "saveable fresh v st" by (intro got_saveable[OF f(1)]) simp_all
  from save_user_ok[OF ok C this _ _ v(4,5) sv] f v(2,3) show ?thesis by simp
qed

lemma UserGet_nonce [simp]: "UserGet (with_nonce n C) = UserGet C"
  by (simp add: UserGet_def fun_eq_iff)

lemma UserUpdate_ok:
  assumes ok: "iam_ok C st" and C: "crypt_ok C" "length n = 12" and fresh: "map_of (ms_users st) fresh = None"
    and c: "UserUpdate (with_nonce n C) now fresh uid req st = (r, st')"
  shows "iam_ok C st'"
proof (cases "UserGet C st uid")
  case (Inl e)
  with ok c show ?thesis by (simp add: UserUpdate_def)
next
  case (Inr u)
  have "users_ok C st" using ok by (simp add: iam_ok_def)
  from UserGet_Inr[OF this Inr] have u: "ValidateStatus (u_status u) = None" "ValidateSecretKey (u_secretKey u) = None"
    by blast+
  show ?thesis
  proof (cases "Option.bind (uu_secretKey req) ValidateSecretKey = None \<and>
      Option.bind (uu_status req) ValidateStatus = None")
    case False
    with c Inr have "st' = st" by (auto simp: UserUpdate_def split: option.splits)
    with ok show ?thesis by simp
  next
    case True
    define v where "v = u\<lparr>u_secretKey := (case uu_secretKey req of Some k \<Rightarrow> k | None \<Rightarrow> u_secretKey u),
      u_status := (case uu_status req of Some s \<Rightarrow> s | None \<Rightarrow> u_status u),
      u_attachedPolicies := (case uu_attachedPolicies req of Some ps \<Rightarrow> ps | None \<Rightarrow> u_attachedPolicies u),
      u_updatedAt := now\<rparr>"
    have sv: "save_user (with_nonce n C) now fresh v st = (r, st')"
      using c True Inr by (simp add: UserUpdate_def v_def)
    have "ValidateStatus (u_status v) = None" "ValidateSecretKey (u_secretKey v) = None"
      using True u by (auto simp: v_def split: option.split)
    then show ?thesis by (intro resave_ok[OF ok C fresh Inr _ _ _ _ _ sv]) (simp_all add: v_def)
  qed
qed

lemma UserAttachPolicy_ok:
  assumes ok: "iam_ok C st" and C: "crypt_ok C" "length n = 12" and fresh: "map_of (ms_users st) fresh = None"
    and c: "UserAttachPolicy (with_nonce n C) now fresh uid pol st = (e, st')"
  shows "iam_ok C st'"
proof (cases "st' = st")
  case False
  then obtain u where g: "UserGet C st uid = Inr u" using c
    by (auto simp: UserAttachPolicy_def split: option.splits sum.splits)
  let ?v = "u\<lparr>u_attachedPolicies := u_attachedPolicies u @ [pol], u_updatedAt := now\<rparr>"
  obtain r st2 where sv: "save_user (with_nonce n C) now fresh ?v st = (r, st2)" by fastforce
  then have st2: "st' = st2" using c False g
    by (auto simp: UserAttachPolicy_def split: option.splits sum.splits if_splits)
  have "users_ok C st" using ok by (simp add: iam_ok_def)
  from UserGet_Inr[OF this g] have "ValidateStatus (u_status u) = None" "ValidateSecretKey (u_secretKey u) = None"
    by blast+
  then show ?thesis unfolding st2 by (intro resave_ok[OF ok C fresh g _ _ _ _ _ sv]) simp_all
qed (use ok in simp)

lemma UserDetachPolicy_ok:
  assumes ok: "iam_ok C st" and C: "crypt_ok C" "length n = 12" and fresh: "map_of (ms_users st) fresh = None"
    and c: "UserDetachPolicy (with_nonce n C) now fresh uid pol st = (e, st')"
  shows "iam_ok C st'"
proof (cases "st' = st")
  case False
  then obtain u where g: "UserGet C st uid = Inr u" using c
    by (auto simp: UserDetachPolicy_def split: option.splits sum.splits)
  let ?v = "u\<lparr>u_attachedPolicies := filter (\<lambda>p. p \<noteq> pol) (u_attachedPolicies u), u_updatedAt := now\<rparr>"
  obtain r st2 where sv: "save_user (with_nonce n C) now fresh ?v st = (r, st2)" by fastforce
  then have st2: "st' = st2" using c False g
    by (auto simp: UserDetachPolicy_def split: option.splits sum.splits if_splits)
  have "users_ok C st" using ok by (simp add: iam_ok_def)
  from UserGet_Inr[OF this g] have "ValidateStatus (u_status u) = None" "ValidateSecretKey (u_secretKey u) = None"
    by blast+
  then show ?thesis unfolding st2 by (intro resave_ok[OF ok C fresh g _ _ _ _ _ sv]) simp_all
qed (use ok in simp)


section \<open>Groups\<close>

text \<open>A change of the groups and their index keeps the rest.\<close>

lemma group_change_ok:
  assumes "iam_ok C st" "group_inv st'"
    and "st' = st\<lparr>ms_groups := gs, ms_groupsByUser := b\<rparr>"
    and "\<And>nm g. map_of gs nm = Some g \<Longrightarrow>
      group_status_validate (g_status g) = None \<and> set (g_members g) \<subseteq> dom (map_of (ms_users st))"
  shows "iam_ok C st'"
  using assms by (auto simp: iam_ok_def groups_ok_def members_ok_def)

lemma group_facts:
  assumes "iam_ok C st"
  shows "group_inv st"
    and "map_of (ms_groups st) nm = Some g \<Longrightarrow>
      group_status_validate (g_status g) = None \<and> set (g_members g) \<subseteq> dom (map_of (ms_users st))"
  using assms by (auto simp: iam_ok_def groups_ok_def members_ok_def)

lemma save_group_change_ok:
  assumes ok: "iam_ok C st" and inv: "group_inv st'"
    and st': "st' = (SaveGroup g' st)\<lparr>ms_groupsByUser := b\<rparr>"
    and "group_status_validate (g_status g') = None" "set (g_members g') \<subseteq> dom (map_of (ms_users st))"
  shows "iam_ok C st'"
proof (rule group_change_ok[OF ok inv])
  show "st' = st\<lparr>ms_groups := put (g_name g') g' (ms_groups st), ms_groupsByUser := b\<rparr>"
    by (simp add: st' SaveGroup_def)
qed (use assms(4,5) group_facts(2)[OF ok] in \<open>auto split: if_splits\<close>)

lemma RemoveUserFromGroup_ok:
  assumes ok: "iam_ok C st" and r: "RemoveUserFromGroup now nm uid st = (e, st')"
  shows "iam_ok C st'"
proof (cases "map_of (ms_groups st) nm")
  case None
  with ok r show ?thesis by (simp add: RemoveUserFromGroup_def GetGroup_def)
next
  case (Some g)
  have "group_inv st'" using remove_user_inv[OF group_facts(1)[OF ok] r] .
  moreover have "st' = (SaveGroup (g\<lparr>g_members := filter (\<lambda>m. m \<noteq> uid) (g_members g), g_updatedAt := now\<rparr>) st)
      \<lparr>ms_groupsByUser := groupIndexRemove nm uid (ms_groupsByUser st)\<rparr>"
    using r Some by (auto simp: RemoveUserFromGroup_def GetGroup_def Let_def SaveGroup_def)
  ultimately show ?thesis using group_facts(2)[OF ok Some] by (intro save_group_change_ok[OF ok]) auto
qed

lemma AddUserToGroup_ok:
  assumes ok: "iam_ok C st" and a: "AddUserToGroup now nm uid st = (e, st')"
    and uid: "map_of (ms_users st) uid \<noteq> None"
  shows "iam_ok C st'"
proof (cases "\<exists>g. map_of (ms_groups st) nm = Some g \<and> uid \<notin> set (g_members g)")
  case False
  then have "st' = st" using a by (auto simp: AddUserToGroup_def GetGroup_def split: option.splits)
  with ok show ?thesis by simp
next
  case True
  then obtain g where g: "map_of (ms_groups st) nm = Some g" "uid \<notin> set (g_members g)" by blast
  have "group_inv st'" using add_user_inv[OF group_facts(1)[OF ok] a] .
  moreover have "st' = (SaveGroup (g\<lparr>g_members := g_members g @ [uid], g_updatedAt := now\<rparr>) st)
      \<lparr>ms_groupsByUser := groupIndexAdd nm uid (ms_groupsByUser st)\<rparr>"
    using a g by (auto simp: AddUserToGroup_def GetGroup_def Let_def SaveGroup_def)
  ultimately show ?thesis using group_facts(2)[OF ok g(1)] uid by (intro save_group_change_ok[OF ok]) auto
qed

lemma MetaCreateGroup_ok:
  assumes ok: "iam_ok C st" and c: "MetaCreateGroup now nm st = (e, st')" and nm: "nm \<noteq> ''''"
  shows "iam_ok C st'"
proof (cases "st' = st")
  case False
  have inv: "group_inv st'" using create_group_inv[OF group_facts(1)[OF ok] nm c] .
  from False c have st': "st' = st\<lparr>ms_groups := put nm
      \<lparr>g_version = GroupMetadataVersion, g_name = nm, g_members = [], g_attachedPolicies = [],
       g_status = GroupStatusActive, g_createdAt = now, g_updatedAt = now\<rparr> (ms_groups st),
      ms_groupsByUser := ms_groupsByUser st\<rparr>"
    by (simp add: MetaCreateGroup_def split: if_splits)
  have valid: "group_status_validate GroupStatusActive = None" by (simp add: group_status_validate_def)
  show ?thesis
    by (rule group_change_ok[OF ok inv st']) (use group_facts(2)[OF ok] valid in \<open>auto split: if_splits\<close>)
qed (use ok in simp)

lemma MetaDeleteGroup_ok:
  assumes ok: "iam_ok C st"
  shows "iam_ok C (MetaDeleteGroup nm st)"
proof -
  have "group_inv (MetaDeleteGroup nm st)" using delete_group_inv[OF group_facts(1)[OF ok]] .
  moreover obtain b where "MetaDeleteGroup nm st = st\<lparr>ms_groups := del nm (ms_groups st), ms_groupsByUser := b\<rparr>"
  proof (cases "GetGroup st nm")
    case Inl
    then show ?thesis using that[of "ms_groupsByUser st"] by (simp add: MetaDeleteGroup_def)
  next
    case Inr
    then show ?thesis using that by (simp add: MetaDeleteGroup_def)
  qed
  ultimately show ?thesis
    by (elim group_change_ok[OF ok, rotated]) (metis group_facts(2)[OF ok] AList.delete_conv' fun_upd_apply option.distinct(1))
qed

text \<open>Changes that keep the members are steps of \<open>group_step\<close>.\<close>

lemma group_update_ok:
  assumes ok: "iam_ok C st" and step: "group_step st st'" and g: "map_of (ms_groups st) nm = Some g"
    and st': "st' = SaveGroup g' st" "g_members g' = g_members g" "group_status_validate (g_status g') = None"
  shows "iam_ok C st'"
  using save_group_change_ok[where g' = g' and b = "ms_groupsByUser st", OF ok group_step_inv[OF step group_facts(1)[OF ok]]]
    st' group_facts(2)[OF ok g] by (simp add: SaveGroup_def)

lemma AttachPolicyToGroup_ok:
  assumes ok: "iam_ok C st" and a: "AttachPolicyToGroup now nm pol st = (e, st')"
  shows "iam_ok C st'"
proof (cases "st' = st")
  case False
  with a obtain g where g: "map_of (ms_groups st) nm = Some g"
    "st' = SaveGroup (g\<lparr>g_attachedPolicies := g_attachedPolicies g @ [pol], g_updatedAt := now\<rparr>) st"
    by (auto simp: AttachPolicyToGroup_def GetGroup_def split: option.splits if_splits)
  show ?thesis
    by (rule group_update_ok[OF ok group_step.attach[OF a] g]) (use group_facts(2)[OF ok g(1)] in simp_all)
qed (use ok in simp)

lemma DetachPolicyFromGroup_ok:
  assumes ok: "iam_ok C st" and a: "DetachPolicyFromGroup now nm pol st = (e, st')"
  shows "iam_ok C st'"
proof (cases "st' = st")
  case False
  with a obtain g where g: "map_of (ms_groups st) nm = Some g"
    "st' = SaveGroup (g\<lparr>g_attachedPolicies := filter (\<lambda>p. p \<noteq> pol) (g_attachedPolicies g), g_updatedAt := now\<rparr>) st"
    by (auto simp: DetachPolicyFromGroup_def GetGroup_def split: option.splits if_splits)
  show ?thesis
    by (rule group_update_ok[OF ok group_step.detach[OF a] g]) (use group_facts(2)[OF ok g(1)] in simp_all)
qed (use ok in simp)

lemma SetGroupStatus_ok:
  assumes ok: "iam_ok C st" and a: "SetGroupStatus now nm s st = (e, st')" and s: "group_status_validate s = None"
  shows "iam_ok C st'"
proof (cases "st' = st")
  case False
  with a obtain g where g: "map_of (ms_groups st) nm = Some g"
    "st' = SaveGroup (g\<lparr>g_status := s, g_updatedAt := now\<rparr>) st"
    by (auto simp: SetGroupStatus_def GetGroup_def split: option.splits if_splits)
  show ?thesis by (rule group_update_ok[OF ok group_step.status[OF a] g]) (use s in simp_all)
qed (use ok in simp)


section \<open>Deleting users\<close>

lemma remove_members:
  assumes "group_inv st" "RemoveUserFromGroup now nm uid st = (e, st')"
  shows "ms_users st' = ms_users st"
    and "map_of (ms_groups st') nm' = Some g \<Longrightarrow> uid \<in> set (g_members g) \<Longrightarrow>
      nm' \<noteq> nm \<and> map_of (ms_groups st) nm' = Some g"
proof -
  have "ms_users st' = ms_users st \<and> (map_of (ms_groups st') nm' = Some g \<longrightarrow> uid \<in> set (g_members g) \<longrightarrow>
      nm' \<noteq> nm \<and> map_of (ms_groups st) nm' = Some g)"
  proof (cases "map_of (ms_groups st) nm")
    case None
    with assms(2) show ?thesis by (auto simp: RemoveUserFromGroup_def GetGroup_def)
  next
    case (Some g0)
    with assms show ?thesis
      by (auto simp: RemoveUserFromGroup_def GetGroup_def Let_def SaveGroup_def group_invD(2) split: if_splits)
  qed
  then show "ms_users st' = ms_users st"
    and "map_of (ms_groups st') nm' = Some g \<Longrightarrow> uid \<in> set (g_members g) \<Longrightarrow>
      nm' \<noteq> nm \<and> map_of (ms_groups st) nm' = Some g"
    by blast+
qed

lemma leave_groups_ok:
  assumes "iam_ok C st"
  shows "iam_ok C (leave_groups now uid names st) \<and> ms_users (leave_groups now uid names st) = ms_users st \<and>
    (\<forall>nm g. map_of (ms_groups (leave_groups now uid names st)) nm = Some g \<longrightarrow> uid \<in> set (g_members g) \<longrightarrow>
       nm \<notin> set names \<and> map_of (ms_groups st) nm = Some g)"
  using assms
proof (induction names arbitrary: st)
  case Nil
  then show ?case by (simp add: leave_groups_def)
next
  case (Cons nm names)
  obtain e st1 where r: "RemoveUserFromGroup now nm uid st = (e, st1)" by fastforce
  have l: "leave_groups now uid (nm # names) st = leave_groups now uid names st1"
    by (simp add: leave_groups_def r)
  have ok1: "iam_ok C st1" by (rule RemoveUserFromGroup_ok[OF Cons.prems r])
  note rm = remove_members[OF group_facts(1)[OF Cons.prems] r]
  show ?case using Cons.IH[OF ok1] rm unfolding l by auto
qed

lemma UserDelete_ok:
  assumes ok: "iam_ok C st" and d: "UserDelete C now uid st = (e, st')"
  shows "iam_ok C st'"
proof (cases "st' = st")
  case False
  then obtain u where u: "UserGet C st uid = Inr u"
    and st': "st' = MetaDeleteUser C uid (leave_groups now uid (GetGroupNamesForUser st uid) st)"
    using d by (auto simp: UserDelete_def split: if_splits sum.splits)
  let ?st1 = "leave_groups now uid (GetGroupNamesForUser st uid) st"
  note l = leave_groups_ok[OF ok, of now uid "GetGroupNamesForUser st uid"]
  have "GetUser C ?st1 uid = GetUser C st uid" using l by (intro GetUser_users) simp
  with u have gu: "GetUser C ?st1 uid = Inr u" by (auto simp: UserGet_def split: sum.splits)
  have gone: "uid \<notin> set (g_members g)" if g: "map_of (ms_groups ?st1) nm = Some g" for nm g
  proof
    assume "uid \<in> set (g_members g)"
    with l g have in_st: "map_of (ms_groups st) nm = Some g" "nm \<notin> set (GetGroupNamesForUser st uid)" by blast+
    then have "nm \<noteq> ''''" using group_invD(1)[OF group_facts(1)[OF ok]] by auto
    with in_st \<open>uid \<in> set (g_members g)\<close> group_facts(1)[OF ok] show False
      unfolding group_inv_def by blast
  qed
  have parts: "users_ok C ?st1" "groups_ok ?st1" "members_ok ?st1" "policies_ok ?st1" "accounts_ok C ?st1"
    using l by (simp_all add: iam_ok_def)
  have del: "st' = ?st1\<lparr>ms_users := del uid (ms_users ?st1),
      ms_byUsername := del (u_username u) (ms_byUsername ?st1),
      ms_byAccessKey := del (u_accessKey u) (ms_byAccessKey ?st1), ms_usersIdx := removeAll uid (ms_usersIdx ?st1)\<rparr>"
    by (simp add: st' MetaDeleteUser_def gu Let_def)
  have "user_inv st'" "index_exact st'"
    using parts(1) delete_user_inv[of ?st1 C uid] delete_user_exact[of ?st1 C uid] gu
    by (simp_all add: users_ok_def st')
  then have "users_ok C st'" using parts(1) unfolding users_ok_def del by (auto split: if_splits)
  moreover have "members_ok st'" using parts(3) gone unfolding members_ok_def del by fastforce
  moreover have "groups_ok st'" "policies_ok st'" "accounts_ok C st'" using parts(2,4,5) unfolding del by simp_all
  ultimately show ?thesis by (simp add: iam_ok_def)
qed (use ok in simp)

section \<open>Policies and service accounts\<close>

lemma SavePolicy_ok:
  assumes "iam_ok C st" "ValidatePolicyName (p_name p) = None" "ValidatePolicyDocument (p_document p) = None"
  shows "iam_ok C (SavePolicy p st)"
  using assms unfolding iam_ok_def SavePolicy_def by (auto simp: policies_ok_def)

lemma PolicyCreate_ok:
  assumes ok: "iam_ok C st" and c: "PolicyCreate now nm doc st = (r, st')"
  shows "iam_ok C st'"
proof (cases "st' = st")
  case False
  with c have "ValidatePolicyName nm = None" "ValidatePolicyDocument doc = None"
    "st' = SavePolicy \<lparr>p_version = PolicyMetadataVersion, p_name = nm, p_document = doc,
       p_createDate = now, p_updateDate = now, p_isBuiltin = False\<rparr> st"
    by (auto simp: PolicyCreate_def Let_def split: option.splits sum.splits)
  with SavePolicy_ok[OF ok] show ?thesis by simp
qed (use ok in simp)

lemma PolicyUpdate_ok:
  assumes ok: "iam_ok C st" and c: "PolicyUpdate now nm doc st = (r, st')"
  shows "iam_ok C st'"
proof (cases "st' = st")
  case False
  with c obtain p where p: "ValidatePolicyDocument doc = None" "map_of (ms_policies st) nm = Some p"
    "st' = SavePolicy (p\<lparr>p_document := doc, p_updateDate := now\<rparr>) st"
    by (auto simp: PolicyUpdate_def PolicyGet_def GetPolicy_def Let_def split: option.splits sum.splits)
  with ok have "ValidatePolicyName (p_name p) = None" by (auto simp: iam_ok_def policies_ok_def)
  with SavePolicy_ok[OF ok] p show ?thesis by simp
qed (use ok in simp)

lemma PolicyDelete_ok:
  assumes ok: "iam_ok C st" and c: "PolicyDelete nm st = (e, st')"
  shows "iam_ok C st'"
proof (cases "st' = st")
  case False
  with c have "\<not> IsBuiltinPolicy nm" "st' = MetaDeletePolicy nm st"
    by (auto simp: PolicyDelete_def split: option.splits if_splits sum.splits)
  with ok show ?thesis unfolding iam_ok_def MetaDeletePolicy_def
    by (auto simp: policies_ok_def IsBuiltinPolicy_def split: if_splits)
qed (use ok in simp)

lemma put_account_ok:
  assumes "iam_ok C st" "crypt_ok C" "length n = 12"
    and "ValidateAccessKey (sa_accessKey sa) = None" "sa_status_validate (sa_status sa) = None"
    and "ValidateSecretKey (sa_secretKey sa) = None"
  shows "iam_ok C (st\<lparr>ms_serviceAccounts :=
    put (sa_accessKey sa) (encrypted_sa (with_nonce n C) sa) (ms_serviceAccounts st)\<rparr>)"
proof -
  have "account_ok C (sa_accessKey sa) (encrypted_sa (with_nonce n C) sa)"
    using assms(4-6) nonce_roundtrip[OF assms(2,3)] by (simp add: account_ok_def encrypted_sa_def)
  with assms(1) show ?thesis unfolding iam_ok_def by (auto simp: accounts_ok_def)
qed

lemma SACreate_Inr:
  assumes "SACreate C rand now fresh req st = (Inr sa, st')"
  obtains accessKey secretKey parent where "request_keys rand req = Inr (accessKey, secretKey)"
    "ValidateAccessKey accessKey = None" "ValidateSecretKey secretKey = None"
    "isl (GetUserByAccessKey C st accessKey)" "isl (GetServiceAccount C st accessKey)"
    "sa = NewServiceAccount now fresh accessKey secretKey accessKey (cs_name req)
       (cs_description req) parent (cs_policyMode req) ServiceAcctStatusActive
       (cs_embeddedPolicyJSON req) (cs_expiresAt req)"
    "st' = st\<lparr>ms_serviceAccounts := put accessKey (encrypted_sa C sa) (ms_serviceAccounts st)\<rparr>"
  using assms
  by (auto simp: SACreate_def Let_def MetaCreateServiceAccount_def NewServiceAccount_def
      split: sum.splits option.splits if_splits)

lemma SACreate_changed: "SACreate C rand now fresh req st = (r, st') \<Longrightarrow> st' \<noteq> st \<Longrightarrow> \<exists>sa. r = Inr sa"
  by (auto simp: SACreate_def Let_def MetaCreateServiceAccount_def split: sum.splits option.splits if_splits)

lemma SACreate_ok:
  assumes ok: "iam_ok C st" and C: "crypt_ok C" "length n = 12"
    and c: "SACreate (with_nonce n C) rand now fresh req st = (r, st')"
  shows "iam_ok C st'"
proof (cases "st' = st")
  case False
  from SACreate_changed[OF c False] c obtain sa where "SACreate (with_nonce n C) rand now fresh req st = (Inr sa, st')"
    by blast
  from SACreate_Inr[OF this] obtain k s parent where
    "ValidateAccessKey k = None" "ValidateSecretKey s = None"
    "sa = NewServiceAccount now fresh k s k (cs_name req) (cs_description req) parent (cs_policyMode req)
       ServiceAcctStatusActive (cs_embeddedPolicyJSON req) (cs_expiresAt req)"
    "st' = st\<lparr>ms_serviceAccounts := put k (encrypted_sa (with_nonce n C) sa) (ms_serviceAccounts st)\<rparr>"
    by metis
  with put_account_ok[OF ok C, of sa] show ?thesis by (simp add: NewServiceAccount_def sa_status_validate_def)
qed (use ok in simp)

lemma SAGet_nonce [simp]: "SAGet (with_nonce n C) = SAGet C"
  unfolding SAGet_def fun_eq_iff nonce_get by simp

lemma SAUpdate_ok:
  assumes ok: "iam_ok C st" and C: "crypt_ok C" "length n = 12"
    and c: "SAUpdate (with_nonce n C) now accessKey req st = (r, st')"
  shows "iam_ok C st'"
proof (cases "st' = st")
  case False
  from False c obtain sa where g: "SAGet C st accessKey = Inr sa" by (auto simp: SAUpdate_def split: sum.splits)
  from False c have req: "Option.bind (us_secretKey req) ValidateSecretKey = None"
    "Option.bind (us_status req) sa_status_validate = None"
    by (simp_all add: SAUpdate_def g split: option.splits)
  define sa' where "sa' = sa\<lparr>
    sa_secretKey := (case us_secretKey req of Some k \<Rightarrow> k | None \<Rightarrow> sa_secretKey sa),
    sa_name := (case us_name req of Some n \<Rightarrow> n | None \<Rightarrow> sa_name sa),
    sa_description := (case us_description req of Some d \<Rightarrow> d | None \<Rightarrow> sa_description sa),
    sa_status := (case us_status req of Some s \<Rightarrow> s | None \<Rightarrow> sa_status sa),
    sa_expiresAt := (case us_expiresAt req of Some t \<Rightarrow> t | None \<Rightarrow> sa_expiresAt sa),
    sa_embeddedPolicyJSON := (case us_embeddedPolicyJSON req of Some j \<Rightarrow> j | None \<Rightarrow> sa_embeddedPolicyJSON sa),
    sa_updatedAt := now\<rparr>"
  have st': "st' = SaveServiceAccount (with_nonce n C) sa' st"
    using c by (simp add: SAUpdate_def g req sa'_def Let_def)
  from g obtain f p where f: "map_of (ms_serviceAccounts st) accessKey = Some f"
    "decrypt_default C (sa_secretKey f) = Inr p" "sa = f\<lparr>sa_secretKey := p\<rparr>"
    by (auto simp: SAGet_def GetServiceAccount_def split: sum.splits option.splits)
  with ok have "account_ok C accessKey f" by (auto simp: iam_ok_def accounts_ok_def)
  with f req have "ValidateAccessKey (sa_accessKey sa') = None" "sa_status_validate (sa_status sa') = None"
    "ValidateSecretKey (sa_secretKey sa') = None"
    by (auto simp: account_ok_def sa'_def split: option.splits)
  from put_account_ok[OF ok C this] show ?thesis by (simp add: st' SaveServiceAccount_def)
qed (use ok in simp)

lemma SADelete_ok:
  assumes ok: "iam_ok C st" and c: "SADelete C accessKey st = (e, st')"
  shows "iam_ok C st'"
proof (cases "st' = st")
  case False
  with c have "st' = MetaDeleteServiceAccount accessKey st"
    by (auto simp: SADelete_def split: option.splits sum.splits)
  with ok show ?thesis unfolding iam_ok_def MetaDeleteServiceAccount_def
    by (auto simp: accounts_ok_def split: if_splits)
qed (use ok in simp)


section \<open>Reachable stores\<close>

text \<open>Fresh UUIDs are not in use, nonces have their length.\<close>

inductive service_step :: "crypt_env \<Rightarrow> meta_store \<Rightarrow> meta_store \<Rightarrow> bool" for C where
  user_create: "length n = 12 \<Longrightarrow> map_of (ms_users st) fresh = None \<Longrightarrow>
    UserCreate (with_nonce n C) now fresh req st = (r, st') \<Longrightarrow> service_step C st st'"
| user_update: "length n = 12 \<Longrightarrow> map_of (ms_users st) fresh = None \<Longrightarrow>
    UserUpdate (with_nonce n C) now fresh uid ureq st = (r, st') \<Longrightarrow> service_step C st st'"
| user_delete: "UserDelete C now uid st = (e, st') \<Longrightarrow> service_step C st st'"
| user_attach: "length n = 12 \<Longrightarrow> map_of (ms_users st) fresh = None \<Longrightarrow>
    UserAttachPolicy (with_nonce n C) now fresh uid nm st = (e, st') \<Longrightarrow> service_step C st st'"
| user_detach: "length n = 12 \<Longrightarrow> map_of (ms_users st) fresh = None \<Longrightarrow>
    UserDetachPolicy (with_nonce n C) now fresh uid nm st = (e, st') \<Longrightarrow> service_step C st st'"
| group_create: "GroupCreate now nm st = (rg, st') \<Longrightarrow> service_step C st st'"
| group_delete: "GroupDelete nm st = (e, st') \<Longrightarrow> service_step C st st'"
| add_member: "AddMember C now nm uid st = (e, st') \<Longrightarrow> service_step C st st'"
| add_member_key: "AddMemberByAccessKey C now nm k st = (e, st') \<Longrightarrow> service_step C st st'"
| remove_member: "RemoveMember now nm uid st = (e, st') \<Longrightarrow> service_step C st st'"
| remove_member_key: "RemoveMemberByAccessKey C now nm k st = (e, st') \<Longrightarrow> service_step C st st'"
| group_attach: "GroupAttachPolicy now nm pol st = (e, st') \<Longrightarrow> service_step C st st'"
| group_detach: "GroupDetachPolicy now nm pol st = (e, st') \<Longrightarrow> service_step C st st'"
| group_status: "GroupSetStatus now nm s st = (e, st') \<Longrightarrow> service_step C st st'"
| policy_create: "PolicyCreate now nm doc st = (rp, st') \<Longrightarrow> service_step C st st'"
| policy_update: "PolicyUpdate now nm doc st = (rp, st') \<Longrightarrow> service_step C st st'"
| policy_delete: "PolicyDelete nm st = (e, st') \<Longrightarrow> service_step C st st'"
| sa_create: "length n = 12 \<Longrightarrow>
    SACreate (with_nonce n C) rand now fresh sreq st = (rs, st') \<Longrightarrow> service_step C st st'"
| sa_update: "length n = 12 \<Longrightarrow>
    SAUpdate (with_nonce n C) now k sureq st = (rs, st') \<Longrightarrow> service_step C st st'"
| sa_status: "length n = 12 \<Longrightarrow>
    SASetStatus (with_nonce n C) now k s st = (e, st') \<Longrightarrow> service_step C st st'"
| sa_delete: "SADelete C k st = (e, st') \<Longrightarrow> service_step C st st'"

lemma map_error_step:
  assumes "map_prod f id (act st) = (e, st')"
  obtains e' where "act st = (e', st')"
  using assms by (cases "act st") auto

text \<open>An operation behind the guards on the group keeps what the manager's operation keeps.\<close>

lemma with_group_ok:
  assumes "iam_ok C st" "with_group nm act st = (e, st')"
    and "\<And>e' st'. nm \<noteq> '''' \<Longrightarrow> act st = (e', st') \<Longrightarrow> iam_ok C st'"
  shows "iam_ok C st'"
proof (cases "st' = st")
  case False
  then have "nm \<noteq> ''''" "act st = (e, st')" using assms(2)
    by (auto simp: with_group_def need_def split: option.splits sum.splits if_splits)
  then show ?thesis by (rule assms(3))
qed (use assms(1) in simp)

lemma AddMember_ok:
  assumes ok: "iam_ok C st" and a: "AddMember C now nm uid st = (e, st')"
  shows "iam_ok C st'"
  using ok a unfolding AddMember_def
proof (rule with_group_ok)
  fix e' st'
  assume act: "(case GetUser C st uid of Inl e \<Rightarrow> (Some (user_error e), st)
    | Inr _ \<Rightarrow> map_prod (map_option SvcMeta) id (AddUserToGroup now nm uid st)) = (e', st')"
  show "iam_ok C st'"
  proof (cases "GetUser C st uid")
    case Inl
    with act ok show ?thesis by simp
  next
    case (Inr u)
    with act have "map_prod (map_option SvcMeta) id (AddUserToGroup now nm uid st) = (e', st')" by simp
    then obtain e2 where "AddUserToGroup now nm uid st = (e2, st')" by (cases "AddUserToGroup now nm uid st") auto
    moreover have "map_of (ms_users st) uid \<noteq> None" using GetUser_Inr[OF Inr] by auto
    ultimately show ?thesis using AddUserToGroup_ok[OF ok] by blast
  qed
qed

lemma RemoveMember_ok:
  assumes ok: "iam_ok C st" and a: "RemoveMember now nm uid st = (e, st')"
  shows "iam_ok C st'"
  using ok a unfolding RemoveMember_def
  by (rule with_group_ok) (metis RemoveUserFromGroup_ok[OF ok] map_error_step)

lemma GroupAttachPolicy_ok:
  assumes ok: "iam_ok C st" and a: "GroupAttachPolicy now nm pol st = (e, st')"
  shows "iam_ok C st'"
proof (cases "st' = st")
  case False
  let ?act = "\<lambda>st. case GetPolicy st pol of Inl e \<Rightarrow> (Some (policy_error e), st)
    | Inr _ \<Rightarrow> map_prod (map_option SvcMeta) id (AttachPolicyToGroup now nm pol st)"
  have "with_group nm ?act st = (e, st')"
    using a False by (auto simp: GroupAttachPolicy_def split: option.splits)
  with ok show ?thesis
  proof (rule with_group_ok)
    fix e' st'
    assume act: "?act st = (e', st')"
    show "iam_ok C st'"
    proof (cases "GetPolicy st pol")
      case Inl
      with act ok show ?thesis by simp
    next
      case Inr
      with act obtain e2 where "AttachPolicyToGroup now nm pol st = (e2, st')"
        by (cases "AttachPolicyToGroup now nm pol st") auto
      then show ?thesis by (rule AttachPolicyToGroup_ok[OF ok])
    qed
  qed
qed (use ok in simp)

lemma GroupDetachPolicy_ok:
  assumes ok: "iam_ok C st" and a: "GroupDetachPolicy now nm pol st = (e, st')"
  shows "iam_ok C st'"
proof (cases "st' = st")
  case False
  then have "with_group nm (\<lambda>st. map_prod (map_option SvcMeta) id (DetachPolicyFromGroup now nm pol st)) st = (e, st')"
    using a by (auto simp: GroupDetachPolicy_def split: option.splits)
  with ok show ?thesis by (rule with_group_ok) (metis DetachPolicyFromGroup_ok[OF ok] map_error_step)
qed (use ok in simp)

lemma GroupSetStatus_ok:
  assumes ok: "iam_ok C st" and a: "GroupSetStatus now nm s st = (e, st')"
  shows "iam_ok C st'"
proof (cases "st' = st")
  case False
  then have g: "with_group nm (\<lambda>st. map_prod (map_option SvcMeta) id (SetGroupStatus now nm s st)) st = (e, st')"
    and s: "group_status_validate s = None"
    using a by (auto simp: GroupSetStatus_def split: option.splits)
  show ?thesis by (rule with_group_ok[OF ok g]) (metis SetGroupStatus_ok[OF ok _ s] map_error_step)
qed (use ok in simp)

lemma GroupCreate_ok:
  assumes ok: "iam_ok C st" and c: "GroupCreate now nm st = (r, st')"
  shows "iam_ok C st'"
proof (cases "nm = ''''")
  case True
  with ok c show ?thesis by (simp add: GroupCreate_def need_def)
next
  case False
  obtain e st1 where m: "MetaCreateGroup now nm st = (e, st1)" by fastforce
  with c False have "st' = st1" by (auto simp: GroupCreate_def need_def split: option.splits sum.splits)
  with MetaCreateGroup_ok[OF ok m False] show ?thesis by simp
qed

lemma GroupDelete_ok:
  assumes ok: "iam_ok C st" and c: "GroupDelete nm st = (e, st')"
  shows "iam_ok C st'"
  using c MetaDeleteGroup_ok[OF ok, of nm] ok
  by (auto simp: GroupDelete_def split: option.splits sum.splits)

lemma SASetStatus_ok:
  assumes ok: "iam_ok C st" and C: "crypt_ok C" "length n = 12"
    and c: "SASetStatus (with_nonce n C) now k s st = (e, st')"
  shows "iam_ok C st'"
proof -
  obtain r where "SAUpdate (with_nonce n C) now k \<lparr>us_secretKey = None, us_status = Some s, us_name = None,
      us_description = None, us_embeddedPolicyJSON = None, us_expiresAt = None\<rparr> st = (r, st')"
    using c by (auto simp: SASetStatus_def split: prod.splits sum.splits)
  then show ?thesis by (rule SAUpdate_ok[OF ok C])
qed

lemma service_step_ok:
  assumes "service_step C st st'" "iam_ok C st" "crypt_ok C"
  shows "iam_ok C st'"
  using assms
proof (induction rule: service_step.induct)
  case (user_create n st fresh now req r st')
  then show ?case using UserCreate_ok by blast
next
  case (user_update n st fresh now uid ureq r st')
  then show ?case using UserUpdate_ok by blast
next
  case (user_delete now uid st e st')
  then show ?case using UserDelete_ok by blast
next
  case (user_attach n st fresh now uid nm e st')
  then show ?case using UserAttachPolicy_ok by blast
next
  case (user_detach n st fresh now uid nm e st')
  then show ?case using UserDetachPolicy_ok by blast
next
  case (add_member_key now nm k st e st')
  then show ?case using AddMember_ok by (auto simp: AddMemberByAccessKey_def split: sum.splits)
next
  case (remove_member_key now nm k st e st')
  then show ?case using RemoveMember_ok by (auto simp: RemoveMemberByAccessKey_def split: sum.splits)
next
  case (sa_create n rand now fresh sreq st rs st')
  then show ?case using SACreate_ok by blast
next
  case (sa_update n now k sureq st rs st')
  then show ?case using SAUpdate_ok by blast
next
  case (sa_status n now k s st e st')
  then show ?case using SASetStatus_ok by blast
qed (blast intro: GroupCreate_ok GroupDelete_ok AddMember_ok RemoveMember_ok GroupAttachPolicy_ok
    GroupDetachPolicy_ok GroupSetStatus_ok PolicyCreate_ok PolicyUpdate_ok PolicyDelete_ok SADelete_ok)+

text \<open>The store of a fresh server holds the built-in policies and nothing else.\<close>

lemma builtin_valid:
  "nm \<in> set BuiltinPolicyNames \<Longrightarrow> ValidatePolicyName nm = None \<and> ValidatePolicyDocument (BuiltinPolicyDocument nm) = None"
  by (auto simp: BuiltinPolicyNames_def BuiltinPolicyDocument_def ValidatePolicyName_def ValidatePolicyDocument_def
      InRange_def IsAlphanumericWithHyphens_def ascii_alnum_def builtin_doc_def builtin_statement_def
      validateStatement_def)

lemma fresh_store:
  "open_store C now empty_store = empty_store\<lparr>ms_policies :=
     map (\<lambda>nm. (nm, \<lparr>p_version = PolicyMetadataVersion, p_name = nm, p_document = BuiltinPolicyDocument nm,
       p_createDate = now, p_updateDate = now, p_isBuiltin = True\<rparr>)) BuiltinPolicyNames\<rparr>"
  by (simp add: open_store_def empty_store_def buildUsersIndex_def ListUsers_def reconcileIndexes_def Let_def
      drop_stale_def user_groups_def GetGroups_def ListGroupNames_def seedBuiltinPolicies_def
      BuiltinPolicyNames_def seed_builtin_def BuiltinPolicyDocument_def GetPolicy_def SavePolicy_def
      List.map_filter_def)

lemma fresh_store_ok: "iam_ok C (open_store C now empty_store)"
proof -
  have "policies_ok (open_store C now empty_store)"
    using builtin_valid unfolding fresh_store
    by (auto simp: policies_ok_def map_of_map_restrict restrict_map_def empty_store_def map_of_eq_None_iff
        image_iff dest!: map_of_SomeD)
  then show ?thesis unfolding iam_ok_def fresh_store
    by (simp add: users_ok_def groups_ok_def members_ok_def accounts_ok_def empty_store_def user_inv_def
        index_exact_def group_inv_def GetGroupNamesForUser_def)
qed

lemma reachable_ok:
  "(service_step C)\<^sup>*\<^sup>* (open_store C now empty_store) st \<Longrightarrow> crypt_ok C \<Longrightarrow> iam_ok C st"
  by (induction rule: rtranclp_induct) (auto intro: fresh_store_ok service_step_ok)


section \<open>Properties\<close>


text \<open>In such a store a key under which no user can be read is in no index.\<close>

lemma free_key:
  assumes ok: "users_ok C st" and free: "isl (GetUserByAccessKey C st k)"
  shows "map_of (ms_byAccessKey st) k = None" "map_of (ms_byUsername st) k = None"
proof -
  have known: "\<exists>w. GetUser C st uid = Inr w" if "map_of (ms_users st) uid = Some u" for uid u
    using ok that by (fastforce simp: users_ok_def user_ok_def GetUser_def)
  show ak: "map_of (ms_byAccessKey st) k = None"
  proof (rule ccontr)
    assume "map_of (ms_byAccessKey st) k \<noteq> None"
    then obtain uid where uid: "map_of (ms_byAccessKey st) k = Some uid" by auto
    with ok obtain u where "map_of (ms_users st) uid = Some u" unfolding users_ok_def index_exact_def by blast
    with known uid free show False by (fastforce simp: GetUserByAccessKey_def)
  qed
  show "map_of (ms_byUsername st) k = None"
  proof (rule ccontr)
    assume "map_of (ms_byUsername st) k \<noteq> None"
    then obtain uid where "map_of (ms_byUsername st) k = Some uid" by auto
    with ok obtain u where u: "map_of (ms_users st) uid = Some u" "u_username u = k"
      unfolding users_ok_def index_exact_def by blast
    with ok have "u_accessKey u = k" by (auto simp: users_ok_def user_ok_def)
    moreover have "user_inv st" using ok by (simp add: users_ok_def)
    ultimately show False using user_invD(3)[OF _ u(1)] ak by simp
  qed
qed


text \<open>Creating a user does not look at the service accounts: a user with the key of an existing
  service account is created, and from then on the key leads to the user, so the service account
  can no longer authenticate. The other way round \<open>SACreate\<close> refuses the key of a user.\<close>

theorem user_takes_over_account_key:
  assumes "(service_step C)\<^sup>*\<^sup>* (open_store C now0 empty_store) st" "crypt_ok C" "length n = 12" "length n' = 12"
    and "SACreate (with_nonce n C) rand now fresh req st = (Inr sa, st1)"
    and "map_of (ms_users st) uid = None" "uid \<noteq> uuid_nil" "8 \<le> length secret"
    and "\<not> isRootAdminKey a (sa_accessKey sa)"
  shows "\<exists>u st2. UserCreate (with_nonce n' C) now' uid
      \<lparr>cu_accessKey = sa_accessKey sa, cu_secretKey = secret, cu_status = ''on''\<rparr> st1 = (Inr u, st2) \<and>
    GetUserForAccessKey C st2 a t (sa_accessKey sa) = Inr u \<and> u_uuid u = uid"
proof -
  have ok: "users_ok C st" using reachable_ok[OF assms(1,2)] by (simp add: iam_ok_def)
  from SACreate_Inr[OF assms(5)] obtain k s parent where
    valid: "ValidateAccessKey k = None" and free: "isl (GetUserByAccessKey C st k)"
    and sa: "sa = NewServiceAccount now fresh k s k (cs_name req) (cs_description req) parent
       (cs_policyMode req) ServiceAcctStatusActive (cs_embeddedPolicyJSON req) (cs_expiresAt req)"
    and st1: "st1 = st\<lparr>ms_serviceAccounts := put k (encrypted_sa (with_nonce n C) sa) (ms_serviceAccounts st)\<rparr>"
    by (metis nonce_get_by_key)
  have k: "sa_accessKey sa = k" by (simp add: sa NewServiceAccount_def)
  have ne: "k \<noteq> ''''" using valid by (auto simp: ValidateAccessKey_None)
  note fk = free_key[OF ok free]
  let ?u = "\<lparr>u_version = UserMetadataVersion, u_uuid = uid, u_username = k, u_accessKey = k,
    u_secretKey = secret, u_status = ''on'', u_updatedAt = now', u_attachedPolicies = []\<rparr>"
  define st2 where "st2 = (SaveUser (with_nonce n' C) uid ?u
      (st1\<lparr>ms_byUsername := put k uid (ms_byUsername st), ms_byAccessKey := put k uid (ms_byAccessKey st)\<rparr>))
      \<lparr>ms_usersIdx := List.insert uid (ms_usersIdx st)\<rparr>"
  have key: "GetUserByAccessKey C st1 k = Inl ErrUserNotFound"
    using fk(1) by (simp add: GetUserByAccessKey_def st1)
  have secret: "ValidateSecretKey secret = None" using assms(8) by (simp add: ValidateSecretKey_None)
  have status: "ValidateStatus ''on'' = None" by (simp add: ValidateStatus_def user_status_validate_def)
  have "save_user (with_nonce n' C) now' uid (?u\<lparr>u_uuid := uuid_nil\<rparr>) st1 = (Inr ?u, st2)"
    using ne assms(7) fk
    by (simp add: save_user_def CreateOrUpdateUser_def ensure_uuid_def index_user_def Let_def st1 st2_def SaveUser_def)
  then have create: "UserCreate (with_nonce n' C) now' uid
      \<lparr>cu_accessKey = k, cu_secretKey = secret, cu_status = ''on''\<rparr> st1 = (Inr ?u, st2)"
    using valid secret status key by (simp add: UserCreate_def)
  have "GetUserByAccessKey C st2 k = Inr ?u"
    using nonce_roundtrip[OF assms(2,4)] by (simp add: GetUserByAccessKey_def GetUser_def st2_def SaveUser_def)
  then have "GetUserForAccessKey C st2 a t k = Inr ?u"
    using assms(9) by (auto simp: GetUserForAccessKey_def isRootAdminKey_def k)
  with create show ?thesis by (auto simp: k)
qed


section \<open>Witnesses\<close>

definition ex_nonce :: string where "ex_nonce = replicate 12 CHR ''n''"

definition ex_sa_request :: create_sa_request where
  "ex_sa_request =
     \<lparr>cs_accessKey = ''svc'', cs_secretKey = ''password'', cs_name = ''n'', cs_description = '''',
      cs_parentUser = None, cs_parentUserUUID = Some 7, cs_policyMode = '''', cs_embeddedPolicyJSON = '''',
      cs_expiresAt = None\<rparr>"

definition ex_fresh :: meta_store where
  "ex_fresh = open_store ex_crypt 5 empty_store"

definition ex_sa :: service_account where
  "ex_sa = NewServiceAccount 6 8 ''svc'' ''password'' ''svc'' ''n'' '''' (Some 7) '''' ''on'' '''' None"

lemma ex_svc_valid: "ValidateAccessKey ''svc'' = None" "ValidateSecretKey ''password'' = None"
  by (simp_all add: ValidateAccessKey_None ValidateSecretKey_None ascii_alnum_def)

lemma ex_fresh_fields: "ms_users ex_fresh = []" "ms_byAccessKey ex_fresh = []" "ms_serviceAccounts ex_fresh = []"
  unfolding ex_fresh_def fresh_store by (simp_all add: empty_store_def)

lemma ex_sa_created:
  "\<exists>st'. SACreate (with_nonce ex_nonce ex_crypt) ex_rand 6 8 ex_sa_request ex_fresh = (Inr ex_sa, st')"
proof -
  have "GetUserByAccessKey ex_crypt ex_fresh ''svc'' = Inl ErrUserNotFound"
    "GetServiceAccount ex_crypt ex_fresh ''svc'' = Inl ErrServiceAccountNotFound"
    by (simp_all add: GetUserByAccessKey_def GetServiceAccount_def ex_fresh_fields)
  then show ?thesis
    using ex_svc_valid
    by (simp add: SACreate_def ex_sa_request_def request_keys_def parent_uuid_def MetaCreateServiceAccount_def
        ex_fresh_fields ex_sa_def NewServiceAccount_def Let_def)
qed


theorem user_takes_over_account_key_witness:
  "\<exists>u st2. GetUserForAccessKey ex_crypt st2 (NewAuthenticator ''root'' ''pw'') 9 ''svc'' = Inr u \<and> u_uuid u = 3"
proof -
  obtain st' where c: "SACreate (with_nonce ex_nonce ex_crypt) ex_rand 6 8 ex_sa_request ex_fresh = (Inr ex_sa, st')"
    using ex_sa_created by blast
  have "\<not> isRootAdminKey (NewAuthenticator ''root'' ''pw'') (sa_accessKey ex_sa)"
    by (simp add: isRootAdminKey_def NewAuthenticator_def ex_sa_def NewServiceAccount_def)
  moreover have "map_of (ms_users ex_fresh) 3 = None" by (simp add: ex_fresh_fields)
  moreover have "length ex_nonce = 12" by (simp add: ex_nonce_def)
  moreover have "sa_accessKey ex_sa = ''svc''" by (simp add: ex_sa_def NewServiceAccount_def)
  ultimately show ?thesis
    using user_takes_over_account_key[OF rtranclp.rtrancl_refl ex_crypt_ok _ _ c[unfolded ex_fresh_def], of ex_nonce 3
        "''password''" "NewAuthenticator ''root'' ''pw''" 7 9]
    by (simp add: ex_fresh_def uuid_nil_def) blast
qed


end
