(* ===== verification/S3Service.thy ===== *)
theory S3Service
  imports Storage Validation
begin

text \<open>
  \<^verbatim>\<open>internal/service/s3/{s3,bucket_policy}.go\<close>: the operations behind the S3 interface and the console.
  The state is the storage (with the store of the metadata manager in it) and the policy engine, which
  may be missing. The errors of the storage are the values of \<^verbatim>\<open>s3types\<close>, so most of the translations in
  the code map an error to itself.
\<close>

section \<open>State and errors\<close>

record 'f s3_service =
  sv_storage :: "'f storage"
  sv_engine :: "engine option"

abbreviation sv_meta :: "('f) s3_service \<Rightarrow> meta_store" where
  "sv_meta s \<equiv> sg_meta (sv_storage s)"

abbreviation with_meta :: "meta_store \<Rightarrow> ('f) s3_service \<Rightarrow> ('f) s3_service" where
  "with_meta m s \<equiv> s\<lparr>sv_storage := (sv_storage s)\<lparr>sg_meta := m\<rparr>\<rparr>"

datatype s3_error =
    S3Err storage_error
  | S3NoSuchBucketPolicy
  | S3Storage store_error
  | S3Meta meta_error
  | S3Invalid svc_error
  | S3NoObjects
  | S3TooManyObjects

fun from_store :: "store_error \<Rightarrow> s3_error" where
  "from_store (SErr e) = S3Err e"
| "from_store e = S3Storage e"

definition isMetadataNotFound :: "meta_error \<Rightarrow> bool" where
  "isMetadataNotFound e \<longleftrightarrow> e = ErrFileNotExist \<or> e = ErrObjectMetadataNotFound"

text \<open>A storage operation run inside the service.\<close>

definition on_storage ::
  "(('f) storage \<Rightarrow> (store_error + 'a) \<times> ('f) storage) \<Rightarrow> ('f) s3_service
     \<Rightarrow> (s3_error + 'a) \<times> ('f) s3_service" where
  "on_storage act s =
     (case act (sv_storage s) of
        (Inl e, sg) \<Rightarrow> (Inl (from_store e), s\<lparr>sv_storage := sg\<rparr>)
      | (Inr x, sg) \<Rightarrow> (Inr x, s\<lparr>sv_storage := sg\<rparr>))"

definition on_storage_unit ::
  "(('f) storage \<Rightarrow> store_error option \<times> ('f) storage) \<Rightarrow> ('f) s3_service
     \<Rightarrow> s3_error option \<times> ('f) s3_service" where
  "on_storage_unit act s =
     (case act (sv_storage s) of (e, sg) \<Rightarrow> (map_option from_store e, s\<lparr>sv_storage := sg\<rparr>))"

section \<open>Buckets\<close>

definition HeadBucket :: "('f) fs_ops \<Rightarrow> string \<Rightarrow> ('f) s3_service \<Rightarrow> s3_error + bool" where
  "HeadBucket F bucket s =
     (case BucketExists F bucket (sv_storage s) of Inl e \<Rightarrow> Inl (from_store e) | Inr b \<Rightarrow> Inr b)"

definition GetBucket :: "string \<Rightarrow> ('f) s3_service \<Rightarrow> s3_error + bucket_metadata" where
  "GetBucket bucket s =
     (case GetBucketMetadata (sv_meta s) bucket of
        Inl e \<Rightarrow> Inl (if isMetadataNotFound e then S3Err ErrNoSuchBucket else S3Meta e)
      | Inr meta \<Rightarrow> Inr meta)"

text \<open>A policy in the request is put into a copy of the metadata that is not saved.\<close>

definition S3CreateBucket ::
  "('f) fs_ops \<Rightarrow> unicode_tables \<Rightarrow> time \<Rightarrow> iam_user option \<Rightarrow> string \<Rightarrow> policy_document option
     \<Rightarrow> ('f) s3_service \<Rightarrow> (s3_error + bucket_metadata) \<times> ('f) s3_service" where
  "S3CreateBucket F U now user nm policy s =
     (case ValidateBucketName U nm of
        Some e \<Rightarrow> (Inl (S3Invalid e), s)
      | None \<Rightarrow>
     (case BucketExists F nm (sv_storage s) of
        Inl e \<Rightarrow> (Inl (from_store e), s)
      | Inr True \<Rightarrow> (Inl (S3Err ErrBucketExists), s)
      | Inr False \<Rightarrow>
     (case on_storage_unit (CreateBucket F now user nm) s of
        (Some e, s) \<Rightarrow> (Inl e, s)
      | (None, s) \<Rightarrow>
          if policy \<noteq> None then
            (case GetBucketMetadata (sv_meta s) nm of
               Inl e \<Rightarrow> (Inl (S3Meta e), s)
             | Inr _ \<Rightarrow> (GetBucket nm s, s))
          else (GetBucket nm s, s))))"

definition S3DeleteBucket ::
  "('f) fs_ops \<Rightarrow> string \<Rightarrow> ('f) s3_service \<Rightarrow> s3_error option \<times> ('f) s3_service" where
  "S3DeleteBucket F bucket = on_storage_unit (DeleteBucket F bucket)"

definition S3ListBuckets :: "('f) fs_ops \<Rightarrow> ('f) s3_service \<Rightarrow> s3_error + (string \<times> time) list" where
  "S3ListBuckets F s =
     (case ListBuckets F (sv_storage s) of Inl e \<Rightarrow> Inl (from_store e) | Inr bs \<Rightarrow> Inr bs)"

definition ListBucketsWithMetadata :: "('f) s3_service \<Rightarrow> bucket_metadata list" where
  "ListBucketsWithMetadata s = ListBucketMetadatas (sv_meta s)"

definition S3SetBucketOwner ::
  "string \<Rightarrow> uuid option \<Rightarrow> ('f) s3_service \<Rightarrow> s3_error option \<times> ('f) s3_service" where
  "S3SetBucketOwner bucket ownerUUID s =
     (case SetBucketOwner bucket ownerUUID (sv_meta s) of
        (Some e, m) \<Rightarrow>
          (Some (if isMetadataNotFound e then S3Err ErrNoSuchBucket else S3Meta e), with_meta m s)
      | (None, m) \<Rightarrow> (None, with_meta m s))"

definition GetBucketLocation :: "('f) fs_ops \<Rightarrow> string \<Rightarrow> ('f) s3_service \<Rightarrow> s3_error + string" where
  "GetBucketLocation F bucket s =
     (case HeadBucket F bucket s of
        Inl e \<Rightarrow> Inl e
      | Inr False \<Rightarrow> Inl (S3Err ErrNoSuchBucket)
      | Inr True \<Rightarrow> Inr ''us-east-1'')"

section \<open>Owners\<close>

record owner_info =
  oi_ownerUUID :: "uuid option"
  oi_accessKey :: string
  oi_username :: string

definition resolveOwner :: "crypt_env \<Rightarrow> uuid option \<Rightarrow> ('f) s3_service \<Rightarrow> owner_info" where
  "resolveOwner C ownerUUID s =
     (case ownerUUID of
        None \<Rightarrow> \<lparr>oi_ownerUUID = None, oi_accessKey = '''', oi_username = ''''\<rparr>
      | Some uid \<Rightarrow>
          (case GetUser C (sv_meta s) uid of
             Inr user \<Rightarrow> \<lparr>oi_ownerUUID = Some uid, oi_accessKey = u_accessKey user, oi_username = u_username user\<rparr>
           | Inl _ \<Rightarrow> \<lparr>oi_ownerUUID = Some uid, oi_accessKey = '''', oi_username = ''''\<rparr>))"

definition GetBucketOwner :: "crypt_env \<Rightarrow> string \<Rightarrow> ('f) s3_service \<Rightarrow> s3_error + owner_info" where
  "GetBucketOwner C bucket s =
     (case GetBucket bucket s of Inl e \<Rightarrow> Inl e | Inr meta \<Rightarrow> Inr (resolveOwner C (bm_owner meta) s))"

definition GetObjectOwnerUUID ::
  "('f) fs_ops \<Rightarrow> string \<Rightarrow> string \<Rightarrow> ('f) s3_service \<Rightarrow> (s3_error + uuid option) \<times> ('f) s3_service" where
  "GetObjectOwnerUUID F bucket key s =
     (case GetObjectMetadata bucket key (sv_meta s) of
        (Inr meta, m) \<Rightarrow> (Inr (om_owner meta), with_meta m s)
      | (Inl e, m) \<Rightarrow>
          (Inl (if isMetadataNotFound e then
                  (if BucketExists F bucket (sv_storage s) = Inr False then S3Err ErrNoSuchBucket
                   else S3Err ErrNoSuchKey)
                else S3Meta e), with_meta m s))"

definition GetObjectOwner ::
  "('f) fs_ops \<Rightarrow> crypt_env \<Rightarrow> string \<Rightarrow> string \<Rightarrow> ('f) s3_service
     \<Rightarrow> (s3_error + owner_info) \<times> ('f) s3_service" where
  "GetObjectOwner F C bucket key s =
     (case GetObjectOwnerUUID F bucket key s of
        (Inl e, s) \<Rightarrow> (Inl e, s)
      | (Inr uid, s) \<Rightarrow> (Inr (resolveOwner C uid s), s))"

section \<open>Objects\<close>

definition S3PutObject ::
  "('f) fs_ops \<Rightarrow> (string \<Rightarrow> string) \<Rightarrow> put_env \<Rightarrow> string \<Rightarrow> string \<Rightarrow> string \<times> bool \<Rightarrow> string
     \<Rightarrow> (string \<times> string) list \<Rightarrow> ('f) s3_service \<Rightarrow> (s3_error + string) \<times> ('f) s3_service" where
  "S3PutObject F md5 env bucket key content contentType customMetadata =
     on_storage (PutObject F md5 env bucket key content
       (if contentType = '''' then ''application/octet-stream'' else contentType) customMetadata)"

text \<open>The response of \<open>GetObject\<close> is the object without its key.\<close>

definition S3GetObject ::
  "('f) fs_ops \<Rightarrow> (string \<Rightarrow> string) \<Rightarrow> string \<Rightarrow> string \<Rightarrow> ('f) s3_service
     \<Rightarrow> (s3_error + stored_object) \<times> ('f) s3_service" where
  "S3GetObject F md5 bucket key = on_storage (GetObject F md5 bucket key)"

record head_response =
  hr_contentType :: string
  hr_size :: int
  hr_etag :: string
  hr_lastModified :: time
  hr_customMetadata :: "(string \<times> string) list"

definition HeadObject ::
  "('f) fs_ops \<Rightarrow> (string \<Rightarrow> string) \<Rightarrow> string \<Rightarrow> string \<Rightarrow> ('f) s3_service
     \<Rightarrow> (s3_error + head_response) \<times> ('f) s3_service" where
  "HeadObject F md5 bucket key s =
     (case on_storage (StorageGetObjectMetadata F md5 bucket key) s of
        (Inl e, s) \<Rightarrow> (Inl e, s)
      | (Inr meta, s) \<Rightarrow>
          (Inr \<lparr>hr_contentType = om_contentType meta, hr_size = om_size meta, hr_etag = om_etag meta,
                hr_lastModified = om_lastModified meta, hr_customMetadata = om_customMetadata meta\<rparr>, s))"

definition S3DeleteObject ::
  "('f) fs_ops \<Rightarrow> string \<Rightarrow> string \<Rightarrow> ('f) s3_service \<Rightarrow> s3_error option \<times> ('f) s3_service" where
  "S3DeleteObject F bucket key s =
     (case on_storage_unit (DeleteObject F bucket key) s of
        (Some e, s) \<Rightarrow> (if e = S3Err ErrNoSuchKey then None else Some e, s)
      | (None, s) \<Rightarrow> (None, s))"

definition ObjectExists ::
  "('f) fs_ops \<Rightarrow> (string \<Rightarrow> string) \<Rightarrow> string \<Rightarrow> string \<Rightarrow> ('f) s3_service
     \<Rightarrow> (s3_error + bool) \<times> ('f) s3_service" where
  "ObjectExists F md5 bucket key s =
     (case HeadObject F md5 bucket key s of
        (Inl e, s) \<Rightarrow> (if e = S3Err ErrNoSuchKey then Inr False else Inl e, s)
      | (Inr _, s) \<Rightarrow> (Inr True, s))"

text \<open>The checks that copying, ranges, tags and bulk deletion start with.\<close>

definition valid_name :: "unicode_tables \<Rightarrow> string \<Rightarrow> string \<Rightarrow> svc_error option" where
  "valid_name U bucket key =
     (case ValidateBucketName U bucket of Some e \<Rightarrow> Some e | None \<Rightarrow> ValidateObjectKey key)"

definition S3CopyObject ::
  "('f) fs_ops \<Rightarrow> (string \<Rightarrow> string) \<Rightarrow> unicode_tables \<Rightarrow> put_env \<Rightarrow> string \<Rightarrow> string \<Rightarrow> string \<Rightarrow> string
     \<Rightarrow> ('f) s3_service \<Rightarrow> s3_error option \<times> ('f) s3_service" where
  "S3CopyObject F md5 U env sourceBucket sourceKey destBucket destKey s =
     (case valid_name U sourceBucket sourceKey of
        Some e \<Rightarrow> (Some (S3Invalid e), s)
      | None \<Rightarrow>
     (case valid_name U destBucket destKey of
        Some e \<Rightarrow> (Some (S3Invalid e), s)
      | None \<Rightarrow>
     (case S3GetObject F md5 sourceBucket sourceKey s of
        (Inl e, s) \<Rightarrow> (Some e, s)
      | (Inr ob, s) \<Rightarrow>
          (case S3PutObject F md5 env destBucket destKey (sb_content ob, False) (sb_contentType ob)
                  (sb_customMetadata ob) s of
             (Inl e, s) \<Rightarrow> (Some e, s)
           | (Inr _, s) \<Rightarrow> (None, s)))))"

text \<open>The range is ignored: the whole content is returned.\<close>

definition GetObjectWithRange ::
  "('f) fs_ops \<Rightarrow> (string \<Rightarrow> string) \<Rightarrow> unicode_tables \<Rightarrow> string \<Rightarrow> string \<Rightarrow> int \<Rightarrow> int
     \<Rightarrow> ('f) s3_service \<Rightarrow> (s3_error + string) \<times> ('f) s3_service" where
  "GetObjectWithRange F md5 U bucket key first last_byte s =
     (case valid_name U bucket key of
        Some e \<Rightarrow> (Inl (S3Invalid e), s)
      | None \<Rightarrow>
          (case S3GetObject F md5 bucket key s of
             (Inl e, s) \<Rightarrow> (Inl e, s)
           | (Inr ob, s) \<Rightarrow> (Inr (sb_content ob), s)))"

section \<open>Bulk deletion\<close>

record object_identifier =
  od_key :: string
  od_versionId :: string

text \<open>The message of an entry is the text of \<open>de_error\<close>.\<close>

record delete_error =
  de_key :: string
  de_versionId :: string
  de_code :: string
  de_error :: s3_error

record delete_response =
  dr_deleted :: "object_identifier list"
  dr_errors :: "delete_error list"

definition delete_one ::
  "('f) fs_ops \<Rightarrow> string \<Rightarrow> bool \<Rightarrow> object_identifier \<Rightarrow> delete_response \<times> ('f) s3_service
     \<Rightarrow> delete_response \<times> ('f) s3_service" where
  "delete_one F bucket quiet ob = (\<lambda>(resp, s).
     case on_storage_unit (DeleteObject F bucket (od_key ob)) s of
       (e, s) \<Rightarrow>
         if e = None \<or> e = Some (S3Err ErrNoSuchKey) then
           (if quiet then resp else resp\<lparr>dr_deleted := dr_deleted resp @ [ob]\<rparr>, s)
         else
           (resp\<lparr>dr_errors := dr_errors resp @
              [\<lparr>de_key = od_key ob, de_versionId = od_versionId ob, de_code = ''InternalError'',
                de_error = the e\<rparr>]\<rparr>, s))"

definition DeleteObjects ::
  "('f) fs_ops \<Rightarrow> unicode_tables \<Rightarrow> string \<Rightarrow> object_identifier list \<Rightarrow> bool \<Rightarrow> ('f) s3_service
     \<Rightarrow> (s3_error + delete_response) \<times> ('f) s3_service" where
  "DeleteObjects F U bucket objects quiet s =
     (case ValidateBucketName U bucket of
        Some e \<Rightarrow> (Inl (S3Invalid e), s)
      | None \<Rightarrow>
          if objects = [] then (Inl S3NoObjects, s)
          else if 1000 < length objects then (Inl S3TooManyObjects, s)
          else case first_err (\<lambda>_ ob. ValidateObjectKey (od_key ob)) 0 objects of
            Some e \<Rightarrow> (Inl (S3Invalid e), s)
          | None \<Rightarrow>
              (case HeadBucket F bucket s of
                 Inl e \<Rightarrow> (Inl e, s)
               | Inr False \<Rightarrow> (Inl (S3Err ErrNoSuchBucket), s)
               | Inr True \<Rightarrow>
                   (case fold (delete_one F bucket quiet) objects (\<lparr>dr_deleted = [], dr_errors = []\<rparr>, s) of
                      (resp, s) \<Rightarrow> (Inr resp, s))))"

section \<open>Tags\<close>

text \<open>The existence check that both operations share, then the metadata of the manager itself.\<close>

definition tagged_object ::
  "('f) fs_ops \<Rightarrow> (string \<Rightarrow> string) \<Rightarrow> unicode_tables \<Rightarrow> string \<Rightarrow> string \<Rightarrow> ('f) s3_service
     \<Rightarrow> (s3_error + object_metadata) \<times> ('f) s3_service" where
  "tagged_object F md5 U bucket key s =
     (case valid_name U bucket key of
        Some e \<Rightarrow> (Inl (S3Invalid e), s)
      | None \<Rightarrow>
     (case ObjectExists F md5 bucket key s of
        (Inl e, s) \<Rightarrow> (Inl e, s)
      | (Inr False, s) \<Rightarrow> (Inl (S3Err ErrNoSuchKey), s)
      | (Inr True, s) \<Rightarrow>
          (case GetObjectMetadata bucket key (sv_meta s) of
             (Inl e, m) \<Rightarrow> (Inl (S3Meta e), with_meta m s)
           | (Inr meta, m) \<Rightarrow> (Inr meta, with_meta m s))))"

definition PutObjectTagging ::
  "('f) fs_ops \<Rightarrow> (string \<Rightarrow> string) \<Rightarrow> unicode_tables \<Rightarrow> string \<Rightarrow> string \<Rightarrow> (string \<times> string) list
     \<Rightarrow> ('f) s3_service \<Rightarrow> s3_error option \<times> ('f) s3_service" where
  "PutObjectTagging F md5 U bucket key tags s =
     (case tagged_object F md5 U bucket key s of
        (Inl e, s) \<Rightarrow> (Some e, s)
      | (Inr meta, s) \<Rightarrow>
          (None, with_meta (PutObjectMetadata bucket key (meta\<lparr>om_tags := tags\<rparr>) (sv_meta s)) s))"

definition GetObjectTagging ::
  "('f) fs_ops \<Rightarrow> (string \<Rightarrow> string) \<Rightarrow> unicode_tables \<Rightarrow> string \<Rightarrow> string
     \<Rightarrow> ('f) s3_service \<Rightarrow> (s3_error + (string \<times> string) list) \<times> ('f) s3_service" where
  "GetObjectTagging F md5 U bucket key s =
     (case tagged_object F md5 U bucket key s of
        (Inl e, s) \<Rightarrow> (Inl e, s)
      | (Inr meta, s) \<Rightarrow> (Inr (om_tags meta), s))"

section \<open>Bucket policies (bucket_policy.go)\<close>

text \<open>The manager's operation after the check that the bucket is there, and the engine afterwards.\<close>

definition change_policy ::
  "('f) fs_ops \<Rightarrow> string \<Rightarrow> (meta_store \<Rightarrow> meta_error option \<times> meta_store) \<Rightarrow> (engine \<Rightarrow> engine)
     \<Rightarrow> ('f) s3_service \<Rightarrow> s3_error option \<times> ('f) s3_service" where
  "change_policy F bucket store notify s =
     (case HeadBucket F bucket s of
        Inl e \<Rightarrow> (Some e, s)
      | Inr False \<Rightarrow> (Some (S3Err ErrNoSuchBucket), s)
      | Inr True \<Rightarrow>
          (case store (sv_meta s) of
             (Some e, m) \<Rightarrow> (Some (S3Meta e), with_meta m s)
           | (None, m) \<Rightarrow> (None, (with_meta m s)\<lparr>sv_engine := map_option notify (sv_engine s)\<rparr>)))"

definition PutBucketPolicy ::
  "('f) fs_ops \<Rightarrow> time \<Rightarrow> string \<Rightarrow> policy_document option \<Rightarrow> ('f) s3_service
     \<Rightarrow> s3_error option \<times> ('f) s3_service" where
  "PutBucketPolicy F now bucket doc =
     change_policy F bucket (MetaSetBucketPolicy now bucket doc) (\<lambda>e. UpdateBucketPolicy e bucket doc)"

definition DeleteBucketPolicy ::
  "('f) fs_ops \<Rightarrow> string \<Rightarrow> ('f) s3_service \<Rightarrow> s3_error option \<times> ('f) s3_service" where
  "DeleteBucketPolicy F bucket =
     change_policy F bucket (MetaDeleteBucketPolicy bucket) (\<lambda>e. EngineDeleteBucketPolicy e bucket)"

definition S3GetBucketPolicy ::
  "('f) fs_ops \<Rightarrow> string \<Rightarrow> ('f) s3_service \<Rightarrow> s3_error + policy_document" where
  "S3GetBucketPolicy F bucket s =
     (case HeadBucket F bucket s of
        Inl e \<Rightarrow> Inl e
      | Inr False \<Rightarrow> Inl (S3Err ErrNoSuchBucket)
      | Inr True \<Rightarrow>
          (case MetaGetBucketPolicy (sv_meta s) bucket of
             Inl e \<Rightarrow> Inl (S3Meta e)
           | Inr None \<Rightarrow> Inl S3NoSuchBucketPolicy
           | Inr (Some doc) \<Rightarrow> Inr doc))"

section \<open>Listing\<close>

text \<open>The directory tree that the listing walks, read from the file system directory by directory. The
  bound on its depth is a number; a path of the operating system is limited to 4096 bytes, so a
  tree is never deeper than that. An I/O error on a directory that exists is left out (the walk would
  end with it, here the directory counts as empty).\<close>

fun read_tree :: "('f) fs_ops \<Rightarrow> 'f \<Rightarrow> nat \<Rightarrow> string \<Rightarrow> (string \<times> fs_node) list" where
  "read_tree F fs 0 dir = []"
| "read_tree F fs (Suc n) dir =
     (case fo_readDir F dir fs of
        Inl _ \<Rightarrow> []
      | Inr entries \<Rightarrow>
          map (\<lambda>i. (sf_name i,
                 if sf_isDir i then FDir (read_tree F fs n (path_join [dir, sf_name i]))
                 else FFile \<lparr>fi_size = sf_size i, fi_modTime = sf_modTime i\<rparr>)) entries)"

definition max_depth :: nat where "max_depth = 4096"

text \<open>What the listing sees of the root: the bucket alone.\<close>

definition bucket_tree ::
  "('f) fs_ops \<Rightarrow> string \<Rightarrow> ('f) storage \<Rightarrow> (string \<times> fs_node) list" where
  "bucket_tree F bucket sg =
     (case fo_stat F bucket (sg_fs sg) of
        Inl _ \<Rightarrow> []
      | Inr i \<Rightarrow>
          [(bucket, if sf_isDir i then FDir (read_tree F (sg_fs sg) max_depth bucket)
                    else FFile \<lparr>fi_size = sf_size i, fi_modTime = sf_modTime i\<rparr>)])"

text \<open>An error of \<open>Stat\<close> other than a missing bucket ends the listing.\<close>

definition listed ::
  "('f) fs_ops \<Rightarrow> string \<Rightarrow> ('f) s3_service \<Rightarrow> storage_error + internal_result \<Rightarrow> s3_error + internal_result" where
  "listed F bucket s result =
     (case BucketExists F bucket (sv_storage s) of
        Inl e \<Rightarrow> Inl (from_store e)
      | Inr _ \<Rightarrow> (case result of Inl e \<Rightarrow> Inl (S3Err e) | Inr r \<Rightarrow> Inr r))"

definition S3ListObjects ::
  "('f) fs_ops \<Rightarrow> crypt_env \<Rightarrow> string \<Rightarrow> string \<Rightarrow> string \<Rightarrow> string \<Rightarrow> int \<Rightarrow> ('f) s3_service
     \<Rightarrow> s3_error + internal_result" where
  "S3ListObjects F C bucket pre marker delimiter maxKeys s =
     listed F bucket s
       (ListObjects C (sv_meta s) (bucket_tree F bucket (sv_storage s)) bucket pre marker delimiter maxKeys)"

definition S3ListObjectsV2 ::
  "('f) fs_ops \<Rightarrow> crypt_env \<Rightarrow> string \<Rightarrow> string \<Rightarrow> string \<Rightarrow> string \<Rightarrow> string \<Rightarrow> int \<Rightarrow> bool \<Rightarrow> ('f) s3_service
     \<Rightarrow> s3_error + internal_result" where
  "S3ListObjectsV2 F C bucket pre continuationToken startAfter delimiter maxKeys fetchOwner s =
     listed F bucket s
       (ListObjectsV2 C (sv_meta s) (bucket_tree F bucket (sv_storage s)) bucket pre continuationToken
          startAfter delimiter maxKeys fetchOwner)"

section \<open>Start (server.go)\<close>

text \<open>At start-up the storage is swept and the stored policies are loaded into a new engine.\<close>
definition start_engine :: "meta_store \<Rightarrow> resolver option \<Rightarrow> engine" where
  "start_engine st rv =
     (let bucketPolicies = MetaGetAllBucketPolicies st
      in if bucketPolicies \<noteq> [] then EngineLoadBucketPolicies (NewEngine rv) bucketPolicies else NewEngine rv)"

definition start_service :: "('f) fs_ops \<Rightarrow> 'f \<Rightarrow> meta_store \<Rightarrow> resolver option \<Rightarrow> ('f) s3_service" where
  "start_service F fs st rv = \<lparr>sv_storage = NewStorage F fs st, sv_engine = Some (start_engine st rv)\<rparr>"

end
