(* ===== verification/Multipart.thy ===== *)
theory Multipart
  imports S3Service
begin

text \<open>
  \<^verbatim>\<open>internal/service/s3/multipart.go\<close>: uploads in parts. The state of an upload is a directory of the
  staging area of its bucket: \<^verbatim>\<open>upload.json\<close>, and for each part its data and a JSON file. The JSON
  encoding is a parameter with the law that decoding reads what encoding wrote.
\<close>

section \<open>Data\<close>

record multipart_metadata =
  mu_uploadID :: string
  mu_bucket :: string
  mu_key :: string
  mu_contentType :: string
  mu_customMetadata :: "(string \<times> string) list"
  mu_initiated :: time

record part_metadata =
  pm_partNumber :: int
  pm_etag :: string
  pm_size :: int
  pm_lastModified :: time

record complete_part =
  cp_partNumber :: int
  cp_etag :: string

record json_codec =
  jc_encUpload :: "multipart_metadata \<Rightarrow> string"
  jc_decUpload :: "string \<Rightarrow> multipart_metadata option"
  jc_encPart :: "part_metadata \<Rightarrow> string"
  jc_decPart :: "string \<Rightarrow> part_metadata option"

text \<open>What JSON can carry: text in UTF-8, times of four-digit years, maps with one value per key. The
  decoder gives a map back in no particular order.\<close>

definition json_time :: "time \<Rightarrow> bool" where
  "json_time t \<longleftrightarrow> 0 \<le> t \<and> t < 315000000000 * 10 ^ 9"

definition json_upload :: "multipart_metadata \<Rightarrow> bool" where
  "json_upload u \<longleftrightarrow>
     list_all valid_utf8 [mu_uploadID u, mu_bucket u, mu_key u, mu_contentType u] \<and>
     list_all (\<lambda>(k, v). valid_utf8 k \<and> valid_utf8 v) (mu_customMetadata u) \<and>
     wf_map (mu_customMetadata u) \<and> json_time (mu_initiated u)"

definition json_part :: "part_metadata \<Rightarrow> bool" where
  "json_part p \<longleftrightarrow> valid_utf8 (pm_etag p) \<and> json_time (pm_lastModified p)"

definition codec_laws :: "json_codec \<Rightarrow> bool" where
  "codec_laws J \<longleftrightarrow>
     (\<forall>u. json_upload u \<longrightarrow> (\<exists>cm. jc_decUpload J (jc_encUpload J u) = Some (u\<lparr>mu_customMetadata := cm\<rparr>) \<and>
        wf_map cm \<and> map_of cm = map_of (mu_customMetadata u))) \<and>
     (\<forall>p. json_part p \<longrightarrow> jc_decPart J (jc_encPart J p) = Some p)"

datatype multipart_error =
    MpNoBucket
  | MpNotFound
  | MpStore store_error
  | MpBody
  | MpBadUpload
  | MpPartNotFound int
  | MpBadPart int
  | MpEtagMismatch int string string
  | MpOpenPart int fs_error

section \<open>Files of an upload\<close>

definition upload_meta_path :: "string \<Rightarrow> string" where
  "upload_meta_path uploadID = path_join [uploadID, ''upload.json'']"

definition parts_dir :: "string \<Rightarrow> string" where
  "parts_dir uploadID = path_join [uploadID, ''parts'']"

definition part_path :: "string \<Rightarrow> int \<Rightarrow> string" where
  "part_path uploadID n = path_join [parts_dir uploadID, ''part-'' @ show_int n @ ''.data'']"

definition part_meta_path :: "string \<Rightarrow> int \<Rightarrow> string" where
  "part_meta_path uploadID n = path_join [parts_dir uploadID, ''part-'' @ show_int n @ ''.json'']"

text \<open>Creating, writing and closing a file; the error of \<open>Close\<close> is ignored.\<close>

definition write_file :: "('f) fs_ops \<Rightarrow> string \<Rightarrow> string \<Rightarrow> 'f \<Rightarrow> fs_error option \<times> 'f" where
  "write_file F p d fs =
     (case fo_create F p fs of
        (Some e, fs) \<Rightarrow> (Some e, fs)
      | (None, fs) \<Rightarrow>
          (case fo_write F p d fs of (err, fs) \<Rightarrow> (err, snd (fo_close F p fs))))"

text \<open>An operation in the staging area of a bucket, whose root it gets.\<close>

definition in_staging ::
  "('f) fs_ops \<Rightarrow> string \<Rightarrow> (string \<Rightarrow> ('f) storage \<Rightarrow> (multipart_error + 'a) \<times> ('f) storage)
     \<Rightarrow> ('f) storage \<Rightarrow> (multipart_error + 'a) \<times> ('f) storage" where
  "in_staging F bucket act s =
     (case GetUploadStagingFS F bucket s of
        (Inl e, s) \<Rightarrow> (Inl (MpStore e), s)
      | (Inr base, s) \<Rightarrow> act base s)"

section \<open>Operations\<close>

definition CreateMultipartUpload ::
  "('f) fs_ops \<Rightarrow> json_codec \<Rightarrow> time \<Rightarrow> string \<Rightarrow> string \<Rightarrow> string \<Rightarrow> string \<Rightarrow> (string \<times> string) list
     \<Rightarrow> ('f) storage \<Rightarrow> (multipart_error + string) \<times> ('f) storage" where
  "CreateMultipartUpload F J now uploadID bucket key contentType customMetadata s =
     (case GetBucketMetadata (sg_meta s) bucket of
        Inl _ \<Rightarrow> (Inl MpNoBucket, s)
      | Inr _ \<Rightarrow>
          in_staging F bucket (\<lambda>base s.
            case fo_mkdirAll F (scoped_join base uploadID) (sg_fs s) of
              (Some e, fs) \<Rightarrow> (Inl (MpStore (SFs e)), s\<lparr>sg_fs := fs\<rparr>)
            | (None, fs) \<Rightarrow>
                (case write_file F (scoped_join base (upload_meta_path uploadID))
                        (jc_encUpload J \<lparr>mu_uploadID = uploadID, mu_bucket = bucket, mu_key = key,
                           mu_contentType = contentType, mu_customMetadata = customMetadata,
                           mu_initiated = now\<rparr>) fs of
                   (Some e, fs) \<Rightarrow> (Inl (MpStore (SFs e)), s\<lparr>sg_fs := fs\<rparr>)
                 | (None, fs) \<Rightarrow> (Inr uploadID, s\<lparr>sg_fs := fs\<rparr>))) s)"

text \<open>The content comes with whether reading it ends in an error. The file of the part is closed before
  the error of the copy is looked at, and stays as far as it was written.\<close>

definition UploadPart ::
  "('f) fs_ops \<Rightarrow> (string \<Rightarrow> string) \<Rightarrow> json_codec \<Rightarrow> time \<Rightarrow> string \<Rightarrow> string \<Rightarrow> int \<Rightarrow> string \<times> bool
     \<Rightarrow> ('f) storage \<Rightarrow> (multipart_error + string) \<times> ('f) storage" where
  "UploadPart F md5 J now bucket uploadID partNumber content =
     in_staging F bucket (\<lambda>base s.
       case fo_stat F (scoped_join base (upload_meta_path uploadID)) (sg_fs s) of
         Inl _ \<Rightarrow> (Inl MpNotFound, s)
       | Inr _ \<Rightarrow>
       (case fo_mkdirAll F (scoped_join base (parts_dir uploadID)) (sg_fs s) of
          (Some e, fs) \<Rightarrow> (Inl (MpStore (SFs e)), s\<lparr>sg_fs := fs\<rparr>)
        | (None, fs) \<Rightarrow>
       (case write_file F (scoped_join base (part_path uploadID partNumber)) (fst content) fs of
          (Some e, fs) \<Rightarrow> (Inl (MpStore (SFs e)), s\<lparr>sg_fs := fs\<rparr>)
        | (None, fs) \<Rightarrow>
            if snd content then (Inl MpBody, s\<lparr>sg_fs := fs\<rparr>)
            else
              let etag = hex_encode (md5 (fst content))
              in case write_file F (scoped_join base (part_meta_path uploadID partNumber))
                        (jc_encPart J \<lparr>pm_partNumber = partNumber, pm_etag = etag,
                           pm_size = int (length (fst content)), pm_lastModified = now\<rparr>) fs of
                   (Some e, fs) \<Rightarrow> (Inl (MpStore (SFs e)), s\<lparr>sg_fs := fs\<rparr>)
                 | (None, fs) \<Rightarrow> (Inr etag, s\<lparr>sg_fs := fs\<rparr>))))"

text \<open>\<open>strings.Trim(s, "\"")\<close>.\<close>

definition trim_quotes :: "string \<Rightarrow> string" where
  "trim_quotes s = rev (dropWhile (\<lambda>c. c = CHR 0x22) (rev (dropWhile (\<lambda>c. c = CHR 0x22) s)))"

text \<open>The check of one part, and the loop that opens the parts one after the other.\<close>

definition check_part ::
  "('f) fs_ops \<Rightarrow> json_codec \<Rightarrow> string \<Rightarrow> string \<Rightarrow> 'f \<Rightarrow> complete_part \<Rightarrow> multipart_error option" where
  "check_part F J base uploadID fs part =
     (case fo_readFile F (scoped_join base (part_meta_path uploadID (cp_partNumber part))) fs of
        Inl _ \<Rightarrow> Some (MpPartNotFound (cp_partNumber part))
      | Inr text \<Rightarrow>
          (case jc_decPart J text of
             None \<Rightarrow> Some (MpBadPart (cp_partNumber part))
           | Some pm \<Rightarrow>
               if trim_quotes (pm_etag pm) \<noteq> trim_quotes (cp_etag part)
               then Some (MpEtagMismatch (cp_partNumber part) (trim_quotes (pm_etag pm))
                            (trim_quotes (cp_etag part)))
               else None))"

fun assemble ::
  "('f) fs_ops \<Rightarrow> string \<Rightarrow> string \<Rightarrow> 'f \<Rightarrow> complete_part list \<Rightarrow> multipart_error + string" where
  "assemble F base uploadID fs [] = Inr ''''"
| "assemble F base uploadID fs (part # parts) =
     (case fo_readFile F (scoped_join base (part_path uploadID (cp_partNumber part))) fs of
        Inl e \<Rightarrow> Inl (MpOpenPart (cp_partNumber part) e)
      | Inr d \<Rightarrow>
          (case assemble F base uploadID fs parts of Inl e \<Rightarrow> Inl e | Inr rest \<Rightarrow> Inr (d @ rest)))"

text \<open>\<open>sort.Slice\<close> orders by part number and leaves the order of equal numbers open, here that of the
  request: they name the same file, so the order decides only which of two wrong ETags is reported.\<close>

definition CompleteMultipartUpload ::
  "('f) fs_ops \<Rightarrow> (string \<Rightarrow> string) \<Rightarrow> json_codec \<Rightarrow> put_env \<Rightarrow> string \<Rightarrow> string \<Rightarrow> string
     \<Rightarrow> complete_part list \<Rightarrow> ('f) storage \<Rightarrow> (multipart_error + string) \<times> ('f) storage" where
  "CompleteMultipartUpload F md5 J env bucket key uploadID parts =
     in_staging F bucket (\<lambda>base s.
       case fo_readFile F (scoped_join base (upload_meta_path uploadID)) (sg_fs s) of
         Inl _ \<Rightarrow> (Inl MpNotFound, s)
       | Inr text \<Rightarrow>
       (case jc_decUpload J text of
          None \<Rightarrow> (Inl MpBadUpload, s)
        | Some upload \<Rightarrow>
            let parts = sort_key cp_partNumber parts
            in case first_err (\<lambda>_. check_part F J base uploadID (sg_fs s)) 0 parts of
                 Some e \<Rightarrow> (Inl e, s)
               | None \<Rightarrow>
                   (case assemble F base uploadID (sg_fs s) parts of
                      Inl e \<Rightarrow> (Inl e, s)
                    | Inr d \<Rightarrow>
                        (case PutObject F md5 env bucket key (d, False) (mu_contentType upload)
                                (mu_customMetadata upload) s of
                           (Inl e, s) \<Rightarrow> (Inl (MpStore e), s)
                         | (Inr etag, s) \<Rightarrow>
                             (Inr etag, snd (CleanupMultipartUpload F bucket uploadID s))))))"

definition AbortMultipartUpload ::
  "('f) fs_ops \<Rightarrow> string \<Rightarrow> string \<Rightarrow> ('f) storage \<Rightarrow> (multipart_error + unit) \<times> ('f) storage" where
  "AbortMultipartUpload F bucket uploadID =
     in_staging F bucket (\<lambda>base s.
       case fo_stat F (scoped_join base (upload_meta_path uploadID)) (sg_fs s) of
         Inl _ \<Rightarrow> (Inl MpNotFound, s)
       | Inr _ \<Rightarrow>
           (case CleanupMultipartUpload F bucket uploadID s of
              (Some e, s) \<Rightarrow> (Inl (MpStore e), s)
            | (None, s) \<Rightarrow> (Inr (), s)))"

text \<open>Files that cannot be read or decoded are skipped.\<close>

definition read_part ::
  "('f) fs_ops \<Rightarrow> json_codec \<Rightarrow> string \<Rightarrow> string \<Rightarrow> 'f \<Rightarrow> stat_info \<Rightarrow> part_metadata option" where
  "read_part F J base uploadID fs i =
     (if has_suffix (sf_name i) ''.json'' then
        (case fo_readFile F (scoped_join base (path_join [parts_dir uploadID, sf_name i])) fs of
           Inl _ \<Rightarrow> None
         | Inr text \<Rightarrow> jc_decPart J text)
      else None)"

definition ListParts ::
  "('f) fs_ops \<Rightarrow> json_codec \<Rightarrow> string \<Rightarrow> string \<Rightarrow> ('f) storage
     \<Rightarrow> (multipart_error + part_metadata list) \<times> ('f) storage" where
  "ListParts F J bucket uploadID =
     in_staging F bucket (\<lambda>base s.
       case fo_stat F (scoped_join base (upload_meta_path uploadID)) (sg_fs s) of
         Inl _ \<Rightarrow> (Inl MpNotFound, s)
       | Inr _ \<Rightarrow>
           (case fo_readDir F (scoped_join base (parts_dir uploadID)) (sg_fs s) of
              Inl e \<Rightarrow> (Inl (MpStore (SFs e)), s)
            | Inr files \<Rightarrow>
                (Inr (sort_key pm_partNumber
                   (List.map_filter (read_part F J base uploadID (sg_fs s)) files)), s)))"

end
