(* ===== verification/MultipartProps.thy ===== *)
theory MultipartProps
  imports Multipart MemoryFs PolicyProps
begin

text \<open>
  Multipart uploads over a file system that keeps its laws: the state of an upload in the files of its
  staging directory, what each operation changes, the object that a completed upload leaves, and what
  happens to parts that break off and to upload IDs that are paths.
\<close>

section \<open>Paths of an upload\<close>

lemma text_of_append: "es \<noteq> [] \<Longrightarrow> rs \<noteq> [] \<Longrightarrow> text_of (es @ rs) = text_of es @ ''/'' @ text_of rs"
  by (induction "''/''" es rule: str_join.induct) (simp_all add: join_prefix)

lemma fpath_normal: "fpath es \<Longrightarrow> normal_path (text_of es)"
  by (simp add: fpath_def normal_path_def split_plain_join list_all_iff)

lemma join_elems:
  assumes "fpath es" "fpath rs"
  shows "path_join [text_of es, text_of rs] = text_of (es @ rs)" "fpath (es @ rs)"
  using join_normal[OF fpath_normal[OF assms(1)] fpath_normal[OF assms(2)]] assms text_of_append[of es rs]
  by (simp_all add: fpath_def)

fun dec_val :: "nat \<Rightarrow> string \<Rightarrow> nat" where
  "dec_val m [] = m"
| "dec_val m (c # cs) = dec_val (10 * m + (of_char c - 48)) cs"

lemma dec_val_append: "dec_val m (xs @ ys) = dec_val (dec_val m xs) ys"
  by (induction m xs rule: dec_val.induct) simp_all

lemma digit_char_code: "d < 10 \<Longrightarrow> of_char (digit_char d) = (48 + d :: nat)"
  by (simp add: digit_char_def)

lemma show_nat_val: "dec_val 0 (show_nat n) = n \<and> (\<forall>c\<in>set (show_nat n). 48 \<le> (of_char c :: nat) \<and> of_char c < (58 :: nat))"
proof (induction n rule: show_nat.induct)
  case (1 n)
  show ?case
  proof (cases "n < 10")
    case True
    then show ?thesis by (subst (1 2) show_nat.simps) (simp add: digit_char_code)
  next
    case False
    with 1[OF False] show ?thesis by (subst (1 2) show_nat.simps) (auto simp: dec_val_append digit_char_code)
  qed
qed

lemma show_nat_chars: "c \<in> set (show_nat n) \<Longrightarrow> c \<noteq> CHR ''-'' \<and> c \<noteq> CHR ''/'' \<and> c \<noteq> CHR ''.''"
  using show_nat_val[of n] by fastforce

lemma show_nat_inj: "show_nat n = show_nat m \<Longrightarrow> n = m"
  using show_nat_val[of n] show_nat_val[of m] by metis

lemma show_int_inj: "show_int n = show_int m \<Longrightarrow> n = m"
proof -
  have no: "show_nat a \<noteq> ''-'' @ x" for a x using show_nat_chars[of "CHR ''-''" a] by auto
  assume "show_int n = show_int m"
  then show "n = m" using no[symmetric] no show_nat_inj
    by (fastforce simp: show_int_def split: if_splits)
qed

lemma show_int_chars: "c \<in> set (show_int n) \<Longrightarrow> c \<noteq> CHR ''/''"
  using show_nat_chars by (auto simp: show_int_def split: if_splits)

definition upload_dir :: "string \<Rightarrow> string \<Rightarrow> string list" where
  "upload_dir b up = [DirIOUploadsDir, b, up]"

definition upload_file :: "string \<Rightarrow> string \<Rightarrow> string list" where
  "upload_file b up = upload_dir b up @ [''upload.json'']"

definition data_file :: "string \<Rightarrow> string \<Rightarrow> int \<Rightarrow> string list" where
  "data_file b up n = upload_dir b up @ [''parts'', ''part-'' @ show_int n @ ''.data'']"

definition info_file :: "string \<Rightarrow> string \<Rightarrow> int \<Rightarrow> string list" where
  "info_file b up n = upload_dir b up @ [''parts'', ''part-'' @ show_int n @ ''.json'']"

lemmas upload_files = upload_dir_def upload_file_def data_file_def info_file_def

lemma upload_files_distinct:
  "upload_file b up \<noteq> data_file b up n" "upload_file b up \<noteq> info_file b up n"
  "data_file b up n \<noteq> upload_file b up" "info_file b up n \<noteq> upload_file b up"
  "data_file b up n \<noteq> info_file b up m" "info_file b up m \<noteq> data_file b up n"
  "data_file b up n = data_file b up m \<longleftrightarrow> n = m" "info_file b up n = info_file b up m \<longleftrightarrow> n = m"
proof -
  have "xs @ ''.data'' \<noteq> ys @ ''.json''" for xs ys by (auto dest: arg_cong[of _ _ last])
  then show "data_file b up n \<noteq> info_file b up m" "info_file b up m \<noteq> data_file b up n"
    by (auto simp: upload_files)
qed (auto simp: upload_files show_int_inj)

lemma plain_names:
  "plain_elem DirIOUploadsDir" "plain_elem ''upload.json''" "plain_elem ''parts''"
  "plain_elem (''part-'' @ show_int n @ ''.data'')" "plain_elem (''part-'' @ show_int n @ ''.json'')"
  using show_int_chars by (auto simp: plain_elem_def DirIOUploadsDir_def)

lemma bucket_plain: "isValidBucketName b \<Longrightarrow> plain_elem b"
  using valid_bucket_normal(1,2)[of b] by (simp add: normal_path_def)

lemma upload_paths:
  assumes "isValidBucketName b" "plain_elem up"
  shows "fpath (upload_dir b up)" "fpath (upload_file b up)" "fpath (data_file b up n)" "fpath (info_file b up n)"
    "fpath (upload_dir b up @ [''parts''])"
    "scoped_join (text_of [DirIOUploadsDir, b]) up = text_of (upload_dir b up)"
    "scoped_join (text_of [DirIOUploadsDir, b]) (upload_meta_path up) = text_of (upload_file b up)"
    "scoped_join (text_of [DirIOUploadsDir, b]) (parts_dir up) = text_of (upload_dir b up @ [''parts''])"
    "scoped_join (text_of [DirIOUploadsDir, b]) (part_path up n) = text_of (data_file b up n)"
    "scoped_join (text_of [DirIOUploadsDir, b]) (part_meta_path up n) = text_of (info_file b up n)"
proof -
  note b = bucket_plain[OF assms(1)]
  show "fpath (upload_dir b up)" "fpath (upload_file b up)" "fpath (data_file b up n)" "fpath (info_file b up n)"
    "fpath (upload_dir b up @ [''parts''])"
    using b assms(2) plain_names by (simp_all add: fpath_def upload_files)
  have base: "fpath [DirIOUploadsDir, b]" using b plain_names(1) by (simp add: fpath_def)
  have below: "scoped_join (text_of [DirIOUploadsDir, b]) (text_of rs) = text_of ([DirIOUploadsDir, b] @ rs)"
    if "fpath rs" for rs
    unfolding scoped_join_def by (rule join_elems(1)[OF base that])
  have up: "fpath [up]" using assms(2) by (simp add: fpath_def)
  have one: "path_join [up, w] = text_of [up, w] \<and> fpath [up, w]" if "plain_elem w" for w
    using join_elems[OF up, of "[w]"] that by (simp add: fpath_def)
  have two: "path_join [text_of [up, ''parts''], w] = text_of [up, ''parts'', w] \<and> fpath [up, ''parts'', w]"
    if "plain_elem w" for w
    using join_elems[of "[up, ''parts'']" "[w]"] one[OF plain_names(3)] that by (simp add: fpath_def)
  show "scoped_join (text_of [DirIOUploadsDir, b]) up = text_of (upload_dir b up)"
    using below[OF up] by (simp add: upload_files)
  show "scoped_join (text_of [DirIOUploadsDir, b]) (upload_meta_path up) = text_of (upload_file b up)"
    using one[OF plain_names(2)] below[of "[up, ''upload.json'']"] by (simp add: upload_meta_path_def upload_files)
  show "scoped_join (text_of [DirIOUploadsDir, b]) (parts_dir up) = text_of (upload_dir b up @ [''parts''])"
    using one[OF plain_names(3)] below[of "[up, ''parts'']"] by (simp add: parts_dir_def upload_files)
  show "scoped_join (text_of [DirIOUploadsDir, b]) (part_path up n) = text_of (data_file b up n)"
    using one[OF plain_names(3)] two[OF plain_names(4)[of n]]
      below[of "[up, ''parts'', ''part-'' @ show_int n @ ''.data'']"]
    by (simp add: part_path_def parts_dir_def upload_files)
  show "scoped_join (text_of [DirIOUploadsDir, b]) (part_meta_path up n) = text_of (info_file b up n)"
    using one[OF plain_names(3)] two[OF plain_names(5)[of n]]
      below[of "[up, ''parts'', ''part-'' @ show_int n @ ''.json'']"]
    by (simp add: part_meta_path_def parts_dir_def upload_files)
qed

section \<open>What the operations change\<close>

text \<open>Outside \<open>ex\<close> only directories appear.\<close>

definition only_dirs :: "('f) fs_view \<Rightarrow> string list set \<Rightarrow> 'f \<Rightarrow> 'f \<Rightarrow> bool" where
  "only_dirs V ex f f' \<longleftrightarrow> (\<forall>q. q \<notin> ex \<longrightarrow> V f' q = V f q \<or> V f q = None \<and> V f' q = Some Folder)"

lemma only_dirs_refl [simp]: "only_dirs V ex f f"
  by (simp add: only_dirs_def)

lemma only_dirs_trans: "only_dirs V ex f f' \<Longrightarrow> only_dirs V ex f' f'' \<Longrightarrow> only_dirs V ex f f''"
  unfolding only_dirs_def by (metis option.distinct(1))

lemma only_dirs_mono: "only_dirs V ex f f' \<Longrightarrow> ex \<subseteq> ex' \<Longrightarrow> only_dirs V ex' f f'"
  unfolding only_dirs_def by blast

lemma only_dirs_file: "only_dirs V ex f f' \<Longrightarrow> q \<notin> ex \<Longrightarrow> file_at V f' q = file_at V f q"
  unfolding only_dirs_def file_at_def by (elim allE impE) auto

lemma only_dirs_kept:
  "only_dirs V ex f f' \<Longrightarrow> (\<And>q. q \<in> ex \<Longrightarrow> q = [] \<or> hd q = DirIOUploadsDir) \<Longrightarrow> kept V es f f'"
  unfolding kept_def using only_dirs_file[of V ex f f'] unfolding only_dirs_def by (metis option.distinct(1))

lemma only_dirs_same: "(\<And>q. q \<notin> ex \<Longrightarrow> same_but_dirs V es f f' q) \<Longrightarrow> only_dirs V ex f f'"
  unfolding only_dirs_def same_but_dirs_def by blast

lemma staging_spec:
  assumes "fs_laws F V" "isValidBucketName b" "GetUploadStagingFS F b s = (r, s')"
  shows "sg_meta s' = sg_meta s" "only_dirs V {} (sg_fs s) (sg_fs s')"
    "case r of Inl e \<Rightarrow> True | Inr base \<Rightarrow> base = text_of [DirIOUploadsDir, b]"
proof -
  note u = uploads_path[OF assms(2) plain_names(2)]
  obtain e1 f1 where m: "fo_mkdirAll F (text_of [DirIOUploadsDir, b]) (sg_fs s) = (e1, f1)" by fastforce
  have r: "(r, s') = (case e1 of Some e \<Rightarrow> (Inl (SFs e), s\<lparr>sg_fs := f1\<rparr>)
      | None \<Rightarrow> (Inr (text_of [DirIOUploadsDir, b]), s\<lparr>sg_fs := f1\<rparr>))"
    unfolding assms(3)[symmetric] GetUploadStagingFS_def open_scoped_def u(1) sum.case m
    by (cases e1) simp_all
  have "only_dirs V {} (sg_fs s) f1"
    by (rule only_dirs_same) (rule mkdirAll_law(1)[OF assms(1) u(2) m])
  with r show "sg_meta s' = sg_meta s" "only_dirs V {} (sg_fs s) (sg_fs s')"
    "case r of Inl e \<Rightarrow> True | Inr base \<Rightarrow> base = text_of [DirIOUploadsDir, b]"
    by (auto split: option.splits)
qed

lemma write_file_spec:
  assumes "fs_laws F V" "fpath es" "write_file F (text_of es) d f = (err, f')"
  shows "only_dirs V {es} f f'" "err = None \<Longrightarrow> \<exists>t. file_at V f' es = Some (d, t)"
proof -
  obtain e1 f1 where c: "fo_create F (text_of es) f = (e1, f1)" by fastforce
  obtain e2 f2 where w: "fo_write F (text_of es) d f1 = (e2, f2)" by fastforce
  obtain e3 f3 where k: "fo_close F (text_of es) f2 = (e3, f3)" by fastforce
  note cl = create_law[OF assms(1,2) c]
  have d1: "only_dirs V {es} f f1" by (rule only_dirs_same) (use cl(1) in simp)
  have "only_dirs V {es} f f' \<and> (err = None \<longrightarrow> (\<exists>t. file_at V f' es = Some (d, t)))"
  proof (cases e1)
    case (Some e)
    with assms(3) c d1 show ?thesis by (auto simp: write_file_def)
  next
    case None
    with assms(3) c w k have r: "err = e2" "f' = f3" by (simp_all add: write_file_def)
    obtain t where t: "V f1 es = Some (File '''' t)" using cl(2)[OF None] by blast
    note wl = write_law[OF assms(1,2) t w]
    have v: "V f' = V f2" using close_law[OF assms(1,2) k] r by simp
    have "only_dirs V {es} f1 f'" using wl(1) v by (simp add: only_dirs_def)
    moreover have "err = None \<Longrightarrow> \<exists>t. file_at V f' es = Some (d, t)"
      using wl(2) v r by (auto simp: file_at_def)
    ultimately show ?thesis using only_dirs_trans[OF d1] by blast
  qed
  then show "only_dirs V {es} f f'" "err = None \<Longrightarrow> \<exists>t. file_at V f' es = Some (d, t)" by blast+
qed

definition part_record :: "(string \<Rightarrow> string) \<Rightarrow> time \<Rightarrow> int \<Rightarrow> string \<Rightarrow> part_metadata" where
  "part_record md5 now n d =
     \<lparr>pm_partNumber = n, pm_etag = hex_encode (md5 d), pm_size = int (length d), pm_lastModified = now\<rparr>"

text \<open>An operation in the staging area, once its root has been opened.\<close>

lemma in_staging_cases:
  assumes "fs_laws F V" "isValidBucketName b" "in_staging F b act s = (r, s')"
  obtains (failed) e where "r = Inl (MpStore e)" "sg_meta s' = sg_meta s" "only_dirs V {} (sg_fs s) (sg_fs s')"
  | (opened) s0 where "sg_meta s0 = sg_meta s" "only_dirs V {} (sg_fs s) (sg_fs s0)"
      "act (text_of [DirIOUploadsDir, b]) s0 = (r, s')"
proof -
  obtain r0 s0 where g: "GetUploadStagingFS F b s = (r0, s0)" by fastforce
  note st = staging_spec[OF assms(1,2) g]
  show thesis
  proof (cases r0)
    case (Inl e)
    with assms(3) g st(1,2) show thesis by (intro failed) (auto simp: in_staging_def)
  next
    case (Inr base)
    with assms(3) g st show thesis by (intro opened) (auto simp: in_staging_def)
  qed
qed

lemma CreateMultipartUpload_spec:
  fixes F :: "('f) fs_ops"
  assumes laws: "fs_laws F V" "isValidBucketName b" and up: "plain_elem up"
    and c: "CreateMultipartUpload F J now up b k ct cm s = (r, s')"
  shows "sg_meta s' = sg_meta s \<and> only_dirs V {upload_file b up} (sg_fs s) (sg_fs s') \<and>
    (\<forall>id. r = Inr id \<longrightarrow> id = up \<and> (\<exists>t. file_at V (sg_fs s') (upload_file b up) =
       Some (jc_encUpload J \<lparr>mu_uploadID = up, mu_bucket = b, mu_key = k, mu_contentType = ct,
         mu_customMetadata = cm, mu_initiated = now\<rparr>, t)))"
proof (cases "GetBucketMetadata (sg_meta s) b")
  case (Inl e)
  with c show ?thesis by (auto simp: CreateMultipartUpload_def)
next
  case (Inr bm)
  note p = upload_paths[OF laws(2) up]
  let ?u = "jc_encUpload J \<lparr>mu_uploadID = up, mu_bucket = b, mu_key = k, mu_contentType = ct,
         mu_customMetadata = cm, mu_initiated = now\<rparr>"
  from c[unfolded CreateMultipartUpload_def Inr sum.case] show ?thesis
  proof (elim in_staging_cases[OF laws])
    fix s0 :: "('f) storage"
    assume s0: "sg_meta s0 = sg_meta s" "only_dirs V {} (sg_fs s) (sg_fs s0)"
    obtain e1 f1 where m: "fo_mkdirAll F (text_of (upload_dir b up)) (sg_fs s0) = (e1, f1)" by fastforce
    obtain e2 f2 where w: "write_file F (text_of (upload_file b up)) ?u f1 = (e2, f2)" by fastforce
    have "only_dirs V {} (sg_fs s0) f1"
      by (rule only_dirs_same) (rule mkdirAll_law(1)[OF laws(1) p(1) m])
    from only_dirs_trans[OF s0(2) this] have d: "only_dirs V {upload_file b up} (sg_fs s) f1"
      by (rule only_dirs_mono) simp
    note ws = write_file_spec[OF laws(1) p(2) w]
    assume "(case fo_mkdirAll F (scoped_join (text_of [DirIOUploadsDir, b]) up) (sg_fs s0) of
        (Some e, fs) \<Rightarrow> (Inl (MpStore (SFs e)), s0\<lparr>sg_fs := fs\<rparr>)
      | (None, fs) \<Rightarrow>
          (case write_file F (scoped_join (text_of [DirIOUploadsDir, b]) (upload_meta_path up)) ?u fs of
             (Some e, fs) \<Rightarrow> (Inl (MpStore (SFs e)), s0\<lparr>sg_fs := fs\<rparr>)
           | (None, fs) \<Rightarrow> (Inr up, s0\<lparr>sg_fs := fs\<rparr>))) = (r, s')"
    then show ?thesis unfolding p(6,7) m
      using w s0(1) d only_dirs_trans[OF d ws(1)] ws(2) by (auto split: option.splits)
  qed (auto intro: only_dirs_mono)
qed

lemma UploadPart_spec:
  fixes F :: "('f) fs_ops"
  assumes laws: "fs_laws F V" "isValidBucketName b" and up: "plain_elem up"
    and u: "UploadPart F md5 J now b up n body s = (r, s')"
  shows "sg_meta s' = sg_meta s \<and>
    only_dirs V {data_file b up n, info_file b up n} (sg_fs s) (sg_fs s') \<and>
    (\<forall>etag. r = Inr etag \<longrightarrow> etag = hex_encode (md5 (fst body)) \<and> \<not> snd body \<and>
       (\<exists>t. file_at V (sg_fs s') (data_file b up n) = Some (fst body, t)) \<and>
       (\<exists>t. file_at V (sg_fs s') (info_file b up n) = Some (jc_encPart J (part_record md5 now n (fst body)), t))) \<and>
    (r = Inl MpBody \<longrightarrow> (\<exists>t. file_at V (sg_fs s') (data_file b up n) = Some (fst body, t)) \<and>
       file_at V (sg_fs s') (info_file b up n) = file_at V (sg_fs s) (info_file b up n))"
  using u unfolding UploadPart_def
proof (elim in_staging_cases[OF laws])
  let ?base = "text_of [DirIOUploadsDir, b]" and ?ex = "{data_file b up n, info_file b up n}"
  note p = upload_paths[OF laws(2) up]
  fix s0 :: "('f) storage"
  assume s0: "sg_meta s0 = sg_meta s" "only_dirs V {} (sg_fs s) (sg_fs s0)"
  have d0: "only_dirs V ?ex (sg_fs s) (sg_fs s0)" using s0(2) by (rule only_dirs_mono) simp
  obtain e1 f1 where m: "fo_mkdirAll F (text_of (upload_dir b up @ [''parts''])) (sg_fs s0) = (e1, f1)" by fastforce
  obtain e2 f2 where w: "write_file F (text_of (data_file b up n)) (fst body) f1 = (e2, f2)" by fastforce
  obtain e3 f3 where i: "write_file F (text_of (info_file b up n)) (jc_encPart J (part_record md5 now n (fst body))) f2 = (e3, f3)"
    by fastforce
  have d1: "only_dirs V ?ex (sg_fs s) f1"
    by (rule only_dirs_trans[OF d0], rule only_dirs_same) (rule mkdirAll_law(1)[OF laws(1) p(5) m])
  note ws = write_file_spec[OF laws(1) p(3) w] and ins = write_file_spec[OF laws(1) p(4) i]
  have d2: "only_dirs V ?ex (sg_fs s) f2" by (rule only_dirs_trans[OF d1], rule only_dirs_mono[OF ws(1)]) simp
  have d3: "only_dirs V ?ex (sg_fs s) f3" by (rule only_dirs_trans[OF d2], rule only_dirs_mono[OF ins(1)]) simp
  have same: "file_at V f3 (data_file b up n) = file_at V f2 (data_file b up n)"
    using only_dirs_file[OF ins(1)] upload_files_distinct(5) by simp
  have d2': "only_dirs V {data_file b up n} (sg_fs s) f2"
    by (rule only_dirs_trans[OF _ ws(1)], rule only_dirs_trans, rule only_dirs_mono[OF s0(2)], simp, rule only_dirs_same)
      (rule mkdirAll_law(1)[OF laws(1) p(5) m])
  have kept_info: "file_at V f2 (info_file b up n) = file_at V (sg_fs s) (info_file b up n)"
    using only_dirs_file[OF d2'] upload_files_distinct(6) by simp
  assume a: "(case fo_stat F (scoped_join ?base (upload_meta_path up)) (sg_fs s0) of
         Inl _ \<Rightarrow> (Inl MpNotFound, s0)
       | Inr _ \<Rightarrow>
       (case fo_mkdirAll F (scoped_join ?base (parts_dir up)) (sg_fs s0) of
          (Some e, fs) \<Rightarrow> (Inl (MpStore (SFs e)), s0\<lparr>sg_fs := fs\<rparr>)
        | (None, fs) \<Rightarrow>
       (case write_file F (scoped_join ?base (part_path up n)) (fst body) fs of
          (Some e, fs) \<Rightarrow> (Inl (MpStore (SFs e)), s0\<lparr>sg_fs := fs\<rparr>)
        | (None, fs) \<Rightarrow>
            if snd body then (Inl MpBody, s0\<lparr>sg_fs := fs\<rparr>)
            else
              let etag = hex_encode (md5 (fst body))
              in case write_file F (scoped_join ?base (part_meta_path up n))
                        (jc_encPart J \<lparr>pm_partNumber = n, pm_etag = etag,
                           pm_size = int (length (fst body)), pm_lastModified = now\<rparr>) fs of
                   (Some e, fs) \<Rightarrow> (Inl (MpStore (SFs e)), s0\<lparr>sg_fs := fs\<rparr>)
                 | (None, fs) \<Rightarrow> (Inr etag, s0\<lparr>sg_fs := fs\<rparr>)))) = (r, s')"
  have "(r, s') = (case fo_stat F (text_of (upload_file b up)) (sg_fs s0) of Inl _ \<Rightarrow> (Inl MpNotFound, s0)
     | Inr _ \<Rightarrow> (case e1 of Some e \<Rightarrow> (Inl (MpStore (SFs e)), s0\<lparr>sg_fs := f1\<rparr>)
     | None \<Rightarrow> (case e2 of Some e \<Rightarrow> (Inl (MpStore (SFs e)), s0\<lparr>sg_fs := f2\<rparr>)
     | None \<Rightarrow> if snd body then (Inl MpBody, s0\<lparr>sg_fs := f2\<rparr>)
         else (case e3 of Some e \<Rightarrow> (Inl (MpStore (SFs e)), s0\<lparr>sg_fs := f3\<rparr>)
            | None \<Rightarrow> (Inr (hex_encode (md5 (fst body))), s0\<lparr>sg_fs := f3\<rparr>)))))"
    using m w i[unfolded part_record_def] unfolding a[symmetric] p(7-10) Let_def
    by (auto split: sum.split option.split)
  then show ?thesis using s0(1) d0 d1 d2 d3 ws(2) ins(2) same kept_info by (auto split: sum.splits option.splits if_splits)
qed (auto intro: only_dirs_mono)

lemma UploadPart_body_error:
  fixes F :: "('f) fs_ops"
  assumes "fs_laws F V" "isValidBucketName b" "plain_elem up"
    and "UploadPart F md5 J now b up n body s = (Inl MpBody, s')"
  shows "(\<exists>t. file_at V (sg_fs s') (data_file b up n) = Some (fst body, t)) \<and>
       file_at V (sg_fs s') (info_file b up n) = file_at V (sg_fs s) (info_file b up n)"
  using UploadPart_spec[OF assms] by blast

section \<open>The state of an upload\<close>

definition holds_part ::
  "('f) fs_view \<Rightarrow> json_codec \<Rightarrow> string \<Rightarrow> string \<Rightarrow> 'f \<Rightarrow> int \<Rightarrow> string \<Rightarrow> string \<Rightarrow> bool" where
  "holds_part V J b up f n d etag \<longleftrightarrow>
     (\<exists>t. file_at V f (data_file b up n) = Some (d, t)) \<and>
     (\<exists>c t pm. file_at V f (info_file b up n) = Some (c, t) \<and> jc_decPart J c = Some pm \<and> pm_etag pm = etag)"

text \<open>The files of an upload hold its description and its parts, each with its data and an ETag.\<close>

definition upload_state ::
  "('f) fs_view \<Rightarrow> json_codec \<Rightarrow> string \<Rightarrow> string \<Rightarrow> multipart_metadata
     \<Rightarrow> (int \<rightharpoonup> string \<times> string) \<Rightarrow> 'f \<Rightarrow> bool" where
  "upload_state V J b up u Q f \<longleftrightarrow>
     (\<exists>c t. file_at V f (upload_file b up) = Some (c, t) \<and> jc_decUpload J c = Some u) \<and>
     (\<forall>n d etag. Q n = Some (d, etag) \<longrightarrow> holds_part V J b up f n d etag)"

definition with_etags :: "(string \<Rightarrow> string) \<Rightarrow> (int \<rightharpoonup> string) \<Rightarrow> (int \<rightharpoonup> string \<times> string)" where
  "with_etags md5 P n = map_option (\<lambda>d. (d, hex_encode (md5 d))) (P n)"

text \<open>Uploads of parts, in any order and repeated, interleaved with whatever leaves the directory of
  the upload alone. The map holds the parts whose last upload succeeded.\<close>

inductive part_uploads ::
  "('f) fs_ops \<Rightarrow> (string \<Rightarrow> string) \<Rightarrow> json_codec \<Rightarrow> ('f) fs_view \<Rightarrow> string \<Rightarrow> string
     \<Rightarrow> ('f) storage \<Rightarrow> (int \<rightharpoonup> string) \<Rightarrow> ('f) storage \<Rightarrow> bool"
  for F md5 J V b up s where
  part_none: "part_uploads F md5 J V b up s Map.empty s"
| part_sent: "part_uploads F md5 J V b up s P s1 \<Longrightarrow> json_time now \<Longrightarrow>
    UploadPart F md5 J now b up n (d, failed) s1 = (r, s2) \<Longrightarrow>
    part_uploads F md5 J V b up s (P(n := (case r of Inr _ \<Rightarrow> Some d | Inl _ \<Rightarrow> None))) s2"
| part_other: "part_uploads F md5 J V b up s P s1 \<Longrightarrow>
    \<forall>q. prefix (upload_dir b up) q \<longrightarrow> file_at V (sg_fs s2) q = file_at V (sg_fs s1) q \<Longrightarrow>
    part_uploads F md5 J V b up s P s2"

lemma hex_digits: "c \<in> set (hex_encode s) \<Longrightarrow> of_char c < (128 :: nat) \<and> c \<noteq> CHR 0x22"
proof -
  have d: "of_char (hex_digit n) < (128 :: nat) \<and> hex_digit n \<noteq> CHR 0x22" if "n < 16" for n
  proof -
    have "of_char (hex_digit n) = (if n < 10 then 48 + n else 87 + n)"
      using that by (simp add: hex_digit_def)
    with that show ?thesis by (auto split: if_splits)
  qed
  assume "c \<in> set (hex_encode s)"
  then obtain b where b: "b \<in> set (bytes s)" "c = hex_digit (b div 16) \<or> c = hex_digit (b mod 16)"
    by (auto simp: hex_encode_def)
  then have "b < 256" by (auto simp: bytes_def)
  then have "b div 16 < 16" by (simp add: less_mult_imp_div_less)
  with b(2) d[of "b div 16"] d[of "b mod 16"] show ?thesis by auto
qed

lemma valid_utf8_low: "\<forall>c\<in>set s. of_char c < (128 :: nat) \<Longrightarrow> valid_utf8 s"
  unfolding valid_utf8_def bytes_def
  by (induction s) (simp_all add: valid_low del: valid_utf8_bytes.simps(2))

lemma hex_utf8: "valid_utf8 (hex_encode s)"
  using hex_digits by (intro valid_utf8_low) blast

lemma trim_hex: "trim_quotes (hex_encode s) = hex_encode s"
proof -
  have "dropWhile (\<lambda>c. c = CHR 0x22) xs = xs" if "set xs \<subseteq> set (hex_encode s)" for xs
    using that hex_digits[of _ s] by (cases xs) auto
  from this[of "hex_encode s"] this[of "rev (hex_encode s)"] show ?thesis by (simp add: trim_quotes_def)
qed

lemma upload_state_kept:
  assumes "upload_state V J b up u Q f"
    and "\<And>q. prefix (upload_dir b up) q \<Longrightarrow> file_at V f' q = file_at V f q"
  shows "upload_state V J b up u Q f'"
  using assms(1) unfolding upload_state_def holds_part_def
  by (simp add: assms(2) upload_file_def data_file_def info_file_def)

text \<open>After an upload of part \<open>n\<close> the state holds what its files hold, the other parts as before.\<close>

lemma upload_state_update:
  assumes "upload_state V J b up u Q f"
    and "\<And>q. q \<notin> {data_file b up n, info_file b up n} \<Longrightarrow> file_at V f' q = file_at V f q"
    and "\<And>d etag. x = Some (d, etag) \<Longrightarrow> holds_part V J b up f' n d etag"
  shows "upload_state V J b up u (Q(n := x)) f'"
proof -
  have "holds_part V J b up f' m d etag" if "m \<noteq> n" "Q m = Some (d, etag)" for m d etag
    using assms(1) that by (simp add: upload_state_def holds_part_def assms(2) upload_files_distinct)
  moreover have "\<exists>c t. file_at V f' (upload_file b up) = Some (c, t) \<and> jc_decUpload J c = Some u"
    using assms(1) by (simp add: upload_state_def assms(2) upload_files_distinct)
  ultimately show ?thesis using assms(3) unfolding upload_state_def by simp
qed

lemma upload_state_part:
  fixes F :: "('f) fs_ops"
  assumes laws: "fs_laws F V" "isValidBucketName b" "plain_elem up" "codec_laws J"
    and st: "upload_state V J b up u (with_etags md5 P) (sg_fs s)" and now: "json_time now"
    and part: "UploadPart F md5 J now b up n (d, failed) s = (r, s')"
  shows "upload_state V J b up u (with_etags md5 (P(n := (case r of Inr _ \<Rightarrow> Some d | Inl _ \<Rightarrow> None)))) (sg_fs s')"
proof -
  note sp = UploadPart_spec[OF laws(1-3) part]
  have same: "file_at V (sg_fs s') q = file_at V (sg_fs s) q" if "q \<notin> {data_file b up n, info_file b up n}" for q
    by (rule only_dirs_file[OF _ that]) (use sp in blast)
  have new: "holds_part V J b up (sg_fs s') n d (hex_encode (md5 d))" if "r = Inr etag" for etag
  proof -
    have "json_part (part_record md5 now n d)" using now hex_utf8 by (simp add: json_part_def part_record_def)
    then have "jc_decPart J (jc_encPart J (part_record md5 now n d)) = Some (part_record md5 now n d)"
      using laws(4) by (simp add: codec_laws_def)
    moreover have "pm_etag (part_record md5 now n d) = hex_encode (md5 d)" by (simp add: part_record_def)
    ultimately show ?thesis using sp that unfolding holds_part_def fst_conv by blast
  qed
  have "upload_state V J b up u ((with_etags md5 P)(n := (case r of Inr _ \<Rightarrow> Some (d, hex_encode (md5 d)) | Inl _ \<Rightarrow> None)))
      (sg_fs s')"
    by (rule upload_state_update[OF st same]) (use new in \<open>auto split: sum.splits\<close>)
  also have "(with_etags md5 P)(n := (case r of Inr _ \<Rightarrow> Some (d, hex_encode (md5 d)) | Inl _ \<Rightarrow> None)) =
      with_etags md5 (P(n := (case r of Inr _ \<Rightarrow> Some d | Inl _ \<Rightarrow> None)))"
    by (auto simp: with_etags_def fun_eq_iff split: sum.split)
  finally show ?thesis .
qed

text \<open>A body that fails in the middle: its data have replaced the old ones, the ETag has not changed.\<close>

lemma upload_state_failed:
  fixes F :: "('f) fs_ops"
  assumes laws: "fs_laws F V" "isValidBucketName b" "plain_elem up"
    and st: "upload_state V J b up u Q (sg_fs s)" and old: "Q n = Some (d, etag)"
    and part: "UploadPart F md5 J now b up n (d', True) s = (Inl MpBody, s')"
  shows "upload_state V J b up u (Q(n \<mapsto> (d', etag))) (sg_fs s')"
proof -
  have "file_at V (sg_fs s') (info_file b up n) = file_at V (sg_fs s) (info_file b up n) \<and>
      (\<exists>t. file_at V (sg_fs s') (data_file b up n) = Some (d', t))"
    using UploadPart_body_error[OF laws part] by simp
  then have "holds_part V J b up (sg_fs s') n d' etag"
    using st old unfolding upload_state_def holds_part_def by simp
  moreover have "file_at V (sg_fs s') q = file_at V (sg_fs s) q" if "q \<notin> {data_file b up n, info_file b up n}" for q
    by (rule only_dirs_file[OF _ that]) (use UploadPart_spec[OF laws part] in blast)
  ultimately show ?thesis by (intro upload_state_update[OF st]) simp_all
qed

lemma part_uploads_state:
  assumes "part_uploads F md5 J V b up s P s'"
    and "fs_laws F V" "isValidBucketName b" "plain_elem up" "codec_laws J"
    and "upload_state V J b up u Map.empty (sg_fs s)"
  shows "upload_state V J b up u (with_etags md5 P) (sg_fs s')"
  using assms(1)
proof induction
  case part_none
  have "with_etags md5 Map.empty = Map.empty" by (simp add: with_etags_def fun_eq_iff)
  with assms(6) show ?case by simp
next
  case (part_sent P s1 now n d failed r s2)
  from upload_state_part[OF assms(2-5) part_sent.IH part_sent.hyps(2,3)] show ?case .
next
  case (part_other P s1 s2)
  from part_other.IH show ?case by (rule upload_state_kept) (use part_other.hyps in blast)
qed

section \<open>Completing an upload\<close>

lemma first_err_Some_mem: "first_err (\<lambda>_. g) i xs = Some e \<Longrightarrow> \<exists>x\<in>set xs. g x = Some e"
  by (induction xs arbitrary: i) (auto split: option.splits)

lemma part_files:
  assumes "fs_laws F V" "isValidBucketName b" "plain_elem up" "upload_state V J b up u Q f" "Q n = Some (d, etag)"
  shows "fo_readFile F (scoped_join (text_of [DirIOUploadsDir, b]) (part_path up n)) f = Inr d"
    "\<exists>c pm. fo_readFile F (scoped_join (text_of [DirIOUploadsDir, b]) (part_meta_path up n)) f = Inr c \<and>
       jc_decPart J c = Some pm \<and> pm_etag pm = etag"
proof -
  note p = upload_paths[OF assms(2,3)]
  obtain t c t' pm where h: "file_at V f (data_file b up n) = Some (d, t)" "file_at V f (info_file b up n) = Some (c, t')"
    "jc_decPart J c = Some pm" "pm_etag pm = etag"
    using assms(4,5) unfolding upload_state_def holds_part_def by blast
  show "fo_readFile F (scoped_join (text_of [DirIOUploadsDir, b]) (part_path up n)) f = Inr d"
    unfolding p(9) by (rule readFile_law[OF assms(1) p(3) h(1)])
  show "\<exists>c pm. fo_readFile F (scoped_join (text_of [DirIOUploadsDir, b]) (part_meta_path up n)) f = Inr c \<and>
       jc_decPart J c = Some pm \<and> pm_etag pm = etag"
    unfolding p(10) using readFile_law[OF assms(1) p(4) h(2)] h(3,4) by blast
qed

definition etag_matches :: "(int \<rightharpoonup> string \<times> string) \<Rightarrow> complete_part \<Rightarrow> bool" where
  "etag_matches Q part \<longleftrightarrow> trim_quotes (cp_etag part) = trim_quotes (snd (the (Q (cp_partNumber part))))"

definition joined :: "(int \<rightharpoonup> string) \<Rightarrow> complete_part list \<Rightarrow> string" where
  "joined P parts = concat (map (\<lambda>part. the (P (cp_partNumber part))) parts)"

abbreviation data_of :: "(int \<rightharpoonup> string \<times> string) \<Rightarrow> (int \<rightharpoonup> string)" where
  "data_of Q n \<equiv> map_option fst (Q n)"

lemma check_part_stored:
  assumes "fs_laws F V" "isValidBucketName b" "plain_elem up" "upload_state V J b up u Q f"
    and "cp_partNumber part \<in> dom Q"
  shows "check_part F J (text_of [DirIOUploadsDir, b]) up f part =
     (if etag_matches Q part then None
      else Some (MpEtagMismatch (cp_partNumber part) (trim_quotes (snd (the (Q (cp_partNumber part)))))
                   (trim_quotes (cp_etag part))))"
proof -
  from assms(5) obtain d etag where d: "Q (cp_partNumber part) = Some (d, etag)" by fastforce
  from part_files(2)[OF assms(1-4) d] d show ?thesis
    by (auto simp: check_part_def etag_matches_def)
qed

lemma assemble_stored:
  assumes "fs_laws F V" "isValidBucketName b" "plain_elem up" "upload_state V J b up u Q f"
    and "\<forall>part\<in>set parts. cp_partNumber part \<in> dom Q"
  shows "assemble F (text_of [DirIOUploadsDir, b]) up f parts = Inr (joined (data_of Q) parts)"
  using assms(5)
proof (induction parts)
  case (Cons part parts)
  then obtain d etag where "Q (cp_partNumber part) = Some (d, etag)" by fastforce
  with part_files(1)[OF assms(1-4) this] Cons show ?case by (simp add: joined_def)
qed (simp add: joined_def)

lemma CleanupMultipartUpload_spec:
  fixes F :: "('f) fs_ops"
  assumes laws: "fs_laws F V" "isValidBucketName b" "plain_elem up"
    and "CleanupMultipartUpload F b up s = (e, s')"
  shows "sg_meta s' = sg_meta s" "kept V es (sg_fs s) (sg_fs s')"
    "\<not> prefix (upload_dir b up) q \<Longrightarrow> V (sg_fs s) q \<noteq> None \<Longrightarrow> V (sg_fs s') q = V (sg_fs s) q"
    "e = None \<Longrightarrow> V (sg_fs s') (upload_dir b up) = None"
proof -
  obtain r0 s0 where g: "GetUploadStagingFS F b s = (r0, s0)" by fastforce
  note st = staging_spec[OF laws(1,2) g]
  note p = upload_paths[OF laws(2,3)]
  obtain e1 f1 where a: "fo_removeAll F (text_of (upload_dir b up)) (sg_fs s0) = (e1, f1)" by fastforce
  have l: "\<forall>q. \<not> prefix (upload_dir b up) q \<longrightarrow> V f1 q = V (sg_fs s0) q" "e1 = None \<Longrightarrow> V f1 (upload_dir b up) = None"
    using laws(1) p(1) a unfolding fs_laws_def law_removeAll_def by blast+
  have r: "(e, s') = (case r0 of Inl e \<Rightarrow> (Some e, s0) | Inr _ \<Rightarrow> (map_option SFs e1, s0\<lparr>sg_fs := f1\<rparr>))"
    using st(3) a unfolding assms(4)[symmetric] CleanupMultipartUpload_def g by (cases r0) (simp_all add: p(6) del: str_join.simps)
  have out: "q \<noteq> [] \<Longrightarrow> hd q \<noteq> DirIOUploadsDir \<Longrightarrow> \<not> prefix (upload_dir b up) q" for q
    using not_prefix_uploads by (cases q) (auto simp: upload_dir_def)
  show "sg_meta s' = sg_meta s" using r st(1) by (auto split: sum.splits)
  have k0: "kept V es (sg_fs s) (sg_fs s0)" by (rule only_dirs_kept[OF st(2)]) simp
  have k1: "kept V es (sg_fs s0) f1" by (rule kept_outside) (use l(1) out in blast)
  show "kept V es (sg_fs s) (sg_fs s')"
    using r k0 kept_trans[OF k0 k1] by (auto split: sum.splits)
  have same: "V (sg_fs s) q \<noteq> None \<Longrightarrow> V (sg_fs s0) q = V (sg_fs s) q"
    using st(2) unfolding only_dirs_def by (metis empty_iff)
  then show "\<not> prefix (upload_dir b up) q \<Longrightarrow> V (sg_fs s) q \<noteq> None \<Longrightarrow> V (sg_fs s') q = V (sg_fs s) q"
    using r l(1) by (auto split: sum.splits)
  show "e = None \<Longrightarrow> V (sg_fs s') (upload_dir b up) = None"
    using r l(2) by (auto split: sum.splits)
qed

text \<open>What \<open>CompleteMultipartUpload\<close> does when all requested parts are there.\<close>

lemma CompleteMultipartUpload_spec:
  fixes F :: "('f) fs_ops"
  assumes laws: "fs_laws F V" "isValidBucketName b" "plain_elem up"
    and st: "upload_state V J b up u Q (sg_fs s)"
    and parts: "\<forall>part\<in>set parts. cp_partNumber part \<in> dom Q"
    and c: "CompleteMultipartUpload F md5 J env b k up parts s = (r, s')"
  obtains (refused) e where "r = Inl (MpStore e)"
  | (mismatch) n x y where "r = Inl (MpEtagMismatch n x y)" "\<exists>part\<in>set parts. \<not> etag_matches Q part"
  | (stored) etag s0 s1 where "r = Inr etag" "\<forall>part\<in>set parts. etag_matches Q part"
      "PutObject F md5 env b k (joined (data_of Q) (sort_key cp_partNumber parts), False) (mu_contentType u)
         (mu_customMetadata u) s0 = (Inr etag, s1)"
      "s' = snd (CleanupMultipartUpload F b up s1)" "sg_meta s0 = sg_meta s" "only_dirs V {} (sg_fs s) (sg_fs s0)"
  using c[unfolded CompleteMultipartUpload_def]
proof (elim in_staging_cases[OF laws(1,2)])
  fix e
  assume "r = Inl (MpStore e)"
  then show thesis by (rule refused)
next
  let ?base = "text_of [DirIOUploadsDir, b]" and ?ps = "sort_key cp_partNumber parts"
  fix s0 :: "('f) storage"
  assume s0: "sg_meta s0 = sg_meta s" "only_dirs V {} (sg_fs s) (sg_fs s0)"
  have st0: "upload_state V J b up u Q (sg_fs s0)"
    by (rule upload_state_kept[OF st]) (rule only_dirs_file[OF s0(2)], simp)
  obtain x t where x: "file_at V (sg_fs s0) (upload_file b up) = Some (x, t)" "jc_decUpload J x = Some u"
    using st0 unfolding upload_state_def by blast
  note rd = readFile_law[OF laws(1) upload_paths(2)[OF laws(2,3)] x(1)]
  have chk: "check_part F J ?base up (sg_fs s0) part =
     (if etag_matches Q part then None
      else Some (MpEtagMismatch (cp_partNumber part) (trim_quotes (snd (the (Q (cp_partNumber part)))))
                   (trim_quotes (cp_etag part))))" if "part \<in> set parts" for part
    using check_part_stored[OF laws st0] parts that by blast
  have asm: "assemble F ?base up (sg_fs s0) ?ps = Inr (joined (data_of Q) ?ps)"
    using assemble_stored[OF laws st0, of ?ps] parts by simp
  assume a: "(case fo_readFile F (scoped_join ?base (upload_meta_path up)) (sg_fs s0) of
         Inl _ \<Rightarrow> (Inl MpNotFound, s0)
       | Inr text \<Rightarrow>
       (case jc_decUpload J text of
          None \<Rightarrow> (Inl MpBadUpload, s0)
        | Some upload \<Rightarrow>
            let parts = sort_key cp_partNumber parts
            in case first_err (\<lambda>_. check_part F J ?base up (sg_fs s0)) 0 parts of
                 Some e \<Rightarrow> (Inl e, s0)
               | None \<Rightarrow>
                   (case assemble F ?base up (sg_fs s0) parts of
                      Inl e \<Rightarrow> (Inl e, s0)
                    | Inr d \<Rightarrow>
                        (case PutObject F md5 env b k (d, False) (mu_contentType upload)
                                (mu_customMetadata upload) s0 of
                           (Inl e, s) \<Rightarrow> (Inl (MpStore e), s)
                         | (Inr etag, s) \<Rightarrow>
                             (Inr etag, snd (CleanupMultipartUpload F b up s)))))) = (r, s')"
  obtain r1 s1 where put: "PutObject F md5 env b k (joined (data_of Q) ?ps, False) (mu_contentType u) (mu_customMetadata u) s0 = (r1, s1)"
    by fastforce
  have eq: "(r, s') = (case first_err (\<lambda>_. check_part F J ?base up (sg_fs s0)) 0 ?ps of
      Some e \<Rightarrow> (Inl e, s0)
    | None \<Rightarrow> (case r1 of Inl e \<Rightarrow> (Inl (MpStore e), s1)
        | Inr etag \<Rightarrow> (Inr etag, snd (CleanupMultipartUpload F b up s1))))"
    using put unfolding a[symmetric] upload_paths(7)[OF laws(2,3)] rd sum.case x(2) option.case Let_def asm
    by (auto split: option.split sum.split)
  show thesis
  proof (cases "first_err (\<lambda>_. check_part F J ?base up (sg_fs s0)) 0 ?ps")
    case None
    then have m: "\<forall>part\<in>set parts. etag_matches Q part"
      unfolding first_err_None_uniform using chk by (metis option.distinct(1) set_sort)
    show thesis
    proof (cases r1)
      case (Inl e)
      with eq None show thesis by (intro refused) simp
    next
      case (Inr etag)
      with eq None put m s0 show thesis by (intro stored) simp_all
    qed
  next
    case (Some e)
    then obtain part where "part \<in> set parts" "check_part F J ?base up (sg_fs s0) part = Some e"
      using first_err_Some_mem[OF Some] by auto
    with eq Some chk show thesis by (intro mismatch) (auto split: if_splits simp del: str_join.simps)
  qed
qed

lemma dom_with_etags [simp]: "dom (with_etags md5 P) = dom P"
  by (auto simp: with_etags_def dom_def)

lemma data_with_etags [simp]: "data_of (with_etags md5 P) = P"
  by (simp add: with_etags_def fun_eq_iff option.map_comp comp_def option.map_ident)

text \<open>The object after a completed upload.\<close>

lemma completed_object:
  fixes F :: "('f) fs_ops"
  assumes laws: "fs_laws F V" "isValidBucketName b" "plain_elem up" "plain_elem (pe_tmp env)" "\<not> pe_metaFails env"
    and put: "PutObject F md5 env b k (d, False) ct cm s0 = (Inr etag, s1)"
  shows "\<exists>ob. etag = sb_etag ob \<and> sb_etag ob = hex_encode (md5 d) \<and> sb_content ob = d \<and> sb_contentType ob = ct \<and>
    sb_customMetadata ob = cm \<and> fst (GetObject F md5 b k (snd (CleanupMultipartUpload F b up s1))) = Inr ob"
proof -
  obtain ob where ob: "fst (GetObject F md5 b k s1) = Inr ob" "sb_content ob = d" "sb_etag ob = etag"
    "sb_contentType ob = ct" "sb_customMetadata ob = cm" "etag = hex_encode (md5 d)"
    using PutObject_stored[OF laws(1,2,4,5) put] by blast
  note cl = CleanupMultipartUpload_spec[OF laws(1-3) prod.collapse[symmetric, of "CleanupMultipartUpload F b up s1"]]
  have "fst (GetObject F md5 b k (snd (CleanupMultipartUpload F b up s1))) = Inr ob"
    by (rule GetObject_kept[OF laws(1,2) ob(1) cl(2)[of "[]"]]) (simp_all add: obj_elems_def cl(1))
  with ob show ?thesis by (intro exI[of _ ob]) simp
qed

text \<open>C21. Multipart uploads assemble what was sent: whatever the order of the parts, however often they are
  sent again and whatever else happens outside the directory of the upload, completing it with parts
  that were sent either fails in the storage, or is refused because of an ETag that is not the one of
  the part, or stores an object whose content is the data of the parts in the order of their numbers,
  with the content type and custom metadata given at the start and the MD5 of the whole as ETag. The
  bucket is that of the upload; the key is the one given at completion, which nothing compares with
  the one given at the start.\<close>

theorem multipart_roundtrip:
  fixes F :: "('f) fs_ops"
  assumes "fs_laws F V" "codec_laws J" "isValidBucketName b" "plain_elem up"
    and "json_upload \<lparr>mu_uploadID = up, mu_bucket = b, mu_key = k0, mu_contentType = ct, mu_customMetadata = cm,
           mu_initiated = t0\<rparr>"
    and "CreateMultipartUpload F J t0 up b k0 ct cm s = (Inr up', s1)"
    and "part_uploads F md5 J V b up s1 P s2"
    and "plain_elem (pe_tmp env)" "\<not> pe_metaFails env"
    and "\<forall>part\<in>set parts. cp_partNumber part \<in> dom P"
    and "CompleteMultipartUpload F md5 J env b k up parts s2 = (r, s3)"
  shows "(\<exists>e. r = Inl (MpStore e)) \<or>
    (\<exists>n x y. r = Inl (MpEtagMismatch n x y)) \<and> (\<exists>part\<in>set parts. \<not> etag_matches (with_etags md5 P) part) \<or>
    (\<exists>ob. r = Inr (sb_etag ob) \<and> (\<forall>part\<in>set parts. etag_matches (with_etags md5 P) part) \<and>
       fst (GetObject F md5 b k s3) = Inr ob \<and> sb_content ob = joined P (sort_key cp_partNumber parts) \<and>
       sb_etag ob = hex_encode (md5 (sb_content ob)) \<and> sb_contentType ob = ct \<and>
       map_of (sb_customMetadata ob) = map_of cm)"
proof -
  let ?u = "\<lparr>mu_uploadID = up, mu_bucket = b, mu_key = k0, mu_contentType = ct, mu_customMetadata = cm, mu_initiated = t0\<rparr>"
  obtain cm' where cm': "jc_decUpload J (jc_encUpload J ?u) = Some (?u\<lparr>mu_customMetadata := cm'\<rparr>)" "map_of cm' = map_of cm"
    using assms(2,5) unfolding codec_laws_def by fastforce
  let ?u' = "?u\<lparr>mu_customMetadata := cm'\<rparr>"
  have "upload_state V J b up ?u' Map.empty (sg_fs s1)"
    using CreateMultipartUpload_spec[OF assms(1,3,4,6)] cm'(1) unfolding upload_state_def by auto
  from part_uploads_state[OF assms(7,1,3,4,2) this]
  have st: "upload_state V J b up ?u' (with_etags md5 P) (sg_fs s2)" .
  have parts: "\<forall>part\<in>set parts. cp_partNumber part \<in> dom (with_etags md5 P)" using assms(10) by simp
  show ?thesis
  proof (rule CompleteMultipartUpload_spec[OF assms(1,3,4) st parts assms(11)])
    fix etag s0 s4
    assume c: "r = Inr etag" "\<forall>part\<in>set parts. etag_matches (with_etags md5 P) part"
      "PutObject F md5 env b k (joined (data_of (with_etags md5 P)) (sort_key cp_partNumber parts), False) (mu_contentType ?u')
         (mu_customMetadata ?u') s0 = (Inr etag, s4)" "s3 = snd (CleanupMultipartUpload F b up s4)"
    from completed_object[OF assms(1,3,4,8,9) c(3)] c(1,2,4) cm'(2) show ?thesis by fastforce
  qed blast+
qed

text \<open>C25. A part that is sent again and breaks off corrupts the upload: its data replace the ones that were
  there, its ETag does not, so a completion with the ETag of the first, complete transfer is accepted
  and stores the bytes of the broken one.\<close>

theorem failed_reupload_corrupts:
  fixes F :: "('f) fs_ops"
  assumes "fs_laws F V" "isValidBucketName b" "plain_elem up"
    and "upload_state V J b up u Q (sg_fs s)" "Q n = Some (d, etag)"
    and "UploadPart F md5 J now b up n (d', True) s = (Inl MpBody, s1)"
    and "plain_elem (pe_tmp env)" "\<not> pe_metaFails env"
    and "CompleteMultipartUpload F md5 J env b k up [\<lparr>cp_partNumber = n, cp_etag = etag\<rparr>] s1 = (r, s2)"
  shows "(\<exists>e. r = Inl (MpStore e)) \<or> (\<exists>ob. r = Inr (sb_etag ob) \<and> fst (GetObject F md5 b k s2) = Inr ob \<and> sb_content ob = d')"
proof -
  let ?parts = "[\<lparr>cp_partNumber = n, cp_etag = etag\<rparr>]"
  note st = upload_state_failed[OF assms(1-6)]
  have parts: "\<forall>part\<in>set ?parts. cp_partNumber part \<in> dom (Q(n \<mapsto> (d', etag)))" by simp
  show ?thesis
  proof (rule CompleteMultipartUpload_spec[OF assms(1-3) st parts assms(9)])
    fix x
    assume "\<exists>part\<in>set ?parts. \<not> etag_matches (Q(n \<mapsto> (d', etag))) part"
    then show ?thesis by (simp add: etag_matches_def)
  next
    fix etag' s0 s4
    assume c: "r = Inr etag'"
      "PutObject F md5 env b k (joined (data_of (Q(n \<mapsto> (d', etag)))) (sort_key cp_partNumber ?parts), False)
         (mu_contentType u) (mu_customMetadata u) s0 = (Inr etag', s4)" "s2 = snd (CleanupMultipartUpload F b up s4)"
    have "joined (data_of (Q(n \<mapsto> (d', etag)))) (sort_key cp_partNumber ?parts) = d'" by (simp add: joined_def)
    with completed_object[OF assms(1-3,7,8) c(2)] c(1,3) show ?thesis by fastforce
  qed blast
qed

section \<open>Confinement\<close>

lemma kept_object:
  assumes "fs_laws F V" "isValidBucketName b" "fst (GetObject F md5 b k s) = Inr ob"
    and "kept V [] (sg_fs s) (sg_fs s')" "sg_meta s' = sg_meta s"
  shows "fst (GetObject F md5 b k s') = Inr ob"
  by (rule GetObject_kept[OF assms(1-4)]) (simp_all add: obj_elems_def assms(5))

lemma only_dirs_object:
  assumes "fs_laws F V" "isValidBucketName b" "fst (GetObject F md5 b k s) = Inr ob"
    and "sg_meta s' = sg_meta s" "only_dirs V ex (sg_fs s) (sg_fs s')" "\<forall>q\<in>ex. hd q = DirIOUploadsDir"
  shows "fst (GetObject F md5 b k s') = Inr ob"
  by (rule kept_object[OF assms(1-3) only_dirs_kept[OF assms(5)] assms(4)]) (use assms(6) in blast)

lemma upload_files_hd [simp]:
  "hd (upload_file b up) = DirIOUploadsDir" "hd (data_file b up n) = DirIOUploadsDir" "hd (info_file b up n) = DirIOUploadsDir"
  by (simp_all add: upload_files)

text \<open>An operation in the staging area that, once the area is open, keeps the object, keeps it.\<close>

lemma in_staging_keeps:
  fixes F :: "('f) fs_ops"
  assumes "fs_laws F V" "isValidBucketName b" "isValidBucketName b'" "fst (GetObject F md5 b' k' s) = Inr ob"
    and "\<And>base s0. fst (GetObject F md5 b' k' s0) = Inr ob \<Longrightarrow> fst (GetObject F md5 b' k' (snd (act base s0))) = Inr ob"
  shows "fst (GetObject F md5 b' k' (snd (in_staging F b act s))) = Inr ob"
proof (rule in_staging_cases[OF assms(1,2) prod.collapse[symmetric]])
  assume "sg_meta (snd (in_staging F b act s)) = sg_meta s"
    "only_dirs V {} (sg_fs s) (sg_fs (snd (in_staging F b act s)))"
  then show ?thesis by (rule only_dirs_object[OF assms(1,3,4)]) simp
next
  fix s0 :: "('f) storage"
  assume s0: "sg_meta s0 = sg_meta s" "only_dirs V {} (sg_fs s) (sg_fs s0)"
    and a: "act (text_of [DirIOUploadsDir, b]) s0 = (fst (in_staging F b act s), snd (in_staging F b act s))"
  have "fst (GetObject F md5 b' k' s0) = Inr ob" by (rule only_dirs_object[OF assms(1,3,4) s0]) simp
  from assms(5)[OF this, of "text_of [DirIOUploadsDir, b]"] show ?thesis unfolding a snd_conv .
qed

lemma multipart_ops_keep:
  fixes F :: "('f) fs_ops"
  assumes "fs_laws F V" "isValidBucketName b" "plain_elem up"
    and "isValidBucketName b'" "fst (GetObject F md5 b' k' s) = Inr ob"
  shows "fst (GetObject F md5 b' k' (snd (CreateMultipartUpload F J now up b k ct cm s))) = Inr ob"
    and "fst (GetObject F md5 b' k' (snd (UploadPart F md5 J now b up n body s))) = Inr ob"
    and "fst (GetObject F md5 b' k' (snd (AbortMultipartUpload F b up s))) = Inr ob"
    and "fst (GetObject F md5 b' k' (snd (ListParts F J b up s))) = Inr ob"
    and "plain_elem (pe_tmp env) \<Longrightarrow> obj_elems b' k' \<noteq> obj_elems b k \<Longrightarrow>
      fst (GetObject F md5 b' k' (snd (CompleteMultipartUpload F md5 J env b k up parts s))) = Inr ob"
proof -
  define K where "K s0 = (fst (GetObject F md5 b' k' s0) = Inr ob)" for s0
  note staging = in_staging_keeps[OF assms(1,2,4,5), folded K_def]
  have cleanup: "K (snd (CleanupMultipartUpload F b up s0))" if "K s0" for s0
    unfolding K_def
    by (rule kept_object[OF assms(1,4) that[unfolded K_def] CleanupMultipartUpload_spec(2,1)[OF assms(1-3) prod.collapse[symmetric]]])
  note c = CreateMultipartUpload_spec[OF assms(1-3) prod.collapse[symmetric], of J now k ct cm s]
    and u = UploadPart_spec[OF assms(1-3) prod.collapse[symmetric], of md5 J now n body s]
  show "fst (GetObject F md5 b' k' (snd (CreateMultipartUpload F J now up b k ct cm s))) = Inr ob"
    by (rule only_dirs_object[OF assms(1,4,5) conjunct1[OF c] conjunct1[OF conjunct2[OF c]]]) simp
  show "fst (GetObject F md5 b' k' (snd (UploadPart F md5 J now b up n body s))) = Inr ob"
    by (rule only_dirs_object[OF assms(1,4,5) conjunct1[OF u] conjunct1[OF conjunct2[OF u]]]) simp
  show "fst (GetObject F md5 b' k' (snd (AbortMultipartUpload F b up s))) = Inr ob"
    unfolding AbortMultipartUpload_def K_def[symmetric]
    by (rule staging) (use cleanup in \<open>force split: sum.split prod.split option.split\<close>)
  show "fst (GetObject F md5 b' k' (snd (ListParts F J b up s))) = Inr ob"
    unfolding ListParts_def K_def[symmetric]
    by (rule staging) (simp split: sum.split)
  assume tmp: "plain_elem (pe_tmp env)" and other: "obj_elems b' k' \<noteq> obj_elems b k"
  have put: "K (snd (PutObject F md5 env b k body ct cm s0))" if "K s0" for body ct cm s0
    using PutObject_keeps[OF assms(1,2) tmp prod.collapse[symmetric] assms(4)] other that unfolding K_def by blast
  have fin: "K (snd (case PutObject F md5 env b k body ct cm s0 of
      (Inl e, s) \<Rightarrow> (Inl (MpStore e), s)
    | (Inr etag, s) \<Rightarrow> (Inr etag, snd (CleanupMultipartUpload F b up s))))" if "K s0" for body ct cm s0
  proof -
    obtain r1 s1 where p: "PutObject F md5 env b k body ct cm s0 = (r1, s1)" by fastforce
    with put[OF that, of body ct cm] have "K s1" by simp
    with cleanup[OF this] p show ?thesis by (simp split: sum.split)
  qed
  show "fst (GetObject F md5 b' k' (snd (CompleteMultipartUpload F md5 J env b k up parts s))) = Inr ob"
    unfolding CompleteMultipartUpload_def K_def[symmetric] Let_def
    by (rule staging) (simp add: fin split: sum.split option.split)
qed

text \<open>C22. Multipart operations touch no object but the one they complete, as long as the upload ID is a
  plain name: starting, sending, listing and aborting keep every object of every bucket readable as
  it was, and completing every object at another path.\<close>

theorem multipart_keeps_objects:
  fixes F :: "('f) fs_ops"
  assumes "fs_laws F V" "isValidBucketName b" "plain_elem up" "plain_elem (pe_tmp env)"
    and "isValidBucketName b'" "fst (GetObject F md5 b' k' s) = Inr ob"
  shows "fst (GetObject F md5 b' k' (snd (CreateMultipartUpload F J now up b k ct cm s))) = Inr ob \<and>
    fst (GetObject F md5 b' k' (snd (UploadPart F md5 J now b up n body s))) = Inr ob \<and>
    fst (GetObject F md5 b' k' (snd (AbortMultipartUpload F b up s))) = Inr ob \<and>
    fst (GetObject F md5 b' k' (snd (ListParts F J b up s))) = Inr ob \<and>
    (obj_elems b' k' \<noteq> obj_elems b k \<longrightarrow>
       fst (GetObject F md5 b' k' (snd (CompleteMultipartUpload F md5 J env b k up parts s))) = Inr ob)"
  using multipart_ops_keep[OF assms(1-3,5,6)] assms(4) by blast

section \<open>An upload ID that is a path\<close>

definition escape :: "string \<Rightarrow> string" where
  "escape victim = ''../../'' @ victim"

lemma path_clean_text:
  assumes "ws \<noteq> []" "\<forall>w\<in>set ws. CHR ''/'' \<notin> set w" "hd ws \<noteq> ''''" "clean_elems False [] ws \<noteq> []"
    "\<forall>w\<in>set (clean_elems False [] ws). w \<noteq> ''''"
  shows "path_clean (text_of ws) = text_of (clean_elems False [] ws)"
proof -
  have split: "str_split (text_of ws) ''/'' = ws" using str_split_join_char[OF assms(1,2)] .
  have "\<not> has_prefix (text_of ws) ''/''"
    using assms(1-3) by (cases ws; cases "tl ws"; cases "hd ws") (auto simp: has_prefix_def)
  moreover have "text_of (clean_elems False [] ws) \<noteq> ''''"
    using assms(4,5) by (cases "clean_elems False [] ws"; cases "tl (clean_elems False [] ws)") auto
  ultimately show ?thesis by (simp add: path_clean_def split Let_def)
qed

lemma escape_paths:
  assumes "isValidBucketName b" "isValidBucketName v"
  shows "scoped_join (text_of [DirIOUploadsDir, b]) (escape v) = text_of [v]"
    "scoped_join (text_of [DirIOUploadsDir, b]) (upload_meta_path (escape v)) = text_of [v, ''upload.json'']"
proof -
  note b = bucket_plain[OF assms(1)] and v = bucket_plain[OF assms(2)] and u = plain_names(1)
  have slash: "CHR ''/'' \<notin> set w" "w \<noteq> ''''" "w \<noteq> ''.''" "w \<noteq> ''..''" if "w \<in> {DirIOUploadsDir, b, v}" for w
    using b v u that by (auto simp: plain_elem_def)
  note s = slash[of DirIOUploadsDir] slash[of b] slash[of v]
  have e: "escape v = text_of [''..'', ''..'', v]" by (simp add: escape_def)
  have "path_clean (text_of [''..'', ''..'', v, ''upload.json'']) = text_of [''..'', ''..'', v, ''upload.json'']"
    using s by (subst path_clean_text) simp_all
  then have m: "upload_meta_path (escape v) = text_of [''..'', ''..'', v, ''upload.json'']"
    using s by (simp add: upload_meta_path_def e path_join_def)
  have "path_clean (text_of [DirIOUploadsDir, b, ''..'', ''..'', v]) = text_of [v]"
    using s by (subst path_clean_text) simp_all
  then show "scoped_join (text_of [DirIOUploadsDir, b]) (escape v) = text_of [v]"
    using s by (simp add: scoped_join_def e path_join_def)
  have "path_clean (text_of [DirIOUploadsDir, b, ''..'', ''..'', v, ''upload.json'']) = text_of [v, ''upload.json'']"
    using s by (subst path_clean_text) simp_all
  then show "scoped_join (text_of [DirIOUploadsDir, b]) (upload_meta_path (escape v)) = text_of [v, ''upload.json'']"
    using s unfolding m by (simp add: scoped_join_def path_join_def)
qed

text \<open>C24. The upload ID is not checked, and aborting deletes what it points to: with the ID \<open>../../victim\<close>
  a request for one bucket removes the whole directory of another bucket that holds an object
  \<open>upload.json\<close>, and no object of that bucket can be read any more.\<close>

theorem abort_escapes_bucket:
  fixes F :: "('f) fs_ops"
  assumes "fs_laws F V" "isValidBucketName b" "isValidBucketName v"
    and "fst (GetObject F md5 v ''upload.json'' s) = Inr ob"
    and "AbortMultipartUpload F b (escape v) s = (r, s')"
  shows "r = Inr () \<and> V (sg_fs s') [v] = None \<and> (\<forall>k ob. fst (GetObject F md5 v k s') \<noteq> Inr ob) \<or>
    (\<exists>e. r = Inl (MpStore e))"
  using assms(5)[unfolded AbortMultipartUpload_def]
proof (elim in_staging_cases[OF assms(1,2)])
  fix e
  assume "r = Inl (MpStore e)"
  then show ?thesis by blast
next
  let ?base = "text_of [DirIOUploadsDir, b]"
  note p = escape_paths[OF assms(2,3)]
  have fv: "fpath [v]" "fpath [v, ''upload.json'']" using bucket_plain[OF assms(3)] plain_names(2) by (simp_all add: fpath_def)
  fix s0 :: "('f) storage"
  assume s0: "only_dirs V {} (sg_fs s) (sg_fs s0)"
  have "obj_elems v ''upload.json'' = [v, ''upload.json'']" by (simp add: obj_elems_def) code_simp
  with assms(4) obtain c t where "file_at V (sg_fs s) [v, ''upload.json''] = Some (c, t)"
    unfolding GetObject_Inr_iff[OF assms(1,3)] by force
  with only_dirs_file[OF s0, of "[v, ''upload.json'']"] have "V (sg_fs s0) [v, ''upload.json''] = Some (File c t)"
    by (simp flip: file_at_iff(1))
  then obtain i where st: "fo_stat F (text_of [v, ''upload.json'']) (sg_fs s0) = Inr i"
    using stat_law[OF assms(1) fv(2), of "sg_fs s0"] by auto
  obtain e1 s1 where c: "CleanupMultipartUpload F b (escape v) s0 = (e1, s1)" by fastforce
  assume "(case fo_stat F (scoped_join ?base (upload_meta_path (escape v))) (sg_fs s0) of
         Inl _ \<Rightarrow> (Inl MpNotFound, s0)
       | Inr _ \<Rightarrow>
           (case CleanupMultipartUpload F b (escape v) s0 of
              (Some e, s) \<Rightarrow> (Inl (MpStore e), s)
            | (None, s) \<Rightarrow> (Inr (), s))) = (r, s')"
  then have eq: "(r, s') = (case e1 of Some e \<Rightarrow> (Inl (MpStore e), s1) | None \<Rightarrow> (Inr (), s1))"
    unfolding p(2) st sum.case c by (auto split: option.splits)
  show ?thesis
  proof (cases e1)
    case None
    have "V (sg_fs s1) [v] = None"
    proof -
      obtain r2 s2 where g: "GetUploadStagingFS F b s0 = (r2, s2)" by fastforce
      with c None staging_spec(3)[OF assms(1,2) g] have "r2 = Inr ?base"
        by (auto simp: CleanupMultipartUpload_def split: sum.splits)
      moreover obtain e3 f3 where rm: "fo_removeAll F (text_of [v]) (sg_fs s2) = (e3, f3)" by fastforce
      ultimately have "e3 = None" "s1 = s2\<lparr>sg_fs := f3\<rparr>"
        using c None by (simp_all add: CleanupMultipartUpload_def g p(1) del: str_join.simps)
      with assms(1) fv(1) rm show ?thesis unfolding fs_laws_def law_removeAll_def by fastforce
    qed
    with eq None show ?thesis unfolding GetObject_Inr_iff[OF assms(1,3)] by simp
  qed (use eq in simp)
qed

section \<open>Instances\<close>

text \<open>A codec that keeps the laws: a number in unary, a text with a mark before each character.\<close>

definition enc_str :: "string \<Rightarrow> string" where
  "enc_str s = concat (map (\<lambda>c. [CHR ''x'', c]) s) @ ''e''"

fun dec_str :: "string \<Rightarrow> (string \<times> string) option" where
  "dec_str [] = None"
| "dec_str [a] = Some ('''', '''')"
| "dec_str (a # c # r) = (if a = CHR ''e'' then Some ('''', c # r)
     else case dec_str r of None \<Rightarrow> None | Some (s, r) \<Rightarrow> Some (c # s, r))"

lemma dec_enc_str [simp]: "dec_str (enc_str s @ r) = Some (s, r)"
proof (induction s)
  case Nil
  show ?case by (cases r) (simp_all add: enc_str_def)
next
  case (Cons c s)
  then show ?case by (simp add: enc_str_def)
qed

definition enc_int :: "int \<Rightarrow> string" where
  "enc_int n = (if n < 0 then ''m'' else ''p'') @ replicate (nat \<bar>n\<bar>) (CHR ''x'') @ ''e''"

definition dec_int :: "string \<Rightarrow> (int \<times> string) option" where
  "dec_int s = (case s of [] \<Rightarrow> None
     | a # r \<Rightarrow> let k = length (takeWhile (\<lambda>c. c = CHR ''x'') r)
                in Some (if a = CHR ''m'' then - int k else int k, drop (Suc k) r))"

lemma dec_enc_int [simp]: "dec_int (enc_int n @ r) = Some (n, r)"
proof -
  have "takeWhile (\<lambda>c. c = CHR ''x'') (replicate m (CHR ''x'') @ ''e'' @ r) = replicate m (CHR ''x'')" for m
    by (induction m) simp_all
  then show ?thesis by (simp add: enc_int_def dec_int_def)
qed

fun enc_pairs :: "(string \<times> string) list \<Rightarrow> string" where
  "enc_pairs [] = ''''"
| "enc_pairs ((k, v) # kvs) = enc_str k @ enc_str v @ enc_pairs kvs"

fun dec_pairs :: "nat \<Rightarrow> string \<Rightarrow> ((string \<times> string) list \<times> string) option" where
  "dec_pairs 0 r = Some ([], r)"
| "dec_pairs (Suc n) r = do {
     (k, r) \<leftarrow> dec_str r;
     (v, r) \<leftarrow> dec_str r;
     (kvs, r) \<leftarrow> dec_pairs n r;
     Some ((k, v) # kvs, r)
   }"

lemma dec_enc_pairs [simp]: "dec_pairs (length kvs) (enc_pairs kvs @ r) = Some (kvs, r)"
  by (induction kvs rule: enc_pairs.induct) simp_all

definition ex_codec :: json_codec where
  "ex_codec =
     \<lparr>jc_encUpload = (\<lambda>u. enc_str (mu_uploadID u) @ enc_str (mu_bucket u) @ enc_str (mu_key u) @
         enc_str (mu_contentType u) @ enc_int (mu_initiated u) @ enc_int (int (length (mu_customMetadata u))) @
         enc_pairs (mu_customMetadata u)),
      jc_decUpload = (\<lambda>r. do {
         (id, r) \<leftarrow> dec_str r; (b, r) \<leftarrow> dec_str r; (k, r) \<leftarrow> dec_str r; (ct, r) \<leftarrow> dec_str r;
         (t, r) \<leftarrow> dec_int r; (n, r) \<leftarrow> dec_int r; (cm, r) \<leftarrow> dec_pairs (nat n) r;
         Some \<lparr>mu_uploadID = id, mu_bucket = b, mu_key = k, mu_contentType = ct, mu_customMetadata = cm,
               mu_initiated = t\<rparr>}),
      jc_encPart = (\<lambda>p. enc_int (pm_partNumber p) @ enc_str (pm_etag p) @ enc_int (pm_size p) @ enc_int (pm_lastModified p)),
      jc_decPart = (\<lambda>r. do {
         (n, r) \<leftarrow> dec_int r; (etag, r) \<leftarrow> dec_str r; (size, r) \<leftarrow> dec_int r; (t, r) \<leftarrow> dec_int r;
         Some \<lparr>pm_partNumber = n, pm_etag = etag, pm_size = size, pm_lastModified = t\<rparr>})\<rparr>"

lemma ex_codec_laws: "codec_laws ex_codec"
proof -
  have "jc_decUpload ex_codec (jc_encUpload ex_codec u) = Some (u\<lparr>mu_customMetadata := mu_customMetadata u\<rparr>)" for u
    using dec_enc_pairs[of "mu_customMetadata u" "''''"]
    by (cases u) (simp add: ex_codec_def)
  moreover have "jc_decPart ex_codec (jc_encPart ex_codec p) = Some p" for p
    using dec_enc_int[of "pm_lastModified p" "''''"]
    by (cases p) (simp add: ex_codec_def)
  ultimately show ?thesis unfolding codec_laws_def json_upload_def by blast
qed

definition ex_photos :: "mem storage" where
  "ex_photos = snd (CreateBucket mem_ops 0 (Some ex_user) ''photos'' \<lparr>sg_fs = [], sg_meta = empty_store\<rparr>)"

definition ex_created :: "mem storage" where
  "ex_created = snd (CreateMultipartUpload mem_ops ex_codec 1 ''u9'' ''photos'' ''a/b'' ''text/plain'' [(''k'', ''v'')] ex_photos)"

abbreviation ex_part :: "int \<Rightarrow> string \<times> bool \<Rightarrow> mem storage \<Rightarrow> (multipart_error + string) \<times> mem storage" where
  "ex_part \<equiv> UploadPart mem_ops (\<lambda>d. d) ex_codec 2 ''photos'' ''u9''"

definition ex_sent_parts :: "mem storage" where
  "ex_sent_parts = snd (ex_part 1 (''abc'', False) (snd (ex_part 2 (''def'', False) ex_created)))"

definition ex_completion :: "complete_part list" where
  "ex_completion = [\<lparr>cp_partNumber = 2, cp_etag = hex_encode ''def''\<rparr>, \<lparr>cp_partNumber = 1, cp_etag = [CHR 0x22] @ hex_encode ''abc'' @ [CHR 0x22]\<rparr>]"

definition ex_complete :: "complete_part list \<Rightarrow> mem storage \<Rightarrow> (multipart_error + string) \<times> mem storage" where
  "ex_complete = CompleteMultipartUpload mem_ops (\<lambda>d. d) ex_codec ex_env ''photos'' ''a/b'' ''u9''"


text \<open>One run of them all: a part that is sent again and breaks off, and two completions.\<close>

definition ex_broken :: "mem storage" where
  "ex_broken = snd (ex_part 1 (''zz'', True) ex_sent_parts)"

abbreviation ex_one :: "complete_part list" where
  "ex_one \<equiv> [\<lparr>cp_partNumber = 1, cp_etag = hex_encode ''abc''\<rparr>]"

lemma ex_run_sent:
  "fst (CreateMultipartUpload mem_ops ex_codec 1 ''u9'' ''photos'' ''a/b'' ''text/plain'' [(''k'', ''v'')] ex_photos) = Inr ''u9''"
  "fst (ex_part 2 (''def'', False) ex_created) = Inr ''646566''"
  "fst (ex_part 1 (''abc'', False) (snd (ex_part 2 (''def'', False) ex_created))) = Inr ''616263''"
  by code_simp+

lemma ex_run_broken: "fst (ex_part 1 (''zz'', True) ex_sent_parts) = Inl MpBody"
  by code_simp

lemma ex_run_complete: "fst (ex_complete ex_completion ex_sent_parts) = Inr ''616263646566''"
  by code_simp

lemma ex_run_complete_broken: "fst (ex_complete ex_one ex_broken) = Inr ''7a7a''"
  by code_simp

lemma fst_pair: "fst p = x \<Longrightarrow> p = (x, snd p)"
  by (simp add: prod_eq_iff)

lemmas ex_runs = ex_run_sent ex_run_broken ex_run_complete ex_run_complete_broken

lemma ex_created_eq:
  "CreateMultipartUpload mem_ops ex_codec 1 ''u9'' ''photos'' ''a/b'' ''text/plain'' [(''k'', ''v'')] ex_photos = (Inr ''u9'', ex_created)"
  unfolding ex_created_def by (rule fst_pair) (use ex_runs in blast)

definition ex_sent :: "int \<rightharpoonup> string" where
  "ex_sent = [2 \<mapsto> ''def'', 1 \<mapsto> ''abc'']"

lemma ex_uploads: "part_uploads mem_ops (\<lambda>d. d) ex_codec mem_view ''photos'' ''u9'' ex_created ex_sent ex_sent_parts"
proof -
  have now: "json_time 2" by (simp add: json_time_def)
  have "ex_part 2 (''def'', False) ex_created = (Inr ''646566'', snd (ex_part 2 (''def'', False) ex_created))"
    by (rule fst_pair) (use ex_runs in blast)
  note one = part_sent[OF part_none now this]
  have "ex_part 1 (''abc'', False) (snd (ex_part 2 (''def'', False) ex_created)) = (Inr ''616263'', ex_sent_parts)"
    unfolding ex_sent_parts_def by (rule fst_pair) (use ex_runs in blast)
  from part_sent[OF one now this] show ?thesis by (simp add: ex_sent_def)
qed

lemma ex_upload_plain: "plain_elem ''u9''"
  by (simp add: plain_elem_def)

lemma ex_upload_json:
  "json_upload \<lparr>mu_uploadID = ''u9'', mu_bucket = ''photos'', mu_key = ''a/b'', mu_contentType = ''text/plain'',
     mu_customMetadata = [(''k'', ''v'')], mu_initiated = 1\<rparr>"
  by code_simp

theorem multipart_roundtrip_witness:
  "\<exists>ob. fst (GetObject mem_ops (\<lambda>d. d) ''photos'' ''a/b'' (snd (ex_complete ex_completion ex_sent_parts))) = Inr ob \<and>
     sb_content ob = ''abcdef'' \<and> sb_contentType ob = ''text/plain''"
proof -
  have c: "ex_complete ex_completion ex_sent_parts = (Inr ''616263646566'', snd (ex_complete ex_completion ex_sent_parts))"
    by (rule fst_pair) (use ex_runs in blast)
  have p: "\<forall>part\<in>set ex_completion. cp_partNumber part \<in> dom ex_sent" by (simp add: ex_completion_def ex_sent_def)
  from multipart_roundtrip[OF mem_laws ex_codec_laws ex_bucket ex_upload_plain ex_upload_json ex_created_eq ex_uploads
      ex_tmp p c[unfolded ex_complete_def]]
  obtain ob where "fst (GetObject mem_ops (\<lambda>d. d) ''photos'' ''a/b'' (snd (ex_complete ex_completion ex_sent_parts))) = Inr ob"
    "sb_content ob = joined ex_sent (sort_key cp_partNumber ex_completion)" "sb_contentType ob = ''text/plain''"
    unfolding ex_complete_def by auto
  moreover have "joined ex_sent (sort_key cp_partNumber ex_completion) = ''abcdef''"
    by (simp add: joined_def ex_sent_def ex_completion_def)
  ultimately show ?thesis by auto
qed

lemma ex_parts_state:
  "\<exists>u. upload_state mem_view ex_codec ''photos'' ''u9'' u (with_etags (\<lambda>d. d) ex_sent) (sg_fs ex_sent_parts)"
proof -
  let ?u = "\<lparr>mu_uploadID = ''u9'', mu_bucket = ''photos'', mu_key = ''a/b'', mu_contentType = ''text/plain'',
     mu_customMetadata = [(''k'', ''v'')], mu_initiated = 1\<rparr>"
  obtain cm where "jc_decUpload ex_codec (jc_encUpload ex_codec ?u) = Some (?u\<lparr>mu_customMetadata := cm\<rparr>)"
    using ex_codec_laws ex_upload_json unfolding codec_laws_def by fastforce
  then have "upload_state mem_view ex_codec ''photos'' ''u9'' (?u\<lparr>mu_customMetadata := cm\<rparr>) Map.empty (sg_fs ex_created)"
    using CreateMultipartUpload_spec[OF mem_laws ex_bucket ex_upload_plain ex_created_eq] unfolding upload_state_def by auto
  from part_uploads_state[OF ex_uploads mem_laws ex_bucket ex_upload_plain ex_codec_laws this] show ?thesis ..
qed

theorem failed_reupload_corrupts_witness:
  "\<exists>ob. fst (GetObject mem_ops (\<lambda>d. d) ''photos'' ''a/b'' (snd (ex_complete ex_one ex_broken))) = Inr ob \<and>
     sb_content ob = ''zz''"
proof -
  have c: "ex_complete ex_one ex_broken = (Inr ''7a7a'', snd (ex_complete ex_one ex_broken))"
    by (rule fst_pair) (use ex_runs in blast)
  have f: "ex_part 1 (''zz'', True) ex_sent_parts = (Inl MpBody, ex_broken)"
    unfolding ex_broken_def by (rule fst_pair) (use ex_runs in blast)
  have q: "with_etags (\<lambda>d. d) ex_sent 1 = Some (''abc'', hex_encode ''abc'')" by (simp add: with_etags_def ex_sent_def)
  obtain u where st: "upload_state mem_view ex_codec ''photos'' ''u9'' u (with_etags (\<lambda>d. d) ex_sent) (sg_fs ex_sent_parts)"
    using ex_parts_state ..
  from failed_reupload_corrupts[OF mem_laws ex_bucket ex_upload_plain st q f ex_tmp c[unfolded ex_complete_def]]
  show ?thesis unfolding ex_complete_def by auto
qed

definition ex_victim :: "mem storage" where
  "ex_victim = snd (PutObject mem_ops (\<lambda>d. d) ex_env ''photos'' ''upload.json'' (''{}'', False) ''text/plain'' [] ex_photos)"

lemma ex_victim_run:
  "(map_sum (\<lambda>_. ()) sb_content (fst (GetObject mem_ops (\<lambda>d. d) ''photos'' ''upload.json'' ex_victim)),
    fst (AbortMultipartUpload mem_ops ''evil'' (escape ''photos'') ex_victim)) = (Inr ''{}'', Inr ())"
  by code_simp

theorem abort_escapes_bucket_witness:
  "\<nexists>ob. fst (GetObject mem_ops (\<lambda>d. d) ''photos'' ''upload.json''
     (snd (AbortMultipartUpload mem_ops ''evil'' (escape ''photos'') ex_victim))) = Inr ob"
proof -
  have b: "isValidBucketName ''evil''" by code_simp
  obtain ob where ob: "fst (GetObject mem_ops (\<lambda>d. d) ''photos'' ''upload.json'' ex_victim) = Inr ob"
    using ex_victim_run by (cases "fst (GetObject mem_ops (\<lambda>d. d) ''photos'' ''upload.json'' ex_victim)") auto
  have "AbortMultipartUpload mem_ops ''evil'' (escape ''photos'') ex_victim =
      (Inr (), snd (AbortMultipartUpload mem_ops ''evil'' (escape ''photos'') ex_victim))"
    by (rule fst_pair) (use ex_victim_run in blast)
  from abort_escapes_bucket[OF mem_laws b ex_bucket ob this] show ?thesis by blast
qed

theorem multipart_keeps_objects_witness:
  "\<exists>ob. fst (GetObject mem_ops (\<lambda>d. d) ''photos'' ''a/b''
     (snd (AbortMultipartUpload mem_ops ''photos'' ''u9'' (snd ex_put)))) = Inr ob \<and> sb_content ob = ''xyz''"
proof -
  obtain ob where "fst (GetObject mem_ops (\<lambda>d. d) ''photos'' ''a/b'' (snd ex_put)) = Inr ob" "sb_content ob = ''xyz''"
    using ex_read by blast
  with multipart_keeps_objects[OF mem_laws ex_bucket ex_upload_plain ex_tmp(1) ex_bucket, of "\<lambda>d. d" "''a/b''" "snd ex_put"]
  show ?thesis by blast
qed

end
