(* ===== verification/MetaFrame.thy ===== *)
theory MetaFrame
  imports MultipartProps
begin

text \<open>
  What the operations on objects leave alone in the metadata: whatever part of the metadata is not touched by reading,
  writing and deleting the metadata of one object is not touched by any operation on objects and uploads. The locale is
  interpreted on the metadata of the buckets and on everything that belongs to users, groups, policies and accounts.
\<close>

section \<open>Operations that do not touch the metadata\<close>

lemma open_scoped_meta: "open_scoped F scope s = (r, s') \<Longrightarrow> sg_meta s' = sg_meta s"
  by (auto simp: open_scoped_def split: sum.splits prod.splits option.splits)

lemma GetBucketFS_meta: "GetBucketFS F b s = (r, s') \<Longrightarrow> sg_meta s' = sg_meta s"
  unfolding GetBucketFS_def by (rule open_scoped_meta)

lemma GetUploadStagingFS_meta: "GetUploadStagingFS F b s = (r, s') \<Longrightarrow> sg_meta s' = sg_meta s"
  unfolding GetUploadStagingFS_def by (rule open_scoped_meta)

lemma find_object_meta: "find_object F b k s = (r, s') \<Longrightarrow> sg_meta s' = sg_meta s"
  unfolding find_object_def
  by (auto split: sum.splits bool.splits option.splits prod.splits fs_error.splits if_splits dest: GetBucketFS_meta)

lemma write_staged_meta: "write_staged F p body s = (r, s') \<Longrightarrow> sg_meta s' = sg_meta s"
  by (auto simp: write_staged_def abortObject_def split: prod.splits option.splits if_splits)

lemma make_parents_meta: "make_parents F base k s = (r, s') \<Longrightarrow> sg_meta s' = sg_meta s"
  by (auto simp: make_parents_def Let_def split: prod.splits if_splits)

lemma commitObject_meta: "commitObject F p b k s = (r, s') \<Longrightarrow> sg_meta s' = sg_meta s"
  by (auto simp: commitObject_def split: prod.splits)

lemma stageObject_meta: "stageObject F tmp b s = (r, s') \<Longrightarrow> sg_meta s' = sg_meta s"
  unfolding stageObject_def
  by (auto split: sum.splits prod.splits option.splits dest!: GetUploadStagingFS_meta)

lemma CleanupMultipartUpload_meta: "CleanupMultipartUpload F b up s = (r, s') \<Longrightarrow> sg_meta s' = sg_meta s"
  unfolding CleanupMultipartUpload_def by (auto split: prod.splits sum.splits dest!: GetUploadStagingFS_meta)

section \<open>Parts that survive the operations on objects\<close>

text \<open>A part of the metadata and the engine are as they were.\<close>

definition same_part :: "(meta_store \<Rightarrow> 'x) \<Rightarrow> ('f) s3_service \<Rightarrow> ('f) s3_service \<Rightarrow> bool" where
  "same_part part s s' \<longleftrightarrow> part (sv_meta s') = part (sv_meta s) \<and> sv_engine s' = sv_engine s"

lemma same_part_trans [trans]: "same_part part s s' \<Longrightarrow> same_part part s' s'' \<Longrightarrow> same_part part s s''"
  by (simp add: same_part_def)

lemma same_part_refl [simp]: "same_part part s s"
  by (simp add: same_part_def)

locale object_frame =
  fixes part :: "meta_store \<Rightarrow> 'x"
  assumes put_keeps [simp]: "part (PutObjectMetadata b k m st) = part st"
    and delete_keeps [simp]: "part (DeleteObjectMetadata b k st) = part st"
    and cache_keeps [simp]: "part (st\<lparr>ms_objMetaCache := c\<rparr>) = part st"
begin

lemma GetObjectMetadata_keeps: "GetObjectMetadata b k st = (r, st') \<Longrightarrow> part st' = part st"
  by (auto simp: GetObjectMetadata_def split: option.splits)

lemma basic_keeps: "object_metadata_or_basic F md5 b k p i s = (r, s') \<Longrightarrow> part (sg_meta s') = part (sg_meta s)"
  by (auto simp: object_metadata_or_basic_def split: sum.splits prod.splits dest: GetObjectMetadata_keeps)

lemma GetObject_keeps: "GetObject F md5 b k s = (r, s') \<Longrightarrow> part (sg_meta s') = part (sg_meta s)"
  unfolding GetObject_def
  by (auto split: sum.splits prod.splits dest!: find_object_meta basic_keeps)

lemma StorageGetObjectMetadata_keeps: "StorageGetObjectMetadata F md5 b k s = (r, s') \<Longrightarrow> part (sg_meta s') = part (sg_meta s)"
  unfolding StorageGetObjectMetadata_def
  by (auto split: sum.splits prod.splits dest!: find_object_meta basic_keeps)

lemma DeleteObject_keeps: "DeleteObject F b k s = (r, s') \<Longrightarrow> part (sg_meta s') = part (sg_meta s)"
  unfolding DeleteObject_def
  by (auto split: sum.splits prod.splits option.splits dest!: find_object_meta)

lemma save_put_metadata_keeps: "save_put_metadata F env b k m s = (r, s') \<Longrightarrow> part (sg_meta s') = part (sg_meta s)"
  by (auto simp: save_put_metadata_def split: if_splits)

lemma write_object_keeps: "PutObject F md5 env b k body ct cm s = (r, s') \<Longrightarrow> part (sg_meta s') = part (sg_meta s)"
  unfolding PutObject_def
  by (auto simp: abortObject_def split: sum.splits bool.splits option.splits prod.splits if_splits
      dest!: GetBucketFS_meta make_parents_meta stageObject_meta write_staged_meta commitObject_meta
        save_put_metadata_keeps)

lemma with_meta_same: "part m = part (sv_meta s) \<Longrightarrow> same_part part s (with_meta m s)"
  by (simp add: same_part_def)

lemma on_storage_same:
  assumes "on_storage act s = (r, s')" "\<And>r' sg. act (sv_storage s) = (r', sg) \<Longrightarrow> part (sg_meta sg) = part (sv_meta s)"
  shows "same_part part s s'"
  using assms by (auto simp: on_storage_def same_part_def split: prod.splits sum.splits)

lemma on_storage_unit_same:
  assumes "on_storage_unit act s = (r, s')" "\<And>r' sg. act (sv_storage s) = (r', sg) \<Longrightarrow> part (sg_meta sg) = part (sv_meta s)"
  shows "same_part part s s'"
  using assms by (auto simp: on_storage_unit_def same_part_def split: prod.splits)

lemma S3PutObject_same: "S3PutObject F md5 env b k body ct cm s = (r, s') \<Longrightarrow> same_part part s s'"
  unfolding S3PutObject_def by (erule on_storage_same) (rule write_object_keeps)

lemma S3GetObject_same: "S3GetObject F md5 b k s = (r, s') \<Longrightarrow> same_part part s s'"
  unfolding S3GetObject_def by (erule on_storage_same) (rule GetObject_keeps)

lemma HeadObject_same: "HeadObject F md5 b k s = (r, s') \<Longrightarrow> same_part part s s'"
  unfolding HeadObject_def
  by (auto split: prod.splits sum.splits intro: StorageGetObjectMetadata_keeps elim: on_storage_same)

lemma S3DeleteObject_same: "S3DeleteObject F b k s = (r, s') \<Longrightarrow> same_part part s s'"
  unfolding S3DeleteObject_def
  by (auto split: prod.splits option.splits intro: DeleteObject_keeps elim: on_storage_unit_same)

lemma ObjectExists_same: "ObjectExists F md5 b k s = (r, s') \<Longrightarrow> same_part part s s'"
  unfolding ObjectExists_def by (auto split: prod.splits sum.splits dest: HeadObject_same)

lemma GetObjectOwnerUUID_same: "GetObjectOwnerUUID F b k s = (r, s') \<Longrightarrow> same_part part s s'"
  unfolding GetObjectOwnerUUID_def
  by (auto split: prod.splits sum.splits intro!: with_meta_same dest: GetObjectMetadata_keeps)

lemma GetObjectOwner_same: "GetObjectOwner F C b k s = (r, s') \<Longrightarrow> same_part part s s'"
  unfolding GetObjectOwner_def by (auto split: prod.splits sum.splits dest: GetObjectOwnerUUID_same)

lemma S3CopyObject_same: "S3CopyObject F md5 U env b k b' k' s = (r, s') \<Longrightarrow> same_part part s s'"
  unfolding S3CopyObject_def
  by (auto split: prod.splits sum.splits option.splits
      dest!: S3GetObject_same S3PutObject_same intro: same_part_trans)

lemma GetObjectWithRange_same: "GetObjectWithRange F md5 U b k i j s = (r, s') \<Longrightarrow> same_part part s s'"
  unfolding GetObjectWithRange_def by (auto split: prod.splits sum.splits option.splits dest: S3GetObject_same)

lemma delete_one_same: "delete_one F b q ob (resp, s) = (resp', s') \<Longrightarrow> same_part part s s'"
proof -
  obtain e s1 where d: "on_storage_unit (DeleteObject F b (od_key ob)) s = (e, s1)" by fastforce
  assume "delete_one F b q ob (resp, s) = (resp', s')"
  with d have "s' = s1" by (auto simp: delete_one_def split: if_splits)
  with on_storage_unit_same[OF d] DeleteObject_keeps show ?thesis by blast
qed

lemma delete_all_same: "fold (delete_one F b q) obs (resp, s) = (resp', s') \<Longrightarrow> same_part part s s'"
proof (induction obs arbitrary: resp s)
  case (Cons ob obs)
  obtain resp1 s1 where d: "delete_one F b q ob (resp, s) = (resp1, s1)" by fastforce
  with Cons show ?case using same_part_trans[OF delete_one_same[OF d]] by simp
qed simp

lemma DeleteObjects_same: "DeleteObjects F U b obs q s = (r, s') \<Longrightarrow> same_part part s s'"
  unfolding DeleteObjects_def
  by (auto split: prod.splits sum.splits option.splits if_splits bool.splits dest: delete_all_same)

lemma tagged_object_same: "tagged_object F md5 U b k s = (r, s') \<Longrightarrow> same_part part s s'"
  unfolding tagged_object_def
  by (auto split: prod.splits sum.splits option.splits bool.splits dest!: ObjectExists_same GetObjectMetadata_keeps
      intro: same_part_trans with_meta_same)

lemma PutObjectTagging_same: "PutObjectTagging F md5 U b k tags s = (r, s') \<Longrightarrow> same_part part s s'"
  unfolding PutObjectTagging_def
  by (auto simp: same_part_def split: prod.splits sum.splits dest!: tagged_object_same)

lemma GetObjectTagging_same: "GetObjectTagging F md5 U b k s = (r, s') \<Longrightarrow> same_part part s s'"
  unfolding GetObjectTagging_def by (auto split: prod.splits sum.splits dest: tagged_object_same)

lemma staged_keeps:
  "in_staging F b act s = (r, s') \<Longrightarrow> (\<And>base s0 r s1. act base s0 = (r, s1) \<Longrightarrow> part (sg_meta s1) = part (sg_meta s0)) \<Longrightarrow> part (sg_meta s') = part (sg_meta s)"
  unfolding in_staging_def by (auto split: prod.splits sum.splits dest!: GetUploadStagingFS_meta)

lemma CreateMultipartUpload_keeps: "CreateMultipartUpload F J now up b k ct cm s = (r, s') \<Longrightarrow> part (sg_meta s') = part (sg_meta s)"
  unfolding CreateMultipartUpload_def
  by (auto split: sum.splits option.splits prod.splits elim!: staged_keeps)

lemma UploadPart_keeps: "UploadPart F md5 J now b up n body s = (r, s') \<Longrightarrow> part (sg_meta s') = part (sg_meta s)"
  unfolding UploadPart_def Let_def
  by (erule staged_keeps) (auto split: sum.splits option.splits prod.splits if_splits)

lemma CompleteMultipartUpload_keeps:
  "CompleteMultipartUpload F md5 J env b k up parts s = (r, s') \<Longrightarrow> part (sg_meta s') = part (sg_meta s)"
  unfolding CompleteMultipartUpload_def Let_def
proof (erule staged_keeps, goal_cases)
  case (1 base s0 r s1)
  have "part (sg_meta (snd (CleanupMultipartUpload F b up x))) = part (sg_meta x)" for x
    using CleanupMultipartUpload_meta[OF prod.collapse[symmetric]] by metis
  with 1 show ?case by (auto split: sum.splits option.splits prod.splits dest!: write_object_keeps)
qed

lemma AbortMultipartUpload_keeps: "AbortMultipartUpload F b up s = (r, s') \<Longrightarrow> part (sg_meta s') = part (sg_meta s)"
  unfolding AbortMultipartUpload_def
  by (erule staged_keeps)
    (auto split: sum.splits option.splits prod.splits dest!: CleanupMultipartUpload_meta)

lemma ListParts_keeps: "ListParts F J b up s = (r, s') \<Longrightarrow> part (sg_meta s') = part (sg_meta s)"
  unfolding ListParts_def by (erule staged_keeps) (auto split: sum.splits)

end

end
