(* ===== verification/S3ServiceProps.thy ===== *)
theory S3ServiceProps
  imports MetaFrame "HOL-Library.Multiset"
begin

text \<open>
  The S3 service as a whole: its steps, the policies that the engine enforces after any of them, and
  what tagging, copying and bulk deletion do to the objects.
\<close>

section \<open>The metadata of the buckets\<close>

abbreviation bk :: "('f) storage \<Rightarrow> (string \<times> bucket_metadata) list" where
  "bk s \<equiv> ms_buckets (sg_meta s)"

interpretation buckets_frame: object_frame ms_buckets
  by unfold_locales (simp_all add: PutObjectMetadata_def DeleteObjectMetadata_def)

text \<open>The metadata of the buckets and the engine are as they were.\<close>

abbreviation same_policies :: "('f) s3_service \<Rightarrow> ('f) s3_service \<Rightarrow> bool" where
  "same_policies \<equiv> same_part ms_buckets"

lemmas same_policies_def = same_part_def[of ms_buckets]

lemmas S3PutObject_policies = buckets_frame.S3PutObject_same
lemmas S3GetObject_policies = buckets_frame.S3GetObject_same
lemmas HeadObject_policies = buckets_frame.HeadObject_same
lemmas S3DeleteObject_policies = buckets_frame.S3DeleteObject_same
lemmas GetObjectOwner_policies = buckets_frame.GetObjectOwner_same
lemmas S3CopyObject_policies = buckets_frame.S3CopyObject_same
lemmas GetObjectWithRange_policies = buckets_frame.GetObjectWithRange_same
lemmas DeleteObjects_policies = buckets_frame.DeleteObjects_same
lemmas PutObjectTagging_policies = buckets_frame.PutObjectTagging_same
lemmas GetObjectTagging_policies = buckets_frame.GetObjectTagging_same
lemmas CreateMultipartUpload_buckets = buckets_frame.CreateMultipartUpload_keeps
lemmas UploadPart_buckets = buckets_frame.UploadPart_keeps
lemmas CompleteMultipartUpload_buckets = buckets_frame.CompleteMultipartUpload_keeps
lemmas AbortMultipartUpload_buckets = buckets_frame.AbortMultipartUpload_keeps
lemmas ListParts_buckets = buckets_frame.ListParts_keeps

section \<open>Steps of the service\<close>

text \<open>Every operation of the service that can change its state. The operations on multipart uploads work
  on the storage alone; the objects' metadata may be evicted from their cache at any time.\<close>

inductive s3_step ::
  "('f) fs_ops \<Rightarrow> (string \<Rightarrow> string) \<Rightarrow> unicode_tables \<Rightarrow> ('f) s3_service \<Rightarrow> ('f) s3_service \<Rightarrow> bool"
  for F md5 U s where
  step_create: "S3CreateBucket F U now user nm policy s = (rc, s') \<Longrightarrow> s3_step F md5 U s s'"
| step_delete_bucket: "S3DeleteBucket F b s = (rd, s') \<Longrightarrow> s3_step F md5 U s s'"
| step_owner: "S3SetBucketOwner b ow s = (ro, s') \<Longrightarrow> s3_step F md5 U s s'"
| step_object_owner: "GetObjectOwner F C b k s = (roo, s') \<Longrightarrow> s3_step F md5 U s s'"
| step_put: "S3PutObject F md5 env b k body ct cm s = (rp, s') \<Longrightarrow> s3_step F md5 U s s'"
| step_get: "S3GetObject F md5 b k s = (rg, s') \<Longrightarrow> s3_step F md5 U s s'"
| step_range: "GetObjectWithRange F md5 U b k i j s = (rr, s') \<Longrightarrow> s3_step F md5 U s s'"
| step_head: "HeadObject F md5 b k s = (rh, s') \<Longrightarrow> s3_step F md5 U s s'"
| step_delete: "S3DeleteObject F b k s = (rx, s') \<Longrightarrow> s3_step F md5 U s s'"
| step_bulk: "DeleteObjects F U b obs q s = (rb, s') \<Longrightarrow> s3_step F md5 U s s'"
| step_copy: "S3CopyObject F md5 U env b k b' k' s = (ry, s') \<Longrightarrow> s3_step F md5 U s s'"
| step_put_tags: "PutObjectTagging F md5 U b k tags s = (rt, s') \<Longrightarrow> s3_step F md5 U s s'"
| step_get_tags: "GetObjectTagging F md5 U b k s = (ru, s') \<Longrightarrow> s3_step F md5 U s s'"
| step_put_policy: "PutBucketPolicy F now b doc s = (rq, s') \<Longrightarrow> s3_step F md5 U s s'"
| step_delete_policy: "DeleteBucketPolicy F b s = (rz, s') \<Longrightarrow> s3_step F md5 U s s'"
| step_initiate: "CreateMultipartUpload F J now up b k ct cm (sv_storage s) = (m1, sg) \<Longrightarrow>
    s3_step F md5 U s (s\<lparr>sv_storage := sg\<rparr>)"
| step_part: "UploadPart F md5 J now b up n body (sv_storage s) = (m2, sg) \<Longrightarrow> s3_step F md5 U s (s\<lparr>sv_storage := sg\<rparr>)"
| step_complete: "CompleteMultipartUpload F md5 J env b k up parts (sv_storage s) = (m3, sg) \<Longrightarrow>
    s3_step F md5 U s (s\<lparr>sv_storage := sg\<rparr>)"
| step_abort: "AbortMultipartUpload F b up (sv_storage s) = (m4, sg) \<Longrightarrow> s3_step F md5 U s (s\<lparr>sv_storage := sg\<rparr>)"
| step_list_parts: "ListParts F J b up (sv_storage s) = (m5, sg) \<Longrightarrow> s3_step F md5 U s (s\<lparr>sv_storage := sg\<rparr>)"
| step_evict: "s3_step F md5 U s (with_meta (evict_object_metadata ck (sv_meta s)) s)"

section \<open>Bucket policies\<close>

definition stored_policy :: "meta_store \<Rightarrow> string \<Rightarrow> policy_document option" where
  "stored_policy st b = (case map_of (ms_buckets st) b of None \<Rightarrow> None | Some m \<Rightarrow> bm_bucketPolicy m)"

definition enforced_policy :: "('f) s3_service \<Rightarrow> string \<Rightarrow> policy_document option" where
  "enforced_policy s b = (case sv_engine s of None \<Rightarrow> None | Some e \<Rightarrow> GetBucketPolicy (e_cache e) b)"

definition policies_enforced :: "('f) s3_service \<Rightarrow> bool" where
  "policies_enforced s \<longleftrightarrow> sv_engine s \<noteq> None \<and>
     (\<forall>b doc. stored_policy (sv_meta s) b = Some doc \<longrightarrow> enforced_policy s b = Some doc)"

lemma same_policies_enforced: "same_policies s s' \<Longrightarrow> policies_enforced s \<Longrightarrow> policies_enforced s'"
  by (simp add: same_policies_def policies_enforced_def stored_policy_def enforced_policy_def)

lemma GetBucketPolicy_set: "GetBucketPolicy (SetBucketPolicy c b doc) b' = (if b' = b then doc else GetBucketPolicy c b')"
  by (simp add: GetBucketPolicy_def SetBucketPolicy_def)

lemma stored_policy_save: "stored_policy (saveBucketMetadata b m st) b' = (if b' = b then bm_bucketPolicy m else stored_policy st b')"
  by (simp add: stored_policy_def saveBucketMetadata_def)

text \<open>Changing a policy changes it in both places.\<close>

lemma change_policy_enforced:
  assumes "change_policy F b store notify s = (r, s')" "policies_enforced s"
    and "\<And>st e st'. store st = (e, st') \<Longrightarrow> e = None \<and> (\<forall>b'. stored_policy st' b' = (if b' = b then doc else stored_policy st b'))
      \<or> e \<noteq> None \<and> st' = st"
    and "\<And>e b'. GetBucketPolicy (e_cache (notify e)) b' = (if b' = b then doc else GetBucketPolicy (e_cache e) b')"
  shows "policies_enforced s'"
proof -
  obtain err st' where st: "store (sv_meta s) = (err, st')" by fastforce
  have "same_policies s s' \<or> (err = None \<and> s' = (with_meta st' s)\<lparr>sv_engine := map_option notify (sv_engine s)\<rparr>)"
    using assms(1) st assms(3)[OF st]
    by (auto simp: change_policy_def same_policies_def split: sum.splits bool.splits option.splits)
  then show ?thesis
  proof (elim disjE conjE)
    assume "err = None" and s': "s' = (with_meta st' s)\<lparr>sv_engine := map_option notify (sv_engine s)\<rparr>"
    with assms(2) assms(3)[OF st] assms(4) show ?thesis
      by (auto simp: policies_enforced_def enforced_policy_def)
  qed (use same_policies_enforced assms(2) in blast)
qed

lemma SetBucketOwner_policies:
  "SetBucketOwner b ow st = (e, st') \<Longrightarrow> stored_policy st' b' = stored_policy st b'"
  by (auto simp: SetBucketOwner_def GetBucketMetadata_def stored_policy_save split: sum.splits option.splits)
    (auto simp: stored_policy_def)

lemma CreateBucket_policies:
  "CreateBucket F now user b sg = (e, sg') \<Longrightarrow> stored_policy (sg_meta sg') b' = Some doc \<Longrightarrow> stored_policy (sg_meta sg) b' = Some doc"
  by (auto simp: CreateBucket_def MetaCreateBucket_def stored_policy_save split: option.splits sum.splits prod.splits if_splits)

lemma DeleteBucket_policies:
  "DeleteBucket F b sg = (e, sg') \<Longrightarrow> stored_policy (sg_meta sg') b' = Some doc \<Longrightarrow> stored_policy (sg_meta sg) b' = Some doc"
  by (auto simp: DeleteBucket_def MetaDeleteBucket_def stored_policy_def
      split: option.splits sum.splits prod.splits if_splits fs_error.splits)

lemma map_of_map_filter:
  "map_of (List.map_filter (\<lambda>(k, _). map_option (Pair k) (g k)) kvs) k =
     (if k \<in> fst ` set kvs then g k else None)"
  by (induction kvs) (auto simp: map_filter_simps split: option.splits)

lemma start_enforced: "policies_enforced (start_service F fs st rv)"
proof -
  let ?g = "\<lambda>b. map_option Some (stored_policy st b)"
  have "(\<lambda>(b, _ :: bucket_metadata). case GetBucketMetadata st b of
           Inl _ \<Rightarrow> None
         | Inr meta \<Rightarrow> (case bm_bucketPolicy meta of None \<Rightarrow> None | Some d \<Rightarrow> Some (b, Some d))) =
      (\<lambda>(b, _). map_option (Pair b) (?g b))"
    by (auto simp: GetBucketMetadata_def stored_policy_def fun_eq_iff split: option.split)
  then have m: "MetaGetAllBucketPolicies st = List.map_filter (\<lambda>(b, _). map_option (Pair b) (?g b)) (ms_buckets st)"
    by (simp add: MetaGetAllBucketPolicies_def)
  have p: "map_of (MetaGetAllBucketPolicies st) b = Some (Some doc)" if "stored_policy st b = Some doc" for b doc
  proof -
    have "b \<in> fst ` set (ms_buckets st)"
      using that by (auto simp: stored_policy_def split: option.splits dest!: map_of_SomeD intro: rev_image_eqI)
    with that show ?thesis unfolding m map_of_map_filter by simp
  qed
  then have "MetaGetAllBucketPolicies st \<noteq> []" if "stored_policy st b = Some doc" for b doc using that by fastforce
  with p show ?thesis
    by (auto simp: policies_enforced_def enforced_policy_def start_service_def NewStorage_def start_engine_def Let_def
        EngineLoadBucketPolicies_def LoadBucketPolicies_def GetBucketPolicy_def)
qed

lemma storage_policies: "bk sg = bk (sv_storage s) \<Longrightarrow> same_policies s (s\<lparr>sv_storage := sg\<rparr>)"
  by (simp add: same_policies_def)

lemmas keep_policies = S3PutObject_policies S3GetObject_policies HeadObject_policies S3DeleteObject_policies
  GetObjectOwner_policies S3CopyObject_policies GetObjectWithRange_policies DeleteObjects_policies
  PutObjectTagging_policies GetObjectTagging_policies

lemmas keep_buckets = CreateMultipartUpload_buckets UploadPart_buckets CompleteMultipartUpload_buckets
  AbortMultipartUpload_buckets ListParts_buckets

lemma step_enforced:
  assumes "s3_step F md5 U s s'" "policies_enforced s"
  shows "policies_enforced s'"
  using assms(1)
proof cases
  case (step_create now user nm policy rc)
  then have "sv_engine s' = sv_engine s \<and>
      (\<forall>b doc. stored_policy (sv_meta s') b = Some doc \<longrightarrow> stored_policy (sv_meta s) b = Some doc)"
    by (auto simp: S3CreateBucket_def on_storage_unit_def split: option.splits sum.splits bool.splits prod.splits if_splits
        dest: CreateBucket_policies)
  with assms(2) show ?thesis by (simp add: policies_enforced_def enforced_policy_def)
next
  case (step_delete_bucket b rd)
  then have "sv_engine s' = sv_engine s \<and>
      (\<forall>b doc. stored_policy (sv_meta s') b = Some doc \<longrightarrow> stored_policy (sv_meta s) b = Some doc)"
    by (auto simp: S3DeleteBucket_def on_storage_unit_def split: prod.splits dest: DeleteBucket_policies)
  with assms(2) show ?thesis by (simp add: policies_enforced_def enforced_policy_def)
next
  case (step_owner b ow ro)
  then have "sv_engine s' = sv_engine s \<and> (\<forall>b. stored_policy (sv_meta s') b = stored_policy (sv_meta s) b)"
    by (auto simp: S3SetBucketOwner_def split: prod.splits option.splits dest: SetBucketOwner_policies)
  with assms(2) show ?thesis by (simp add: policies_enforced_def enforced_policy_def)
next
  case (step_put_policy now b doc rq)
  from step_put_policy[unfolded PutBucketPolicy_def] assms(2) show ?thesis
  proof (rule change_policy_enforced)
    show "GetBucketPolicy (e_cache (UpdateBucketPolicy e b doc)) b' = (if b' = b then doc else GetBucketPolicy (e_cache e) b')" for e b'
      by (simp add: UpdateBucketPolicy_def GetBucketPolicy_set)
  qed (auto simp: MetaSetBucketPolicy_def stored_policy_save split: sum.splits)
next
  case (step_delete_policy b rz)
  from step_delete_policy[unfolded DeleteBucketPolicy_def] assms(2) show ?thesis
  proof (rule change_policy_enforced)
    show "GetBucketPolicy (e_cache (EngineDeleteBucketPolicy e b)) b' = (if b' = b then None else GetBucketPolicy (e_cache e) b')" for e b'
      by (simp add: EngineDeleteBucketPolicy_def GetBucketPolicy_set)
  qed (auto simp: MetaDeleteBucketPolicy_def stored_policy_save split: sum.splits)
next
  case step_evict
  then have "same_policies s s'" by (simp add: same_policies_def evict_object_metadata_def)
  then show ?thesis using assms(2) by (rule same_policies_enforced)
qed (insert assms(2), (drule keep_policies, erule same_policies_enforced, assumption |
      drule keep_buckets, simp only:, rule same_policies_enforced[OF storage_policies], assumption, assumption)+)


text \<open>Every stored bucket policy is enforced: after the start and any sequence of operations of the
  service, creations and deletions of buckets and all object and multipart operations included, a
  policy that is stored for a bucket is the one the engine evaluates requests for the bucket with.\<close>

theorem stored_policies_enforced:
  assumes "(s3_step F md5 U)\<^sup>*\<^sup>* (start_service F fs st rv) s" "stored_policy (sv_meta s) b = Some doc"
  shows "\<exists>e. sv_engine s = Some e \<and> GetBucketPolicy (e_cache e) b = Some doc \<and>
    (\<forall>L res req. rs_bucket res = b \<longrightarrow> checkBucketPolicy L e res req = evaluatePolicy L (Some doc) req)"
proof -
  have "policies_enforced s"
    using assms(1)
  proof (induction rule: rtranclp_induct)
    case base
    show ?case by (rule start_enforced)
  next
    case (step y z)
    from step.hyps(2) step.IH show ?case by (rule step_enforced)
  qed
  with assms(2) show ?thesis
    by (auto simp: policies_enforced_def enforced_policy_def checkBucketPolicy_def)
qed

text \<open>C26. The converse fails: deleting a bucket leaves its policy in the engine, so a bucket that is created
  again under the name has no policy in its metadata, but requests for it are decided by the policy
  of the deleted bucket. The policy in the request that creates it is dropped.\<close>

theorem recreated_bucket_inherits_policy:
  assumes "sv_engine s = Some e" "PutBucketPolicy F t b (Some doc) s = (None, s1)"
    and "S3DeleteBucket F b s1 = (None, s2)" "S3CreateBucket F U now user b pol s2 = (Inr meta, s3)"
  shows "bm_bucketPolicy meta = None \<and> stored_policy (sv_meta s3) b = None \<and>
    (\<exists>e. sv_engine s3 = Some e \<and>
       (\<forall>L res req. rs_bucket res = b \<longrightarrow> checkBucketPolicy L e res req = evaluatePolicy L (Some doc) req))"
proof -
  have s1: "sv_engine s1 = Some (UpdateBucketPolicy e b (Some doc))"
    using assms(1,2) by (auto simp: PutBucketPolicy_def change_policy_def split: sum.splits bool.splits prod.splits option.splits)
  have s2: "sv_engine s2 = sv_engine s1" using assms(3) by (auto simp: S3DeleteBucket_def on_storage_unit_def split: prod.splits)
  have s3: "sv_engine s3 = sv_engine s2 \<and> bm_bucketPolicy meta = None \<and> stored_policy (sv_meta s3) b = None"
    using assms(4)
    by (auto simp: S3CreateBucket_def on_storage_unit_def CreateBucket_def MetaCreateBucket_def GetBucket_def
        GetBucketMetadata_def saveBucketMetadata_def stored_policy_def
        split: option.splits sum.splits bool.splits prod.splits if_splits)
  have "GetBucketPolicy (e_cache (UpdateBucketPolicy e b (Some doc))) b = Some doc"
    by (simp add: UpdateBucketPolicy_def GetBucketPolicy_set)
  with s1 s2 s3 show ?thesis by (simp add: checkBucketPolicy_def)
qed

section \<open>Operations that only read\<close>

text \<open>The same files, and the same metadata whichever way they are read.\<close>

definition reads_same :: "('f) fs_view \<Rightarrow> ('f) storage \<Rightarrow> ('f) storage \<Rightarrow> bool" where
  "reads_same V s s' \<longleftrightarrow> V (sg_fs s') = V (sg_fs s) \<and>
     (\<forall>b k. isValidBucketName b \<longrightarrow>
        fst (GetObjectMetadata b k (sg_meta s')) = fst (GetObjectMetadata b k (sg_meta s)))"

lemma reads_same_refl [simp]: "reads_same V s s"
  by (simp add: reads_same_def)

lemma reads_same_trans: "reads_same V s s' \<Longrightarrow> reads_same V s' s'' \<Longrightarrow> reads_same V s s''"
  by (simp add: reads_same_def)

lemma metadata_cached:
  assumes "isValidBucketName b" "isValidBucketName b'"
  shows "fst (GetObjectMetadata b' k' (snd (GetObjectMetadata b k st))) = fst (GetObjectMetadata b' k' st)"
proof (cases "b' = b \<and> k' = k")
  case False
  then have "cacheKey b' k' \<noteq> cacheKey b k"
    using cacheKey_inject[OF valid_bucket_chars(2)[OF assms(2)] valid_bucket_chars(2)[OF assms(1)]] by blast
  then show ?thesis by (auto simp: GetObjectMetadata_def split: option.split)
qed (auto simp: GetObjectMetadata_def split: option.split)

lemma find_object_same:
  assumes "fs_laws F V" "isValidBucketName b" "find_object F b k s = (r, s')"
  shows "V (sg_fs s') = V (sg_fs s) \<and> sg_meta s' = sg_meta s"
proof (cases "BucketExists F b s = Inr True \<and> ValidatePathSafe k = None")
  case False
  with assms(3) show ?thesis by (auto simp: find_object_def split: sum.splits bool.splits option.splits)
next
  case True
  obtain r0 s0 where g: "GetBucketFS F b s = (r0, s0)" by fastforce
  have "s' = s0" using assms(3) True g
    by (auto simp: find_object_def split: sum.splits fs_error.splits if_splits)
  with GetBucketFS_existing(1,2)[OF assms(1,2) BucketExists_True[OF assms(1,2)] g] True show ?thesis by simp
qed

lemma basic_reads:
  assumes "isValidBucketName b" "object_metadata_or_basic F md5 b k p i s = (r, s')"
  shows "reads_same V s s'"
proof -
  have "s' = s\<lparr>sg_meta := snd (GetObjectMetadata b k (sg_meta s))\<rparr>"
    using assms(2) by (auto simp: object_metadata_or_basic_def split: prod.splits sum.splits)
  then show ?thesis using metadata_cached[OF assms(1)] by (simp add: reads_same_def)
qed

lemma find_object_reads:
  assumes "fs_laws F V" "isValidBucketName b" "find_object F b k s = (r, s')"
  shows "reads_same V s s'"
  using find_object_same[OF assms] by (simp add: reads_same_def)

lemma GetObject_reads:
  assumes "fs_laws F V" "isValidBucketName b" "GetObject F md5 b k s = (r, s')"
  shows "reads_same V s s'"
proof -
  obtain r1 s1 where f: "find_object F b k s = (r1, s1)" by fastforce
  have "reads_same V s1 s'"
    using assms(3) f by (auto simp: GetObject_def split: sum.splits prod.splits dest: basic_reads[OF assms(2)])
  with find_object_reads[OF assms(1,2) f] show ?thesis by (rule reads_same_trans)
qed

lemma StorageGetObjectMetadata_reads:
  assumes "fs_laws F V" "isValidBucketName b" "StorageGetObjectMetadata F md5 b k s = (r, s')"
  shows "reads_same V s s'" "(\<exists>m. r = Inr m) \<longleftrightarrow> (\<exists>x. fst (find_object F b k s) = Inr x)"
proof -
  obtain r1 s1 where f: "find_object F b k s = (r1, s1)" by fastforce
  have "reads_same V s1 s'"
    using assms(3) f by (auto simp: StorageGetObjectMetadata_def split: sum.splits prod.splits dest: basic_reads[OF assms(2)])
  with find_object_reads[OF assms(1,2) f] show "reads_same V s s'" by (rule reads_same_trans)
  show "(\<exists>m. r = Inr m) \<longleftrightarrow> (\<exists>x. fst (find_object F b k s) = Inr x)"
    using assms(3) f by (auto simp: StorageGetObjectMetadata_def split: sum.splits prod.splits)
qed

lemma find_object_Inr_iff:
  assumes "fs_laws F V" "isValidBucketName b"
  shows "(\<exists>x. fst (find_object F b k s) = Inr x) \<longleftrightarrow>
    ValidatePathSafe k = None \<and> V (sg_fs s) [b] = Some Folder \<and> file_at V (sg_fs s) (obj_elems b k) \<noteq> None"
proof -
  obtain r s' where f: "find_object F b k s = (r, s')" by fastforce
  show ?thesis
  proof (cases "ValidatePathSafe k = None \<and> V (sg_fs s) [b] = Some Folder")
    case True
    with find_object_spec(3)[OF assms _ _ f] f show ?thesis by (auto split: option.splits)
  next
    case False
    with find_object_bucket[OF assms] f show ?thesis by (cases r) auto
  qed
qed

text \<open>A readable object in terms of the state.\<close>

lemma GetObject_same:
  assumes "fs_laws F V" "isValidBucketName b" "reads_same V s s'"
  shows "fst (GetObject F md5 b k s') = Inr ob \<longleftrightarrow> fst (GetObject F md5 b k s) = Inr ob"
  using assms(3) unfolding GetObject_Inr_iff[OF assms(1,2)]
  by (simp add: reads_same_def object_value_def file_at_def assms(2))

section \<open>Tags\<close>

lemma HeadObject_reads:
  assumes "fs_laws F V" "isValidBucketName b" "HeadObject F md5 b k s = (r, s')"
  shows "reads_same V (sv_storage s) (sv_storage s')" "sv_engine s' = sv_engine s"
    "(\<exists>h. r = Inr h) \<longleftrightarrow> (\<exists>x. fst (find_object F b k (sv_storage s)) = Inr x)"
proof -
  obtain r1 sg where f: "StorageGetObjectMetadata F md5 b k (sv_storage s) = (r1, sg)" by fastforce
  have "s' = s\<lparr>sv_storage := sg\<rparr>" "(\<exists>h. r = Inr h) \<longleftrightarrow> (\<exists>m. r1 = Inr m)"
    using assms(3) f by (auto simp: HeadObject_def on_storage_def split: sum.splits)
  with StorageGetObjectMetadata_reads[OF assms(1,2) f] show "reads_same V (sv_storage s) (sv_storage s')"
    "sv_engine s' = sv_engine s" "(\<exists>h. r = Inr h) \<longleftrightarrow> (\<exists>x. fst (find_object F b k (sv_storage s)) = Inr x)"
    by simp_all
qed

lemma ObjectExists_reads:
  assumes "fs_laws F V" "isValidBucketName b" "ObjectExists F md5 b k s = (r, s')"
  shows "reads_same V (sv_storage s) (sv_storage s')"
    "r = Inr True \<longleftrightarrow> (\<exists>x. fst (find_object F b k (sv_storage s)) = Inr x)"
proof -
  obtain r1 s1 where h: "HeadObject F md5 b k s = (r1, s1)" by fastforce
  have "s' = s1" "r = Inr True \<longleftrightarrow> (\<exists>x. r1 = Inr x)"
    using assms(3) h by (auto simp: ObjectExists_def split: sum.splits if_splits)
  with HeadObject_reads[OF assms(1,2) h] show "reads_same V (sv_storage s) (sv_storage s')"
    "r = Inr True \<longleftrightarrow> (\<exists>x. fst (find_object F b k (sv_storage s)) = Inr x)" by simp_all
qed

lemma tagged_object_spec:
  assumes "fs_laws F V" "isValidBucketName b" "tagged_object F md5 U b k s = (r, s')"
  shows "reads_same V (sv_storage s) (sv_storage s')"
    "r = Inr m \<longleftrightarrow> valid_name U b k = None \<and> (\<exists>x. fst (find_object F b k (sv_storage s)) = Inr x) \<and>
       fst (GetObjectMetadata b k (sv_meta s)) = Inr m"
proof -
  obtain r1 s1 where h: "ObjectExists F md5 b k s = (r1, s1)" by fastforce
  note o = ObjectExists_reads[OF assms(1,2) h]
  let ?m = "GetObjectMetadata b k (sv_meta s1)"
  have t: "(r, s') = (case valid_name U b k of Some e \<Rightarrow> (Inl (S3Invalid e), s)
     | None \<Rightarrow> (case r1 of Inl e \<Rightarrow> (Inl e, s1) | Inr x \<Rightarrow> if x
          then (case fst ?m of Inl e \<Rightarrow> (Inl (S3Meta e), with_meta (snd ?m) s1)
             | Inr meta \<Rightarrow> (Inr meta, with_meta (snd ?m) s1))
          else (Inl (S3Err ErrNoSuchKey), s1)))"
    unfolding assms(3)[symmetric] tagged_object_def h
    by (auto split: option.split sum.split bool.split prod.split)
  have "reads_same V (sv_storage s1) (sv_storage (with_meta (snd ?m) s1))"
    using metadata_cached[OF assms(2)] by (simp add: reads_same_def)
  with o(1) t show "reads_same V (sv_storage s) (sv_storage s')"
    by (auto split: option.splits sum.splits if_splits intro: reads_same_trans)
  have "fst ?m = fst (GetObjectMetadata b k (sv_meta s))"
    using o(1) assms(2) by (simp add: reads_same_def)
  with t o(2) show "r = Inr m \<longleftrightarrow> valid_name U b k = None \<and> (\<exists>x. fst (find_object F b k (sv_storage s)) = Inr x) \<and>
       fst (GetObjectMetadata b k (sv_meta s)) = Inr m"
    by (auto split: option.splits sum.splits if_splits)
qed

text \<open>Tags that are set are read back, and setting them changes neither the object, its content, ETag,
  type and custom metadata, nor any object at another path.\<close>

theorem tagging_roundtrip:
  assumes laws: "fs_laws F V" "isValidBucketName b"
    and put: "PutObjectTagging F md5 U b k tags s = (None, s')"
  shows "fst (GetObjectTagging F md5 U b k s') = Inr tags \<and>
    (\<forall>b' k' ob. isValidBucketName b' \<longrightarrow> (b', k') = (b, k) \<or> obj_elems b' k' \<noteq> obj_elems b k \<longrightarrow>
       fst (S3GetObject F md5 b' k' s) = Inr ob \<longrightarrow> fst (S3GetObject F md5 b' k' s') = Inr ob)"
proof -
  obtain r1 s1 where t: "tagged_object F md5 U b k s = (r1, s1)" by fastforce
  with put obtain m where m: "r1 = Inr m" "s' = with_meta (PutObjectMetadata b k (m\<lparr>om_tags := tags\<rparr>) (sv_meta s1)) s1"
    by (auto simp: PutObjectTagging_def split: sum.splits)
  note sp = tagged_object_spec[OF laws t]
  have there: "valid_name U b k = None" "\<exists>x. fst (find_object F b k (sv_storage s)) = Inr x"
    "fst (GetObjectMetadata b k (sv_meta s)) = Inr m"
    using sp(2)[of m] m(1) by simp_all
  have V: "V (sg_fs (sv_storage s')) = V (sg_fs (sv_storage s))"
    using sp(1) m(2) by (simp add: reads_same_def)
  have written: "fst (GetObjectMetadata b k (sv_meta s')) = Inr (m\<lparr>om_tags := tags\<rparr>)"
    by (simp add: m(2) metadata_written)
  obtain r2 s2 where t2: "tagged_object F md5 U b k s' = (r2, s2)" by fastforce
  have "\<exists>x. fst (find_object F b k (sv_storage s')) = Inr x"
    using there(2) unfolding find_object_Inr_iff[OF laws] by (simp add: V file_at_def)
  with tagged_object_spec(2)[OF laws t2] there(1) written have r2: "r2 = Inr (m\<lparr>om_tags := tags\<rparr>)" by blast
  have "fst (GetObjectTagging F md5 U b k s') = Inr tags" by (simp add: GetObjectTagging_def t2 r2)
  moreover have "fst (S3GetObject F md5 b' k' s') = Inr ob"
    if b': "isValidBucketName b'" and other: "(b', k') = (b, k) \<or> obj_elems b' k' \<noteq> obj_elems b k"
      and get: "fst (S3GetObject F md5 b' k' s) = Inr ob" for b' k' ob
  proof -
    have eq: "fst (S3GetObject F md5 b' k' x) = Inr ob \<longleftrightarrow> fst (GetObject F md5 b' k' (sv_storage x)) = Inr ob" for x
      by (auto simp: S3GetObject_def on_storage_def split: prod.split sum.split)
    note iff = GetObject_Inr_iff[OF laws(1) b']
    have g: "fst (GetObject F md5 b' k' (sv_storage s)) = Inr ob" using get eq by blast
    then have k': "ValidatePathSafe k' = None" unfolding iff by blast
    have k: "ValidatePathSafe k = None" using there(2) unfolding find_object_Inr_iff[OF laws] by blast
    have "object_value md5 b' k' ct (sv_meta s') = object_value md5 b' k' ct (sv_meta s)" for ct
    proof (cases "(b', k') = (b, k)")
      case True
      with written there(3) show ?thesis by (simp add: object_value_def)
    next
      case False
      with other have "obj_elems b' k' \<noteq> obj_elems b k" by blast
      from metadata_other(1)[OF laws(2) k b' k' this]
      have "fst (GetObjectMetadata b' k' (sv_meta s')) = fst (GetObjectMetadata b' k' (sv_meta s1))"
        by (simp add: m(2))
      also have "\<dots> = fst (GetObjectMetadata b' k' (sv_meta s))" using sp(1) b' by (simp add: reads_same_def)
      finally show ?thesis by (simp add: object_value_def)
    qed
    then show ?thesis using g unfolding eq iff by (simp add: V file_at_def)
  qed
  ultimately show ?thesis by blast
qed

section \<open>Copies\<close>

text \<open>A successful copy has the content, the content type and the custom metadata of its source, with
  the MD5 of the content as ETag, and the source is read as before.\<close>

theorem copy_keeps_content:
  assumes laws: "fs_laws F V" "isValidBucketName b" "isValidBucketName b'"
    and env: "plain_elem (pe_tmp env)" "\<not> pe_metaFails env"
    and copy: "S3CopyObject F md5 U env b k b' k' s = (None, s')"
  shows "\<exists>ob ob'. fst (S3GetObject F md5 b k s) = Inr ob \<and> fst (S3GetObject F md5 b' k' s') = Inr ob' \<and>
    sb_content ob' = sb_content ob \<and> sb_etag ob' = hex_encode (md5 (sb_content ob)) \<and>
    sb_contentType ob' = (if sb_contentType ob = '''' then ''application/octet-stream'' else sb_contentType ob) \<and>
    sb_customMetadata ob' = sb_customMetadata ob \<and>
    (obj_elems b' k' \<noteq> obj_elems b k \<longrightarrow> fst (S3GetObject F md5 b k s') = Inr ob)"
proof -
  have eq: "fst (S3GetObject F md5 b k x) = Inr ob \<longleftrightarrow> fst (GetObject F md5 b k (sv_storage x)) = Inr ob" for x b k ob
    by (auto simp: S3GetObject_def on_storage_def split: prod.split sum.split)
  obtain r1 s1 where g: "S3GetObject F md5 b k s = (r1, s1)" by fastforce
  with copy obtain ob where ob: "r1 = Inr ob"
    by (auto simp: S3CopyObject_def split: sum.splits option.splits)
  obtain rg sg where gg: "GetObject F md5 b k (sv_storage s) = (rg, sg)" by fastforce
  then have sg: "sv_storage s1 = sg" "rg = Inr ob"
    using g ob by (auto simp: S3GetObject_def on_storage_def split: sum.splits)
  note rs = GetObject_reads[OF laws(1,2) gg]
  let ?ct = "if sb_contentType ob = '''' then ''application/octet-stream'' else sb_contentType ob"
  obtain r2 s2 where p: "S3PutObject F md5 env b' k' (sb_content ob, False) (sb_contentType ob) (sb_customMetadata ob) s1 = (r2, s2)"
    by fastforce
  have "s' = s2 \<and> (\<exists>etag. r2 = Inr etag)"
    using copy g ob p by (auto simp: S3CopyObject_def split: sum.splits option.splits)
  then obtain etag where s': "s' = s2" "r2 = Inr etag" by blast
  obtain rp sp where pp: "PutObject F md5 env b' k' (sb_content ob, False) ?ct (sb_customMetadata ob) sg = (rp, sp)" by fastforce
  have sp: "sv_storage s' = sp" "rp = Inr etag"
    using p s' pp sg(1) by (auto simp: S3PutObject_def on_storage_def split: sum.splits)
  obtain ob' where ob': "fst (GetObject F md5 b' k' sp) = Inr ob'" "sb_content ob' = sb_content ob"
    "sb_etag ob' = etag" "sb_contentType ob' = ?ct" "sb_customMetadata ob' = sb_customMetadata ob"
    "etag = hex_encode (md5 (sb_content ob))"
    using PutObject_stored[OF laws(1,3) env pp[unfolded sp(2)]] by blast
  have src: "fst (GetObject F md5 b k (sv_storage s)) = Inr ob" using gg sg(2) by simp
  then have "fst (GetObject F md5 b k sg) = Inr ob"
    using GetObject_same[OF laws(1,2) rs] by blast
  then have "obj_elems b' k' \<noteq> obj_elems b k \<longrightarrow> fst (GetObject F md5 b k sp) = Inr ob"
    using PutObject_keeps[OF laws(1,3) env(1) pp laws(2)] by metis
  with ob' src show ?thesis unfolding eq sp(1) by (intro exI[of _ ob] exI[of _ ob']) simp
qed

section \<open>Bulk deletion\<close>

definition readable :: "('f) fs_ops \<Rightarrow> string \<Rightarrow> string \<Rightarrow> ('f) storage \<Rightarrow> bool" where
  "readable F b k s \<longleftrightarrow> (\<exists>x. fst (find_object F b k s) = Inr x)"

lemma readable_iff:
  assumes "fs_laws F V" "isValidBucketName b"
  shows "readable F b k s \<longleftrightarrow> (\<exists>ob. fst (GetObject F md5 b k s) = Inr ob)"
  unfolding readable_def find_object_Inr_iff[OF assms] GetObject_Inr_iff[OF assms] by auto

lemma readable_same:
  assumes "fs_laws F V" "isValidBucketName b" "reads_same V s s'"
  shows "readable F b k s' \<longleftrightarrow> readable F b k s"
  using assms(3) unfolding readable_def find_object_Inr_iff[OF assms(1,2)] by (simp add: reads_same_def file_at_def)

text \<open>What a deletion does, whatever it answers.\<close>

lemma DeleteObject_files:
  fixes F :: "('f) fs_ops"
  assumes laws: "fs_laws F V" "isValidBucketName b" and del: "DeleteObject F b k s = (e, s')"
  shows "e = None \<or> e = Some (SErr ErrNoSuchKey) \<Longrightarrow> \<not> readable F b k s'"
    and "isValidBucketName b' \<Longrightarrow> readable F b' k' s' \<Longrightarrow> readable F b' k' s"
    and "isValidBucketName b' \<Longrightarrow> obj_elems b' k' \<noteq> obj_elems b k \<Longrightarrow> fst (GetObject F md5 b' k' s) = Inr ob \<Longrightarrow>
      fst (GetObject F md5 b' k' s') = Inr ob"
proof -
  obtain r1 s1 where f: "find_object F b k s = (r1, s1)" by fastforce
  note sm = find_object_same[OF laws f]
  have "(e = None \<or> e = Some (SErr ErrNoSuchKey) \<longrightarrow> \<not> readable F b k s') \<and>
    (isValidBucketName b' \<longrightarrow> readable F b' k' s' \<longrightarrow> readable F b' k' s) \<and>
    (isValidBucketName b' \<longrightarrow> obj_elems b' k' \<noteq> obj_elems b k \<longrightarrow> fst (GetObject F md5 b' k' s) = Inr ob \<longrightarrow>
      fst (GetObject F md5 b' k' s') = Inr ob)"
  proof (cases r1)
    case (Inl x)
    with del f have s': "s' = s1" "e = Some x" by (simp_all add: DeleteObject_def)
    have rs: "reads_same V s s'" using sm s' by (simp add: reads_same_def)
    have nr: "\<not> readable F b k s" using f Inl by (simp add: readable_def)
    have same: "readable F b' k' s' \<longleftrightarrow> readable F b' k' s" if "isValidBucketName b'" for b' k'
      by (rule readable_same[OF laws(1) that rs])
    show ?thesis using nr same laws(2) GetObject_same[OF laws(1) _ rs] by blast
  next
    case (Inr x)
    note fb = find_object_bucket[OF laws f[unfolded Inr]]
    note p = obj_path[OF laws(2) fb(1)]
    have x: "fst x = text_of (obj_elems b k)"
      using find_object_spec(3)[OF laws fb f] Inr by (auto split: option.splits)
    obtain e2 f2 where rm: "fo_remove F (text_of (obj_elems b k)) (sg_fs s1) = (e2, f2)" by fastforce
    note rl = remove_law[OF laws(1) p(2) rm]
    obtain e3 f3 where cl: "cleanupEmptyDirs F b (path_dir k) f2 = (e3, f3)" by fastforce
    note k3 = cleanupEmptyDirs_kept[OF laws path_dir_ok[OF laws(2) fb(1)] cl]
    have r: "(e, s') = (case e2 of Some y \<Rightarrow> (Some (SFs y), s1\<lparr>sg_fs := f2\<rparr>)
       | None \<Rightarrow> (map_option SFs e3, s1\<lparr>sg_fs := f3, sg_meta := DeleteObjectMetadata b k (sg_meta s1)\<rparr>))"
      using del f Inr rm cl x by (cases x) (auto simp: DeleteObject_def split: option.splits)
    have k2: "kept V (obj_elems b k) (sg_fs s) f2"
      unfolding kept_def by (simp add: rl(1) file_at_def sm)
    have there: "file_at V (sg_fs s) (obj_elems b k) \<noteq> None"
      using f Inr find_object_Inr_iff[OF laws, of k s] by simp
    have ne: "obj_elems b k \<noteq> [b']" for b'
      using there fb(2) by (auto simp: file_at_def obj_elems_def)
    show ?thesis
    proof (cases e2)
      case (Some y)
      then have e: "e = Some (SFs y)" and s': "s' = s1\<lparr>sg_fs := f2\<rparr>" using r by simp_all
      have "V f2 q = V (sg_fs s1) q" for q using rl Some by (cases "q = obj_elems b k") simp_all
      then have rs: "reads_same V s s'" using sm by (simp add: reads_same_def s' fun_eq_iff)
      have "readable F b' k' s' \<longleftrightarrow> readable F b' k' s" if "isValidBucketName b'" for b' k'
        by (rule readable_same[OF laws(1) that rs])
      with e show ?thesis using GetObject_same[OF laws(1) _ rs] by blast
    next
      case None
      then have s': "sg_fs s' = f3" "sg_meta s' = DeleteObjectMetadata b k (sg_meta s)" using r sm by simp_all
      have kp: "kept V (obj_elems b k) (sg_fs s) (sg_fs s')" unfolding s' by (rule kept_trans[OF k2 k3])
      have own: "obj_elems b' k' \<noteq> [] \<and> hd (obj_elems b' k') \<noteq> DirIOUploadsDir" if "isValidBucketName b'" for b' k'
        using bucket_not_uploads[OF that] by (simp add: obj_elems_def)
      have gone: "file_at V (sg_fs s') (obj_elems b k) = None"
        using k3[of "[]"] own[OF laws(2), of k] rl(2) None unfolding kept_def s' by (simp add: file_at_def)
      then have "\<not> readable F b k s'" unfolding readable_def find_object_Inr_iff[OF laws] by blast
      moreover have "readable F b' k' s" if b': "isValidBucketName b'" and rd: "readable F b' k' s'" for b' k'
      proof -
        note iff = find_object_Inr_iff[OF laws(1) b']
        have k': "ValidatePathSafe k' = None" "V (sg_fs s') [b'] = Some Folder" "file_at V (sg_fs s') (obj_elems b' k') \<noteq> None"
          using rd unfolding readable_def iff by blast+
        then have "obj_elems b' k' \<noteq> obj_elems b k" using gone by metis
        then have fa: "file_at V (sg_fs s) (obj_elems b' k') \<noteq> None"
          using kp own[OF b', of k'] k'(3) unfolding kept_def by metis
        have "strict_prefix [b'] (obj_elems b' k')"
          using k'(2,3) by (auto simp: obj_elems_def strict_prefix_def file_at_def)
        from tree_parent[OF laws(1) _ this] file_at_exists[OF fa] have "V (sg_fs s) [b'] = Some Folder" by blast
        with k'(1) fa show ?thesis unfolding readable_def iff by blast
      qed
      moreover have "fst (GetObject F md5 b' k' s') = Inr ob" if b': "isValidBucketName b'"
        and o: "obj_elems b' k' \<noteq> obj_elems b k" and g: "fst (GetObject F md5 b' k' s) = Inr ob" for b' k'
      proof (rule GetObject_kept[OF laws(1) b' g kp o _ ne])
        have "ValidatePathSafe k' = None" using g unfolding GetObject_Inr_iff[OF laws(1) b'] by blast
        from metadata_other(2)[OF laws(2) fb(1) b' this o]
        show "fst (GetObjectMetadata b' k' (sg_meta s')) = fst (GetObjectMetadata b' k' (sg_meta s))"
          unfolding s'(2) .
      qed
      ultimately show ?thesis by blast
    qed
  qed
  then show "e = None \<or> e = Some (SErr ErrNoSuchKey) \<Longrightarrow> \<not> readable F b k s'"
    "isValidBucketName b' \<Longrightarrow> readable F b' k' s' \<Longrightarrow> readable F b' k' s"
    "isValidBucketName b' \<Longrightarrow> obj_elems b' k' \<noteq> obj_elems b k \<Longrightarrow> fst (GetObject F md5 b' k' s) = Inr ob \<Longrightarrow>
      fst (GetObject F md5 b' k' s') = Inr ob" by blast+
qed

definition answered :: "delete_response \<Rightarrow> (string \<times> string) multiset" where
  "answered resp = mset (map (\<lambda>ob. (od_key ob, od_versionId ob)) (dr_deleted resp)) +
     mset (map (\<lambda>e. (de_key e, de_versionId e)) (dr_errors resp))"

abbreviation failed_keys :: "delete_response \<Rightarrow> string set" where
  "failed_keys resp \<equiv> de_key ` set (dr_errors resp)"

lemma delete_one_spec:
  fixes F :: "('f) fs_ops"
  assumes laws: "fs_laws F V" "isValidBucketName b" and d: "delete_one F b quiet ob (resp, s) = (resp', s')"
  shows "\<not> quiet \<Longrightarrow> answered resp' = answered resp + {#(od_key ob, od_versionId ob)#}"
    and "failed_keys resp \<subseteq> failed_keys resp'"
    and "od_key ob \<in> failed_keys resp' \<or> \<not> readable F b (od_key ob) (sv_storage s')"
    and "isValidBucketName b' \<Longrightarrow> readable F b' k' (sv_storage s') \<Longrightarrow> readable F b' k' (sv_storage s)"
    and "isValidBucketName b' \<Longrightarrow> obj_elems b' k' \<noteq> obj_elems b (od_key ob) \<Longrightarrow>
      fst (GetObject F md5 b' k' (sv_storage s)) = Inr x \<Longrightarrow> fst (GetObject F md5 b' k' (sv_storage s')) = Inr x"
proof -
  obtain e sg where del: "DeleteObject F b (od_key ob) (sv_storage s) = (e, sg)" by fastforce
  note f = DeleteObject_files[OF laws del]
  have nf: "from_store x = S3Err ErrNoSuchKey \<longleftrightarrow> x = SErr ErrNoSuchKey" for x by (cases x) simp_all
  have r: "(resp', s') = (if e = None \<or> e = Some (SErr ErrNoSuchKey) then
      (if quiet then resp else resp\<lparr>dr_deleted := dr_deleted resp @ [ob]\<rparr>, s\<lparr>sv_storage := sg\<rparr>)
    else (resp\<lparr>dr_errors := dr_errors resp @ [\<lparr>de_key = od_key ob, de_versionId = od_versionId ob,
      de_code = ''InternalError'', de_error = from_store (the e)\<rparr>]\<rparr>, s\<lparr>sv_storage := sg\<rparr>))"
    unfolding d[symmetric] by (cases e) (auto simp: delete_one_def on_storage_unit_def del nf)
  show "\<not> quiet \<Longrightarrow> answered resp' = answered resp + {#(od_key ob, od_versionId ob)#}"
    "failed_keys resp \<subseteq> failed_keys resp'"
    using r by (auto simp: answered_def split: if_splits)
  have s': "sv_storage s' = sg" using r by (auto split: if_splits)
  show "od_key ob \<in> failed_keys resp' \<or> \<not> readable F b (od_key ob) (sv_storage s')"
    using r f(1) unfolding s' by (auto split: if_splits)
  show "isValidBucketName b' \<Longrightarrow> readable F b' k' (sv_storage s') \<Longrightarrow> readable F b' k' (sv_storage s)"
    unfolding s' by (rule f(2))
  show "isValidBucketName b' \<Longrightarrow> obj_elems b' k' \<noteq> obj_elems b (od_key ob) \<Longrightarrow>
      fst (GetObject F md5 b' k' (sv_storage s)) = Inr x \<Longrightarrow> fst (GetObject F md5 b' k' (sv_storage s')) = Inr x"
    unfolding s' by (rule f(3))
qed

lemma delete_all_spec:
  fixes F :: "('f) fs_ops"
  assumes laws: "fs_laws F V" "isValidBucketName b"
  shows "fold (delete_one F b quiet) obs (resp, s) = (resp', s') \<Longrightarrow>
    (\<not> quiet \<longrightarrow> answered resp' = answered resp + mset (map (\<lambda>ob. (od_key ob, od_versionId ob)) obs)) \<and>
    failed_keys resp \<subseteq> failed_keys resp' \<and>
    (\<forall>ob\<in>set obs. od_key ob \<in> failed_keys resp' \<or> \<not> readable F b (od_key ob) (sv_storage s')) \<and>
    (isValidBucketName b' \<longrightarrow> readable F b' k' (sv_storage s') \<longrightarrow> readable F b' k' (sv_storage s)) \<and>
    (isValidBucketName b' \<longrightarrow> (\<forall>ob\<in>set obs. obj_elems b' k' \<noteq> obj_elems b (od_key ob)) \<longrightarrow>
      fst (GetObject F md5 b' k' (sv_storage s)) = Inr x \<longrightarrow> fst (GetObject F md5 b' k' (sv_storage s')) = Inr x)"
proof (induction obs arbitrary: resp s b' k')
  case (Cons ob obs)
  obtain resp1 s1 where d: "delete_one F b quiet ob (resp, s) = (resp1, s1)" by fastforce
  note one = delete_one_spec[OF laws d]
  have f: "fold (delete_one F b quiet) obs (resp1, s1) = (resp', s')" using Cons.prems d by simp
  note IH = Cons.IH[OF f]
  have a: "\<not> quiet \<longrightarrow> answered resp' = answered resp + mset (map (\<lambda>ob. (od_key ob, od_versionId ob)) (ob # obs))"
    using IH one(1) by simp
  have b: "failed_keys resp \<subseteq> failed_keys resp'" using IH[THEN conjunct2, THEN conjunct1] one(2) by (rule subset_trans[rotated])
  have "od_key ob \<in> failed_keys resp' \<or> \<not> readable F b (od_key ob) (sv_storage s')"
  proof (cases "od_key ob \<in> failed_keys resp1")
    case True
    with IH[THEN conjunct2, THEN conjunct1] show ?thesis by blast
  next
    case False
    with one(3) have "\<not> readable F b (od_key ob) (sv_storage s1)" by blast
    with IH[of b "od_key ob", THEN conjunct2, THEN conjunct2, THEN conjunct2, THEN conjunct1] laws(2) show ?thesis by metis
  qed
  with IH have c: "\<forall>ob\<in>set (ob # obs). od_key ob \<in> failed_keys resp' \<or> \<not> readable F b (od_key ob) (sv_storage s')"
    by simp
  have e: "isValidBucketName b' \<longrightarrow> readable F b' k' (sv_storage s') \<longrightarrow> readable F b' k' (sv_storage s)"
    using IH[of b' k'] one(4) by blast
  have g: "isValidBucketName b' \<longrightarrow> (\<forall>ob\<in>set (ob # obs). obj_elems b' k' \<noteq> obj_elems b (od_key ob)) \<longrightarrow>
      fst (GetObject F md5 b' k' (sv_storage s)) = Inr x \<longrightarrow> fst (GetObject F md5 b' k' (sv_storage s')) = Inr x"
    using IH[of b' k'] one(5) by simp
  from a b c e g show ?case by blast
qed simp


section \<open>Instances\<close>

definition ex_service :: "mem s3_service" where
  "ex_service =
     \<lparr>sv_storage = snd (PutObject mem_ops (\<lambda>d. d) ex_env ''photos'' ''a/b'' (''xyz'', False) ''text/plain'' [(''k'', ''v'')] ex_photos),
      sv_engine = Some (NewEngine None)\<rparr>"

definition ex_started :: "mem s3_service" where
  "ex_started = start_service mem_ops (sg_fs ex_photos) (sg_meta ex_photos) None"

definition ex_with_policy :: "mem s3_service" where
  "ex_with_policy = snd (PutBucketPolicy mem_ops 5 ''photos'' (Some (ex_doc ''Allow'')) ex_started)"

lemma ex_with_policy_run:
  "(fst (PutBucketPolicy mem_ops 5 ''photos'' (Some (ex_doc ''Allow'')) ex_started),
    stored_policy (sv_meta ex_with_policy) ''photos'') = (None, Some (ex_doc ''Allow''))"
  by code_simp

lemma ex_put_policy: "PutBucketPolicy mem_ops 5 ''photos'' (Some (ex_doc ''Allow'')) ex_started = (None, ex_with_policy)"
  unfolding ex_with_policy_def by (rule fst_pair) (use ex_with_policy_run in simp)

theorem stored_policies_enforced_witness:
  "\<exists>e. sv_engine ex_with_policy = Some e \<and> GetBucketPolicy (e_cache e) ''photos'' = Some (ex_doc ''Allow'')"
proof -
  have r: "(s3_step mem_ops (\<lambda>d. d) ex_unicode)\<^sup>*\<^sup>* (start_service mem_ops (sg_fs ex_photos) (sg_meta ex_photos) None) ex_with_policy"
    using step_put_policy[OF ex_put_policy] unfolding ex_started_def by (rule r_into_rtranclp)
  have p: "stored_policy (sv_meta ex_with_policy) ''photos'' = Some (ex_doc ''Allow'')"
    using ex_with_policy_run by simp
  from stored_policies_enforced[OF r p] show ?thesis by blast
qed

abbreviation ex_recreate :: "mem s3_service \<Rightarrow> (s3_error + bucket_metadata) \<times> mem s3_service" where
  "ex_recreate \<equiv> S3CreateBucket mem_ops ex_unicode 6 (Some ex_user) ''photos'' None"

lemma ex_deleted_run: "fst (S3DeleteBucket mem_ops ''photos'' ex_with_policy) = None"
  by code_simp

lemma ex_recreated_run:
  "map_sum (\<lambda>_. ()) bm_name (fst (ex_recreate (snd (S3DeleteBucket mem_ops ''photos'' ex_with_policy)))) = Inr ''photos''"
  by code_simp

theorem recreated_bucket_inherits_policy_witness:
  "\<exists>e. sv_engine (snd (ex_recreate (snd (S3DeleteBucket mem_ops ''photos'' ex_with_policy)))) = Some e \<and>
     (\<forall>L res req. checkBucketPolicy L e (res\<lparr>rs_bucket := ''photos''\<rparr>) req = evaluatePolicy L (Some (ex_doc ''Allow'')) req)"
proof -
  let ?s2 = "snd (S3DeleteBucket mem_ops ''photos'' ex_with_policy)"
  have d: "S3DeleteBucket mem_ops ''photos'' ex_with_policy = (None, ?s2)" by (rule fst_pair) (rule ex_deleted_run)
  obtain meta where "fst (ex_recreate ?s2) = Inr meta"
    using ex_recreated_run by (cases "fst (ex_recreate ?s2)") auto
  then have c: "ex_recreate ?s2 = (Inr meta, snd (ex_recreate ?s2))" by (rule fst_pair)
  have e: "sv_engine ex_started = Some (start_engine (sg_meta ex_photos) None)"
    by (simp add: ex_started_def start_service_def)
  from recreated_bucket_inherits_policy[OF e ex_put_policy d c] show ?thesis by fastforce
qed

abbreviation ex_tag :: "s3_error option \<times> mem s3_service" where
  "ex_tag \<equiv> PutObjectTagging mem_ops (\<lambda>d. d) ex_unicode ''photos'' ''a/b'' [(''t'', ''1'')] ex_service"

lemma ex_tag_run: "fst ex_tag = None"
  by code_simp

theorem tagging_roundtrip_witness:
  "fst (GetObjectTagging mem_ops (\<lambda>d. d) ex_unicode ''photos'' ''a/b'' (snd ex_tag)) = Inr [(''t'', ''1'')]"
  using tagging_roundtrip[OF mem_laws ex_bucket fst_pair[OF ex_tag_run]] by blast

abbreviation ex_copy :: "s3_error option \<times> mem s3_service" where
  "ex_copy \<equiv> S3CopyObject mem_ops (\<lambda>d. d) ex_unicode ex_env ''photos'' ''a/b'' ''photos'' ''c'' ex_service"

lemma ex_copy_run:
  "(fst ex_copy, map_sum (\<lambda>_. ()) sb_content (fst (S3GetObject mem_ops (\<lambda>d. d) ''photos'' ''a/b'' ex_service))) = (None, Inr ''xyz'')"
  by code_simp

theorem copy_keeps_content_witness:
  "\<exists>ob. fst (S3GetObject mem_ops (\<lambda>d. d) ''photos'' ''c'' (snd ex_copy)) = Inr ob \<and> sb_content ob = ''xyz''"
proof -
  have "fst ex_copy = None" using ex_copy_run by simp
  from copy_keeps_content[OF mem_laws ex_bucket ex_bucket ex_tmp fst_pair[OF this]]
  obtain ob ob' where "fst (S3GetObject mem_ops (\<lambda>d. d) ''photos'' ''a/b'' ex_service) = Inr ob"
    "fst (S3GetObject mem_ops (\<lambda>d. d) ''photos'' ''c'' (snd ex_copy)) = Inr ob'" "sb_content ob' = sb_content ob"
    by blast
  with ex_copy_run show ?thesis by auto
qed

abbreviation ex_bulk :: "(s3_error + delete_response) \<times> mem s3_service" where
  "ex_bulk \<equiv> DeleteObjects mem_ops ex_unicode ''photos''
     [\<lparr>od_key = ''a/b'', od_versionId = ''''\<rparr>, \<lparr>od_key = ''gone'', od_versionId = ''''\<rparr>] False ex_service"

lemma ex_bulk_run: "fst ex_bulk = Inr \<lparr>dr_deleted = [\<lparr>od_key = ''a/b'', od_versionId = ''''\<rparr>, \<lparr>od_key = ''gone'', od_versionId = ''''\<rparr>], dr_errors = []\<rparr>"
  by code_simp


end
