(* ===== verification/S3Listing.thy ===== *)
theory S3Listing
  imports S3ServiceProps ListingProps
begin

text \<open>
  A listing of the service is a listing of the files: the walk of the bucket's directory meets exactly
  the objects that can be read, so the pages that theory ListingProps describes in terms of a tree are
  pages of the bucket.
\<close>

section \<open>Listings and the file system\<close>

lemma walkDir_set:
  "set (walkDir d es) = (\<Union>(nm, n)\<in>set es. case n of FFile info \<Rightarrow> {(entry_path d nm, info)}
     | FDir sub \<Rightarrow> set (walkDir (entry_path d nm) sub))"
  by (induction d es rule: walkDir.induct) auto

lemma entry_path_text: "nm \<noteq> '''' \<Longrightarrow> rs \<noteq> [] \<Longrightarrow> entry_path (entry_path d nm) (text_of rs) = entry_path d (text_of (nm # rs))"
  by (cases rs) (auto simp: entry_path_def)

definition names :: "string list \<Rightarrow> bool" where
  "names rs \<longleftrightarrow> rs \<noteq> [] \<and> list_all file_name rs"

lemma names_fpath: "names rs \<Longrightarrow> fpath rs"
  by (auto simp: names_def fpath_def file_name_def list_all_iff)

lemma text_ne: "fpath rs \<Longrightarrow> text_of rs \<noteq> ''''"
  by (cases rs; cases "tl rs") (auto simp: fpath_def plain_elem_def)

abbreviation info_of :: "string \<times> time \<Rightarrow> file_info" where
  "info_of ct \<equiv> \<lparr>fi_size = int (length (fst ct)), fi_modTime = snd ct\<rparr>"

lemma readDir_folder:
  assumes "fs_laws F V" "fpath es" "V f es = Some Folder"
  shows "\<exists>ents. fo_readDir F (text_of es) f = Inr ents"
proof -
  have "law_readDir F V" using assms(1) by (simp add: fs_laws_def)
  from this[unfolded law_readDir_def, rule_format, OF assms(2), of f] assms(3) show ?thesis by auto
qed

text \<open>What the walk of a directory yields: the files below it, under their paths.\<close>

lemma read_tree_walk:
  assumes laws: "fs_laws F V"
  shows "fpath es \<Longrightarrow> V f es = Some Folder \<Longrightarrow> (\<forall>rs. V f (es @ rs) \<noteq> None \<longrightarrow> length rs \<le> n) \<Longrightarrow>
    set (walkDir d (read_tree F f n (text_of es))) =
      {(entry_path d (text_of rs), info_of ct) | rs ct. names rs \<and> file_at V f (es @ rs) = Some ct}"
proof (induction n arbitrary: es d)
  case 0
  have "file_at V f (es @ rs) = None" if "names rs" for rs
    using 0(3) that file_at_exists[of V f "es @ rs"] by (fastforce simp: names_def)
  then show ?case by auto
next
  case (Suc n)
  obtain ents where rd: "fo_readDir F (text_of es) f = Inr ents"
    using readDir_folder[OF laws Suc.prems(1,2)] by blast
  note rl = readDir_law[OF laws Suc.prems(1) rd]
  have name: "file_name (sf_name i) \<and> V f (es @ [sf_name i]) \<noteq> None" if "i \<in> set ents" for i
    using rl(2) that by blast
  have join: "path_join [text_of es, nm] = text_of (es @ [nm]) \<and> fpath (es @ [nm])" if "file_name nm" for nm
    using join_elems[OF Suc.prems(1), of "[nm]"] that by (simp add: fpath_def file_name_def)
  have sub: "set (walkDir (entry_path d nm) (read_tree F f n (path_join [text_of es, nm]))) =
      {(entry_path (entry_path d nm) (text_of rs), info_of ct) | rs ct. names rs \<and> file_at V f (es @ nm # rs) = Some ct}"
    if "file_name nm" "V f (es @ [nm]) = Some Folder" for nm
  proof -
    have "\<forall>rs. V f ((es @ [nm]) @ rs) \<noteq> None \<longrightarrow> length rs \<le> n" using Suc.prems(3) by fastforce
    from Suc.IH[OF conjunct2[OF join[OF that(1)]] that(2) this, of "entry_path d nm"] show ?thesis
      using join[OF that(1)] by simp
  qed
  let ?E = "\<lambda>i. case if sf_isDir i then FDir (read_tree F f n (path_join [text_of es, sf_name i]))
      else FFile \<lparr>fi_size = sf_size i, fi_modTime = sf_modTime i\<rparr> of
        FFile info \<Rightarrow> {(entry_path d (sf_name i), info)} | FDir sub \<Rightarrow> set (walkDir (entry_path d (sf_name i)) sub)"
  have "set (walkDir d (read_tree F f (Suc n) (text_of es))) = (\<Union>i\<in>set ents. ?E i)"
    by (simp add: rd walkDir_set[of d] cong: if_cong)
  also have "\<dots> = {(entry_path d (text_of rs), info_of ct) | rs ct. names rs \<and> file_at V f (es @ rs) = Some ct}" (is "_ = ?R")
  proof (intro equalityI subsetI)
    fix x
    assume "x \<in> (\<Union>i\<in>set ents. ?E i)"
    then obtain i where i: "i \<in> set ents" "x \<in> ?E i" by blast
    note nm = name[OF i(1)] and ds = rl(4)[OF i(1)]
    show "x \<in> ?R"
    proof (cases "V f (es @ [sf_name i])")
      case (Some n')
      show ?thesis
      proof (cases n')
        case (File c t)
        with ds Some i(2) have "x = (entry_path d (text_of [sf_name i]), info_of (c, t))" by (simp add: describes_def)
        moreover have "file_at V f (es @ [sf_name i]) = Some (c, t)" using Some File by (simp add: file_at_def)
        ultimately show ?thesis using nm by (intro CollectI exI[of _ "[sf_name i]"] exI[of _ "(c, t)"]) (simp add: names_def)
      next
        case Folder
        with ds Some i(2) sub nm obtain rs ct where x: "names rs" "file_at V f (es @ sf_name i # rs) = Some ct"
          "x = (entry_path (entry_path d (sf_name i)) (text_of rs), info_of ct)" by (auto simp: describes_def)
        with nm show ?thesis
          using entry_path_text[of "sf_name i" rs d]
          by (intro CollectI exI[of _ "sf_name i # rs"] exI[of _ ct]) (auto simp: names_def file_name_def plain_elem_def)
      qed
    qed (use nm in simp)
  next
    fix x
    assume "x \<in> ?R"
    then obtain rs ct where x: "x = (entry_path d (text_of rs), info_of ct)" "names rs" "file_at V f (es @ rs) = Some ct"
      by blast
    obtain nm rs' where rs: "rs = nm # rs'" using x(2) by (cases rs) (auto simp: names_def)
    have nm: "file_name nm" using x(2) rs by (simp add: names_def)
    show "x \<in> (\<Union>i\<in>set ents. ?E i)"
    proof (cases "rs' = []")
      case True
      obtain c t where ct: "ct = (c, t)" by fastforce
      have v: "V f (es @ [nm]) = Some (File c t)" using x(3) rs True ct by (simp add: file_at_iff)
      with nm have "nm \<in> sf_name ` set ents" unfolding rl(2) by simp
      then obtain i where i: "i \<in> set ents" "sf_name i = nm" by blast
      with rl(4)[OF i(1)] v have "x \<in> ?E i" using x(1) rs True ct by (simp add: describes_def)
      with i(1) show ?thesis by blast
    next
      case False
      have "strict_prefix (es @ [nm]) (es @ rs)" using rs False by (auto simp: strict_prefix_def)
      from tree_parent[OF laws _ this] file_at_exists[of V f "es @ rs"] x(3) have v: "V f (es @ [nm]) = Some Folder" by simp
      with nm have "nm \<in> sf_name ` set ents" unfolding rl(2) by simp
      then obtain i where i: "i \<in> set ents" "sf_name i = nm" by blast
      have "names rs'" using x(2) rs False by (simp add: names_def)
      moreover have "x = (entry_path (entry_path d nm) (text_of rs'), info_of ct)" "file_at V f (es @ nm # rs') = Some ct"
        using x(1,3) rs entry_path_text[of nm rs' d] False nm by (simp_all add: file_name_def plain_elem_def)
      ultimately have "x \<in> set (walkDir (entry_path d nm) (read_tree F f n (path_join [text_of es, nm])))"
        unfolding sub[OF nm v] by blast
      with i rl(4)[OF i(1)] v have "x \<in> ?E i" by (simp add: describes_def)
      with i(1) show ?thesis by blast
    qed
  qed
  finally show ?case .
qed

lemma read_tree_wf:
  assumes laws: "fs_laws F V"
  shows "fpath es \<Longrightarrow> V f es = Some Folder \<Longrightarrow> wf_dir (read_tree F f n (text_of es))"
proof (induction n arbitrary: es)
  case (Suc n)
  obtain ents where rd: "fo_readDir F (text_of es) f = Inr ents"
    using readDir_folder[OF laws Suc.prems] by blast
  note rl = readDir_law[OF laws Suc.prems(1) rd]
  have sub: "wf_dir (read_tree F f n (path_join [text_of es, sf_name i]))" if "i \<in> set ents" "sf_isDir i" for i
  proof -
    have nm: "file_name (sf_name i)" using rl(2) that(1) by blast
    have "V f (es @ [sf_name i]) = Some Folder"
      using rl(4)[OF that(1)] that(2) by (auto simp: describes_def split: option.splits fnode.splits)
    moreover have "path_join [text_of es, sf_name i] = text_of (es @ [sf_name i]) \<and> fpath (es @ [sf_name i])"
      using join_elems[OF Suc.prems(1), of "[sf_name i]"] nm by (simp add: fpath_def file_name_def)
    ultimately show ?thesis using Suc.IH[of "es @ [sf_name i]"] by simp
  qed
  have nm: "sf_name i \<noteq> '''' \<and> CHR ''/'' \<notin> set (sf_name i)" if "i \<in> set ents" for i
    using rl(2) that by (auto simp: file_name_def plain_elem_def)
  have "wf_dir (map (\<lambda>i. (sf_name i, if sf_isDir i then FDir (read_tree F f n (path_join [text_of es, sf_name i]))
      else FFile \<lparr>fi_size = sf_size i, fi_modTime = sf_modTime i\<rparr>)) xs)"
    if "set xs \<subseteq> set ents" "distinct (map sf_name xs)" for xs
    using that
  proof (induction xs)
    case (Cons i xs)
    then show ?case using nm[of i] sub[of i] by (cases "sf_isDir i") (auto simp: image_image)
  qed simp
  from this[of ents] rl(3) show ?case by (simp add: rd)
qed simp

text \<open>The keys of a bucket: the normal paths at which objects can be read.\<close>

definition bucket_keys :: "('f) fs_ops \<Rightarrow> (string \<Rightarrow> string) \<Rightarrow> string \<Rightarrow> ('f) s3_service \<Rightarrow> string set" where
  "bucket_keys F md5 b s = {k. normal_path k \<and> (\<exists>ob. fst (S3GetObject F md5 b k s) = Inr ob)}"

lemma S3GetObject_Inr:
  "fst (S3GetObject F md5 b k s) = Inr ob \<longleftrightarrow> fst (GetObject F md5 b k (sv_storage s)) = Inr ob"
  by (auto simp: S3GetObject_def on_storage_def split: prod.split sum.split)

lemma normal_text: "normal_path k \<longleftrightarrow> (\<exists>rs. fpath rs \<and> k = text_of rs)"
proof
  assume k: "normal_path k"
  then have "fpath (str_split k ''/'')"
    using str_split_char_ne[of k "CHR ''/''"] by (simp add: fpath_def normal_path_def list_all_iff)
  then show "\<exists>rs. fpath rs \<and> k = text_of rs" using str_join_split_char[of "CHR ''/''" k] by (intro exI[of _ "str_split k ''/''"]) simp
qed (use fpath_normal in blast)

lemma safe_text:
  assumes "fpath rs"
  shows "ValidatePathSafe (text_of rs) = None \<longleftrightarrow> list_all file_name rs" "obj_elems b (text_of rs) = b # rs"
proof -
  have split: "str_split (text_of rs) ''/'' = rs" using assms by (simp add: fpath_def split_plain_join)
  have plain: "list_all plain_elem rs" using assms by (simp add: fpath_def)
  then show "obj_elems b (text_of rs) = b # rs"
    by (simp add: obj_elems_def split list_all_iff)
  have nul: "CHR 0x00 \<in> set (text_of rs) \<longleftrightarrow> (\<exists>w\<in>set rs. CHR 0x00 \<in> set w)"
    using str_join_chars[of "CHR 0x00" rs] str_join_elem[of _ rs "''/''"] by auto
  have "\<not> has_prefix (text_of rs) ''/''" "''..'' \<notin> set rs" "text_of rs \<noteq> ''''"
    using normal_pathD[OF fpath_normal[OF assms]] plain by (auto simp: list_all_iff plain_elem_def)
  then show "ValidatePathSafe (text_of rs) = None \<longleftrightarrow> list_all file_name rs"
    using plain nul by (auto simp: ValidatePathSafe_def split str_contains_char file_name_def list_all_iff)
qed

lemma tree_keys_bucket:
  assumes laws: "fs_laws F V" "isValidBucketName b" and folder: "V (sg_fs (sv_storage s)) [b] = Some Folder"
    and deep: "\<forall>rs. V (sg_fs (sv_storage s)) (b # rs) \<noteq> None \<longrightarrow> length rs \<le> max_depth"
  shows "set (tree_keys (read_tree F (sg_fs (sv_storage s)) max_depth b)) = bucket_keys F md5 b s"
proof -
  let ?f = "sg_fs (sv_storage s)"
  have "set (walkDir '''' (read_tree F ?f max_depth (text_of [b]))) =
      {(entry_path '''' (text_of rs), info_of ct) | rs ct. names rs \<and> file_at V ?f ([b] @ rs) = Some ct}"
    by (rule read_tree_walk[OF laws(1) bucket_fpath[OF laws(2)] folder]) (use deep in simp)
  then have w: "set (walkDir '''' (read_tree F ?f max_depth b)) =
      {(text_of rs, info_of ct) | rs ct. names rs \<and> file_at V ?f (b # rs) = Some ct}"
    by (simp add: entry_path_def)
  have "set (tree_keys (read_tree F ?f max_depth b)) =
      {text_of rs | rs. names rs \<and> file_at V ?f (b # rs) \<noteq> None}"
    unfolding tree_keys_def set_map w
    by (rule set_eqI) (simp add: image_iff, metis option.exhaust_sel option.distinct(1) prod.collapse)
  also have "\<dots> = bucket_keys F md5 b s"
  proof -
    have "names rs \<and> file_at V ?f (b # rs) \<noteq> None \<longleftrightarrow>
        fpath rs \<and> (\<exists>ob. fst (S3GetObject F md5 b (text_of rs) s) = Inr ob)" for rs
    proof (cases "fpath rs")
      case True
      then show ?thesis
        unfolding S3GetObject_Inr GetObject_Inr_iff[OF laws] safe_text[OF True]
        using folder by (auto simp: names_def fpath_def)
    qed (use names_fpath in blast)
    then show ?thesis unfolding bucket_keys_def normal_text by blast
  qed
  finally show ?thesis .
qed

text \<open>C20. A page of a listing with a delimiter is a page of the bucket: the keys that can be read below the
  prefix, those with the delimiter after it folded into common prefixes, in byte order, after the
  marker, cut at the page size. Keys are the normal paths; the bound on the depth of the directory
  tree holds for every tree whose paths the operating system accepts.\<close>

theorem listing_is_the_bucket:
  assumes laws: "fs_laws F V" "isValidBucketName b"
    and deep: "\<forall>rs. V (sg_fs (sv_storage s)) (b # rs) \<noteq> None \<longrightarrow> length rs \<le> max_depth"
    and delim: "delim \<noteq> ''''" "0 < maxKeys"
    and list: "S3ListObjects F C b pre marker delim maxKeys s = Inr r"
  shows "page_items r = take (nat maxKeys) (filter (after marker)
    (sorted_list_of_set (classify pre delim ` {k \<in> bucket_keys F md5 b s. has_prefix k pre})))"
proof -
  let ?f = "sg_fs (sv_storage s)"
  obtain i where i: "fo_stat F b ?f = Inr i" "sf_isDir i"
    and r: "listInternal C (sv_meta s) [(b, FDir (read_tree F ?f max_depth b))] b pre marker delim maxKeys False = Inr r"
    using list by (auto simp: S3ListObjects_def listed_def ListObjects_def bucket_tree_def listInternal_def
        split: sum.splits if_splits)
  have folder: "V ?f [b] = Some Folder"
    using stat_law[OF laws(1) bucket_fpath[OF laws(2)], of ?f] i by (auto split: option.splits fnode.splits)
  have wf: "wf_dir (read_tree F ?f max_depth b)"
    using read_tree_wf[OF laws(1) bucket_fpath[OF laws(2)] folder, of max_depth] by simp
  obtain et ow where lb: "list_bucket et (read_tree F ?f max_depth b) pre marker delim maxKeys False ow = r"
    using r by (auto simp: listInternal_def)
  show ?thesis
    unfolding lb[symmetric] list_page_delimited[OF wf_tree_keys(1)[OF wf] delim] listing_items_def
      tree_keys_bucket[OF laws folder deep, of md5] ..
qed

section \<open>Instance\<close>

text \<open>How deep a tree in memory is.\<close>

fun tree_depth :: "mtree \<Rightarrow> nat" where
  "tree_depth (MFile c t) = 0"
| "tree_depth (MDir ks) = (if ks = [] then 0 else Suc (Max (set (map (\<lambda>(nm, n). tree_depth n) ks))))"

lemma tree_depth_get: "tget n es = Some m \<Longrightarrow> length es \<le> tree_depth n"
proof (induction n es rule: tget.induct)
  case (3 ks e es)
  then obtain n where n: "map_of ks e = Some n" "tget n es = Some m" by (auto split: option.splits)
  have mem: "(e, n) \<in> set ks" using n(1) by (rule map_of_SomeD)
  then have "tree_depth n \<le> Max (set (map (\<lambda>(nm, n). tree_depth n) ks))" by (intro Max_ge) force+
  with 3(1)[OF n] mem show ?case by auto
qed simp_all

lemma ex_depth: "tree_depth (MDir (sg_fs (sv_storage ex_service))) = 3"
  by code_simp

lemma ex_listing_run:
  "map_sum (\<lambda>_. ()) page_items (S3ListObjects mem_ops ex_crypt ''photos'' '''' '''' ''/'' 10 ex_service) = Inr [''a/'']"
  by code_simp

theorem listing_is_the_bucket_witness:
  "take 10 (filter (after '''') (sorted_list_of_set
     (classify '''' ''/'' ` {k \<in> bucket_keys mem_ops (\<lambda>d. d) ''photos'' ex_service. has_prefix k ''''}))) = [''a/'']"
proof -
  let ?f = "sg_fs (sv_storage ex_service)"
  obtain r where r: "S3ListObjects mem_ops ex_crypt ''photos'' '''' '''' ''/'' 10 ex_service = Inr r" "page_items r = [''a/'']"
    using ex_listing_run by (cases "S3ListObjects mem_ops ex_crypt ''photos'' '''' '''' ''/'' 10 ex_service") auto
  have deep: "\<forall>rs. mem_view ?f (''photos'' # rs) \<noteq> None \<longrightarrow> length rs \<le> max_depth"
  proof (intro allI impI)
    fix rs
    assume "mem_view ?f (''photos'' # rs) \<noteq> None"
    then obtain m where "tget (MDir ?f) (''photos'' # rs) = Some m" unfolding mem_view_def by (auto simp del: tget.simps)
    from tree_depth_get[OF this, unfolded ex_depth] show "length rs \<le> max_depth" by (simp add: max_depth_def)
  qed
  from listing_is_the_bucket[OF mem_laws ex_bucket deep _ _ r(1), of "\<lambda>d. d"] r(2) show ?thesis by simp
qed

end
