(* ===== verification/Responses.thy ===== *)
theory Responses
  imports S3Service Multipart PostPolicy
begin

text \<open>
  \<^verbatim>\<open>sdk/s3types/{errors,responses}.go\<close>, \<^verbatim>\<open>internal/http/response/response.go\<close> and the part of
  \<^verbatim>\<open>internal/http/api/s3/object.go\<close> that parses the \<open>Range\<close> header and serves ranges.
  A response is its status, its header and its body. An XML body is the value that is handed to the
  encoder; the request ID and the host ID of an error document are left out, and so is logging.
\<close>

section \<open>Error codes\<close>

datatype error_code =
    ErrCodeNone | ErrCodeInternalError | ErrCodeNoSuchBucket | ErrCodeNoSuchKey
  | ErrCodeBucketAlreadyExists | ErrCodeBucketNotEmpty | ErrCodeMethodNotAllowed
  | ErrCodeInvalidAccessKeyID | ErrCodeSignatureDoesNotMatch | ErrCodeInvalidBucketName
  | ErrCodeInvalidObjectKey | ErrCodeAccessDenied | ErrCodeNoSuchBucketPolicy
  | ErrCodeMalformedPolicy | ErrCodeInvalidRequest | ErrCodeMalformedXML | ErrCodeNoSuchUpload
  | ErrCodeInvalidPart | ErrCodeNotImplemented

fun code_string :: "error_code \<Rightarrow> string" where
  "code_string ErrCodeNone = ''''"
| "code_string ErrCodeInternalError = ''InternalError''"
| "code_string ErrCodeNoSuchBucket = ''NoSuchBucket''"
| "code_string ErrCodeNoSuchKey = ''NoSuchKey''"
| "code_string ErrCodeBucketAlreadyExists = ''BucketAlreadyExists''"
| "code_string ErrCodeBucketNotEmpty = ''BucketNotEmpty''"
| "code_string ErrCodeMethodNotAllowed = ''MethodNotAllowed''"
| "code_string ErrCodeInvalidAccessKeyID = ''InvalidAccessKeyId''"
| "code_string ErrCodeSignatureDoesNotMatch = ''SignatureDoesNotMatch''"
| "code_string ErrCodeInvalidBucketName = ''InvalidBucketName''"
| "code_string ErrCodeInvalidObjectKey = ''KeyTooLongError''"
| "code_string ErrCodeAccessDenied = ''AccessDenied''"
| "code_string ErrCodeNoSuchBucketPolicy = ''NoSuchBucketPolicy''"
| "code_string ErrCodeMalformedPolicy = ''MalformedPolicy''"
| "code_string ErrCodeInvalidRequest = ''InvalidRequest''"
| "code_string ErrCodeMalformedXML = ''MalformedXML''"
| "code_string ErrCodeNoSuchUpload = ''NoSuchUpload''"
| "code_string ErrCodeInvalidPart = ''InvalidPart''"
| "code_string ErrCodeNotImplemented = ''NotImplemented''"

fun code_description :: "error_code \<Rightarrow> string" where
  "code_description ErrCodeNone = ''''"
| "code_description ErrCodeInternalError = ''We encountered an internal error. Please try again.''"
| "code_description ErrCodeNoSuchBucket = ''The specified bucket does not exist.''"
| "code_description ErrCodeNoSuchKey = ''The specified key does not exist.''"
| "code_description ErrCodeBucketAlreadyExists = ''The requested bucket name is not available.''"
| "code_description ErrCodeBucketNotEmpty = ''The bucket you tried to delete is not empty.''"
| "code_description ErrCodeMethodNotAllowed = ''The specified method is not allowed against this resource.''"
| "code_description ErrCodeInvalidAccessKeyID = ''The AWS access key ID you provided does not exist in our records.''"
| "code_description ErrCodeSignatureDoesNotMatch =
     ''The request signature we calculated does not match the signature you provided.''"
| "code_description ErrCodeInvalidBucketName = ''The specified bucket is not valid.''"
| "code_description ErrCodeInvalidObjectKey = ''Your key is too long or contains invalid characters.''"
| "code_description ErrCodeAccessDenied = ''Access Denied''"
| "code_description ErrCodeNoSuchBucketPolicy = ''The bucket policy does not exist''"
| "code_description ErrCodeMalformedPolicy = ''Policy has invalid resource''"
| "code_description ErrCodeInvalidRequest = ''Invalid request''"
| "code_description ErrCodeMalformedXML =
     ''The XML provided was not well-formed or did not validate against our published schema''"
| "code_description ErrCodeNoSuchUpload = ''The specified multipart upload does not exist.''"
| "code_description ErrCodeInvalidPart = ''One or more of the specified parts could not be found.''"
| "code_description ErrCodeNotImplemented = ''A header you provided implies functionality that is not implemented.''"

text \<open>\<open>ErrCodeNone\<close> is the only code without an entry in the table.\<close>

fun code_status :: "error_code \<Rightarrow> nat" where
  "code_status ErrCodeNoSuchBucket = 404"
| "code_status ErrCodeNoSuchKey = 404"
| "code_status ErrCodeBucketAlreadyExists = 409"
| "code_status ErrCodeBucketNotEmpty = 409"
| "code_status ErrCodeMethodNotAllowed = 405"
| "code_status ErrCodeInvalidAccessKeyID = 403"
| "code_status ErrCodeSignatureDoesNotMatch = 403"
| "code_status ErrCodeAccessDenied = 403"
| "code_status ErrCodeInvalidBucketName = 400"
| "code_status ErrCodeInvalidObjectKey = 400"
| "code_status ErrCodeMalformedPolicy = 400"
| "code_status ErrCodeInvalidRequest = 400"
| "code_status ErrCodeMalformedXML = 400"
| "code_status ErrCodeNoSuchBucketPolicy = 404"
| "code_status ErrCodeNoSuchUpload = 404"
| "code_status ErrCodeInvalidPart = 400"
| "code_status ErrCodeNotImplemented = 501"
| "code_status ErrCodeInternalError = 500"
| "code_status ErrCodeNone = 500"

section \<open>Responses\<close>

text \<open>\<open>textproto.CanonicalMIMEHeaderKey\<close>, which \<open>Header.Set\<close> applies, and \<open>strings.ToLower\<close> on the
  name of a header, which is ASCII (the HTTP library refuses other names).\<close>

definition token_char :: "char \<Rightarrow> bool" where
  "token_char c \<longleftrightarrow> ascii_alnum c \<or> c \<in> set ''!#$%&*+-.^_|~'' \<or> c = CHR 0x27 \<or> c = CHR 0x60"

definition lower_char :: "char \<Rightarrow> char" where
  "lower_char c = (if 65 \<le> (of_char c :: nat) \<and> (of_char c :: nat) \<le> 90 then char_of ((of_char c :: nat) + 32) else c)"

definition upper_char :: "char \<Rightarrow> char" where
  "upper_char c = (if 97 \<le> (of_char c :: nat) \<and> (of_char c :: nat) \<le> 122 then char_of ((of_char c :: nat) - 32) else c)"

definition lower_key :: "string \<Rightarrow> string" where
  "lower_key = map lower_char"

fun capitals :: "bool \<Rightarrow> string \<Rightarrow> string" where
  "capitals up [] = []"
| "capitals up (c # cs) = (if up then upper_char c else lower_char c) # capitals (c = CHR ''-'') cs"

definition canonical_key :: "string \<Rightarrow> string" where
  "canonical_key k = (if list_all token_char k then capitals True k else k)"

abbreviation set_header :: "string \<Rightarrow> string \<Rightarrow> (string \<times> string) list \<Rightarrow> (string \<times> string) list" where
  "set_header k v h \<equiv> AList.update (canonical_key k) v h"

text \<open>The message of an error document: the description of its code, or the text of an error value.\<close>

datatype error_value =
    OfS3 s3_error
  | OfMultipart multipart_error
  | OfPost post_error
  | OfName name_error
  | OfText string
  | OfLibrary

datatype error_message = Described string | TextOf error_value

record list_document =
  ld_name :: string
  ld_prefix :: string
  ld_delimiter :: string
  ld_maxKeys :: int
  ld_keyCount :: "int option"
  ld_isTruncated :: bool
  ld_marker :: string
  ld_nextMarker :: string
  ld_startAfter :: string
  ld_contents :: "s3_object list"
  ld_commonPrefixes :: "string list"

datatype document =
    ErrorDocument string error_message
  | BucketsDocument owner "(string \<times> time) list"
  | LocationDocument string
  | ListDocument list_document
  | DeleteDocument delete_response
  | CopyDocument string string
  | InitiateDocument string string string
  | CompleteDocument string string string string
  | PartsDocument string string string "(int \<times> string \<times> int \<times> string) list"
  | TaggingDocument "(string \<times> string) list"
  | PostDocument string string string string

datatype body = NoBody | Bytes string | Xml document | Json string

record api_response =
  rs_status :: nat
  rs_header :: "(string \<times> string) list"
  rs_body :: body

definition status_only :: "nat \<Rightarrow> api_response" where
  "status_only n = \<lparr>rs_status = n, rs_header = [], rs_body = NoBody\<rparr>"

definition WriteXMLResponse :: "nat \<Rightarrow> document \<Rightarrow> api_response" where
  "WriteXMLResponse n doc = \<lparr>rs_status = n, rs_header = [(''Content-Type'', ''application/xml'')], rs_body = Xml doc\<rparr>"

text \<open>The only modifier that is ever given is \<open>SetErrAsMessage\<close> of an error that is not nil.\<close>

definition WriteErrorResponse :: "error_code \<Rightarrow> error_value option \<Rightarrow> api_response" where
  "WriteErrorResponse c err =
     WriteXMLResponse (code_status c)
       (ErrorDocument (code_string c)
          (case err of None \<Rightarrow> Described (code_description c) | Some e \<Rightarrow> TextOf e))"

abbreviation fails_with :: "error_code \<Rightarrow> error_value \<Rightarrow> api_response" where
  "fails_with c e \<equiv> WriteErrorResponse c (Some e)"

section \<open>Ranges\<close>

text \<open>\<open>strconv.ParseInt(s, 10, 64)\<close> and \<open>strconv.Atoi\<close>: an optional sign, digits, and the bounds of
  \<^verbatim>\<open>int64\<close>.\<close>

definition parse_int64 :: "string \<Rightarrow> int option" where
  "parse_int64 s =
     (let neg = has_prefix s ''-'';
          ds = (if has_prefix s ''-'' \<or> has_prefix s ''+'' then tl s else s);
          v = foldl (\<lambda>n c. 10 * n + digit_val c) 0 ds;
          n = (if neg then - v else v)
      in if ds = [] \<or> \<not> list_all (\<lambda>c. CHR ''0'' \<le> c \<and> c \<le> CHR ''9'') ds then None
         else if n < - (2 ^ 63) \<or> 2 ^ 63 \<le> n then None else Some n)"

record range_spec =
  rg_start :: int
  rg_end :: int

definition parseSingleRangePart :: "string \<Rightarrow> int \<Rightarrow> (int \<times> int) option" where
  "parseSingleRangePart part fileSize =
     (let parts = str_split part ''-''
      in if length parts \<noteq> 2 then None
         else if parts ! 0 = '''' then
           (case parse_int64 (parts ! 1) of
              None \<Rightarrow> None
            | Some suffixLength \<Rightarrow>
                let suffixLength = (if fileSize < suffixLength then fileSize else suffixLength)
                in Some (fileSize - suffixLength, fileSize - 1))
         else
           (case parse_int64 (parts ! 0) of
              None \<Rightarrow> None
            | Some start \<Rightarrow>
           (case (if parts ! 1 = '''' then Some (fileSize - 1) else parse_int64 (parts ! 1)) of
              None \<Rightarrow> None
            | Some end_pos \<Rightarrow>
                if start < 0 \<or> fileSize \<le> start then None
                else let end_pos = (if fileSize \<le> end_pos then fileSize - 1 else end_pos)
                     in if end_pos < start then None else Some (start, end_pos))))"

definition parseRangesHeader :: "string \<Rightarrow> int \<Rightarrow> range_spec list option" where
  "parseRangesHeader rangeHeader fileSize =
     (if \<not> has_prefix rangeHeader ''bytes='' then None
      else those (map (\<lambda>part. map_option (\<lambda>(s, e). \<lparr>rg_start = s, rg_end = e\<rparr>)
                          (parseSingleRangePart (trim_space part) fileSize))
                   (str_split (trim_prefix rangeHeader ''bytes='') '','')))"

text \<open>\<open>io.NewSectionReader(content, off, n)\<close> read to its end. The start of a range is never negative
  (\<open>range_bounds\<close> below).\<close>

definition section_reader :: "string \<Rightarrow> int \<Rightarrow> int \<Rightarrow> string" where
  "section_reader content off n = take (nat n) (drop (nat off) content)"

definition content_range :: "range_spec \<Rightarrow> int \<Rightarrow> string" where
  "content_range r fileSize = ''bytes '' @ show_int (rg_start r) @ ''-'' @ show_int (rg_end r) @ ''/'' @ show_int fileSize"

definition range_bytes :: "stored_object \<Rightarrow> range_spec \<Rightarrow> string" where
  "range_bytes ob r = section_reader (sb_content ob) (rg_start r) (rg_end r - rg_start r + 1)"

text \<open>\<open>multipart.Writer\<close>: parts between lines with the boundary, which is random. The header of a part is
  written in the order of its keys.\<close>

definition CRLF2 :: string where "CRLF2 = [CHR 0x0D, CHR 0x0A]"

definition range_part :: "stored_object \<Rightarrow> range_spec \<Rightarrow> string" where
  "range_part ob r =
     ''Content-Range: '' @ content_range r (sb_size ob) @ CRLF2 @
     ''Content-Type: '' @ sb_contentType ob @ CRLF2 @ CRLF2 @ range_bytes ob r"

definition multipart_body :: "string \<Rightarrow> stored_object \<Rightarrow> range_spec list \<Rightarrow> string" where
  "multipart_body boundary ob ranges =
     concat (map (\<lambda>(i, r). (if i = 0 then '''' else CRLF2) @ ''--'' @ boundary @ CRLF2 @ range_part ob r)
               (enumerate 0 ranges))
     @ CRLF2 @ ''--'' @ boundary @ ''--'' @ CRLF2"

text \<open>The rest of \<open>GetObject\<close>, on the header it has set: one range, several ranges, or the whole object.\<close>

definition serveMultiRangeResponse ::
  "string \<Rightarrow> stored_object \<Rightarrow> (string \<times> string) list \<Rightarrow> range_spec list \<Rightarrow> api_response" where
  "serveMultiRangeResponse boundary ob h ranges =
     (let buf = multipart_body boundary ob ranges
      in \<lparr>rs_status = 206,
          rs_header = set_header ''Content-Length'' (show_int (int (length buf)))
            (set_header ''Content-Type'' (''multipart/byteranges; boundary='' @ boundary) h),
          rs_body = Bytes buf\<rparr>)"

definition serveRangeResponse ::
  "string \<Rightarrow> stored_object \<Rightarrow> (string \<times> string) list \<Rightarrow> string \<Rightarrow> api_response" where
  "serveRangeResponse boundary ob h rangeHeader =
     (case parseRangesHeader rangeHeader (sb_size ob) of
        None \<Rightarrow>
          \<lparr>rs_status = 416, rs_header = set_header ''Content-Range'' (''bytes */'' @ show_int (sb_size ob)) h,
           rs_body = NoBody\<rparr>
      | Some [] \<Rightarrow>
          \<lparr>rs_status = 416, rs_header = set_header ''Content-Range'' (''bytes */'' @ show_int (sb_size ob)) h,
           rs_body = NoBody\<rparr>
      | Some [r] \<Rightarrow>
          \<lparr>rs_status = 206,
           rs_header = set_header ''Content-Range'' (content_range r (sb_size ob))
             (set_header ''Content-Length'' (show_int (rg_end r - rg_start r + 1)) h),
           rs_body = Bytes (range_bytes ob r)\<rparr>
      | Some ranges \<Rightarrow> serveMultiRangeResponse boundary ob h ranges)"

definition serveFullResponse :: "stored_object \<Rightarrow> (string \<times> string) list \<Rightarrow> api_response" where
  "serveFullResponse ob h =
     \<lparr>rs_status = 200, rs_header = set_header ''Content-Length'' (show_int (sb_size ob)) h,
      rs_body = Bytes (sb_content ob)\<rparr>"

end
