(* ===== verification/RangeProps.thy ===== *)
theory RangeProps
  imports Responses AuthProps ChunkedProps
begin

text \<open>
  Properties of the range requests of theory Responses: the parser agrees with the byte ranges of RFC 7233,
  and a response to a range request carries exactly the bytes of the ranges.
\<close>

section \<open>The ranges of RFC 7233\<close>

datatype byte_range = FromTo nat nat | FromOn nat | Suffix nat

fun render_range :: "byte_range \<Rightarrow> string" where
  "render_range (FromTo a b) = show_nat a @ ''-'' @ show_nat b"
| "render_range (FromOn a) = show_nat a @ ''-''"
| "render_range (Suffix n) = ''-'' @ show_nat n"

definition render_ranges :: "byte_range list \<Rightarrow> string" where
  "render_ranges rs = ''bytes='' @ str_join '','' (map render_range rs)"

text \<open>The bytes of a range of an object of the given size; a range that starts behind the end, or that
  ends before it starts, is not satisfiable.\<close>

fun resolve_range :: "int \<Rightarrow> byte_range \<Rightarrow> range_spec option" where
  "resolve_range n (FromTo a b) =
     (if int a < n \<and> a \<le> b then Some \<lparr>rg_start = int a, rg_end = min (int b) (n - 1)\<rparr> else None)"
| "resolve_range n (FromOn a) = (if int a < n then Some \<lparr>rg_start = int a, rg_end = n - 1\<rparr> else None)"
| "resolve_range n (Suffix k) = Some \<lparr>rg_start = n - min (int k) n, rg_end = n - 1\<rparr>"

text \<open>The numbers that fit into an \<open>int64\<close>.\<close>

fun representable :: "byte_range \<Rightarrow> bool" where
  "representable (FromTo a b) \<longleftrightarrow> int a < 2 ^ 63 \<and> int b < 2 ^ 63"
| "representable (FromOn a) \<longleftrightarrow> int a < 2 ^ 63"
| "representable (Suffix n) \<longleftrightarrow> int n < 2 ^ 63"

section \<open>The parser\<close>

abbreviation digit :: "char \<Rightarrow> bool" where
  "digit c \<equiv> CHR ''0'' \<le> c \<and> c \<le> CHR ''9''"

lemma digit_code: "digit c \<longleftrightarrow> 48 \<le> (of_char c :: nat) \<and> (of_char c :: nat) \<le> 57"
  by (simp add: less_eq_char_def)

lemma digit_not: "digit c \<Longrightarrow> c \<noteq> CHR ''-'' \<and> c \<noteq> CHR ''+'' \<and> c \<noteq> CHR '','' \<and> printable c"
  by (auto simp: less_eq_char_def printable_def)

lemma show_nat_digit: "c \<in> set (show_nat n) \<Longrightarrow> digit c"
  using show_nat_digits[of n] by (simp add: list_all_iff)

lemma show_nat_ne [simp]: "show_nat n \<noteq> ''''"
  using show_nat_digits[of n] by simp

lemma show_nat_free [simp]: "CHR ''-'' \<notin> set (show_nat n)" "CHR '','' \<notin> set (show_nat n)"
  using show_nat_digit digit_not by blast+

lemma parse_show_nat [simp]:
  assumes "int n < 2 ^ 63"
  shows "parse_int64 (show_nat n) = Some (int n)"
proof -
  obtain c cs where s: "show_nat n = c # cs" by (cases "show_nat n") auto
  then have "c \<noteq> CHR ''-''" "c \<noteq> CHR ''+''" using show_nat_digit[of c n] digit_not[of c] by auto
  then have sign: "\<not> has_prefix (show_nat n) ''-''" "\<not> has_prefix (show_nat n) ''+''"
    by (simp_all add: s has_prefix_def)
  show ?thesis using show_nat_digits[of n] assms by (simp add: parse_int64_def Let_def sign)
qed

lemma split_dash [simp]:
  "str_split (show_nat a @ CHR ''-'' # show_nat b) ''-'' = [show_nat a, show_nat b]"
  "str_split (show_nat a @ ''-'') ''-'' = [show_nat a, '''']"
  "str_split (CHR ''-'' # show_nat b) ''-'' = ['''', show_nat b]"
  using str_split_char_append[of "show_nat a" "CHR ''-''" "show_nat b"] str_split_char_append[of "show_nat a" "CHR ''-''" "''''"]
    str_split_char_append[of "''''" "CHR ''-''" "show_nat b"]
  by (simp_all add: str_split_char_no)

lemma parse_rendered:
  assumes "representable r" "0 \<le> n"
  shows "map_option (\<lambda>(s, e). \<lparr>rg_start = s, rg_end = e\<rparr>) (parseSingleRangePart (render_range r) n) = resolve_range n r"
  using assms by (cases r) (auto simp: parseSingleRangePart_def Let_def min_def)

lemma rendered_chars: "CHR '','' \<notin> set (render_range r)" "list_all printable (render_range r)"
proof -
  have "c \<noteq> CHR '','' \<and> printable c" if "c \<in> set (render_range r)" for c
    using that show_nat_digit digit_not by (cases r) (auto simp: printable_def)
  then show "CHR '','' \<notin> set (render_range r)" "list_all printable (render_range r)" by (auto simp: list_all_iff)
qed

lemma range_ref:
  assumes "rs \<noteq> []" "\<forall>r\<in>set rs. representable r" "0 \<le> n"
  shows "parseRangesHeader (render_ranges rs) n = those (map (resolve_range n) rs)"
proof -
  have "str_split (str_join '','' (map render_range rs)) '','' = map render_range rs"
    using assms(1) rendered_chars(1) by (intro str_split_join_char) auto
  moreover have "has_prefix (render_ranges rs) ''bytes=''"
    "trim_prefix (render_ranges rs) ''bytes='' = str_join '','' (map render_range rs)"
    by (simp_all add: render_ranges_def has_prefix_def trim_prefix_def)
  moreover have "map_option (\<lambda>(s, e). \<lparr>rg_start = s, rg_end = e\<rparr>)
      (parseSingleRangePart (trim_space (render_range r)) n) = resolve_range n r" if "r \<in> set rs" for r
    using parse_rendered[of r n] trim_space_printable[OF rendered_chars(2)] assms(2,3) that by simp
  then have "map (\<lambda>part. map_option (\<lambda>(s, e). \<lparr>rg_start = s, rg_end = e\<rparr>)
      (parseSingleRangePart (trim_space part) n)) (map render_range rs) = map (resolve_range n) rs"
    unfolding map_map by (intro map_cong refl) (simp only: comp_apply)
  ultimately show ?thesis by (simp only: parseRangesHeader_def if_False not_True_eq_False simp_thms)
qed



section \<open>The responses\<close>

lemma parse_unsigned:
  assumes "parse_int64 w = Some v" "CHR ''-'' \<notin> set w"
  shows "0 \<le> v"
proof -
  have "\<not> has_prefix w ''-''" using assms(2) by (cases w) (auto simp: has_prefix_def)
  moreover have "0 \<le> foldl (\<lambda>n c. 10 * n + digit_val c) m ds" if "0 \<le> m" "list_all digit ds" for m ds
    using that by (induction ds arbitrary: m) (auto simp: digit_val_def less_eq_char_def)
  ultimately show ?thesis using assms(1) by (auto simp: parse_int64_def Let_def split: if_splits)
qed

lemma range_bounds:
  assumes "parseSingleRangePart part fileSize = Some (s, e)" "0 \<le> fileSize"
  shows "0 \<le> s \<and> s \<le> e + 1 \<and> e < fileSize"
proof -
  have "0 \<le> v" if "length (str_split part ''-'') = 2" "parse_int64 (str_split part ''-'' ! 1) = Some v" for v
  proof (rule parse_unsigned[OF that(2)])
    show "CHR ''-'' \<notin> set (str_split part ''-'' ! 1)"
      using that(1) by (intro str_split_char_elem[of _ part]) simp
  qed
  with assms show ?thesis
    by (auto simp: parseSingleRangePart_def Let_def split: option.splits if_splits)
qed

lemma those_member: "those xs = Some ys \<Longrightarrow> y \<in> set ys \<Longrightarrow> Some y \<in> set xs"
  by (induction xs arbitrary: ys) (auto split: option.splits)

lemma those_length: "those xs = Some ys \<Longrightarrow> length ys = length xs"
  by (induction xs arbitrary: ys) (auto split: option.splits)

lemma parsed_ranges_bounds:
  assumes "parseRangesHeader hdr n = Some rs" "r \<in> set rs" "0 \<le> n"
  shows "0 \<le> rg_start r \<and> rg_start r \<le> rg_end r + 1 \<and> rg_end r < n"
proof -
  let ?parse = "\<lambda>part. map_option (\<lambda>(s, e). \<lparr>rg_start = s, rg_end = e\<rparr>) (parseSingleRangePart (trim_space part) n)"
  have "those (map ?parse (str_split (trim_prefix hdr ''bytes='') '','')) = Some rs"
    using assms(1) by (simp add: parseRangesHeader_def split: if_splits)
  from those_member[OF this assms(2)] obtain part where "?parse part = Some r"
    unfolding set_map by (elim imageE) (drule sym, blast)
  then obtain s e where "parseSingleRangePart (trim_space part) n = Some (s, e)" "r = \<lparr>rg_start = s, rg_end = e\<rparr>"
    by auto
  with range_bounds[OF this(1) assms(3)] show ?thesis by simp
qed

lemma parsed_ranges_ne: "parseRangesHeader hdr n = Some rs \<Longrightarrow> rs \<noteq> []"
  using those_length by (fastforce simp: parseRangesHeader_def str_split_char_ne split: if_splits)

lemma canonical_range_keys [simp]:
  "canonical_key ''Content-Length'' = ''Content-Length''" "canonical_key ''Content-Range'' = ''Content-Range''"
  "canonical_key ''Content-Type'' = ''Content-Type''"
  by code_simp+

text \<open>C27. A range request is answered with 416 and no body, or with 206 and exactly the bytes asked for:
  every served range lies within the content, its bytes are the part of the content between its bounds, and
  the announced length is the length of the body, also for several ranges.\<close>

theorem range_responses_are_slices:
  assumes "sb_size ob = int (length (sb_content ob))"
  shows "let resp = serveRangeResponse bd ob h hdr in
    (case parseRangesHeader hdr (sb_size ob) of
       None \<Rightarrow> rs_status resp = 416 \<and> rs_body resp = NoBody
     | Some rs \<Rightarrow> rs_status resp = 206 \<and>
         (\<exists>body. rs_body resp = Bytes body \<and>
            map_of (rs_header resp) ''Content-Length'' = Some (show_int (int (length body))) \<and>
            body = (if length rs = 1 then range_bytes ob (hd rs) else multipart_body bd ob rs)) \<and>
         (\<forall>r\<in>set rs. 0 \<le> rg_start r \<and> rg_end r < sb_size ob \<and>
            int (length (range_bytes ob r)) = rg_end r - rg_start r + 1 \<and>
            sb_content ob = take (nat (rg_start r)) (sb_content ob) @ range_bytes ob r @
              drop (nat (rg_end r + 1)) (sb_content ob)))"
proof (cases "parseRangesHeader hdr (sb_size ob)")
  case None
  then show ?thesis by (simp add: serveRangeResponse_def)
next
  case (Some rs)
  have b: "0 \<le> rg_start r \<and> rg_start r \<le> rg_end r + 1 \<and> rg_end r < int (length (sb_content ob))"
    if "r \<in> set rs" for r
    using parsed_ranges_bounds[OF Some that] assms by simp
  note ne = parsed_ranges_ne[OF Some]
  obtain r rest where rs: "rs = r # rest" using ne by (cases rs) auto
  have len: "int (length (range_bytes ob x)) = rg_end x - rg_start x + 1" if "x \<in> set rs" for x
    using b[OF that] unfolding range_bytes_def section_reader_def length_take length_drop by linarith
  have cut: "sb_content ob = take (nat (rg_start x)) (sb_content ob) @ range_bytes ob x @
      drop (nat (rg_end x + 1)) (sb_content ob)" if "x \<in> set rs" for x
  proof -
    have "nat (rg_end x + 1) = nat (rg_end x - rg_start x + 1) + nat (rg_start x)"
      using b[OF that] by linarith
    then show ?thesis
      by (simp add: range_bytes_def section_reader_def flip: drop_drop) 
  qed
  have "rs_status (serveRangeResponse bd ob h hdr) = 206 \<and>
      (\<exists>body. rs_body (serveRangeResponse bd ob h hdr) = Bytes body \<and>
         map_of (rs_header (serveRangeResponse bd ob h hdr)) ''Content-Length'' = Some (show_int (int (length body))) \<and>
         body = (if length rs = 1 then range_bytes ob (hd rs) else multipart_body bd ob rs))"
    using len[of r]
    by (cases rest) (simp_all add: serveRangeResponse_def serveMultiRangeResponse_def Some rs update_conv' Let_def)
  then show ?thesis using Some b len cut assms by (simp add: Let_def)
qed

text \<open>An empty suffix is answered with 206 and an interval that ends before it starts.\<close>

lemma empty_suffix_range:
  "parseRangesHeader ''bytes=-0'' 5 = Some [\<lparr>rg_start = 5, rg_end = 4\<rparr>]"
  by code_simp

text \<open>The same bytes can be asked for any number of times; the whole answer is put together in memory.\<close>

lemma repeated_ranges:
  assumes "0 < n" "0 < k"
  shows "parseRangesHeader (render_ranges (replicate k (FromOn 0))) n =
    Some (replicate k \<lparr>rg_start = 0, rg_end = n - 1\<rparr>)"
proof -
  have "those (replicate k (Some x)) = Some (replicate k x)" for x :: range_spec
    by (induction k) simp_all
  then show ?thesis using range_ref[of "replicate k (FromOn 0)" n] assms by simp
qed

theorem range_responses_are_slices_witness:
  "map_of (rs_header (serveRangeResponse ''bd'' \<lparr>sb_key = ''k'', sb_size = 5, sb_contentType = ''t'', sb_etag = ''e'',
      sb_lastModified = 1, sb_content = ''hello'', sb_customMetadata = []\<rparr> [] ''bytes=1-3'')) ''Content-Length'' = Some ''3''"
proof -
  let ?ob = "\<lparr>sb_key = ''k'', sb_size = 5, sb_contentType = ''t'', sb_etag = ''e'', sb_lastModified = 1,
    sb_content = ''hello'', sb_customMetadata = []\<rparr>"
  have p: "parseRangesHeader ''bytes=1-3'' 5 = Some [\<lparr>rg_start = 1, rg_end = 3\<rparr>]"
    "range_bytes ?ob \<lparr>rg_start = 1, rg_end = 3\<rparr> = ''ell''" "show_int 3 = ''3''" by code_simp+
  show ?thesis using range_responses_are_slices[of ?ob "''bd''" "[]" "''bytes=1-3''"] by (simp add: p Let_def)
qed

end
