(* ===== verification/Observation.thy ===== *)
theory Observation
  imports S3Service Authz Services
begin

text \<open>
  \<^verbatim>\<open>internal/service/observation/observation.go\<close>: simulated decisions, effective permissions and the
  filtering of listings by the policy engine. The engine is the one of the S3 service; a missing
  engine or an empty resolver answer is a panic (\<open>None\<close>). Reading the owner of an object goes through
  the metadata cache, so the service state is passed on. Log lines and their counters are left out.
\<close>

section \<open>Evaluation\<close>

definition commonS3Actions :: "string list" where
  "commonS3Actions =
     [''s3:GetObject'', ''s3:PutObject'', ''s3:DeleteObject'', ''s3:ListBucket'', ''s3:GetBucketPolicy'',
      ''s3:PutBucketPolicy'', ''s3:DeleteBucketPolicy'', ''s3:CreateBucket'', ''s3:DeleteBucket'',
      ''s3:GetObjectTagging'', ''s3:PutObjectTagging'', ''s3:DeleteObjectTagging'']"

definition observed ::
  "golib \<Rightarrow> (string \<Rightarrow> policy_document option) \<Rightarrow> request_ctx \<Rightarrow> ('f) s3_service \<Rightarrow> decision option" where
  "observed L unm req s = do { e \<leftarrow> sv_engine s; EngineEvaluate L unm e req }"

datatype observation_error = ObsUser service_error | ObsBucket s3_error

section \<open>Simulation\<close>

record simulate_request =
  sq_accessKey :: string
  sq_bucket :: string
  sq_action :: string
  sq_key :: string

record simulate_result =
  sr_allowed :: bool
  sr_reason :: string

definition plain_principal :: "iam_user \<Rightarrow> principal" where
  "plain_principal user =
     \<lparr>pr_user = Some user, pr_isAnonymous = False, pr_isAdmin = False, pr_isServiceAccount = False,
      pr_parentUserUUID = None, pr_policyMode = '''', pr_embeddedPolicyJSON = ''''\<rparr>"

text \<open>The reason of a default deny has a dash (three bytes in UTF-8).\<close>

fun simulate_reason :: "decision \<Rightarrow> string" where
  "simulate_reason DecisionAllow = ''Allowed by bucket policy or resource ownership''"
| "simulate_reason DecisionExplicitDeny = ''Explicitly denied by bucket policy''"
| "simulate_reason DecisionDeny = ''Default deny '' @ [CHR 0xE2, CHR 0x80, CHR 0x94] @ '' no matching allow rule found''"

definition simulated_user ::
  "crypt_env \<Rightarrow> string \<Rightarrow> string \<Rightarrow> ('f) s3_service \<Rightarrow> observation_error + iam_user \<times> bucket_metadata" where
  "simulated_user C accessKey bucket s =
     (case UserGetByAccessKey C (sv_meta s) accessKey of
        Inl e \<Rightarrow> Inl (ObsUser e)
      | Inr user \<Rightarrow>
          (case GetBucket bucket s of Inl e \<Rightarrow> Inl (ObsBucket e) | Inr meta \<Rightarrow> Inr (user, meta)))"

definition observed_request ::
  "golib \<Rightarrow> iam_user \<Rightarrow> string \<Rightarrow> string \<Rightarrow> string \<Rightarrow> uuid option \<Rightarrow> uuid option \<Rightarrow> request_ctx" where
  "observed_request L user action bucket key bucketOwner objectOwner =
     \<lparr>rq_principal = Some (plain_principal user), rq_action = action,
      rq_resource = Some \<lparr>rs_bucket = bucket, rs_key = key\<rparr>, rq_conditions = None,
      rq_varContext = Some (ForUser L user), rq_bucketOwnerUUID = bucketOwner,
      rq_objectOwnerUUID = objectOwner\<rparr>"

definition Simulate ::
  "('f) fs_ops \<Rightarrow> golib \<Rightarrow> (string \<Rightarrow> policy_document option) \<Rightarrow> crypt_env \<Rightarrow> simulate_request
     \<Rightarrow> ('f) s3_service \<Rightarrow> ((observation_error + simulate_result) \<times> ('f) s3_service) option" where
  "Simulate F L unm C req s =
     (case simulated_user C (sq_accessKey req) (sq_bucket req) s of
        Inl e \<Rightarrow> Some (Inl e, s)
      | Inr (user, meta) \<Rightarrow>
          (let (objectOwner, s) =
             (if sq_key req = '''' then (None, s)
              else case GetObjectOwnerUUID F (sq_bucket req) (sq_key req) s of
                     (Inl _, s) \<Rightarrow> (None, s) | (Inr uid, s) \<Rightarrow> (uid, s))
           in do {
             d \<leftarrow> observed L unm (observed_request L user (sq_action req) (sq_bucket req) (sq_key req)
                                 (bm_owner meta) objectOwner) s;
             Some (Inr \<lparr>sr_allowed = IsAllowed d, sr_reason = simulate_reason d\<rparr>, s) }))"

section \<open>Effective permissions\<close>

record effective_permissions =
  ep_accessKey :: string
  ep_bucket :: string
  ep_allowed :: "string list"
  ep_denied :: "string list"

fun evaluate_actions :: "(string \<Rightarrow> decision option) \<Rightarrow> string list \<Rightarrow> (string list \<times> string list) option" where
  "evaluate_actions ev [] = Some ([], [])"
| "evaluate_actions ev (a # as) = do {
     d \<leftarrow> ev a;
     (allowed, denied) \<leftarrow> evaluate_actions ev as;
     Some (if IsAllowed d then (a # allowed, denied) else (allowed, a # denied)) }"

definition GetEffectivePermissions ::
  "golib \<Rightarrow> (string \<Rightarrow> policy_document option) \<Rightarrow> crypt_env \<Rightarrow> string \<Rightarrow> string \<Rightarrow> ('f) s3_service
     \<Rightarrow> (observation_error + effective_permissions) option" where
  "GetEffectivePermissions L unm C accessKey bucket s =
     (case simulated_user C accessKey bucket s of
        Inl e \<Rightarrow> Some (Inl e)
      | Inr (user, meta) \<Rightarrow> do {
          (allowed, denied) \<leftarrow> evaluate_actions
            (\<lambda>action. observed L unm (observed_request L user action bucket '''' (bm_owner meta) None) s)
            commonS3Actions;
          Some (Inr \<lparr>ep_accessKey = accessKey, ep_bucket = bucket, ep_allowed = allowed, ep_denied = denied\<rparr>) })"

section \<open>Filtering\<close>

definition bucket_owner_or_none :: "string \<Rightarrow> ('f) s3_service \<Rightarrow> uuid option" where
  "bucket_owner_or_none bucket s = (case GetBucket bucket s of Inr meta \<Rightarrow> bm_owner meta | Inl _ \<Rightarrow> None)"

fun filter_buckets ::
  "(string \<Rightarrow> uuid option \<Rightarrow> decision option) \<Rightarrow> ('f) s3_service \<Rightarrow> (string \<times> time) list
     \<Rightarrow> (string \<times> time) list option" where
  "filter_buckets ev s [] = Some []"
| "filter_buckets ev s (b # bs) = do {
     d \<leftarrow> ev (fst b) (bucket_owner_or_none (fst b) s);
     rest \<leftarrow> filter_buckets ev s bs;
     Some (if IsAllowed d then b # rest else rest) }"

definition FilterBuckets ::
  "golib \<Rightarrow> (string \<Rightarrow> policy_document option) \<Rightarrow> principal \<Rightarrow> (string \<times> time) list
     \<Rightarrow> condition_context \<Rightarrow> var_ctx \<Rightarrow> ('f) s3_service \<Rightarrow> (string \<times> time) list option" where
  "FilterBuckets L unm p buckets conditions varCtx s =
     (if pr_isAdmin p then Some buckets
      else filter_buckets
        (\<lambda>bucket ow. observed L unm
           \<lparr>rq_principal = Some p, rq_action = ''s3:GetBucketLocation'',
            rq_resource = Some \<lparr>rs_bucket = bucket, rs_key = ''''\<rparr>, rq_conditions = Some conditions,
            rq_varContext = Some varCtx, rq_bucketOwnerUUID = ow, rq_objectOwnerUUID = None\<rparr> s)
        s buckets)"

fun filter_objects ::
  "('f) fs_ops \<Rightarrow> string \<Rightarrow> (string \<Rightarrow> uuid option \<Rightarrow> ('f) s3_service \<Rightarrow> decision option) \<Rightarrow> s3_object list
     \<Rightarrow> ('f) s3_service \<Rightarrow> (s3_object list \<times> ('f) s3_service) option" where
  "filter_objects F bucket ev [] s = Some ([], s)"
| "filter_objects F bucket ev (ob # obs) s =
     (let (ow, s) = (case GetObjectOwnerUUID F bucket (so_key ob) s of
                       (Inl _, s) \<Rightarrow> (None, s) | (Inr uid, s) \<Rightarrow> (uid, s))
      in do {
        d \<leftarrow> ev (so_key ob) ow s;
        (rest, s) \<leftarrow> filter_objects F bucket ev obs s;
        Some (if IsAllowed d then ob # rest else rest, s) })"

definition FilterObjects ::
  "('f) fs_ops \<Rightarrow> golib \<Rightarrow> (string \<Rightarrow> policy_document option) \<Rightarrow> principal \<Rightarrow> string \<Rightarrow> s3_object list
     \<Rightarrow> condition_context \<Rightarrow> var_ctx \<Rightarrow> ('f) s3_service \<Rightarrow> (s3_object list \<times> ('f) s3_service) option" where
  "FilterObjects F L unm p bucket objects conditions varCtx s =
     (if pr_isAdmin p then Some (objects, s)
      else let bucketOwner = bucket_owner_or_none bucket s
        in filter_objects F bucket
          (\<lambda>key ow. observed L unm
             \<lparr>rq_principal = Some p, rq_action = ''s3:GetObject'',
              rq_resource = Some \<lparr>rs_bucket = bucket, rs_key = key\<rparr>, rq_conditions = Some conditions,
              rq_varContext = Some varCtx, rq_bucketOwnerUUID = bucketOwner, rq_objectOwnerUUID = ow\<rparr>)
          objects s)"

section \<open>The request side (filtering.go)\<close>

text \<open>The principal is built without the information on a service account.\<close>

definition getRequestPrincipal :: "http_request \<Rightarrow> admin_keys \<Rightarrow> principal" where
  "getRequestPrincipal r keys =
     \<lparr>pr_user = r_user r, pr_isAnonymous = (r_anonymous r \<or> r_user r = None),
      pr_isAdmin = isAdmin (r_user r) (ak_primary keys) (ak_alt keys), pr_isServiceAccount = False,
      pr_parentUserUUID = None, pr_policyMode = '''', pr_embeddedPolicyJSON = ''''\<rparr>"

definition filterBuckets ::
  "golib \<Rightarrow> (string \<Rightarrow> policy_document option) \<Rightarrow> admin_keys \<Rightarrow> http_request \<Rightarrow> (string \<times> time) list
     \<Rightarrow> ('f) s3_service \<Rightarrow> (string \<times> time) list option" where
  "filterBuckets L unm keys r buckets s =
     FilterBuckets L unm (getRequestPrincipal r keys) buckets (build_conditions L r) (FromRequest L r) s"

definition request_filterObjects ::
  "('f) fs_ops \<Rightarrow> golib \<Rightarrow> (string \<Rightarrow> policy_document option) \<Rightarrow> admin_keys \<Rightarrow> http_request \<Rightarrow> string
     \<Rightarrow> s3_object list \<Rightarrow> ('f) s3_service \<Rightarrow> (s3_object list \<times> ('f) s3_service) option" where
  "request_filterObjects F L unm keys r bucket objects s =
     FilterObjects F L unm (getRequestPrincipal r keys) bucket objects (build_conditions L r) (FromRequest L r) s"

definition buildOwnerFromContext :: "http_request \<Rightarrow> owner" where
  "buildOwnerFromContext r =
     (case r_user r of
        None \<Rightarrow> \<lparr>ow_id = ''root'', ow_displayName = ''root''\<rparr>
      | Some user \<Rightarrow> \<lparr>ow_id = u_accessKey user, ow_displayName = u_username user\<rparr>)"

end
