(* ===== verification/S3Handlers.thy ===== *)
theory S3Handlers
  imports Responses Observation
begin

text \<open>
  \<^verbatim>\<open>internal/http/api/s3/{s3,bucket,object,object_tagging,bucket_policy,post_object,multipart}.go\<close>:
  the handlers of the S3 interface, from the request as the HTTP library parsed it to the response.
  What the request context holds (set by the authentication middleware) is \<open>request_context\<close>.
  Decoding of XML and JSON bodies, time formats and the URLs in responses are the fields of \<open>api_env\<close>;
  the clock, random names and upload IDs of one request are \<open>call_env\<close>. A panic is \<open>None\<close>.
\<close>

section \<open>Requests\<close>

text \<open>The multipart form of a POST upload: its fields and the uploaded file with its name.\<close>

record upload_form =
  uf_fields :: "(string \<times> string list) list"
  uf_file :: "(string \<times> string) option"

record api_request =
  q_parts :: http_parts
  q_body :: "string \<times> bool"
  q_remoteAddr :: string
  q_tls :: bool
  q_contentLength :: int
  q_form :: "upload_form option"

record request_context =
  cx_user :: "iam_user option"
  cx_anonymous :: bool
  cx_saInfo :: "sa_info option"
  cx_postPolicy :: "string option"

record api_env =
  ae_sig :: sig_lib
  ae_lib :: golib
  ae_unmarshal :: "string \<Rightarrow> policy_document option"
  ae_crypt :: crypt_env
  ae_unicode :: unicode_tables
  ae_md5 :: "string \<Rightarrow> string"
  ae_codec :: json_codec
  ae_keys :: admin_keys
  ae_postDocument :: "string \<Rightarrow> (string \<times> json list) option"
  ae_deleteXml :: "string \<Rightarrow> (object_identifier list \<times> bool) option"
  ae_completeXml :: "string \<Rightarrow> complete_part list option"
  ae_taggingXml :: "string \<Rightarrow> (string \<times> string) list option"
  ae_policyJson :: "string \<Rightarrow> policy_document option"
  ae_marshalPolicy :: "policy_document \<Rightarrow> string option"
  ae_bucketURL :: "http_parts \<Rightarrow> string \<Rightarrow> string"
  ae_objectURL :: "http_parts \<Rightarrow> string \<Rightarrow> string \<Rightarrow> string"
  ae_quote :: "string \<Rightarrow> string"
  ae_storeText :: "store_error \<Rightarrow> string"
  ae_libText :: "multipart_error \<Rightarrow> string"

record call_env =
  ce_put :: put_env
  ce_uploadID :: string
  ce_boundary :: string

definition header_of_request :: "api_request \<Rightarrow> string \<Rightarrow> string" where
  "header_of_request q k = values_get (hp_header (q_parts q)) k"

definition query_of_request :: "api_request \<Rightarrow> string \<Rightarrow> string" where
  "query_of_request q k = values_get (hp_query (q_parts q)) k"

text \<open>The request as the authorization middleware and the filters see it.\<close>

definition http_view :: "api_request \<Rightarrow> request_context \<Rightarrow> string \<Rightarrow> string \<Rightarrow> string \<Rightarrow> http_request" where
  "http_view q cx action bucket key =
     \<lparr>r_header = header_of_request q, r_remoteAddr = q_remoteAddr q, r_tls = q_tls q,
      r_contentLength = q_contentLength q, r_user = cx_user cx, r_anonymous = cx_anonymous cx,
      r_saInfo = cx_saInfo cx, r_action = action, r_bucket = bucket, r_key = key\<rparr>"

definition context_env :: "request_context \<Rightarrow> call_env \<Rightarrow> put_env" where
  "context_env cx c = (ce_put c)\<lparr>pe_user := cx_user cx\<rparr>"

section \<open>Errors\<close>

text \<open>The \<open>switch\<close> over \<open>errors.Is\<close> that most handlers share.\<close>

definition object_error :: "s3_error \<Rightarrow> api_response" where
  "object_error e =
     fails_with (if e = S3Err ErrNoSuchKey then ErrCodeNoSuchKey
                 else if e = S3Err ErrNoSuchBucket then ErrCodeNoSuchBucket
                 else ErrCodeInternalError) (OfS3 e)"

definition bucket_error :: "s3_error \<Rightarrow> api_response" where
  "bucket_error e =
     fails_with (if e = S3Err ErrNoSuchBucket then ErrCodeNoSuchBucket else ErrCodeInternalError) (OfS3 e)"

abbreviation answer :: "'f \<Rightarrow> api_response \<Rightarrow> api_response \<times> 'f" where
  "answer s r \<equiv> (r, s)"

section \<open>Buckets (s3.go, bucket.go)\<close>

definition handle_ListBuckets ::
  "('f) fs_ops \<Rightarrow> api_env \<Rightarrow> api_request \<Rightarrow> request_context \<Rightarrow> ('f) s3_service \<Rightarrow> api_response option" where
  "handle_ListBuckets F E q cx s =
     (case S3ListBuckets F s of
        Inl e \<Rightarrow> Some (fails_with ErrCodeInternalError (OfS3 e))
      | Inr buckets \<Rightarrow> do {
          let r = http_view q cx ''s3:ListBuckets'' '''' '''';
          filtered \<leftarrow> filterBuckets (ae_lib E) (ae_unmarshal E) (ae_keys E) r buckets s;
          Some (WriteXMLResponse 200 (BucketsDocument (buildOwnerFromContext r) filtered)) })"

definition handle_CreateBucket ::
  "('f) fs_ops \<Rightarrow> api_env \<Rightarrow> call_env \<Rightarrow> api_request \<Rightarrow> request_context \<Rightarrow> string \<Rightarrow> ('f) s3_service
     \<Rightarrow> api_response \<times> ('f) s3_service" where
  "handle_CreateBucket F E c q cx bucket s =
     (case S3CreateBucket F (ae_unicode E) (pe_now (ce_put c)) (cx_user cx) bucket None s of
        (Inl e, s) \<Rightarrow>
          answer s (fails_with (if e = S3Err ErrBucketExists then ErrCodeBucketAlreadyExists
                                else ErrCodeInternalError) (OfS3 e))
      | (Inr _, s) \<Rightarrow>
          answer s \<lparr>rs_status = 200, rs_header = [(''Location'', ae_bucketURL E (q_parts q) bucket)], rs_body = NoBody\<rparr>)"

definition handle_HeadBucket :: "('f) fs_ops \<Rightarrow> string \<Rightarrow> ('f) s3_service \<Rightarrow> api_response" where
  "handle_HeadBucket F bucket s =
     (case HeadBucket F bucket s of
        Inl e \<Rightarrow> fails_with ErrCodeInternalError (OfS3 e)
      | Inr False \<Rightarrow> WriteErrorResponse ErrCodeNoSuchBucket None
      | Inr True \<Rightarrow>
          \<lparr>rs_status = 200, rs_header = [(''X-Amz-Bucket-Region'', ''us-east-1'')], rs_body = NoBody\<rparr>)"

definition handle_DeleteBucket ::
  "('f) fs_ops \<Rightarrow> string \<Rightarrow> ('f) s3_service \<Rightarrow> api_response \<times> ('f) s3_service" where
  "handle_DeleteBucket F bucket s =
     (case S3DeleteBucket F bucket s of
        (Some e, s) \<Rightarrow>
          answer s (fails_with
            (if e = S3Err ErrNoSuchBucket then ErrCodeNoSuchBucket
             else if e = S3Err ErrBucketNotEmpty then ErrCodeBucketNotEmpty
             else ErrCodeInternalError) (OfS3 e))
      | (None, s) \<Rightarrow> answer s (status_only 204))"

definition handle_GetBucketLocation :: "('f) fs_ops \<Rightarrow> string \<Rightarrow> ('f) s3_service \<Rightarrow> api_response" where
  "handle_GetBucketLocation F bucket s =
     (case GetBucketLocation F bucket s of
        Inl e \<Rightarrow> bucket_error e
      | Inr region \<Rightarrow>
          if region = '''' then WriteErrorResponse ErrCodeNoSuchBucket None
          else WriteXMLResponse 200 (LocationDocument region))"

definition parseMaxKeys :: "int \<Rightarrow> int" where
  "parseMaxKeys maxKeys = (if maxKeys < 1 then 1 else if 1000 < maxKeys then 1000 else maxKeys)"

text \<open>\<open>query.Int\<close> and \<open>query.Bool\<close> belong to a library of helpers; what they make of the query is given.\<close>

record list_query =
  lq_prefix :: string
  lq_delimiter :: string
  lq_marker :: string
  lq_token :: string
  lq_startAfter :: string
  lq_maxKeys :: int
  lq_fetchOwner :: bool

definition handle_ListObjects ::
  "('f) fs_ops \<Rightarrow> api_env \<Rightarrow> api_request \<Rightarrow> list_query \<Rightarrow> request_context \<Rightarrow> string \<Rightarrow> ('f) s3_service
     \<Rightarrow> (api_response \<times> ('f) s3_service) option" where
  "handle_ListObjects F E q lq cx bucket s =
     (let maxKeys = parseMaxKeys (lq_maxKeys lq)
      in case S3ListObjects F (ae_crypt E) bucket (lq_prefix lq) (lq_marker lq) (lq_delimiter lq) maxKeys s of
           Inl e \<Rightarrow> Some (bucket_error e, s)
         | Inr result \<Rightarrow> do {
             (filtered, s) \<leftarrow> request_filterObjects F (ae_lib E) (ae_unmarshal E) (ae_keys E)
               (http_view q cx ''s3:ListObjects'' bucket '''') bucket (ir_objects result) s;
             Some (WriteXMLResponse 200 (ListDocument
               \<lparr>ld_name = bucket, ld_prefix = lq_prefix lq, ld_delimiter = lq_delimiter lq,
                ld_maxKeys = maxKeys, ld_keyCount = None, ld_isTruncated = ir_isTruncated result,
                ld_marker = lq_marker lq, ld_nextMarker = ir_nextMarker result, ld_startAfter = '''',
                ld_contents = filtered, ld_commonPrefixes = ir_commonPrefixes result\<rparr>), s) })"

definition handle_ListObjectsV2 ::
  "('f) fs_ops \<Rightarrow> api_env \<Rightarrow> api_request \<Rightarrow> list_query \<Rightarrow> request_context \<Rightarrow> string \<Rightarrow> ('f) s3_service
     \<Rightarrow> (api_response \<times> ('f) s3_service) option" where
  "handle_ListObjectsV2 F E q lq cx bucket s =
     (let maxKeys = parseMaxKeys (lq_maxKeys lq)
      in case S3ListObjectsV2 F (ae_crypt E) bucket (lq_prefix lq) (lq_token lq) (lq_startAfter lq)
                (lq_delimiter lq) maxKeys (lq_fetchOwner lq) s of
           Inl e \<Rightarrow> Some (bucket_error e, s)
         | Inr result \<Rightarrow> do {
             (filtered, s) \<leftarrow> request_filterObjects F (ae_lib E) (ae_unmarshal E) (ae_keys E)
               (http_view q cx ''s3:ListObjectsV2'' bucket '''') bucket (ir_objects result) s;
             Some (WriteXMLResponse 200 (ListDocument
               \<lparr>ld_name = bucket, ld_prefix = lq_prefix lq, ld_delimiter = lq_delimiter lq,
                ld_maxKeys = maxKeys,
                ld_keyCount = Some (int (length filtered + length (ir_commonPrefixes result))),
                ld_isTruncated = ir_isTruncated result, ld_marker = lq_token lq,
                ld_nextMarker = ir_nextMarker result, ld_startAfter = lq_startAfter lq,
                ld_contents = filtered, ld_commonPrefixes = ir_commonPrefixes result\<rparr>), s) })"

definition handle_DeleteObjects ::
  "('f) fs_ops \<Rightarrow> api_env \<Rightarrow> api_request \<Rightarrow> string \<Rightarrow> ('f) s3_service \<Rightarrow> api_response \<times> ('f) s3_service" where
  "handle_DeleteObjects F E q bucket s =
     (if snd (q_body q) then answer s (fails_with ErrCodeInternalError OfLibrary)
      else case ae_deleteXml E (fst (q_body q)) of
        None \<Rightarrow> answer s (fails_with ErrCodeInvalidRequest OfLibrary)
      | Some (objects, quiet) \<Rightarrow>
          if objects = [] then
            answer s (fails_with ErrCodeInvalidRequest (OfText ''delete request must contain at least one object''))
          else case DeleteObjects F (ae_unicode E) bucket objects quiet s of
            (Inl e, s) \<Rightarrow> answer s (bucket_error e)
          | (Inr result, s) \<Rightarrow> answer s (WriteXMLResponse 200 (DeleteDocument result)))"

section \<open>Objects (object.go)\<close>

definition with_custom :: "(string \<times> string) list \<Rightarrow> (string \<times> string) list \<Rightarrow> (string \<times> string) list" where
  "with_custom custom h = fold (\<lambda>(k, v). set_header k v) custom h"

definition object_headers ::
  "api_env \<Rightarrow> string \<Rightarrow> string \<Rightarrow> time \<Rightarrow> (string \<times> string) list" where
  "object_headers E contentType etag lastModified =
     [(''Content-Type'', contentType), (''Etag'', etag),
      (''Last-Modified'', sl_format_time (ae_sig E) ''Mon, 02 Jan 2006 15:04:05 GMT'' lastModified),
      (''Accept-Ranges'', ''bytes'')]"

definition handle_GetObject ::
  "('f) fs_ops \<Rightarrow> api_env \<Rightarrow> call_env \<Rightarrow> api_request \<Rightarrow> string \<Rightarrow> string \<Rightarrow> ('f) s3_service
     \<Rightarrow> api_response \<times> ('f) s3_service" where
  "handle_GetObject F E c q bucket key s =
     (case S3GetObject F (ae_md5 E) bucket key s of
        (Inl e, s) \<Rightarrow> answer s (object_error e)
      | (Inr ob, s) \<Rightarrow>
          let h = with_custom (sb_customMetadata ob)
                    (object_headers E (sb_contentType ob) (sb_etag ob) (sb_lastModified ob));
              rangeHeader = header_of_request q ''Range''
          in answer s (if rangeHeader \<noteq> '''' then serveRangeResponse (ce_boundary c) ob h rangeHeader
                       else serveFullResponse ob h))"

text \<open>The metadata of an upload: the standard headers, then the headers \<open>x-amz-meta-*\<close> in the order in
  which the map of the headers is walked.\<close>

definition metadataHeaders :: "string list" where
  "metadataHeaders = [''Cache-Control'', ''Content-Disposition'', ''Content-Encoding'', ''Content-Language'', ''Expires'']"

definition user_metadata :: "(string \<times> string list) list \<Rightarrow> (string \<times> string) list \<Rightarrow> (string \<times> string) list" where
  "user_metadata h m =
     fold (\<lambda>(k, vs) m. if has_prefix (lower_key k) ''x-amz-meta-'' \<and> vs \<noteq> []
             then AList.update (lower_key k) (hd vs) m else m) h m"

definition upload_metadata :: "api_request \<Rightarrow> (string \<times> string) list" where
  "upload_metadata q =
     user_metadata (hp_header (q_parts q))
       (fold (\<lambda>h m. let v = header_of_request q h in if v \<noteq> '''' then AList.update (lower_key h) v m else m)
          metadataHeaders [])"

definition content_type_of :: "api_request \<Rightarrow> string" where
  "content_type_of q =
     (let contentType = header_of_request q ''Content-Type''
      in if contentType = '''' then ''application/octet-stream'' else contentType)"

definition handle_PutObject ::
  "('f) fs_ops \<Rightarrow> api_env \<Rightarrow> call_env \<Rightarrow> api_request \<Rightarrow> request_context \<Rightarrow> string \<Rightarrow> string \<Rightarrow> ('f) s3_service
     \<Rightarrow> api_response \<times> ('f) s3_service" where
  "handle_PutObject F E c q cx bucket key s =
     (case S3PutObject F (ae_md5 E) (context_env cx c) bucket key (q_body q) (content_type_of q)
             (upload_metadata q) s of
        (Inl e, s) \<Rightarrow> answer s (bucket_error e)
      | (Inr etag, s) \<Rightarrow> answer s \<lparr>rs_status = 200, rs_header = [(''Etag'', etag)], rs_body = NoBody\<rparr>)"

definition handle_HeadObject ::
  "('f) fs_ops \<Rightarrow> api_env \<Rightarrow> string \<Rightarrow> string \<Rightarrow> ('f) s3_service \<Rightarrow> api_response \<times> ('f) s3_service" where
  "handle_HeadObject F E bucket key s =
     (case HeadObject F (ae_md5 E) bucket key s of
        (Inl e, s) \<Rightarrow> answer s (object_error e)
      | (Inr meta, s) \<Rightarrow>
          answer s \<lparr>rs_status = 200,
            rs_header = with_custom (hr_customMetadata meta)
              [(''Content-Type'', hr_contentType meta), (''Content-Length'', show_int (hr_size meta)),
               (''Etag'', hr_etag meta),
               (''Last-Modified'', sl_format_time (ae_sig E) ''Mon, 02 Jan 2006 15:04:05 GMT'' (hr_lastModified meta)),
               (''Accept-Ranges'', ''bytes'')],
            rs_body = NoBody\<rparr>)"

definition handle_DeleteObject ::
  "('f) fs_ops \<Rightarrow> string \<Rightarrow> string \<Rightarrow> ('f) s3_service \<Rightarrow> api_response \<times> ('f) s3_service" where
  "handle_DeleteObject F bucket key s =
     (case S3DeleteObject F bucket key s of
        (Some e, s) \<Rightarrow> answer s (if e \<noteq> S3Err ErrNoSuchKey then bucket_error e else status_only 204)
      | (None, s) \<Rightarrow> answer s (status_only 204))"

definition handle_CopyObject ::
  "('f) fs_ops \<Rightarrow> api_env \<Rightarrow> call_env \<Rightarrow> api_request \<Rightarrow> request_context \<Rightarrow> string \<Rightarrow> string \<Rightarrow> ('f) s3_service
     \<Rightarrow> api_response \<times> ('f) s3_service" where
  "handle_CopyObject F E c q cx bucket key s =
     (if header_of_request q ''X-Amz-Copy-Source'' = '''' then
        answer s (fails_with ErrCodeInvalidRequest (OfText ''missing X-Amz-Copy-Source header''))
      else case CopyObject_source (http_view q cx ''s3:CopyObject'' bucket key) of
        None \<Rightarrow>
          answer s (fails_with ErrCodeInvalidRequest
            (OfText ''invalid X-Amz-Copy-Source format, expected /bucket/key''))
      | Some (sourceBucket, sourceKey) \<Rightarrow>
          (case S3CopyObject F (ae_md5 E) (ae_unicode E) (context_env cx c) sourceBucket sourceKey bucket key s of
             (Some e, s) \<Rightarrow> answer s (object_error e)
           | (None, s) \<Rightarrow>
               (case S3GetObject F (ae_md5 E) bucket key s of
                  (Inl e, s) \<Rightarrow> answer s (fails_with ErrCodeInternalError (OfS3 e))
                | (Inr ob, s) \<Rightarrow>
                    answer s (WriteXMLResponse 200 (CopyDocument
                      (sl_format_time (ae_sig E) ''2006-01-02T15:04:05Z07:00'' (sb_lastModified ob))
                      (sb_etag ob))))))"

section \<open>Tags (object_tagging.go)\<close>

definition handle_PutObjectTagging ::
  "('f) fs_ops \<Rightarrow> api_env \<Rightarrow> api_request \<Rightarrow> string \<Rightarrow> string \<Rightarrow> ('f) s3_service
     \<Rightarrow> api_response \<times> ('f) s3_service" where
  "handle_PutObjectTagging F E q bucket key s =
     (if snd (q_body q) then answer s (fails_with ErrCodeInternalError OfLibrary)
      else case ae_taggingXml E (fst (q_body q)) of
        None \<Rightarrow> answer s (fails_with ErrCodeMalformedXML OfLibrary)
      | Some tagSet \<Rightarrow>
          (case PutObjectTagging F (ae_md5 E) (ae_unicode E) bucket key
                  (fold (\<lambda>(k, v). AList.update k v) tagSet []) s of
             (Some e, s) \<Rightarrow> answer s (object_error e)
           | (None, s) \<Rightarrow> answer s (status_only 200)))"

definition handle_GetObjectTagging ::
  "('f) fs_ops \<Rightarrow> api_env \<Rightarrow> string \<Rightarrow> string \<Rightarrow> ('f) s3_service \<Rightarrow> api_response \<times> ('f) s3_service" where
  "handle_GetObjectTagging F E bucket key s =
     (case GetObjectTagging F (ae_md5 E) (ae_unicode E) bucket key s of
        (Inl e, s) \<Rightarrow> answer s (object_error e)
      | (Inr tags, s) \<Rightarrow> answer s (WriteXMLResponse 200 (TaggingDocument tags)))"

section \<open>Bucket policies (bucket_policy.go)\<close>

definition handle_PutBucketPolicy ::
  "('f) fs_ops \<Rightarrow> api_env \<Rightarrow> call_env \<Rightarrow> api_request \<Rightarrow> string \<Rightarrow> ('f) s3_service
     \<Rightarrow> api_response \<times> ('f) s3_service" where
  "handle_PutBucketPolicy F E c q bucket s =
     (if snd (q_body q) then answer s (fails_with ErrCodeInvalidRequest OfLibrary)
      else case ae_policyJson E (fst (q_body q)) of
        None \<Rightarrow> answer s (fails_with ErrCodeMalformedPolicy OfLibrary)
      | Some doc \<Rightarrow>
          (case PutBucketPolicy F (pe_now (ce_put c)) bucket (Some doc) s of
             (Some e, s) \<Rightarrow> answer s (fails_with ErrCodeInternalError (OfS3 e))
           | (None, s) \<Rightarrow> answer s (status_only 204)))"

definition handle_GetBucketPolicy ::
  "('f) fs_ops \<Rightarrow> api_env \<Rightarrow> string \<Rightarrow> ('f) s3_service \<Rightarrow> api_response" where
  "handle_GetBucketPolicy F E bucket s =
     (case S3GetBucketPolicy F bucket s of
        Inl e \<Rightarrow>
          fails_with (if e = S3NoSuchBucketPolicy then ErrCodeNoSuchBucketPolicy else ErrCodeInternalError) (OfS3 e)
      | Inr doc \<Rightarrow>
          (case ae_marshalPolicy E doc of
             None \<Rightarrow> fails_with ErrCodeInternalError OfLibrary
           | Some text \<Rightarrow>
               \<lparr>rs_status = 200, rs_header = [(''Content-Type'', ''application/json'')], rs_body = Json text\<rparr>))"

definition handle_DeleteBucketPolicy ::
  "('f) fs_ops \<Rightarrow> string \<Rightarrow> ('f) s3_service \<Rightarrow> api_response \<times> ('f) s3_service" where
  "handle_DeleteBucketPolicy F bucket s =
     (case DeleteBucketPolicy F bucket s of
        (Some e, s) \<Rightarrow> answer s (fails_with ErrCodeInternalError (OfS3 e))
      | (None, s) \<Rightarrow> answer s (status_only 204))"

section \<open>Multipart uploads (multipart.go)\<close>

definition on_uploads ::
  "(('f) storage \<Rightarrow> (multipart_error + 'a) \<times> ('f) storage) \<Rightarrow> ('f) s3_service
     \<Rightarrow> (multipart_error + 'a) \<times> ('f) s3_service" where
  "on_uploads act s = (case act (sv_storage s) of (r, sg) \<Rightarrow> (r, s\<lparr>sv_storage := sg\<rparr>))"

text \<open>The text of an error of the multipart service. The texts of storage and library errors are given,
  with the words \<open>failed to ...\<close> that wrap them.\<close>

fun multipart_text :: "api_env \<Rightarrow> multipart_error \<Rightarrow> string" where
  "multipart_text E MpNoBucket = ''bucket does not exist''"
| "multipart_text E MpNotFound = ''multipart upload not found''"
| "multipart_text E (MpStore e) = ae_storeText E e"
| "multipart_text E (MpPartNotFound n) = ''part '' @ show_int n @ '' not found''"
| "multipart_text E (MpEtagMismatch n expected provided) =
     ''part '' @ show_int n @ '' ETag mismatch: expected '' @ expected @ '', got '' @ provided"
| "multipart_text E e = ae_libText E e"

definition multipart_error_response :: "api_env \<Rightarrow> multipart_error \<Rightarrow> api_response" where
  "multipart_error_response E e =
     (if str_contains (multipart_text E e) ''not found'' then WriteErrorResponse ErrCodeNoSuchUpload None
      else fails_with ErrCodeInternalError (OfMultipart e))"

definition handle_CreateMultipartUpload ::
  "('f) fs_ops \<Rightarrow> api_env \<Rightarrow> call_env \<Rightarrow> api_request \<Rightarrow> string \<Rightarrow> string \<Rightarrow> ('f) s3_service
     \<Rightarrow> api_response \<times> ('f) s3_service" where
  "handle_CreateMultipartUpload F E c q bucket key s =
     (case on_uploads (CreateMultipartUpload F (ae_codec E) (pe_now (ce_put c)) (ce_uploadID c) bucket key
             (content_type_of q) (user_metadata (hp_header (q_parts q)) [])) s of
        (Inl _, s) \<Rightarrow> answer s (WriteErrorResponse ErrCodeInternalError None)
      | (Inr uploadID, s) \<Rightarrow> answer s (WriteXMLResponse 200 (InitiateDocument bucket key uploadID)))"

definition needs_upload_id :: "api_request \<Rightarrow> 's \<Rightarrow> api_response \<times> 's \<Rightarrow> api_response \<times> 's" where
  "needs_upload_id q s rest =
     (if query_of_request q ''uploadId'' = '''' then
        answer s (fails_with ErrCodeInvalidRequest (OfText ''uploadId is required''))
      else rest)"

definition handle_UploadPart ::
  "('f) fs_ops \<Rightarrow> api_env \<Rightarrow> call_env \<Rightarrow> api_request \<Rightarrow> string \<Rightarrow> ('f) s3_service
     \<Rightarrow> api_response \<times> ('f) s3_service" where
  "handle_UploadPart F E c q bucket s =
     (let uploadID = query_of_request q ''uploadId''; partNumberStr = query_of_request q ''partNumber''
      in if uploadID = '''' \<or> partNumberStr = '''' then
           answer s (fails_with ErrCodeInvalidRequest (OfText ''uploadId and partNumber are required''))
         else case parse_int64 partNumberStr of
           None \<Rightarrow> answer s (fails_with ErrCodeInvalidPart (OfText ''part number must be between 1 and 10000''))
         | Some partNumber \<Rightarrow>
             if partNumber < 1 \<or> 10000 < partNumber then
               answer s (fails_with ErrCodeInvalidPart (OfText ''part number must be between 1 and 10000''))
             else case on_uploads (UploadPart F (ae_md5 E) (ae_codec E) (pe_now (ce_put c)) bucket uploadID
                         partNumber (q_body q)) s of
               (Inl e, s) \<Rightarrow> answer s (multipart_error_response E e)
             | (Inr etag, s) \<Rightarrow>
                 answer s \<lparr>rs_status = 200, rs_header = [(''Etag'', ae_quote E etag)], rs_body = NoBody\<rparr>)"

text \<open>The decoder of the body stops after the document, so it is given the bytes that were read.\<close>

definition handle_CompleteMultipartUpload ::
  "('f) fs_ops \<Rightarrow> api_env \<Rightarrow> call_env \<Rightarrow> api_request \<Rightarrow> request_context \<Rightarrow> string \<Rightarrow> string \<Rightarrow> ('f) s3_service
     \<Rightarrow> api_response \<times> ('f) s3_service" where
  "handle_CompleteMultipartUpload F E c q cx bucket key s =
     needs_upload_id q s
       (case ae_completeXml E (fst (q_body q)) of
          None \<Rightarrow> answer s (fails_with ErrCodeMalformedXML (OfText ''invalid XML in request body''))
        | Some parts \<Rightarrow>
            (case on_uploads (CompleteMultipartUpload F (ae_md5 E) (ae_codec E) (context_env cx c) bucket key
                    (query_of_request q ''uploadId'') parts) s of
               (Inl e, s) \<Rightarrow>
                 answer s
                   (if str_contains (multipart_text E e) ''not found'' then
                      WriteErrorResponse ErrCodeNoSuchUpload None
                    else if str_contains (multipart_text E e) ''mismatch'' then
                      fails_with ErrCodeInvalidPart (OfMultipart e)
                    else fails_with ErrCodeInternalError (OfMultipart e))
             | (Inr etag, s) \<Rightarrow>
                 answer s (WriteXMLResponse 200
                   (CompleteDocument (ae_objectURL E (q_parts q) bucket key) bucket key (ae_quote E etag)))))"

definition handle_AbortMultipartUpload ::
  "('f) fs_ops \<Rightarrow> api_env \<Rightarrow> api_request \<Rightarrow> string \<Rightarrow> ('f) s3_service \<Rightarrow> api_response \<times> ('f) s3_service" where
  "handle_AbortMultipartUpload F E q bucket s =
     needs_upload_id q s
       (case on_uploads (AbortMultipartUpload F bucket (query_of_request q ''uploadId'')) s of
          (Inl e, s) \<Rightarrow> answer s (multipart_error_response E e)
        | (Inr _, s) \<Rightarrow> answer s (status_only 204))"

text \<open>The maximum number of parts is parsed and passed on, but the service does not look at it.\<close>

definition handle_ListParts ::
  "('f) fs_ops \<Rightarrow> api_env \<Rightarrow> api_request \<Rightarrow> string \<Rightarrow> string \<Rightarrow> ('f) s3_service
     \<Rightarrow> api_response \<times> ('f) s3_service" where
  "handle_ListParts F E q bucket key s =
     needs_upload_id q s
       (case on_uploads (ListParts F (ae_codec E) bucket (query_of_request q ''uploadId'')) s of
          (Inl e, s) \<Rightarrow> answer s (multipart_error_response E e)
        | (Inr parts, s) \<Rightarrow>
            answer s (WriteXMLResponse 200 (PartsDocument bucket key (query_of_request q ''uploadId'')
              (map (\<lambda>p. (pm_partNumber p, ae_quote E (pm_etag p), pm_size p,
                      sl_format_time (ae_sig E) ''2006-01-02T15:04:05.000Z'' (pm_lastModified p))) parts))))"

definition handle_UploadPartCopy :: api_response where
  "handle_UploadPartCopy = fails_with ErrCodeNotImplemented (OfText ''UploadPartCopy is not yet implemented'')"

section \<open>Form uploads (post_object.go)\<close>

text \<open>\<open>strings.ReplaceAll\<close> for a text that is not empty.\<close>

definition replace_all :: "string \<Rightarrow> string \<Rightarrow> string \<Rightarrow> string" where
  "replace_all t old new = str_join new (str_split t old)"

definition post_content_type :: "(string \<Rightarrow> string) \<Rightarrow> string" where
  "post_content_type getField =
     (if getField ''Content-Type'' \<noteq> '''' then getField ''Content-Type''
      else if getField ''content-type'' \<noteq> '''' then getField ''content-type''
      else ''application/octet-stream'')"

definition post_success :: "(string \<Rightarrow> string) \<Rightarrow> string \<Rightarrow> string \<Rightarrow> string \<Rightarrow> api_response" where
  "post_success getField bucket key etag =
     (let redirect = getField ''success_action_redirect''; status = getField ''success_action_status''
      in if redirect \<noteq> '''' then
           \<lparr>rs_status = 303,
            rs_header = [(''Location'', redirect @ ''?bucket='' @ query_escape bucket @ ''&key='' @
                           query_escape key @ ''&etag='' @ query_escape etag)],
            rs_body = NoBody\<rparr>
         else if status = ''200'' then status_only 200
         else if status = ''201'' then
           WriteXMLResponse 201 (PostDocument (''/'' @ bucket @ ''/'' @ key) bucket key etag)
         else status_only 204)"

definition handle_PostObject ::
  "('f) fs_ops \<Rightarrow> api_env \<Rightarrow> call_env \<Rightarrow> api_request \<Rightarrow> request_context \<Rightarrow> string \<Rightarrow> ('f) s3_service
     \<Rightarrow> api_response \<times> ('f) s3_service" where
  "handle_PostObject F E c q cx bucket s =
     (case cx_postPolicy cx of
        None \<Rightarrow> answer s (WriteErrorResponse ErrCodeAccessDenied None)
      | Some policyB64 \<Rightarrow>
     (case ParsePostPolicyDocument (ae_sig E) (ae_postDocument E) policyB64 of
        Inl e \<Rightarrow> answer s (fails_with ErrCodeInvalidRequest (OfPost e))
      | Inr doc \<Rightarrow>
     (case q_form q of
        None \<Rightarrow> answer s (fails_with ErrCodeInvalidRequest (OfText ''no multipart form data''))
      | Some form \<Rightarrow>
     (case uf_file form of
        None \<Rightarrow> answer s (fails_with ErrCodeInvalidRequest (OfText ''missing file field''))
      | Some (filename, content) \<Rightarrow>
          let getField = values_get (uf_fields form);
              contentType = post_content_type getField;
              key = replace_all (getField ''key'') ([CHR 0x24] @ ''{filename}'') filename
          in case ValidatePostPolicyConditions (ae_sig E) doc bucket key contentType (int (length content)) of
               Some e \<Rightarrow> answer s (fails_with ErrCodeAccessDenied (OfPost e))
             | None \<Rightarrow>
                 (case S3PutObject F (ae_md5 E) (context_env cx c) bucket key (content, False) contentType [] s of
                    (Inl e, s) \<Rightarrow> answer s (bucket_error e)
                  | (Inr etag, s) \<Rightarrow> answer s (post_success getField bucket key etag))))))"

end
