(* ===== verification/S3Server.thy ===== *)
theory S3Server
  imports S3Handlers Authenticator Chunked
begin

text \<open>
  \<^verbatim>\<open>internal/http/server/routes.go\<close>, \<^verbatim>\<open>internal/http/middleware/{validatekey,chunked}.go\<close>: the S3 routes
  with their actions, and the way of a request through authentication, authorization, the decoding of
  its body and the validation of its names to its handler. The router is a library: which route it picks
  for a request is given, and so are the parameters it takes from the path.
\<close>

section \<open>Routes\<close>

datatype operation =
    ListBucketsOp | HeadBucketOp | CreateBucketOp | ListObjectsOp | DeleteBucketOp | PostObjectOp
  | ListObjectsV2Op | GetBucketLocationOp | GetBucketVersioningOp | PutBucketVersioningOp
  | GetBucketACLOp | PutBucketACLOp | GetBucketPolicyOp | PutBucketPolicyOp | DeleteBucketPolicyOp
  | GetBucketCorsOp | PutBucketCorsOp | GetLifecycleOp | PutLifecycleOp | GetPublicAccessBlockOp
  | PutPublicAccessBlockOp | PutObjectLockOp | ListObjectVersionsOp | ListMultipartUploadsOp
  | DeleteObjectsOp | GetObjectOp | DeleteObjectOp | HeadObjectOp | UploadPartCopyOp | UploadPartOp
  | PutObjectACLOp | PutObjectTaggingOp | CopyObjectOp | PutObjectOp | GetObjectACLOp
  | GetObjectTaggingOp | CreateMultipartUploadOp | CompleteMultipartUploadOp
  | AbortMultipartUploadOp | ListPartsOp

text \<open>Method, pattern, what the query and the header must hold, the operation and its action. The POST
  upload is the only route without an action.\<close>

record route =
  rt_method :: string
  rt_pattern :: string
  rt_query :: "(string \<times> string option) list"
  rt_header :: "string list"
  rt_operation :: operation
  rt_action :: string

definition a_route ::
  "string \<Rightarrow> string \<Rightarrow> (string \<times> string option) list \<Rightarrow> string list \<Rightarrow> operation \<Rightarrow> string \<Rightarrow> route" where
  "a_route m p q h oper a =
     \<lparr>rt_method = m, rt_pattern = p, rt_query = q, rt_header = h, rt_operation = oper, rt_action = a\<rparr>"

definition bucket_routes :: "route list" where
  "bucket_routes = (let b = ''/{bucket}'' in
     [a_route ''GET'' ''/'' [] [] ListBucketsOp ''s3:ListBuckets'',
      a_route ''HEAD'' b [] [] HeadBucketOp ''s3:HeadBucket'',
      a_route ''PUT'' b [] [] CreateBucketOp ''s3:CreateBucket'',
      a_route ''GET'' b [] [] ListObjectsOp ''s3:ListObjects'',
      a_route ''DELETE'' b [] [] DeleteBucketOp ''s3:DeleteBucket'',
      a_route ''POST'' b [] [] PostObjectOp '''',
      a_route ''GET'' b [(''list-type'', Some ''2'')] [] ListObjectsV2Op ''s3:ListObjectsV2'',
      a_route ''GET'' b [(''location'', None)] [] GetBucketLocationOp ''s3:GetBucketLocation'',
      a_route ''GET'' b [(''versioning'', None)] [] GetBucketVersioningOp ''s3:GetBucketVersioning'',
      a_route ''PUT'' b [(''versioning'', None)] [] PutBucketVersioningOp ''s3:PutBucketVersioning'',
      a_route ''GET'' b [(''acl'', None)] [] GetBucketACLOp ''s3:GetBucketAcl'',
      a_route ''PUT'' b [(''acl'', None)] [] PutBucketACLOp ''s3:PutBucketAcl'',
      a_route ''GET'' b [(''policy'', None)] [] GetBucketPolicyOp ''s3:GetBucketPolicy'',
      a_route ''PUT'' b [(''policy'', None)] [] PutBucketPolicyOp ''s3:PutBucketPolicy'',
      a_route ''DELETE'' b [(''policy'', None)] [] DeleteBucketPolicyOp ''s3:DeleteBucketPolicy'',
      a_route ''GET'' b [(''cors'', None)] [] GetBucketCorsOp ''s3:GetBucketCors'',
      a_route ''PUT'' b [(''cors'', None)] [] PutBucketCorsOp ''s3:PutBucketCors'',
      a_route ''GET'' b [(''lifecycle'', None)] [] GetLifecycleOp ''s3:GetBucketLifecycleConfiguration'',
      a_route ''PUT'' b [(''lifecycle'', None)] [] PutLifecycleOp ''s3:PutBucketLifecycleConfiguration'',
      a_route ''GET'' b [(''publicAccessBlock'', None)] [] GetPublicAccessBlockOp ''s3:GetPublicAccessBlock'',
      a_route ''PUT'' b [(''publicAccessBlock'', None)] [] PutPublicAccessBlockOp ''s3:PutPublicAccessBlock'',
      a_route ''PUT'' b [(''object-lock'', None)] [] PutObjectLockOp ''s3:PutObjectLockConfiguration'',
      a_route ''GET'' b [(''versions'', None)] [] ListObjectVersionsOp ''s3:ListObjectVersions'',
      a_route ''GET'' b [(''uploads'', None)] [] ListMultipartUploadsOp ''s3:ListMultipartUploads'',
      a_route ''POST'' b [(''delete'', None)] [] DeleteObjectsOp ''s3:DeleteObjects''])"

definition object_routes :: "route list" where
  "object_routes = (let k = ''/{bucket}/{key:.*}'' in
     [a_route ''GET'' k [] [] GetObjectOp ''s3:GetObject'',
      a_route ''DELETE'' k [] [] DeleteObjectOp ''s3:DeleteObject'',
      a_route ''HEAD'' k [] [] HeadObjectOp ''s3:HeadObject'',
      a_route ''PUT'' k [(''partNumber'', None), (''uploadId'', None)] [''X-Amz-Copy-Source''] UploadPartCopyOp
        ''s3:UploadPartCopy'',
      a_route ''PUT'' k [(''partNumber'', None), (''uploadId'', None)] [] UploadPartOp ''s3:UploadPart'',
      a_route ''PUT'' k [(''acl'', None)] [] PutObjectACLOp ''s3:PutObjectAcl'',
      a_route ''PUT'' k [(''tagging'', None)] [] PutObjectTaggingOp ''s3:PutObjectTagging'',
      a_route ''PUT'' k [] [''X-Amz-Copy-Source''] CopyObjectOp ''s3:CopyObject'',
      a_route ''PUT'' k [] [] PutObjectOp ''s3:PutObject'',
      a_route ''GET'' k [(''acl'', None)] [] GetObjectACLOp ''s3:GetObjectAcl'',
      a_route ''GET'' k [(''tagging'', None)] [] GetObjectTaggingOp ''s3:GetObjectTagging'',
      a_route ''POST'' k [(''uploads'', None)] [] CreateMultipartUploadOp ''s3:CreateMultipartUpload'',
      a_route ''POST'' k [(''uploadId'', None)] [] CompleteMultipartUploadOp ''s3:CompleteMultipartUpload'',
      a_route ''DELETE'' k [(''uploadId'', None)] [] AbortMultipartUploadOp ''s3:AbortMultipartUpload'',
      a_route ''GET'' k [(''uploadId'', None)] [] ListPartsOp ''s3:ListParts''])"

definition setupS3Routes :: "route list" where
  "setupS3Routes = bucket_routes @ object_routes"

section \<open>Name validation\<close>

text \<open>The wrappers \<open>bucket\<close> and \<open>object\<close>: the key is looked at before the bucket name.\<close>

definition ValidateS3BucketNameMiddleware ::
  "golib \<Rightarrow> string \<Rightarrow> 's \<Rightarrow> (api_response \<times> 's) option \<Rightarrow> (api_response \<times> 's) option" where
  "ValidateS3BucketNameMiddleware L bucket s rest =
     (case ValidateS3BucketName L bucket of
        Some e \<Rightarrow> Some (fails_with ErrCodeInvalidBucketName (OfName e), s)
      | None \<Rightarrow> rest)"

definition ValidateS3KeyMiddleware ::
  "string \<Rightarrow> 's \<Rightarrow> (api_response \<times> 's) option \<Rightarrow> (api_response \<times> 's) option" where
  "ValidateS3KeyMiddleware key s rest =
     (case ValidateS3Key key of
        Some e \<Rightarrow> Some (fails_with ErrCodeInvalidObjectKey (OfName e), s)
      | None \<Rightarrow> rest)"

definition object_wrapper ::
  "golib \<Rightarrow> string \<Rightarrow> string \<Rightarrow> 's \<Rightarrow> (api_response \<times> 's) option \<Rightarrow> (api_response \<times> 's) option" where
  "object_wrapper L bucket key s rest =
     ValidateS3KeyMiddleware key s (ValidateS3BucketNameMiddleware L bucket s rest)"

section \<open>Chunked bodies (middleware/chunked.go)\<close>

text \<open>The expression \<open>^[0-9a-fA-F]+;chunk-signature=\<close> on the first hundred bytes.\<close>

definition hex_char :: "char \<Rightarrow> bool" where
  "hex_char c \<longleftrightarrow> c \<in> set ''0123456789abcdefABCDEF''"

definition chunkPattern :: "string \<Rightarrow> bool" where
  "chunkPattern s \<longleftrightarrow>
     takeWhile hex_char s \<noteq> [] \<and> has_prefix (dropWhile hex_char s) '';chunk-signature=''"

definition needsDecoding :: "api_request \<Rightarrow> bool" where
  "needsDecoding q \<longleftrightarrow>
     header_of_request q ''X-Amz-Content-Sha256'' = ''STREAMING-AWS4-HMAC-SHA256-PAYLOAD'' \<or>
     header_of_request q ''X-Amz-Decoded-Content-Length'' \<noteq> '''' \<or>
     header_of_request q ''Content-Encoding'' = ''aws-chunked'' \<or>
     hp_method (q_parts q) \<notin> {''GET'', ''HEAD'', ''DELETE''} \<and> chunkPattern (take 100 (fst (q_body q)))"

text \<open>The body that the handler reads. The size of its buffers does not matter (theory ChunkedProps); a
  body that breaks off stays broken. \<open>None\<close> is the panic on a negative chunk size, for the handlers
  that read their body.\<close>

definition decode_request_body :: "api_env \<Rightarrow> string \<times> bool \<Rightarrow> (string \<times> bool) option" where
  "decode_request_body E body =
     (case read_all (ae_sig E) (\<lambda>_. 32768) (Suc (length (fst body))) '''' (NewChunkedReader (fst body)) of
        Some (Done d err) \<Rightarrow> Some (d, err \<noteq> None \<or> snd body)
      | _ \<Rightarrow> None)"

definition ChunkedEncoding :: "api_env \<Rightarrow> api_request \<Rightarrow> api_request option" where
  "ChunkedEncoding E q =
     (if needsDecoding q then map_option (\<lambda>b. q\<lparr>q_body := b\<rparr>) (decode_request_body E (q_body q))
      else Some q)"

definition reads_body :: "operation \<Rightarrow> bool" where
  "reads_body oper \<longleftrightarrow>
     oper \<in> {PutObjectOp, UploadPartOp, DeleteObjectsOp, PutObjectTaggingOp, PutBucketPolicyOp,
            CompleteMultipartUploadOp}"

section \<open>Handlers\<close>

definition not_implemented :: api_response where
  "not_implemented =
     \<lparr>rs_status = 501, rs_header = [(''Content-Type'', ''application/json'')],
      rs_body = Json (''{'' @ [CHR 0x22] @ ''status'' @ [CHR 0x22] @ '':'' @ [CHR 0x22] @ ''error'' @ [CHR 0x22] @ '','' @
        [CHR 0x22] @ ''error'' @ [CHR 0x22] @ '':'' @ [CHR 0x22] @ ''This operation is not yet implemented'' @
        [CHR 0x22] @ ''}'')\<rparr>"

definition run_bucket_handler ::
  "('f) fs_ops \<Rightarrow> api_env \<Rightarrow> call_env \<Rightarrow> list_query \<Rightarrow> operation \<Rightarrow> api_request \<Rightarrow> request_context
     \<Rightarrow> string \<Rightarrow> ('f) s3_service \<Rightarrow> (api_response \<times> ('f) s3_service) option" where
  "run_bucket_handler F E c lq oper q cx bucket s =
     (case oper of
        HeadBucketOp \<Rightarrow> Some (handle_HeadBucket F bucket s, s)
      | CreateBucketOp \<Rightarrow> Some (handle_CreateBucket F E c q cx bucket s)
      | ListObjectsOp \<Rightarrow> handle_ListObjects F E q lq cx bucket s
      | DeleteBucketOp \<Rightarrow> Some (handle_DeleteBucket F bucket s)
      | PostObjectOp \<Rightarrow> Some (handle_PostObject F E c q cx bucket s)
      | ListObjectsV2Op \<Rightarrow> handle_ListObjectsV2 F E q lq cx bucket s
      | GetBucketLocationOp \<Rightarrow> Some (handle_GetBucketLocation F bucket s, s)
      | GetBucketPolicyOp \<Rightarrow> Some (handle_GetBucketPolicy F E bucket s, s)
      | PutBucketPolicyOp \<Rightarrow> Some (handle_PutBucketPolicy F E c q bucket s)
      | DeleteBucketPolicyOp \<Rightarrow> Some (handle_DeleteBucketPolicy F bucket s)
      | DeleteObjectsOp \<Rightarrow> Some (handle_DeleteObjects F E q bucket s)
      | _ \<Rightarrow> Some (not_implemented, s))"

definition run_object_handler ::
  "('f) fs_ops \<Rightarrow> api_env \<Rightarrow> call_env \<Rightarrow> operation \<Rightarrow> api_request \<Rightarrow> request_context
     \<Rightarrow> string \<Rightarrow> string \<Rightarrow> ('f) s3_service \<Rightarrow> api_response \<times> ('f) s3_service" where
  "run_object_handler F E c oper q cx bucket key s =
     (case oper of
        GetObjectOp \<Rightarrow> handle_GetObject F E c q bucket key s
      | DeleteObjectOp \<Rightarrow> handle_DeleteObject F bucket key s
      | HeadObjectOp \<Rightarrow> handle_HeadObject F E bucket key s
      | UploadPartCopyOp \<Rightarrow> (handle_UploadPartCopy, s)
      | UploadPartOp \<Rightarrow> handle_UploadPart F E c q bucket s
      | PutObjectTaggingOp \<Rightarrow> handle_PutObjectTagging F E q bucket key s
      | CopyObjectOp \<Rightarrow> handle_CopyObject F E c q cx bucket key s
      | PutObjectOp \<Rightarrow> handle_PutObject F E c q cx bucket key s
      | GetObjectTaggingOp \<Rightarrow> handle_GetObjectTagging F E bucket key s
      | CreateMultipartUploadOp \<Rightarrow> handle_CreateMultipartUpload F E c q bucket key s
      | CompleteMultipartUploadOp \<Rightarrow> handle_CompleteMultipartUpload F E c q cx bucket key s
      | AbortMultipartUploadOp \<Rightarrow> handle_AbortMultipartUpload F E q bucket s
      | ListPartsOp \<Rightarrow> handle_ListParts F E q bucket key s
      | _ \<Rightarrow> (not_implemented, s))"

text \<open>The operations that are registered without a wrapper answer without looking at the names.\<close>

definition unwrapped :: "operation \<Rightarrow> bool" where
  "unwrapped oper \<longleftrightarrow>
     oper \<in> {GetBucketVersioningOp, PutBucketVersioningOp, GetBucketACLOp, PutBucketACLOp, GetBucketCorsOp,
            PutBucketCorsOp, GetLifecycleOp, PutLifecycleOp, GetPublicAccessBlockOp, PutPublicAccessBlockOp,
            PutObjectLockOp, ListObjectVersionsOp, ListMultipartUploadsOp, GetObjectACLOp, PutObjectACLOp}"

definition run_handler ::
  "('f) fs_ops \<Rightarrow> api_env \<Rightarrow> call_env \<Rightarrow> list_query \<Rightarrow> route \<Rightarrow> api_request \<Rightarrow> request_context
     \<Rightarrow> string \<Rightarrow> string \<Rightarrow> ('f) s3_service \<Rightarrow> (api_response \<times> ('f) s3_service) option" where
  "run_handler F E c lq rt q cx bucket key s =
     (let oper = rt_operation rt
      in if oper = ListBucketsOp then map_option (\<lambda>r. (r, s)) (handle_ListBuckets F E q cx s)
         else if unwrapped oper then Some (not_implemented, s)
         else if rt_pattern rt = ''/{bucket}'' then
           ValidateS3BucketNameMiddleware (ae_lib E) bucket s (run_bucket_handler F E c lq oper q cx bucket s)
         else
           object_wrapper (ae_lib E) bucket key s (Some (run_object_handler F E c oper q cx bucket key s)))"

section \<open>The way of a request\<close>

text \<open>The owners as the authorization middleware looks them up in the store.\<close>

definition manager_lookup :: "meta_store \<Rightarrow> owner_lookup" where
  "manager_lookup st =
     \<lparr>ol_bucketOwner = (\<lambda>b. case GetBucketMetadata st b of Inr m \<Rightarrow> Some (bm_owner m) | Inl _ \<Rightarrow> None),
      ol_objectOwner = (\<lambda>b k. case fst (GetObjectMetadata b k st) of Inr m \<Rightarrow> Some (om_owner m) | Inl _ \<Rightarrow> None)\<rparr>"

fun context_of :: "auth_outcome \<Rightarrow> request_context" where
  "context_of (Authenticated u sa pol) =
     \<lparr>cx_user = Some u, cx_anonymous = False, cx_saInfo = sa, cx_postPolicy = pol\<rparr>"
| "context_of _ = \<lparr>cx_user = None, cx_anonymous = True, cx_saInfo = None, cx_postPolicy = None\<rparr>"

fun auth_code :: "s3_code \<Rightarrow> error_code" where
  "auth_code CodeAccessDenied = ErrCodeAccessDenied"
| "auth_code CodeInvalidAccessKeyID = ErrCodeInvalidAccessKeyID"
| "auth_code CodeSignatureDoesNotMatch = ErrCodeSignatureDoesNotMatch"

text \<open>Reading an owner may fill the cache of object metadata; this part of the state is looked at in theory
  MetadataProps and left out here. The server is always built with an engine.\<close>

definition root_keys :: "authenticator \<Rightarrow> admin_keys" where
  "root_keys a = \<lparr>ak_primary = au_rootAccessKey a, ak_alt = au_altRootAccessKey a\<rparr>"

definition authorize ::
  "api_env \<Rightarrow> authenticator \<Rightarrow> route \<Rightarrow> api_request \<Rightarrow> request_context \<Rightarrow> string \<Rightarrow> string
     \<Rightarrow> ('f) s3_service \<Rightarrow> authz_outcome option" where
  "authorize E a rt q cx bucket key s =
     (case sv_engine s of
        None \<Rightarrow> None
      | Some e \<Rightarrow>
          AuthorizationMiddleware (ae_lib E) (ae_unmarshal E) e (Some (manager_lookup (sv_meta s)))
            (root_keys a) (http_view q cx (rt_action rt) bucket key))"

definition authenticate :: "api_env \<Rightarrow> authenticator \<Rightarrow> api_request \<Rightarrow> ('f) s3_service \<Rightarrow> auth_outcome" where
  "authenticate E a q s =
     AuthMiddleware (ae_sig E) (ae_postDocument E) (ae_crypt E) (sv_meta s) a
       (map_option uf_fields (q_form q)) (q_parts q)"

text \<open>What follows the authorization: the body is decoded, then the handler of the route runs.\<close>

definition serve_authorized ::
  "('f) fs_ops \<Rightarrow> api_env \<Rightarrow> call_env \<Rightarrow> list_query \<Rightarrow> route \<Rightarrow> api_request \<Rightarrow> request_context
     \<Rightarrow> string \<Rightarrow> string \<Rightarrow> ('f) s3_service \<Rightarrow> (api_response \<times> ('f) s3_service) option" where
  "serve_authorized F E c lq rt q cx bucket key s =
     (if reads_body (rt_operation rt) then do {
        q \<leftarrow> ChunkedEncoding E q;
        run_handler F E c lq rt q cx bucket key s }
      else run_handler F E c lq rt q cx bucket key s)"

definition serve ::
  "('f) fs_ops \<Rightarrow> api_env \<Rightarrow> authenticator \<Rightarrow> call_env \<Rightarrow> list_query \<Rightarrow> route \<Rightarrow> api_request
     \<Rightarrow> string \<Rightarrow> string \<Rightarrow> ('f) s3_service \<Rightarrow> (api_response \<times> ('f) s3_service) option" where
  "serve F E a c lq rt q bucket key s =
     (case authenticate E a q s of
        Rejected code \<Rightarrow> Some (WriteErrorResponse (auth_code code) None, s)
      | out \<Rightarrow>
          (case authorize E a rt q (context_of out) bucket key s of
             None \<Rightarrow> None
           | Some AccessDenied \<Rightarrow> Some (WriteErrorResponse ErrCodeAccessDenied None, s)
           | Some (Next _ _) \<Rightarrow>
               serve_authorized F (E\<lparr>ae_keys := root_keys a\<rparr>) c lq rt q (context_of out) bucket key s))"

end
