(* ===== verification/S3ServerProps.thy ===== *)
theory S3ServerProps
  imports S3Server MetadataProps AuthProps S3ServiceProps
begin

text \<open>
  Properties of the server of theory S3Server: a request that is served was authenticated and authorized,
  what a form upload rests on, and what a listing shows of a bucket.
\<close>

section \<open>What is behind the two middlewares\<close>

lemma auth_code_status [simp]: "code_status (auth_code c) = 403"
  by (cases c) simp_all

lemma error_status [simp]: "rs_status (WriteErrorResponse c e) = code_status c"
  by (simp add: WriteErrorResponse_def WriteXMLResponse_def)

lemma not_rejected:
  "(\<And>code. out \<noteq> Rejected code) \<Longrightarrow>
     (case out of Authenticated u sa pol \<Rightarrow> f (Authenticated u sa pol) | Anonymous \<Rightarrow> f Anonymous
      | Rejected code \<Rightarrow> g code) = f out"
  by (cases out) (simp, simp, blast)

lemma serve_handled:
  assumes "serve F E a c lq rt q bucket key s = Some (resp, s')" "rs_status resp \<noteq> 403 \<or> s' \<noteq> s"
  obtains lg dec where "\<And>code. authenticate E a q s \<noteq> Rejected code"
    "authorize E a rt q (context_of (authenticate E a q s)) bucket key s = Some (Next lg dec)"
    "serve_authorized F (E\<lparr>ae_keys := root_keys a\<rparr>) c lq rt q (context_of (authenticate E a q s)) bucket key s =
       Some (resp, s')"
proof -
  let ?cx = "context_of (authenticate E a q s)"
  have nrej: "\<And>code. authenticate E a q s \<noteq> Rejected code"
    using assms by (auto simp: serve_def)
  then have "serve F E a c lq rt q bucket key s =
      (case authorize E a rt q ?cx bucket key s of
         None \<Rightarrow> None
       | Some AccessDenied \<Rightarrow> Some (WriteErrorResponse ErrCodeAccessDenied None, s)
       | Some (Next _ _) \<Rightarrow>
           serve_authorized F (E\<lparr>ae_keys := root_keys a\<rparr>) c lq rt q ?cx bucket key s)"
    unfolding serve_def by (rule not_rejected)
  with assms nrej that show thesis
    by (cases "authorize E a rt q ?cx bucket key s")
      (auto split: authz_outcome.splits)
qed

lemma serve_authorized_runs:
  assumes "serve_authorized F E c lq rt q cx bucket key s = Some x"
  obtains q' where "run_handler F E c lq rt q' cx bucket key s = Some x"
  using assms by (auto simp: serve_authorized_def bind_eq_Some_conv split: if_splits)

text \<open>The routes: each operation has one route, and only the POST upload has no S3 action.\<close>

lemma routes_distinct: "distinct (map rt_operation setupS3Routes)"
  by code_simp

lemma routes_actions:
  "list_all (\<lambda>rt. if rt_operation rt = PostObjectOp then rt_action rt = '''' else has_prefix (rt_action rt) ''s3:'')
     setupS3Routes"
  by code_simp

lemma routes_patterns:
  "list_all (\<lambda>rt. (rt_pattern rt = ''/'') = (rt_operation rt = ListBucketsOp)) setupS3Routes"
  by code_simp

text \<open>A form upload with a context that no signed form put there is refused.\<close>

lemma post_needs_policy:
  assumes "run_handler F E c lq rt q cx bucket key s = Some (resp, s')" "rt_operation rt = PostObjectOp"
    "rt \<in> set setupS3Routes" "cx_postPolicy cx = None"
  shows "s' = s \<and> 400 \<le> rs_status resp"
proof -
  have "rt_pattern rt = ''/{bucket}''"
  proof -
    have "list_all (\<lambda>rt. rt_operation rt \<noteq> PostObjectOp \<or> rt_pattern rt = ''/{bucket}'') setupS3Routes" by code_simp
    with assms(2,3) show ?thesis unfolding list_all_iff by blast
  qed
  with assms show ?thesis
    by (auto simp: run_handler_def unwrapped_def run_bucket_handler_def handle_PostObject_def
        ValidateS3BucketNameMiddleware_def split: option.splits)
qed

text \<open>The user of the context has proved to have the secret of an active key.\<close>

definition proven_user :: "api_env \<Rightarrow> authenticator \<Rightarrow> api_request \<Rightarrow> request_context \<Rightarrow> bool" where
  "proven_user E a q cx \<longleftrightarrow>
     (case cx_user cx of
        None \<Rightarrow> cx_anonymous cx \<and> header_of_request q ''Authorization'' = '''' \<and>
          query_of_request q ''X-Amz-Algorithm'' = ''''
      | Some u \<Rightarrow> user_status_is_active (u_status u) \<and>
          (\<exists>ak. proves_secret (ae_sig E) (ae_postDocument E) (map_option uf_fields (q_form q)) (q_parts q) ak
                  (u_secretKey u)))"

lemma authenticated_proven:
  assumes "\<And>code. authenticate E a q s \<noteq> Rejected code"
  shows "proven_user E a q (context_of (authenticate E a q s))"
proof (cases "authenticate E a q s")
  case (Authenticated u sa pol)
  from AuthMiddleware_Authenticated[OF this[unfolded authenticate_def]] show ?thesis
    unfolding Authenticated proven_user_def by auto
next
  case Anonymous
  from AuthMiddleware_Anonymous[OF this[unfolded authenticate_def]] show ?thesis
    unfolding Anonymous proven_user_def by (simp add: header_of_request_def query_of_request_def)
next
  case (Rejected code)
  with assms show ?thesis by blast
qed

definition may_perform ::
  "api_env \<Rightarrow> authenticator \<Rightarrow> engine \<Rightarrow> meta_store \<Rightarrow> http_request \<Rightarrow> bool" where
  "may_perform E a e st r \<longleftrightarrow>
     (let p = build_principal r (root_keys a); mgr = Some (manager_lookup st)
      in pr_isAdmin p \<or>
        (if IsMultiResourceAction (r_action r)
         then \<exists>sb sk. parseCopySource r = (sb, sk) \<and> sb \<noteq> '''' \<and>
                permitted (ae_lib E) (ae_unmarshal E) e mgr p r ''s3:GetObject'' sb sk \<and>
                permitted (ae_lib E) (ae_unmarshal E) e mgr p r ''s3:PutObject'' (r_bucket r) (r_key r)
         else permitted (ae_lib E) (ae_unmarshal E) e mgr p r (hd (GetRequiredPermissions (r_action r)))
                (r_bucket r) (r_key r)))"

text \<open>C2. The whole way of a request through the server: whenever the state of the service changes, or
  anything but an error is answered, the requester is anonymous without credentials or has proved the
  secret of an active user, and either the user is the administrator or the policy engine permits the
  operation of the route on the addressed bucket and key; the one exception is the upload by a form,
  which rests on the policy document that the user signed.\<close>

theorem served_requests_are_authorized:
  assumes "serve F E a c lq rt q bucket key s = Some (resp, s')" "rt \<in> set setupS3Routes"
    and "s' \<noteq> s \<or> rs_status resp < 400"
  shows "let cx = context_of (authenticate E a q s) in
    proven_user E a q cx \<and>
    (if rt_operation rt = PostObjectOp then \<exists>pol. cx_postPolicy cx = Some pol
     else \<exists>e. sv_engine s = Some e \<and>
       may_perform E a e (sv_meta s) (http_view q cx (rt_action rt) bucket key))"
proof -
  have "rs_status resp \<noteq> 403 \<or> s' \<noteq> s" using assms(3) by auto
  from serve_handled[OF assms(1) this] obtain lg dec where nrej: "\<And>code. authenticate E a q s \<noteq> Rejected code"
    and z: "authorize E a rt q (context_of (authenticate E a q s)) bucket key s = Some (Next lg dec)"
    and sa: "serve_authorized F (E\<lparr>ae_keys := root_keys a\<rparr>) c lq rt q (context_of (authenticate E a q s)) bucket key s =
       Some (resp, s')" by blast
  from serve_authorized_runs[OF sa] obtain q' where
    run: "run_handler F (E\<lparr>ae_keys := root_keys a\<rparr>) c lq rt q' (context_of (authenticate E a q s)) bucket key s =
       Some (resp, s')" by blast
  let ?cx = "context_of (authenticate E a q s)"
  note proven = authenticated_proven[of E a q s, OF nrej]
  show ?thesis
  proof (cases "rt_operation rt = PostObjectOp")
    case True
    then have "cx_postPolicy ?cx \<noteq> None"
      using post_needs_policy[OF run _ assms(2)] assms(3) by fastforce
    with True proven show ?thesis by (simp add: Let_def)
  next
    case False
    have "has_prefix (rt_action rt) ''s3:''"
      using routes_actions assms(2) False unfolding list_all_iff by meson
    then have route: "s3_route (http_view q ?cx (rt_action rt) bucket key)"
      by (simp add: s3_route_def http_view_def)
    obtain e where e: "sv_engine s = Some e"
      and "AuthorizationMiddleware (ae_lib E) (ae_unmarshal E) e (Some (manager_lookup (sv_meta s)))
        (root_keys a) (http_view q ?cx (rt_action rt) bucket key) = Some (Next lg dec)"
      using z by (auto simp: authorize_def split: option.splits)
    from middleware_next[OF this(2) route]
    have "may_perform E a e (sv_meta s) (http_view q ?cx (rt_action rt) bucket key)"
      by (simp only: may_perform_def Let_def)
    with False e proven show ?thesis by (simp add: Let_def)
  qed
qed

section \<open>Form uploads and policies\<close>

definition on_engine :: "engine option \<Rightarrow> ('f) s3_service \<Rightarrow> ('f) s3_service" where
  "on_engine e s = s\<lparr>sv_engine := e\<rparr>"

lemma on_engine_storage [simp]: "sv_storage (on_engine e s) = sv_storage s"
  by (simp add: on_engine_def)

lemma on_storage_engine:
  "on_storage act (on_engine e s) = map_prod id (on_engine e) (on_storage act s)"
  by (simp add: on_storage_def on_engine_def split: prod.split sum.split)

lemma PostObject_engine:
  "handle_PostObject F E c q cx bucket (on_engine e s) =
     map_prod id (on_engine e) (handle_PostObject F E c q cx bucket s)"
  by (auto simp: handle_PostObject_def S3PutObject_def on_storage_engine Let_def
      split: option.split sum.split prod.split)

lemma PostObject_route:
  assumes "rt \<in> set setupS3Routes" "rt_operation rt = PostObjectOp"
  shows "rt_action rt = ''''" "rt_pattern rt = ''/{bucket}''"
proof -
  have "list_all (\<lambda>rt. rt_operation rt \<noteq> PostObjectOp \<or> rt_action rt = '''' \<and> rt_pattern rt = ''/{bucket}'') setupS3Routes"
    by code_simp
  with assms show "rt_action rt = ''''" "rt_pattern rt = ''/{bucket}''" unfolding list_all_iff by blast+
qed

lemma no_action_passes: "r_action r = '''' \<Longrightarrow> AuthorizationMiddleware L unm e mgr keys r = Some (Next None None)"
  by (simp add: AuthorizationMiddleware_def)

lemma authorize_PostObject:
  assumes "rt \<in> set setupS3Routes" "rt_operation rt = PostObjectOp" "sv_engine s = Some e"
  shows "authorize E a rt q cx bucket key s = Some (Next None None)"
  using assms PostObject_route(1)[OF assms(1,2)] by (simp add: authorize_def no_action_passes http_view_def)

lemma run_PostObject:
  assumes "rt \<in> set setupS3Routes" "rt_operation rt = PostObjectOp"
  shows "serve_authorized F E c lq rt q cx bucket key s =
    ValidateS3BucketNameMiddleware (ae_lib E) bucket s (Some (handle_PostObject F E c q cx bucket s))"
  using assms PostObject_route(2)[OF assms(1,2)]
  by (simp add: serve_authorized_def reads_body_def run_handler_def unwrapped_def run_bucket_handler_def)

text \<open>C23. No policy has a say in an upload by a form: with another engine, that is with any other bucket
  policies, user policies or denials, the same request gets the same response and leaves the same
  objects behind.\<close>

theorem form_uploads_ignore_policies:
  assumes "rt \<in> set setupS3Routes" "rt_operation rt = PostObjectOp" "sv_engine s = Some e"
  shows "map_option (map_prod id sv_storage) (serve F E a c lq rt q bucket key (on_engine (Some e') s)) =
    map_option (map_prod id sv_storage) (serve F E a c lq rt q bucket key s)"
proof -
  have a: "authenticate E a q (on_engine (Some e') s) = authenticate E a q s"
    by (simp add: authenticate_def on_engine_def)
  have e: "sv_engine (on_engine (Some e') s) = Some e'" by (simp add: on_engine_def)
  have "map_option (map_prod id sv_storage) (serve_authorized F E' c lq rt q cx bucket key (on_engine (Some e') s)) =
    map_option (map_prod id sv_storage) (serve_authorized F E' c lq rt q cx bucket key s)" for E' cx
    unfolding run_PostObject[OF assms(1,2)] PostObject_engine
    by (simp add: ValidateS3BucketNameMiddleware_def on_engine_def map_prod_def split: option.split prod.split)
  then show ?thesis
    by (cases "authenticate E a q s")
      (simp_all add: serve_def a authorize_PostObject[OF assms(1,2) e] authorize_PostObject[OF assms])
qed

section \<open>Filtered listings\<close>

text \<open>The state after an owner was looked up: only the cache has changed, and it reads as before.\<close>

definition same_owners :: "string \<Rightarrow> ('f) s3_service \<Rightarrow> ('f) s3_service \<Rightarrow> bool" where
  "same_owners b s s' \<longleftrightarrow> sv_engine s' = sv_engine s \<and> sg_fs (sv_storage s') = sg_fs (sv_storage s) \<and>
     (\<forall>k. fst (GetObjectMetadata b k (sv_meta s')) = fst (GetObjectMetadata b k (sv_meta s)))"

lemma same_owners_trans: "same_owners b s s' \<Longrightarrow> same_owners b s' s'' \<Longrightarrow> same_owners b s s''"
  by (simp add: same_owners_def)

definition stored_owner :: "string \<Rightarrow> string \<Rightarrow> ('f) s3_service \<Rightarrow> uuid option" where
  "stored_owner b k s = (case fst (GetObjectMetadata b k (sv_meta s)) of Inr m \<Rightarrow> om_owner m | Inl _ \<Rightarrow> None)"

lemma owner_looked_up:
  assumes "isValidBucketName b"
  shows "(case GetObjectOwnerUUID F b k s of (Inl _, s) \<Rightarrow> (None, s) | (Inr uid, s) \<Rightarrow> (uid, s)) =
    (stored_owner b k s, snd (GetObjectOwnerUUID F b k s))"
    "same_owners b s (snd (GetObjectOwnerUUID F b k s))"
proof -
  have c: "fst (GetObjectMetadata b k' m) = fst (GetObjectMetadata b k' (sv_meta s))"
    if "GetObjectMetadata b k (sv_meta s) = (r, m)" for k' r m
    using metadata_cached[OF assms assms, of k' k "sv_meta s"] that by simp
  show "(case GetObjectOwnerUUID F b k s of (Inl _, s) \<Rightarrow> (None, s) | (Inr uid, s) \<Rightarrow> (uid, s)) =
    (stored_owner b k s, snd (GetObjectOwnerUUID F b k s))"
    by (auto simp: GetObjectOwnerUUID_def stored_owner_def split: prod.split sum.split)
  show "same_owners b s (snd (GetObjectOwnerUUID F b k s))"
    by (auto simp: GetObjectOwnerUUID_def same_owners_def c split: prod.split sum.split)
qed

lemma filter_objects_keeps:
  assumes "isValidBucketName b" "filter_objects F b ev obs s = Some (out, s')"
    and "\<And>k ow s'. same_owners b s s' \<Longrightarrow> ev k ow s' = ev' k ow"
  shows "out = filter (\<lambda>ob. ev' (so_key ob) (stored_owner b (so_key ob) s) = Some DecisionAllow) obs"
  using assms(2,3)
proof (induction obs arbitrary: s out)
  case (Cons ob obs)
  let ?s = "snd (GetObjectOwnerUUID F b (so_key ob) s)"
  note l = owner_looked_up[OF assms(1), where F = F and k = "so_key ob" and s = s]
  from Cons.prems(1) l(1) obtain d rest where d: "ev (so_key ob) (stored_owner b (so_key ob) s) ?s = Some d"
    "filter_objects F b ev obs ?s = Some (rest, s')" "out = (if IsAllowed d then ob # rest else rest)"
    by (auto simp: Let_def bind_eq_Some_conv)
  have "rest = filter (\<lambda>ob. ev' (so_key ob) (stored_owner b (so_key ob) ?s) = Some DecisionAllow) obs"
    using Cons.IH[OF d(2)] Cons.prems(2) same_owners_trans[OF l(2)] by blast
  moreover have "stored_owner b k ?s = stored_owner b k s" for k
    using l(2) by (simp add: same_owners_def stored_owner_def)
  moreover have "ev' (so_key ob) (stored_owner b (so_key ob) s) = Some d"
    using d(1) Cons.prems(2)[OF l(2)] by simp
  ultimately show ?case using d(3) by (auto simp: IsAllowed_def)
qed simp

lemma single_resource_passes:
  assumes "r_action r = ''s3:GetObject''" "\<not> pr_isAdmin (build_principal r keys)"
  shows "(\<exists>lg dec. AuthorizationMiddleware L unm e mgr keys r = Some (Next lg dec)) \<longleftrightarrow>
    EngineEvaluate L unm e (authz_request L mgr (build_principal r keys) r ''s3:GetObject'' (r_bucket r) (r_key r)) =
      Some DecisionAllow"
proof -
  have g: "GetRequiredPermissions ''s3:GetObject'' = [''s3:GetObject'']" "\<not> IsMultiResourceAction ''s3:GetObject''"
    "has_prefix ''s3:GetObject'' ''s3:''" by code_simp+
  show ?thesis
    using assms by (auto simp: AuthorizationMiddleware_def g Let_def bind_eq_Some_conv IsAllowed_def)
qed

lemma FromRequest_cong:
  assumes "r_user r = r_user r'" "r_header r = r_header r'" "r_remoteAddr r = r_remoteAddr r'"
  shows "FromRequest L r = FromRequest L r'"
  unfolding FromRequest_def extractSourceIP_def assms by (rule refl)

lemma build_conditions_cong:
  assumes "r_header r = r_header r'" "r_remoteAddr r = r_remoteAddr r'" "r_tls r = r_tls r'"
    "r_contentLength r = r_contentLength r'"
  shows "build_conditions L r = build_conditions L r'"
  unfolding build_conditions_def extractClientIP_def assms by (rule refl)

definition reading :: "http_request \<Rightarrow> string \<Rightarrow> string \<Rightarrow> http_request" where
  "reading r bucket key = r\<lparr>r_action := ''s3:GetObject'', r_bucket := bucket, r_key := key\<rparr>"

lemma reading_same:
  "FromRequest L (reading r b k) = FromRequest L r" "build_conditions L (reading r b k) = build_conditions L r"
  by (rule FromRequest_cong build_conditions_cong; simp add: reading_def)+

text \<open>C18. A listing shows exactly what the requester may read: for everyone but service accounts, the
  objects that pass the filter are those whose download the authorization middleware would let through,
  in their order.\<close>

theorem listing_shows_the_readable:
  assumes "request_filterObjects F L unm keys r bucket objects s = Some (shown, s')"
    and "isValidBucketName bucket" "\<forall>ob\<in>set objects. so_key ob \<noteq> ''''" "r_saInfo r = None" "sv_engine s = Some e"
  shows "shown = filter (\<lambda>ob. \<exists>lg dec. AuthorizationMiddleware L unm e (Some (manager_lookup (sv_meta s))) keys
    (reading r bucket (so_key ob)) = Some (Next lg dec)) objects"
proof -
  let ?p = "getRequestPrincipal r keys" and ?mgr = "Some (manager_lookup (sv_meta s))"
  have p: "build_principal (reading r bucket k) keys = ?p" for k
    using assms(4) by (simp add: build_principal_def getRequestPrincipal_def reading_def)
  have ne: "bucket \<noteq> ''''" using assms(2) by (auto simp: isValidBucketName_def)
  show ?thesis
  proof (cases "pr_isAdmin ?p")
    case True
    have "\<exists>lg dec. AuthorizationMiddleware L unm e ?mgr keys (reading r bucket k) = Some (Next lg dec)" for k
      using True p[of k] by (simp add: AuthorizationMiddleware_def reading_def Let_def)
    with True assms(1) show ?thesis by (simp add: request_filterObjects_def FilterObjects_def)
  next
    case False
    let ?req = "\<lambda>key ow. \<lparr>rq_principal = Some ?p, rq_action = ''s3:GetObject'',
      rq_resource = Some \<lparr>rs_bucket = bucket, rs_key = key\<rparr>, rq_conditions = Some (build_conditions L r),
      rq_varContext = Some (FromRequest L r), rq_bucketOwnerUUID = bucket_owner_or_none bucket s,
      rq_objectOwnerUUID = ow\<rparr>"
    have run: "filter_objects F bucket (\<lambda>key ow. observed L unm (?req key ow)) objects s = Some (shown, s')"
      using assms(1) False by (simp add: request_filterObjects_def FilterObjects_def Let_def)
    have "shown = filter (\<lambda>ob. EngineEvaluate L unm e (?req (so_key ob) (stored_owner bucket (so_key ob) s)) =
        Some DecisionAllow) objects"
      by (rule filter_objects_keeps[OF assms(2) run]) (simp add: observed_def same_owners_def assms(5))
    moreover have "?req k (stored_owner bucket k s) =
        authz_request L ?mgr ?p (reading r bucket k) ''s3:GetObject'' bucket k" if "k \<noteq> ''''" for k
      using that ne by (auto simp: authz_request_def fetchOwnership_def manager_lookup_def stored_owner_def
          bucket_owner_or_none_def GetBucket_def reading_same split: sum.splits)
    ultimately show ?thesis
      using assms(3) single_resource_passes[of "reading r bucket k" keys for k] p False
      by (auto simp: reading_def intro!: filter_cong)
  qed
qed

text \<open>The filter does not know that a request comes from a service account.\<close>

lemma filter_forgets_service_accounts:
  "request_filterObjects F L unm keys (r\<lparr>r_saInfo := i\<rparr>) bucket objects s =
   request_filterObjects F L unm keys r bucket objects s"
proof -
  have "build_conditions L (r\<lparr>r_saInfo := i\<rparr>) = build_conditions L r"
    by (rule build_conditions_cong) simp_all
  moreover have "FromRequest L (r\<lparr>r_saInfo := i\<rparr>) = FromRequest L r"
    by (rule FromRequest_cong) simp_all
  moreover have "getRequestPrincipal (r\<lparr>r_saInfo := i\<rparr>) keys = getRequestPrincipal r keys"
    by (simp add: getRequestPrincipal_def)
  ultimately show ?thesis by (simp add: request_filterObjects_def)
qed

section \<open>Examples\<close>

definition ex_api :: api_env where
  "ex_api =
     \<lparr>ae_sig = ex_sig, ae_lib = ex_lib, ae_unmarshal = ex_unmarshal, ae_crypt = ex_crypt, ae_unicode = ex_unicode,
      ae_md5 = (\<lambda>d. d), ae_codec = ex_codec, ae_keys = root_keys ex_authenticator,
      ae_postDocument = (\<lambda>_. None), ae_deleteXml = (\<lambda>_. None), ae_completeXml = (\<lambda>_. None),
      ae_taggingXml = (\<lambda>_. None), ae_policyJson = (\<lambda>_. None), ae_marshalPolicy = (\<lambda>_. None),
      ae_bucketURL = (\<lambda>_ b. b), ae_objectURL = (\<lambda>_ b k. b @ ''/'' @ k), ae_quote = (\<lambda>s. s),
      ae_storeText = (\<lambda>_. ''e''), ae_libText = (\<lambda>_. ''e'')\<rparr>"

definition ex_call :: call_env where
  "ex_call = \<lparr>ce_put = ex_env, ce_uploadID = ''u9'', ce_boundary = ''bd''\<rparr>"

definition ex_get :: api_request where
  "ex_get = \<lparr>q_parts = ex_parts, q_body = ('''', False), q_remoteAddr = ''10.0.0.1:99'', q_tls = False,
     q_contentLength = 0, q_form = None\<rparr>"

abbreviation ex_route :: "operation \<Rightarrow> route" where
  "ex_route oper \<equiv> hd (filter (\<lambda>rt. rt_operation rt = oper) setupS3Routes)"

abbreviation ex_admin_context :: request_context where
  "ex_admin_context \<equiv> context_of (Authenticated (RootUser ex_authenticator) None None)"

lemma ex_authenticated: "authenticate ex_api ex_authenticator ex_get s = Authenticated (RootUser ex_authenticator) None None"
  using ex_admin_authenticated by (simp add: authenticate_def ex_api_def ex_get_def)

lemma ex_authorized: "authorize ex_api ex_authenticator (ex_route GetObjectOp) ex_get ex_admin_context ''photos'' ''a/b'' ex_service =
    Some (Next (Some ''allow'') None)"
  by code_simp

definition ex_query :: list_query where
  "ex_query = \<lparr>lq_prefix = '''', lq_delimiter = '''', lq_marker = '''', lq_token = '''', lq_startAfter = '''',
     lq_maxKeys = 1000, lq_fetchOwner = False\<rparr>"

lemma ex_get_answered:
  "map_option (rs_status \<circ> fst) (serve_authorized mem_ops ex_api ex_call ex_query (ex_route GetObjectOp) ex_get
     ex_admin_context ''photos'' ''a/b'' ex_service) = Some 200"
  by code_simp

lemma ex_api_keys [simp]: "ex_api\<lparr>ae_keys := root_keys ex_authenticator\<rparr> = ex_api"
  by (simp add: ex_api_def)

lemma ex_serve: "serve mem_ops ex_api ex_authenticator ex_call ex_query (ex_route GetObjectOp) ex_get ''photos'' ''a/b'' ex_service =
    serve_authorized mem_ops ex_api ex_call ex_query (ex_route GetObjectOp) ex_get ex_admin_context ''photos'' ''a/b'' ex_service"
  by (simp only: serve_def ex_authenticated ex_authorized auth_outcome.case option.case authz_outcome.case ex_api_keys)

lemma ex_routes: "ex_route GetObjectOp \<in> set setupS3Routes" "ex_route PostObjectOp \<in> set setupS3Routes"
  "rt_operation (ex_route PostObjectOp) = PostObjectOp"
  by code_simp+

theorem served_requests_are_authorized_witness:
  "proven_user ex_api ex_authenticator ex_get ex_admin_context"
proof -
  obtain resp s' where "serve mem_ops ex_api ex_authenticator ex_call ex_query (ex_route GetObjectOp) ex_get ''photos''
      ''a/b'' ex_service = Some (resp, s')" "rs_status resp = 200"
    using ex_get_answered unfolding ex_serve[symmetric] by (auto simp: comp_def)
  then show ?thesis
    using served_requests_are_authorized[OF _ ex_routes(1)] by (fastforce simp: ex_authenticated Let_def)
qed

lemma ex_service_engine: "sv_engine ex_service = Some (NewEngine None)"
  by (simp add: ex_service_def)

theorem form_uploads_ignore_policies_witness:
  "map_option (map_prod id sv_storage) (serve mem_ops ex_api ex_authenticator ex_call ex_query (ex_route PostObjectOp) ex_get
      ''photos'' '''' (on_engine (Some (ex_engine [''Deny''] None)) ex_service)) =
   map_option (map_prod id sv_storage) (serve mem_ops ex_api ex_authenticator ex_call ex_query (ex_route PostObjectOp) ex_get
      ''photos'' '''' ex_service)"
  by (rule form_uploads_ignore_policies[OF ex_routes(2,3) ex_service_engine])

definition ex_reader_service :: "mem s3_service" where
  "ex_reader_service = ex_service\<lparr>sv_engine := Some
     \<lparr>e_cache = \<lparr>ca_bucketPolicies = [(''photos'', Some \<lparr>pd_version = ''v'', pd_id = '''',
        pd_statement = [(ex_statement ''Allow'' ''s3:GetObject'')\<lparr>st_principal := GStr ''*'',
          st_resource := GStr ''arn:aws:s3:::photos/a*''\<rparr>]\<rparr>)], ca_userPolicies = []\<rparr>, e_resolver = None\<rparr>\<rparr>"

definition ex_listed :: "s3_object list" where
  "ex_listed = map (\<lambda>k. \<lparr>so_key = k, so_size = 3, so_lastModified = 1, so_etag = ''e'', so_storageClass = ''STANDARD'',
     so_owner = None\<rparr>) [''a/b'', ''c'']"

definition ex_anonymous :: http_request where
  "ex_anonymous = (ex_http ''s3:ListObjects'' [] [])\<lparr>r_user := None, r_anonymous := True\<rparr>"

abbreviation ex_filtered :: "(s3_object list \<times> mem s3_service) option" where
  "ex_filtered \<equiv> request_filterObjects mem_ops ex_lib ex_unmarshal ex_keys ex_anonymous ''photos''
     ex_listed ex_reader_service"

lemma ex_filtered_run: "map_option (map so_key \<circ> fst) ex_filtered = Some [''a/b'']"
  by code_simp

theorem listing_shows_the_readable_witness:
  "map so_key (filter (\<lambda>ob. \<exists>lg dec. AuthorizationMiddleware ex_lib ex_unmarshal (the (sv_engine ex_reader_service))
     (Some (manager_lookup (sv_meta ex_reader_service))) ex_keys
     (reading ex_anonymous ''photos'' (so_key ob)) = Some (Next lg dec)) ex_listed) = [''a/b'']"
proof -
  obtain shown s' where f: "ex_filtered = Some (shown, s')" "map so_key shown = [''a/b'']"
    using ex_filtered_run by (auto simp: comp_def)
  have "isValidBucketName ''photos''" "\<forall>ob\<in>set ex_listed. so_key ob \<noteq> ''''"
    "r_saInfo ex_anonymous = None" by code_simp+
  note h = listing_shows_the_readable[OF f(1) this, of "the (sv_engine ex_reader_service)"]
  have "sv_engine ex_reader_service = Some (the (sv_engine ex_reader_service))"
    by (simp add: ex_reader_service_def)
  from h[OF this] f(2) show ?thesis by simp
qed

end
