(* ===== verification/AdminApi.thy ===== *)
theory AdminApi
  imports S3Server
begin

text \<open>
  \<^verbatim>\<open>internal/compat/minio/http\<close>: the admin API after the protocol of MinIO, through which users, groups,
  policies and service accounts are managed. A JSON body is the value that is handed to the encoder. The
  encryption of bodies, the decoders and the helper for query parameters are libraries and arguments here.
\<close>

section \<open>Requests and responses\<close>

record account_info =
  ai_accessKey :: string
  ai_accountStatus :: string
  ai_impliedPolicy :: bool
  ai_name :: string
  ai_description :: string
  ai_policy :: string
  ai_expiration :: "time option"

datatype admin_payload =
    UsersPayload "(string \<times> string \<times> string list \<times> time) list"
  | UserPayload string string string "string list" time "string list"
  | NoSuchUserPayload string
  | PoliciesPayload "(string \<times> policy_document option) list"
  | PolicyPayload "policy_document option"
  | PolicyInfoPayload string "policy_document option" time time
  | AssociationPayload "string list" "string list"
  | EntitiesPayload "string list" "string list"
  | GroupsPayload "string list"
  | GroupPayload string "string list" "string list" string time
  | AccountsPayload "account_info list"
  | AccountPayload account_info
  | CredentialsPayload string string "time option"

datatype admin_body = AdminEmpty | AdminJson admin_payload | AdminBytes string

record admin_response =
  ar_status :: nat
  ar_contentType :: string
  ar_body :: admin_body

definition admin_status :: "nat \<Rightarrow> admin_response" where
  "admin_status n = \<lparr>ar_status = n, ar_contentType = '''', ar_body = AdminEmpty\<rparr>"

definition admin_json :: "admin_payload \<Rightarrow> admin_response" where
  "admin_json p = \<lparr>ar_status = 200, ar_contentType = ''application/json'', ar_body = AdminJson p\<rparr>"

record add_account_body =
  ab_accessKey :: string
  ab_secretKey :: string
  ab_name :: string
  ab_description :: string
  ab_targetUser :: string
  ab_policyMode :: string
  ab_expiration :: "time option"

record update_account_body =
  ub_newSecretKey :: string
  ub_newStatus :: string
  ub_newName :: string
  ub_newDescription :: string
  ub_newExpiration :: "time option"

record admin_env =
  ad_crypt :: crypt_env
  ad_now :: time
  ad_fresh :: uuid
  ad_rand :: rand_source
  ad_query :: "http_parts \<Rightarrow> string \<Rightarrow> string"
  ad_queryBool :: "http_parts \<Rightarrow> string \<Rightarrow> bool"
  ad_decrypt :: "string \<Rightarrow> string \<Rightarrow> string option"
  ad_encrypt :: "string \<Rightarrow> admin_payload \<Rightarrow> string option"
  ad_mapJson :: "string \<Rightarrow> (string \<times> string) list option"
  ad_policyJson :: "string \<Rightarrow> policy_document option"
  ad_assocJson :: "string \<Rightarrow> (string \<times> string \<times> string list) option"
  ad_groupJson :: "string \<Rightarrow> (string \<times> string list \<times> bool) option"
  ad_addAccountJson :: "string \<Rightarrow> add_account_body option"
  ad_updateAccountJson :: "string \<Rightarrow> update_account_body option"
  ad_noop :: admin_response

text \<open>\<open>query.String(r, name, "")\<close>.\<close>

abbreviation param :: "admin_env \<Rightarrow> api_request \<Rightarrow> string \<Rightarrow> string" where
  "param A q k \<equiv> ad_query A (q_parts q) k"

definition decryptAndUnmarshal ::
  "admin_env \<Rightarrow> string \<Rightarrow> string \<times> bool \<Rightarrow> (string \<Rightarrow> 'a option) \<Rightarrow> 'a option" where
  "decryptAndUnmarshal A secretKey body decode =
     (if snd body then None else Option.bind (ad_decrypt A secretKey (fst body)) decode)"

definition writeEncryptedJSON :: "admin_env \<Rightarrow> string \<Rightarrow> admin_payload \<Rightarrow> admin_response" where
  "writeEncryptedJSON A secretKey p =
     (case ad_encrypt A secretKey p of
        None \<Rightarrow> admin_status 500
      | Some encrypted \<Rightarrow>
          \<lparr>ar_status = 200, ar_contentType = ''application/octet-stream'', ar_body = AdminBytes encrypted\<rparr>)"

section \<open>Errors\<close>

fun wraps :: "(svc_error \<Rightarrow> bool) \<Rightarrow> service_error \<Rightarrow> bool" where
  "wraps P (SvcErr e) = P e"
| "wraps P _ = False"

text \<open>The order in which most handlers test the error of a service, and that of the creations.\<close>

definition lookup_status :: "service_error \<Rightarrow> nat" where
  "lookup_status e = (if wraps IsNotFound e then 404 else if wraps IsValidation e then 400 else 500)"

definition creation_status :: "service_error \<Rightarrow> nat" where
  "creation_status e = (if wraps IsAlreadyExists e then 409 else if wraps IsValidation e then 400 else 500)"

definition found_status :: "service_error \<Rightarrow> nat" where
  "found_status e = (if wraps IsNotFound e then 404 else 500)"

section \<open>Users (user.go)\<close>

definition list_users :: "admin_env \<Rightarrow> meta_store \<Rightarrow> (string \<times> string \<times> string list \<times> time) list" where
  "list_users A st =
     fold (\<lambda>uid result.
         case UserGet (ad_crypt A) st uid of
           Inl _ \<Rightarrow> result
         | Inr u \<Rightarrow>
             AList.update (u_accessKey u) (user_status_minio_string (u_status u), UserGetGroups st uid, u_updatedAt u) result)
       (UserList st) []"

definition admin_ListUsers :: "admin_env \<Rightarrow> iam_user option \<Rightarrow> meta_store \<Rightarrow> admin_response" where
  "admin_ListUsers A requester st =
     (case requester of
        None \<Rightarrow> admin_status 401
      | Some adminUser \<Rightarrow> writeEncryptedJSON A (u_secretKey adminUser) (UsersPayload (list_users A st)))"

definition admin_CreateUser ::
  "admin_env \<Rightarrow> iam_user option \<Rightarrow> api_request \<Rightarrow> meta_store \<Rightarrow> admin_response \<times> meta_store" where
  "admin_CreateUser A requester q st =
     (let accessKey = param A q ''accessKey''
      in if snd (q_body q) \<or> accessKey = '''' then (admin_status 400, st)
         else case requester of
           None \<Rightarrow> (admin_status 401, st)
         | Some adminUser \<Rightarrow>
        (case decryptAndUnmarshal A (u_secretKey adminUser) (q_body q) (ad_mapJson A) of
           None \<Rightarrow> (admin_status 400, st)
         | Some body \<Rightarrow>
             let field = (\<lambda>k. case map_of body k of Some v \<Rightarrow> v | None \<Rightarrow> '''')
             in case UserCreate (ad_crypt A) (ad_now A) (ad_fresh A)
                       \<lparr>cu_accessKey = accessKey, cu_secretKey = field ''secretKey'',
                        cu_status = (if field ''status'' = ''enabled'' then UserStatusActive
                                     else UserStatusDisabled)\<rparr> st of
                  (Inl e, st) \<Rightarrow> (admin_status (creation_status e), st)
                | (Inr _, st) \<Rightarrow> (admin_status 200, st)))"

definition no_such_user :: "api_request \<Rightarrow> admin_response" where
  "no_such_user q =
     \<lparr>ar_status = 404, ar_contentType = ''application/json'',
      ar_body = AdminJson (NoSuchUserPayload (hp_escapedPath (q_parts q)))\<rparr>"

definition user_lookup_failed :: "api_request \<Rightarrow> service_error \<Rightarrow> admin_response" where
  "user_lookup_failed q e =
     (if wraps IsNotFound e then no_such_user q else admin_status (if wraps IsValidation e then 400 else 500))"

definition admin_RemoveUser ::
  "admin_env \<Rightarrow> api_request \<Rightarrow> meta_store \<Rightarrow> admin_response \<times> meta_store" where
  "admin_RemoveUser A q st =
     (case UserGetByAccessKey (ad_crypt A) st (param A q ''accessKey'') of
        Inl e \<Rightarrow> (user_lookup_failed q e, st)
      | Inr u \<Rightarrow>
          (case UserDelete (ad_crypt A) (ad_now A) (u_uuid u) st of
             (Some _, st) \<Rightarrow> (admin_status 500, st)
           | (None, st) \<Rightarrow> (admin_status 200, st)))"

definition admin_InfoUser :: "admin_env \<Rightarrow> api_request \<Rightarrow> meta_store \<Rightarrow> admin_response" where
  "admin_InfoUser A q st =
     (let accessKey = param A q ''accessKey''
      in if accessKey = '''' then admin_status 400
         else case UserGetByAccessKey (ad_crypt A) st accessKey of
           Inl e \<Rightarrow> user_lookup_failed q e
         | Inr u \<Rightarrow>
             admin_json (UserPayload (u_accessKey u) (user_status_minio_string (u_status u))
               (str_join '','' (u_attachedPolicies u)) (UserGetGroups st (u_uuid u)) (u_updatedAt u)
               (u_attachedPolicies u)))"

definition admin_SetUserStatus ::
  "admin_env \<Rightarrow> api_request \<Rightarrow> meta_store \<Rightarrow> admin_response \<times> meta_store" where
  "admin_SetUserStatus A q st =
     (let accessKey = param A q ''accessKey''; status = param A q ''status''
      in if accessKey = '''' \<or> status \<notin> {''enabled'', ''disabled''} then (admin_status 400, st)
         else case UserGetByAccessKey (ad_crypt A) st accessKey of
           Inl e \<Rightarrow> (admin_status (lookup_status e), st)
         | Inr u \<Rightarrow>
             (case UserUpdate (ad_crypt A) (ad_now A) (ad_fresh A) (u_uuid u)
                     \<lparr>uu_secretKey = None,
                      uu_status = Some (if status = ''enabled'' then UserStatusActive else UserStatusDisabled),
                      uu_attachedPolicies = None\<rparr> st of
                (Inl e, st) \<Rightarrow> (admin_status (lookup_status e), st)
              | (Inr _, st) \<Rightarrow> (admin_status 200, st)))"

section \<open>Policies (policy.go)\<close>

definition admin_AddCannedPolicy ::
  "admin_env \<Rightarrow> api_request \<Rightarrow> meta_store \<Rightarrow> admin_response \<times> meta_store" where
  "admin_AddCannedPolicy A q st =
     (let policyName = param A q ''name''
      in if policyName = '''' \<or> snd (q_body q) then (admin_status 400, st)
         else case ad_policyJson A (fst (q_body q)) of
           None \<Rightarrow> (admin_status 400, st)
         | Some policyDoc \<Rightarrow>
             (case PolicyCreate (ad_now A) policyName (Some policyDoc) st of
                (Inl e, st) \<Rightarrow> (admin_status (creation_status e), st)
              | (Inr _, st) \<Rightarrow> (admin_status 200, st)))"

definition admin_ListCannedPolicies :: "meta_store \<Rightarrow> admin_response" where
  "admin_ListCannedPolicies st =
     admin_json (PoliciesPayload (map (\<lambda>(nm, p). (nm, p_document p)) (PolicyList st)))"

definition admin_RemoveCannedPolicy ::
  "admin_env \<Rightarrow> api_request \<Rightarrow> meta_store \<Rightarrow> admin_response \<times> meta_store" where
  "admin_RemoveCannedPolicy A q st =
     (let policyName = param A q ''name''
      in if policyName = '''' then (admin_status 400, st)
         else case PolicyDelete policyName st of
           (Some e, st) \<Rightarrow>
             (admin_status (if e = SvcErr SvcPolicyIsBuiltin then 403 else lookup_status e), st)
         | (None, st) \<Rightarrow> (admin_status 200, st))"

definition admin_InfoCannedPolicy :: "admin_env \<Rightarrow> api_request \<Rightarrow> meta_store \<Rightarrow> admin_response" where
  "admin_InfoCannedPolicy A q st =
     (let policyName = param A q ''name''
      in if policyName = '''' then admin_status 400
         else case PolicyGet st policyName of
           Inl e \<Rightarrow> admin_status (lookup_status e)
         | Inr p \<Rightarrow>
             admin_json
               (if param A q ''v'' = ''2''
                then PolicyInfoPayload (p_name p) (p_document p) (p_createDate p) (p_updateDate p)
                else PolicyPayload (p_document p)))"

text \<open>Policy, user or group, and whether it is a group: from an encrypted body or from the query.\<close>

definition encrypted_request :: "api_request \<Rightarrow> bool" where
  "encrypted_request q \<longleftrightarrow> header_of_request q ''Content-Type'' = ''application/octet-stream''"

definition parsePolicyAssocParams ::
  "admin_env \<Rightarrow> iam_user option \<Rightarrow> api_request \<Rightarrow> admin_response + string \<times> string \<times> bool" where
  "parsePolicyAssocParams A requester q =
     (if \<not> encrypted_request q \<or> q_contentLength q \<le> 0 then
        Inr (param A q ''policyName'', param A q ''userOrGroup'', ad_queryBool A (q_parts q) ''isGroup'')
      else case requester of
        None \<Rightarrow> Inl (admin_status 401)
      | Some adminUser \<Rightarrow>
          (case decryptAndUnmarshal A (u_secretKey adminUser) (q_body q) (ad_assocJson A) of
             None \<Rightarrow> Inl (admin_status 400)
           | Some (user, grp, policies) \<Rightarrow>
               Inr (if policies \<noteq> [] then hd policies else '''',
                    if user \<noteq> '''' then user else grp,
                    user = '''' \<and> grp \<noteq> '''')))"

text \<open>What \<open>SetPolicy\<close> and \<open>DetachPolicy\<close> share: the change to a group or a user, and the answer.\<close>

definition change_association ::
  "admin_env \<Rightarrow> iam_user option \<Rightarrow> api_request
     \<Rightarrow> (string \<Rightarrow> string \<Rightarrow> meta_store \<Rightarrow> service_error option \<times> meta_store)
     \<Rightarrow> (uuid \<Rightarrow> string \<Rightarrow> meta_store \<Rightarrow> service_error option \<times> meta_store)
     \<Rightarrow> (string \<Rightarrow> admin_payload) \<Rightarrow> meta_store \<Rightarrow> admin_response \<times> meta_store" where
  "change_association A requester q on_group on_user payload st =
     (case parsePolicyAssocParams A requester q of
        Inl resp \<Rightarrow> (resp, st)
      | Inr (policyName, userOrGroup, isGroup) \<Rightarrow>
          if policyName = '''' \<or> userOrGroup = '''' then (admin_status 400, st)
          else let finish = (\<lambda>(err, st).
            case err of
              Some e \<Rightarrow> (admin_status (lookup_status e), st)
            | None \<Rightarrow>
                if encrypted_request q then
                  (case requester of
                     None \<Rightarrow> (admin_status 500, st)
                   | Some adminUser \<Rightarrow> (writeEncryptedJSON A (u_secretKey adminUser) (payload policyName), st))
                else (admin_status 200, st))
          in if isGroup then finish (on_group userOrGroup policyName st)
             else case UserGetByAccessKey (ad_crypt A) st userOrGroup of
               Inl e \<Rightarrow> (admin_status (found_status e), st)
             | Inr u \<Rightarrow> finish (on_user (u_uuid u) policyName st))"

definition admin_SetPolicy ::
  "admin_env \<Rightarrow> iam_user option \<Rightarrow> api_request \<Rightarrow> meta_store \<Rightarrow> admin_response \<times> meta_store" where
  "admin_SetPolicy A requester q =
     change_association A requester q (GroupAttachPolicy (ad_now A))
       (UserAttachPolicy (ad_crypt A) (ad_now A) (ad_fresh A)) (\<lambda>p. AssociationPayload [p] [])"

definition admin_DetachPolicy ::
  "admin_env \<Rightarrow> iam_user option \<Rightarrow> api_request \<Rightarrow> meta_store \<Rightarrow> admin_response \<times> meta_store" where
  "admin_DetachPolicy A requester q =
     change_association A requester q (GroupDetachPolicy (ad_now A))
       (UserDetachPolicy (ad_crypt A) (ad_now A) (ad_fresh A)) (\<lambda>p. AssociationPayload [] [p])"

definition admin_PolicyEntitiesList :: "admin_env \<Rightarrow> api_request \<Rightarrow> meta_store \<Rightarrow> admin_response" where
  "admin_PolicyEntitiesList A q st =
     (let policyName = param A q ''policy''
      in if policyName = '''' then admin_status 400
         else admin_json (EntitiesPayload
           (List.map_filter
              (\<lambda>uid. case UserGet (ad_crypt A) st uid of
                       Inl _ \<Rightarrow> None
                     | Inr u \<Rightarrow> if policyName \<in> set (u_attachedPolicies u) then Some (u_accessKey u) else None)
              (UserList st))
           (List.map_filter
              (\<lambda>nm. case GroupGet st nm of
                      Inl _ \<Rightarrow> None
                    | Inr g \<Rightarrow> if policyName \<in> set (g_attachedPolicies g) then Some nm else None)
              (GroupList st))))"

section \<open>Groups (group.go)\<close>

definition admin_ListGroups :: "meta_store \<Rightarrow> admin_response" where
  "admin_ListGroups st = admin_json (GroupsPayload (GroupList st))"

definition admin_GetGroupInfo :: "admin_env \<Rightarrow> api_request \<Rightarrow> meta_store \<Rightarrow> admin_response" where
  "admin_GetGroupInfo A q st =
     (let nm = param A q ''group''
      in if nm = '''' then admin_status 400
         else case GroupGet st nm of
           Inl e \<Rightarrow> admin_status (lookup_status e)
         | Inr g \<Rightarrow>
             (case GetMemberAccessKeys (ad_crypt A) st nm of
                Inl _ \<Rightarrow> admin_status 500
              | Inr memberKeys \<Rightarrow>
                  admin_json (GroupPayload (g_name g) memberKeys (g_attachedPolicies g) (g_status g) (g_updatedAt g))))"

text \<open>One operation after the other, until the first that fails; \<open>None\<close> is success.\<close>

fun for_each_member ::
  "(string \<Rightarrow> meta_store \<Rightarrow> service_error option \<times> meta_store) \<Rightarrow> string list \<Rightarrow> meta_store
     \<Rightarrow> nat option \<times> meta_store" where
  "for_each_member act [] st = (None, st)"
| "for_each_member act (k # ks) st =
     (case act k st of
        (Some e, st) \<Rightarrow> (Some (found_status e), st)
      | (None, st) \<Rightarrow> for_each_member act ks st)"

definition deleteGroup :: "string \<Rightarrow> meta_store \<Rightarrow> nat option \<times> meta_store" where
  "deleteGroup groupName st = map_prod (map_option found_status) id (GroupDelete groupName st)"

definition removeGroupMembers ::
  "admin_env \<Rightarrow> string \<Rightarrow> string list \<Rightarrow> meta_store \<Rightarrow> nat option \<times> meta_store" where
  "removeGroupMembers A groupName =
     for_each_member (RemoveMemberByAccessKey (ad_crypt A) (ad_now A) groupName)"

definition handleRemove ::
  "admin_env \<Rightarrow> string \<Rightarrow> string list \<Rightarrow> meta_store \<Rightarrow> nat option \<times> meta_store" where
  "handleRemove A groupName members =
     (if members = [] then deleteGroup groupName else removeGroupMembers A groupName members)"

definition ensureGroupAndAddMembers ::
  "admin_env \<Rightarrow> string \<Rightarrow> string list \<Rightarrow> meta_store \<Rightarrow> nat option \<times> meta_store" where
  "ensureGroupAndAddMembers A groupName members st =
     (let add = for_each_member (AddMemberByAccessKey (ad_crypt A) (ad_now A) groupName) members
      in case GroupGet st groupName of
           Inr _ \<Rightarrow> add st
         | Inl e \<Rightarrow>
             if \<not> wraps IsNotFound e then (Some 500, st)
             else case GroupCreate (ad_now A) groupName st of
               (Inl e, st) \<Rightarrow> if wraps IsAlreadyExists e then add st else (Some 500, st)
             | (Inr _, st) \<Rightarrow> add st)"

text \<open>The decoder stops after the document, so it is given the bytes that were read.\<close>

definition admin_UpdateGroupMembers ::
  "admin_env \<Rightarrow> api_request \<Rightarrow> meta_store \<Rightarrow> admin_response \<times> meta_store" where
  "admin_UpdateGroupMembers A q st =
     (case ad_groupJson A (fst (q_body q)) of
        None \<Rightarrow> (admin_status 400, st)
      | Some (grp, members, isRemove) \<Rightarrow>
          if grp = '''' then (admin_status 400, st)
          else case (if isRemove then handleRemove A grp members st
                     else ensureGroupAndAddMembers A grp members st) of
            (Some status, st) \<Rightarrow> (admin_status status, st)
          | (None, st) \<Rightarrow> (admin_status 200, st))"

definition admin_SetGroupStatus ::
  "admin_env \<Rightarrow> api_request \<Rightarrow> meta_store \<Rightarrow> admin_response \<times> meta_store" where
  "admin_SetGroupStatus A q st =
     (let nm = param A q ''group''; status = param A q ''status''
      in if nm = '''' \<or> status \<notin> {''enabled'', ''disabled''} then (admin_status 400, st)
         else case GroupSetStatus (ad_now A) nm
                     (if status = ''enabled'' then GroupStatusActive else GroupStatusDisabled) st of
           (Some e, st) \<Rightarrow> (admin_status (lookup_status e), st)
         | (None, st) \<Rightarrow> (admin_status 200, st))"

section \<open>Service accounts (service\_account.go)\<close>

text \<open>In a list the expiry is never nil: the zero time stands for none.\<close>

definition account_info_of :: "service_account \<Rightarrow> account_info" where
  "account_info_of sa =
     \<lparr>ai_accessKey = sa_accessKey sa, ai_accountStatus = sa_status sa,
      ai_impliedPolicy = (sa_policyMode sa \<noteq> PolicyModeOverride), ai_name = sa_name sa,
      ai_description = sa_description sa, ai_policy = sa_embeddedPolicyJSON sa,
      ai_expiration = sa_expiresAt sa\<rparr>"

definition listed_account :: "service_account \<Rightarrow> account_info" where
  "listed_account sa =
     (account_info_of sa)\<lparr>ai_policy := '''',
        ai_expiration := Some (case sa_expiresAt sa of None \<Rightarrow> 0 | Some t \<Rightarrow> t)\<rparr>"

definition admin_ListServiceAccounts :: "admin_env \<Rightarrow> iam_user option \<Rightarrow> meta_store \<Rightarrow> admin_response" where
  "admin_ListServiceAccounts A requester st =
     (case requester of
        None \<Rightarrow> admin_status 401
      | Some adminUser \<Rightarrow>
          writeEncryptedJSON A (u_secretKey adminUser) (AccountsPayload
            (List.map_filter
               (\<lambda>key. case SAGet (ad_crypt A) st key of Inl _ \<Rightarrow> None | Inr sa \<Rightarrow> Some (listed_account sa))
               (SAList st))))"

definition admin_AddServiceAccount ::
  "admin_env \<Rightarrow> iam_user option \<Rightarrow> api_request \<Rightarrow> meta_store \<Rightarrow> admin_response \<times> meta_store" where
  "admin_AddServiceAccount A requester q st =
     (if snd (q_body q) then (admin_status 400, st)
      else case requester of
        None \<Rightarrow> (admin_status 401, st)
      | Some adminUser \<Rightarrow>
     (case decryptAndUnmarshal A (u_secretKey adminUser) (q_body q) (ad_addAccountJson A) of
        None \<Rightarrow> (admin_status 400, st)
      | Some body \<Rightarrow>
          (case SACreate (ad_crypt A) (ad_rand A) (ad_now A) (ad_fresh A)
                  \<lparr>cs_accessKey = ab_accessKey body, cs_secretKey = ab_secretKey body, cs_name = ab_name body,
                   cs_description = ab_description body,
                   cs_parentUser = (if ab_targetUser body \<noteq> '''' then Some (ab_targetUser body) else None),
                   cs_parentUserUUID = None, cs_policyMode = ab_policyMode body, cs_embeddedPolicyJSON = '''',
                   cs_expiresAt = ab_expiration body\<rparr> st of
             (Inl e, st) \<Rightarrow> (admin_status (creation_status e), st)
           | (Inr sa, st) \<Rightarrow>
               (writeEncryptedJSON A (u_secretKey adminUser)
                  (CredentialsPayload (sa_accessKey sa) (sa_secretKey sa) (sa_expiresAt sa)), st))))"

definition admin_DeleteServiceAccount ::
  "admin_env \<Rightarrow> api_request \<Rightarrow> meta_store \<Rightarrow> admin_response \<times> meta_store" where
  "admin_DeleteServiceAccount A q st =
     (let accessKey = param A q ''accessKey''
      in if accessKey = '''' then (admin_status 400, st)
         else case SADelete (ad_crypt A) accessKey st of
           (Some e, st) \<Rightarrow> (admin_status (lookup_status e), st)
         | (None, st) \<Rightarrow> (admin_status 204, st))"

definition admin_InfoServiceAccount ::
  "admin_env \<Rightarrow> iam_user option \<Rightarrow> api_request \<Rightarrow> meta_store \<Rightarrow> admin_response" where
  "admin_InfoServiceAccount A requester q st =
     (case requester of
        None \<Rightarrow> admin_status 401
      | Some adminUser \<Rightarrow>
          let accessKey = param A q ''accessKey''
          in if accessKey = '''' then admin_status 400
             else case SAGet (ad_crypt A) st accessKey of
               Inl e \<Rightarrow> admin_status (found_status e)
             | Inr sa \<Rightarrow>
                 writeEncryptedJSON A (u_secretKey adminUser) (AccountPayload ((account_info_of sa)\<lparr>ai_accessKey := ''''\<rparr>)))"

fun statusStringToServiceAcct :: "string \<Rightarrow> string" where
  "statusStringToServiceAcct s =
     (if s \<in> {''on'', ''enabled''} then ServiceAcctStatusActive
      else if s \<in> {''off'', ''disabled''} then ServiceAcctStatusDisabled
      else '''')"

definition given :: "string \<Rightarrow> string option" where
  "given s = (if s \<noteq> '''' then Some s else None)"

definition parseUpdateBody ::
  "admin_env \<Rightarrow> iam_user option \<Rightarrow> string \<Rightarrow> admin_response + update_sa_request" where
  "parseUpdateBody A requester bodyBytes =
     (if bodyBytes = '''' then
        Inr \<lparr>us_secretKey = None, us_status = None, us_name = None, us_description = None,
             us_embeddedPolicyJSON = None, us_expiresAt = None\<rparr>
      else case requester of
        None \<Rightarrow> Inl (admin_status 401)
      | Some adminUser \<Rightarrow>
     (case decryptAndUnmarshal A (u_secretKey adminUser) (bodyBytes, False) (ad_updateAccountJson A) of
        None \<Rightarrow> Inl (admin_status 400)
      | Some body \<Rightarrow>
          if ub_newStatus body \<noteq> '''' \<and> statusStringToServiceAcct (ub_newStatus body) = '''' then
            Inl (admin_status 400)
          else
            Inr \<lparr>us_secretKey = given (ub_newSecretKey body),
                 us_status = map_option statusStringToServiceAcct (given (ub_newStatus body)),
                 us_name = given (ub_newName body), us_description = given (ub_newDescription body),
                 us_embeddedPolicyJSON = None, us_expiresAt = map_option Some (ub_newExpiration body)\<rparr>))"

definition admin_UpdateServiceAccount ::
  "admin_env \<Rightarrow> iam_user option \<Rightarrow> api_request \<Rightarrow> meta_store \<Rightarrow> admin_response \<times> meta_store" where
  "admin_UpdateServiceAccount A requester q st =
     (let accessKey = param A q ''accessKey''
      in if accessKey = '''' \<or> snd (q_body q) then (admin_status 400, st)
         else case parseUpdateBody A requester (fst (q_body q)) of
           Inl resp \<Rightarrow> (resp, st)
         | Inr req \<Rightarrow>
             (case SAUpdate (ad_crypt A) (ad_now A) accessKey req st of
                (Inl e, st) \<Rightarrow> (admin_status (lookup_status e), st)
              | (Inr _, st) \<Rightarrow> (admin_status 204, st)))"

section \<open>Routes (routes.go, minio.go)\<close>

datatype admin_operation =
    AdminListUsers | AdminAddUser | AdminRemoveUser | AdminUserInfo | AdminSetUserStatus
  | AdminListCannedPolicies | AdminAddCannedPolicy | AdminRemoveCannedPolicy | AdminCannedPolicyInfo
  | AdminListServiceAccounts | AdminAddServiceAccount | AdminDeleteServiceAccount
  | AdminServiceAccountInfo | AdminUpdateServiceAccount
  | AdminUpdateGroupMembers | AdminGroupInfo | AdminListGroups | AdminSetGroupStatus
  | AdminSetPolicy | AdminDetachPolicy | AdminListPolicyEntities | AdminInfo | AdminHealth

text \<open>Method and path below \<open>/minio/admin/v3\<close>. No route has an action.\<close>

definition admin_routes :: "(string \<times> string \<times> admin_operation) list" where
  "admin_routes =
     [(''GET'', ''/list-users'', AdminListUsers), (''PUT'', ''/add-user'', AdminAddUser),
      (''DELETE'', ''/remove-user'', AdminRemoveUser), (''GET'', ''/user-info'', AdminUserInfo),
      (''PUT'', ''/set-user-status'', AdminSetUserStatus),
      (''GET'', ''/list-canned-policies'', AdminListCannedPolicies),
      (''POST'', ''/add-canned-policy'', AdminAddCannedPolicy), (''PUT'', ''/add-canned-policy'', AdminAddCannedPolicy),
      (''POST'', ''/remove-canned-policy'', AdminRemoveCannedPolicy),
      (''DELETE'', ''/remove-canned-policy'', AdminRemoveCannedPolicy),
      (''GET'', ''/info-canned-policy'', AdminCannedPolicyInfo),
      (''GET'', ''/list-service-accounts'', AdminListServiceAccounts),
      (''POST'', ''/add-service-account'', AdminAddServiceAccount),
      (''PUT'', ''/add-service-account'', AdminAddServiceAccount),
      (''POST'', ''/delete-service-account'', AdminDeleteServiceAccount),
      (''DELETE'', ''/delete-service-account'', AdminDeleteServiceAccount),
      (''GET'', ''/info-service-account'', AdminServiceAccountInfo),
      (''POST'', ''/update-service-account'', AdminUpdateServiceAccount),
      (''POST'', ''/update-group-members'', AdminUpdateGroupMembers),
      (''PUT'', ''/update-group-members'', AdminUpdateGroupMembers),
      (''GET'', ''/group'', AdminGroupInfo), (''GET'', ''/groups'', AdminListGroups),
      (''POST'', ''/set-group-status'', AdminSetGroupStatus),
      (''POST'', ''/set-policy'', AdminSetPolicy), (''PUT'', ''/set-user-or-group-policy'', AdminSetPolicy),
      (''POST'', ''/idp/builtin/policy/attach'', AdminSetPolicy),
      (''POST'', ''/idp/builtin/policy/detach'', AdminDetachPolicy),
      (''GET'', ''/policy-entities'', AdminListPolicyEntities),
      (''GET'', ''/info'', AdminInfo), (''GET'', ''/health'', AdminHealth)]"

definition admin_handle ::
  "admin_env \<Rightarrow> admin_operation \<Rightarrow> iam_user option \<Rightarrow> api_request \<Rightarrow> meta_store
     \<Rightarrow> admin_response \<times> meta_store" where
  "admin_handle A oper requester q st =
     (case oper of
        AdminListUsers \<Rightarrow> (admin_ListUsers A requester st, st)
      | AdminAddUser \<Rightarrow> admin_CreateUser A requester q st
      | AdminRemoveUser \<Rightarrow> admin_RemoveUser A q st
      | AdminUserInfo \<Rightarrow> (admin_InfoUser A q st, st)
      | AdminSetUserStatus \<Rightarrow> admin_SetUserStatus A q st
      | AdminListCannedPolicies \<Rightarrow> (admin_ListCannedPolicies st, st)
      | AdminAddCannedPolicy \<Rightarrow> admin_AddCannedPolicy A q st
      | AdminRemoveCannedPolicy \<Rightarrow> admin_RemoveCannedPolicy A q st
      | AdminCannedPolicyInfo \<Rightarrow> (admin_InfoCannedPolicy A q st, st)
      | AdminListServiceAccounts \<Rightarrow> (admin_ListServiceAccounts A requester st, st)
      | AdminAddServiceAccount \<Rightarrow> admin_AddServiceAccount A requester q st
      | AdminDeleteServiceAccount \<Rightarrow> admin_DeleteServiceAccount A q st
      | AdminServiceAccountInfo \<Rightarrow> (admin_InfoServiceAccount A requester q st, st)
      | AdminUpdateServiceAccount \<Rightarrow> admin_UpdateServiceAccount A requester q st
      | AdminUpdateGroupMembers \<Rightarrow> admin_UpdateGroupMembers A q st
      | AdminGroupInfo \<Rightarrow> (admin_GetGroupInfo A q st, st)
      | AdminListGroups \<Rightarrow> (admin_ListGroups st, st)
      | AdminSetGroupStatus \<Rightarrow> admin_SetGroupStatus A q st
      | AdminSetPolicy \<Rightarrow> admin_SetPolicy A requester q st
      | AdminDetachPolicy \<Rightarrow> admin_DetachPolicy A requester q st
      | AdminListPolicyEntities \<Rightarrow> (admin_PolicyEntitiesList A q st, st)
      | AdminInfo \<Rightarrow> (ad_noop A, st)
      | AdminHealth \<Rightarrow> (ad_noop A, st))"

section \<open>The way of a request\<close>

text \<open>The operations that read the body; the others do not touch what the chunk decoder left of it.\<close>

definition admin_reads_body :: "admin_operation \<Rightarrow> api_request \<Rightarrow> bool" where
  "admin_reads_body oper q \<longleftrightarrow>
     oper \<in> {AdminAddUser, AdminAddCannedPolicy, AdminAddServiceAccount, AdminUpdateServiceAccount,
       AdminUpdateGroupMembers} \<or>
     oper \<in> {AdminSetPolicy, AdminDetachPolicy} \<and> encrypted_request q \<and> 0 < q_contentLength q"

text \<open>The admin routes are in the group of the S3 routes and go through the same three middlewares.\<close>

definition serve_admin ::
  "api_env \<Rightarrow> authenticator \<Rightarrow> admin_env \<Rightarrow> admin_operation \<Rightarrow> api_request \<Rightarrow> ('f) s3_service
     \<Rightarrow> ((api_response + admin_response) \<times> ('f) s3_service) option" where
  "serve_admin E a A oper q s =
     (let out = authenticate E a q s; cx = context_of out
      in case out of
           Rejected code \<Rightarrow> Some (Inl (WriteErrorResponse (auth_code code) None), s)
         | _ \<Rightarrow> do {
             e \<leftarrow> sv_engine s;
             z \<leftarrow> AuthorizationMiddleware (ae_lib E) (ae_unmarshal E) e (Some (manager_lookup (sv_meta s)))
               (root_keys a) (http_view q cx '''' '''' '''');
             (case z of
                AccessDenied \<Rightarrow> Some (Inl (WriteErrorResponse ErrCodeAccessDenied None), s)
              | Next _ _ \<Rightarrow> do {
                  q \<leftarrow> (if admin_reads_body oper q then ChunkedEncoding E q else Some q);
                  (case admin_handle A oper (cx_user cx) q (sv_meta s) of
                     (resp, st) \<Rightarrow> Some (Inr resp, s\<lparr>sv_storage := (sv_storage s)\<lparr>sg_meta := st\<rparr>\<rparr>)) }) })"

end
