(* ===== verification/AdminProps.thy ===== *)
theory AdminProps
  imports AdminApi ServicesProps S3ServerProps
begin

text \<open>
  Properties of the admin API of theory AdminApi: every request is a sequence of operations of the services, so
  that their invariants hold; and no request is checked against the rights of its sender.
\<close>

section \<open>Requests as steps of the services\<close>

text \<open>The environment of a request: a fresh nonce and a fresh UUID.\<close>

definition admin_fresh :: "crypt_env \<Rightarrow> admin_env \<Rightarrow> meta_store \<Rightarrow> bool" where
  "admin_fresh C A st \<longleftrightarrow> (\<exists>n. ad_crypt A = with_nonce n C \<and> length n = 12) \<and> map_of (ms_users st) (ad_fresh A) = None"

lemma nonce_delete [simp]: "MetaDeleteUser (with_nonce n C) = MetaDeleteUser C"
  unfolding MetaDeleteUser_def fun_eq_iff nonce_get by simp

lemma nonce_services [simp]:
  "UserDelete (with_nonce n C) = UserDelete C" "SADelete (with_nonce n C) = SADelete C"
  "UserGetByAccessKey (with_nonce n C) = UserGetByAccessKey C" "AddMember (with_nonce n C) = AddMember C"
  unfolding fun_eq_iff UserDelete_def SADelete_def UserGetByAccessKey_def AddMember_def nonce_delete nonce_get
    UserGet_nonce SAGet_nonce nonce_get_by_key by simp_all

lemma nonce_members [simp]:
  "AddMemberByAccessKey (with_nonce n C) = AddMemberByAccessKey C"
  "RemoveMemberByAccessKey (with_nonce n C) = RemoveMemberByAccessKey C"
  unfolding fun_eq_iff AddMemberByAccessKey_def RemoveMemberByAccessKey_def nonce_services nonce_get_by_key by simp_all

lemma one_step: "service_step C st st' \<Longrightarrow> (service_step C)\<^sup>*\<^sup>* st st'"
  by (rule r_into_rtranclp)

named_theorems admin_steps \<open>requests of the admin API as steps of the services\<close>

lemma CreateUser_steps [admin_steps]:
  assumes "admin_fresh C A st" "admin_CreateUser A u q st = (r, st')"
  shows "(service_step C)\<^sup>*\<^sup>* st st'"
  using assms by (auto simp: admin_CreateUser_def admin_fresh_def Let_def split: if_splits option.splits prod.splits sum.splits
      intro: one_step service_step.user_create)

lemma RemoveUser_steps [admin_steps]:
  assumes "admin_fresh C A st" "admin_RemoveUser A q st = (r, st')"
  shows "(service_step C)\<^sup>*\<^sup>* st st'"
  using assms by (auto simp: admin_RemoveUser_def admin_fresh_def split: option.splits prod.splits sum.splits
      intro: one_step service_step.user_delete)

lemma SetUserStatus_steps [admin_steps]:
  assumes "admin_fresh C A st" "admin_SetUserStatus A q st = (r, st')"
  shows "(service_step C)\<^sup>*\<^sup>* st st'"
  using assms by (auto simp: admin_SetUserStatus_def admin_fresh_def Let_def split: if_splits prod.splits sum.splits
      intro: one_step service_step.user_update)

lemma AddCannedPolicy_steps [admin_steps]:
  assumes "admin_AddCannedPolicy A q st = (r, st')"
  shows "(service_step C)\<^sup>*\<^sup>* st st'"
  using assms by (auto simp: admin_AddCannedPolicy_def Let_def split: if_splits option.splits prod.splits sum.splits
      intro: one_step service_step.policy_create)

lemma RemoveCannedPolicy_steps [admin_steps]:
  assumes "admin_RemoveCannedPolicy A q st = (r, st')"
  shows "(service_step C)\<^sup>*\<^sup>* st st'"
  using assms by (auto simp: admin_RemoveCannedPolicy_def Let_def split: if_splits option.splits prod.splits
      intro: one_step service_step.policy_delete)

lemma SetGroupStatus_steps [admin_steps]:
  assumes "admin_SetGroupStatus A q st = (r, st')"
  shows "(service_step C)\<^sup>*\<^sup>* st st'"
  using assms by (auto simp: admin_SetGroupStatus_def Let_def split: if_splits option.splits prod.splits
      intro: one_step service_step.group_status)

lemma AddServiceAccount_steps [admin_steps]:
  assumes "admin_fresh C A st" "admin_AddServiceAccount A u q st = (r, st')"
  shows "(service_step C)\<^sup>*\<^sup>* st st'"
  using assms by (auto simp: admin_AddServiceAccount_def admin_fresh_def split: if_splits option.splits prod.splits sum.splits
      intro: one_step service_step.sa_create)

lemma DeleteServiceAccount_steps [admin_steps]:
  assumes "admin_fresh C A st" "admin_DeleteServiceAccount A q st = (r, st')"
  shows "(service_step C)\<^sup>*\<^sup>* st st'"
  using assms by (auto simp: admin_DeleteServiceAccount_def admin_fresh_def Let_def split: if_splits option.splits prod.splits
      intro: one_step service_step.sa_delete)

lemma UpdateServiceAccount_steps [admin_steps]:
  assumes "admin_fresh C A st" "admin_UpdateServiceAccount A u q st = (r, st')"
  shows "(service_step C)\<^sup>*\<^sup>* st st'"
  using assms by (auto simp: admin_UpdateServiceAccount_def admin_fresh_def Let_def split: if_splits option.splits prod.splits sum.splits
      intro: one_step service_step.sa_update)

lemma association_steps:
  assumes "change_association A u q on_group on_user payload st = (r, st')"
    and "\<And>g p e st'. on_group g p st = (e, st') \<Longrightarrow> service_step C st st'"
    and "\<And>i p e st'. on_user i p st = (e, st') \<Longrightarrow> service_step C st st'"
  shows "(service_step C)\<^sup>*\<^sup>* st st'"
  using assms(1) by (auto simp: change_association_def Let_def split: if_splits option.splits prod.splits sum.splits
      intro: one_step assms(2,3))

lemma SetPolicy_steps [admin_steps]:
  assumes "admin_fresh C A st" "admin_SetPolicy A u q st = (r, st')"
  shows "(service_step C)\<^sup>*\<^sup>* st st'"
  using assms(2) unfolding admin_SetPolicy_def
proof (rule association_steps)
  show "GroupAttachPolicy (ad_now A) g p st = (e, st2) \<Longrightarrow> service_step C st st2" for g p e st2
    by (rule service_step.group_attach)
  show "UserAttachPolicy (ad_crypt A) (ad_now A) (ad_fresh A) i p st = (e, st2) \<Longrightarrow> service_step C st st2" for i p e st2
    using assms(1) service_step.user_attach by (auto simp: admin_fresh_def)
qed

lemma DetachPolicy_steps [admin_steps]:
  assumes "admin_fresh C A st" "admin_DetachPolicy A u q st = (r, st')"
  shows "(service_step C)\<^sup>*\<^sup>* st st'"
  using assms(2) unfolding admin_DetachPolicy_def
proof (rule association_steps)
  show "GroupDetachPolicy (ad_now A) g p st = (e, st2) \<Longrightarrow> service_step C st st2" for g p e st2
    by (rule service_step.group_detach)
  show "UserDetachPolicy (ad_crypt A) (ad_now A) (ad_fresh A) i p st = (e, st2) \<Longrightarrow> service_step C st st2" for i p e st2
    using assms(1) service_step.user_detach by (auto simp: admin_fresh_def)
qed

lemma members_steps:
  assumes "for_each_member act ks st = (r, st')" "\<And>k st e st'. act k st = (e, st') \<Longrightarrow> service_step C st st'"
  shows "(service_step C)\<^sup>*\<^sup>* st st'"
  using assms(1)
proof (induction ks arbitrary: st)
  case (Cons k ks)
  obtain e st1 where a: "act k st = (e, st1)" by fastforce
  note s = one_step[of C, OF assms(2)[OF a]]
  show ?case
  proof (cases e)
    case None
    with Cons a have "(service_step C)\<^sup>*\<^sup>* st1 st'" by simp
    with s show ?thesis by (rule rtranclp_trans)
  next
    case (Some e')
    with Cons.prems a s show ?thesis by simp
  qed
qed simp

lemma UpdateGroupMembers_steps [admin_steps]:
  assumes "admin_fresh C A st" "admin_UpdateGroupMembers A q st = (r, st')"
  shows "(service_step C)\<^sup>*\<^sup>* st st'"
proof -
  obtain n where n: "ad_crypt A = with_nonce n C" using assms(1) by (auto simp: admin_fresh_def)
  have add: "(service_step C)\<^sup>*\<^sup>* st1 st2"
    if "for_each_member (AddMemberByAccessKey (ad_crypt A) (ad_now A) g) ms st1 = (x, st2)" for g ms st1 x st2
    using that by (rule members_steps) (auto simp: n intro: service_step.add_member_key)
  have rem: "(service_step C)\<^sup>*\<^sup>* st1 st2"
    if "handleRemove A g ms st1 = (x, st2)" for g ms st1 x st2
  proof (cases "ms = []")
    case True
    with that show ?thesis
      by (auto simp: handleRemove_def deleteGroup_def map_prod_def split: prod.splits intro: one_step service_step.group_delete)
  next
    case False
    with that have "for_each_member (RemoveMemberByAccessKey (ad_crypt A) (ad_now A) g) ms st1 = (x, st2)"
      by (simp add: handleRemove_def removeGroupMembers_def)
    then show ?thesis by (rule members_steps) (auto simp: n intro: service_step.remove_member_key)
  qed
  have ens: "(service_step C)\<^sup>*\<^sup>* st1 st2"
    if "ensureGroupAndAddMembers A g ms st1 = (x, st2)" for g ms st1 x st2
    using that
    by (auto simp: ensureGroupAndAddMembers_def Let_def split: if_splits prod.splits sum.splits
        intro: add rtranclp_trans[OF one_step[OF service_step.group_create] add] one_step[OF service_step.group_create])
  show ?thesis
    using assms(2) rem ens
    by (auto simp: admin_UpdateGroupMembers_def split: option.splits prod.splits if_splits)
qed

lemma admin_handle_steps:
  assumes "admin_fresh C A st" "admin_handle A oper u q st = (r, st')"
  shows "(service_step C)\<^sup>*\<^sup>* st st'"
  using assms by (cases oper) (auto simp: admin_handle_def intro: admin_steps)

section \<open>Through the middlewares\<close>

text \<open>Nothing stands between authentication and the handlers.\<close>

lemma serve_admin_passes:
  assumes "\<And>code. authenticate E a q s \<noteq> Rejected code" "sv_engine s = Some e"
  shows "serve_admin E a A oper q s =
    map_option (\<lambda>q'. map_prod Inr (\<lambda>st. s\<lparr>sv_storage := (sv_storage s)\<lparr>sg_meta := st\<rparr>\<rparr>)
        (admin_handle A oper (cx_user (context_of (authenticate E a q s))) q' (sv_meta s)))
      (if admin_reads_body oper q then ChunkedEncoding E q else Some q)"
proof -
  have p: "AuthorizationMiddleware (ae_lib E) (ae_unmarshal E) e mgr keys (http_view q cx '''' '''' '''') =
      Some (Next None None)" for mgr keys cx
    by (rule no_action_passes) (simp add: http_view_def)
  show ?thesis
    by (cases "authenticate E a q s"; cases "ChunkedEncoding E q")
      (simp_all add: serve_admin_def Let_def assms p map_prod_def split: prod.split)
qed

text \<open>Every request of the admin API that reaches its handler is a sequence of operations of the services,
  and changes nothing but the metadata: the stores stay well formed.\<close>

theorem admin_requests_are_service_steps:
  assumes "serve_admin E a A oper q s = Some (resp, s')" "admin_fresh C A (sv_meta s)" "crypt_ok C"
  shows "(service_step C)\<^sup>*\<^sup>* (sv_meta s) (sv_meta s') \<and> sv_engine s' = sv_engine s \<and>
    sg_fs (sv_storage s') = sg_fs (sv_storage s) \<and> (iam_ok C (sv_meta s) \<longrightarrow> iam_ok C (sv_meta s'))"
proof -
  have steps: "(service_step C)\<^sup>*\<^sup>* (sv_meta s) (sv_meta s') \<and> sv_engine s' = sv_engine s \<and>
    sg_fs (sv_storage s') = sg_fs (sv_storage s)"
  proof (cases "\<exists>code. authenticate E a q s = Rejected code")
    case True
    with assms(1) show ?thesis by (auto simp: serve_admin_def)
  next
    case False
    then have nrej: "\<And>code. authenticate E a q s \<noteq> Rejected code" by blast
    then obtain e where "sv_engine s = Some e"
      using assms(1) by (cases "sv_engine s"; cases "authenticate E a q s") (auto simp: serve_admin_def)
    from assms(1)[unfolded serve_admin_passes[OF nrej this]] obtain q' where
      "map_prod Inr (\<lambda>st. with_meta st s)
        (admin_handle A oper (cx_user (context_of (authenticate E a q s))) q' (sv_meta s)) = (resp, s')"
      by (auto split: if_splits)
    then obtain r st where
      "admin_handle A oper (cx_user (context_of (authenticate E a q s))) q' (sv_meta s) = (r, st)" "s' = with_meta st s"
      by (auto simp: map_prod_def split: prod.splits)
    with admin_handle_steps[OF assms(2)] show ?thesis by simp
  qed
  then have "(service_step C)\<^sup>*\<^sup>* (sv_meta s) (sv_meta s')" by blast
  then have "iam_ok C (sv_meta s) \<longrightarrow> iam_ok C (sv_meta s')"
    by (induction rule: rtranclp_induct) (auto intro: service_step_ok assms(3))
  with steps show ?thesis by blast
qed

section \<open>What everybody may do\<close>

lemma association_anybody:
  assumes "\<not> encrypted_request q"
  shows "change_association A u q on_group on_user payload st = change_association A None q on_group on_user payload st"
proof -
  have plain: "encrypted_request q = False" using assms by simp
  show ?thesis
    unfolding change_association_def parsePolicyAssocParams_def plain not_False_eq_True simp_thms if_True if_False
    by (rule TrueI)
qed

text \<open>The operations whose body is not encrypted treat every requester like nobody.\<close>

lemma open_operations:
  assumes "oper \<notin> {AdminListUsers, AdminAddUser, AdminListServiceAccounts, AdminAddServiceAccount,
      AdminServiceAccountInfo, AdminUpdateServiceAccount}" "\<not> encrypted_request q"
  shows "admin_handle A oper u q st = admin_handle A oper None q st"
  using assms
  by (cases oper)
    (simp_all add: admin_handle_def admin_SetPolicy_def admin_DetachPolicy_def association_anybody[of q A u])

text \<open>The others look at the secret of the requester only, which is the key of the bodies.\<close>

lemma only_the_secret:
  assumes "u_secretKey u = u_secretKey v"
  shows "admin_handle A oper (Some u) q st = admin_handle A oper (Some v) q st"
  unfolding admin_handle_def admin_SetPolicy_def admin_DetachPolicy_def change_association_def
    parsePolicyAssocParams_def admin_ListUsers_def admin_CreateUser_def admin_ListServiceAccounts_def
    admin_AddServiceAccount_def admin_InfoServiceAccount_def admin_UpdateServiceAccount_def parseUpdateBody_def
    option.case assms by (rule refl)

text \<open>A user of a well-formed store, found by its key, can be saved again and read back.\<close>

lemma resaved_user:
  assumes ok: "users_ok C st" and C: "crypt_ok C" "length n = 12"
    and g: "UserGet C st uid = Inr u"
    and uid: "uid \<noteq> uuid_nil" and v: "v = u\<lparr>u_attachedPolicies := ps, u_updatedAt := t\<rparr>"
  obtains w st' where "save_user (with_nonce n C) now fresh v st = (Inr w, st')"
    "UserGet C st' uid = Inr w" "u_attachedPolicies w = ps"
proof -
  from UserGet_Inr[OF ok g] obtain f where f: "map_of (ms_users st) uid = Some f" "u_username f = u_username u"
    "u_accessKey f = u_accessKey u" "u_uuid u = uid" "ValidateAccessKey (u_accessKey u) = None"
    "u_username u = u_accessKey u" by blast
  have ix: "map_of (ms_byUsername st) (u_username u) = Some uid" "map_of (ms_byAccessKey st) (u_accessKey u) = Some uid"
    using ok f(1) unfolding users_ok_def user_inv_def f(2,3)[symmetric] by blast+
  have ne: "u_accessKey u \<noteq> ''''" using f(5) by (auto simp: ValidateAccessKey_def)
  let ?w = "v\<lparr>u_version := UserMetadataVersion, u_updatedAt := now\<rparr>"
  obtain st' where sv: "save_user (with_nonce n C) now fresh v st = (Inr ?w, st')"
    and users: "map_of (ms_users st') uid = Some (?w\<lparr>u_secretKey := encrypt_default (with_nonce n C) (u_secretKey v)\<rparr>)"
    using ix ne f(4,6) uid
    by (simp add: save_user_def CreateOrUpdateUser_def v ensure_uuid_def index_user_def Let_def SaveUser_def)
  have "UserGet C st' uid = Inr ?w"
    using nonce_roundtrip[OF C] users by (simp add: UserGet_def GetUser_def)
  moreover have "u_attachedPolicies ?w = ps" by (cases u) (simp add: v)
  ultimately show thesis using that sv by blast
qed


lemma attach_succeeds:
  assumes ok: "users_ok C st" and C: "crypt_ok C" "length n = 12" and g: "UserGet C st uid = Inr u"
    and uid: "uid \<noteq> uuid_nil" and p: "ValidatePolicyName p = None" "GetPolicy st p = Inr pol"
  obtains w st' where "UserAttachPolicy (with_nonce n C) now fresh uid p st = (None, st')"
    "UserGet C st' uid = Inr w" "p \<in> set (u_attachedPolicies w)"
proof (cases "p \<in> set (u_attachedPolicies u)")
  case True
  with g p show thesis by (intro that[of st u]) (simp_all add: UserAttachPolicy_def)
next
  case False
  from resaved_user[OF ok C g uid refl] obtain w st' where
    "save_user (with_nonce n C) now fresh (u\<lparr>u_attachedPolicies := u_attachedPolicies u @ [p], u_updatedAt := now\<rparr>) st =
      (Inr w, st')" "UserGet C st' uid = Inr w" "u_attachedPolicies w = u_attachedPolicies u @ [p]" by blast
  with False g p show thesis by (intro that[of st' w]) (simp_all add: UserAttachPolicy_def)
qed

text \<open>C3. Anybody can give any policy to any user: a request without credentials to attach an existing policy
  to an existing user is answered with 200, and the user has the policy.\<close>

theorem anonymous_grants_policies:
  assumes "authenticate E a q s = Anonymous" "sv_engine s = Some e"
    and "iam_ok C (sv_meta s)" "crypt_ok C" "admin_fresh C A (sv_meta s)" "\<not> encrypted_request q"
    and "param A q ''policyName'' = p" "param A q ''userOrGroup'' = k" "\<not> ad_queryBool A (q_parts q) ''isGroup''"
    and "PolicyGet (sv_meta s) p = Inr pol" "UserGetByAccessKey C (sv_meta s) k = Inr u" "u_uuid u \<noteq> uuid_nil"
  shows "\<exists>s' w. serve_admin E a A AdminSetPolicy q s = Some (Inr (admin_status 200), s') \<and>
    UserGet C (sv_meta s') (u_uuid u) = Inr w \<and> p \<in> set (u_attachedPolicies w)"
proof -
  obtain n where n: "ad_crypt A = with_nonce n C" "length n = 12" using assms(5) by (auto simp: admin_fresh_def)
  have ok: "users_ok C (sv_meta s)" using assms(3) by (simp add: iam_ok_def)
  have pol: "ValidatePolicyName p = None" "GetPolicy (sv_meta s) p = Inr pol"
    using assms(10) by (auto simp: PolicyGet_def split: option.splits sum.splits)
  then have ne: "p \<noteq> ''''" by (auto simp: ValidatePolicyName_def)
  have key: "k \<noteq> ''''" using assms(11) by (auto simp: UserGetByAccessKey_def ValidateAccessKey_def split: option.splits)
  obtain uid where uid: "map_of (ms_byAccessKey (sv_meta s)) k = Some uid" "GetUser C (sv_meta s) uid = Inr u"
    using assms(11) by (auto simp: UserGetByAccessKey_def GetUserByAccessKey_def split: option.splits sum.splits)
  then have g: "UserGet C (sv_meta s) uid = Inr u" by (simp add: UserGet_def)
  with UserGet_Inr[OF ok g] have u: "u_uuid u = uid" by blast
  from attach_succeeds[OF ok assms(4) n(2) g _ pol(1,2)] assms(12) u obtain w st' where
    w: "UserAttachPolicy (with_nonce n C) (ad_now A) (ad_fresh A) uid p (sv_meta s) = (None, st')"
      "UserGet C st' uid = Inr w" "p \<in> set (u_attachedPolicies w)" by blast
  have "admin_handle A AdminSetPolicy None q (sv_meta s) = (admin_status 200, st')"
    using assms(6-9,11) ne key w(1) u
    by (simp add: admin_handle_def admin_SetPolicy_def change_association_def parsePolicyAssocParams_def n(1))
  moreover have "\<not> admin_reads_body AdminSetPolicy q" using assms(6) by (simp add: admin_reads_body_def)
  ultimately have "serve_admin E a A AdminSetPolicy q s = Some (Inr (admin_status 200), with_meta st' s)"
    using serve_admin_passes[of E a q s, OF _ assms(2)] assms(1) by simp
  with w(2,3) u show ?thesis by (intro exI[of _ "with_meta st' s"] exI[of _ w]) simp
qed

section \<open>Witnesses\<close>

definition ex_admin :: admin_env where
  "ex_admin =
     \<lparr>ad_crypt = with_nonce ex_nonce ex_crypt, ad_now = 7, ad_fresh = 8, ad_rand = ex_rand,
      ad_query = (\<lambda>_ k. if k = ''policyName'' then ''readwrite'' else if k = ''userOrGroup'' then ''svc'' else ''''),
      ad_queryBool = (\<lambda>_ _. False), ad_decrypt = (\<lambda>_ _. None), ad_encrypt = (\<lambda>_ _. None),
      ad_mapJson = (\<lambda>_. None), ad_policyJson = (\<lambda>_. None), ad_assocJson = (\<lambda>_. None), ad_groupJson = (\<lambda>_. None),
      ad_addAccountJson = (\<lambda>_. None), ad_updateAccountJson = (\<lambda>_. None), ad_noop = admin_status 200\<rparr>"

definition ex_nobody :: api_request where
  "ex_nobody = ex_get\<lparr>q_parts := (q_parts ex_get)\<lparr>hp_query := [], hp_header := []\<rparr>\<rparr>"

definition ex_member :: iam_user where
  "ex_member = \<lparr>u_version = UserMetadataVersion, u_uuid = 3, u_username = ''svc'', u_accessKey = ''svc'',
     u_secretKey = ''password'', u_status = ''on'', u_updatedAt = 6, u_attachedPolicies = []\<rparr>"

definition ex_members :: meta_store where
  "ex_members = snd (UserCreate (with_nonce ex_nonce ex_crypt) 6 3
     \<lparr>cu_accessKey = ''svc'', cu_secretKey = ''password'', cu_status = ''on''\<rparr> ex_fresh)"

definition ex_shared :: "mem s3_service" where
  "ex_shared = with_meta ex_members ex_service"

lemma ex_member_created:
  "UserCreate (with_nonce ex_nonce ex_crypt) 6 3 \<lparr>cu_accessKey = ''svc'', cu_secretKey = ''password'', cu_status = ''on''\<rparr>
     ex_fresh = (Inr ex_member, ex_members) \<and>
   ms_byAccessKey ex_members = [(''svc'', 3)] \<and> ms_policies ex_members = ms_policies ex_fresh \<and>
   ms_users ex_members = [(3, ex_member\<lparr>u_secretKey := encrypt_default (with_nonce ex_nonce ex_crypt) ''password''\<rparr>)]"
proof -
  have "GetUserByAccessKey ex_crypt ex_fresh ''svc'' = Inl ErrUserNotFound" "ms_byUsername ex_fresh = []"
    unfolding ex_fresh_def fresh_store by (simp_all add: GetUserByAccessKey_def empty_store_def)
  then show ?thesis
    using ex_svc_valid
    by (simp add: ex_members_def UserCreate_def ValidateStatus_def user_status_validate_def save_user_def
        CreateOrUpdateUser_def ensure_uuid_def uuid_nil_def index_user_def Let_def ex_fresh_fields ex_member_def
        SaveUser_def)
qed

lemma ex_members_ok: "iam_ok ex_crypt ex_members"
proof -
  have "service_step ex_crypt ex_fresh ex_members"
    by (rule service_step.user_create[OF _ _ conjunct1[OF ex_member_created]]) (simp_all add: ex_nonce_def ex_fresh_fields)
  then show ?thesis using service_step_ok fresh_store_ok ex_crypt_ok unfolding ex_fresh_def by blast
qed

lemma ex_member_found: "UserGetByAccessKey ex_crypt ex_members ''svc'' = Inr ex_member"
  using ex_svc_valid nonce_roundtrip[OF ex_crypt_ok, of ex_nonce]
  by (simp add: UserGetByAccessKey_def GetUserByAccessKey_def GetUser_def ex_member_created) (simp add: ex_member_def ex_nonce_def)

lemma ex_policy_found: "\<exists>pol. PolicyGet ex_members ''readwrite'' = Inr pol"
  using builtin_valid[of "''readwrite''"]
  by (auto simp: PolicyGet_def GetPolicy_def ex_member_created ex_fresh_def fresh_store BuiltinPolicyNames_def)

lemma ex_nobody_anonymous: "authenticate ex_api ex_authenticator ex_nobody s = Anonymous"
  by (simp add: authenticate_def ex_nobody_def ex_get_def AuthMiddleware_def handleHeaderAuth_def
      handlePresignedAuth_def handlePostPolicyAuth_def values_get_def ex_parts_def)

lemma ex_admin_fresh: "admin_fresh ex_crypt ex_admin (sv_meta ex_shared)"
  by (auto simp: admin_fresh_def ex_admin_def ex_nonce_def ex_shared_def ex_member_created intro!: exI[of _ ex_nonce])

lemma ex_shared_engine: "sv_engine ex_shared = Some (NewEngine None)"
  by (simp add: ex_shared_def ex_service_def)

theorem admin_requests_are_service_steps_witness:
  "\<exists>resp s'. serve_admin ex_api ex_authenticator ex_admin AdminSetPolicy ex_nobody ex_shared = Some (resp, s') \<and>
     iam_ok ex_crypt (sv_meta s')"
proof -
  have "\<not> admin_reads_body AdminSetPolicy ex_nobody" by code_simp
  then obtain resp s' where r: "serve_admin ex_api ex_authenticator ex_admin AdminSetPolicy ex_nobody ex_shared = Some (resp, s')"
    using serve_admin_passes[of ex_api ex_authenticator ex_nobody ex_shared, OF _ ex_shared_engine]
    by (fastforce simp: ex_nobody_anonymous map_prod_def split: prod.splits)
  from admin_requests_are_service_steps[OF r ex_admin_fresh ex_crypt_ok] ex_members_ok
  have "iam_ok ex_crypt (sv_meta s')" by (simp add: ex_shared_def)
  with r show ?thesis by blast
qed

theorem anonymous_grants_policies_witness:
  "\<exists>s' w. serve_admin ex_api ex_authenticator ex_admin AdminSetPolicy ex_nobody ex_shared = Some (Inr (admin_status 200), s') \<and>
     UserGet ex_crypt (sv_meta s') 3 = Inr w \<and> ''readwrite'' \<in> set (u_attachedPolicies w)"
proof -
  obtain pol where pol: "PolicyGet (sv_meta ex_shared) ''readwrite'' = Inr pol"
    using ex_policy_found by (auto simp: ex_shared_def)
  have q: "\<not> encrypted_request ex_nobody" by code_simp
  have A: "param ex_admin ex_nobody ''policyName'' = ''readwrite''" "param ex_admin ex_nobody ''userOrGroup'' = ''svc''"
    "\<not> ad_queryBool ex_admin (q_parts ex_nobody) ''isGroup''" by (simp_all add: ex_admin_def)
  have "UserGetByAccessKey ex_crypt (sv_meta ex_shared) ''svc'' = Inr ex_member" "iam_ok ex_crypt (sv_meta ex_shared)"
    "u_uuid ex_member \<noteq> uuid_nil"
    using ex_member_found ex_members_ok by (simp_all add: ex_shared_def ex_member_def uuid_nil_def)
  with anonymous_grants_policies[OF ex_nobody_anonymous ex_shared_engine _ ex_crypt_ok ex_admin_fresh q A pol]
  show ?thesis by (simp add: ex_member_def)
qed

end
