(* ===== verification/Console.thy ===== *)
theory Console
  imports S3Server
begin

text \<open>
  \<^verbatim>\<open>api/api.go\<close> and \<^verbatim>\<open>internal/console/adapter.go\<close>: the interface that the web console and the REST API of DirIO call,
  and its implementation by the services. A UUID is a string at this interface. Parsing of UUIDs and URLs and the JSON
  encoders are libraries and arguments here.
\<close>

section \<open>Types (api.go)\<close>

record console_user =
  nu_uuid :: string
  nu_accessKey :: string
  nu_username :: string
  nu_status :: string
  nu_attachedPolicies :: "string list"
  nu_updatedAt :: time
  nu_secretKey :: string

record console_policy =
  np_name :: string
  np_policyDocument :: string
  np_createDate :: time
  np_updateDate :: time
  np_isBuiltin :: bool

record console_owner =
  nw_uuid :: string
  nw_accessKey :: string
  nw_username :: string

record console_bucket =
  nb_name :: string
  nb_ownerUUID :: string
  nb_owner :: "console_owner option"
  nb_createdAt :: time

record console_user_request =
  nc_accessKey :: string
  nc_secretKey :: string
  nc_generateSecret :: bool

record console_user_update =
  nd_secretKey :: "string option"
  nd_generateSecret :: bool

record console_group =
  ng_name :: string
  ng_members :: "uuid list"
  ng_attachedPolicies :: "string list"
  ng_status :: string
  ng_createdAt :: time
  ng_updatedAt :: time

record console_account =
  na_uuid :: string
  na_accessKey :: string
  na_secretKey :: string
  na_username :: string
  na_parentUserUUID :: string
  na_parentAccessKey :: string
  na_parentUsername :: string
  na_policyMode :: string
  na_status :: string
  na_embeddedPolicyJSON :: string
  na_createdAt :: time
  na_updatedAt :: time
  na_expiresAt :: "time option"

record console_account_request =
  nq_accessKey :: string
  nq_secretKey :: string
  nq_parentUserUUID :: string
  nq_policyMode :: string
  nq_embeddedPolicyJSON :: string
  nq_expiresAt :: "time option"

record console_account_update =
  ne_secretKey :: "string option"
  ne_embeddedPolicyJSON :: "string option"
  ne_expiresAt :: "time option option"

record console_object =
  no_key :: string
  no_size :: int
  no_etag :: string
  no_lastModified :: time
  no_contentType :: string
  no_isPrefix :: bool

record console_object_metadata =
  nm_key :: string
  nm_size :: int
  nm_etag :: string
  nm_lastModified :: time
  nm_contentType :: string
  nm_customMetadata :: "(string \<times> string) list"

record presign_request =
  nr_accessKey :: string
  nr_bucket :: string
  nr_key :: string
  nr_expiry :: int
  nr_baseURL :: string
  nr_method :: string

section \<open>Environment, errors, lifting\<close>

record console_env =
  co_crypt :: crypt_env
  co_put :: put_env
  co_now :: time
  co_fresh :: uuid
  co_rand :: rand_source
  co_auth :: "authenticator option"
  co_parseUUID :: "string \<Rightarrow> uuid option"
  co_policyJson :: "string \<Rightarrow> policy_document option"
  co_marshal :: "policy_document option \<Rightarrow> string option"
  co_marshalIndent :: "policy_document \<Rightarrow> string option"
  co_urlHost :: "string \<Rightarrow> string option"
  co_escapePath :: "string \<Rightarrow> string"

text \<open>The errors that are wrapped keep what they wrap; those that are only text have the text's argument.\<close>

datatype console_error =
    InvalidUUID string
  | InvalidPolicyJson
  | SecretNotGenerated rand_error
  | NoUserText string
  | NoPolicyText string
  | NoGroupText string
  | FromService service_error
  | FromS3 s3_error
  | FromObservation observation_error
  | OwnerUnresolved service_error
  | MemberUnresolved service_error
  | CredentialsUnresolved auth_error
  | NotPresigned auth_error
  | InvalidBaseURL
  | NotMarshalled

definition from_meta ::
  "(meta_store \<Rightarrow> (service_error + 'a) \<times> meta_store) \<Rightarrow> ('a \<Rightarrow> console_error + 'b) \<Rightarrow> ('f) s3_service
     \<Rightarrow> (console_error + 'b) \<times> ('f) s3_service" where
  "from_meta act convert s =
     (case act (sv_meta s) of
        (Inl e, m) \<Rightarrow> (Inl (FromService e), with_meta m s)
      | (Inr x, m) \<Rightarrow> (convert x, with_meta m s))"

definition from_meta_unit ::
  "(meta_store \<Rightarrow> service_error option \<times> meta_store) \<Rightarrow> ('f) s3_service
     \<Rightarrow> (console_error + unit) \<times> ('f) s3_service" where
  "from_meta_unit act s =
     (case act (sv_meta s) of
        (Some e, m) \<Rightarrow> (Inl (FromService e), with_meta m s)
      | (None, m) \<Rightarrow> (Inr (), with_meta m s))"

definition from_s3_unit ::
  "s3_error option \<times> ('f) s3_service \<Rightarrow> (console_error + unit) \<times> ('f) s3_service" where
  "from_s3_unit = (\<lambda>(e, s). (case e of Some e \<Rightarrow> Inl (FromS3 e) | None \<Rightarrow> Inr (), s))"

definition from_s3 ::
  "('a \<Rightarrow> 'b) \<Rightarrow> (s3_error + 'a) \<times> ('f) s3_service \<Rightarrow> (console_error + 'b) \<times> ('f) s3_service" where
  "from_s3 convert = (\<lambda>(r, s). (case r of Inl e \<Rightarrow> Inl (FromS3 e) | Inr x \<Rightarrow> Inr (convert x), s))"

text \<open>Most operations begin by parsing a UUID.\<close>

definition with_uuid ::
  "console_env \<Rightarrow> string \<Rightarrow> (uuid \<Rightarrow> ('f) s3_service \<Rightarrow> (console_error + 'a) \<times> ('f) s3_service)
     \<Rightarrow> ('f) s3_service \<Rightarrow> (console_error + 'a) \<times> ('f) s3_service" where
  "with_uuid N uuidStr act s =
     (case co_parseUUID N uuidStr of None \<Rightarrow> (Inl (InvalidUUID uuidStr), s) | Some uid \<Rightarrow> act uid s)"

section \<open>Conversions\<close>

definition ownerInfoToConsole :: "owner_info \<Rightarrow> console_owner" where
  "ownerInfoToConsole info =
     (case oi_ownerUUID info of
        None \<Rightarrow> \<lparr>nw_uuid = uuid_string AdminUserUUID, nw_accessKey = '''', nw_username = ''''\<rparr>
      | Some uid \<Rightarrow>
          \<lparr>nw_uuid = uuid_string uid, nw_accessKey = oi_accessKey info, nw_username = oi_username info\<rparr>)"

definition iamUserToConsole :: "iam_user \<Rightarrow> console_user" where
  "iamUserToConsole u =
     \<lparr>nu_uuid = uuid_string (u_uuid u), nu_accessKey = u_accessKey u, nu_username = u_username u,
      nu_status = u_status u, nu_attachedPolicies = u_attachedPolicies u, nu_updatedAt = u_updatedAt u,
      nu_secretKey = ''''\<rparr>"

definition iamGroupToConsole :: "iam_group \<Rightarrow> console_group" where
  "iamGroupToConsole g =
     \<lparr>ng_name = g_name g, ng_members = g_members g, ng_attachedPolicies = g_attachedPolicies g,
      ng_status = g_status g, ng_createdAt = g_createdAt g, ng_updatedAt = g_updatedAt g\<rparr>"

definition iamPolicyToConsole :: "console_env \<Rightarrow> iam_policy \<Rightarrow> console_error + console_policy" where
  "iamPolicyToConsole N p =
     (case co_marshal N (p_document p) of
        None \<Rightarrow> Inl NotMarshalled
      | Some docJSON \<Rightarrow>
          Inr \<lparr>np_name = p_name p, np_policyDocument = docJSON, np_createDate = p_createDate p,
               np_updateDate = p_updateDate p, np_isBuiltin = p_isBuiltin p\<rparr>)"

definition account_parent :: "console_env \<Rightarrow> meta_store \<Rightarrow> uuid \<Rightarrow> string \<times> string" where
  "account_parent N st uid =
     (if uid = AdminUserUUID then (''admin'', ''Admin'')
      else case UserGet (co_crypt N) st uid of Inl _ \<Rightarrow> ('''', '''') | Inr u \<Rightarrow> (u_accessKey u, u_username u))"

definition iamServiceAccountToConsole :: "console_env \<Rightarrow> meta_store \<Rightarrow> service_account \<Rightarrow> console_account" where
  "iamServiceAccountToConsole N st sa =
     (let (parentUUID, parentAccessKey, parentUsername) =
        (case sa_parentUserUUID sa of
           None \<Rightarrow> ('''', '''', '''')
         | Some uid \<Rightarrow> (uuid_string uid, account_parent N st uid))
      in \<lparr>na_uuid = uuid_string (sa_uuid sa), na_accessKey = sa_accessKey sa, na_secretKey = '''',
          na_username = sa_username sa, na_parentUserUUID = parentUUID, na_parentAccessKey = parentAccessKey,
          na_parentUsername = parentUsername, na_policyMode = sa_policyMode sa, na_status = sa_status sa,
          na_embeddedPolicyJSON = sa_embeddedPolicyJSON sa, na_createdAt = sa_createdAt sa,
          na_updatedAt = sa_updatedAt sa, na_expiresAt = sa_expiresAt sa\<rparr>)"

section \<open>Users\<close>

text \<open>The root accounts are in the configuration, not in the store.\<close>

definition root_entry :: "string \<Rightarrow> string \<Rightarrow> console_user" where
  "root_entry accessKey username =
     \<lparr>nu_uuid = uuid_string AdminUserUUID, nu_accessKey = accessKey, nu_username = username, nu_status = ''on'',
      nu_attachedPolicies = [], nu_updatedAt = 0, nu_secretKey = ''''\<rparr>"

definition root_entries :: "authenticator option \<Rightarrow> console_user list" where
  "root_entries auth =
     (case auth of
        None \<Rightarrow> []
      | Some a \<Rightarrow>
          (if au_rootAccessKey a \<noteq> '''' then [root_entry (au_rootAccessKey a) ''admin''] else []) @
          (if au_altRootAccessKey a \<noteq> '''' \<and> au_altRootAccessKey a \<noteq> au_rootAccessKey a
           then [root_entry (au_altRootAccessKey a) ''admin (alt)''] else []))"

definition console_ListUsers :: "console_env \<Rightarrow> ('f) s3_service \<Rightarrow> console_user list" where
  "console_ListUsers N s =
     root_entries (co_auth N) @
     List.map_filter
       (\<lambda>uid. case UserGet (co_crypt N) (sv_meta s) uid of Inl _ \<Rightarrow> None | Inr u \<Rightarrow> Some (iamUserToConsole u))
       (UserList (sv_meta s))"

definition found_user :: "console_env \<Rightarrow> string \<Rightarrow> ('f) s3_service \<Rightarrow> console_error + iam_user" where
  "found_user N uuidStr s =
     (case co_parseUUID N uuidStr of
        None \<Rightarrow> Inl (InvalidUUID uuidStr)
      | Some uid \<Rightarrow>
          (case UserGet (co_crypt N) (sv_meta s) uid of
             Inl e \<Rightarrow> Inl (if e = SvcErr SvcUserNotFound then NoUserText uuidStr else FromService e)
           | Inr u \<Rightarrow> Inr u))"

definition console_GetUser :: "console_env \<Rightarrow> string \<Rightarrow> ('f) s3_service \<Rightarrow> console_error + console_user" where
  "console_GetUser N uuidStr s = map_sum id iamUserToConsole (found_user N uuidStr s)"

definition console_GetUserSecret :: "console_env \<Rightarrow> string \<Rightarrow> ('f) s3_service \<Rightarrow> console_error + string" where
  "console_GetUserSecret N uuidStr s = map_sum id u_secretKey (found_user N uuidStr s)"

text \<open>The secret of a request: the given one, or a generated one that is returned in the answer.\<close>

definition chosen_secret :: "console_env \<Rightarrow> bool \<Rightarrow> 'a \<Rightarrow> (string \<Rightarrow> 'a) \<Rightarrow> console_error + 'a \<times> string" where
  "chosen_secret N generate secretKey wrap =
     (if generate then
        (case GenerateDirIOKey (co_rand N) PrefixUser of
           Inl e \<Rightarrow> Inl (SecretNotGenerated e)
         | Inr (_, generated) \<Rightarrow> Inr (wrap generated, generated))
      else Inr (secretKey, ''''))"

definition console_CreateUser ::
  "console_env \<Rightarrow> console_user_request \<Rightarrow> ('f) s3_service \<Rightarrow> (console_error + console_user) \<times> ('f) s3_service" where
  "console_CreateUser N req s =
     (case chosen_secret N (nc_generateSecret req) (nc_secretKey req) id of
        Inl e \<Rightarrow> (Inl e, s)
      | Inr (secretKey, shown) \<Rightarrow>
          from_meta
            (UserCreate (co_crypt N) (co_now N) (co_fresh N)
               \<lparr>cu_accessKey = nc_accessKey req, cu_secretKey = secretKey, cu_status = UserStatusActive\<rparr>)
            (\<lambda>u. Inr ((iamUserToConsole u)\<lparr>nu_secretKey := shown\<rparr>)) s)"

definition console_UpdateUser ::
  "console_env \<Rightarrow> string \<Rightarrow> console_user_update \<Rightarrow> ('f) s3_service
     \<Rightarrow> (console_error + console_user) \<times> ('f) s3_service" where
  "console_UpdateUser N uuidStr req = with_uuid N uuidStr (\<lambda>uid s.
     (case chosen_secret N (nd_generateSecret req) (nd_secretKey req) Some of
        Inl e \<Rightarrow> (Inl e, s)
      | Inr (secretKey, shown) \<Rightarrow>
          from_meta
            (UserUpdate (co_crypt N) (co_now N) (co_fresh N) uid
               \<lparr>uu_secretKey = secretKey, uu_status = None, uu_attachedPolicies = None\<rparr>)
            (\<lambda>u. Inr ((iamUserToConsole u)\<lparr>nu_secretKey := shown\<rparr>)) s))"

definition console_DeleteUser ::
  "console_env \<Rightarrow> string \<Rightarrow> ('f) s3_service \<Rightarrow> (console_error + unit) \<times> ('f) s3_service" where
  "console_DeleteUser N uuidStr = with_uuid N uuidStr (\<lambda>uid. from_meta_unit (UserDelete (co_crypt N) (co_now N) uid))"

definition console_SetUserStatus ::
  "console_env \<Rightarrow> string \<Rightarrow> bool \<Rightarrow> ('f) s3_service \<Rightarrow> (console_error + unit) \<times> ('f) s3_service" where
  "console_SetUserStatus N uuidStr enabled = with_uuid N uuidStr (\<lambda>uid.
     from_meta
       (UserUpdate (co_crypt N) (co_now N) (co_fresh N) uid
          \<lparr>uu_secretKey = None, uu_status = Some (if enabled then UserStatusActive else UserStatusDisabled),
           uu_attachedPolicies = None\<rparr>)
       (\<lambda>_. Inr ()))"

section \<open>Policies\<close>

definition console_ListPolicies :: "console_env \<Rightarrow> ('f) s3_service \<Rightarrow> console_policy list" where
  "console_ListPolicies N s =
     List.map_filter (\<lambda>(_, p). case iamPolicyToConsole N p of Inl _ \<Rightarrow> None | Inr cp \<Rightarrow> Some cp)
       (PolicyList (sv_meta s))"

definition console_GetPolicy :: "console_env \<Rightarrow> string \<Rightarrow> ('f) s3_service \<Rightarrow> console_error + console_policy" where
  "console_GetPolicy N nm s =
     (case PolicyGet (sv_meta s) nm of
        Inl e \<Rightarrow> Inl (if e = SvcErr SvcPolicyNotFound then NoPolicyText nm else FromService e)
      | Inr p \<Rightarrow> iamPolicyToConsole N p)"

definition console_CreatePolicy ::
  "console_env \<Rightarrow> string \<Rightarrow> string \<Rightarrow> ('f) s3_service \<Rightarrow> (console_error + console_policy) \<times> ('f) s3_service" where
  "console_CreatePolicy N nm policyDocument s =
     (case co_policyJson N policyDocument of
        None \<Rightarrow> (Inl InvalidPolicyJson, s)
      | Some doc \<Rightarrow> from_meta (PolicyCreate (co_now N) nm (Some doc)) (iamPolicyToConsole N) s)"

definition console_UpdatePolicy ::
  "console_env \<Rightarrow> string \<Rightarrow> string \<Rightarrow> ('f) s3_service \<Rightarrow> (console_error + console_policy) \<times> ('f) s3_service" where
  "console_UpdatePolicy N nm policyDocument s =
     (case co_policyJson N policyDocument of
        None \<Rightarrow> (Inl InvalidPolicyJson, s)
      | Some doc \<Rightarrow> from_meta (PolicyUpdate (co_now N) nm (Some doc)) (iamPolicyToConsole N) s)"

definition console_DeletePolicy ::
  "string \<Rightarrow> ('f) s3_service \<Rightarrow> (console_error + unit) \<times> ('f) s3_service" where
  "console_DeletePolicy nm = from_meta_unit (PolicyDelete nm)"

text \<open>Operations that take the access key of a user.\<close>

definition with_user ::
  "console_env \<Rightarrow> (service_error \<Rightarrow> console_error) \<Rightarrow> string
     \<Rightarrow> (iam_user \<Rightarrow> ('f) s3_service \<Rightarrow> (console_error + 'a) \<times> ('f) s3_service)
     \<Rightarrow> ('f) s3_service \<Rightarrow> (console_error + 'a) \<times> ('f) s3_service" where
  "with_user N wrap accessKey act s =
     (case UserGetByAccessKey (co_crypt N) (sv_meta s) accessKey of Inl e \<Rightarrow> (Inl (wrap e), s) | Inr u \<Rightarrow> act u s)"

definition console_AttachPolicy ::
  "console_env \<Rightarrow> string \<Rightarrow> string \<Rightarrow> ('f) s3_service \<Rightarrow> (console_error + unit) \<times> ('f) s3_service" where
  "console_AttachPolicy N policyName accessKey = with_user N FromService accessKey (\<lambda>u.
     from_meta_unit (UserAttachPolicy (co_crypt N) (co_now N) (co_fresh N) (u_uuid u) policyName))"

definition console_DetachPolicy ::
  "console_env \<Rightarrow> string \<Rightarrow> string \<Rightarrow> ('f) s3_service \<Rightarrow> (console_error + unit) \<times> ('f) s3_service" where
  "console_DetachPolicy N policyName accessKey = with_user N FromService accessKey (\<lambda>u.
     from_meta_unit (UserDetachPolicy (co_crypt N) (co_now N) (co_fresh N) (u_uuid u) policyName))"

section \<open>Buckets\<close>

text \<open>Without an owner a stub with the identifier of the administrator stands in.\<close>

definition stub_admin :: iam_user where
  "stub_admin =
     \<lparr>u_version = '''', u_uuid = AdminUserUUID, u_username = '''', u_accessKey = '''', u_secretKey = '''',
      u_status = '''', u_updatedAt = 0, u_attachedPolicies = []\<rparr>"

definition console_CreateBucket ::
  "('f) fs_ops \<Rightarrow> unicode_tables \<Rightarrow> console_env \<Rightarrow> string \<Rightarrow> string \<Rightarrow> ('f) s3_service
     \<Rightarrow> (console_error + unit) \<times> ('f) s3_service" where
  "console_CreateBucket F U N nm ownerAccessKey s =
     (let create = (\<lambda>u. from_s3 (\<lambda>_. ()) \<circ> S3CreateBucket F U (co_now N) (Some u) nm None)
      in if ownerAccessKey \<noteq> '''' then with_user N OwnerUnresolved ownerAccessKey create s
         else create stub_admin s)"

definition console_DeleteBucket ::
  "('f) fs_ops \<Rightarrow> string \<Rightarrow> ('f) s3_service \<Rightarrow> (console_error + unit) \<times> ('f) s3_service" where
  "console_DeleteBucket F nm s = from_s3_unit (S3DeleteBucket F nm s)"

definition bucketToConsole :: "console_env \<Rightarrow> meta_store \<Rightarrow> bucket_metadata \<Rightarrow> console_bucket" where
  "bucketToConsole N st meta =
     \<lparr>nb_name = bm_name meta,
      nb_ownerUUID = (case bm_owner meta of None \<Rightarrow> '''' | Some uid \<Rightarrow> uuid_string uid),
      nb_owner = (case bm_owner meta of
                    None \<Rightarrow> None
                  | Some uid \<Rightarrow>
                      (case UserGet (co_crypt N) st uid of
                         Inl _ \<Rightarrow> None
                       | Inr u \<Rightarrow> Some \<lparr>nw_uuid = uuid_string uid, nw_accessKey = u_accessKey u,
                                      nw_username = u_username u\<rparr>)),
      nb_createdAt = bm_created meta\<rparr>"

definition console_ListBuckets :: "console_env \<Rightarrow> ('f) s3_service \<Rightarrow> console_bucket list" where
  "console_ListBuckets N s = map (bucketToConsole N (sv_meta s)) (ListBucketsWithMetadata s)"

definition console_GetBucket :: "console_env \<Rightarrow> string \<Rightarrow> ('f) s3_service \<Rightarrow> console_error + console_bucket" where
  "console_GetBucket N bucket s = map_sum FromS3 (bucketToConsole N (sv_meta s)) (GetBucket bucket s)"

definition console_GetBucketPolicy ::
  "('f) fs_ops \<Rightarrow> console_env \<Rightarrow> string \<Rightarrow> ('f) s3_service \<Rightarrow> console_error + string" where
  "console_GetBucketPolicy F N bucket s =
     (case S3GetBucketPolicy F bucket s of
        Inl e \<Rightarrow> if e = S3NoSuchBucketPolicy then Inr '''' else Inl (FromS3 e)
      | Inr doc \<Rightarrow> (case co_marshalIndent N doc of None \<Rightarrow> Inl NotMarshalled | Some raw \<Rightarrow> Inr raw))"

definition console_SetBucketPolicy ::
  "('f) fs_ops \<Rightarrow> console_env \<Rightarrow> string \<Rightarrow> string \<Rightarrow> ('f) s3_service
     \<Rightarrow> (console_error + unit) \<times> ('f) s3_service" where
  "console_SetBucketPolicy F N bucket policyJSON s =
     (if trim_space policyJSON = '''' then from_s3_unit (DeleteBucketPolicy F bucket s)
      else case co_policyJson N policyJSON of
        None \<Rightarrow> (Inl InvalidPolicyJson, s)
      | Some doc \<Rightarrow> from_s3_unit (PutBucketPolicy F (co_now N) bucket (Some doc) s))"

section \<open>Objects\<close>

definition objectToConsole :: "s3_object \<Rightarrow> console_object" where
  "objectToConsole ob =
     \<lparr>no_key = so_key ob, no_size = so_size ob, no_etag = so_etag ob, no_lastModified = so_lastModified ob,
      no_contentType = '''', no_isPrefix = False\<rparr>"

definition prefixToConsole :: "string \<Rightarrow> console_object" where
  "prefixToConsole p =
     \<lparr>no_key = p, no_size = 0, no_etag = '''', no_lastModified = 0, no_contentType = '''', no_isPrefix = True\<rparr>"

text \<open>One page of a thousand entries; what the page leaves out is not asked for.\<close>

definition console_ListObjects ::
  "('f) fs_ops \<Rightarrow> console_env \<Rightarrow> string \<Rightarrow> string \<Rightarrow> string \<Rightarrow> ('f) s3_service \<Rightarrow> console_error + console_object list" where
  "console_ListObjects F N bucket pre delimiter s =
     (case S3ListObjectsV2 F (co_crypt N) bucket pre '''' '''' delimiter 1000 False s of
        Inl e \<Rightarrow> Inl (FromS3 e)
      | Inr result \<Rightarrow> Inr (map objectToConsole (ir_objects result) @ map prefixToConsole (ir_commonPrefixes result)))"

definition console_GetObjectMetadata ::
  "('f) fs_ops \<Rightarrow> (string \<Rightarrow> string) \<Rightarrow> string \<Rightarrow> string \<Rightarrow> ('f) s3_service
     \<Rightarrow> (console_error + console_object_metadata) \<times> ('f) s3_service" where
  "console_GetObjectMetadata F md5 bucket key s =
     from_s3
       (\<lambda>r. \<lparr>nm_key = key, nm_size = hr_size r, nm_etag = hr_etag r, nm_lastModified = hr_lastModified r,
             nm_contentType = hr_contentType r, nm_customMetadata = hr_customMetadata r\<rparr>)
       (HeadObject F md5 bucket key s)"

definition console_GetObjectTags ::
  "('f) fs_ops \<Rightarrow> (string \<Rightarrow> string) \<Rightarrow> unicode_tables \<Rightarrow> string \<Rightarrow> string \<Rightarrow> ('f) s3_service
     \<Rightarrow> (console_error + (string \<times> string) list) \<times> ('f) s3_service" where
  "console_GetObjectTags F md5 U bucket key s = from_s3 id (GetObjectTagging F md5 U bucket key s)"

definition console_SetObjectTags ::
  "('f) fs_ops \<Rightarrow> (string \<Rightarrow> string) \<Rightarrow> unicode_tables \<Rightarrow> string \<Rightarrow> string \<Rightarrow> (string \<times> string) list
     \<Rightarrow> ('f) s3_service \<Rightarrow> (console_error + unit) \<times> ('f) s3_service" where
  "console_SetObjectTags F md5 U bucket key tags s = from_s3_unit (PutObjectTagging F md5 U bucket key tags s)"

definition console_DeleteObject ::
  "('f) fs_ops \<Rightarrow> string \<Rightarrow> string \<Rightarrow> ('f) s3_service \<Rightarrow> (console_error + unit) \<times> ('f) s3_service" where
  "console_DeleteObject F bucket key s = from_s3_unit (S3DeleteObject F bucket key s)"

definition console_CopyObject ::
  "('f) fs_ops \<Rightarrow> (string \<Rightarrow> string) \<Rightarrow> unicode_tables \<Rightarrow> console_env \<Rightarrow> string \<Rightarrow> string \<Rightarrow> string \<Rightarrow> string
     \<Rightarrow> ('f) s3_service \<Rightarrow> (console_error + unit) \<times> ('f) s3_service" where
  "console_CopyObject F md5 U N srcBucket srcKey dstBucket dstKey s =
     from_s3_unit (S3CopyObject F md5 U (co_put N) srcBucket srcKey dstBucket dstKey s)"

text \<open>The host, the path and the query of the URL. A nil authenticator would be dereferenced.\<close>

definition console_GeneratePresignedURL ::
  "sig_lib \<Rightarrow> console_env \<Rightarrow> presign_request \<Rightarrow> ('f) s3_service
     \<Rightarrow> (console_error + string \<times> string \<times> (string \<times> string list) list) option" where
  "console_GeneratePresignedURL L N req s = do {
     a \<leftarrow> co_auth N;
     Some (case GetUserForAccessKey (co_crypt N) (sv_meta s) a (co_now N) (nr_accessKey req) of
        Inl e \<Rightarrow> Inl (CredentialsUnresolved e)
      | Inr user \<Rightarrow>
          let host = co_urlHost N (nr_baseURL req)
          in case generatePresignedURL L (co_escapePath N) (u_accessKey user) (u_secretKey user) ''us-east-1''
                    (nr_bucket req) (nr_key req) (case host of Some h \<Rightarrow> h | None \<Rightarrow> '''')
                    (if nr_method req = '''' then ''GET'' else nr_method req)
                    (nr_expiry req div 1000000000) (co_now N) of
               Inl e \<Rightarrow> Inl (NotPresigned e)
             | Inr (path, params) \<Rightarrow>
                 (case host of None \<Rightarrow> Inl InvalidBaseURL | Some h \<Rightarrow> Inr (h, path, params))) }"

section \<open>Owners\<close>

definition console_GetBucketOwner ::
  "console_env \<Rightarrow> string \<Rightarrow> ('f) s3_service \<Rightarrow> console_error + console_owner" where
  "console_GetBucketOwner N bucket s = map_sum FromS3 ownerInfoToConsole (GetBucketOwner (co_crypt N) bucket s)"

definition console_TransferBucketOwnership ::
  "console_env \<Rightarrow> string \<Rightarrow> string \<Rightarrow> ('f) s3_service \<Rightarrow> (console_error + unit) \<times> ('f) s3_service" where
  "console_TransferBucketOwnership N bucket newOwnerAccessKey s =
     (if newOwnerAccessKey = '''' then from_s3_unit (S3SetBucketOwner bucket None s)
      else with_user N FromService newOwnerAccessKey
        (\<lambda>u s. from_s3_unit (S3SetBucketOwner bucket (Some (u_uuid u)) s)) s)"

definition console_GetObjectOwner ::
  "('f) fs_ops \<Rightarrow> console_env \<Rightarrow> string \<Rightarrow> string \<Rightarrow> ('f) s3_service
     \<Rightarrow> (console_error + console_owner) \<times> ('f) s3_service" where
  "console_GetObjectOwner F N bucket key s =
     from_s3 ownerInfoToConsole (GetObjectOwner F (co_crypt N) bucket key s)"

section \<open>Groups\<close>

definition console_ListGroups :: "('f) s3_service \<Rightarrow> console_group list" where
  "console_ListGroups s =
     List.map_filter
       (\<lambda>nm. case GroupGet (sv_meta s) nm of Inl _ \<Rightarrow> None | Inr g \<Rightarrow> Some (iamGroupToConsole g))
       (GroupList (sv_meta s))"

definition console_GetGroup :: "string \<Rightarrow> ('f) s3_service \<Rightarrow> console_error + console_group" where
  "console_GetGroup nm s = map_sum (\<lambda>_. NoGroupText nm) iamGroupToConsole (GroupGet (sv_meta s) nm)"

definition console_CreateGroup ::
  "console_env \<Rightarrow> string \<Rightarrow> ('f) s3_service \<Rightarrow> (console_error + console_group) \<times> ('f) s3_service" where
  "console_CreateGroup N nm = from_meta (GroupCreate (co_now N) nm) (\<lambda>g. Inr (iamGroupToConsole g))"

definition console_DeleteGroup ::
  "string \<Rightarrow> ('f) s3_service \<Rightarrow> (console_error + unit) \<times> ('f) s3_service" where
  "console_DeleteGroup nm = from_meta_unit (GroupDelete nm)"

definition console_AddGroupMember ::
  "console_env \<Rightarrow> string \<Rightarrow> string \<Rightarrow> ('f) s3_service \<Rightarrow> (console_error + unit) \<times> ('f) s3_service" where
  "console_AddGroupMember N groupName userAccessKey = with_user N MemberUnresolved userAccessKey
     (\<lambda>u. from_meta_unit (AddMember (co_crypt N) (co_now N) groupName (u_uuid u)))"

definition console_RemoveGroupMember ::
  "console_env \<Rightarrow> string \<Rightarrow> string \<Rightarrow> ('f) s3_service \<Rightarrow> (console_error + unit) \<times> ('f) s3_service" where
  "console_RemoveGroupMember N groupName userUUID = with_uuid N userUUID
     (\<lambda>uid. from_meta_unit (RemoveMember (co_now N) groupName uid))"

definition console_AttachGroupPolicy ::
  "console_env \<Rightarrow> string \<Rightarrow> string \<Rightarrow> ('f) s3_service \<Rightarrow> (console_error + unit) \<times> ('f) s3_service" where
  "console_AttachGroupPolicy N groupName policyName = from_meta_unit (GroupAttachPolicy (co_now N) groupName policyName)"

definition console_DetachGroupPolicy ::
  "console_env \<Rightarrow> string \<Rightarrow> string \<Rightarrow> ('f) s3_service \<Rightarrow> (console_error + unit) \<times> ('f) s3_service" where
  "console_DetachGroupPolicy N groupName policyName = from_meta_unit (GroupDetachPolicy (co_now N) groupName policyName)"

definition console_SetGroupStatus ::
  "console_env \<Rightarrow> string \<Rightarrow> bool \<Rightarrow> ('f) s3_service \<Rightarrow> (console_error + unit) \<times> ('f) s3_service" where
  "console_SetGroupStatus N groupName enabled =
     from_meta_unit (GroupSetStatus (co_now N) groupName (if enabled then GroupStatusActive else GroupStatusDisabled))"

section \<open>Service accounts\<close>

definition console_ListServiceAccounts :: "console_env \<Rightarrow> ('f) s3_service \<Rightarrow> console_account list" where
  "console_ListServiceAccounts N s =
     List.map_filter
       (\<lambda>key. case SAGet (co_crypt N) (sv_meta s) key of
                Inl _ \<Rightarrow> None | Inr sa \<Rightarrow> Some (iamServiceAccountToConsole N (sv_meta s) sa))
       (SAList (sv_meta s))"

definition found_account :: "console_env \<Rightarrow> string \<Rightarrow> ('f) s3_service \<Rightarrow> console_error + service_account" where
  "found_account N uuidStr s =
     (case co_parseUUID N uuidStr of
        None \<Rightarrow> Inl (InvalidUUID uuidStr)
      | Some uid \<Rightarrow> map_sum FromService id (SAGetByUUID (co_crypt N) (sv_meta s) uid))"

definition console_GetServiceAccount ::
  "console_env \<Rightarrow> string \<Rightarrow> ('f) s3_service \<Rightarrow> console_error + console_account" where
  "console_GetServiceAccount N uuidStr s =
     map_sum id (iamServiceAccountToConsole N (sv_meta s)) (found_account N uuidStr s)"

definition console_GetServiceAccountSecret ::
  "console_env \<Rightarrow> string \<Rightarrow> ('f) s3_service \<Rightarrow> console_error + string" where
  "console_GetServiceAccountSecret N uuidStr s = map_sum id sa_secretKey (found_account N uuidStr s)"

definition console_CreateServiceAccount ::
  "console_env \<Rightarrow> console_account_request \<Rightarrow> ('f) s3_service
     \<Rightarrow> (console_error + console_account) \<times> ('f) s3_service" where
  "console_CreateServiceAccount N req s =
     (let create = (\<lambda>parent.
        case SACreate (co_crypt N) (co_rand N) (co_now N) (co_fresh N)
               \<lparr>cs_accessKey = nq_accessKey req, cs_secretKey = nq_secretKey req, cs_name = '''', cs_description = '''',
                cs_parentUser = None, cs_parentUserUUID = parent, cs_policyMode = nq_policyMode req,
                cs_embeddedPolicyJSON = nq_embeddedPolicyJSON req, cs_expiresAt = nq_expiresAt req\<rparr> (sv_meta s) of
          (Inl e, m) \<Rightarrow> (Inl (FromService e), with_meta m s)
        | (Inr sa, m) \<Rightarrow>
            (Inr ((iamServiceAccountToConsole N m sa)\<lparr>na_secretKey := sa_secretKey sa\<rparr>), with_meta m s))
      in if nq_parentUserUUID req = '''' then create None
         else case co_parseUUID N (nq_parentUserUUID req) of
           None \<Rightarrow> (Inl (InvalidUUID (nq_parentUserUUID req)), s)
         | Some uid \<Rightarrow> create (Some uid))"

text \<open>Operations on an account that is looked up by its identifier first.\<close>

definition with_account ::
  "console_env \<Rightarrow> string \<Rightarrow> (string \<Rightarrow> ('f) s3_service \<Rightarrow> (console_error + 'a) \<times> ('f) s3_service)
     \<Rightarrow> ('f) s3_service \<Rightarrow> (console_error + 'a) \<times> ('f) s3_service" where
  "with_account N uuidStr act s =
     (case found_account N uuidStr s of Inl e \<Rightarrow> (Inl e, s) | Inr sa \<Rightarrow> act (sa_accessKey sa) s)"

definition console_DeleteServiceAccount ::
  "console_env \<Rightarrow> string \<Rightarrow> ('f) s3_service \<Rightarrow> (console_error + unit) \<times> ('f) s3_service" where
  "console_DeleteServiceAccount N uuidStr =
     with_account N uuidStr (\<lambda>accessKey. from_meta_unit (SADelete (co_crypt N) accessKey))"

definition console_UpdateServiceAccount ::
  "console_env \<Rightarrow> string \<Rightarrow> console_account_update \<Rightarrow> ('f) s3_service
     \<Rightarrow> (console_error + console_account) \<times> ('f) s3_service" where
  "console_UpdateServiceAccount N uuidStr req = with_account N uuidStr (\<lambda>accessKey s.
     case SAUpdate (co_crypt N) (co_now N) accessKey
            \<lparr>us_secretKey = ne_secretKey req, us_status = None, us_name = None, us_description = None,
             us_embeddedPolicyJSON = ne_embeddedPolicyJSON req, us_expiresAt = ne_expiresAt req\<rparr> (sv_meta s) of
       (Inl e, m) \<Rightarrow> (Inl (FromService e), with_meta m s)
     | (Inr sa, m) \<Rightarrow> (Inr (iamServiceAccountToConsole N m sa), with_meta m s))"

definition console_SetServiceAccountStatus ::
  "console_env \<Rightarrow> string \<Rightarrow> bool \<Rightarrow> ('f) s3_service \<Rightarrow> (console_error + unit) \<times> ('f) s3_service" where
  "console_SetServiceAccountStatus N uuidStr enabled = with_account N uuidStr (\<lambda>accessKey.
     from_meta_unit (SASetStatus (co_crypt N) (co_now N) accessKey
       (if enabled then ServiceAcctStatusActive else ServiceAcctStatusDisabled)))"

section \<open>Observation\<close>

definition console_GetEffectivePermissions ::
  "golib \<Rightarrow> (string \<Rightarrow> policy_document option) \<Rightarrow> console_env \<Rightarrow> string \<Rightarrow> string \<Rightarrow> ('f) s3_service
     \<Rightarrow> (console_error + effective_permissions) option" where
  "console_GetEffectivePermissions L unm N accessKey bucket s =
     map_option (map_sum FromObservation id) (GetEffectivePermissions L unm (co_crypt N) accessKey bucket s)"

definition console_SimulateRequest ::
  "('f) fs_ops \<Rightarrow> golib \<Rightarrow> (string \<Rightarrow> policy_document option) \<Rightarrow> console_env \<Rightarrow> simulate_request
     \<Rightarrow> ('f) s3_service \<Rightarrow> ((console_error + simulate_result) \<times> ('f) s3_service) option" where
  "console_SimulateRequest F L unm N req s =
     map_option (map_prod (map_sum FromObservation id) id) (Simulate F L unm (co_crypt N) req s)"

end
