(* ===== verification/DirioApi.thy ===== *)
theory DirioApi
  imports Console
begin

text \<open>
  \<^verbatim>\<open>internal/http/api/dirio\<close>: the REST API of DirIO for owners and the simulation of policies. Its routes are behind
  the authentication alone, without the authorization middleware; the handlers check the rights themselves.
\<close>

section \<open>Responses (dirioapi.go)\<close>

datatype dirio_payload =
    DirioError string string string
  | DirioOwner console_owner
  | DirioSimulation simulate_result
  | DirioPermissions effective_permissions

record dirio_response =
  dr_status :: nat
  dr_payload :: dirio_payload

definition writeError :: "nat \<Rightarrow> string \<Rightarrow> string \<Rightarrow> string \<Rightarrow> dirio_response" where
  "writeError status code msg resource = \<lparr>dr_status = status, dr_payload = DirioError code msg resource\<rparr>"

definition writeUnauthorized :: dirio_response where
  "writeUnauthorized = writeError 401 ''Unauthorized'' ''Request must be authenticated'' ''''"

definition writeAccessDenied :: dirio_response where
  "writeAccessDenied = writeError 403 ''AccessDenied'' ''You do not have permission to perform this operation'' ''''"

definition writeInternalError :: dirio_response where
  "writeInternalError = writeError 500 ''InternalError'' ''An unexpected error occurred'' ''''"

definition writeJSON :: "dirio_payload \<Rightarrow> dirio_response" where
  "writeJSON p = \<lparr>dr_status = 200, dr_payload = p\<rparr>"

definition dirio_isAdmin :: "admin_keys option \<Rightarrow> string \<Rightarrow> bool" where
  "dirio_isAdmin keys accessKey =
     (case keys of
        None \<Rightarrow> False
      | Some k \<Rightarrow> accessKey = ak_primary k \<or> (ak_alt k \<noteq> '''' \<and> accessKey = ak_alt k))"

section \<open>Errors (handler.go)\<close>

fun no_bucket_error :: "console_error \<Rightarrow> bool" where
  "no_bucket_error (FromService e) = (e = SvcErr SvcBucketNotFound)"
| "no_bucket_error (FromS3 e) = (e = S3Err ErrNoSuchBucket)"
| "no_bucket_error (FromObservation (ObsUser e)) = (e = SvcErr SvcBucketNotFound)"
| "no_bucket_error (FromObservation (ObsBucket e)) = (e = S3Err ErrNoSuchBucket)"
| "no_bucket_error _ = False"

fun no_object_error :: "console_error \<Rightarrow> bool" where
  "no_object_error (FromService e) = (e = SvcErr SvcObjectNotFound)"
| "no_object_error (FromS3 e) = (e = S3Err ErrNoSuchKey)"
| "no_object_error (FromObservation (ObsUser e)) = (e = SvcErr SvcObjectNotFound)"
| "no_object_error (FromObservation (ObsBucket e)) = (e = S3Err ErrNoSuchKey)"
| "no_object_error _ = False"

fun no_user_error :: "console_error \<Rightarrow> bool" where
  "no_user_error (FromService e) = (e = SvcErr SvcUserNotFound)"
| "no_user_error (FromObservation (ObsUser e)) = (e = SvcErr SvcUserNotFound)"
| "no_user_error _ = False"

definition mapServiceError :: "console_error \<Rightarrow> string \<Rightarrow> dirio_response" where
  "mapServiceError e resource =
     (if no_bucket_error e then
        writeError 404 ''NoSuchBucket'' ''The specified bucket does not exist'' resource
      else if no_object_error e then
        writeError 404 ''NoSuchObject'' ''The specified object does not exist'' resource
      else if no_user_error e then
        writeError 404 ''NoSuchUser'' ''The specified access key does not exist'' resource
      else writeInternalError)"

definition dirio_answer :: "string \<Rightarrow> ('a \<Rightarrow> dirio_payload) \<Rightarrow> console_error + 'a \<Rightarrow> dirio_response" where
  "dirio_answer resource payload r =
     (case r of Inl e \<Rightarrow> mapServiceError e resource | Inr x \<Rightarrow> writeJSON (payload x))"

section \<open>Handlers\<close>

record dirio_env =
  de_console :: console_env
  de_lib :: golib
  de_unmarshal :: "string \<Rightarrow> policy_document option"
  de_ownerJson :: "string \<Rightarrow> string option"
  de_simulateJson :: "string \<Rightarrow> simulate_request option"

definition callerAccessKey :: "request_context \<Rightarrow> string" where
  "callerAccessKey cx = (case cx_user cx of None \<Rightarrow> '''' | Some user \<Rightarrow> u_accessKey user)"

definition HandleGetBucketOwner ::
  "dirio_env \<Rightarrow> string \<Rightarrow> ('f) s3_service \<Rightarrow> dirio_response" where
  "HandleGetBucketOwner D bucket s =
     dirio_answer (''/'' @ bucket) DirioOwner (console_GetBucketOwner (de_console D) bucket s)"

definition HandleTransferBucketOwner ::
  "dirio_env \<Rightarrow> admin_keys option \<Rightarrow> request_context \<Rightarrow> string \<times> bool \<Rightarrow> string \<Rightarrow> ('f) s3_service
     \<Rightarrow> dirio_response \<times> ('f) s3_service" where
  "HandleTransferBucketOwner D keys cx body bucket s =
     (if \<not> dirio_isAdmin keys (callerAccessKey cx) then (writeAccessDenied, s)
      else case de_ownerJson D (fst body) of
        None \<Rightarrow>
          (writeError 400 ''InvalidRequest'' ''Request body must contain a non-empty accessKey field'' '''', s)
      | Some accessKey \<Rightarrow>
          if accessKey = '''' then
            (writeError 400 ''InvalidRequest'' ''Request body must contain a non-empty accessKey field'' '''', s)
          else case console_TransferBucketOwnership (de_console D) bucket accessKey s of
            (Inl e, s) \<Rightarrow> (mapServiceError e (''/'' @ bucket), s)
          | (Inr _, s) \<Rightarrow> (HandleGetBucketOwner D bucket s, s))"

definition HandleGetObjectOwner ::
  "('f) fs_ops \<Rightarrow> dirio_env \<Rightarrow> string \<Rightarrow> string \<Rightarrow> ('f) s3_service \<Rightarrow> dirio_response \<times> ('f) s3_service" where
  "HandleGetObjectOwner F D bucket key s =
     (case console_GetObjectOwner F (de_console D) bucket key s of
        (r, s) \<Rightarrow> (dirio_answer (''/'' @ bucket @ ''/'' @ key) DirioOwner r, s))"

definition HandleSimulate ::
  "('f) fs_ops \<Rightarrow> dirio_env \<Rightarrow> admin_keys option \<Rightarrow> request_context \<Rightarrow> string \<times> bool \<Rightarrow> ('f) s3_service
     \<Rightarrow> (dirio_response \<times> ('f) s3_service) option" where
  "HandleSimulate F D keys cx body s =
     (case de_simulateJson D (fst body) of
        None \<Rightarrow> Some (writeError 400 ''InvalidRequest'' ''Could not parse request body'' '''', s)
      | Some req \<Rightarrow>
          if sq_accessKey req = '''' \<or> sq_bucket req = '''' \<or> sq_action req = '''' then
            Some (writeError 400 ''InvalidRequest'' ''accessKey, bucket, and action are required'' '''', s)
          else if \<not> dirio_isAdmin keys (callerAccessKey cx) \<and> sq_accessKey req \<noteq> callerAccessKey cx then
            Some (writeAccessDenied, s)
          else do {
            (r, s) \<leftarrow> console_SimulateRequest F (de_lib D) (de_unmarshal D) (de_console D) req s;
            Some (dirio_answer (''/'' @ sq_bucket req) DirioSimulation r, s) })"

definition HandleGetEffectivePermissions ::
  "dirio_env \<Rightarrow> admin_keys option \<Rightarrow> request_context \<Rightarrow> string \<Rightarrow> string \<Rightarrow> ('f) s3_service
     \<Rightarrow> dirio_response option" where
  "HandleGetEffectivePermissions D keys cx bucket accessKey s =
     (if \<not> dirio_isAdmin keys (callerAccessKey cx) \<and> accessKey \<noteq> callerAccessKey cx then Some writeAccessDenied
      else do {
        r \<leftarrow> console_GetEffectivePermissions (de_lib D) (de_unmarshal D) (de_console D) accessKey bucket s;
        Some (dirio_answer (''/'' @ bucket) DirioPermissions r) })"

section \<open>Routes (routes.go)\<close>

datatype dirio_operation =
    DirioGetBucketOwner string
  | DirioTransferBucketOwner string
  | DirioGetObjectOwner string string
  | DirioSimulate
  | DirioGetEffectivePermissions string string

text \<open>Every handler refuses anonymous callers first; \<open>api\<close> is never nil in a server.\<close>

definition dirio_handle ::
  "('f) fs_ops \<Rightarrow> dirio_env \<Rightarrow> admin_keys option \<Rightarrow> dirio_operation \<Rightarrow> request_context \<Rightarrow> string \<times> bool
     \<Rightarrow> ('f) s3_service \<Rightarrow> (dirio_response \<times> ('f) s3_service) option" where
  "dirio_handle F D keys oper cx body s =
     (if cx_anonymous cx then Some (writeUnauthorized, s)
      else case oper of
        DirioGetBucketOwner bucket \<Rightarrow> Some (HandleGetBucketOwner D bucket s, s)
      | DirioTransferBucketOwner bucket \<Rightarrow> Some (HandleTransferBucketOwner D keys cx body bucket s)
      | DirioGetObjectOwner bucket key \<Rightarrow> Some (HandleGetObjectOwner F D bucket key s)
      | DirioSimulate \<Rightarrow> HandleSimulate F D keys cx body s
      | DirioGetEffectivePermissions bucket accessKey \<Rightarrow>
          map_option (\<lambda>r. (r, s)) (HandleGetEffectivePermissions D keys cx bucket accessKey s))"

definition serve_dirio ::
  "('f) fs_ops \<Rightarrow> api_env \<Rightarrow> authenticator \<Rightarrow> dirio_env \<Rightarrow> dirio_operation \<Rightarrow> api_request \<Rightarrow> ('f) s3_service
     \<Rightarrow> ((api_response + dirio_response) \<times> ('f) s3_service) option" where
  "serve_dirio F E a D oper q s =
     (let out = authenticate E a q s
      in case out of
           Rejected code \<Rightarrow> Some (Inl (WriteErrorResponse (auth_code code) None), s)
         | _ \<Rightarrow>
             map_option (\<lambda>(resp, s). (Inr resp, s))
               (dirio_handle F D (Some (root_keys a)) oper (context_of out) (q_body q) s))"

end
