(* ===== verification/ConsoleWeb.thy ===== *)
theory ConsoleWeb
  imports Console Chunked
begin

text \<open>
  The web console: session cookies (\<^verbatim>\<open>console/auth/session.go\<close>), the check of the administrator's credentials
  (\<^verbatim>\<open>cmd/server/cmd/wire_console.go\<close>), the handlers (\<^verbatim>\<open>console/handlers/handlers.go\<close>) and their routes
  (\<^verbatim>\<open>console/console.go\<close>). A page is the data that is handed to its template. JSON, dates and the text of errors are
  libraries and arguments here.
\<close>

section \<open>Sessions (session.go)\<close>

record session_payload =
  sp_accessKey :: string
  sp_expiresAt :: int

record flash_data =
  fd_message :: string
  fd_type :: string

record web_env =
  we_signingKey :: string
  we_lib :: sig_lib
  we_marshalSession :: "session_payload \<Rightarrow> string option"
  we_unmarshalSession :: "string \<Rightarrow> session_payload option"
  we_marshalFlash :: "flash_data \<Rightarrow> string"
  we_unmarshalFlash :: "string \<Rightarrow> flash_data option"
  we_unixNow :: int
  we_basePath :: string
  we_errorText :: "console_error \<Rightarrow> string"
  we_parseDate :: "string \<Rightarrow> time option"
  we_parseDuration :: "string \<Rightarrow> int option"
  we_unicode :: unicode_tables
  we_unmarshal :: "string \<Rightarrow> policy_document option"
  we_console :: console_env

record console_request =
  wq_method :: string
  wq_cookie :: "string \<Rightarrow> string option"
  wq_form :: "string \<Rightarrow> string"
  wq_formValues :: "string \<Rightarrow> string list"
  wq_query :: "string \<Rightarrow> string"
  wq_param :: "string \<Rightarrow> string"
  wq_hxRequest :: string
  wq_host :: string
  wq_tls :: bool

datatype cookie_change = SetCookie string string | DropCookie string

definition cookieName :: string where "cookieName = ''dirio_console_session''"

definition flashCookieName :: string where "flashCookieName = ''dirio_console_flash''"

definition sessionDuration :: int where "sessionDuration = 8 * 60 * 60"

text \<open>\<open>hex.DecodeString\<close>.\<close>

fun hex_decode :: "string \<Rightarrow> string option" where
  "hex_decode [] = Some []"
| "hex_decode [c] = None"
| "hex_decode (a # b # cs) = do {
     x \<leftarrow> hex_val a;
     y \<leftarrow> hex_val b;
     rest \<leftarrow> hex_decode cs;
     Some (char_of (16 * x + y) # rest) }"

definition session_sign :: "web_env \<Rightarrow> string \<Rightarrow> string" where
  "session_sign W data = hex_encode (sl_hmac (we_lib W) (we_signingKey W) data)"

definition signed_value :: "web_env \<Rightarrow> string \<Rightarrow> string" where
  "signed_value W raw = (let encoded = hex_encode raw in encoded @ ''.'' @ session_sign W encoded)"

definition read_signed :: "web_env \<Rightarrow> string \<Rightarrow> string option" where
  "read_signed W v =
     (case last_index_char v CHR ''.'' of
        None \<Rightarrow> None
      | Some idx \<Rightarrow>
          if session_sign W (take idx v) \<noteq> drop (idx + 1) v then None else hex_decode (take idx v))"

definition session_create :: "web_env \<Rightarrow> string \<Rightarrow> cookie_change option" where
  "session_create W accessKey =
     map_option (\<lambda>raw. SetCookie cookieName (signed_value W raw))
       (we_marshalSession W \<lparr>sp_accessKey = accessKey, sp_expiresAt = we_unixNow W + sessionDuration\<rparr>)"

definition session_validate :: "web_env \<Rightarrow> console_request \<Rightarrow> string option" where
  "session_validate W q = do {
     v \<leftarrow> wq_cookie q cookieName;
     raw \<leftarrow> read_signed W v;
     p \<leftarrow> we_unmarshalSession W raw;
     if sp_expiresAt p < we_unixNow W then None else Some (sp_accessKey p) }"

definition set_flash :: "web_env \<Rightarrow> string \<Rightarrow> string \<Rightarrow> cookie_change" where
  "set_flash W msg msgType =
     SetCookie flashCookieName (signed_value W (we_marshalFlash W \<lparr>fd_message = msg, fd_type = msgType\<rparr>))"

definition get_flash :: "web_env \<Rightarrow> console_request \<Rightarrow> flash_data option \<times> cookie_change list" where
  "get_flash W q =
     (case wq_cookie q flashCookieName of
        None \<Rightarrow> (None, [])
      | Some v \<Rightarrow> (Option.bind (read_signed W v) (we_unmarshalFlash W), [DropCookie flashCookieName]))"

section \<open>The administrator (wire\_console.go)\<close>

definition AuthenticateAdmin :: "crypt_env \<Rightarrow> meta_store \<Rightarrow> authenticator \<Rightarrow> time \<Rightarrow> string \<Rightarrow> string \<Rightarrow> bool" where
  "AuthenticateAdmin C st a now accessKey secretKey \<longleftrightarrow>
     ValidateCredentials C st a accessKey secretKey \<and>
     (case GetUserForAccessKey C st a now accessKey of Inl _ \<Rightarrow> False | Inr user \<Rightarrow> u_uuid user = AdminUserUUID)"

section \<open>Pages and responses\<close>

record bucket_detail =
  bd_bucket :: console_bucket
  bd_policyJSON :: string
  bd_owner :: "console_owner option"
  bd_users :: "console_user list"

record group_detail =
  gd_group :: console_group
  gd_allPolicies :: "console_policy list"
  gd_users :: "console_user list"
  gd_flash :: string
  gd_errorMsg :: string

record object_detail =
  od_bucket :: string
  od_meta :: "console_object_metadata option"
  od_tags :: "(string \<times> string) list"
  od_owner :: "console_owner option"

record accounts_page =
  ap_accounts :: "console_account list"
  ap_users :: "console_user list"
  ap_policies :: "console_policy list"
  ap_newSA :: "console_account option"
  ap_errorMsg :: string

record simulate_page =
  sm_request :: simulate_request
  sm_effective :: "effective_permissions option"
  sm_result :: "simulate_result option"
  sm_error :: string

datatype console_page =
    LoginView string
  | DashboardView nat nat nat nat
  | UsersView "console_user list" string string
  | UsersTableView "console_user list"
  | PoliciesView "console_policy list"
  | PoliciesTableView "console_policy list"
  | BucketsView "console_bucket list" "console_user list" string
  | BucketsTableView "console_bucket list"
  | BucketDetailView bucket_detail
  | GroupsView "console_group list" string
  | GroupsTableView "console_group list"
  | GroupDetailView group_detail
  | AccountsView accounts_page
  | AccountsTableView "console_account list"
  | SimulateView simulate_page
  | ObjectsView string string "console_object list"
  | ObjectsTableView string string "console_object list"
  | ObjectView object_detail
  | PresignedView "string \<times> string \<times> (string \<times> string list) list"
  | UploadURLView "string \<times> string \<times> (string \<times> string list) list"
  | JsonErrorView string
  | ToastView flash_data
  | PlainText string
  | NoPage

record console_response =
  ws_status :: nat
  ws_location :: "string option"
  ws_cookies :: "cookie_change list"
  ws_trigger :: bool
  ws_page :: console_page

definition show_page :: "console_page \<Rightarrow> console_response" where
  "show_page p = \<lparr>ws_status = 200, ws_location = None, ws_cookies = [], ws_trigger = False, ws_page = p\<rparr>"

definition http_error :: "string \<Rightarrow> nat \<Rightarrow> console_response" where
  "http_error text code =
     \<lparr>ws_status = code, ws_location = None, ws_cookies = [], ws_trigger = False, ws_page = PlainText text\<rparr>"

text \<open>The location is what is handed to \<open>http.Redirect\<close>.\<close>

definition redirect :: "string \<Rightarrow> console_response" where
  "redirect url =
     \<lparr>ws_status = 303, ws_location = Some url, ws_cookies = [], ws_trigger = False, ws_page = NoPage\<rparr>"

definition PageURL :: "web_env \<Rightarrow> string \<Rightarrow> string" where
  "PageURL W path = we_basePath W @ path"

definition LoginURL :: "web_env \<Rightarrow> string" where
  "LoginURL W = we_basePath W @ ''/login''"

definition isHTMX :: "console_request \<Rightarrow> bool" where
  "isHTMX q \<longleftrightarrow> wq_hxRequest q = ''true''"

definition triggerToast :: "web_env \<Rightarrow> string \<Rightarrow> string \<Rightarrow> console_response \<Rightarrow> console_response" where
  "triggerToast W msg msgType resp =
     resp\<lparr>ws_cookies := set_flash W msg msgType # ws_cookies resp, ws_trigger := True\<rparr>"

text \<open>The toast about the outcome of an operation.\<close>

definition outcome_toast ::
  "web_env \<Rightarrow> string \<Rightarrow> string \<Rightarrow> console_error + 'a \<Rightarrow> console_response \<Rightarrow> console_response" where
  "outcome_toast W failure success r =
     (case r of
        Inl e \<Rightarrow> triggerToast W (failure @ we_errorText W e) ''error''
      | Inr _ \<Rightarrow> triggerToast W success ''success'')"

definition error_text :: "web_env \<Rightarrow> console_error + 'a \<Rightarrow> string" where
  "error_text W r = (case r of Inl e \<Rightarrow> we_errorText W e | Inr _ \<Rightarrow> '''')"

section \<open>Login and dashboard\<close>

definition web_LoginPage :: "web_env \<Rightarrow> console_request \<Rightarrow> console_response" where
  "web_LoginPage W q =
     (if session_validate W q \<noteq> None then redirect (PageURL W ''/'') else show_page (LoginView ''''))"

definition web_LoginSubmit ::
  "web_env \<Rightarrow> authenticator \<Rightarrow> console_request \<Rightarrow> ('f) s3_service \<Rightarrow> console_response" where
  "web_LoginSubmit W a q s =
     (let accessKey = wq_form q ''access_key''; N = we_console W
      in if \<not> AuthenticateAdmin (co_crypt N) (sv_meta s) a (co_now N) accessKey (wq_form q ''secret_key'') then
           show_page (LoginView ''Invalid credentials or insufficient permissions.'')
         else case session_create W accessKey of
           None \<Rightarrow> http_error ''Session error'' 500
         | Some c \<Rightarrow> (redirect (PageURL W ''/''))\<lparr>ws_cookies := [c]\<rparr>)"

definition web_Logout :: "web_env \<Rightarrow> console_response" where
  "web_Logout W = (redirect (LoginURL W))\<lparr>ws_cookies := [DropCookie cookieName]\<rparr>"

definition web_Toasts :: "web_env \<Rightarrow> console_request \<Rightarrow> console_response" where
  "web_Toasts W q =
     (case get_flash W q of
        (None, cs) \<Rightarrow> (show_page NoPage)\<lparr>ws_cookies := cs\<rparr>
      | (Some flash, cs) \<Rightarrow> (show_page (ToastView flash))\<lparr>ws_cookies := cs\<rparr>)"

definition web_Dashboard :: "web_env \<Rightarrow> ('f) s3_service \<Rightarrow> console_response" where
  "web_Dashboard W s =
     (let N = we_console W
      in show_page (DashboardView (length (console_ListUsers N s)) (length (console_ListBuckets N s))
           (length (console_ListPolicies N s)) (length (console_ListGroups s))))"

section \<open>Users\<close>

definition web_Users :: "web_env \<Rightarrow> console_request \<Rightarrow> ('f) s3_service \<Rightarrow> console_response" where
  "web_Users W q s =
     (let users = console_ListUsers (we_console W) s
      in show_page (if isHTMX q then UsersTableView users else UsersView users '''' ''''))"

definition web_UserCreate ::
  "web_env \<Rightarrow> console_request \<Rightarrow> ('f) s3_service \<Rightarrow> console_response \<times> ('f) s3_service" where
  "web_UserCreate W q s =
     (let N = we_console W;
          (r, s) = console_CreateUser N
            \<lparr>nc_accessKey = wq_form q ''accessKey'', nc_secretKey = wq_form q ''secretKey'',
             nc_generateSecret = (wq_form q ''generate_secret'' = ''on'')\<rparr> s;
          secret = (case r of Inl _ \<Rightarrow> '''' | Inr u \<Rightarrow> nu_secretKey u)
      in (outcome_toast W ''Failed to create user: '' ''User created successfully'' r
            (show_page (UsersView (console_ListUsers N s) (error_text W r) secret)), s))"

definition web_UserDelete ::
  "web_env \<Rightarrow> console_request \<Rightarrow> ('f) s3_service \<Rightarrow> console_response \<times> ('f) s3_service" where
  "web_UserDelete W q s =
     (let (r, s) = console_DeleteUser (we_console W) (wq_param q ''uuid'') s
      in (outcome_toast W ''Failed to delete user: '' ''User deleted successfully'' r
            (show_page (UsersTableView (console_ListUsers (we_console W) s))), s))"

definition web_UserSetStatus ::
  "web_env \<Rightarrow> console_request \<Rightarrow> ('f) s3_service \<Rightarrow> console_response \<times> ('f) s3_service" where
  "web_UserSetStatus W q s =
     (let N = we_console W; uid = wq_param q ''uuid''
      in case console_GetUser N uid s of
           Inl e \<Rightarrow> (triggerToast W ''User not found'' ''error'' (http_error (we_errorText W e) 404), s)
         | Inr u \<Rightarrow>
             let newStatus = (nu_status u \<noteq> ''on''); (r, s) = console_SetUserStatus N uid newStatus s
             in (outcome_toast W ''Failed to update user status: ''
                   (if newStatus then ''User enabled'' else ''User disabled'') r
                   (show_page (UsersTableView (console_ListUsers N s))), s))"

definition web_UserUpdateSecret ::
  "web_env \<Rightarrow> console_request \<Rightarrow> ('f) s3_service \<Rightarrow> console_response \<times> ('f) s3_service" where
  "web_UserUpdateSecret W q s =
     (let N = we_console W;
          (r, s) = console_UpdateUser N (wq_param q ''uuid'')
            \<lparr>nd_secretKey = Some (wq_form q ''secretKey''), nd_generateSecret = False\<rparr> s
      in (outcome_toast W ''Failed to update secret: '' ''Secret updated successfully'' r
            (show_page (UsersView (console_ListUsers N s) '''' '''')), s))"

definition web_UserRotateSecret ::
  "web_env \<Rightarrow> console_request \<Rightarrow> ('f) s3_service \<Rightarrow> console_response \<times> ('f) s3_service" where
  "web_UserRotateSecret W q s =
     (let N = we_console W;
          (r, s) = console_UpdateUser N (wq_param q ''uuid'') \<lparr>nd_secretKey = None, nd_generateSecret = True\<rparr> s;
          secret = (case r of Inl _ \<Rightarrow> '''' | Inr u \<Rightarrow> nu_secretKey u)
      in (outcome_toast W ''Failed to rotate secret: '' ''Secret rotated successfully'' r
            (show_page (UsersView (console_ListUsers N s) '''' secret)), s))"

definition reveal :: "web_env \<Rightarrow> console_error + string \<Rightarrow> console_response" where
  "reveal W r =
     (case r of Inl e \<Rightarrow> http_error (we_errorText W e) 500 | Inr secret \<Rightarrow> show_page (PlainText secret))"

definition web_UserRevealSecret :: "web_env \<Rightarrow> console_request \<Rightarrow> ('f) s3_service \<Rightarrow> console_response" where
  "web_UserRevealSecret W q s = reveal W (console_GetUserSecret (we_console W) (wq_param q ''uuid'') s)"

section \<open>Policies and buckets\<close>

definition web_Policies :: "web_env \<Rightarrow> console_request \<Rightarrow> ('f) s3_service \<Rightarrow> console_response" where
  "web_Policies W q s =
     (let policies = console_ListPolicies (we_console W) s
      in show_page (if isHTMX q then PoliciesTableView policies else PoliciesView policies))"

definition web_Buckets :: "web_env \<Rightarrow> console_request \<Rightarrow> ('f) s3_service \<Rightarrow> console_response" where
  "web_Buckets W q s =
     (let N = we_console W; buckets = console_ListBuckets N s
      in show_page (if isHTMX q then BucketsTableView buckets
           else BucketsView buckets (console_ListUsers N s) ''''))"

definition web_BucketCreate ::
  "('f) fs_ops \<Rightarrow> web_env \<Rightarrow> console_request \<Rightarrow> ('f) s3_service \<Rightarrow> console_response \<times> ('f) s3_service" where
  "web_BucketCreate F W q s =
     (let N = we_console W;
          (r, s) = console_CreateBucket F (we_unicode W) N (wq_form q ''name'') (wq_form q ''owner_access_key'') s
      in (outcome_toast W ''Failed to create bucket: '' ''Bucket created successfully'' r
            (show_page (BucketsView (console_ListBuckets N s) (console_ListUsers N s) (error_text W r))), s))"

definition web_BucketDelete ::
  "('f) fs_ops \<Rightarrow> web_env \<Rightarrow> console_request \<Rightarrow> ('f) s3_service \<Rightarrow> console_response \<times> ('f) s3_service" where
  "web_BucketDelete F W q s =
     (let bucket = wq_param q ''bucket''; (r, s) = console_DeleteBucket F bucket s
      in (outcome_toast W ''Failed to delete bucket: '' ''Bucket deleted'' r
            (redirect (PageURL W (case r of Inl _ \<Rightarrow> ''/buckets/'' @ bucket | Inr _ \<Rightarrow> ''/buckets''))), s))"

text \<open>The data of the page of a bucket; errors of the later calls are dropped.\<close>

definition bucket_page ::
  "web_env \<Rightarrow> string \<Rightarrow> string \<Rightarrow> console_bucket \<Rightarrow> ('f) s3_service \<Rightarrow> console_response" where
  "bucket_page W bucket policyJSON b s =
     (let N = we_console W
      in show_page (BucketDetailView
           \<lparr>bd_bucket = b, bd_policyJSON = policyJSON,
            bd_owner = (case console_GetBucketOwner N bucket s of Inl _ \<Rightarrow> None | Inr w \<Rightarrow> Some w),
            bd_users = console_ListUsers N s\<rparr>))"

definition shown_policy :: "('f) fs_ops \<Rightarrow> web_env \<Rightarrow> string \<Rightarrow> ('f) s3_service \<Rightarrow> string" where
  "shown_policy F W bucket s =
     (case console_GetBucketPolicy F (we_console W) bucket s of Inl _ \<Rightarrow> '''' | Inr p \<Rightarrow> p)"

definition web_BucketDetail ::
  "('f) fs_ops \<Rightarrow> web_env \<Rightarrow> console_request \<Rightarrow> ('f) s3_service \<Rightarrow> console_response" where
  "web_BucketDetail F W q s =
     (let bucket = wq_param q ''bucket''
      in case console_GetBucket (we_console W) bucket s of
           Inl e \<Rightarrow> http_error (we_errorText W e) 404
         | Inr b \<Rightarrow> bucket_page W bucket (shown_policy F W bucket s) b s)"

text \<open>The page after a change of the bucket.\<close>

definition changed_bucket ::
  "web_env \<Rightarrow> string \<Rightarrow> string \<Rightarrow> string \<Rightarrow> string \<Rightarrow> (console_error + unit) \<times> ('f) s3_service
     \<Rightarrow> console_response \<times> ('f) s3_service" where
  "changed_bucket W bucket policyJSON failure success = (\<lambda>(r, s).
     (outcome_toast W failure success r
        (case console_GetBucket (we_console W) bucket s of
           Inl _ \<Rightarrow> http_error ''Bucket not found'' 404
         | Inr b \<Rightarrow> bucket_page W bucket policyJSON b s), s))"

definition web_BucketPolicySet ::
  "('f) fs_ops \<Rightarrow> web_env \<Rightarrow> console_request \<Rightarrow> ('f) s3_service \<Rightarrow> console_response \<times> ('f) s3_service" where
  "web_BucketPolicySet F W q s =
     (let bucket = wq_param q ''bucket''; policyJSON = wq_form q ''policy''
      in changed_bucket W bucket policyJSON ''Failed to save policy: '' ''Policy saved''
           (console_SetBucketPolicy F (we_console W) bucket policyJSON s))"

definition web_BucketTransferOwnership ::
  "('f) fs_ops \<Rightarrow> web_env \<Rightarrow> console_request \<Rightarrow> ('f) s3_service \<Rightarrow> console_response \<times> ('f) s3_service" where
  "web_BucketTransferOwnership F W q s =
     (let bucket = wq_param q ''bucket''; accessKey = wq_form q ''access_key'';
          (r, s) = console_TransferBucketOwnership (we_console W) bucket accessKey s
      in changed_bucket W bucket (shown_policy F W bucket s) ''Failed to transfer ownership: ''
           (''Ownership transferred to '' @ accessKey) (r, s))"

section \<open>Groups\<close>

definition web_Groups :: "console_request \<Rightarrow> ('f) s3_service \<Rightarrow> console_response" where
  "web_Groups q s =
     (let groups = console_ListGroups s in show_page (if isHTMX q then GroupsTableView groups else GroupsView groups ''''))"

definition web_GroupCreate ::
  "web_env \<Rightarrow> console_request \<Rightarrow> ('f) s3_service \<Rightarrow> console_response \<times> ('f) s3_service" where
  "web_GroupCreate W q s =
     (case console_CreateGroup (we_console W) (wq_form q ''name'') s of
        (Inl e, s) \<Rightarrow> (show_page (GroupsView (console_ListGroups s) (we_errorText W e)), s)
      | (Inr g, s) \<Rightarrow> (redirect (PageURL W (''/groups/'' @ ng_name g)), s))"

definition web_GroupDetail :: "web_env \<Rightarrow> console_request \<Rightarrow> ('f) s3_service \<Rightarrow> console_response" where
  "web_GroupDetail W q s =
     (case console_GetGroup (wq_param q ''group'') s of
        Inl e \<Rightarrow> http_error (we_errorText W e) 404
      | Inr g \<Rightarrow>
          show_page (GroupDetailView
            \<lparr>gd_group = g, gd_allPolicies = console_ListPolicies (we_console W) s,
             gd_users = console_ListUsers (we_console W) s, gd_flash = wq_query q ''flash'',
             gd_errorMsg = wq_query q ''error''\<rparr>))"

definition web_GroupDelete ::
  "web_env \<Rightarrow> console_request \<Rightarrow> ('f) s3_service \<Rightarrow> console_response \<times> ('f) s3_service" where
  "web_GroupDelete W q s =
     (let nm = wq_param q ''group''
      in case console_DeleteGroup nm s of
           (Inl e, s) \<Rightarrow> (redirect (PageURL W (''/groups/'' @ nm) @ ''?error='' @ we_errorText W e), s)
         | (Inr _, s) \<Rightarrow> (redirect (PageURL W ''/groups''), s))"

text \<open>The other changes of a group go back to its page with a message in the query.\<close>

definition changed_group ::
  "web_env \<Rightarrow> string \<Rightarrow> string \<Rightarrow> (console_error + unit) \<times> ('f) s3_service
     \<Rightarrow> console_response \<times> ('f) s3_service" where
  "changed_group W nm flash = (\<lambda>(r, s).
     (redirect (PageURL W (''/groups/'' @ nm) @
        (case r of Inl e \<Rightarrow> ''?error='' @ we_errorText W e | Inr _ \<Rightarrow> ''?flash='' @ flash)), s))"

definition web_GroupAddMember ::
  "web_env \<Rightarrow> console_request \<Rightarrow> ('f) s3_service \<Rightarrow> console_response \<times> ('f) s3_service" where
  "web_GroupAddMember W q s =
     (let nm = wq_param q ''group''
      in changed_group W nm ''Member+added.''
           (console_AddGroupMember (we_console W) nm (wq_form q ''access_key'') s))"

definition web_GroupRemoveMember ::
  "web_env \<Rightarrow> console_request \<Rightarrow> ('f) s3_service \<Rightarrow> console_response \<times> ('f) s3_service" where
  "web_GroupRemoveMember W q s =
     (let nm = wq_param q ''group''
      in changed_group W nm ''Member+removed.''
           (console_RemoveGroupMember (we_console W) nm (wq_form q ''user_uuid'') s))"

definition web_GroupAttachPolicy ::
  "web_env \<Rightarrow> console_request \<Rightarrow> ('f) s3_service \<Rightarrow> console_response \<times> ('f) s3_service" where
  "web_GroupAttachPolicy W q s =
     (let nm = wq_param q ''group''
      in changed_group W nm ''Policy+attached.''
           (console_AttachGroupPolicy (we_console W) nm (wq_form q ''policy'') s))"

definition web_GroupDetachPolicy ::
  "web_env \<Rightarrow> console_request \<Rightarrow> ('f) s3_service \<Rightarrow> console_response \<times> ('f) s3_service" where
  "web_GroupDetachPolicy W q s =
     (let nm = wq_param q ''group''
      in changed_group W nm ''Policy+detached.''
           (console_DetachGroupPolicy (we_console W) nm (wq_form q ''policy'') s))"

definition web_GroupSetStatus ::
  "web_env \<Rightarrow> console_request \<Rightarrow> ('f) s3_service \<Rightarrow> console_response \<times> ('f) s3_service" where
  "web_GroupSetStatus W q s =
     (let nm = wq_param q ''group''; enabled = (wq_form q ''enabled'' = ''true'')
      in changed_group W nm (if enabled then ''Group+enabled.'' else ''Group+disabled.'')
           (console_SetGroupStatus (we_console W) nm enabled s))"

section \<open>Service accounts\<close>

definition accounts_view ::
  "web_env \<Rightarrow> console_account option \<Rightarrow> string \<Rightarrow> ('f) s3_service \<Rightarrow> console_response" where
  "accounts_view W newSA errorMsg s =
     (let N = we_console W
      in show_page (AccountsView
           \<lparr>ap_accounts = console_ListServiceAccounts N s, ap_users = console_ListUsers N s,
            ap_policies = console_ListPolicies N s, ap_newSA = newSA, ap_errorMsg = errorMsg\<rparr>))"

definition accounts_table :: "web_env \<Rightarrow> ('f) s3_service \<Rightarrow> console_response" where
  "accounts_table W s = show_page (AccountsTableView (console_ListServiceAccounts (we_console W) s))"

definition web_ServiceAccounts :: "web_env \<Rightarrow> console_request \<Rightarrow> ('f) s3_service \<Rightarrow> console_response" where
  "web_ServiceAccounts W q s = (if isHTMX q then accounts_table W s else accounts_view W None '''' s)"

text \<open>A date that cannot be parsed is dropped.\<close>

definition account_form :: "web_env \<Rightarrow> console_request \<Rightarrow> console_account_request" where
  "account_form W q =
     (let policyMode = wq_form q ''policyMode''; expiryStr = wq_form q ''expiry''
      in \<lparr>nq_accessKey = '''', nq_secretKey = '''', nq_parentUserUUID = wq_form q ''parentUserUUID'',
          nq_policyMode = policyMode,
          nq_embeddedPolicyJSON = (if policyMode = ''override'' then wq_form q ''embeddedPolicyJSON'' else ''''),
          nq_expiresAt = (if expiryStr \<noteq> '''' then we_parseDate W expiryStr else None)\<rparr>)"

definition web_ServiceAccountCreate ::
  "web_env \<Rightarrow> console_request \<Rightarrow> ('f) s3_service \<Rightarrow> console_response \<times> ('f) s3_service" where
  "web_ServiceAccountCreate W q s =
     (let (r, s) = console_CreateServiceAccount (we_console W) (account_form W q) s
      in (accounts_view W (case r of Inl _ \<Rightarrow> None | Inr sa \<Rightarrow> Some sa) (error_text W r) s, s))"

definition web_ServiceAccountDelete ::
  "web_env \<Rightarrow> console_request \<Rightarrow> ('f) s3_service \<Rightarrow> console_response \<times> ('f) s3_service" where
  "web_ServiceAccountDelete W q s =
     (let (_, s) = console_DeleteServiceAccount (we_console W) (wq_param q ''uuid'') s in (accounts_table W s, s))"

definition web_ServiceAccountSetStatus ::
  "web_env \<Rightarrow> console_request \<Rightarrow> ('f) s3_service \<Rightarrow> console_response \<times> ('f) s3_service" where
  "web_ServiceAccountSetStatus W q s =
     (let N = we_console W; uid = wq_param q ''uuid''
      in case console_GetServiceAccount N uid s of
           Inl e \<Rightarrow> (http_error (we_errorText W e) 404, s)
         | Inr sa \<Rightarrow>
             let (_, s) = console_SetServiceAccountStatus N uid (na_status sa \<noteq> ''on'') s in (accounts_table W s, s))"

definition web_ServiceAccountUpdateSecret ::
  "web_env \<Rightarrow> console_request \<Rightarrow> ('f) s3_service \<Rightarrow> console_response \<times> ('f) s3_service" where
  "web_ServiceAccountUpdateSecret W q s =
     (let (r, s) = console_UpdateServiceAccount (we_console W) (wq_param q ''uuid'')
            \<lparr>ne_secretKey = Some (wq_form q ''secretKey''), ne_embeddedPolicyJSON = None, ne_expiresAt = None\<rparr> s
      in (outcome_toast W ''Failed to rotate secret: '' ''Secret rotated successfully'' r (accounts_table W s), s))"

definition web_ServiceAccountRevealSecret :: "web_env \<Rightarrow> console_request \<Rightarrow> ('f) s3_service \<Rightarrow> console_response" where
  "web_ServiceAccountRevealSecret W q s = reveal W (console_GetServiceAccountSecret (we_console W) (wq_param q ''uuid'') s)"

section \<open>Simulator\<close>

definition web_Simulate ::
  "('f) fs_ops \<Rightarrow> web_env \<Rightarrow> console_request \<Rightarrow> ('f) s3_service \<Rightarrow> (console_response \<times> ('f) s3_service) option" where
  "web_Simulate F W q s =
     (let N = we_console W; L = golib.truncate (we_lib W);
          blank = \<lparr>sm_request = \<lparr>sq_accessKey = '''', sq_bucket = '''', sq_action = ''s3:GetObject'', sq_key = ''''\<rparr>,
                   sm_effective = None, sm_result = None, sm_error = ''''\<rparr>;
          req = \<lparr>sq_accessKey = wq_form q ''access_key'', sq_bucket = wq_form q ''bucket'',
                 sq_action = wq_form q ''action'', sq_key = wq_form q ''key''\<rparr>;
          d = blank\<lparr>sm_request := req\<rparr>
      in if wq_method q = ''GET'' then Some (show_page (SimulateView blank), s)
         else if wq_form q ''mode'' = ''effective'' then do {
           r \<leftarrow> console_GetEffectivePermissions L (we_unmarshal W) N (sq_accessKey req) (sq_bucket req) s;
           Some (show_page (SimulateView (case r of
                   Inl e \<Rightarrow> d\<lparr>sm_error := we_errorText W e\<rparr> | Inr ep \<Rightarrow> d\<lparr>sm_effective := Some ep\<rparr>)), s) }
         else do {
           (r, s) \<leftarrow> console_SimulateRequest F L (we_unmarshal W) N req s;
           Some (show_page (SimulateView (case r of
                   Inl e \<Rightarrow> d\<lparr>sm_error := we_errorText W e\<rparr> | Inr res \<Rightarrow> d\<lparr>sm_result := Some res\<rparr>)), s) })"

section \<open>Routes (console.go)\<close>

datatype console_operation =
    WebDashboard | WebUsers | WebUserCreate | WebUserDelete | WebUserSetStatus | WebUserUpdateSecret
  | WebUserRotateSecret | WebUserRevealSecret
  | WebGroups | WebGroupCreate | WebGroupDetail | WebGroupDelete | WebGroupAddMember | WebGroupRemoveMember
  | WebGroupAttachPolicy | WebGroupDetachPolicy | WebGroupSetStatus
  | WebServiceAccounts | WebServiceAccountCreate | WebServiceAccountDelete | WebServiceAccountSetStatus
  | WebServiceAccountUpdateSecret | WebServiceAccountRevealSecret
  | WebPolicies | WebBuckets | WebBucketCreate | WebBucketDelete | WebBucketDetail | WebBucketPolicySet
  | WebBucketTransferOwnership | WebSimulate | WebToasts

definition console_routes :: "(string \<times> string \<times> console_operation) list" where
  "console_routes =
     [(''GET'', ''/'', WebDashboard), (''GET'', ''/users'', WebUsers), (''POST'', ''/users'', WebUserCreate),
      (''POST'', ''/users/{uuid}/delete'', WebUserDelete), (''POST'', ''/users/{uuid}/status'', WebUserSetStatus),
      (''POST'', ''/users/{uuid}/secret'', WebUserUpdateSecret),
      (''POST'', ''/users/{uuid}/secret/rotate'', WebUserRotateSecret),
      (''GET'', ''/users/{uuid}/secret'', WebUserRevealSecret),
      (''GET'', ''/groups'', WebGroups), (''POST'', ''/groups'', WebGroupCreate),
      (''GET'', ''/groups/{group}'', WebGroupDetail), (''POST'', ''/groups/{group}/delete'', WebGroupDelete),
      (''POST'', ''/groups/{group}/members'', WebGroupAddMember),
      (''POST'', ''/groups/{group}/members/remove'', WebGroupRemoveMember),
      (''POST'', ''/groups/{group}/policies'', WebGroupAttachPolicy),
      (''POST'', ''/groups/{group}/policies/detach'', WebGroupDetachPolicy),
      (''POST'', ''/groups/{group}/status'', WebGroupSetStatus),
      (''GET'', ''/service-accounts'', WebServiceAccounts), (''POST'', ''/service-accounts'', WebServiceAccountCreate),
      (''POST'', ''/service-accounts/{uuid}/delete'', WebServiceAccountDelete),
      (''POST'', ''/service-accounts/{uuid}/status'', WebServiceAccountSetStatus),
      (''POST'', ''/service-accounts/{uuid}/secret'', WebServiceAccountUpdateSecret),
      (''GET'', ''/service-accounts/{uuid}/secret'', WebServiceAccountRevealSecret),
      (''GET'', ''/policies'', WebPolicies), (''GET'', ''/buckets'', WebBuckets), (''POST'', ''/buckets'', WebBucketCreate),
      (''POST'', ''/buckets/{bucket}/delete'', WebBucketDelete), (''GET'', ''/buckets/{bucket}'', WebBucketDetail),
      (''POST'', ''/buckets/{bucket}/policy'', WebBucketPolicySet),
      (''POST'', ''/buckets/{bucket}/ownership'', WebBucketTransferOwnership),
      (''GET'', ''/simulate'', WebSimulate), (''POST'', ''/simulate'', WebSimulate), (''GET'', ''/toasts'', WebToasts)]"

definition console_handle ::
  "('f) fs_ops \<Rightarrow> web_env \<Rightarrow> console_operation \<Rightarrow> console_request \<Rightarrow> ('f) s3_service
     \<Rightarrow> (console_response \<times> ('f) s3_service) option" where
  "console_handle F W oper q s =
     (case oper of
        WebDashboard \<Rightarrow> Some (web_Dashboard W s, s)
      | WebUsers \<Rightarrow> Some (web_Users W q s, s)
      | WebUserCreate \<Rightarrow> Some (web_UserCreate W q s)
      | WebUserDelete \<Rightarrow> Some (web_UserDelete W q s)
      | WebUserSetStatus \<Rightarrow> Some (web_UserSetStatus W q s)
      | WebUserUpdateSecret \<Rightarrow> Some (web_UserUpdateSecret W q s)
      | WebUserRotateSecret \<Rightarrow> Some (web_UserRotateSecret W q s)
      | WebUserRevealSecret \<Rightarrow> Some (web_UserRevealSecret W q s, s)
      | WebGroups \<Rightarrow> Some (web_Groups q s, s)
      | WebGroupCreate \<Rightarrow> Some (web_GroupCreate W q s)
      | WebGroupDetail \<Rightarrow> Some (web_GroupDetail W q s, s)
      | WebGroupDelete \<Rightarrow> Some (web_GroupDelete W q s)
      | WebGroupAddMember \<Rightarrow> Some (web_GroupAddMember W q s)
      | WebGroupRemoveMember \<Rightarrow> Some (web_GroupRemoveMember W q s)
      | WebGroupAttachPolicy \<Rightarrow> Some (web_GroupAttachPolicy W q s)
      | WebGroupDetachPolicy \<Rightarrow> Some (web_GroupDetachPolicy W q s)
      | WebGroupSetStatus \<Rightarrow> Some (web_GroupSetStatus W q s)
      | WebServiceAccounts \<Rightarrow> Some (web_ServiceAccounts W q s, s)
      | WebServiceAccountCreate \<Rightarrow> Some (web_ServiceAccountCreate W q s)
      | WebServiceAccountDelete \<Rightarrow> Some (web_ServiceAccountDelete W q s)
      | WebServiceAccountSetStatus \<Rightarrow> Some (web_ServiceAccountSetStatus W q s)
      | WebServiceAccountUpdateSecret \<Rightarrow> Some (web_ServiceAccountUpdateSecret W q s)
      | WebServiceAccountRevealSecret \<Rightarrow> Some (web_ServiceAccountRevealSecret W q s, s)
      | WebPolicies \<Rightarrow> Some (web_Policies W q s, s)
      | WebBuckets \<Rightarrow> Some (web_Buckets W q s, s)
      | WebBucketCreate \<Rightarrow> Some (web_BucketCreate F W q s)
      | WebBucketDelete \<Rightarrow> Some (web_BucketDelete F W q s)
      | WebBucketDetail \<Rightarrow> Some (web_BucketDetail F W q s, s)
      | WebBucketPolicySet \<Rightarrow> Some (web_BucketPolicySet F W q s)
      | WebBucketTransferOwnership \<Rightarrow> Some (web_BucketTransferOwnership F W q s)
      | WebSimulate \<Rightarrow> web_Simulate F W q s
      | WebToasts \<Rightarrow> Some (web_Toasts W q, s))"

definition RequireAdminSession ::
  "web_env \<Rightarrow> (console_request \<Rightarrow> ('f) s3_service \<Rightarrow> (console_response \<times> ('f) s3_service) option)
     \<Rightarrow> console_request \<Rightarrow> ('f) s3_service \<Rightarrow> (console_response \<times> ('f) s3_service) option" where
  "RequireAdminSession W nxt q s =
     (if session_validate W q = None then Some (redirect (LoginURL W), s) else nxt q s)"

datatype console_endpoint = LoginForm | Login | Logout | Protected console_operation

definition serve_console ::
  "('f) fs_ops \<Rightarrow> web_env \<Rightarrow> authenticator \<Rightarrow> console_endpoint \<Rightarrow> console_request \<Rightarrow> ('f) s3_service
     \<Rightarrow> (console_response \<times> ('f) s3_service) option" where
  "serve_console F W a ep q s =
     (case ep of
        LoginForm \<Rightarrow> Some (web_LoginPage W q, s)
      | Login \<Rightarrow> Some (web_LoginSubmit W a q s, s)
      | Logout \<Rightarrow> Some (web_Logout W, s)
      | Protected oper \<Rightarrow> RequireAdminSession W (console_handle F W oper) q s)"

end
