(* ===== verification/SystemProps.thy ===== *)
theory SystemProps
  imports AdminProps DirioApi ConsoleWeb
begin

text \<open>
  The server as a whole. Its state changes by operations of the S3 service and of the services for users, groups,
  policies and accounts. Every request, to whichever of the four interfaces, is a sequence of such operations, and
  what each side keeps well formed survives the operations of the other.
\<close>

section \<open>The two sides of the metadata\<close>

text \<open>Everything that is not about buckets and objects.\<close>

definition iam_part :: "meta_store \<Rightarrow> meta_store" where
  "iam_part st = st\<lparr>ms_buckets := [], ms_objects := [], ms_objMetaCache := []\<rparr>"

interpretation iam_frame: object_frame iam_part
  by unfold_locales (simp_all add: iam_part_def PutObjectMetadata_def DeleteObjectMetadata_def)

lemma iam_part_ok: "iam_ok C (iam_part st) = iam_ok C st"
  by (simp add: iam_part_def iam_ok_def users_ok_def groups_ok_def members_ok_def policies_ok_def accounts_ok_def
      user_inv_def index_exact_def group_inv_def GetGroupNamesForUser_def)

lemma bucket_metadata_iam [simp]: "iam_part (saveBucketMetadata b m st) = iam_part st"
  by (simp add: iam_part_def saveBucketMetadata_def)

lemma change_policy_iam:
  assumes "change_policy F b store notify s = (r, s')" "\<And>st e st'. store st = (e, st') \<Longrightarrow> iam_part st' = iam_part st"
  shows "iam_part (sv_meta s') = iam_part (sv_meta s)"
  using assms by (auto simp: change_policy_def split: sum.splits bool.splits prod.splits option.splits)

lemmas keep_iam = iam_frame.S3PutObject_same iam_frame.S3GetObject_same iam_frame.HeadObject_same
  iam_frame.S3DeleteObject_same iam_frame.GetObjectOwner_same iam_frame.S3CopyObject_same
  iam_frame.GetObjectWithRange_same iam_frame.DeleteObjects_same iam_frame.PutObjectTagging_same
  iam_frame.GetObjectTagging_same

lemmas keep_iam_storage = iam_frame.CreateMultipartUpload_keeps iam_frame.UploadPart_keeps
  iam_frame.CompleteMultipartUpload_keeps iam_frame.AbortMultipartUpload_keeps iam_frame.ListParts_keeps

text \<open>The operations of the S3 service do not touch users, groups, policies and accounts.\<close>

lemma s3_step_iam: "s3_step F md5 U s s' \<Longrightarrow> iam_part (sv_meta s') = iam_part (sv_meta s)"
proof (cases rule: s3_step.cases, assumption, goal_cases)
  case (1 now user nm policy rc)
  then show ?case
    by (auto simp: S3CreateBucket_def on_storage_unit_def CreateBucket_def MetaCreateBucket_def
        split: option.splits sum.splits bool.splits prod.splits if_splits)
next
  case (2 b rd)
  then show ?case
    by (auto simp: S3DeleteBucket_def on_storage_unit_def DeleteBucket_def MetaDeleteBucket_def iam_part_def
        split: option.splits sum.splits prod.splits if_splits fs_error.splits)
next
  case (3 b ow ro)
  then show ?case
    by (auto simp: S3SetBucketOwner_def SetBucketOwner_def split: prod.splits option.splits sum.splits)
next
  case (14 now b doc rq)
  from 14(2)[unfolded PutBucketPolicy_def] show ?case
    by (rule change_policy_iam) (auto simp: MetaSetBucketPolicy_def split: sum.splits)
next
  case (15 b rz)
  from 15(2)[unfolded DeleteBucketPolicy_def] show ?case
    by (rule change_policy_iam) (auto simp: MetaDeleteBucketPolicy_def split: sum.splits)
next
  case 21
  then show ?case by (simp add: evict_object_metadata_def iam_part_def)
qed (auto simp: same_part_def dest: keep_iam keep_iam_storage)

text \<open>The other services do not touch the metadata of the buckets.\<close>

named_theorems bucket_keeps \<open>operations that leave the metadata of the buckets alone\<close>

lemma save_user_buckets [bucket_keeps]: "save_user C now fresh user st = (r, st') \<Longrightarrow> ms_buckets st' = ms_buckets st"
  by (auto simp: save_user_def CreateOrUpdateUser_def index_user_def SaveUser_def Let_def
      split: prod.splits option.splits sum.splits if_splits)

lemma RemoveUserFromGroup_buckets [bucket_keeps]:
  "RemoveUserFromGroup now g uid st = (r, st') \<Longrightarrow> ms_buckets st' = ms_buckets st"
  by (auto simp: RemoveUserFromGroup_def SaveGroup_def Let_def split: sum.splits)

lemma group_writes_buckets [bucket_keeps]:
  "MetaCreateGroup now g st = (r, st') \<Longrightarrow> ms_buckets st' = ms_buckets st"
  "AddUserToGroup now g uid st = (r, st') \<Longrightarrow> ms_buckets st' = ms_buckets st"
  "AttachPolicyToGroup now g p st = (r, st') \<Longrightarrow> ms_buckets st' = ms_buckets st"
  "DetachPolicyFromGroup now g p st = (r, st') \<Longrightarrow> ms_buckets st' = ms_buckets st"
  "SetGroupStatus now g x st = (r, st') \<Longrightarrow> ms_buckets st' = ms_buckets st"
  by (auto simp: MetaCreateGroup_def AddUserToGroup_def AttachPolicyToGroup_def DetachPolicyFromGroup_def
      SetGroupStatus_def SaveGroup_def Let_def split: sum.splits if_splits)

lemma leave_groups_buckets [simp]: "ms_buckets (leave_groups now uid gs st) = ms_buckets st"
proof (induction gs arbitrary: st)
  case (Cons g gs)
  have "ms_buckets (snd (RemoveUserFromGroup now g uid st)) = ms_buckets st"
    by (rule RemoveUserFromGroup_buckets[OF prod.collapse[symmetric]])
  with Cons show ?case by (simp add: leave_groups_def)
qed (simp add: leave_groups_def)

lemma meta_deletes_buckets [simp]:
  "ms_buckets (MetaDeleteUser C uid st) = ms_buckets st" "ms_buckets (MetaDeleteGroup g st) = ms_buckets st"
  "ms_buckets (MetaDeletePolicy p st) = ms_buckets st" "ms_buckets (SavePolicy pol st) = ms_buckets st"
  "ms_buckets (MetaDeleteServiceAccount k st) = ms_buckets st" "ms_buckets (SaveServiceAccount C sa st) = ms_buckets st"
  by (simp_all add: MetaDeleteUser_def MetaDeleteGroup_def MetaDeletePolicy_def SavePolicy_def
      MetaDeleteServiceAccount_def SaveServiceAccount_def Let_def split: sum.split)

lemma with_group_buckets:
  assumes "with_group g act st = (e, st')" "\<And>e st'. act st = (e, st') \<Longrightarrow> ms_buckets st' = ms_buckets st"
  shows "ms_buckets st' = ms_buckets st"
  using assms by (auto simp: with_group_def split: option.splits sum.splits)

lemma AddMember_buckets [bucket_keeps]: "AddMember C now g uid st = (e, st') \<Longrightarrow> ms_buckets st' = ms_buckets st"
  unfolding AddMember_def
  by (erule with_group_buckets) (auto simp: map_prod_def split: sum.splits prod.splits dest: bucket_keeps)

lemma RemoveMember_buckets [bucket_keeps]: "RemoveMember now g uid st = (e, st') \<Longrightarrow> ms_buckets st' = ms_buckets st"
  unfolding RemoveMember_def
  by (erule with_group_buckets) (auto simp: map_prod_def split: prod.splits dest: bucket_keeps)

lemma group_operations_buckets [bucket_keeps]:
  "GroupAttachPolicy now g p st = (e, st') \<Longrightarrow> ms_buckets st' = ms_buckets st"
  "GroupDetachPolicy now g p st = (e, st') \<Longrightarrow> ms_buckets st' = ms_buckets st"
  "GroupSetStatus now g x st = (e, st') \<Longrightarrow> ms_buckets st' = ms_buckets st"
  by (auto simp: GroupAttachPolicy_def GroupDetachPolicy_def GroupSetStatus_def map_prod_def
      split: option.splits sum.splits prod.splits dest: bucket_keeps elim!: with_group_buckets)

lemma account_operations_buckets [bucket_keeps]:
  "SACreate C rand now fresh req st = (rs, st') \<Longrightarrow> ms_buckets st' = ms_buckets st"
  "SAUpdate C now k ureq st = (rs, st') \<Longrightarrow> ms_buckets st' = ms_buckets st"
  by (auto simp: SACreate_def SAUpdate_def MetaCreateServiceAccount_def Let_def
      split: option.splits sum.splits prod.splits if_splits)

lemma service_step_buckets: "service_step C st st' \<Longrightarrow> ms_buckets st' = ms_buckets st"
  by (cases rule: service_step.cases, assumption)
    (auto simp: UserCreate_def UserUpdate_def UserDelete_def UserAttachPolicy_def UserDetachPolicy_def
      GroupCreate_def GroupDelete_def AddMemberByAccessKey_def RemoveMemberByAccessKey_def PolicyCreate_def
      PolicyUpdate_def PolicyDelete_def SASetStatus_def SADelete_def Let_def
      split: option.splits sum.splits prod.splits if_splits dest: bucket_keeps)

section \<open>Restarts\<close>

text \<open>Two stores that hold the same users and agree on what their indexes say.\<close>

definition same_index :: "meta_store \<Rightarrow> meta_store \<Rightarrow> bool" where
  "same_index st st' \<longleftrightarrow>
     ms_users st' = ms_users st \<and> map_of (ms_byUsername st') = map_of (ms_byUsername st) \<and>
     map_of (ms_byAccessKey st') = map_of (ms_byAccessKey st) \<and> ms_groups st' = ms_groups st \<and>
     ms_policies st' = ms_policies st \<and> ms_serviceAccounts st' = ms_serviceAccounts st \<and>
     ms_groupsByUser st' = ms_groupsByUser st"

lemma same_index_ok: "same_index st st' \<Longrightarrow> iam_ok C st \<Longrightarrow> iam_ok C st'"
  by (simp add: same_index_def iam_ok_def users_ok_def groups_ok_def members_ok_def policies_ok_def accounts_ok_def
      user_inv_def index_exact_def group_inv_def GetGroupNamesForUser_def)

lemma reindex_user_same:
  assumes "user_inv st"
  shows "same_index st (reindex_user C uid st)"
proof (cases "GetUser C st uid")
  case (Inr user)
  then obtain u where "map_of (ms_users st) uid = Some u" "u_username user = u_username u" "u_accessKey user = u_accessKey u"
    by (auto simp: GetUser_def split: option.splits sum.splits)
  with user_invD[OF assms] Inr show ?thesis by (auto simp: same_index_def reindex_user_def fun_upd_idem)
qed (simp add: same_index_def reindex_user_def)

lemma reindex_users_same: "user_inv st \<Longrightarrow> same_index st (fold (reindex_user C) uids st)"
proof (induction uids arbitrary: st)
  case (Cons uid uids)
  from reindex_user_same[OF Cons.prems] have s: "same_index st (reindex_user C uid st)" .
  with Cons.prems have "user_inv (reindex_user C uid st)" by (simp add: same_index_def user_inv_def)
  from Cons.IH[OF this] s show ?case by (simp add: same_index_def)
qed (simp add: same_index_def)

text \<open>In a well-formed store nothing is stale.\<close>

lemma map_of_drop_stale:
  assumes "\<And>k uid. map_of b k = Some uid \<Longrightarrow> uid \<in> set known"
  shows "map_of (drop_stale known b) = map_of b"
proof
  fix k
  have "map_of b k = Some uid \<Longrightarrow> uid \<in> set known \<Longrightarrow> map_of (drop_stale known b) k = Some uid" for uid
    by (induction b) (auto simp: drop_stale_def split: if_splits)
  moreover have "map_of b k = None \<Longrightarrow> map_of (drop_stale known b) k = None"
    by (auto simp: drop_stale_def map_of_eq_None_iff)
  ultimately show "map_of (drop_stale known b) k = map_of b k"
    using assms by (cases "map_of b k") auto
qed

lemma fold_insert_set: "set (fold List.insert xs ys) = set xs \<union> set ys"
  by (induction xs arbitrary: ys) auto

lemma reconcile_ok:
  assumes ok: "iam_ok C st" and known: "set (ms_usersIdx st) = dom (map_of (ms_users st))"
  shows "iam_ok C (reconcileIndexes C st)"
proof -
  define st1 where "st1 = st\<lparr>ms_byUsername := drop_stale (ms_usersIdx st) (ms_byUsername st),
    ms_byAccessKey := drop_stale (ms_usersIdx st) (ms_byAccessKey st)\<rparr>"
  define st2 where "st2 = fold (reindex_user C) (ms_usersIdx st) st1"
  from ok have exact: "index_exact st" and inv: "user_inv st" and grp: "group_inv st"
    by (auto simp: iam_ok_def users_ok_def groups_ok_def)
  have "same_index st st1"
    using map_of_drop_stale[of "ms_byUsername st" "ms_usersIdx st"] map_of_drop_stale[of "ms_byAccessKey st" "ms_usersIdx st"]
      exact unfolding known by (fastforce simp: st1_def same_index_def index_exact_def)
  moreover from this inv have "user_inv st1" by (simp add: same_index_def user_inv_def)
  then have "same_index st1 st2" unfolding st2_def by (rule reindex_users_same)
  ultimately have s: "same_index st st2" by (simp add: same_index_def)
  have r: "reconcileIndexes C st = st2\<lparr>ms_groupsByUser := user_groups (GetGroups st2)\<rparr>"
    by (simp add: reconcileIndexes_def st1_def st2_def Let_def)
  have "group_inv (reconcileIndexes C st)"
    using grp reconcile_group_index[of _ C st] s unfolding group_inv_def by (simp add: r same_index_def)
  moreover have "\<forall>nm g. map_of (ms_groups st) nm = Some g \<longrightarrow> group_status_validate (g_status g) = None"
    using ok by (simp add: iam_ok_def groups_ok_def)
  ultimately have "groups_ok (reconcileIndexes C st)" using s by (simp add: groups_ok_def r same_index_def)
  with same_index_ok[OF s ok] show ?thesis by (simp add: iam_ok_def r)
qed

lemma seed_builtin_ok: "iam_ok C st \<Longrightarrow> nm \<in> set BuiltinPolicyNames \<Longrightarrow> iam_ok C (seed_builtin now nm st)"
  using builtin_valid[of nm]
  by (auto simp: seed_builtin_def iam_ok_def policies_ok_def SavePolicy_def GetPolicy_def split: option.splits sum.splits)

lemma seed_ok: "iam_ok C st \<Longrightarrow> iam_ok C (seedBuiltinPolicies now st)"
proof -
  have "set nms \<subseteq> set BuiltinPolicyNames \<Longrightarrow> iam_ok C st \<Longrightarrow> iam_ok C (fold (seed_builtin now) nms st)" for nms
    by (induction nms arbitrary: st) (auto intro: seed_builtin_ok)
  then show "iam_ok C st \<Longrightarrow> iam_ok C (seedBuiltinPolicies now st)" unfolding seedBuiltinPolicies_def by blast
qed

lemma open_store_ok:
  assumes "iam_ok C st"
  shows "iam_ok C (open_store C now st)"
  unfolding open_store_def
proof (rule seed_ok, rule reconcile_ok)
  let ?st = "st\<lparr>ms_usersIdx := [], ms_objMetaCache := []\<rparr>"
  show "iam_ok C (buildUsersIndex ?st)"
    by (rule same_index_ok[OF _ assms]) (simp add: same_index_def buildUsersIndex_def)
  show "set (ms_usersIdx (buildUsersIndex ?st)) = dom (map_of (ms_users (buildUsersIndex ?st)))"
    by (simp add: buildUsersIndex_def fold_insert_set ListUsers_def dom_map_of_conv_image_fst)
qed

section \<open>What can happen to the server\<close>

inductive system_step ::
  "('f) fs_ops \<Rightarrow> (string \<Rightarrow> string) \<Rightarrow> unicode_tables \<Rightarrow> crypt_env \<Rightarrow> ('f) s3_service \<Rightarrow> ('f) s3_service \<Rightarrow> bool"
  for F md5 U C where
  s3_side: "s3_step F md5 U s s' \<Longrightarrow> system_step F md5 U C s s'"
| service_side: "service_step C (sv_meta s) m \<Longrightarrow> system_step F md5 U C s (with_meta m s)"
| restart: "system_step F md5 U C s (start_service F (sg_fs (sv_storage s)) (open_store C now (sv_meta s)) rv)"

lemma system_step_ok:
  assumes "system_step F md5 U C s s'" "crypt_ok C" "iam_ok C (sv_meta s)" "policies_enforced s"
  shows "iam_ok C (sv_meta s') \<and> policies_enforced s'"
  using assms(1)
proof cases
  case s3_side
  from s3_step_iam[OF s3_side] have "iam_ok C (sv_meta s') = iam_ok C (sv_meta s)" by (metis iam_part_ok)
  with assms step_enforced[OF s3_side] show ?thesis by simp
next
  case (service_side m)
  have "same_policies s s'" using service_step_buckets[OF service_side(2)] service_side(1) by (simp add: same_policies_def)
  with same_policies_enforced assms(4) service_step_ok[OF service_side(2) assms(3,2)] service_side(1) show ?thesis by auto
next
  case (restart now rv)
  then show ?thesis using open_store_ok[OF assms(3)] start_enforced by (auto simp: start_service_def NewStorage_def)
qed

end
