(* ===== verification/ConsoleProps.thy ===== *)
theory ConsoleProps
  imports AdminProps HttpProps RangeProps ConsoleWeb DirioApi ChunkedProps
begin

text \<open>
  Properties of the web console of theory ConsoleWeb: sessions, what can be had without one, and who can become an
  administrator.
\<close>

section \<open>Sessions\<close>

lemma hex_encode_Nil [simp]: "hex_encode [] = []"
  by (simp add: hex_encode_def bytes_def)

lemma hex_encode_Cons:
  "hex_encode (c # s) = hex_digit (of_char c div 16) # hex_digit (of_char c mod 16) # hex_encode s"
  by (simp add: hex_encode_def bytes_def)

lemma nibble: "(of_char c :: nat) div 16 < 16"
  using of_char_less[of c] by (simp add: less_mult_imp_div_less)

lemma hex_decode_encode [simp]: "hex_decode (hex_encode s) = Some s"
proof (induction s)
  case (Cons c s)
  then show ?case using nibble[of c] by (simp add: hex_encode_Cons hex_digit_facts)
qed simp

lemma no_dot: "CHR ''.'' \<notin> set (hex_encode s)"
proof -
  have "hex_digit d \<noteq> CHR ''.''" if "d < 16" for d
    using hex_digit_facts(1)[OF that] by (auto simp: hex_val_def)
  then have "CHR ''.'' \<noteq> hex_digit (of_char c div 16)" "CHR ''.'' \<noteq> hex_digit (of_char c mod 16)" for c :: char
    using nibble[of c] by (metis, metis mod_less_divisor zero_less_numeral)
  then show ?thesis by (induction s) (auto simp: hex_encode_Cons)
qed

lemma last_index_separator: "c \<notin> set t \<Longrightarrow> last_index_char (s @ c # t) c = Some (length s)"
proof -
  assume "c \<notin> set t"
  then have "index_char (rev t @ c # r) c = Some (length t)" for r
  proof (induction t rule: rev_induct)
    case (snoc x t)
    then show ?case by auto
  qed simp
  then show ?thesis by (simp add: last_index_char_def)
qed

lemma read_signed_value [simp]: "read_signed W (signed_value W' raw) =
    (if session_sign W (hex_encode raw) = session_sign W' (hex_encode raw) then Some raw else None)"
proof -
  have "CHR ''.'' \<notin> set (session_sign W' (hex_encode raw))" unfolding session_sign_def by (rule no_dot)
  then show ?thesis
    using last_index_separator[of "CHR ''.''" "session_sign W' (hex_encode raw)" "hex_encode raw"]
    by (simp add: read_signed_def signed_value_def Let_def)
qed

text \<open>What is read was signed with the key of the server.\<close>

lemma read_signed_Some:
  assumes "read_signed W v = Some raw"
  obtains encoded where "v = encoded @ ''.'' @ session_sign W encoded" "hex_decode encoded = Some raw"
proof -
  from assms obtain i where i: "last_index_char v CHR ''.'' = Some i" "session_sign W (take i v) = drop (i + 1) v"
    "hex_decode (take i v) = Some raw"
    by (auto simp: read_signed_def split: option.splits if_splits)
  have "index_char (rev v) CHR ''.'' = Some j \<Longrightarrow> j < length v \<and> rev v ! j = CHR ''.''" for j
  proof -
    have "index_char xs c = Some j \<Longrightarrow> j < length xs \<and> xs ! j = c" for xs c
      by (induction xs arbitrary: j) (auto split: if_splits)
    from this[of "rev v"] show "index_char (rev v) CHR ''.'' = Some j \<Longrightarrow> ?thesis" by simp
  qed
  with i(1) have "i < length v" "v ! i = CHR ''.''"
    by (auto simp: last_index_char_def rev_nth)
  then have "v = take i v @ ''.'' @ drop (i + 1) v" using id_take_nth_drop[of i v] by simp
  with i(2,3) show thesis by (intro that[of "take i v"]) simp_all
qed


definition login_page :: "console_page \<Rightarrow> bool" where
  "login_page p \<longleftrightarrow> (case p of LoginView _ \<Rightarrow> True | PlainText t \<Rightarrow> t = ''Session error'' | NoPage \<Rightarrow> True | _ \<Rightarrow> False)"

lemma login_pages:
  "login_page (ws_page (web_LoginPage W q))" "login_page (ws_page (web_LoginSubmit W a q s))"
  "login_page (ws_page (web_Logout W))" "login_page (ws_page (redirect url))"
  by (simp_all add: login_page_def web_LoginPage_def web_LoginSubmit_def web_Logout_def show_page_def redirect_def
      http_error_def Let_def split: option.split)


section \<open>Becoming an administrator\<close>

lemma created_user:
  assumes ok: "users_ok C st" and C: "crypt_ok C" "length n = 12" and free: "map_of (ms_byAccessKey st) k = None"
    and valid: "ValidateAccessKey k = None" "ValidateSecretKey sk = None" and uid: "fresh \<noteq> uuid_nil"
  obtains u w st' where "UserCreate (with_nonce n C) now fresh \<lparr>cu_accessKey = k, cu_secretKey = sk, cu_status = UserStatusActive\<rparr> st = (Inr u, st')"
    "GetUserByAccessKey C st' k = Inr w" "u_secretKey w = sk" "user_status_is_active (u_status w)"
proof -
  have name: "map_of (ms_byUsername st) k = None"
  proof (cases "map_of (ms_byUsername st) k")
    case (Some uid)
    with ok obtain u where "map_of (ms_users st) uid = Some u" "u_username u = k"
      unfolding users_ok_def index_exact_def by blast
    with ok have "map_of (ms_byAccessKey st) k \<noteq> None"
      unfolding users_ok_def user_inv_def user_ok_def by (metis option.distinct(1))
    with free show ?thesis by simp
  qed simp
  have ne: "k \<noteq> ''''" using valid(1) by (auto simp: ValidateAccessKey_def)
  let ?u = "\<lparr>u_version = UserMetadataVersion, u_uuid = fresh, u_username = k, u_accessKey = k, u_secretKey = sk,
    u_status = UserStatusActive, u_updatedAt = now, u_attachedPolicies = []\<rparr>"
  obtain st' where c: "UserCreate (with_nonce n C) now fresh \<lparr>cu_accessKey = k, cu_secretKey = sk, cu_status = UserStatusActive\<rparr> st = (Inr ?u, st')"
    and st': "map_of (ms_byAccessKey st') k = Some fresh"
      "map_of (ms_users st') fresh = Some (?u\<lparr>u_secretKey := encrypt_default (with_nonce n C) sk\<rparr>)"
    using free name valid ne uid
    by (simp add: UserCreate_def ValidateStatus_def user_status_validate_def UserStatusActive_def GetUserByAccessKey_def
        save_user_def CreateOrUpdateUser_def ensure_uuid_def index_user_def Let_def SaveUser_def)
  have g: "GetUserByAccessKey C st' k = Inr ?u"
    using st' nonce_roundtrip[OF C] by (simp add: GetUserByAccessKey_def GetUser_def)
  show thesis by (rule that[OF c g]) (simp_all add: user_status_is_active_def UserStatusActive_def)
qed

text \<open>C5. Every user of the server can become an administrator of the console. A user who creates, through the admin
  API, a user with the access key of the root account and a secret of its own choice, is answered with 200, and from
  then on the console accepts the root's access key with that secret as the credentials of the administrator.\<close>

theorem console_takeover:
  assumes "authenticate E a q s = Authenticated u sa pol" "sv_engine s = Some e"
    and "iam_ok C (sv_meta s)" "crypt_ok C" "admin_fresh C A (sv_meta s)" "ad_fresh A \<noteq> uuid_nil"
    and "\<not> needsDecoding q" "snd (q_body q) = False" "param A q ''accessKey'' = au_rootAccessKey a"
    and "decryptAndUnmarshal A (u_secretKey u) (q_body q) (ad_mapJson A) = Some body"
    and "map_of body ''secretKey'' = Some sk" "map_of body ''status'' = Some ''enabled''"
    and "ValidateAccessKey (au_rootAccessKey a) = None" "ValidateSecretKey sk = None"
    and "map_of (ms_byAccessKey (sv_meta s)) (au_rootAccessKey a) = None"
  shows "\<exists>s'. serve_admin E a A AdminAddUser q s = Some (Inr (admin_status 200), s') \<and>
    AuthenticateAdmin C (sv_meta s') a now (au_rootAccessKey a) sk"
proof -
  obtain n where n: "ad_crypt A = with_nonce n C" "length n = 12" using assms(5) by (auto simp: admin_fresh_def)
  from assms(3) have ok: "users_ok C (sv_meta s)" by (simp add: iam_ok_def)
  obtain v w st' where c: "UserCreate (ad_crypt A) (ad_now A) (ad_fresh A)
      \<lparr>cu_accessKey = au_rootAccessKey a, cu_secretKey = sk, cu_status = UserStatusActive\<rparr> (sv_meta s) = (Inr v, st')"
    "GetUserByAccessKey C st' (au_rootAccessKey a) = Inr w" "u_secretKey w = sk" "user_status_is_active (u_status w)"
    unfolding n(1) by (rule created_user[OF ok assms(4) n(2) assms(15,13,14,6)])
  have ne: "au_rootAccessKey a \<noteq> ''''" using assms(13) by (auto simp: ValidateAccessKey_def)
  have "admin_handle A AdminAddUser (Some u) q (sv_meta s) = (admin_status 200, st')"
    using assms(8-12) c(1) ne by (simp add: admin_handle_def admin_CreateUser_def Let_def)
  moreover have "ChunkedEncoding E q = Some q" using assms(7) by (simp add: ChunkedEncoding_def)
  ultimately have "serve_admin E a A AdminAddUser q s = Some (Inr (admin_status 200), with_meta st' s)"
    using serve_admin_passes[of E a q s, OF _ assms(2)] assms(1) by (simp add: admin_reads_body_def)
  moreover have "AuthenticateAdmin C st' a now (au_rootAccessKey a) sk"
    using c(2-4) by (simp add: AuthenticateAdmin_def ValidateCredentials_def GetUserForAccessKey_def RootUser_def AltRootUser_def root_user_def)
  ultimately show ?thesis by (intro exI[of _ "with_meta st' s"]) simp
qed

section \<open>Owners\<close>

lemma owner_reads_keep_buckets:
  "console_GetObjectOwner F N b k s = (r, s') \<Longrightarrow> ms_buckets (sv_meta s') = ms_buckets (sv_meta s)"
  "console_SimulateRequest F L unm N rq s = Some (r', s') \<Longrightarrow> ms_buckets (sv_meta s') = ms_buckets (sv_meta s)"
  by (auto simp: console_GetObjectOwner_def from_s3_def console_SimulateRequest_def Simulate_def same_part_def Let_def
      split: sum.splits prod.splits if_splits Option.bind_splits
      dest!: buckets_frame.GetObjectOwner_same buckets_frame.GetObjectOwnerUUID_same)

lemma transfer_owner:
  assumes "console_TransferBucketOwnership N b k s = (r, s')" "k \<noteq> ''''"
    and "ms_buckets (sv_meta s') \<noteq> ms_buckets (sv_meta s)"
  shows "\<exists>w. UserGetByAccessKey (co_crypt N) (sv_meta s) k = Inr w \<and>
    map_option bm_owner (map_of (ms_buckets (sv_meta s')) b) = Some (Some (u_uuid w)) \<and>
    (\<forall>b'. b' \<noteq> b \<longrightarrow> map_of (ms_buckets (sv_meta s')) b' = map_of (ms_buckets (sv_meta s)) b')"
  using assms
  by (auto simp: console_TransferBucketOwnership_def with_user_def from_s3_unit_def S3SetBucketOwner_def
      SetBucketOwner_def saveBucketMetadata_def split: sum.splits prod.splits option.splits)

text \<open>C8. Through the API of DirIO the metadata of the buckets changes only by a transfer of ownership that the root
  account asked for: the named bucket then belongs to the user whose access key the body names, and no other bucket
  is touched.\<close>

theorem owners_move_by_transfer:
  assumes "serve_dirio F E a D oper q s = Some (resp, s')" "ms_buckets (sv_meta s') \<noteq> ms_buckets (sv_meta s)"
  shows "\<exists>b u k w. oper = DirioTransferBucketOwner b \<and> cx_user (context_of (authenticate E a q s)) = Some u \<and>
    u_accessKey u \<in> {au_rootAccessKey a, au_altRootAccessKey a} \<and> de_ownerJson D (fst (q_body q)) = Some k \<and>
    UserGetByAccessKey (co_crypt (de_console D)) (sv_meta s) k = Inr w \<and>
    map_option bm_owner (map_of (ms_buckets (sv_meta s')) b) = Some (Some (u_uuid w)) \<and>
    (\<forall>b'. b' \<noteq> b \<longrightarrow> map_of (ms_buckets (sv_meta s')) b' = map_of (ms_buckets (sv_meta s)) b')"
proof -
  let ?cx = "context_of (authenticate E a q s)"
  obtain r where h: "dirio_handle F D (Some (root_keys a)) oper ?cx (q_body q) s = Some (r, s')"
    using assms by (cases "authenticate E a q s") (auto simp: serve_dirio_def Let_def)
  with assms(2) have user: "\<not> cx_anonymous ?cx" by (auto simp: dirio_handle_def)
  then obtain u where u: "cx_user ?cx = Some u" by (cases "authenticate E a q s") auto
  show ?thesis
  proof (cases oper)
    case (DirioTransferBucketOwner b)
    with h user have t: "HandleTransferBucketOwner D (Some (root_keys a)) ?cx (q_body q) b s = (r, s')"
      by (simp add: dirio_handle_def)
    with assms(2) obtain k r' where k: "dirio_isAdmin (Some (root_keys a)) (callerAccessKey ?cx)"
      "de_ownerJson D (fst (q_body q)) = Some k" "k \<noteq> ''''"
      "console_TransferBucketOwnership (de_console D) b k s = (r', s')"
      by (auto simp: HandleTransferBucketOwner_def split: if_splits option.splits sum.splits prod.splits)
    from k(1) u have "u_accessKey u \<in> {au_rootAccessKey a, au_altRootAccessKey a}"
      by (auto simp: dirio_isAdmin_def callerAccessKey_def root_keys_def)
    with transfer_owner[OF k(4,3) assms(2)] k(2) u DirioTransferBucketOwner show ?thesis by blast
  qed (use h user assms(2) in \<open>auto dest: owner_reads_keep_buckets simp: dirio_handle_def HandleGetObjectOwner_def
      HandleSimulate_def split: prod.splits option.splits if_splits Option.bind_splits\<close>)
qed

section \<open>Witnesses\<close>

definition ex_console :: console_env where
  "ex_console =
     \<lparr>co_crypt = with_nonce ex_nonce ex_crypt, co_put = ex_env, co_now = 7, co_fresh = 8, co_rand = ex_rand,
      co_auth = Some ex_authenticator, co_parseUUID = (\<lambda>_. None), co_policyJson = (\<lambda>_. None),
      co_marshal = (\<lambda>_. Some ''doc''), co_marshalIndent = (\<lambda>_. Some ''doc''), co_urlHost = (\<lambda>_. Some ''h''),
      co_escapePath = (\<lambda>p. p)\<rparr>"

text \<open>The payload of a session as the time, a comma and the key.\<close>

definition ex_marshal :: "session_payload \<Rightarrow> string option" where
  "ex_marshal p =
     (if 0 \<le> sp_expiresAt p \<and> sp_expiresAt p < 2 ^ 63
      then Some (show_nat (nat (sp_expiresAt p)) @ '','' @ sp_accessKey p) else None)"

definition ex_unmarshal_session :: "string \<Rightarrow> session_payload option" where
  "ex_unmarshal_session raw =
     (let digits = takeWhile (\<lambda>c. c \<noteq> CHR '','') raw
      in map_option (\<lambda>t. \<lparr>sp_accessKey = drop (length digits + 1) raw, sp_expiresAt = t\<rparr>) (parse_int64 digits))"

definition ex_web :: web_env where
  "ex_web =
     \<lparr>we_signingKey = ''secret'', we_lib = ex_sig, we_marshalSession = ex_marshal,
      we_unmarshalSession = ex_unmarshal_session, we_marshalFlash = fd_message, we_unmarshalFlash = (\<lambda>_. None),
      we_unixNow = 1000, we_basePath = '''', we_errorText = (\<lambda>_. ''e''), we_parseDate = (\<lambda>_. None),
      we_parseDuration = (\<lambda>_. None), we_unicode = ex_unicode, we_unmarshal = ex_unmarshal, we_console = ex_console\<rparr>"

definition ex_cookie :: string where
  "ex_cookie = signed_value ex_web ''29800,AK''"

definition ex_form :: console_request where
  "ex_form =
     \<lparr>wq_method = ''POST'', wq_cookie = (\<lambda>n. if n = cookieName then Some ex_cookie else None),
      wq_form = (\<lambda>k. if k = ''name'' then ''ops'' else ''''), wq_formValues = (\<lambda>_. []),
      wq_query = (\<lambda>_. ''''), wq_param = (\<lambda>_. ''''), wq_hxRequest = '''', wq_host = ''h'', wq_tls = False\<rparr>"

lemma ex_session_created: "session_create ex_web ''AK'' = Some (SetCookie cookieName ex_cookie)"
proof -
  have t: "show_nat 29800 = ''29800''" by (simp add: show_nat.simps) code_simp
  have "ex_marshal \<lparr>sp_accessKey = ''AK'', sp_expiresAt = 29800\<rparr> = Some ''29800,AK''"
    by (simp add: ex_marshal_def t del: show_nat.simps)
  then show ?thesis by (simp add: session_create_def sessionDuration_def ex_cookie_def) (simp add: ex_web_def)
qed


lemma ex_session_valid: "session_validate ex_web ex_form = Some ''AK''"
proof -
  have "ex_unmarshal_session ''29800,AK'' = Some \<lparr>sp_accessKey = ''AK'', sp_expiresAt = 29800\<rparr>" by code_simp
  then show ?thesis by (simp add: session_validate_def ex_form_def ex_cookie_def) (simp add: ex_web_def)
qed

lemma created_user_rest:
  assumes "UserCreate C now fresh req st = (r, st')"
  shows "ms_groups st' = ms_groups st" "ms_serviceAccounts st' = ms_serviceAccounts st"
  using assms
  by (auto simp: UserCreate_def save_user_def CreateOrUpdateUser_def index_user_def SaveUser_def Let_def
      split: option.splits sum.splits if_splits)

lemma ex_members_rest: "ms_groups ex_members = []" "ms_serviceAccounts ex_members = []"
proof -
  have "ms_groups ex_fresh = []" "ms_serviceAccounts ex_fresh = []"
    unfolding ex_fresh_def fresh_store by (simp_all add: empty_store_def)
  then show "ms_groups ex_members = []" "ms_serviceAccounts ex_members = []"
    using created_user_rest[OF conjunct1[OF ex_member_created]] by simp_all
qed

text \<open>Over the console a group is created.\<close>

lemma ex_group_created:
  assumes "map_of (ms_groups (sv_meta s)) ''ops'' = None"
  obtains resp m where "serve_console mem_ops ex_web a (Protected WebGroupCreate) ex_form s = Some (resp, with_meta m s)"
    "map_of (ms_groups m) ''ops'' \<noteq> None"
proof -
  obtain g m where g: "GroupCreate 7 ''ops'' (sv_meta s) = (Inr g, m)" "map_of (ms_groups m) ''ops'' \<noteq> None"
    using assms by (auto simp: GroupCreate_def need_def MetaCreateGroup_def GetGroup_def)
  have "console_CreateGroup (we_console ex_web) (wq_form ex_form ''name'') s = (Inr (iamGroupToConsole g), with_meta m s)"
    using g(1) by (simp add: console_CreateGroup_def from_meta_def ex_web_def ex_console_def ex_form_def)
  then have "serve_console mem_ops ex_web a (Protected WebGroupCreate) ex_form s =
      Some (redirect (PageURL ex_web (''/groups/'' @ ng_name (iamGroupToConsole g))), with_meta m s)"
    by (simp add: serve_console_def RequireAdminSession_def ex_session_valid console_handle_def web_GroupCreate_def)
  from that[OF this g(2)] show thesis .
qed


definition ex_presigned_member :: "string \<times> (string \<times> string list) list" where
  "ex_presigned_member = projr (generatePresignedURL ex_sig (\<lambda>p. p) ''svc'' ''password'' ''us'' ''b'' ''k'' ''h'' ''GET'' 60 5)"

definition ex_member_request :: api_request where
  "ex_member_request = ex_get\<lparr>q_parts := \<lparr>hp_method = ''GET'', hp_escapedPath = fst ex_presigned_member,
     hp_query = snd ex_presigned_member, hp_header = [], hp_host = ''h''\<rparr>\<rparr>"

definition ex_root :: authenticator where
  "ex_root = NewAuthenticator ''rootkey'' ''rootsecret''"

definition ex_takeover :: admin_env where
  "ex_takeover = ex_admin\<lparr>ad_query := (\<lambda>_ k. if k = ''accessKey'' then ''rootkey'' else ''''),
     ad_decrypt := (\<lambda>k b. if k = ''password'' then Some b else None),
     ad_mapJson := (\<lambda>_. Some [(''secretKey'', ''mysecret''), (''status'', ''enabled'')])\<rparr>"

lemma ex_member_made:
  "generatePresignedURL ex_sig (\<lambda>p. p) ''svc'' ''password'' ''us'' ''b'' ''k'' ''h'' ''GET'' 60 5 =
     Inr (fst ex_presigned_member, snd ex_presigned_member)"
  by (simp add: ex_presigned_member_def generatePresignedURL_def Let_def)

lemma ex_member_query:
  "values_get (hp_header (q_parts ex_member_request)) h = ''''"
  "values_get (hp_query (q_parts ex_member_request)) ''X-Amz-Algorithm'' \<noteq> ''''"
  "values_get (hp_query (q_parts ex_member_request)) ''X-Amz-Credential'' = ''svc'' @ ''/'' @ credential_scope ex_sig 5 ''us''"
  by (simp_all add: ex_member_request_def values_get_def[of "[]"] ex_presigned_member_def generatePresignedURL_def
      presign_params_get Let_def algorithmID_def)

lemma ex_member_authenticated:
  "authenticate ex_api ex_root ex_member_request ex_shared = Authenticated ex_member None None"
proof -
  have "str_split (''svc'' @ ''/'' @ credential_scope ex_sig 5 ''us'') ''/'' =
      [''svc'', sl_format_time ex_sig shortDateFormat 5, ''us'', serviceName, requestType]"
    by (rule presign_credential[OF ex_sig_laws]) simp_all
  then have key: "GetAccessKeyFromPresignedURL (q_parts ex_member_request) = Inr ''svc''"
    by (simp add: GetAccessKeyFromPresignedURL_def ex_member_query)
  have "VerifyPresignedSignature (ex_sig\<lparr>gl_now := 1\<rparr>) (q_parts ex_member_request) ''password'' =
      (if whole_second 5 + 60 * 1000000000 < 1 then Inl ErrPresignedURLExpired
       else Inr (whole_second 5 + 60 * 1000000000))"
    by (rule verify_presigned[OF ex_sig_laws _ _ ex_member_made]) (simp_all add: ex_member_request_def)
  then have v: "VerifyPresignedSignature ex_sig (q_parts ex_member_request) ''password'' = Inr 60000000000"
    by (simp add: whole_second_def ex_sig_def)
  have "GetUserByAccessKey ex_crypt ex_members ''svc'' = Inr ex_member"
    using ex_member_found by (auto simp: UserGetByAccessKey_def split: option.splits sum.splits)
  moreover have "withSAContext ex_crypt ex_members ex_root ''svc'' = None"
    by (simp add: withSAContext_def GetServiceAccount_def ex_members_rest)
  ultimately show ?thesis using key v
    by (simp add: authenticate_def ex_api_def AuthMiddleware_def handleHeaderAuth_def handlePresignedAuth_def
        AuthenticatePresignedRequest_def ex_member_query GetUserForAccessKey_def ex_root_def NewAuthenticator_def
        user_status_is_active_def UserStatusActive_def ex_shared_def)
      (simp add: ex_member_def)
qed

theorem console_takeover_witness:
  "\<exists>s'. serve_admin ex_api ex_root ex_takeover AdminAddUser ex_member_request ex_shared = Some (Inr (admin_status 200), s') \<and>
     AuthenticateAdmin ex_crypt (sv_meta s') ex_root 9 ''rootkey'' ''mysecret''"
proof -
  have fresh: "admin_fresh ex_crypt ex_takeover (sv_meta ex_shared)"
    using ex_admin_fresh by (simp add: admin_fresh_def ex_takeover_def)
  have "iam_ok ex_crypt (sv_meta ex_shared)" using ex_members_ok by (simp add: ex_shared_def)
  moreover have "\<not> needsDecoding ex_member_request" by code_simp
  moreover have "decryptAndUnmarshal ex_takeover (u_secretKey ex_member) (q_body ex_member_request) (ad_mapJson ex_takeover) =
      Some [(''secretKey'', ''mysecret''), (''status'', ''enabled'')]" by code_simp
  moreover have "ValidateAccessKey ''rootkey'' = None" "ValidateSecretKey ''mysecret'' = None" by code_simp+
  moreover have "map_of (ms_byAccessKey (sv_meta ex_shared)) ''rootkey'' = None"
    by (simp add: ex_shared_def ex_member_created)
  ultimately show ?thesis
    using console_takeover[OF ex_member_authenticated ex_shared_engine _ ex_crypt_ok fresh]
    by (simp add: ex_root_def NewAuthenticator_def ex_takeover_def ex_admin_def uuid_nil_def ex_member_request_def ex_get_def)
qed

definition ex_bucket :: bucket_metadata where
  "ex_bucket = \<lparr>bm_version = ''1'', bm_name = ''photos'', bm_owner = None, bm_created = 1, bm_bucketPolicy = None,
     bm_policyConfigUpdatedAt = 0, bm_extended = no_extended_metadata\<rparr>"

definition ex_owned :: "mem s3_service" where
  "ex_owned = with_meta (ex_members\<lparr>ms_buckets := [(''photos'', ex_bucket)]\<rparr>) ex_service"

definition ex_dirio :: dirio_env where
  "ex_dirio = \<lparr>de_console = ex_console, de_lib = ex_lib, de_unmarshal = ex_unmarshal, de_ownerJson = (\<lambda>_. Some ''svc''),
     de_simulateJson = (\<lambda>_. None)\<rparr>"

theorem owners_move_by_transfer_witness:
  "\<exists>resp s'. serve_dirio mem_ops ex_api ex_authenticator ex_dirio (DirioTransferBucketOwner ''photos'') ex_get ex_owned =
       Some (resp, s') \<and>
     map_option bm_owner (map_of (ms_buckets (sv_meta s')) ''photos'') = Some (Some 3)"
proof -
  let ?m = "ex_members\<lparr>ms_buckets := [(''photos'', ex_bucket)]\<rparr>"
  have u: "UserGetByAccessKey ex_crypt ?m ''svc'' = Inr ex_member"
  proof -
    have "GetUserByAccessKey ex_crypt ?m = GetUserByAccessKey ex_crypt ex_members"
      by (simp add: fun_eq_iff GetUserByAccessKey_def GetUser_def split: option.split)
    with ex_member_found show ?thesis by (simp only: UserGetByAccessKey_def)
  qed
  obtain m where m: "SetBucketOwner ''photos'' (Some 3) ?m = (None, m)"
    "map_of (ms_buckets m) ''photos'' = Some (ex_bucket\<lparr>bm_owner := Some 3\<rparr>)"
    by (simp add: SetBucketOwner_def GetBucketMetadata_def saveBucketMetadata_def)
  have t: "console_TransferBucketOwnership ex_console ''photos'' ''svc'' ex_owned = (Inr (), with_meta m ex_owned)"
    using u m(1) by (simp add: console_TransferBucketOwnership_def with_user_def ex_console_def ex_owned_def
        S3SetBucketOwner_def from_s3_unit_def ex_member_def)
  have key: "dirio_isAdmin (Some (root_keys ex_authenticator)) (callerAccessKey ex_admin_context)"
    by (simp add: dirio_isAdmin_def root_keys_def callerAccessKey_def RootUser_def root_user_def)
  obtain resp where r: "serve_dirio mem_ops ex_api ex_authenticator ex_dirio (DirioTransferBucketOwner ''photos'') ex_get ex_owned =
      Some (resp, with_meta m ex_owned)"
    using t key by (simp add: serve_dirio_def Let_def ex_authenticated dirio_handle_def HandleTransferBucketOwner_def ex_dirio_def)
  have "ms_buckets (sv_meta (with_meta m ex_owned)) \<noteq> ms_buckets (sv_meta ex_owned)"
  proof
    assume "ms_buckets (sv_meta (with_meta m ex_owned)) = ms_buckets (sv_meta ex_owned)"
    then have "map_of (ms_buckets m) ''photos'' = Some ex_bucket" by (simp add: ex_owned_def)
    with m(2) show False by (simp add: ex_bucket_def)
  qed
  from owners_move_by_transfer[OF r this] obtain k w where
    w: "UserGetByAccessKey (co_crypt (de_console ex_dirio)) (sv_meta ex_owned) k = Inr w" "de_ownerJson ex_dirio (fst (q_body ex_get)) = Some k"
    "map_option bm_owner (map_of (ms_buckets (sv_meta (with_meta m ex_owned))) ''photos'') = Some (Some (u_uuid w))"
    by auto
  with u have "u_uuid w = 3" by (simp add: ex_dirio_def ex_console_def ex_owned_def ex_member_def)
  with r w(3) show ?thesis by auto
qed

end
