(* ===== verification/RequestProps.thy ===== *)
theory RequestProps
  imports SystemProps ConsoleProps
begin

section \<open>Requests of S3 clients\<close>

abbreviation s3_steps :: "('f) fs_ops \<Rightarrow> api_env \<Rightarrow> ('f) s3_service \<Rightarrow> ('f) s3_service \<Rightarrow> bool" where
  "s3_steps F E \<equiv> (s3_step F (ae_md5 E) (ae_unicode E))\<^sup>*\<^sup>*"

lemma s3_one: "s3_step F (ae_md5 E) (ae_unicode E) s s' \<Longrightarrow> s3_steps F E s s'"
  by (rule r_into_rtranclp)

lemma owner_lookup_step: "GetObjectOwnerUUID F b k s = (r, s') \<Longrightarrow> s3_step F md5 U s s'"
  by (rule step_object_owner[where C = ex_crypt and b = b and k = k and roo = "fst (GetObjectOwner F ex_crypt b k s)"])
    (auto simp: GetObjectOwner_def split: sum.splits)

lemma filter_objects_steps:
  "filter_objects F b ev obs s = Some (r, s') \<Longrightarrow> (s3_step F md5 U)\<^sup>*\<^sup>* s s'"
proof (induction obs arbitrary: s r)
  case (Cons ob obs)
  obtain x s1 where o: "GetObjectOwnerUUID F b (so_key ob) s = (x, s1)" by fastforce
  with Cons.prems obtain r1 where "filter_objects F b ev obs s1 = Some (r1, s')"
    by (cases x) (auto split: option.splits Option.bind_splits)
  with owner_lookup_step[OF o] Cons.IH show ?case by (meson converse_rtranclp_into_rtranclp)
qed simp

lemma request_filter_steps:
  "request_filterObjects F L unm keys rq b obs s = Some (r, s') \<Longrightarrow> (s3_step F md5 U)\<^sup>*\<^sup>* s s'"
  by (auto simp: request_filterObjects_def FilterObjects_def split: if_splits intro: filter_objects_steps)

named_theorems handler_steps \<open>requests of S3 clients as steps of the service\<close>

lemma listing_steps [handler_steps]:
  "handle_ListObjects F E q lq cx b s = Some (r, s') \<Longrightarrow> s3_steps F E s s'"
  "handle_ListObjectsV2 F E q lq cx b s = Some (r, s') \<Longrightarrow> s3_steps F E s s'"
  by (auto simp: handle_ListObjects_def handle_ListObjectsV2_def Let_def split: sum.splits Option.bind_splits
      intro: request_filter_steps)

lemma bucket_handler_steps [handler_steps]:
  "handle_CreateBucket F E c q cx b s = (r, s') \<Longrightarrow> s3_steps F E s s'"
  "handle_DeleteBucket F b s = (r, s') \<Longrightarrow> s3_steps F E s s'"
  "handle_DeleteObjects F E q b s = (r, s') \<Longrightarrow> s3_steps F E s s'"
  "handle_PutBucketPolicy F E c q b s = (r, s') \<Longrightarrow> s3_steps F E s s'"
  "handle_DeleteBucketPolicy F b s = (r, s') \<Longrightarrow> s3_steps F E s s'"
  by (auto simp: handle_CreateBucket_def handle_DeleteBucket_def handle_DeleteObjects_def handle_PutBucketPolicy_def
      handle_DeleteBucketPolicy_def split: prod.splits sum.splits option.splits if_splits
      intro: s3_one s3_step.intros)

lemma object_handler_steps [handler_steps]:
  "handle_GetObject F E c q b k s = (r, s') \<Longrightarrow> s3_steps F E s s'"
  "handle_PutObject F E c q cx b k s = (r, s') \<Longrightarrow> s3_steps F E s s'"
  "handle_HeadObject F E b k s = (r, s') \<Longrightarrow> s3_steps F E s s'"
  "handle_DeleteObject F b k s = (r, s') \<Longrightarrow> s3_steps F E s s'"
  "handle_PutObjectTagging F E q b k s = (r, s') \<Longrightarrow> s3_steps F E s s'"
  "handle_GetObjectTagging F E b k s = (r, s') \<Longrightarrow> s3_steps F E s s'"
  by (auto simp: handle_GetObject_def handle_PutObject_def handle_HeadObject_def handle_DeleteObject_def
      handle_PutObjectTagging_def handle_GetObjectTagging_def Let_def
      split: prod.splits sum.splits option.splits if_splits intro: s3_one s3_step.intros)

lemma handle_PostObject_steps [handler_steps]: "handle_PostObject F E c q cx b s = (r, s') \<Longrightarrow> s3_steps F E s s'"
  by (auto simp: handle_PostObject_def Let_def split: prod.splits sum.splits option.splits if_splits
      intro: s3_one s3_step.intros)

lemma handle_CopyObject_steps [handler_steps]: "handle_CopyObject F E c q cx b k s = (r, s') \<Longrightarrow> s3_steps F E s s'"
  by (auto simp: handle_CopyObject_def split: prod.splits sum.splits option.splits if_splits
      intro: s3_one step_copy rtranclp.rtrancl_into_rtrancl[OF s3_one[OF step_copy] step_get])

lemma upload_handler_steps [handler_steps]:
  "handle_CreateMultipartUpload F E c q b k s = (r, s') \<Longrightarrow> s3_steps F E s s'"
  "handle_UploadPart F E c q b s = (r, s') \<Longrightarrow> s3_steps F E s s'"
  "handle_CompleteMultipartUpload F E c q cx b k s = (r, s') \<Longrightarrow> s3_steps F E s s'"
  "handle_AbortMultipartUpload F E q b s = (r, s') \<Longrightarrow> s3_steps F E s s'"
  "handle_ListParts F E q b k s = (r, s') \<Longrightarrow> s3_steps F E s s'"
  by (auto simp: handle_CreateMultipartUpload_def handle_UploadPart_def handle_CompleteMultipartUpload_def
      handle_AbortMultipartUpload_def handle_ListParts_def needs_upload_id_def on_uploads_def Let_def
      split: prod.splits sum.splits option.splits if_splits
      intro: s3_one step_initiate step_part step_complete step_abort step_list_parts)

lemma run_bucket_handler_steps: "run_bucket_handler F E c lq oper q cx b s = Some (r, s') \<Longrightarrow> s3_steps F E s s'"
  by (cases oper) (auto simp: run_bucket_handler_def intro: handler_steps)

lemma run_object_handler_steps: "run_object_handler F E c oper q cx b k s = (r, s') \<Longrightarrow> s3_steps F E s s'"
  by (cases oper) (auto simp: run_object_handler_def intro: handler_steps)

lemma run_handler_steps: "run_handler F E c lq rt q cx b k s = Some (r, s') \<Longrightarrow> s3_steps F E s s'"
  by (auto simp: run_handler_def Let_def object_wrapper_def ValidateS3KeyMiddleware_def
      ValidateS3BucketNameMiddleware_def split: if_splits option.splits
      intro: run_bucket_handler_steps run_object_handler_steps)

lemma serve_steps:
  assumes "serve F E a c lq rt q b k s = Some (r, s')"
  shows "s3_steps F E s s'"
proof (cases "\<exists>q cx. run_handler F (E\<lparr>ae_keys := root_keys a\<rparr>) c lq rt q cx b k s = Some (r, s')")
  case True
  with run_handler_steps[where E = "E\<lparr>ae_keys := root_keys a\<rparr>"] show ?thesis by fastforce
next
  case False
  with assms have "s' = s"
    by (auto simp: serve_def serve_authorized_def split: auth_outcome.splits option.splits authz_outcome.splits
        if_splits Option.bind_splits)
  then show ?thesis by simp
qed

section \<open>Requests to the console and to the API of DirIO\<close>

text \<open>A request has a nonce and a UUID of its own.\<close>

definition console_fresh :: "crypt_env \<Rightarrow> console_env \<Rightarrow> meta_store \<Rightarrow> bool" where
  "console_fresh C N st \<longleftrightarrow>
     (\<exists>n. co_crypt N = with_nonce n C \<and> length n = 12) \<and> map_of (ms_users st) (co_fresh N) = None"

abbreviation sys_steps ::
  "('f) fs_ops \<Rightarrow> (string \<Rightarrow> string) \<Rightarrow> unicode_tables \<Rightarrow> crypt_env \<Rightarrow> ('f) s3_service \<Rightarrow> ('f) s3_service \<Rightarrow> bool" where
  "sys_steps F md5 U C \<equiv> (system_step F md5 U C)\<^sup>*\<^sup>*"

lemma sys_s3: "s3_step F md5 U s s' \<Longrightarrow> sys_steps F md5 U C s s'"
  by (rule r_into_rtranclp) (rule s3_side)

lemma sys_service: "service_step C (sv_meta s) m \<Longrightarrow> sys_steps F md5 U C s (with_meta m s)"
  by (rule r_into_rtranclp) (rule service_side)

lemma from_meta_steps:
  assumes "from_meta act conv s = (r, s')" "\<And>x m. act (sv_meta s) = (x, m) \<Longrightarrow> service_step C (sv_meta s) m"
  shows "sys_steps F md5 U C s s'"
  using assms by (auto simp: from_meta_def split: prod.splits sum.splits intro: sys_service)

lemma from_meta_unit_steps:
  assumes "from_meta_unit act s = (r, s')" "\<And>x m. act (sv_meta s) = (x, m) \<Longrightarrow> service_step C (sv_meta s) m"
  shows "sys_steps F md5 U C s s'"
  using assms by (auto simp: from_meta_unit_def split: prod.splits option.splits intro: sys_service)

lemma from_s3_steps: "from_s3 f x = (r, s') \<Longrightarrow> (\<And>y. x = (y, s') \<Longrightarrow> sys_steps F md5 U C s s') \<Longrightarrow> sys_steps F md5 U C s s'"
  by (auto simp: from_s3_def split: prod.splits)

lemma from_s3_unit_steps:
  "from_s3_unit x = (r, s') \<Longrightarrow> (\<And>y. x = (y, s') \<Longrightarrow> sys_steps F md5 U C s s') \<Longrightarrow> sys_steps F md5 U C s s'"
  by (auto simp: from_s3_unit_def split: prod.splits)

named_theorems console_steps \<open>operations of the console as steps of the system\<close>

lemma console_user_steps [console_steps]:
  assumes "console_fresh C N (sv_meta s)"
  shows "console_CreateUser N creq s = (r1, s') \<Longrightarrow> sys_steps F md5 U C s s'"
    and "console_UpdateUser N i ureq s = (r1, s') \<Longrightarrow> sys_steps F md5 U C s s'"
    and "console_DeleteUser N i s = (r2, s') \<Longrightarrow> sys_steps F md5 U C s s'"
    and "console_SetUserStatus N i on s = (r2, s') \<Longrightarrow> sys_steps F md5 U C s s'"
  using assms
  by (auto simp: console_CreateUser_def console_UpdateUser_def console_DeleteUser_def console_SetUserStatus_def
      console_fresh_def with_uuid_def split: sum.splits option.splits prod.splits
      elim!: from_meta_steps from_meta_unit_steps
      intro: service_step.user_create service_step.user_update service_step.user_delete)

lemma console_group_steps [console_steps]:
  assumes "console_fresh C N (sv_meta s)"
  shows "console_CreateGroup N g s = (r1, s') \<Longrightarrow> sys_steps F md5 U C s s'"
    and "console_DeleteGroup g s = (r2, s') \<Longrightarrow> sys_steps F md5 U C s s'"
    and "console_AddGroupMember N g k s = (r2, s') \<Longrightarrow> sys_steps F md5 U C s s'"
    and "console_RemoveGroupMember N g i s = (r2, s') \<Longrightarrow> sys_steps F md5 U C s s'"
    and "console_AttachGroupPolicy N g p s = (r2, s') \<Longrightarrow> sys_steps F md5 U C s s'"
    and "console_DetachGroupPolicy N g p s = (r2, s') \<Longrightarrow> sys_steps F md5 U C s s'"
    and "console_SetGroupStatus N g on s = (r2, s') \<Longrightarrow> sys_steps F md5 U C s s'"
  using assms
  by (auto simp: console_CreateGroup_def console_DeleteGroup_def console_AddGroupMember_def
      console_RemoveGroupMember_def console_AttachGroupPolicy_def console_DetachGroupPolicy_def
      console_SetGroupStatus_def console_fresh_def with_uuid_def with_user_def
      split: sum.splits option.splits prod.splits elim!: from_meta_steps from_meta_unit_steps
      intro: service_step.group_create service_step.group_delete service_step.add_member service_step.remove_member
        service_step.group_attach service_step.group_detach service_step.group_status)

lemma console_account_steps [console_steps]:
  assumes "console_fresh C N (sv_meta s)"
  shows "console_CreateServiceAccount N areq s = (r1, s') \<Longrightarrow> sys_steps F md5 U C s s'"
    and "console_DeleteServiceAccount N i s = (r2, s') \<Longrightarrow> sys_steps F md5 U C s s'"
    and "console_UpdateServiceAccount N i ureq s = (r1, s') \<Longrightarrow> sys_steps F md5 U C s s'"
    and "console_SetServiceAccountStatus N i on s = (r2, s') \<Longrightarrow> sys_steps F md5 U C s s'"
  using assms
  by (auto simp: console_CreateServiceAccount_def console_DeleteServiceAccount_def console_UpdateServiceAccount_def
      console_SetServiceAccountStatus_def console_fresh_def with_account_def Let_def
      split: sum.splits option.splits prod.splits if_splits elim!: from_meta_unit_steps
      intro: sys_service service_step.sa_create service_step.sa_update service_step.sa_status service_step.sa_delete)

lemma console_bucket_steps [console_steps]:
  "console_CreateBucket F U N nm k s = (r1, s') \<Longrightarrow> sys_steps F md5 U C s s'"
  "console_DeleteBucket F b s = (r2, s') \<Longrightarrow> sys_steps F md5 U C s s'"
  "console_SetBucketPolicy F N b j s = (r2, s') \<Longrightarrow> sys_steps F md5 U C s s'"
  "console_TransferBucketOwnership N b k s = (r2, s') \<Longrightarrow> sys_steps F md5 U C s s'"
  "console_GetObjectOwner F N b key s = (r3, s') \<Longrightarrow> sys_steps F md5 U C s s'"
  by (auto simp: console_CreateBucket_def console_DeleteBucket_def console_SetBucketPolicy_def
      console_TransferBucketOwnership_def console_GetObjectOwner_def with_user_def Let_def
      split: sum.splits option.splits if_splits elim!: from_s3_steps from_s3_unit_steps
      intro: sys_s3 s3_step.intros)

lemma console_SimulateRequest_steps [console_steps]:
  "console_SimulateRequest F L unm N rq s = Some (r, s') \<Longrightarrow> sys_steps F md5 U C s s'"
  by (auto simp: console_SimulateRequest_def Simulate_def Let_def
      split: sum.splits prod.splits if_splits Option.bind_splits intro: sys_s3 owner_lookup_step)

lemma web_changes:
  assumes "console_fresh C (we_console W) (sv_meta s)" "console_handle F W oper q s = Some (resp, s')"
  shows "sys_steps F md5 (we_unicode W) C s s'"
proof -
  note keep = console_steps(1-15)[OF assms(1)] console_steps(16-)
  show ?thesis
    using assms(2)
    by (cases oper)
      (auto simp: console_handle_def web_UserCreate_def web_UserDelete_def web_UserSetStatus_def
        web_UserUpdateSecret_def web_UserRotateSecret_def web_BucketCreate_def web_BucketDelete_def
        web_BucketPolicySet_def web_BucketTransferOwnership_def changed_bucket_def web_GroupCreate_def
        web_GroupDelete_def changed_group_def web_GroupAddMember_def web_GroupRemoveMember_def
        web_GroupAttachPolicy_def web_GroupDetachPolicy_def web_GroupSetStatus_def web_ServiceAccountCreate_def
        web_ServiceAccountDelete_def web_ServiceAccountSetStatus_def web_ServiceAccountUpdateSecret_def
        web_Simulate_def Let_def
        split: sum.splits prod.splits if_splits Option.bind_splits intro: keep)
qed

lemma serve_console_steps:
  assumes "console_fresh C (we_console W) (sv_meta s)" "serve_console F W a ep q s = Some (resp, s')"
  shows "sys_steps F md5 (we_unicode W) C s s'"
  using assms(2) web_changes[OF assms(1)]
  by (cases ep) (auto simp: serve_console_def RequireAdminSession_def split: if_splits)

lemma serve_dirio_steps:
  assumes "serve_dirio F E a D oper q s = Some (resp, s')"
  shows "sys_steps F md5 U C s s'"
proof -
  have handle: "sys_steps F md5 U C s s'" if "dirio_handle F D keys oper cx body s = Some (r, s')" for keys cx body r
    using that
    by (cases oper)
      (auto simp: dirio_handle_def HandleTransferBucketOwner_def HandleGetObjectOwner_def HandleSimulate_def
        split: sum.splits prod.splits if_splits option.splits Option.bind_splits intro: console_steps)
  show ?thesis using assms
    by (auto simp: serve_dirio_def Let_def split: auth_outcome.splits intro: handle)
qed

lemma service_steps_system:
  assumes "(service_step C)\<^sup>*\<^sup>* (sv_meta s) m"
  shows "sys_steps F md5 U C s (with_meta m s)"
  using assms
proof induction
  case (step m1 m2)
  from step(2) have "service_step C (sv_meta (with_meta m1 s)) m2" by simp
  from service_side[OF this] step(3) show ?case by (simp add: rtranclp.rtrancl_into_rtrancl)
qed simp

lemma serve_admin_steps:
  assumes "serve_admin E a A oper q s = Some (resp, s')" "admin_fresh C A (sv_meta s)"
  shows "sys_steps F md5 U C s s'"
proof (cases "s' = s")
  case False
  with assms(1) obtain q' r m where "admin_handle A oper (cx_user (context_of (authenticate E a q s))) q' (sv_meta s) = (r, m)"
    "s' = with_meta m s"
    by (auto simp: serve_admin_def Let_def split: auth_outcome.splits authz_outcome.splits Option.bind_splits prod.splits)
  with service_steps_system admin_handle_steps[OF assms(2)] show ?thesis by blast
qed simp

lemma s3_steps_system:
  assumes "(s3_step F md5 U)\<^sup>*\<^sup>* s s'"
  shows "sys_steps F md5 U C s s'"
  using assms by induction (auto intro: s3_side rtranclp.rtrancl_into_rtrancl)

section \<open>The server as its clients see it\<close>

text \<open>One request to one of the four interfaces, the loss of an entry of the cache of object metadata, or a
  restart on the same files.\<close>

inductive server_event ::
  "('f) fs_ops \<Rightarrow> (string \<Rightarrow> string) \<Rightarrow> unicode_tables \<Rightarrow> crypt_env \<Rightarrow> ('f) s3_service \<Rightarrow> ('f) s3_service \<Rightarrow> bool"
  for F md5 U C where
  s3_request: "ae_md5 E = md5 \<Longrightarrow> ae_unicode E = U \<Longrightarrow> serve F E a c lq rt q b k s = Some (resp, s') \<Longrightarrow>
    server_event F md5 U C s s'"
| admin_request: "admin_fresh C A (sv_meta s) \<Longrightarrow> serve_admin E a A oper q s = Some (aresp, s') \<Longrightarrow>
    server_event F md5 U C s s'"
| dirio_request: "serve_dirio F E a D doper q s = Some (dresp, s') \<Longrightarrow> server_event F md5 U C s s'"
| console_request: "we_unicode W = U \<Longrightarrow> console_fresh C (we_console W) (sv_meta s) \<Longrightarrow>
    serve_console F W a ep cq s = Some (cresp, s') \<Longrightarrow> server_event F md5 U C s s'"
| cache_eviction: "server_event F md5 U C s (with_meta (evict_object_metadata ck (sv_meta s)) s)"
| server_restart: "server_event F md5 U C s (start_service F (sg_fs (sv_storage s)) (open_store C now (sv_meta s)) rv)"

lemma event_steps: "server_event F md5 U C s s' \<Longrightarrow> sys_steps F md5 U C s s'"
proof (induction rule: server_event.induct)
  case (s3_request E a c lq rt q b k s resp s')
  then show ?case using s3_steps_system[OF serve_steps] by blast
next
  case (console_request W s a ep cq cresp s')
  then show ?case using serve_console_steps by blast
qed (blast intro: serve_admin_steps serve_dirio_steps sys_s3 step_evict restart)+



section \<open>Witnesses\<close>

lemma ex_group_event:
  assumes "map_of (ms_groups (sv_meta s)) ''ops'' = None" "map_of (ms_users (sv_meta s)) 8 = None"
  obtains m where "server_event mem_ops md5 ex_unicode ex_crypt s (with_meta m s)" "map_of (ms_groups m) ''ops'' \<noteq> None"
proof -
  obtain resp m where r: "serve_console mem_ops ex_web ex_authenticator (Protected WebGroupCreate) ex_form s =
      Some (resp, with_meta m s)" "map_of (ms_groups m) ''ops'' \<noteq> None" by (rule ex_group_created[OF assms(1)])
  have "we_unicode ex_web = ex_unicode" "console_fresh ex_crypt (we_console ex_web) (sv_meta s)"
    using assms(2) by (auto simp: ex_web_def console_fresh_def ex_console_def ex_nonce_def intro!: exI[of _ ex_nonce])
  from that[OF console_request[OF this r(1)] r(2)] show thesis .
qed



end
