(* ===== verification/ConsoleObjects.thy ===== *)
theory ConsoleObjects
  imports ConsoleWeb
begin

text \<open>
  The handlers of the object browser, \<^verbatim>\<open>console/handlers/objects.go\<close>. No route of \<^verbatim>\<open>console/console.go\<close> leads to them,
  so they are not part of \<open>serve_console\<close>.
\<close>

section \<open>Browsing\<close>

text \<open>\<open>ParentPrefix\<close>: the key up to its last slash.\<close>

definition ParentPrefix :: "string \<Rightarrow> string" where
  "ParentPrefix key = rev (dropWhile (\<lambda>c. c \<noteq> CHR ''/'') (rev key))"

definition listed_objects ::
  "('f) fs_ops \<Rightarrow> web_env \<Rightarrow> string \<Rightarrow> string \<Rightarrow> ('f) s3_service \<Rightarrow> console_error + console_object list" where
  "listed_objects F W bucket pre s = console_ListObjects F (we_console W) bucket pre ''/'' s"

definition web_BucketBrowser :: "('f) fs_ops \<Rightarrow> web_env \<Rightarrow> console_request \<Rightarrow> ('f) s3_service \<Rightarrow> console_response" where
  "web_BucketBrowser F W q s =
     (let bucket = wq_param q ''bucket''; pre = wq_query q ''prefix''
      in case listed_objects F W bucket pre s of
           Inl e \<Rightarrow> http_error (we_errorText W e) 500
         | Inr objects \<Rightarrow>
             show_page (if isHTMX q then ObjectsTableView bucket pre objects else ObjectsView bucket pre objects))"

section \<open>One object\<close>

definition right_or_none :: "'e + 'a \<Rightarrow> 'a option" where
  "right_or_none r = (case r of Inl _ \<Rightarrow> None | Inr x \<Rightarrow> Some x)"

text \<open>The page of an object; \<open>tags\<close> are given after a change of the tags, otherwise they are read.\<close>

definition object_page ::
  "('f) fs_ops \<Rightarrow> (string \<Rightarrow> string) \<Rightarrow> web_env \<Rightarrow> string \<Rightarrow> string \<Rightarrow> console_object_metadata option
     \<Rightarrow> (string \<times> string) list option \<Rightarrow> ('f) s3_service \<Rightarrow> console_response \<times> ('f) s3_service" where
  "object_page F md5 W bucket key meta tags s =
     (let (tags, s) =
            (case tags of
               Some t \<Rightarrow> (t, s)
             | None \<Rightarrow>
                 (case console_GetObjectTags F md5 (we_unicode W) bucket key s of
                    (Inl _, s) \<Rightarrow> ([], s) | (Inr t, s) \<Rightarrow> (t, s)));
          (owner, s) = console_GetObjectOwner F (we_console W) bucket key s
      in (show_page (ObjectView \<lparr>od_bucket = bucket, od_meta = meta, od_tags = tags, od_owner = right_or_none owner\<rparr>), s))"

definition web_ObjectDetail ::
  "('f) fs_ops \<Rightarrow> (string \<Rightarrow> string) \<Rightarrow> web_env \<Rightarrow> console_request \<Rightarrow> ('f) s3_service
     \<Rightarrow> console_response \<times> ('f) s3_service" where
  "web_ObjectDetail F md5 W q s =
     (let bucket = wq_param q ''bucket''; key = wq_param q ''key''
      in case console_GetObjectMetadata F md5 bucket key s of
           (Inl e, s) \<Rightarrow> (http_error (we_errorText W e) 404, s)
         | (Inr meta, s) \<Rightarrow> object_page F md5 W bucket key (Some meta) None s)"

text \<open>After an error of the listing the table is empty.\<close>

definition web_ObjectDelete ::
  "('f) fs_ops \<Rightarrow> web_env \<Rightarrow> console_request \<Rightarrow> ('f) s3_service \<Rightarrow> console_response \<times> ('f) s3_service" where
  "web_ObjectDelete F W q s =
     (let bucket = wq_param q ''bucket''; key = wq_param q ''key'';
          pre = (if wq_query q ''prefix'' = '''' then ParentPrefix key else wq_query q ''prefix'');
          (r, s) = console_DeleteObject F bucket key s
      in (outcome_toast W ''Failed to delete object: '' ''Object deleted'' r
            (if \<not> isHTMX q then redirect (PageURL W (''/buckets/'' @ bucket @ ''/objects?prefix='' @ pre))
             else show_page (ObjectsTableView bucket pre
               (case listed_objects F W bucket pre s of Inl _ \<Rightarrow> [] | Inr objects \<Rightarrow> objects))), s))"

definition web_ObjectCopy ::
  "('f) fs_ops \<Rightarrow> (string \<Rightarrow> string) \<Rightarrow> web_env \<Rightarrow> console_request \<Rightarrow> ('f) s3_service
     \<Rightarrow> console_response \<times> ('f) s3_service" where
  "web_ObjectCopy F md5 W q s =
     (let bucket = wq_param q ''bucket''; key = wq_param q ''key'';
          dstBucket = (if wq_form q ''dst_bucket'' = '''' then bucket else wq_form q ''dst_bucket'');
          dstKey = (if wq_form q ''dst_key'' = '''' then key @ ''.copy'' else wq_form q ''dst_key'')
      in case console_CopyObject F md5 (we_unicode W) (we_console W) bucket key dstBucket dstKey s of
           (Inl e, s) \<Rightarrow>
             (let (meta, s) = console_GetObjectMetadata F md5 bucket key s;
                  (resp, s) = object_page F md5 W bucket key (right_or_none meta) None s
              in (triggerToast W (''Failed to copy object: '' @ we_errorText W e) ''error'' resp, s))
         | (Inr _, s) \<Rightarrow> (redirect (PageURL W (''/buckets/'' @ dstBucket @ ''/objects/'' @ dstKey)), s))"

text \<open>Keys without a value of the same position and empty keys are dropped; a key that comes twice keeps its last
  value. Parsing of the form is the library's.\<close>

definition form_tags :: "console_request \<Rightarrow> (string \<times> string) list" where
  "form_tags q =
     fold (\<lambda>(k, v) m. if k \<noteq> '''' then AList.update k v m else m)
       (zip (wq_formValues q ''tag_key'') (wq_formValues q ''tag_value'')) []"

definition web_ObjectSetTags ::
  "('f) fs_ops \<Rightarrow> (string \<Rightarrow> string) \<Rightarrow> web_env \<Rightarrow> console_request \<Rightarrow> ('f) s3_service
     \<Rightarrow> console_response \<times> ('f) s3_service" where
  "web_ObjectSetTags F md5 W q s =
     (let bucket = wq_param q ''bucket''; key = wq_param q ''key'';
          (r, s) = console_SetObjectTags F md5 (we_unicode W) bucket key (form_tags q) s;
          (meta, s) = console_GetObjectMetadata F md5 bucket key s;
          (resp, s) = object_page F md5 W bucket key (right_or_none meta) (Some (form_tags q)) s
      in (outcome_toast W ''Failed to save tags: '' ''Tags saved'' r resp, s))"

section \<open>Signed addresses\<close>

definition base_url :: "console_request \<Rightarrow> string" where
  "base_url q = (if wq_tls q then ''https'' else ''http'') @ ''://'' @ wq_host q"

text \<open>Fifteen minutes, or the duration of the form when it can be parsed and is positive, in nanoseconds.\<close>

definition default_expiry :: int where "default_expiry = 15 * 60 * 1000000000"

definition form_expiry :: "web_env \<Rightarrow> console_request \<Rightarrow> int" where
  "form_expiry W q =
     (if wq_form q ''expiry'' = '''' then default_expiry
      else case we_parseDuration W (wq_form q ''expiry'') of
             None \<Rightarrow> default_expiry
           | Some d \<Rightarrow> if 0 < d then d else default_expiry)"

definition web_ObjectPresignedURL ::
  "web_env \<Rightarrow> console_request \<Rightarrow> ('f) s3_service \<Rightarrow> console_response option" where
  "web_ObjectPresignedURL W q s =
     (case session_validate W q of
        None \<Rightarrow> Some (http_error ''unauthorized'' 401)
      | Some accessKey \<Rightarrow> do {
          r \<leftarrow> console_GeneratePresignedURL (we_lib W) (we_console W)
            \<lparr>nr_accessKey = accessKey, nr_bucket = wq_param q ''bucket'', nr_key = wq_param q ''key'',
             nr_expiry = form_expiry W q, nr_baseURL = base_url q, nr_method = ''GET''\<rparr> s;
          Some (case r of
             Inl e \<Rightarrow>
               (triggerToast W (''Failed to generate URL: '' @ we_errorText W e) ''error'' (show_page NoPage))
                 \<lparr>ws_status := 500\<rparr>
           | Inr url \<Rightarrow> show_page (PresignedView url)) })"

definition web_BucketUploadURL ::
  "web_env \<Rightarrow> console_request \<Rightarrow> ('f) s3_service \<Rightarrow> console_response option" where
  "web_BucketUploadURL W q s =
     (let key = wq_query q ''key''
      in if key = '''' then Some ((show_page (JsonErrorView ''key is required''))\<lparr>ws_status := 400\<rparr>)
         else case session_validate W q of
           None \<Rightarrow> Some ((show_page (JsonErrorView ''unauthorized''))\<lparr>ws_status := 401\<rparr>)
         | Some accessKey \<Rightarrow> do {
             r \<leftarrow> console_GeneratePresignedURL (we_lib W) (we_console W)
               \<lparr>nr_accessKey = accessKey, nr_bucket = wq_param q ''bucket'', nr_key = key,
                nr_expiry = default_expiry, nr_baseURL = base_url q, nr_method = ''PUT''\<rparr> s;
             Some (case r of
                Inl e \<Rightarrow> (show_page (JsonErrorView (we_errorText W e)))\<lparr>ws_status := 500\<rparr>
              | Inr url \<Rightarrow> show_page (UploadURLView url)) })"

end
