(* ===== verification/Spec2Isabelle.thy ===== *)
theory Spec2Isabelle
  imports PolicyTypes Authz MetadataProps ListingProps AuthProps ChunkedProps MemoryFs ServicesProps S3Listing RangeProps
    HttpProps RequestProps ConsoleObjects
begin

text \<open>
  \<^bold>\<open>Verification development of DirIO\<close>, an S3-compatible object store in Go that keeps each object as a file and
  its metadata as JSON files next to it. Paths below are relative to the root of the repository.

  \<^bold>\<open>The program.\<close> A request enters through \<^verbatim>\<open>internal/http/server/routes.go\<close>: the route table gives it an operation and
  an S3 action. \<open>AuthMiddleware\<close> (\<^verbatim>\<open>internal/http/auth\<close>) finds out who it is from, \<open>AuthorizationMiddleware\<close>
  (\<^verbatim>\<open>internal/policy\<close>) asks the policy engine whether the action is allowed, \<open>ChunkedEncoding\<close> decodes the body, and a
  handler (\<^verbatim>\<open>internal/http/api/s3\<close>) calls the S3 service (\<^verbatim>\<open>internal/service/s3\<close>). The service works on the storage
  (\<^verbatim>\<open>internal/persistence/storage\<close>, over a scoped file system), on the metadata manager
  (\<^verbatim>\<open>internal/persistence/metadata\<close>, with its bolt indexes and its cache) and on the policy engine, whose cache of
  bucket policies it keeps up to date. Users, groups, policies and service accounts have services of their own
  (\<^verbatim>\<open>internal/service\<close>) over the same manager. The credentials in the store are encrypted (\<^verbatim>\<open>internal/crypto\<close>).

  \<^bold>\<open>Data.\<close> A Go string is a \<^typ>\<open>string\<close> of bytes; a map is an association list, whose order is the (arbitrary) order in
  which Go walks it; \<open>int64\<close> values are integers with their bounds checked where they are parsed; UUIDs are 128-bit
  words; a time is a number of nanoseconds. Errors are values of a sum or an option. An operation that may panic
  returns an option, and \<open>None\<close> is the panic. State is passed explicitly and returned changed: \<open>meta_store\<close> for the
  metadata manager, \<open>storage\<close> for the files with the manager, \<open>s3_service\<close> for the storage with the engine.

  \<^bold>\<open>Theories and sources.\<close>
  \<^item> Prelude, Values: the functions of the Go library that the code calls (strings, runes, UTF-8, printing of values),
    the collections \<open>go_simps\<close> and \<open>no_panic\<close>.
  \<^item> Iam (\<^verbatim>\<open>sdk/iam\<close>): the records of users, groups, service accounts and policies, their validation, the built-in policies.
  \<^item> PolicyTypes, Variables, Conditions, Matcher, Engine (\<^verbatim>\<open>internal/policy\<close>): field normalisation, policy variables,
    condition operators with the translation of glob patterns to regular expressions, the evaluation of a statement,
    the cache, the staged decision of the engine, and the action mapper. PolicyProps holds their properties.
  \<^item> Authz (\<^verbatim>\<open>internal/policy/middleware.go\<close>): the authorization middleware and its properties.
  \<^item> Crypto (\<^verbatim>\<open>internal/crypto/crypto.go\<close>): the keyring, encryption, decryption, rotation.
  \<^item> Paths (\<^verbatim>\<open>internal/persistence/path/fs.go\<close>, \<^verbatim>\<open>internal/http/middleware/validatekey.go\<close>): path cleaning, scoped file
    systems, bucket names and keys.
  \<^item> Metadata, MetadataIam (\<^verbatim>\<open>internal/persistence/metadata\<close>): the manager and its indexes; MetadataProps their invariants.
  \<^item> Listing (\<^verbatim>\<open>internal/persistence/storage/list_internal.go\<close>): the walk, grouping, cutting of a listing; ListingProps.
  \<^item> FileSystem: the file system interface with the laws of its documentation; MemoryFs: a file system with these laws.
  \<^item> Storage (\<^verbatim>\<open>internal/persistence/storage/{storage,object,staging}.go\<close>): buckets and objects; StorageProps.
  \<^item> Signature, PostPolicy, Authenticator (\<^verbatim>\<open>internal/http/auth\<close>): Signature Version 4 in its three forms, POST policies,
    pre-signed URLs, the authenticator; AuthProps.
  \<^item> Chunked (\<^verbatim>\<open>internal/http/auth/chunked.go\<close>): the reader of signed chunks; ChunkedProps.
  \<^item> Validation (\<^verbatim>\<open>internal/service/{validation,errors}\<close>, \<^verbatim>\<open>internal/crypto/credentials.go\<close>), Services
    (\<^verbatim>\<open>internal/service/{user,group,policy,serviceaccount}\<close>); ServicesProps.
  \<^item> S3Service, Multipart (\<^verbatim>\<open>internal/service/s3\<close>): the operations of the service, the start-up, uploads in parts;
    S3ServiceProps, MultipartProps, S3Listing.
  \<^item> Responses (\<^verbatim>\<open>sdk/s3types/errors.go\<close>, \<^verbatim>\<open>internal/http/response\<close>, the ranges of \<^verbatim>\<open>internal/http/api/s3/object.go\<close>);
    RangeProps.
  \<^item> Observation (\<^verbatim>\<open>internal/service/observation\<close>, \<^verbatim>\<open>internal/http/api/s3/filtering.go\<close>): simulation and list filters.
  \<^item> S3Handlers (\<^verbatim>\<open>internal/http/api/s3\<close>): the handlers, \<open>handle_X\<close> for the method \<open>X\<close>; HttpProps.
  \<^item> S3Server (\<^verbatim>\<open>internal/http/server/routes.go\<close>, \<^verbatim>\<open>internal/http/middleware/chunked.go\<close>): the route table, the wrappers,
    the middlewares in their order (\<open>serve\<close>); S3ServerProps.
  \<^item> AdminApi (\<^verbatim>\<open>internal/compat/minio/http\<close>): the admin API in the protocol of MinIO, with its routes and middlewares
    (\<open>serve_admin\<close>); AdminProps.
  \<^item> Console (\<^verbatim>\<open>api/api.go\<close>, \<^verbatim>\<open>internal/console/adapter.go\<close>): the adapter between the console and the services, \<open>console_X\<close>
    for its method \<open>X\<close>; ConsoleWeb (\<^verbatim>\<open>console/auth\<close>, \<^verbatim>\<open>console/handlers\<close>, \<^verbatim>\<open>console/console.go\<close>): sessions, flash
    messages, the handlers \<open>web_X\<close> and the routes (\<open>serve_console\<close>); ConsoleObjects: the object browser, which no route
    leads to; ConsoleProps.
  \<^item> DirioApi (\<^verbatim>\<open>internal/http/api/dirio\<close>): the REST API for ownership and simulation (\<open>serve_dirio\<close>).
  \<^item> MetaFrame, SystemProps, RequestProps: what the operations leave unchanged, the operations of all services as one
    step relation (\<open>system_step\<close>), the requests to the four interfaces as another (\<open>server_event\<close>).

  A definition has the name of the function it translates; where two packages use a name, the later one has a prefix
  (\<open>S3PutObject\<close> of the service and \<open>PutObject\<close> of the storage, \<open>MetaDeleteUser\<close> and \<open>UserDelete\<close>).

  \<^bold>\<open>Interfaces.\<close> The locale \<open>policy_resolver\<close> is what the engine needs of the store of IAM policies; the metadata
  manager provides it (interpretation \<open>mr\<close>). The locale \<open>paged_listing\<close> is what a client that follows markers relies
  on; the listings of the storage provide it (\<open>listing_pages\<close>). The locale \<open>secret_box\<close> is what the stores of credentials
  need of encryption (\<open>box\<close>). The locale \<open>object_frame\<close> collects the operations of the storage through which the
  S3 service, the multipart uploads and the handlers reach the metadata, as laws on what they keep of it; its lemmas
  carry a fact about the metadata from there up to whole requests. It is interpreted for the buckets (\<open>buckets_frame\<close>)
  and for the IAM records (\<open>iam_frame\<close>). The file system is a record of operations \<open>fs_ops\<close> with the predicate
  \<open>fs_laws\<close>, because the program is handed an implementation at run time; MemoryFs shows that the laws can hold.

  \<^bold>\<open>What the lemmas show.\<close>
  \<^item> Decisions: a request is allowed only for one of five reasons; a denial of the bucket policy always wins; the staged
    evaluation equals the combined decision unless a later IAM policy denies; the engine over the metadata store always
    returns. Through the whole server: whatever changes the state, or is answered with anything but an error, was
    authenticated and permitted, except for form uploads, in which no policy has a say. Listings show exactly what
    may be read.
  \<^item> Authentication: pre-signed URLs verify until they expire, canonical requests do not depend on map order, a deleted
    user is refused, the chunked reader computes what a decoder of the whole body computes, for all buffer sizes.
  \<^item> Data: put and get, tagging, copying, bulk deletion, multipart uploads, listing and pagination are specified by the
    files that a view of the file system shows, each with what it leaves unchanged. Over HTTP the round trip covers
    headers and metadata; ranges agree with RFC 7233.
  \<^item> Metadata: users are found under unique names and keys, group membership and its index agree, cached object metadata
    agree with the files, every store that the services reach is well formed, stored bucket policies are enforced.
  \<^item> The whole server: each request to one of the four interfaces is a sequence of operations of the services, and
    after any sequence of requests, evictions and restarts the stores are well formed and the bucket policies enforced.
  \<^item> Console and administration: no page and no change without a session signed by the server, which lasts eight
    hours; buckets change their owner only by a transfer asked for by the root account (API of DirIO); what the admin
    API permits to users without any rights, up to the credentials of the administrator of the console.
  \<^item> Failures: what a failed or broken-off upload, a recreated bucket, a crafted upload ID or a reused access key lead
    to. These describe the code as it is, which here differs from what it means to do.

  \<^bold>\<open>Bounds and fuel.\<close> \<open>read_tree\<close> reads directories to the depth \<open>max_depth\<close> = 4096; a path is limited to 4096 bytes, and
  every level takes at least two of them, so nothing is cut off (the properties state the depth of the view as a
  hypothesis). \<open>read_all\<close> of the chunked reader gets one more step than the body has bytes; \<open>chunked_reader_is_decoder\<close> shows that this is
  always enough. All other loops are structural or have a measure (\<open>cleanupEmptyDirs\<close>: the length of the path, \<open>re_match\<close>,
  \<open>walkDir\<close>, \<open>pieces\<close>, \<open>str_split\<close>: the size of what is left).

  \<^bold>\<open>Parameters.\<close> Not under \<^verbatim>\<open>src/\<close> and therefore arguments of the definitions, with laws only where a property needs them:
  the file system, HMAC, SHA-256, MD5, AES-GCM, base64 of keys, JSON and XML decoding, time formats, Unicode tables, the
  random source, the URL builder, texts of library errors. Requests come with their headers in canonical form, as the HTTP
  library gives them. A body is its bytes and whether it broke off. Each step is atomic: the locks of the manager, the
  cache and the indexes are taken for a whole method, and a schedule of concurrent requests is a sequence of such steps.

  \<^bold>\<open>Not modelled.\<close>
  \<^item> How the router chooses a route (a library), listeners, TLS, shutdown, health checks, metrics.
  \<^item> The templates of the web console, with the Go code generated from them, its icons and static files. A page is the
    value that its template is applied to.
  \<^item> The import from MinIO (\<^verbatim>\<open>internal/compat/minio/import\<close>, \<^verbatim>\<open>internal/persistence/metadata/import.go\<close>): decoders of
    foreign file formats.
  \<^item> Commands, configuration, logging, telemetry, mDNS, the client SDK, mocks: environment access and glue.
  \<^item> In the modelled parts: log output, request IDs, I/O failures of the metadata files other than a missing file, the
    reading of keys from the environment, \<open>variables.Normalize\<close> (called by nothing, folds case over all of Unicode).
\<close>

end
